(* ===== verification/Prelude.thy ===== *)
theory Prelude
  imports Complex_Main
begin

text \<open>
  Shared vocabulary of the development: the result monad the fallible operations return in,
  Python strings (a HOL \<open>string\<close> is a list of characters, one per code point; the text the
  program inspects is ASCII), Python dictionaries as association lists in insertion order, and
  the JSON values the documents and bundles consist of.
\<close>

unbundle bit_operations_syntax

named_theorems result_simps \<open>the result monad\<close>
named_theorems str_simps \<open>strings: prefixes, digits, splitting\<close>
named_theorems dict_simps \<open>dictionaries as association lists\<close>

section \<open>Results: an exception is the left summand\<close>

type_synonym ('e, 'a) res = "'e + 'a"

definition bindR :: "('e, 'a) res \<Rightarrow> ('a \<Rightarrow> ('e, 'b) res) \<Rightarrow> ('e, 'b) res" where
  "bindR m f = (case m of Inl e \<Rightarrow> Inl e | Inr x \<Rightarrow> f x)"

lemma bindR_simps [simp, result_simps]:
  "bindR (Inl e) f = Inl e"
  "bindR (Inr x) f = f x"
  by (simp_all add: bindR_def)

lemma bindR_Inr_iff [result_simps]:
  "bindR m f = Inr y \<longleftrightarrow> (\<exists>x. m = Inr x \<and> f x = Inr y)"
  by (cases m) auto

lemma bindR_Inl_iff [result_simps]:
  "bindR m f = Inl e \<longleftrightarrow> m = Inl e \<or> (\<exists>x. m = Inr x \<and> f x = Inl e)"
  by (cases m) auto

lemma bindR_cong [fundef_cong]:
  "m = m' \<Longrightarrow> (\<And>x. m' = Inr x \<Longrightarrow> f x = f' x) \<Longrightarrow> bindR m f = bindR m' f'"
  by (cases m') auto

definition mapR :: "('a \<Rightarrow> 'b) \<Rightarrow> ('e, 'a) res \<Rightarrow> ('e, 'b) res" where
  "mapR f m = (case m of Inl e \<Rightarrow> Inl e | Inr x \<Rightarrow> Inr (f x))"

lemma mapR_simps [simp, result_simps]:
  "mapR f (Inl e) = Inl e"
  "mapR f (Inr x) = Inr (f x)"
  by (simp_all add: mapR_def)

lemma mapR_Inr_iff [result_simps]: "mapR f m = Inr y \<longleftrightarrow> (\<exists>x. m = Inr x \<and> y = f x)"
  by (cases m) auto

definition mapErr :: "('e \<Rightarrow> 'd) \<Rightarrow> ('e, 'a) res \<Rightarrow> ('d, 'a) res" where
  "mapErr f m = (case m of Inl e \<Rightarrow> Inl (f e) | Inr x \<Rightarrow> Inr x)"

lemma mapErr_simps [simp, result_simps]:
  "mapErr f (Inl e) = Inl (f e)"
  "mapErr f (Inr x) = Inr x"
  by (simp_all add: mapErr_def)

lemma mapErr_Inr_iff [result_simps]: "mapErr f m = Inr y \<longleftrightarrow> m = Inr y"
  by (cases m) auto

definition isOk :: "('e, 'a) res \<Rightarrow> bool" where
  "isOk m = (case m of Inl _ \<Rightarrow> False | Inr _ \<Rightarrow> True)"

lemma isOk_simps [simp, result_simps]: "\<not> isOk (Inl e)" "isOk (Inr x)"
  by (simp_all add: isOk_def)

lemma isOk_iff [result_simps]: "isOk m \<longleftrightarrow> (\<exists>x. m = Inr x)"
  by (cases m) auto

text \<open>A list comprehension whose element expression may raise: the first failure ends it.\<close>

fun mapM :: "('a \<Rightarrow> ('e, 'b) res) \<Rightarrow> 'a list \<Rightarrow> ('e, 'b list) res" where
  "mapM f [] = Inr []"
| "mapM f (x # xs) = bindR (f x) (\<lambda>y. bindR (mapM f xs) (\<lambda>ys. Inr (y # ys)))"

lemma mapM_cong [fundef_cong]:
  "xs = ys \<Longrightarrow> (\<And>x. x \<in> set ys \<Longrightarrow> f x = g x) \<Longrightarrow> mapM f xs = mapM g ys"
proof (induction ys arbitrary: xs)
  case Nil
  then show ?case by simp
next
  case (Cons y ys)
  then have "mapM f ys = mapM g ys" by simp
  with Cons.prems show ?case by simp
qed

lemma mapM_all_Inr: "(\<And>x. x \<in> set xs \<Longrightarrow> f x = Inr (g x)) \<Longrightarrow> mapM f xs = Inr (map g xs)"
  by (induction xs) auto

lemma mapM_Inr_length: "mapM f xs = Inr ys \<Longrightarrow> length ys = length xs"
  by (induction xs arbitrary: ys) (auto simp: bindR_Inr_iff)

lemma mapM_Inr_nth:
  "mapM f xs = Inr ys \<Longrightarrow> i < length xs \<Longrightarrow> f (xs ! i) = Inr (ys ! i)"
proof (induction xs arbitrary: ys i)
  case Nil
  then show ?case by simp
next
  case (Cons x xs)
  then show ?case by (cases i) (auto simp: bindR_Inr_iff)
qed

lemma mapM_Inr_set: "mapM f xs = Inr ys \<Longrightarrow> y \<in> set ys \<Longrightarrow> \<exists>x \<in> set xs. f x = Inr y"
  by (induction xs arbitrary: ys) (auto simp: bindR_Inr_iff)

text \<open>A loop of checks: the first element that fails raises.\<close>

fun checkAll :: "('a \<Rightarrow> ('e, unit) res) \<Rightarrow> 'a list \<Rightarrow> ('e, unit) res" where
  "checkAll f [] = Inr ()"
| "checkAll f (x # xs) = bindR (f x) (\<lambda>_. checkAll f xs)"

lemma checkAll_cong [fundef_cong]:
  "xs = ys \<Longrightarrow> (\<And>x. x \<in> set ys \<Longrightarrow> f x = g x) \<Longrightarrow> checkAll f xs = checkAll g ys"
proof (induction ys arbitrary: xs)
  case Nil
  then show ?case by simp
next
  case (Cons y ys)
  then have "checkAll f ys = checkAll g ys" by simp
  with Cons.prems show ?case by simp
qed

lemma checkAll_Inr_iff [result_simps]:
  "checkAll f xs = Inr u \<longleftrightarrow> (\<forall>x \<in> set xs. f x = Inr ())"
  by (induction xs) (auto simp: bindR_Inr_iff)

definition raise_if :: "bool \<Rightarrow> 'e \<Rightarrow> ('e, unit) res" where
  "raise_if b e = (if b then Inl e else Inr ())"

lemma raise_if_simps [simp, result_simps]:
  "raise_if False e = Inr ()"
  "raise_if True e = Inl e"
  "raise_if b e = Inr u \<longleftrightarrow> \<not> b"
  "raise_if b e = Inl e' \<longleftrightarrow> b \<and> e' = e"
  by (auto simp: raise_if_def)

section \<open>Characters and strings\<close>

definition code_point :: "char \<Rightarrow> nat" where
  "code_point c = of_char c"

definition is_digit :: "char \<Rightarrow> bool" where
  "is_digit c \<longleftrightarrow> 48 \<le> code_point c \<and> code_point c \<le> 57"

definition is_upper :: "char \<Rightarrow> bool" where
  "is_upper c \<longleftrightarrow> 65 \<le> code_point c \<and> code_point c \<le> 90"

definition is_lower :: "char \<Rightarrow> bool" where
  "is_lower c \<longleftrightarrow> 97 \<le> code_point c \<and> code_point c \<le> 122"

definition is_alnum :: "char \<Rightarrow> bool" where
  "is_alnum c \<longleftrightarrow> is_digit c \<or> is_upper c \<or> is_lower c"

text \<open>\<open>str.isspace\<close> on the first 256 code points: what \<open>strip\<close>, \<open>split\<close> and \<open>\s\<close> use.\<close>

definition is_space :: "char \<Rightarrow> bool" where
  "is_space c \<longleftrightarrow> (let n = code_point c in
     (9 \<le> n \<and> n \<le> 13) \<or> (28 \<le> n \<and> n \<le> 32) \<or> n = 133 \<or> n = 160)"

definition upper_char :: "char \<Rightarrow> char" where
  "upper_char c = (if is_lower c then char_of (code_point c - 32) else c)"

definition lower_char :: "char \<Rightarrow> char" where
  "lower_char c = (if is_upper c then char_of (code_point c + 32) else c)"

definition py_upper :: "string \<Rightarrow> string" where
  "py_upper s = map upper_char s"

text \<open>\<open>str.casefold\<close> and \<open>str.lower\<close> agree on ASCII text.\<close>

definition casefold :: "string \<Rightarrow> string" where
  "casefold s = map lower_char s"

definition starts_with :: "string \<Rightarrow> string \<Rightarrow> bool" where
  "starts_with p s \<longleftrightarrow> take (length p) s = p"

lemma starts_with_iff [str_simps]: "starts_with p s \<longleftrightarrow> (\<exists>t. s = p @ t)"
proof
  assume "starts_with p s"
  then have "s = p @ drop (length p) s"
    unfolding starts_with_def by (metis append_take_drop_id)
  then show "\<exists>t. s = p @ t" ..
next
  assume "\<exists>t. s = p @ t"
  then show "starts_with p s" by (auto simp: starts_with_def)
qed

definition lstrip :: "string \<Rightarrow> string" where
  "lstrip s = dropWhile is_space s"

definition rstrip :: "string \<Rightarrow> string" where
  "rstrip s = rev (dropWhile is_space (rev s))"

definition py_strip :: "string \<Rightarrow> string" where
  "py_strip s = rstrip (lstrip s)"

text \<open>\<open>s.split()\<close>: maximal runs of non-space characters.\<close>

fun split_ws_aux :: "string \<Rightarrow> string \<Rightarrow> string list" where
  "split_ws_aux acc [] = (if acc = [] then [] else [rev acc])"
| "split_ws_aux acc (c # cs) =
     (if is_space c
      then (if acc = [] then split_ws_aux [] cs else rev acc # split_ws_aux [] cs)
      else split_ws_aux (c # acc) cs)"

definition split_ws :: "string \<Rightarrow> string list" where
  "split_ws s = split_ws_aux [] s"

text \<open>\<open>s.split(sep)\<close> for a one-character separator: never empty.\<close>

fun split_on :: "char \<Rightarrow> string \<Rightarrow> string list" where
  "split_on sep [] = [[]]"
| "split_on sep (c # cs) =
     (if c = sep then [] # split_on sep cs
      else (case split_on sep cs of [] \<Rightarrow> [[c]] | w # ws \<Rightarrow> (c # w) # ws))"

text \<open>
  \<open>s.splitlines()\<close>: line boundaries are \<open>\n\<close>, \<open>\r\<close>, \<open>\r\n\<close>, \<open>\v\<close>, \<open>\f\<close>, \<open>\x1c\<close>-\<open>\x1e\<close> and \<open>\x85\<close>;
  a final boundary opens no empty line.
\<close>

definition is_line_end :: "char \<Rightarrow> bool" where
  "is_line_end c \<longleftrightarrow> (let n = code_point c in
     (10 \<le> n \<and> n \<le> 13) \<or> (28 \<le> n \<and> n \<le> 30) \<or> n = 133)"

fun splitlines_aux :: "string \<Rightarrow> bool \<Rightarrow> string \<Rightarrow> string list" where
  "splitlines_aux acc after_cr [] = (if acc = [] then [] else [rev acc])"
| "splitlines_aux acc after_cr (c # cs) =
     (if after_cr \<and> code_point c = 10 then splitlines_aux [] False cs
      else if is_line_end c then rev acc # splitlines_aux [] (code_point c = 13) cs
      else splitlines_aux (c # acc) False cs)"

definition splitlines :: "string \<Rightarrow> string list" where
  "splitlines s = splitlines_aux [] False s"

definition join :: "string \<Rightarrow> string list \<Rightarrow> string" where
  "join sep ws = (case ws of [] \<Rightarrow> [] | w # ws \<Rightarrow> w @ concat (map (\<lambda>x. sep @ x) ws))"

lemma split_ws_aux_nonempty: "acc \<noteq> [] \<Longrightarrow> split_ws_aux acc s \<noteq> []"
  by (induction s arbitrary: acc) auto

lemma split_ws_Cons_nonspace: "\<not> is_space c \<Longrightarrow> split_ws (c # cs) \<noteq> []"
  by (simp add: split_ws_def split_ws_aux_nonempty)

lemma split_ws_aux_words:
  "list_all (\<lambda>c. \<not> is_space c) acc \<Longrightarrow> w \<in> set (split_ws_aux acc s) \<Longrightarrow>
     w \<noteq> [] \<and> list_all (\<lambda>c. \<not> is_space c) w"
proof (induction s arbitrary: acc)
  case Nil
  then show ?case by (simp split: if_splits)
next
  case (Cons c cs)
  show ?case
  proof (cases "is_space c")
    case True
    with Cons.prems have "w = rev acc \<and> acc \<noteq> [] \<or> w \<in> set (split_ws_aux [] cs)"
      by (simp split: if_splits)
    then show ?thesis using Cons.IH [of "[]"] Cons.prems(1) by auto
  next
    case False
    with Cons.prems show ?thesis using Cons.IH [of "c # acc"] by simp
  qed
qed

lemma split_ws_words: "w \<in> set (split_ws s) \<Longrightarrow> w \<noteq> [] \<and> list_all (\<lambda>c. \<not> is_space c) w"
  using split_ws_aux_words [of "[]" w s] by (simp add: split_ws_def)

lemma split_on_nonempty [simp]: "split_on sep s \<noteq> []"
  by (induction s) (auto split: list.splits)

lemma split_on_append: "sep \<notin> set u \<Longrightarrow> split_on sep (u @ sep # t) = u # split_on sep t"
  by (induction u) auto

lemma split_on_single: "sep \<notin> set u \<Longrightarrow> split_on sep u = [u]"
  by (induction u) auto

lemma split_on_join:
  "ws \<noteq> [] \<Longrightarrow> list_all (\<lambda>w. sep \<notin> set w) ws \<Longrightarrow> split_on sep (join [sep] ws) = ws"
proof (induction ws)
  case (Cons w ws)
  show ?case
  proof (cases ws)
    case Nil
    with Cons.prems show ?thesis by (simp add: join_def split_on_single)
  next
    case (Cons v vs)
    then have "join [sep] (w # ws) = w @ sep # join [sep] ws" by (simp add: join_def)
    then show ?thesis using Cons.IH Cons.prems Cons by (simp add: split_on_append)
  qed
qed simp

lemma rstrip_prefix: "\<exists>t. s = rstrip s @ t"
proof -
  have "rev s = takeWhile is_space (rev s) @ dropWhile is_space (rev s)" by simp
  then have "s = rev (dropWhile is_space (rev s)) @ rev (takeWhile is_space (rev s))"
    by (metis rev_append rev_rev_ident)
  then show ?thesis unfolding rstrip_def ..
qed

lemma py_strip_Cons: "py_strip s = c # cs \<Longrightarrow> \<not> is_space c"
proof -
  assume a: "py_strip s = c # cs"
  obtain t where "lstrip s = rstrip (lstrip s) @ t"
    using rstrip_prefix by blast
  with a have "dropWhile is_space s = c # cs @ t"
    by (simp add: py_strip_def lstrip_def)
  then show ?thesis by (metis hd_dropWhile list.discI list.sel(1))
qed

section \<open>Decimal numerals\<close>

definition digit_value :: "char \<Rightarrow> nat" where
  "digit_value c = code_point c - 48"

definition digit_char :: "nat \<Rightarrow> char" where
  "digit_char d = char_of (48 + d)"

text \<open>\<open>int(s)\<close> for a string of decimal digits.\<close>

definition parse_nat :: "string \<Rightarrow> nat" where
  "parse_nat s = foldl (\<lambda>a c. 10 * a + digit_value c) 0 s"

fun str_nat :: "nat \<Rightarrow> string" where
  "str_nat n = (if n < 10 then [digit_char n] else str_nat (n div 10) @ [digit_char (n mod 10)])"

declare str_nat.simps [simp del]

definition str_int :: "int \<Rightarrow> string" where
  "str_int i = (if i < 0 then CHR ''-'' # str_nat (nat (- i)) else str_nat (nat i))"

definition all_digits :: "string \<Rightarrow> bool" where
  "all_digits s \<longleftrightarrow> s \<noteq> [] \<and> list_all is_digit s"

lemma digit_char_digit [str_simps]: "d < 10 \<Longrightarrow> is_digit (digit_char d)"
  by (simp add: digit_char_def is_digit_def code_point_def)

lemma digit_value_char [str_simps]: "d < 10 \<Longrightarrow> digit_value (digit_char d) = d"
  by (simp add: digit_char_def digit_value_def code_point_def)

lemma parse_nat_snoc: "parse_nat (s @ [c]) = 10 * parse_nat s + digit_value c"
  by (simp add: parse_nat_def)

lemma str_nat_digits [str_simps]: "all_digits (str_nat n)"
proof (induction n rule: str_nat.induct)
  case (1 n)
  show ?case
  proof (cases "n < 10")
    case True
    then show ?thesis by (simp add: str_nat.simps [of n] all_digits_def digit_char_digit)
  next
    case False
    with 1 show ?thesis by (simp add: str_nat.simps [of n] all_digits_def digit_char_digit)
  qed
qed

lemma parse_str_nat [str_simps]: "parse_nat (str_nat n) = n"
proof (induction n rule: str_nat.induct)
  case (1 n)
  show ?case
  proof (cases "n < 10")
    case True
    then show ?thesis by (simp add: str_nat.simps [of n] parse_nat_def digit_value_char)
  next
    case False
    with 1 show ?thesis
      by (simp add: str_nat.simps [of n] parse_nat_snoc digit_value_char)
  qed
qed

lemma all_digits_not_in: "all_digits s \<Longrightarrow> \<not> is_digit c \<Longrightarrow> c \<notin> set s"
  by (auto simp: all_digits_def list_all_iff)

lemma str_int_nat [str_simps]: "0 \<le> i \<Longrightarrow> str_int i = str_nat (nat i)"
  by (simp add: str_int_def)

lemma str_int_no:
  assumes "\<not> is_digit c" and "c \<noteq> CHR ''-''"
  shows "c \<notin> set (str_int i)"
  using assms all_digits_not_in [OF str_nat_digits, of c] by (simp add: str_int_def)

lemma digit_not_space: "is_digit c \<Longrightarrow> \<not> is_space c"
  by (simp add: is_digit_def is_space_def Let_def)

lemma py_strip_id: "list_all (\<lambda>c. \<not> is_space c) s \<Longrightarrow> py_strip s = s"
proof -
  assume a: "list_all (\<lambda>c. \<not> is_space c) s"
  have keep: "dropWhile is_space t = t" if "list_all (\<lambda>c. \<not> is_space c) t" for t
    using that by (cases t) simp_all
  have "dropWhile is_space s = s" "dropWhile is_space (rev s) = rev s"
    using a by (auto intro!: keep simp: list_all_iff)
  then show ?thesis by (simp add: py_strip_def rstrip_def lstrip_def)
qed

lemma takeWhile_digits: "list_all is_digit a \<Longrightarrow> \<not> is_digit c \<Longrightarrow>
    takeWhile is_digit (a @ c # b) = a \<and> dropWhile is_digit (a @ c # b) = c # b"
  by (induction a) auto

section \<open>Byte order of text, as SQL \<open>ORDER BY\<close> and \<open>sorted\<close> compare it\<close>

fun str_less :: "string \<Rightarrow> string \<Rightarrow> bool" where
  "str_less [] [] = False"
| "str_less [] (_ # _) = True"
| "str_less (_ # _) [] = False"
| "str_less (a # as) (b # bs) =
     (code_point a < code_point b \<or> (code_point a = code_point b \<and> str_less as bs))"

definition str_le :: "string \<Rightarrow> string \<Rightarrow> bool" where
  "str_le a b \<longleftrightarrow> \<not> str_less b a"

lemma code_point_eq_iff [simp]: "code_point a = code_point b \<longleftrightarrow> a = b"
  by (simp add: code_point_def)

lemma str_less_irrefl [simp]: "\<not> str_less s s"
  by (induction s) auto

lemma str_less_trans: "str_less a b \<Longrightarrow> str_less b c \<Longrightarrow> str_less a c"
proof (induction a b arbitrary: c rule: str_less.induct)
  case (4 x xs y ys)
  then show ?case by (cases c) auto
next
  case (2 y ys)
  then show ?case by (cases c) auto
qed auto

lemma str_less_linear: "str_less a b \<or> a = b \<or> str_less b a"
  by (induction a b rule: str_less.induct) auto

text \<open>\<open>sorted\<close> on texts.\<close>

fun insort_str :: "string \<Rightarrow> string list \<Rightarrow> string list" where
  "insort_str x [] = [x]"
| "insort_str x (y # ys) = (if str_less y x then y # insort_str x ys else x # y # ys)"

definition sort_str :: "string list \<Rightarrow> string list" where
  "sort_str xs = foldr insort_str xs []"

lemma set_insort_str [simp]: "set (insort_str x xs) = insert x (set xs)"
  by (induction xs) auto

lemma set_sort_str [simp]: "set (sort_str xs) = set xs"
  by (induction xs) (auto simp: sort_str_def)

lemma length_insort_str [simp]: "length (insort_str x xs) = Suc (length xs)"
  by (induction xs) auto

lemma length_sort_str [simp]: "length (sort_str xs) = length xs"
  by (induction xs) (auto simp: sort_str_def)

lemma distinct_insort_str: "distinct (insort_str x xs) \<longleftrightarrow> x \<notin> set xs \<and> distinct xs"
  by (induction xs) auto

lemma distinct_sort_str [simp]: "distinct (sort_str xs) \<longleftrightarrow> distinct xs"
  by (induction xs)
    (simp_all add: sort_str_def distinct_insort_str set_sort_str [unfolded sort_str_def])

section \<open>Stable sorting and turns\<close>

text \<open>\<open>sorted(xs, key=...)\<close>: stable, for the strict order of the keys.\<close>

fun insort_by :: "('a \<Rightarrow> 'a \<Rightarrow> bool) \<Rightarrow> 'a \<Rightarrow> 'a list \<Rightarrow> 'a list" where
  "insort_by lt x [] = [x]"
| "insort_by lt x (y # ys) = (if lt y x then y # insort_by lt x ys else x # y # ys)"

definition sort_by :: "('a \<Rightarrow> 'a \<Rightarrow> bool) \<Rightarrow> 'a list \<Rightarrow> 'a list" where
  "sort_by lt xs = foldr (insort_by lt) xs []"

lemma set_insort_by [simp]: "set (insort_by lt x xs) = insert x (set xs)"
  by (induction xs) auto

lemma length_insort_by [simp]: "length (insort_by lt x xs) = Suc (length xs)"
  by (induction xs) auto

lemma set_sort_by [simp]: "set (sort_by lt xs) = set xs"
  by (induction xs) (auto simp: sort_by_def)

lemma length_sort_by [simp]: "length (sort_by lt xs) = length xs"
  by (induction xs) (auto simp: sort_by_def)

lemma sort_by_simps [simp]: "sort_by lt [] = []" "sort_by lt [x] = [x]"
  by (simp_all add: sort_by_def)

text \<open>
  The layers of \<open>itertools.zip_longest\<close> one after the other, without the padding: the first
  element of every list, then the second of every list that has one, and so on.
\<close>

function round_robin :: "'a list list \<Rightarrow> 'a list" where
  "round_robin xss =
     (let ys = filter (\<lambda>xs. xs \<noteq> []) xss in
      if ys = [] then [] else map hd ys @ round_robin (map tl ys))"
  by pat_completeness auto
termination
proof (relation "measure (\<lambda>xss. sum_list (map length xss))", goal_cases)
  case (2 xss ys)
  have le: "sum_list (map length (filter (\<lambda>xs. xs \<noteq> []) xss)) \<le> sum_list (map length xss)"
    by (induction xss) auto
  obtain z zs where ys: "ys = z # zs" using 2(2) by (cases ys) auto
  have "z \<in> set ys" by (simp add: ys)
  then have z: "length (tl z) < length z" by (simp add: 2(1))
  have "sum_list (map length (map tl zs)) \<le> sum_list (map length zs)"
    by (induction zs) (auto intro: add_mono)
  with z have "sum_list (map length (map tl ys)) < sum_list (map length ys)" by (simp add: ys)
  with le show ?case by (simp add: 2(1))
qed simp

declare round_robin.simps [simp del]

lemma set_round_robin [simp]: "set (round_robin xss) = \<Union> (set (map set xss))"
proof (induction xss rule: round_robin.induct)
  case (1 xss)
  define ys where "ys = filter (\<lambda>xs. xs \<noteq> []) xss"
  have u: "\<Union> (set (map set xss)) = \<Union> (set (map set ys))" by (auto simp: ys_def)
  show ?case
  proof (cases "ys = []")
    case True
    then show ?thesis unfolding u by (simp add: round_robin.simps [of xss] ys_def [symmetric])
  next
    case False
    have "insert (hd y) (set (tl y)) = set y" if "y \<in> set ys" for y
    proof -
      have "y \<noteq> []" using that by (simp add: ys_def)
      then show ?thesis by (cases y) simp_all
    qed
    then have "hd ` set ys \<union> (\<Union>y \<in> set ys. set (tl y)) = (\<Union>y \<in> set ys. set y)" by blast
    with 1 [OF ys_def False] False show ?thesis unfolding u
      by (simp add: round_robin.simps [of xss] ys_def [symmetric])
  qed
qed

lemma length_round_robin [simp]: "length (round_robin xss) = sum_list (map length xss)"
proof (induction xss rule: round_robin.induct)
  case (1 xss)
  define ys where "ys = filter (\<lambda>xs. xs \<noteq> []) xss"
  have u: "sum_list (map length xss) = sum_list (map length ys)"
    unfolding ys_def by (induction xss) auto
  have t: "sum_list (map length ys) = length ys + sum_list (map length (map tl ys))"
  proof -
    have "\<forall>y \<in> set ys. y \<noteq> []" by (simp add: ys_def)
    then show ?thesis by (induction ys) (auto simp: neq_Nil_conv)
  qed
  show ?case
  proof (cases "ys = []")
    case True
    then show ?thesis unfolding u by (simp add: round_robin.simps [of xss] ys_def [symmetric])
  next
    case False
    with 1 [OF ys_def False] t show ?thesis unfolding u
      by (simp add: round_robin.simps [of xss] ys_def [symmetric])
  qed
qed

text \<open>Every list gets its first turn before any gets a second.\<close>

lemma round_robin_first:
  assumes "\<forall>xs \<in> set xss. xs \<noteq> []"
  shows "take (length xss) (round_robin xss) = map hd xss"
  using assms by (cases "xss = []") (simp_all add: round_robin.simps [of xss] Let_def filter_id_conv)

lemma round_robin_turn:
  assumes "\<forall>xs \<in> set xss. xs \<noteq> []" and "length xss \<le> n" and "xs \<in> set xss"
  shows "hd xs \<in> set (take n (round_robin xss))"
proof -
  have "hd xs \<in> set (take (length xss) (round_robin xss))"
    using assms(3) by (simp add: round_robin_first [OF assms(1)])
  then show ?thesis using set_take_subset_set_take [OF assms(2), of "round_robin xss"] by blast
qed

section \<open>Dictionaries\<close>

text \<open>
  A Python dictionary keeps its keys in insertion order: an association list with distinct
  keys. Storing at a key that is present keeps its position.
\<close>

type_synonym 'v dict = "(string \<times> 'v) list"

fun dict_set :: "string \<Rightarrow> 'v \<Rightarrow> 'v dict \<Rightarrow> 'v dict" where
  "dict_set k v [] = [(k, v)]"
| "dict_set k v ((k', w) # d) = (if k = k' then (k, v) # d else (k', w) # dict_set k v d)"

abbreviation dict_get :: "'v dict \<Rightarrow> string \<Rightarrow> 'v option" where
  "dict_get \<equiv> map_of"

abbreviation dict_keys :: "'v dict \<Rightarrow> string list" where
  "dict_keys d \<equiv> map fst d"

definition dict_ok :: "'v dict \<Rightarrow> bool" where
  "dict_ok d \<longleftrightarrow> distinct (dict_keys d)"

lemma dict_get_set [simp, dict_simps]:
  "dict_get (dict_set k v d) k' = (if k' = k then Some v else dict_get d k')"
  by (induction d) auto

lemma dict_keys_set [dict_simps]: "set (dict_keys (dict_set k v d)) = insert k (set (dict_keys d))"
proof (induction d)
  case Nil
  then show ?case by simp
next
  case (Cons p d)
  then show ?case by (cases p) auto
qed

lemma dict_ok_set [dict_simps]: "dict_ok d \<Longrightarrow> dict_ok (dict_set k v d)"
proof (induction d)
  case Nil
  then show ?case by (simp add: dict_ok_def)
next
  case (Cons p d)
  obtain a b where p: "p = (a, b)" by (cases p)
  show ?case
  proof (cases "k = a")
    case True
    with Cons.prems p show ?thesis by (simp add: dict_ok_def)
  next
    case False
    with Cons p have "dict_ok (dict_set k v d)" and "a \<notin> set (dict_keys d)"
      by (simp_all add: dict_ok_def)
    with False p show ?thesis
      using dict_keys_set [of k v d] by (simp add: dict_ok_def)
  qed
qed

text \<open>\<open>list(dict.fromkeys(xs))\<close>: first occurrences, in order.\<close>

fun dedup_aux :: "'a list \<Rightarrow> 'a list \<Rightarrow> 'a list" where
  "dedup_aux seen [] = []"
| "dedup_aux seen (x # xs) =
     (if x \<in> set seen then dedup_aux seen xs else x # dedup_aux (x # seen) xs)"

definition dedup :: "'a list \<Rightarrow> 'a list" where
  "dedup xs = dedup_aux [] xs"

lemma dedup_aux_props:
  "set (dedup_aux seen xs) = set xs - set seen \<and> distinct (dedup_aux seen xs)"
  by (induction seen xs rule: dedup_aux.induct) auto

lemma set_dedup [simp]: "set (dedup xs) = set xs"
  by (simp add: dedup_def dedup_aux_props)

lemma distinct_dedup [simp]: "distinct (dedup xs)"
  by (simp add: dedup_def dedup_aux_props)

lemma dedup_eq_Nil [simp]: "dedup xs = [] \<longleftrightarrow> xs = []"
  by (metis set_dedup set_empty)

lemma dedup_aux_distinct:
  "distinct xs \<Longrightarrow> set xs \<inter> set seen = {} \<Longrightarrow> dedup_aux seen xs = xs"
  by (induction seen xs rule: dedup_aux.induct) auto

lemma dedup_distinct: "distinct xs \<Longrightarrow> dedup xs = xs"
  by (simp add: dedup_def dedup_aux_distinct)

lemma dedup_length_distinct: "length (dedup xs) = length xs \<Longrightarrow> distinct xs"
  using distinct_card [OF distinct_dedup [of xs]] by (simp add: card_distinct)

section \<open>JSON values\<close>

text \<open>
  What \<open>json.loads\<close> returns. A float is the rational it denotes, or one of the non-finite
  values the parser accepts; booleans are Python booleans, which are also integers where the
  code does not exclude them.
\<close>

datatype py_float = Finite rat | Infinite bool | NaN

datatype json =
    JNull
  | JBool bool
  | JInt int
  | JFloat py_float
  | JStr string
  | JArr "json list"
  | JObj "(string \<times> json) list"

fun is_finite :: "py_float \<Rightarrow> bool" where
  "is_finite (Finite _) = True"
| "is_finite _ = False"

fun is_str :: "json \<Rightarrow> bool" where
  "is_str (JStr _) = True"
| "is_str _ = False"

fun is_dict :: "json \<Rightarrow> bool" where
  "is_dict (JObj _) = True"
| "is_dict _ = False"

fun is_list :: "json \<Rightarrow> bool" where
  "is_list (JArr _) = True"
| "is_list _ = False"

definition the_str :: "json \<Rightarrow> string" where
  "the_str j = (case j of JStr s \<Rightarrow> s | _ \<Rightarrow> [])"

lemma the_str_simp [simp]: "the_str (JStr s) = s"
  by (simp add: the_str_def)

lemma is_str_iff: "is_str j \<longleftrightarrow> (\<exists>s. j = JStr s)"
  by (cases j) auto

text \<open>\<open>d.get(k)\<close>: a missing key reads as null.\<close>

definition jget :: "json dict \<Rightarrow> string \<Rightarrow> json" where
  "jget d k = (case dict_get d k of None \<Rightarrow> JNull | Some v \<Rightarrow> v)"

text \<open>\<open>d.get(k, default)\<close>: the default stands for a missing key only.\<close>

definition jget_or :: "json dict \<Rightarrow> string \<Rightarrow> json \<Rightarrow> json" where
  "jget_or d k z = (case dict_get d k of None \<Rightarrow> z | Some v \<Rightarrow> v)"

definition opt_json :: "('a \<Rightarrow> json) \<Rightarrow> 'a option \<Rightarrow> json" where
  "opt_json f x = (case x of None \<Rightarrow> JNull | Some y \<Rightarrow> f y)"

lemma opt_json_simps [simp]: "opt_json f None = JNull" "opt_json f (Some y) = f y"
  by (simp_all add: opt_json_def)

text \<open>\<open>bool(v)\<close>\<close>

definition truthy :: "json \<Rightarrow> bool" where
  "truthy v = (case v of
      JNull \<Rightarrow> False | JBool b \<Rightarrow> b | JInt i \<Rightarrow> i \<noteq> 0
    | JFloat f \<Rightarrow> f \<noteq> Finite 0 | JStr s \<Rightarrow> s \<noteq> [] | JArr xs \<Rightarrow> xs \<noteq> [] | JObj d \<Rightarrow> d \<noteq> [])"

text \<open>
  \<open>a == b\<close> on JSON values: booleans and floats compare as numbers, a dictionary compares by its
  keys, whatever their order.
\<close>

fun json_num :: "json \<Rightarrow> rat option" where
  "json_num (JBool b) = Some (if b then 1 else 0)"
| "json_num (JInt i) = Some (of_int i)"
| "json_num (JFloat (Finite q)) = Some q"
| "json_num _ = None"

function (sequential) py_eq :: "json \<Rightarrow> json \<Rightarrow> bool" where
  "py_eq JNull b = (b = JNull)"
| "py_eq (JStr s) b = (b = JStr s)"
| "py_eq (JArr xs) b =
     (case b of
        JArr ys \<Rightarrow> length xs = length ys \<and> (\<forall>(x, y) \<in> set (zip xs ys). py_eq x y)
      | _ \<Rightarrow> False)"
| "py_eq (JObj d) b =
     (case b of
        JObj e \<Rightarrow> length d = length e \<and>
          (\<forall>(k, v) \<in> set d. (case dict_get e k of Some w \<Rightarrow> py_eq v w | None \<Rightarrow> False))
      | _ \<Rightarrow> False)"
| "py_eq a b =
     (case (json_num a, json_num b) of
        (Some p, Some q) \<Rightarrow> p = q
      | (None, None) \<Rightarrow> (\<exists>s. a = JFloat (Infinite s) \<and> b = JFloat (Infinite s))
      | _ \<Rightarrow> False)"
  by pat_completeness auto
termination
proof (relation "measure (\<lambda>(a, b). size a)", goal_cases)
  case 1
  then show ?case by simp
next
  case (2 xs b ys p x y)
  then have "x \<in> set xs" by (auto dest: set_zip_leftD)
  then have "size x \<le> size_list size xs" by (rule size_list_estimation') simp
  then show ?case by simp
next
  case (3 d b e p k v w)
  have "(k, v) \<in> set d" using 3 by auto
  then have "size_prod (\<lambda>_. 0) size (k, v) \<le> size_list (size_prod (\<lambda>_. 0) size) d"
    by (rule size_list_estimation') simp
  then show ?case by simp
qed

text \<open>Values a Python set can hold, so that \<open>x in {...}\<close> does not raise \<open>TypeError\<close>.\<close>

fun hashable :: "json \<Rightarrow> bool" where
  "hashable (JArr _) = False"
| "hashable (JObj _) = False"
| "hashable _ = True"

section \<open>Operations that pass through durable states\<close>

text \<open>
  An operation on a durable world \<open>'w\<close> (files, a database, the scheduler) returns every world
  it passes through, in order, beside its final world and its result. A crash, or an exception
  of the operating system, leaves the world at one of these; so what holds in all of them
  holds whatever interrupts the operation.
\<close>

type_synonym ('w, 'e, 'a) eff = "'w \<Rightarrow> 'w list \<times> 'w \<times> ('e, 'a) res"

definition retE :: "'a \<Rightarrow> ('w, 'e, 'a) eff" where
  "retE x = (\<lambda>w. ([], w, Inr x))"

definition raiseE :: "'e \<Rightarrow> ('w, 'e, 'a) eff" where
  "raiseE e = (\<lambda>w. ([], w, Inl e))"

definition liftE :: "('e, 'a) res \<Rightarrow> ('w, 'e, 'a) eff" where
  "liftE r = (\<lambda>w. ([], w, r))"

definition readE :: "('w \<Rightarrow> ('e, 'a) res) \<Rightarrow> ('w, 'e, 'a) eff" where
  "readE f = (\<lambda>w. ([], w, f w))"

definition writeE :: "('w \<Rightarrow> 'w) \<Rightarrow> ('w, 'e, unit) eff" where
  "writeE f = (\<lambda>w. ([f w], f w, Inr ()))"

text \<open>A transaction: on failure nothing of it is kept.\<close>

definition transE :: "('w \<Rightarrow> ('e, 'w) res) \<Rightarrow> ('w, 'e, unit) eff" where
  "transE f = (\<lambda>w. case f w of Inl e \<Rightarrow> ([], w, Inl e) | Inr w' \<Rightarrow> ([w'], w', Inr ()))"

definition bindE :: "('w, 'e, 'a) eff \<Rightarrow> ('a \<Rightarrow> ('w, 'e, 'b) eff) \<Rightarrow> ('w, 'e, 'b) eff" where
  "bindE m f = (\<lambda>w. case m w of
       (t, w', Inl e) \<Rightarrow> (t, w', Inl e)
     | (t, w', Inr x) \<Rightarrow> (case f x w' of (t', w'', r) \<Rightarrow> (t @ t', w'', r)))"

text \<open>\<open>try: m except: h\<close>, the handler told the error.\<close>

definition catchE :: "('w, 'e, 'a) eff \<Rightarrow> ('e \<Rightarrow> ('w, 'd, 'a) eff) \<Rightarrow> ('w, 'd, 'a) eff" where
  "catchE m h = (\<lambda>w. case m w of
       (t, w', Inr x) \<Rightarrow> (t, w', Inr x)
     | (t, w', Inl e) \<Rightarrow> (case h e w' of (t', w'', r) \<Rightarrow> (t @ t', w'', r)))"

lemmas eff_defs = retE_def raiseE_def liftE_def readE_def writeE_def transE_def bindE_def
  catchE_def

text \<open>
  \<open>always R m w\<close>: started in \<open>w\<close>, every world the operation passes through satisfies \<open>R\<close>.
  \<open>trip P m Q R\<close>: started in a world with \<open>P\<close>, every world passed through satisfies \<open>R\<close>, and a
  normal return establishes \<open>Q\<close>.
\<close>

definition always :: "('w \<Rightarrow> bool) \<Rightarrow> ('w, 'e, 'a) eff \<Rightarrow> 'w \<Rightarrow> bool" where
  "always R m w \<longleftrightarrow> (case m w of (t, w', r) \<Rightarrow> list_all R t \<and> R w')"

definition trip ::
  "('w \<Rightarrow> bool) \<Rightarrow> ('w, 'e, 'a) eff \<Rightarrow> ('a \<Rightarrow> 'w \<Rightarrow> bool) \<Rightarrow> ('w \<Rightarrow> bool) \<Rightarrow> bool" where
  "trip P m Q R \<longleftrightarrow> (\<forall>w. P w \<longrightarrow>
     (case m w of (t, w', r) \<Rightarrow> list_all R t \<and> R w' \<and> (\<forall>x. r = Inr x \<longrightarrow> Q x w')))"

named_theorems trip_intros \<open>rules for operations on durable states\<close>

lemma trip_ret [trip_intros]: "(\<And>w. P w \<Longrightarrow> Q x w \<and> R w) \<Longrightarrow> trip P (retE x) Q R"
  by (simp add: trip_def retE_def)

lemma trip_raise [trip_intros]: "(\<And>w. P w \<Longrightarrow> R w) \<Longrightarrow> trip P (raiseE e) Q R"
  by (simp add: trip_def raiseE_def)

lemma trip_lift [trip_intros]:
  "(\<And>w. P w \<Longrightarrow> R w) \<Longrightarrow> (\<And>w x. P w \<Longrightarrow> r = Inr x \<Longrightarrow> Q x w) \<Longrightarrow> trip P (liftE r) Q R"
  by (simp add: trip_def liftE_def)

lemma trip_read [trip_intros]:
  "(\<And>w. P w \<Longrightarrow> R w) \<Longrightarrow> (\<And>w x. P w \<Longrightarrow> f w = Inr x \<Longrightarrow> Q x w) \<Longrightarrow> trip P (readE f) Q R"
  by (simp add: trip_def readE_def)

lemma trip_write [trip_intros]:
  "(\<And>w. P w \<Longrightarrow> R (f w) \<and> Q () (f w)) \<Longrightarrow> trip P (writeE f) Q R"
  by (simp add: trip_def writeE_def)

lemma trip_trans [trip_intros]:
  "(\<And>w. P w \<Longrightarrow> R w) \<Longrightarrow> (\<And>w w'. P w \<Longrightarrow> f w = Inr w' \<Longrightarrow> R w' \<and> Q () w') \<Longrightarrow>
     trip P (transE f) Q R"
  by (auto simp: trip_def transE_def split: sum.splits)

lemma trip_bind:
  assumes "trip P m Q R" and "\<And>x. trip (Q x) (f x) S R"
  shows "trip P (bindE m f) S R"
  unfolding trip_def
proof (intro allI impI)
  fix w assume "P w"
  obtain t w' r where m: "m w = (t, w', r)" by (cases "m w")
  with assms(1) \<open>P w\<close> have mt: "list_all R t" "R w'" and q: "\<And>x. r = Inr x \<Longrightarrow> Q x w'"
    by (auto simp: trip_def)
  show "case bindE m f w of (t, w', r) \<Rightarrow> list_all R t \<and> R w' \<and> (\<forall>x. r = Inr x \<longrightarrow> S x w')"
  proof (cases r)
    case (Inl e)
    with m mt show ?thesis by (simp add: bindE_def)
  next
    case (Inr x)
    obtain t2 w2 r2 where f: "f x w' = (t2, w2, r2)" by (cases "f x w'")
    with assms(2) [of x] q [OF Inr] have "list_all R t2" "R w2" "\<And>y. r2 = Inr y \<Longrightarrow> S y w2"
      by (auto simp: trip_def)
    with m mt Inr f show ?thesis by (simp add: bindE_def)
  qed
qed

lemma trip_if [trip_intros]:
  "(b \<Longrightarrow> trip P m Q R) \<Longrightarrow> (\<not> b \<Longrightarrow> trip P n Q R) \<Longrightarrow> trip P (if b then m else n) Q R"
  by simp

lemma trip_option [trip_intros]:
  "(x = None \<Longrightarrow> trip P m Q R) \<Longrightarrow> (\<And>y. x = Some y \<Longrightarrow> trip P (f y) Q R) \<Longrightarrow>
     trip P (case x of None \<Rightarrow> m | Some y \<Rightarrow> f y) Q R"
  by (cases x) auto

text \<open>Rules for a step followed by the rest of the operation: what the step returned is kept as a fact.\<close>

lemma trip_bind_lift [trip_intros]:
  "(\<And>w. P w \<Longrightarrow> R w) \<Longrightarrow> (\<And>x. r = Inr x \<Longrightarrow> trip P (f x) S R) \<Longrightarrow>
     trip P (bindE (liftE r) f) S R"
  by (rule trip_bind [where Q = "\<lambda>x w. P w \<and> r = Inr x"])
    (auto simp: trip_def liftE_def)

lemma trip_bind_read [trip_intros]:
  "(\<And>w. P w \<Longrightarrow> R w) \<Longrightarrow> (\<And>x. trip (\<lambda>w. P w \<and> g w = Inr x) (f x) S R) \<Longrightarrow>
     trip P (bindE (readE g) f) S R"
  by (rule trip_bind [where Q = "\<lambda>x w. P w \<and> g w = Inr x"])
    (auto simp: trip_def readE_def)

lemma trip_bind_write:
  "(\<And>w. P w \<Longrightarrow> Q (g w) \<and> R (g w)) \<Longrightarrow> trip Q (f ()) S R \<Longrightarrow> trip P (bindE (writeE g) f) S R"
  by (rule trip_bind [where Q = "\<lambda>_. Q"]) (auto simp: trip_def writeE_def)

lemma trip_pre: "trip P m Q R \<Longrightarrow> (\<And>w. P' w \<Longrightarrow> P w) \<Longrightarrow> trip P' m Q R"
  by (auto simp: trip_def)

lemma trip_post:
  "trip P m Q R \<Longrightarrow> (\<And>x w. Q x w \<Longrightarrow> Q' x w) \<Longrightarrow> (\<And>w. R w \<Longrightarrow> R' w) \<Longrightarrow> trip P m Q' R'"
  by (fastforce simp: trip_def list_all_iff split: prod.splits)

lemma trip_always: "trip P m Q R \<Longrightarrow> P w \<Longrightarrow> always R m w"
  by (auto simp: trip_def always_def)

section \<open>Reachable worlds\<close>

text \<open>
  The worlds that invocations can lead to: an operation is interrupted in one of the worlds it
  passes through or runs to its end, and between two operations the outside world may step.
\<close>

inductive reaches ::
  "('w \<Rightarrow> bool) \<Rightarrow> ('o \<Rightarrow> ('w, 'e, 'a) eff) \<Rightarrow> ('w \<Rightarrow> 'w \<Rightarrow> bool) \<Rightarrow> 'w \<Rightarrow> bool"
  for start ops outside where
  start: "start w \<Longrightarrow> reaches start ops outside w"
| crash: "reaches start ops outside w \<Longrightarrow> v \<in> set (fst (ops i w)) \<Longrightarrow> reaches start ops outside v"
| finish: "reaches start ops outside w \<Longrightarrow> reaches start ops outside (fst (snd (ops i w)))"
| outside: "reaches start ops outside w \<Longrightarrow> outside w v \<Longrightarrow> reaches start ops outside v"

text \<open>
  The contract between a durable component and its safety argument: an assertion that holds at
  the start and that every durable step of every operation, and every outside step, keeps.
\<close>

locale durable_invariant =
  fixes start :: "'w \<Rightarrow> bool"
    and ops :: "'o \<Rightarrow> ('w, 'e, 'a) eff"
    and outside :: "'w \<Rightarrow> 'w \<Rightarrow> bool"
    and inv :: "'w \<Rightarrow> bool"
  assumes start_inv: "start w \<Longrightarrow> inv w"
    and ops_keep: "trip inv (ops i) (\<lambda>_. inv) inv"
    and outside_keeps: "inv w \<Longrightarrow> outside w v \<Longrightarrow> inv v"
begin

lemma op_always: "inv w \<Longrightarrow> always inv (ops i) w"
  by (rule trip_always [OF ops_keep])

lemma reaches_inv: "reaches start ops outside w \<Longrightarrow> inv w"
proof (induction rule: reaches.induct)
  case (crash w v i)
  then show ?case using op_always [of w i] by (auto simp: always_def list_all_iff split: prod.splits)
next
  case (finish w i)
  then show ?case using op_always [of w i] by (auto simp: always_def split: prod.splits)
qed (auto intro: start_inv outside_keeps)

end

lemma always_crash: "always R m w \<Longrightarrow> v \<in> set (fst (m w)) \<Longrightarrow> R v"
  by (auto simp: always_def list_all_iff split: prod.splits)

lemma always_final: "always R m w \<Longrightarrow> R (fst (snd (m w)))"
  by (auto simp: always_def split: prod.splits)

end
