(* ===== verification/Ids.thy ===== *)
theory Ids
  imports Prelude
begin

text \<open>
  Public identifiers (\<open>ids.py\<close>): 128 bits, 48 of timestamp above 80 of randomness, written as 26
  Crockford base-32 digits, most significant first. The clock and the random bytes are
  arguments. The identifier decodes to the number it was made from, and byte order of the
  text, which the stores sort by, is numeric order.
\<close>

definition crockford :: string where
  "crockford = ''0123456789ABCDEFGHJKMNPQRSTVWXYZ''"

datatype ulid_error = TimestampOutOfRange

text \<open>\<open>int.from_bytes(b, "big")\<close>\<close>

definition from_bytes_big :: "nat list \<Rightarrow> nat" where
  "from_bytes_big bs = foldl (\<lambda>a b. 256 * a + b) 0 bs"

text \<open>The loop over \<open>range(25, -1, -1)\<close>: the argument counts the indices that remain.\<close>

fun ulid_loop :: "nat \<Rightarrow> nat \<Rightarrow> string \<Rightarrow> string" where
  "ulid_loop 0 v encoded = encoded"
| "ulid_loop (Suc index) v encoded =
     ulid_loop index (drop_bit 5 v) (encoded[index := crockford ! (v AND 31)])"

definition new_ulid :: "int \<Rightarrow> nat list \<Rightarrow> (ulid_error, string) res" where
  "new_ulid timestamp_ms token_bytes =
     (if \<not> (0 \<le> timestamp_ms \<and> timestamp_ms < 2 ^ 48) then Inl TimestampOutOfRange
      else Inr (ulid_loop 26
             (push_bit 80 (nat timestamp_ms) OR from_bytes_big token_bytes)
             (replicate 26 (CHR ''0''))))"

section \<open>Base 32 digits\<close>

definition b32_digits :: "nat \<Rightarrow> nat \<Rightarrow> nat list" where
  "b32_digits n v = map (\<lambda>i. v div 32 ^ (n - 1 - i) mod 32) [0..<n]"

lemma b32_digits_Suc: "b32_digits (Suc n) v = b32_digits n (v div 32) @ [v mod 32]"
proof -
  have "v div 32 ^ (n - i) = v div 32 div 32 ^ (n - 1 - i)" if "i < n" for i
  proof -
    from that have "n - i = Suc (n - 1 - i)" by simp
    then show ?thesis by (simp add: div_mult2_eq)
  qed
  then show ?thesis by (simp add: b32_digits_def)
qed

lemma length_b32_digits [simp]: "length (b32_digits n v) = n"
  by (simp add: b32_digits_def)

lemma b32_digits_lt: "d \<in> set (b32_digits n v) \<Longrightarrow> d < 32"
  by (auto simp: b32_digits_def)

lemma length_ulid_loop [simp]: "length (ulid_loop n v enc) = length enc"
  by (induction n arbitrary: v enc) auto

lemma ulid_loop_eq:
  "n \<le> length enc \<Longrightarrow> ulid_loop n v enc = map ((!) crockford) (b32_digits n v) @ drop n enc"
proof (induction n arbitrary: v enc)
  case 0
  then show ?case by (simp add: b32_digits_def)
next
  case (Suc n)
  have m: "v AND 31 = v mod 32"
    using take_bit_eq_mask [of 5 v] by (simp add: take_bit_eq_mod mask_eq_exp_minus_1)
  have d: "drop_bit 5 v = v div 32" by (simp add: drop_bit_eq_div)
  have "drop n (enc[n := crockford ! (v AND 31)]) = (crockford ! (v mod 32)) # drop (Suc n) enc"
    using Suc.prems m by (simp add: drop_update_swap Cons_nth_drop_Suc [symmetric])
  then show ?case
    using Suc.IH [of "enc[n := crockford ! (v AND 31)]" "drop_bit 5 v"] Suc.prems
    by (simp add: d b32_digits_Suc)
qed

definition ulid_value :: "nat \<Rightarrow> nat list \<Rightarrow> nat" where
  "ulid_value ts bs = push_bit 80 ts OR from_bytes_big bs"

lemma new_ulid_eq:
  "0 \<le> ts \<Longrightarrow> ts < 2 ^ 48 \<Longrightarrow>
     new_ulid ts bs = Inr (map ((!) crockford) (b32_digits 26 (ulid_value (nat ts) bs)))"
  using ulid_loop_eq [of 26 "replicate 26 (CHR ''0'')" "ulid_value (nat ts) bs"]
  by (simp add: new_ulid_def ulid_value_def)

lemma from_bytes_big_snoc: "from_bytes_big (bs @ [b]) = 256 * from_bytes_big bs + b"
  by (simp add: from_bytes_big_def)

lemma from_bytes_big_bound:
  "\<forall>b \<in> set bs. b < 256 \<Longrightarrow> from_bytes_big bs < 256 ^ length bs"
proof (induction bs rule: rev_induct)
  case Nil
  then show ?case by (simp add: from_bytes_big_def)
next
  case (snoc b bs)
  then have "from_bytes_big bs < 256 ^ length bs" and "b < 256" by auto
  then have "256 * from_bytes_big bs + b < 256 * Suc (from_bytes_big bs)" by simp
  also have "\<dots> \<le> 256 * 256 ^ length bs"
    using \<open>from_bytes_big bs < _\<close> by (intro mult_le_mono2) simp
  finally show ?case by (simp add: from_bytes_big_snoc)
qed

text \<open>The two halves do not overlap, so the disjunction is a sum.\<close>

lemma ulid_value_sum:
  assumes "length bs = 10" and "\<forall>b \<in> set bs. b < 256"
  shows "ulid_value ts bs = ts * 2 ^ 80 + from_bytes_big bs"
proof -
  have "from_bytes_big bs < 2 ^ 80"
    using from_bytes_big_bound [OF assms(2)] assms(1) by simp
  then have "take_bit 80 (from_bytes_big bs) = from_bytes_big bs"
    by (simp add: take_bit_nat_eq_self)
  then have "push_bit 80 ts AND from_bytes_big bs = 0"
    by (intro bit_eqI) (auto simp: bit_simps dest: bit_imp_take_bit_positive, metis bit_take_bit_iff leD)
  then have "push_bit 80 ts + from_bytes_big bs = push_bit 80 ts OR from_bytes_big bs"
    using disjunctive_add_eq_or by blast
  then show ?thesis by (simp add: ulid_value_def push_bit_eq_mult)
qed

section \<open>Decoding and order\<close>

definition crockford_index :: "char \<Rightarrow> nat" where
  "crockford_index c = length (takeWhile (\<lambda>d. d \<noteq> c) crockford)"

definition decode_ulid :: "string \<Rightarrow> nat" where
  "decode_ulid s = foldl (\<lambda>a c. 32 * a + crockford_index c) 0 s"

lemma length_crockford [simp]: "length crockford = 32"
  by (simp add: crockford_def)

lemma crockford_sorted: "sorted_wrt (\<lambda>a b. code_point a < code_point b) crockford"
  by (simp add: crockford_def code_point_def)

lemma crockford_increasing:
  "d < e \<Longrightarrow> e < 32 \<Longrightarrow> code_point (crockford ! d) < code_point (crockford ! e)"
  using crockford_sorted by (simp add: sorted_wrt_iff_nth_less)

lemma crockford_nth_eq:
  assumes "d < 32" and "e < 32" and "crockford ! d = crockford ! e"
  shows "d = e"
proof (rule ccontr)
  assume "d \<noteq> e"
  then consider "d < e" | "e < d" by linarith
  then show False
    using crockford_increasing [of d e] crockford_increasing [of e d] assms by cases auto
qed

lemma length_takeWhile_eq:
  assumes "d < length xs" and "\<And>i. i < d \<Longrightarrow> P (xs ! i)" and "\<not> P (xs ! d)"
  shows "length (takeWhile P xs) = d"
  using takeWhile_eq_take_P_nth [of d xs P] assms by simp

lemma crockford_index_nth:
  assumes "d < 32"
  shows "crockford_index (crockford ! d) = d"
  unfolding crockford_index_def
proof (rule length_takeWhile_eq)
  show "crockford ! i \<noteq> crockford ! d" if "i < d" for i
    using that assms crockford_nth_eq [of i d] by auto
qed (use assms in simp_all)

lemma decode_digits:
  "v < 32 ^ n \<Longrightarrow> decode_ulid (map ((!) crockford) (b32_digits n v)) = v"
proof (induction n arbitrary: v)
  case 0
  then show ?case by (simp add: b32_digits_def decode_ulid_def)
next
  case (Suc n)
  then have "v div 32 < 32 ^ n" by (simp add: less_mult_imp_div_less mult.commute)
  from Suc.IH [OF this] show ?case
    by (simp add: b32_digits_Suc decode_ulid_def crockford_index_nth)
qed

lemma str_less_append:
  "length a = length b \<Longrightarrow> str_less (a @ [c]) (b @ [d]) \<longleftrightarrow>
     str_less a b \<or> (a = b \<and> code_point c < code_point d)"
proof (induction a b rule: list_induct2')
  case (4 x xs y ys)
  then show ?case by auto
qed auto

lemma b32_digits_order:
  "v < w \<Longrightarrow> w < 32 ^ n \<Longrightarrow>
     str_less (map ((!) crockford) (b32_digits n v)) (map ((!) crockford) (b32_digits n w))"
proof (induction n arbitrary: v w)
  case 0
  then show ?case by simp
next
  case (Suc n)
  have bounds: "w div 32 < 32 ^ n"
    using Suc.prems(2) by (simp add: less_mult_imp_div_less mult.commute)
  show ?case
  proof (cases "v div 32 < w div 32")
    case True
    from Suc.IH [OF True bounds] show ?thesis
      by (simp add: b32_digits_Suc str_less_append)
  next
    case False
    with Suc.prems(1) have eq: "v div 32 = w div 32"
      by (meson div_le_mono leD less_imp_le_nat linorder_neqE_nat)
    with Suc.prems(1) have "v mod 32 < w mod 32"
      by (metis div_mult_mod_eq nat_add_left_cancel_less)
    with eq show ?thesis
      by (simp add: b32_digits_Suc str_less_append crockford_increasing)
  qed
qed

lemma ulid_value_bound:
  assumes "length bs = 10" and "\<forall>b \<in> set bs. b < 256" and "ts < 2 ^ 48"
  shows "ulid_value ts bs < 2 ^ 128"
proof -
  have "from_bytes_big bs < 2 ^ 80"
    using from_bytes_big_bound [OF assms(2)] assms(1) by simp
  moreover have "ts * 2 ^ 80 + 2 ^ 80 \<le> (2 ^ 48) * 2 ^ 80"
    using assms(3) mult_le_mono1 [of "Suc ts" "2 ^ 48" "2 ^ 80"] by simp
  ultimately show ?thesis by (simp add: ulid_value_sum [OF assms(1,2)])
qed

lemma new_ulid_shape:
  assumes "new_ulid ts bs = Inr s"
  shows "length s = 26 \<and> set s \<subseteq> set crockford"
proof -
  have r: "0 \<le> ts \<and> ts < 2 ^ 48"
    using assms by (auto simp: new_ulid_def split: if_splits)
  have s: "s = map ((!) crockford) (b32_digits 26 (ulid_value (nat ts) bs))"
    using new_ulid_eq [of ts bs] r assms by simp
  then have "set s \<subseteq> set crockford"
    unfolding s using b32_digits_lt by (fastforce intro: nth_mem)
  with s show ?thesis by simp
qed

end
