(* ===== verification/Regex.thy ===== *)
theory Regex
  imports Prelude
begin

text \<open>
  The regular expressions the program matches with, as terms, decided by derivatives. Only
  \<open>fullmatch\<close> and \<open>search\<close> as yes-or-no questions are needed in this form, and for those the
  answer is membership in the language of the expression, whatever the order Python's matcher
  explores it in; where a match's groups are read, the reader is written out beside its use.
\<close>

section \<open>Expressions and derivatives\<close>

datatype rx =
    RNone
  | REps
  | RCls "char \<Rightarrow> bool"
  | RSeq rx rx
  | RAlt rx rx
  | RStar rx

fun nullable :: "rx \<Rightarrow> bool" where
  "nullable RNone = False"
| "nullable REps = True"
| "nullable (RCls p) = False"
| "nullable (RSeq r s) = (nullable r \<and> nullable s)"
| "nullable (RAlt r s) = (nullable r \<or> nullable s)"
| "nullable (RStar r) = True"

fun deriv :: "char \<Rightarrow> rx \<Rightarrow> rx" where
  "deriv c RNone = RNone"
| "deriv c REps = RNone"
| "deriv c (RCls p) = (if p c then REps else RNone)"
| "deriv c (RSeq r s) =
     (if nullable r then RAlt (RSeq (deriv c r) s) (deriv c s) else RSeq (deriv c r) s)"
| "deriv c (RAlt r s) = RAlt (deriv c r) (deriv c s)"
| "deriv c (RStar r) = RSeq (deriv c r) (RStar r)"

fun fullmatch :: "rx \<Rightarrow> string \<Rightarrow> bool" where
  "fullmatch r [] = nullable r"
| "fullmatch r (c # cs) = fullmatch (deriv c r) cs"

definition any_string :: rx where
  "any_string = RStar (RCls (\<lambda>_. True))"

definition search :: "rx \<Rightarrow> string \<Rightarrow> bool" where
  "search r s = fullmatch (RSeq any_string (RSeq r any_string)) s"

section \<open>The usual abbreviations\<close>

fun rlit :: "string \<Rightarrow> rx" where
  "rlit [] = REps"
| "rlit (c # cs) = RSeq (RCls (\<lambda>d. d = c)) (rlit cs)"

definition ropt :: "rx \<Rightarrow> rx" where
  "ropt r = RAlt r REps"

definition rplus :: "rx \<Rightarrow> rx" where
  "rplus r = RSeq r (RStar r)"

fun rrep :: "nat \<Rightarrow> rx \<Rightarrow> rx" where
  "rrep 0 r = REps"
| "rrep (Suc n) r = RSeq r (rrep n r)"

fun rrep_max :: "nat \<Rightarrow> rx \<Rightarrow> rx" where
  "rrep_max 0 r = REps"
| "rrep_max (Suc n) r = ropt (RSeq r (rrep_max n r))"

fun rseq :: "rx list \<Rightarrow> rx" where
  "rseq [] = REps"
| "rseq (r # rs) = RSeq r (rseq rs)"

section \<open>The language of an expression\<close>

inductive lang :: "rx \<Rightarrow> string \<Rightarrow> bool" where
  eps: "lang REps []"
| cls: "p c \<Longrightarrow> lang (RCls p) [c]"
| seq: "lang r u \<Longrightarrow> lang s v \<Longrightarrow> lang (RSeq r s) (u @ v)"
| alt1: "lang r u \<Longrightarrow> lang (RAlt r s) u"
| alt2: "lang s u \<Longrightarrow> lang (RAlt r s) u"
| star0: "lang (RStar r) []"
| star1: "lang r u \<Longrightarrow> lang (RStar r) v \<Longrightarrow> lang (RStar r) (u @ v)"

inductive_simps lang_RNone [simp]: "lang RNone s"
inductive_simps lang_REps [simp]: "lang REps s"
inductive_simps lang_RCls: "lang (RCls p) s"
inductive_simps lang_RSeq: "lang (RSeq r t) s"
inductive_simps lang_RAlt [simp]: "lang (RAlt r t) s"

lemma nullable_lang: "nullable r \<longleftrightarrow> lang r []"
proof (induction r)
  case (RSeq r s)
  then show ?case by (auto simp: lang_RSeq)
next
  case (RStar r)
  then show ?case by (auto intro: lang.star0)
qed (auto simp: lang_RCls)

lemma star_Cons:
  "lang (RStar r) (c # s) \<Longrightarrow> \<exists>u v. s = u @ v \<and> lang r (c # u) \<and> lang (RStar r) v"
proof (induction "RStar r" "c # s" arbitrary: s rule: lang.induct)
  case (star1 u v)
  then show ?case by (cases u) auto
qed

lemma deriv_lang: "lang (deriv c r) s \<longleftrightarrow> lang r (c # s)"
proof (induction r arbitrary: s)
  case (RCls p)
  then show ?case by (auto simp: lang_RCls)
next
  case (RSeq r t)
  then show ?case
    by (auto simp: lang_RSeq nullable_lang Cons_eq_append_conv)
next
  case (RStar r)
  have "lang (RStar r) (c # s)" if "lang r (c # u)" and "lang (RStar r) v" and "s = u @ v" for u v
    using lang.star1 [OF that(1,2)] that(3) by simp
  with RStar show ?case by (auto simp: lang_RSeq dest: star_Cons)
qed auto

theorem fullmatch_lang: "fullmatch r s \<longleftrightarrow> lang r s"
  by (induction s arbitrary: r) (simp_all add: nullable_lang deriv_lang)

lemma lang_star_all:
  assumes "\<And>u. lang r u \<longleftrightarrow> (\<exists>c. u = [c] \<and> p c)"
  shows "lang (RStar r) s \<longleftrightarrow> list_all p s"
proof
  show "list_all p s" if "lang (RStar r) s"
    using that
  proof (induction "RStar r" s rule: lang.induct)
    case (star1 u v)
    then show ?case using assms by auto
  qed simp
next
  show "lang (RStar r) s" if "list_all p s"
    using that
  proof (induction s)
    case Nil
    then show ?case by (simp add: lang.star0)
  next
    case (Cons c s)
    then have "lang r [c]" using assms by simp
    with Cons show ?case using lang.star1 [of r "[c]" s] by simp
  qed
qed

lemma lang_cls_iff: "lang (RCls p) u \<longleftrightarrow> (\<exists>c. u = [c] \<and> p c)"
  by (auto simp: lang_RCls)

lemma lang_star_cls [simp]: "lang (RStar (RCls p)) s \<longleftrightarrow> list_all p s"
  by (rule lang_star_all) (rule lang_cls_iff)

lemma fullmatch_star_cls [simp]: "fullmatch (RStar (RCls p)) s \<longleftrightarrow> list_all p s"
  by (simp add: fullmatch_lang)

lemma fullmatch_seq: "fullmatch (RSeq r t) s \<longleftrightarrow> (\<exists>u v. s = u @ v \<and> fullmatch r u \<and> fullmatch t v)"
  by (simp add: fullmatch_lang lang_RSeq)

lemma fullmatch_cls: "fullmatch (RCls p) s \<longleftrightarrow> (\<exists>c. s = [c] \<and> p c)"
  by (simp add: fullmatch_lang lang_cls_iff)

lemma lang_cls_seq: "lang (RSeq (RCls p) t) s \<longleftrightarrow> (\<exists>c u. s = c # u \<and> p c \<and> lang t u)"
proof
  assume "\<exists>c u. s = c # u \<and> p c \<and> lang t u"
  then obtain c u where "s = [c] @ u" and "lang (RCls p) [c]" and "lang t u"
    by (auto simp: lang_RCls)
  then show "lang (RSeq (RCls p) t) s" using lang.seq by blast
qed (auto simp: lang_RSeq lang_RCls)

lemma fullmatch_cls_seq:
  "fullmatch (RSeq (RCls p) t) s \<longleftrightarrow> (\<exists>c u. s = c # u \<and> p c \<and> fullmatch t u)"
  by (simp only: fullmatch_lang lang_cls_seq)

lemma fullmatch_plus_cls [simp]: "fullmatch (rplus (RCls p)) s \<longleftrightarrow> s \<noteq> [] \<and> list_all p s"
  unfolding rplus_def fullmatch_cls_seq fullmatch_star_cls by (cases s) simp_all

lemma fullmatch_rep_cls: "fullmatch (rrep n (RCls p)) s \<longleftrightarrow> length s = n \<and> list_all p s"
proof (induction n arbitrary: s)
  case 0
  then show ?case by (auto simp: fullmatch_lang)
next
  case (Suc n)
  show ?case
    unfolding rrep.simps fullmatch_cls_seq Suc.IH by (cases s) auto
qed

lemma any_string_full [simp]: "fullmatch any_string s"
  by (simp add: any_string_def list_all_iff)

lemma search_iff: "search r s \<longleftrightarrow> (\<exists>u m v. s = u @ m @ v \<and> fullmatch r m)"
  by (auto simp: search_def fullmatch_seq)

end
