(* ===== verification/Subprocess.thy ===== *)
theory Subprocess
  imports Prelude
begin

text \<open>
  The result of one shell-free command (\<open>bounded_subprocess.py\<close>) and the loop that drains an
  output stream into a bounded buffer. What the command prints and how it exits is the
  environment's; the capture is exactly the first \<open>max_output_bytes\<close> bytes, and the truncation
  flag says whether there was more.
\<close>

record cmd_result =
  cr_argv :: "string list"
  cr_returncode :: "int option"
  cr_stdout :: string
  cr_stderr :: string
  cr_timed_out :: bool
  cr_truncated :: bool

text \<open>\<open>drain\<close>: one iteration per chunk read, until the stream is exhausted.\<close>

fun drain :: "nat \<Rightarrow> 'b list list \<Rightarrow> 'b list \<Rightarrow> bool \<Rightarrow> 'b list \<times> bool" where
  "drain max_output_bytes [] destination truncated = (destination, truncated)"
| "drain max_output_bytes (chunk # chunks) destination truncated =
     (let remaining = int max_output_bytes - int (length destination);
          destination' = (if remaining > 0 then destination @ take (nat remaining) chunk
                          else destination);
          truncated' = (if int (length chunk) > remaining then True else truncated)
      in drain max_output_bytes chunks destination' truncated')"

lemma drain_gen:
  "length d \<le> m \<Longrightarrow>
     drain m cs d t = (take m (d @ concat cs), t \<or> length (d @ concat cs) > m)"
proof (induction cs arbitrary: d t)
  case Nil
  then show ?case by simp
next
  case (Cons c cs)
  let ?d = "d @ take (m - length d) c"
  have step: "drain m (c # cs) d t = drain m cs ?d (length d + length c > m \<or> t)"
    using Cons.prems by (auto simp: Let_def nat_diff_distrib)
  have le: "length ?d \<le> m" using Cons.prems by auto
  show ?case
  proof (cases "length d + length c > m")
    case True
    then have "length ?d = m" using Cons.prems by simp
    with Cons.IH [OF le] step True show ?thesis
      using Cons.prems by simp
  next
    case False
    then have "?d = d @ c" by simp
    with Cons.IH [OF le] step False show ?thesis by simp
  qed
qed

end
