(* ===== verification/Lsf.thy ===== *)
theory Lsf
  imports Regex Subprocess
begin

text \<open>
  IBM LSF job identity, state and history (\<open>lsf.py\<close>): the argument vectors of the bounded
  queries, and the parsers that accept exactly one record for exactly the recorded job.
\<close>

definition SAFE_LSF_JOB :: rx where
  "SAFE_LSF_JOB = rplus (RCls is_digit)"

definition LSF_TERMINAL_STATES :: "string list" where
  "LSF_TERMINAL_STATES =
     [''completed'', ''failed'', ''post_processing_completed'', ''post_processing_failed'']"

datatype lsf_error = InvalidJobIdentity | InvalidSubmittingIdentity

text \<open>\<open>_validate_identity\<close>; the identity's type is a string in the model.\<close>

definition validate_identity :: "string \<Rightarrow> string \<Rightarrow> (lsf_error, unit) res" where
  "validate_identity job_id identity =
     (if \<not> fullmatch SAFE_LSF_JOB job_id then Inl InvalidJobIdentity
      else if identity = [] \<or> length identity > 256
              \<or> list_ex (\<lambda>c. code_point c \<in> {0, 13, 10}) identity
      then Inl InvalidSubmittingIdentity
      else Inr ())"

definition active_job_arguments :: "string \<Rightarrow> string \<Rightarrow> (lsf_error, string list) res" where
  "active_job_arguments job_id identity =
     bindR (validate_identity job_id identity)
       (\<lambda>_. Inr [''-noheader'', ''-u'', identity, ''-o'', ''jobid stat'', job_id])"

definition recent_job_arguments :: "string \<Rightarrow> string \<Rightarrow> (lsf_error, string list) res" where
  "recent_job_arguments job_id identity =
     bindR (active_job_arguments job_id identity) (\<lambda>args. Inr (''-a'' # args))"

definition historical_job_arguments :: "string \<Rightarrow> string \<Rightarrow> (lsf_error, string list) res" where
  "historical_job_arguments job_id identity =
     bindR (validate_identity job_id identity)
       (\<lambda>_. Inr [''-l'', ''-n'', ''0'', ''-u'', identity, job_id])"

definition parse_bjobs_job :: "string \<Rightarrow> string \<Rightarrow> (string \<times> string) option" where
  "parse_bjobs_job stdout expected_job_id =
     (if \<not> fullmatch SAFE_LSF_JOB expected_job_id then None
      else
        let rows = map split_ws (filter (\<lambda>line. py_strip line \<noteq> []) (splitlines stdout)) in
        if length rows \<noteq> 1 \<or> length (rows ! 0) \<noteq> 2 \<or> rows ! 0 ! 0 \<noteq> expected_job_id
           \<or> \<not> fullmatch SAFE_LSF_JOB (rows ! 0 ! 0)
        then None
        else Some (rows ! 0 ! 0, py_upper (rows ! 0 ! 1)))"

text \<open>
  The two patterns whose groups are read, \<open>\bJob\s+<([0-9]+)>\<close> and \<open>\bStatus\s+<([A-Za-z_]+)>\<close>,
  have one shape: a word at a word boundary, spaces, and a bracketed run of a character class.
  No class overlaps what follows it, so the greedy reading is the only one. The reader returns
  the group and the rest of the text.
\<close>

definition is_word_char :: "char \<Rightarrow> bool" where
  "is_word_char c \<longleftrightarrow> is_alnum c \<or> c = CHR ''_''"

definition match_tag :: "string \<Rightarrow> (char \<Rightarrow> bool) \<Rightarrow> string \<Rightarrow> (string \<times> string) option" where
  "match_tag word p s =
     (if \<not> starts_with word s then None
      else
        let r = drop (length word) s; ws = takeWhile is_space r; r' = dropWhile is_space r in
        if ws = [] then None
        else (case r' of
            [] \<Rightarrow> None
          | c # cs \<Rightarrow>
              if c \<noteq> CHR ''<'' then None
              else
                let g = takeWhile p cs in
                if g = [] then None
                else (case dropWhile p cs of
                    [] \<Rightarrow> None
                  | d # ds \<Rightarrow> if d = CHR ''>'' then Some (g, ds) else None)))"

lemma match_tag_shorter: "match_tag word p s = Some (g, rest) \<Longrightarrow> length rest < length s"
proof -
  assume a: "match_tag word p s = Some (g, rest)"
  let ?r' = "dropWhile is_space (drop (length word) s)"
  have le: "length ?r' \<le> length s"
    using length_dropWhile_le [of is_space "drop (length word) s"] by simp
  obtain c cs d where r: "?r' = c # cs" and "dropWhile p cs = d # rest"
    using a by (auto simp: match_tag_def Let_def split: if_splits list.splits)
  then have "length rest < length cs"
    using length_dropWhile_le [of p cs] by simp
  then show ?thesis using le r by simp
qed

text \<open>\<open>re.finditer\<close>: matches from left to right, each with the text after it; the flag is the boundary.\<close>

function find_tags :: "string \<Rightarrow> (char \<Rightarrow> bool) \<Rightarrow> bool \<Rightarrow> string \<Rightarrow> (string \<times> string) list" where
  "find_tags word p at_boundary s =
     (case s of
        [] \<Rightarrow> []
      | c # cs \<Rightarrow>
          (case (if at_boundary then match_tag word p s else None) of
             None \<Rightarrow> find_tags word p (\<not> is_word_char c) cs
           | Some (g, rest) \<Rightarrow> (g, rest) # find_tags word p True rest))"
  by pat_completeness auto
termination
  by (relation "measure (\<lambda>(_, _, _, s). length s)")
    (auto dest: match_tag_shorter split: if_splits)

declare find_tags.simps [simp del]

definition job_tags :: "string \<Rightarrow> (string \<times> string) list" where
  "job_tags s = find_tags ''Job'' is_digit True s"

definition status_tags :: "string \<Rightarrow> (string \<times> string) list" where
  "status_tags s = find_tags ''Status'' (\<lambda>c. is_upper c \<or> is_lower c \<or> c = CHR ''_'') True s"

definition parse_bhist_job :: "string \<Rightarrow> string \<Rightarrow> (string \<times> string) option" where
  "parse_bhist_job stdout expected_job_id =
     (if \<not> fullmatch SAFE_LSF_JOB expected_job_id then None
      else
        let headers = job_tags stdout in
        if length headers \<noteq> 1 \<or> fst (headers ! 0) \<noteq> expected_job_id then None
        else
          let statuses = map fst (status_tags (snd (headers ! 0))) in
          if length statuses \<noteq> 1 then None
          else Some (expected_job_id, py_upper (statuses ! 0)))"

definition normalize_lsf_state :: "string \<Rightarrow> string" where
  "normalize_lsf_state v =
     (case map_of
        [(''PEND'', ''pending''), (''WAIT'', ''pending''), (''PROV'', ''pending''),
         (''RUN'', ''running''), (''PSUSP'', ''suspended''), (''USUSP'', ''suspended''),
         (''SSUSP'', ''suspended''), (''DONE'', ''completed''), (''EXIT'', ''failed''),
         (''POST_DONE'', ''post_processing_completed''),
         (''POST_ERR'', ''post_processing_failed''),
         (''ZOMBI'', ''scheduler_uncertain''), (''UNKWN'', ''scheduler_uncertain'')]
        (py_upper (py_strip v))
      of None \<Rightarrow> ''unknown'' | Some s \<Rightarrow> s)"

text \<open>The three phrasings of an LSF query that no longer knows the job.\<close>

abbreviation rsp :: rx where
  "rsp \<equiv> rplus (RCls is_space)"

definition lsf_unobservable_rx :: rx where
  "lsf_unobservable_rx =
     RAlt (rseq [rlit ''job'',
                 ropt (rseq [rsp, rlit ''<'', rplus (RCls (\<lambda>c. c \<noteq> CHR ''>'')), rlit ''>'']),
                 rsp,
                 RAlt (rseq [rlit ''is'', rsp, rlit ''not'', rsp, rlit ''found''])
                      (rseq [rlit ''not'', rsp, rlit ''found''])])
    (RAlt (rseq [rlit ''no'', rsp, ropt (rseq [rlit ''unfinished'', rsp]), rlit ''job'', rsp,
                 rlit ''found''])
          (rseq [rlit ''not'', rsp, rlit ''found'', rsp, rlit ''in'', rsp, rlit ''job'', rsp,
                 rlit ''list'']))"

definition lsf_job_is_unobservable :: "cmd_result \<Rightarrow> bool" where
  "lsf_job_is_unobservable result =
     search lsf_unobservable_rx (casefold (cr_stderr result @ [CHR 0x0A] @ cr_stdout result))"

section \<open>Exactness of the parsers\<close>

lemma safe_lsf_job_iff [str_simps]: "fullmatch SAFE_LSF_JOB s \<longleftrightarrow> all_digits s"
  by (simp add: SAFE_LSF_JOB_def all_digits_def)

lemma parse_bjobs_exact: "parse_bjobs_job out j = Some (j', st) \<Longrightarrow> j' = j \<and> all_digits j"
  by (auto simp: parse_bjobs_job_def Let_def str_simps split: if_splits)

lemma parse_bhist_exact: "parse_bhist_job out j = Some (j', st) \<Longrightarrow> j' = j \<and> all_digits j"
  by (auto simp: parse_bhist_job_def Let_def str_simps split: if_splits)

lemma match_tag_group: "match_tag word p s = Some (g, rest) \<Longrightarrow> g \<noteq> [] \<and> list_all p g"
  by (auto simp: match_tag_def Let_def list_all_iff dest: set_takeWhileD
      split: if_splits list.splits)

lemma find_tags_groups: "(g, rest) \<in> set (find_tags word p b s) \<Longrightarrow> g \<noteq> [] \<and> list_all p g"
proof (induction word p b s rule: find_tags.induct)
  case (1 word p b s)
  show ?case
  proof (cases s)
    case Nil
    with 1 show ?thesis by (simp add: find_tags.simps)
  next
    case (Cons c cs)
    show ?thesis
    proof (cases "if b then match_tag word p s else None")
      case None
      with 1(3) Cons None [unfolded Cons] have "(g, rest) \<in> set (find_tags word p (\<not> is_word_char c) cs)"
        by (simp add: find_tags.simps [of word p b "c # cs"])
      with 1(1) Cons None show ?thesis by blast
    next
      case (Some gr)
      obtain g' r' where gr: "gr = (g', r')" by (cases gr)
      with Some have m: "match_tag word p s = Some (g', r')" by (simp split: if_splits)
      from 1(3) Cons Some [unfolded Cons] gr
      have "(g, rest) = (g', r') \<or> (g, rest) \<in> set (find_tags word p True r')"
        by (simp add: find_tags.simps [of word p b "c # cs"])
      with 1(2) Cons Some gr match_tag_group [OF m] show ?thesis by blast
    qed
  qed
qed

lemma normalize_lsf_cases:
  "normalize_lsf_state v \<in>
     {''pending'', ''running'', ''suspended'', ''completed'', ''failed'',
      ''post_processing_completed'', ''post_processing_failed'', ''scheduler_uncertain'',
      ''unknown''}"
  by (auto simp: normalize_lsf_state_def split: option.split dest!: map_of_SomeD)

end
