(* ===== verification/Paths.thy ===== *)
theory Paths
  imports Prelude
begin

text \<open>
  \<open>pathlib.PurePosixPath\<close> as the program uses it: a path is its root and its parts, with empty
  and \<open>.\<close> components dropped when the text is parsed. Following symbolic links is the file
  system's business and is not done here.
\<close>

record ppath =
  p_root :: string
  p_parts :: "string list"

text \<open>Exactly two leading slashes are a root of their own, as POSIX allows.\<close>

definition path_root :: "string \<Rightarrow> string" where
  "path_root s =
     (if \<not> starts_with ''/'' s then []
      else if starts_with ''//'' s \<and> \<not> starts_with ''///'' s then ''//''
      else ''/'')"

definition path_of :: "string \<Rightarrow> ppath" where
  "path_of s = \<lparr>p_root = path_root s,
     p_parts = filter (\<lambda>c. c \<noteq> [] \<and> c \<noteq> ''.'') (split_on (CHR ''/'') s)\<rparr>"

definition path_str :: "ppath \<Rightarrow> string" where
  "path_str p =
     (if p_root p = [] \<and> p_parts p = [] then ''.'' else p_root p @ join ''/'' (p_parts p))"

definition is_absolute :: "ppath \<Rightarrow> bool" where
  "is_absolute p \<longleftrightarrow> p_root p \<noteq> []"

text \<open>\<open>p / s\<close>: an absolute right operand replaces the left.\<close>

definition path_join :: "ppath \<Rightarrow> string \<Rightarrow> ppath" where
  "path_join p s =
     (let q = path_of s in
      if is_absolute q then q else p\<lparr>p_parts := p_parts p @ p_parts q\<rparr>)"

definition path_name :: "ppath \<Rightarrow> string" where
  "path_name p = (if p_parts p = [] then [] else last (p_parts p))"

definition path_parent :: "ppath \<Rightarrow> ppath" where
  "path_parent p = p\<lparr>p_parts := butlast (p_parts p)\<rparr>"

text \<open>\<open>path.relative_to(root)\<close> succeeds when the root's parts are a prefix.\<close>

definition is_relative_to :: "ppath \<Rightarrow> ppath \<Rightarrow> bool" where
  "is_relative_to p r \<longleftrightarrow> p_root p = p_root r \<and> take (length (p_parts r)) (p_parts p) = p_parts r"

lemma path_of_component:
  "CHR ''/'' \<notin> set s \<Longrightarrow> s \<noteq> [] \<Longrightarrow> s \<noteq> ''.'' \<Longrightarrow> path_of s = \<lparr>p_root = [], p_parts = [s]\<rparr>"
  by (cases s) (auto simp: path_of_def path_root_def starts_with_def split_on_single)

lemma path_join_component:
  assumes "CHR ''/'' \<notin> set s" and "s \<noteq> []" and "s \<noteq> ''.''"
  shows "path_join p s = p\<lparr>p_parts := p_parts p @ [s]\<rparr>"
  by (simp add: path_join_def path_of_component [OF assms] is_absolute_def)

end
