(* ===== verification/RemoteWorker.thy ===== *)
theory RemoteWorker
  imports Lsf Paths
begin

text \<open>
  The one-shot login-node worker (\<open>remote_worker.py\<close>): preparation of an execution's staging
  directory, submission to the scheduler, reconciliation and cancellation. The durable state is
  the host: the submission-state files, the staged files, the directories, and the commands
  handed to the scheduler so far. Each handler is a sequence of durable steps, so that the
  worker may die between any two of them.
\<close>

section \<open>The host and the worker's environment\<close>

text \<open>
  A submission-state file is absent, unreadable, or the JSON value it holds (the worker replaces
  it atomically). Other files are their bytes. The log keeps what was asked of the scheduler,
  a submission with the state file on whose behalf it ran.
\<close>

datatype file_state = Corrupt | Holds json

datatype command =
    SubmitCmd ppath "string list" "string option"
  | QueryCmd "string list"
  | CancelCmd "string list"

record host =
  h_state :: "ppath \<Rightarrow> file_state option"
  h_blob :: "ppath \<Rightarrow> string option"
  h_dirs :: "ppath \<Rightarrow> bool"
  h_log :: "command list"

text \<open>
  What one invocation sees: \<open>shutil.which\<close>, the outcome of the n-th command it runs (\<open>None\<close> when
  the process cannot be started), the n-th reading of the clock, the user, and the digest and
  JSON decoding of the standard library.
\<close>

record renv =
  e_which :: "string \<Rightarrow> string option"
  e_run :: "nat \<Rightarrow> cmd_result option"
  e_now :: "nat \<Rightarrow> string"
  e_user :: string
  e_sha256 :: "string \<Rightarrow> string"
  e_loads :: "string \<Rightarrow> json option"

datatype remote_error =
    RemoteWorkerError string
  | RemoteKeyError string
  | RemoteTypeError
  | RemoteOSError
  | RemoteLsfError lsf_error

type_synonym reply = "string \<times> json dict"
type_synonym 'a worker = "(host, remote_error, 'a) eff"

definition EXECUTION_ID :: rx where
  "EXECUTION_ID = rrep 26 (RCls (\<lambda>c. is_digit c \<or> (is_upper c \<and> c \<notin> set ''ILOU'')))"

definition SLURM_JOB :: rx where
  "SLURM_JOB = RSeq (rplus (RCls is_digit)) (ropt (RSeq (rlit ''_'') (rplus (RCls is_digit))))"

definition PBS_JOB :: rx where
  "PBS_JOB = RSeq (RCls is_alnum) (RStar (RCls (\<lambda>c. is_alnum c \<or> c \<in> set ''_.-'')))"

definition SHA256_HEX :: rx where
  "SHA256_HEX = rrep 64 (RCls (\<lambda>c. is_digit c \<or> c \<in> set ''abcdef''))"

lemma fullmatch_EXECUTION_ID:
  "fullmatch EXECUTION_ID s \<longleftrightarrow>
     length s = 26 \<and> list_all (\<lambda>c. is_digit c \<or> (is_upper c \<and> c \<notin> set ''ILOU'')) s"
  by (simp only: EXECUTION_ID_def fullmatch_rep_cls)

lemma fullmatch_SHA256_HEX:
  "fullmatch SHA256_HEX s \<longleftrightarrow>
     length s = 64 \<and> list_all (\<lambda>c. is_digit c \<or> c \<in> set ''abcdef'') s"
  by (simp only: SHA256_HEX_def fullmatch_rep_cls)

definition families :: "string list" where
  "families = [''slurm'', ''pbs'', ''lsf'']"

section \<open>Dictionary access\<close>

text \<open>\<open>d[k]\<close>\<close>

definition item :: "json dict \<Rightarrow> string \<Rightarrow> (remote_error, json) res" where
  "item d k = (case dict_get d k of None \<Rightarrow> Inl (RemoteKeyError k) | Some v \<Rightarrow> Inr v)"

text \<open>\<open>v in {...}\<close> for a set of strings\<close>

definition in_strings :: "json \<Rightarrow> string list \<Rightarrow> (remote_error, bool) res" where
  "in_strings v xs =
     (if hashable v then Inr (\<exists>x \<in> set xs. v = JStr x) else Inl RemoteTypeError)"

definition as_str :: "json \<Rightarrow> (remote_error, string) res" where
  "as_str v = (case v of JStr s \<Rightarrow> Inr s | _ \<Rightarrow> Inl RemoteTypeError)"

definition as_dict :: "json \<Rightarrow> (remote_error, json dict) res" where
  "as_dict v = (case v of JObj d \<Rightarrow> Inr d | _ \<Rightarrow> Inl RemoteTypeError)"

section \<open>Helpers of the worker\<close>

definition execution_of :: "json dict \<Rightarrow> (remote_error, string) res" where
  "execution_of payload =
     (case jget payload ''execution_id'' of
        JStr v \<Rightarrow>
          if fullmatch EXECUTION_ID v then Inr v
          else Inl (RemoteWorkerError ''canonical execution identity is required'')
      | _ \<Rightarrow> Inl (RemoteWorkerError ''canonical execution identity is required''))"

definition absolute_path :: "json \<Rightarrow> string \<Rightarrow> (remote_error, ppath) res" where
  "absolute_path v label =
     (case v of
        JStr s \<Rightarrow>
          if \<not> starts_with ''/'' s \<or> list_ex (\<lambda>c. code_point c \<in> {0, 13, 10}) s
          then Inl (RemoteWorkerError (label @ '' must be an absolute path''))
          else let path = path_of s in
            if ''..'' \<in> set (p_parts path)
            then Inl (RemoteWorkerError (label @ '' cannot traverse parent directories''))
            else Inr path
      | _ \<Rightarrow> Inl (RemoteWorkerError (label @ '' must be an absolute path'')))"

definition read_state :: "ppath \<Rightarrow> string \<Rightarrow> json dict worker" where
  "read_state path execution_id = readE (\<lambda>h.
     case h_state h path of
       Some (Holds v) \<Rightarrow>
         (case v of
            JObj d \<Rightarrow>
              if jget d ''execution_id'' \<noteq> JStr execution_id
              then Inl (RemoteWorkerError ''remote submission state does not match execution'')
              else Inr d
          | _ \<Rightarrow> Inl (RemoteWorkerError ''remote submission state does not match execution''))
     | _ \<Rightarrow> Inl (RemoteWorkerError ''remote submission state is unavailable''))"

definition write_state :: "ppath \<Rightarrow> json dict \<Rightarrow> unit worker" where
  "write_state path v = writeE (\<lambda>h. h\<lparr>h_state := (h_state h)(path := Some (Holds (JObj v)))\<rparr>)"

definition state_of :: "json dict \<Rightarrow> string \<Rightarrow> (ppath \<times> json dict) worker" where
  "state_of payload execution_id =
     bindE (liftE (absolute_path (jget payload ''staging_directory'') ''staging directory''))
       (\<lambda>staging.
     if path_name staging \<noteq> execution_id
        \<or> path_name (path_parent staging) \<noteq> ''executions''
        \<or> path_name (path_parent (path_parent staging)) \<noteq> ''.bourne''
     then raiseE (RemoteWorkerError ''staging directory is not a Bourne execution path'')
     else
       let state_path = path_join staging ''submission-state.json'' in
       bindE (read_state state_path execution_id) (\<lambda>state. retE (state_path, state)))"

definition public_state :: "json dict \<Rightarrow> json dict" where
  "public_state state =
     filter (\<lambda>(key, _). key \<notin> {''expected_files'', ''expected_variant''}) state"

definition first_word :: "string \<Rightarrow> string" where
  "first_word s = (case split_ws s of [] \<Rightarrow> [] | w # _ \<Rightarrow> w)"

definition job_id_of :: "string \<Rightarrow> string \<Rightarrow> string option" where
  "job_id_of family stdout =
     (if family = ''lsf'' then
        let matches = map fst (job_tags stdout) in
        if length matches = 1 \<and> fullmatch SAFE_LSF_JOB (matches ! 0) then Some (matches ! 0)
        else None
      else
        let v = (if family = ''slurm'' then hd (split_on (CHR '';'') (py_strip stdout))
                 else first_word (py_strip stdout));
            pattern = (if family = ''slurm'' then SLURM_JOB else PBS_JOB)
        in if fullmatch pattern v then Some v else None)"

text \<open>\<open>{"slurm": a, "pbs": b, "lsf": c}[family]\<close>\<close>

definition by_family :: "string \<Rightarrow> string \<Rightarrow> string \<Rightarrow> json \<Rightarrow> (remote_error, string) res" where
  "by_family a b c family =
     (if \<not> hashable family then Inl RemoteTypeError
      else if family = JStr ''slurm'' then Inr a
      else if family = JStr ''pbs'' then Inr b
      else if family = JStr ''lsf'' then Inr c
      else Inl (RemoteKeyError (the_str family)))"

text \<open>\<open>run_bounded_command\<close>: the command reaches the system, then its outcome is known.\<close>

definition run_cmd :: "renv \<Rightarrow> nat \<Rightarrow> command \<Rightarrow> cmd_result worker" where
  "run_cmd env n c =
     bindE (writeE (\<lambda>h. h\<lparr>h_log := h_log h @ [c]\<rparr>)) (\<lambda>_.
       liftE (case e_run env n of None \<Rightarrow> Inl RemoteOSError | Some r \<Rightarrow> Inr r))"

definition failed_run :: "cmd_result \<Rightarrow> bool" where
  "failed_run r \<longleftrightarrow> cr_timed_out r \<or> cr_returncode r \<noteq> Some 0"

section \<open>Prepare\<close>

definition expected_names :: "string list" where
  "expected_names = [''worker.pyz'', ''plan.json'', ''job.sh'']"

definition check_digest :: "json \<Rightarrow> remote_error \<Rightarrow> (remote_error, unit) res" where
  "check_digest v e =
     bindR (as_str v) (\<lambda>s. raise_if (\<not> fullmatch SHA256_HEX s) e)"

definition expected_of :: "json dict \<Rightarrow> (remote_error, json dict) res" where
  "expected_of payload =
     (case jget payload ''expected_files'' of
        JObj d \<Rightarrow>
          if set (dict_keys d) \<noteq> set expected_names
          then Inl (RemoteWorkerError ''remote preparation requires exact staged-file digests'')
          else bindR (checkAll (\<lambda>(_, v).
                 check_digest v (RemoteWorkerError ''staged-file digest is invalid'')) d)
               (\<lambda>_. Inr d)
      | _ \<Rightarrow> Inl (RemoteWorkerError ''remote preparation requires exact staged-file digests''))"

definition make_dirs :: "ppath \<Rightarrow> host \<Rightarrow> host" where
  "make_dirs p h = h\<lparr>h_dirs := (\<lambda>q. h_dirs h q \<or> is_relative_to p q)\<rparr>"

text \<open>The variant's checks and the directory it needs.\<close>

definition prepare_variant :: "ppath \<Rightarrow> json \<Rightarrow> unit worker" where
  "prepare_variant staging_root variant =
     (case variant of
        JNull \<Rightarrow> retE ()
      | JObj d \<Rightarrow>
          if set (dict_keys d) \<noteq> {''remote_path'', ''sha256''}
          then raiseE (RemoteWorkerError ''remote variant staging request is invalid'')
          else
            bindE (liftE (absolute_path (jget d ''remote_path'') ''variant path''))
              (\<lambda>variant_path.
            if \<not> is_relative_to variant_path
                  (path_join (path_join staging_root ''.bourne'') ''variants'')
            then raiseE (RemoteWorkerError ''variant path is outside Bourne staging'')
            else
              bindE (liftE (check_digest (jget d ''sha256'')
                       (RemoteWorkerError ''variant digest is invalid''))) (\<lambda>_.
              writeE (make_dirs (path_parent variant_path))))
      | _ \<Rightarrow> raiseE (RemoteWorkerError ''remote variant staging request is invalid''))"

definition staging_of :: "ppath \<Rightarrow> string \<Rightarrow> ppath" where
  "staging_of staging_root execution_id =
     path_join (path_join (path_join staging_root ''.bourne'') ''executions'') execution_id"

definition new_state ::
  "renv \<Rightarrow> string \<Rightarrow> json \<Rightarrow> ppath \<Rightarrow> json dict \<Rightarrow> json \<Rightarrow> json dict" where
  "new_state env execution_id family staging expected variant =
     [(''execution_id'', JStr execution_id),
      (''state'', JStr ''prepared''),
      (''scheduler_family'', family),
      (''submitting_identity'', JStr (e_user env)),
      (''staging_directory'', JStr (path_str staging)),
      (''expected_files'', JObj expected),
      (''expected_variant'', variant),
      (''created_at'', JStr (e_now env 0)),
      (''updated_at'', JStr (e_now env 1))]"

text \<open>From the execution's state file on: a retry compares, a first call creates.\<close>

definition prepare_retry :: "json \<Rightarrow> json dict \<Rightarrow> json \<Rightarrow> json dict \<Rightarrow> reply worker" where
  "prepare_retry family expected variant state =
     (if \<not> py_eq (jget state ''scheduler_family'') family
         \<or> \<not> py_eq (jget state ''expected_files'') (JObj expected)
         \<or> \<not> py_eq (jget state ''expected_variant'') variant
      then raiseE (RemoteWorkerError
             ''retry content conflicts with immutable remote execution state'')
      else retE (''ok'', public_state state))"

definition prepare_new ::
  "renv \<Rightarrow> string \<Rightarrow> json \<Rightarrow> json dict \<Rightarrow> json \<Rightarrow> ppath \<Rightarrow> ppath \<Rightarrow> reply worker" where
  "prepare_new env execution_id family expected variant staging state_path =
     bindE (readE (\<lambda>h. if h_dirs h staging then Inl RemoteOSError else Inr ())) (\<lambda>_.
     bindE (writeE (make_dirs staging)) (\<lambda>_.
     let state = new_state env execution_id family staging expected variant in
     bindE (write_state state_path state) (\<lambda>_.
     retE (''ok'', public_state state))))"

definition prepare :: "renv \<Rightarrow> json dict \<Rightarrow> reply worker" where
  "prepare env payload =
     bindE (liftE (execution_of payload)) (\<lambda>execution_id.
     bindE (liftE (absolute_path (jget payload ''staging_root'') ''staging root''))
       (\<lambda>staging_root.
     let family = jget payload ''scheduler_family'' in
     bindE (liftE (in_strings family families)) (\<lambda>known.
     if \<not> known
     then raiseE (RemoteWorkerError ''remote preparation requires Slurm, PBS, or LSF'')
     else
       bindE (liftE (expected_of payload)) (\<lambda>expected.
       let variant = jget payload ''variant'' in
       bindE (prepare_variant staging_root variant) (\<lambda>_.
       let staging = staging_of staging_root execution_id;
           state_path = path_join staging ''submission-state.json'' in
       bindE (readE (\<lambda>h. Inr (h_state h state_path \<noteq> None))) (\<lambda>exists.
       if exists then
         bindE (read_state state_path execution_id) (prepare_retry family expected variant)
       else prepare_new env execution_id family expected variant staging state_path))))))"

section \<open>Submit\<close>

definition stored_blob_ok :: "renv \<Rightarrow> host \<Rightarrow> ppath \<Rightarrow> json \<Rightarrow> bool" where
  "stored_blob_ok env h path digest =
     (case h_blob h path of None \<Rightarrow> False | Some b \<Rightarrow> JStr (e_sha256 env b) = digest)"

text \<open>The loop over the expected files: the first that is absent or changed.\<close>

fun changed_file :: "renv \<Rightarrow> host \<Rightarrow> ppath \<Rightarrow> json dict \<Rightarrow> string option" where
  "changed_file env h staging [] = None"
| "changed_file env h staging ((name, digest) # rest) =
     (if stored_blob_ok env h (path_join staging name) digest
      then changed_file env h staging rest else Some name)"

definition changed_variant :: "renv \<Rightarrow> host \<Rightarrow> json \<Rightarrow> (remote_error, bool) res" where
  "changed_variant env h variant =
     (if variant = JNull then Inr False
      else
        bindR (as_dict variant) (\<lambda>d.
        bindR (item d ''remote_path'') (\<lambda>p.
        bindR (as_str p) (\<lambda>s.
        if h_blob h (path_of s) = None then Inr True
        else bindR (item d ''sha256'') (\<lambda>digest.
          Inr (\<not> stored_blob_ok env h (path_of s) digest))))))"

definition with_state :: "string \<Rightarrow> string \<Rightarrow> json dict \<Rightarrow> json dict" where
  "with_state st now state =
     dict_set ''updated_at'' (JStr now) (dict_set ''state'' (JStr st) state)"

text \<open>The scheduler's command line and standard input for one family.\<close>

definition submit_argv :: "json \<Rightarrow> string \<Rightarrow> ppath \<Rightarrow> string list" where
  "submit_argv family executable staging =
     (if family = JStr ''slurm''
      then [executable, ''--parsable'', path_str (path_join staging ''job.sh'')]
      else if family = JStr ''pbs'' then [executable, path_str (path_join staging ''job.sh'')]
      else [executable])"

definition submit_input :: "json \<Rightarrow> ppath \<Rightarrow> string option worker" where
  "submit_input family staging =
     (if family = JStr ''slurm'' \<or> family = JStr ''pbs'' then retE None
      else readE (\<lambda>h. case h_blob h (path_join staging ''job.sh'') of
             None \<Rightarrow> Inl RemoteOSError | Some b \<Rightarrow> Inr (Some b)))"

text \<open>From the decision to submit on: the state is written first, then the command runs.\<close>

definition launch :: "renv \<Rightarrow> ppath \<Rightarrow> json dict \<Rightarrow> json \<Rightarrow> string \<Rightarrow> ppath \<Rightarrow> reply worker" where
  "launch env state_path state0 family executable staging =
     (let state = with_state ''submitting'' (e_now env 0) state0 in
     bindE (write_state state_path state) (\<lambda>_.
     bindE (submit_input family staging) (\<lambda>input.
     bindE (run_cmd env 0 (SubmitCmd state_path (submit_argv family executable staging) input))
       (\<lambda>result.
     if cr_timed_out result then
       let state = dict_set ''diagnostic'' (JStr ''scheduler submission timed out'')
                     (with_state ''ambiguous'' (e_now env 1) state) in
       bindE (write_state state_path state) (\<lambda>_. retE (''ambiguous'', public_state state))
     else if cr_returncode result \<noteq> Some 0 then
       let state = dict_set ''diagnostic'' (JStr (take 4096 (cr_stderr result)))
                     (with_state ''submission_failed'' (e_now env 1) state) in
       bindE (write_state state_path state) (\<lambda>_. retE (''failed'', public_state state))
     else (case job_id_of (the_str family) (cr_stdout result) of
         None \<Rightarrow>
           let state = dict_set ''diagnostic''
                         (JStr ''scheduler returned no valid job identity'')
                         (with_state ''ambiguous'' (e_now env 1) state) in
           bindE (write_state state_path state) (\<lambda>_. retE (''ambiguous'', public_state state))
       | Some job_id \<Rightarrow>
           let state = dict_set ''updated_at'' (JStr (e_now env 2))
                        (dict_set ''submitted_at'' (JStr (e_now env 1))
                        (dict_set ''job_id'' (JStr job_id)
                        (dict_set ''state'' (JStr ''submitted'') state))) in
           bindE (write_state state_path state) (\<lambda>_. retE (''ok'', public_state state)))))))"

definition submit :: "renv \<Rightarrow> json dict \<Rightarrow> reply worker" where
  "submit env payload =
     bindE (liftE (execution_of payload)) (\<lambda>execution_id.
     bindE (state_of payload execution_id) (\<lambda>(state_path, state).
     bindE (liftE (item state ''state'')) (\<lambda>st.
     if st = JStr ''submitted'' then retE (''ok'', public_state state)
     else bindE (liftE (in_strings st [''submitting'', ''ambiguous''])) (\<lambda>pending.
     if pending then
       let state = with_state ''ambiguous'' (e_now env 0) state in
       bindE (write_state state_path state) (\<lambda>_. retE (''ambiguous'', public_state state))
     else if st \<noteq> JStr ''prepared'' then retE (''failed'', public_state state)
     else
       bindE (liftE (bindR (item state ''staging_directory'') as_str)) (\<lambda>staging_text.
       let staging = path_of staging_text in
       bindE (liftE (bindR (item state ''expected_files'') as_dict)) (\<lambda>expected.
       bindE (readE (\<lambda>h. Inr (changed_file env h staging expected))) (\<lambda>changed.
       case changed of
         Some name \<Rightarrow>
           retE (''failed'', dict_set ''diagnostic'' (JStr (name @ '' is absent or changed''))
                  (public_state state))
       | None \<Rightarrow>
       bindE (readE (\<lambda>h. changed_variant env h (jget state ''expected_variant'')))
         (\<lambda>variant_changed.
       if variant_changed then
         retE (''failed'', dict_set ''diagnostic''
                (JStr ''workload variant is absent or changed'') (public_state state))
       else
       bindE (liftE (item state ''scheduler_family'')) (\<lambda>family.
       bindE (liftE (by_family ''sbatch'' ''qsub'' ''bsub'' family)) (\<lambda>command.
       case e_which env command of
         None \<Rightarrow>
           let state = dict_set ''diagnostic'' (JStr (command @ '' unavailable''))
                         (with_state ''submission_failed'' (e_now env 0) state) in
           bindE (write_state state_path state) (\<lambda>_.
             retE (''unavailable'', public_state state))
       | Some executable \<Rightarrow>
           launch env state_path state family executable staging))))))))))"

section \<open>Observation of the scheduler\<close>

definition site_observation ::
  "string \<Rightarrow> bool \<Rightarrow> string \<Rightarrow> json dict \<Rightarrow> json dict" where
  "site_observation state observable source rest =
     [(''state'', JStr state), (''observable'', JBool observable), (''source'', JStr source)] @ rest"

definition lsf_observation :: "cmd_result \<Rightarrow> string \<Rightarrow> string \<Rightarrow> json dict" where
  "lsf_observation result job_id source =
     (if failed_run result
      then site_observation ''unobservable'' False source
             [(''terminal'', JBool False),
              (''diagnostic'', JStr (take 4096
                 (if cr_stderr result = [] then ''LSF query failed'' else cr_stderr result)))]
      else (case parse_bjobs_job (cr_stdout result) job_id of
         None \<Rightarrow> site_observation ''unobservable'' False source
                  [(''terminal'', JBool False),
                   (''diagnostic'', JStr ''no unique exact LSF job record'')]
       | Some (_, raw_state) \<Rightarrow>
           let state = normalize_lsf_state raw_state in
           site_observation state True source
             [(''terminal'', JBool (state \<in> set LSF_TERMINAL_STATES)),
              (''raw_scheduler_state'', JStr raw_state)]))"

definition lsf_history_observation :: "cmd_result \<Rightarrow> string \<Rightarrow> json dict" where
  "lsf_history_observation result job_id =
     (if failed_run result
      then site_observation ''unobservable'' False ''historical_accounting''
             [(''terminal'', JBool False),
              (''diagnostic'', JStr (take 4096
                 (if cr_stderr result = [] then ''exact-job bhist query failed''
                  else cr_stderr result)))]
      else (case parse_bhist_job (cr_stdout result) job_id of
         None \<Rightarrow> site_observation ''unobservable'' False ''historical_accounting''
                  [(''terminal'', JBool False),
                   (''diagnostic'',
                    JStr ''bhist output did not contain one unique exact job record'')]
       | Some (_, raw_state) \<Rightarrow>
           let state = normalize_lsf_state raw_state in
           site_observation state True ''historical_accounting''
             [(''terminal'', JBool (state \<in> set LSF_TERMINAL_STATES)),
              (''raw_scheduler_state'', JStr raw_state)]))"

text \<open>
  \<open>re.search(r"^\s*job_state\s*=\s*([A-Za-z])\s*$", text, re.MULTILINE)\<close>: \<open>^\<close> matches at the start
  and after each newline, \<open>$\<close> at the end and before a newline. Since \<open>\s\<close> includes newlines,
  what follows the letter is spaces up to a newline or the end; the letter is the group.
\<close>

definition job_state_here :: "string \<Rightarrow> char option" where
  "job_state_here s =
     (let r = dropWhile is_space s in
      if \<not> starts_with ''job_state'' r then None
      else (case dropWhile is_space (drop 9 r) of
          [] \<Rightarrow> None
        | c # r2 \<Rightarrow>
            if c \<noteq> CHR ''='' then None
            else (case dropWhile is_space r2 of
                [] \<Rightarrow> None
              | g # r3 \<Rightarrow>
                  if (is_upper g \<or> is_lower g)
                     \<and> (CHR 0x0A \<in> set (takeWhile is_space r3) \<or> dropWhile is_space r3 = [])
                  then Some g else None)))"

fun job_state_search :: "bool \<Rightarrow> string \<Rightarrow> char option" where
  "job_state_search line_start [] = None"
| "job_state_search line_start (c # cs) =
     (case (if line_start then job_state_here (c # cs) else None) of
        Some g \<Rightarrow> Some g
      | None \<Rightarrow> job_state_search (c = CHR 0x0A) cs)"

definition pbs_state_of :: "char \<Rightarrow> string" where
  "pbs_state_of c =
     (let u = upper_char c in
      if u = CHR ''Q'' then ''queued'' else if u = CHR ''R'' then ''running''
      else if u = CHR ''F'' then ''finished'' else if u = CHR ''C'' then ''completed''
      else ''unknown'')"

definition active_argv :: "string \<Rightarrow> json \<Rightarrow> string \<Rightarrow> string \<Rightarrow> (remote_error, string list) res" where
  "active_argv executable family job_id identity =
     (if family = JStr ''slurm''
      then Inr [executable, ''--noheader'', ''--jobs'', job_id, ''--user'', identity,
                ''--format=%T'']
      else if family = JStr ''pbs'' then Inr [executable, ''-f'', job_id]
      else mapErr RemoteLsfError (bindR (active_job_arguments job_id identity)
             (\<lambda>args. Inr (executable # args))))"

definition lsf_fallback ::
  "renv \<Rightarrow> string \<Rightarrow> cmd_result \<Rightarrow> string \<Rightarrow> string \<Rightarrow> json dict worker" where
  "lsf_fallback env executable result job_id identity =
     (let active = lsf_observation result job_id ''active'' in
      if jget active ''observable'' = JBool True then retE active
      else if cr_timed_out result
              \<or> (cr_returncode result \<noteq> Some 0 \<and> \<not> lsf_job_is_unobservable result)
      then retE active
      else if cr_returncode result = Some 0 \<and> py_strip (cr_stdout result) \<noteq> [] then retE active
      else
        bindE (liftE (mapErr RemoteLsfError (recent_job_arguments job_id identity))) (\<lambda>args.
        bindE (run_cmd env 1 (QueryCmd (executable # args))) (\<lambda>recent.
        let recent_observation = lsf_observation recent job_id ''recent_finished'' in
        if jget recent_observation ''observable'' = JBool True then retE recent_observation
        else (case e_which env ''bhist'' of
            None \<Rightarrow> retE (site_observation ''unobservable'' False ''historical_accounting_unavailable''
                      [(''terminal'', JBool False),
                       (''diagnostic'', JStr (''known job was absent from active and ''
                          @ ''recent-finished LSF views; bhist is unavailable''))])
          | Some history_executable \<Rightarrow>
              bindE (liftE (mapErr RemoteLsfError (historical_job_arguments job_id identity)))
                (\<lambda>hargs.
              bindE (run_cmd env 2 (QueryCmd (history_executable # hargs))) (\<lambda>historical.
              retE (lsf_history_observation historical job_id)))))))"

definition scheduler_observation :: "renv \<Rightarrow> json dict \<Rightarrow> json dict worker" where
  "scheduler_observation env state =
     bindE (liftE (item state ''scheduler_family'')) (\<lambda>family.
     bindE (liftE (bindR (item state ''job_id'') as_str)) (\<lambda>job_id.
     bindE (liftE (bindR (item state ''submitting_identity'') as_str)) (\<lambda>identity.
     bindE (liftE (by_family ''squeue'' ''qstat'' ''bjobs'' family)) (\<lambda>command.
     case e_which env command of
       None \<Rightarrow> retE (site_observation ''unobservable'' False ''unavailable'' [])
     | Some executable \<Rightarrow>
     bindE (liftE (active_argv executable family job_id identity)) (\<lambda>argv.
     bindE (run_cmd env 0 (QueryCmd argv)) (\<lambda>result.
     if family = JStr ''lsf'' then lsf_fallback env executable result job_id identity
     else if failed_run result then
       retE (site_observation ''unobservable'' False ''active''
              [(''diagnostic'', JStr (take 4096 (cr_stderr result)))])
     else if family = JStr ''slurm'' then
       let lines = splitlines (py_strip (cr_stdout result)) in
       retE (site_observation
              (case lines of [] \<Rightarrow> ''unobservable'' | l # _ \<Rightarrow> casefold (py_strip l))
              (lines \<noteq> []) ''active'' [])
     else (case job_state_search True (cr_stdout result) of
         None \<Rightarrow> retE (site_observation ''unknown'' False ''active'' [])
       | Some g \<Rightarrow> retE (site_observation (pbs_state_of g) True ''active'' []))))))))"

section \<open>Reconcile and cancel\<close>

definition MAX_RESULT_RETURN_BYTES :: nat where
  "MAX_RESULT_RETURN_BYTES = 32 * 1024 * 1024"

definition result_reply :: "renv \<Rightarrow> json dict \<Rightarrow> json dict \<Rightarrow> string option \<Rightarrow> reply" where
  "result_reply env data obs result_file =
     (case result_file of
        Some b \<Rightarrow>
          if length b > MAX_RESULT_RETURN_BYTES
          then (''unavailable'',
                dict_set ''diagnostic'' (JStr ''result bundle exceeds remote return bound'')
                (dict_set ''result_state'' (JStr ''invalid'') (dict_set ''result'' JNull data)))
          else (case e_loads env b of
              None \<Rightarrow> (''failed'',
                dict_set ''diagnostic'' (JStr ''result bundle is invalid'')
                (dict_set ''result_state'' (JStr ''invalid'') (dict_set ''result'' JNull data)))
            | Some result \<Rightarrow> (''ok'',
                dict_set ''result_state'' (JStr ''available'') (dict_set ''result'' result data)))
      | None \<Rightarrow>
          let uncertain = jget obs ''state'' \<in> {JStr ''unknown'', JStr ''scheduler_uncertain''} in
          (if jget obs ''observable'' \<noteq> JBool True \<or> uncertain then ''unknown'' else ''ok'',
           dict_set ''result_state'' (JStr ''absent'') (dict_set ''result'' JNull data)))"

definition reconcile :: "renv \<Rightarrow> json dict \<Rightarrow> reply worker" where
  "reconcile env payload =
     bindE (liftE (execution_of payload)) (\<lambda>execution_id.
     bindE (state_of payload execution_id) (\<lambda>(state_path, state).
     bindE (liftE (item state ''state'')) (\<lambda>st.
     bindE (liftE (in_strings st [''submitting'', ''ambiguous''])) (\<lambda>pending.
     if pending \<and> \<not> truthy (jget state ''job_id'') then
       let state = with_state ''ambiguous'' (e_now env 0) state in
       bindE (write_state state_path state) (\<lambda>_. retE (''ambiguous'', public_state state))
     else if jget state ''job_id'' = JNull then retE (''unknown'', public_state state)
     else
       bindE (scheduler_observation env state) (\<lambda>obs.
       bindE (liftE (bindR (item state ''staging_directory'') as_str)) (\<lambda>staging_text.
       bindE (readE (\<lambda>h. Inr (h_blob h (path_join (path_of staging_text) ''result.json''))))
         (\<lambda>result_file.
       retE (result_reply env (dict_set ''scheduler'' (JObj obs) (public_state state)) obs
              result_file))))))))"

definition cancel :: "renv \<Rightarrow> json dict \<Rightarrow> reply worker" where
  "cancel env payload =
     bindE (liftE (execution_of payload)) (\<lambda>execution_id.
     bindE (state_of payload execution_id) (\<lambda>(state_path, state).
     let job = jget state ''job_id'' in
     if job = JNull then retE (''unknown'', public_state state)
     else
       bindE (liftE (item state ''scheduler_family'')) (\<lambda>family.
       bindE (liftE (by_family ''scancel'' ''qdel'' ''bkill'' family)) (\<lambda>command.
       case e_which env command of
         None \<Rightarrow> retE (''unavailable'', dict_set ''diagnostic'' (JStr (command @ '' unavailable''))
                   (public_state state))
       | Some executable \<Rightarrow>
       bindE (liftE (as_str job)) (\<lambda>job_id.
       bindE (run_cmd env 0 (CancelCmd [executable, job_id])) (\<lambda>result.
       if cr_returncode result \<noteq> Some 0 \<or> cr_timed_out result
       then retE (''failed'', dict_set ''diagnostic'' (JStr (take 4096 (cr_stderr result)))
                   (public_state state))
       else
         let state = with_state ''cancelled'' (e_now env 0) state in
         bindE (write_state state_path state) (\<lambda>_. retE (''ok'', public_state state))))))))"

text \<open>\<open>_dispatch\<close> for the operations that touch an execution's state.\<close>

datatype operation = Prepare | Submit | Reconcile | Collect | Cancel

fun dispatch :: "renv \<Rightarrow> operation \<Rightarrow> json dict \<Rightarrow> reply worker" where
  "dispatch env Prepare payload = prepare env payload"
| "dispatch env Submit payload = submit env payload"
| "dispatch env Reconcile payload = reconcile env payload"
| "dispatch env Collect payload = reconcile env payload"
| "dispatch env Cancel payload = cancel env payload"

end
