(* ===== verification/CoreProperties.thy ===== *)
theory CoreProperties
  imports Ids RemoteWorker
begin

text \<open>
  What the leaf modules promise: identifiers (\<open>ids.py\<close>), bounded captures
  (\<open>bounded_subprocess.py\<close>), and the LSF parsers (\<open>lsf.py\<close>) with the observation the worker
  builds on them.
\<close>

section \<open>Identifiers\<close>

lemma crockford_EXECUTION_ID:
  "c \<in> set crockford \<Longrightarrow> is_digit c \<or> (is_upper c \<and> c \<notin> set ''ILOU'')"
  by (auto simp: crockford_def is_digit_def is_upper_def code_point_def)

lemma new_ulid_accepted: "new_ulid ts bs = Inr s \<Longrightarrow> fullmatch EXECUTION_ID s"
  using new_ulid_shape [of ts bs s] crockford_EXECUTION_ID
  by (auto simp: fullmatch_EXECUTION_ID list_all_iff)

lemma new_ulid_value:
  assumes "new_ulid ts bs = Inr s"
  shows "0 \<le> ts \<and> ts < 2 ^ 48 \<and> s = map ((!) crockford) (b32_digits 26 (ulid_value (nat ts) bs))"
proof -
  have r: "0 \<le> ts" "ts < 2 ^ 48"
    using assms by (auto simp: new_ulid_def split: if_splits)
  with new_ulid_eq [of ts bs] assms show ?thesis by simp
qed

lemma ulid_value_small:
  assumes "0 \<le> ts" "ts < 2 ^ 48" "length bs = 10" "\<forall>b \<in> set bs. b < 256"
  shows "ulid_value (nat ts) bs < 32 ^ 26"
proof -
  have "nat ts < 2 ^ 48" using assms(1,2) by (simp add: nat_less_iff)
  from ulid_value_bound [OF assms(3,4) this] show ?thesis by (rule less_le_trans) simp
qed

text \<open>
  C20. An identifier is one the worker accepts as an execution identity, and it decodes to the
  timestamp and the random bytes it was made from, so that two identifiers are equal only when
  both agree.
\<close>
theorem identifier_round_trip:
  assumes "new_ulid ts bs = Inr s" and "length bs = 10" and "\<forall>b \<in> set bs. b < 256"
  shows "fullmatch EXECUTION_ID s \<and> decode_ulid s = nat ts * 2 ^ 80 + from_bytes_big bs"
proof -
  note v = new_ulid_value [OF assms(1)]
  with ulid_value_small assms(2,3) have "ulid_value (nat ts) bs < 32 ^ 26" by blast
  from decode_digits [OF this] v new_ulid_accepted [OF assms(1)] ulid_value_sum [OF assms(2,3)]
  show ?thesis by simp
qed

theorem identifier_round_trip_witness:
  "\<exists>s. new_ulid 5 (replicate 10 7) = Inr s \<and>
     decode_ulid s = 5 * 2 ^ 80 + from_bytes_big (replicate 10 7)"
proof -
  have "\<exists>s. new_ulid 5 (replicate 10 7) = Inr s" by (simp add: new_ulid_def)
  then obtain s where s: "new_ulid 5 (replicate 10 7) = Inr s" ..
  with identifier_round_trip [OF s] show ?thesis by simp
qed

text \<open>
  The stores sort identifiers as text: an identifier of an earlier millisecond sorts before
  one of a later millisecond, whatever the random bytes are.
\<close>
theorem identifier_order_is_time_order:
  assumes "new_ulid ts bs = Inr s" and "new_ulid ts' bs' = Inr s'" and "ts < ts'"
    and "length bs = 10" and "\<forall>b \<in> set bs. b < 256"
    and "length bs' = 10" and "\<forall>b \<in> set bs'. b < 256"
  shows "str_less s s'"
proof -
  note v = new_ulid_value [OF assms(1)] and w = new_ulid_value [OF assms(2)]
  have "from_bytes_big bs < 2 ^ 80"
    using from_bytes_big_bound [OF assms(5)] assms(4) by simp
  moreover have "Suc (nat ts) \<le> nat ts'" using v assms(3) by linarith
  then have "Suc (nat ts) * 2 ^ 80 \<le> nat ts' * 2 ^ 80" by (rule mult_le_mono1)
  ultimately have "ulid_value (nat ts) bs < ulid_value (nat ts') bs'"
    by (simp add: ulid_value_sum assms)
  with b32_digits_order [OF this] ulid_value_small [of ts' bs'] v w assms(6,7)
  show ?thesis by simp
qed

theorem identifier_order_is_time_order_witness:
  "\<exists>s s'. new_ulid 5 (replicate 10 255) = Inr s \<and> new_ulid 6 (replicate 10 0) = Inr s' \<and>
     str_less s s'"
proof -
  have "\<exists>s. new_ulid 5 (replicate 10 255) = Inr s" "\<exists>s. new_ulid 6 (replicate 10 0) = Inr s"
    by (simp_all add: new_ulid_def)
  then obtain s s' where "new_ulid 5 (replicate 10 255) = Inr s"
    "new_ulid 6 (replicate 10 0) = Inr s'" by blast
  with identifier_order_is_time_order [of 5 "replicate 10 255" s 6 "replicate 10 0" s']
  show ?thesis by simp
qed

section \<open>Bounded captures\<close>

text \<open>
  However the output arrives in chunks, the capture is exactly its first so many
  bytes as the bound allows, and the flag is raised exactly when there was more.
\<close>
theorem capture_is_bounded_prefix:
  "drain m chunks [] False = (take m (concat chunks), length (concat chunks) > m)"
  by (simp add: drain_gen)

section \<open>LSF records\<close>

definition blank_line :: "string \<Rightarrow> bool" where
  "blank_line line \<longleftrightarrow> py_strip line = []"

text \<open>One record: two words, the first of them the job asked for.\<close>

definition bjobs_record :: "string \<Rightarrow> string \<Rightarrow> string \<Rightarrow> bool" where
  "bjobs_record out job st \<longleftrightarrow> all_digits job \<and>
     (\<exists>line word. filter (\<lambda>l. \<not> blank_line l) (splitlines out) = [line] \<and>
        split_ws line = [job, word] \<and> st = py_upper word)"

lemma singleton_iff: "length xs = Suc 0 \<longleftrightarrow> (\<exists>x. xs = [x])"
  by (cases xs) auto

lemma pair_iff: "length xs = 2 \<longleftrightarrow> (\<exists>x y. xs = [x, y])"
  by (auto simp: numeral_2_eq_2 length_Suc_conv)

lemma parse_bjobs_iff:
  "parse_bjobs_job out job = Some (job', st) \<longleftrightarrow> job' = job \<and> bjobs_record out job st"
proof -
  define ls where "ls = filter (\<lambda>l. py_strip l \<noteq> []) (splitlines out)"
  have p: "parse_bjobs_job out job =
      (if \<not> all_digits job then None
       else let rows = map split_ws ls in
         if length rows \<noteq> 1 \<or> length (rows ! 0) \<noteq> 2 \<or> rows ! 0 ! 0 \<noteq> job
           \<or> \<not> all_digits (rows ! 0 ! 0) then None
         else Some (rows ! 0 ! 0, py_upper (rows ! 0 ! 1)))"
    by (simp add: parse_bjobs_job_def ls_def str_simps)
  have q: "bjobs_record out job st \<longleftrightarrow> all_digits job \<and>
     (\<exists>line word. ls = [line] \<and> split_ws line = [job, word] \<and> st = py_upper word)"
    by (simp add: bjobs_record_def blank_line_def ls_def)
  consider (two) line a b where "ls = [line]" "split_ws line = [a, b]"
    | (other) "\<nexists>line a b. ls = [line] \<and> split_ws line = [a, b]" by blast
  then show ?thesis
  proof cases
    case two
    then show ?thesis unfolding p q by (auto simp: Let_def split: if_splits)
  next
    case other
    then show ?thesis unfolding p q by (auto simp: Let_def singleton_iff pair_iff)
  qed
qed

text \<open>
  The worker reports an LSF job as observed exactly on the evidence of one successful query
  whose output is one record of exactly that job, and as terminal exactly when that record's
  state is a terminal one; without the evidence the reported state is unobservable.
\<close>
theorem lsf_observation_is_exact:
  "(jget (lsf_observation r job source) ''observable'' = JBool True) =
     (\<exists>st. \<not> failed_run r \<and> bjobs_record (cr_stdout r) job st) \<and>
   (jget (lsf_observation r job source) ''terminal'' = JBool True) =
     (\<exists>st. \<not> failed_run r \<and> bjobs_record (cr_stdout r) job st \<and>
        normalize_lsf_state st \<in> set LSF_TERMINAL_STATES) \<and>
   jget (lsf_observation r job source) ''state'' =
     (if \<exists>st. \<not> failed_run r \<and> bjobs_record (cr_stdout r) job st
      then JStr (normalize_lsf_state
             (snd (the (parse_bjobs_job (cr_stdout r) job))))
      else JStr ''unobservable'')"
proof (cases "failed_run r")
  case True
  then show ?thesis by (simp add: lsf_observation_def site_observation_def jget_def)
next
  case False
  show ?thesis
  proof (cases "parse_bjobs_job (cr_stdout r) job")
    case None
    then have "\<not> bjobs_record (cr_stdout r) job st" for st
      using parse_bjobs_iff [of "cr_stdout r" job job st] by simp
    with False None show ?thesis by (simp add: lsf_observation_def site_observation_def jget_def)
  next
    case (Some x)
    then obtain j st where x: "x = (j, st)" by (cases x)
    with Some have "bjobs_record (cr_stdout r) job st'  \<longleftrightarrow> st' = st" for st'
      using parse_bjobs_iff [of "cr_stdout r" job job st'] parse_bjobs_iff [of "cr_stdout r" job j st]
      by auto
    with False Some x show ?thesis
      by (simp add: lsf_observation_def site_observation_def jget_def Let_def)
  qed
qed

end
