(* ===== verification/RemoteSafety.thy ===== *)
theory RemoteSafety
  imports RemoteWorker
begin

text \<open>
  Safety of the remote worker under crashes. For one submission-state file, the ledger relates
  what the file says to how often a submission ran on its behalf; every durable step of every
  operation upholds it. From it: a submission runs at most once, and a recorded job identity
  never changes.
\<close>

section \<open>The ledger of one state file\<close>

fun is_submit_for :: "ppath \<Rightarrow> command \<Rightarrow> bool" where
  "is_submit_for p (SubmitCmd q argv inp) = (q = p)"
| "is_submit_for p _ = False"

definition submits :: "ppath \<Rightarrow> host \<Rightarrow> nat" where
  "submits p h = length (filter (is_submit_for p) (h_log h))"

definition job_recorded :: "ppath \<Rightarrow> string \<Rightarrow> host \<Rightarrow> bool" where
  "job_recorded p j h \<longleftrightarrow>
     (\<exists>d. h_state h p = Some (Holds (JObj d)) \<and> dict_get d ''job_id'' = Some (JStr j))"

text \<open>The third argument, when given, is a job identity that must still be there.\<close>

definition entry_ok :: "string option \<Rightarrow> json dict \<Rightarrow> nat \<Rightarrow> bool" where
  "entry_ok J d n \<longleftrightarrow>
     (\<exists>st. dict_get d ''state'' = Some (JStr st) \<and> n \<le> 1 \<and>
        (st = ''prepared'' \<longrightarrow> n = 0) \<and>
        (st = ''submitted'' \<longrightarrow> n = 1 \<and> dict_get d ''job_id'' \<noteq> None) \<and>
        (\<forall>v. dict_get d ''job_id'' = Some v \<longrightarrow>
           n = 1 \<and> st \<in> {''submitted'', ''cancelled''} \<and> (\<exists>j. j \<noteq> [] \<and> v = JStr j)) \<and>
        (\<forall>j. J = Some j \<longrightarrow> dict_get d ''job_id'' = Some (JStr j)))"

fun view_ok :: "string option \<Rightarrow> file_state option \<Rightarrow> nat \<Rightarrow> bool" where
  "view_ok J None n = (n = 0 \<and> J = None)"
| "view_ok J (Some (Holds (JObj d))) n = entry_ok J d n"
| "view_ok J _ n = False"

definition ledger :: "ppath \<Rightarrow> string option \<Rightarrow> host \<Rightarrow> bool" where
  "ledger p J h \<longleftrightarrow> view_ok J (h_state h p) (submits p h)"

text \<open>
  What is known once an operation has read (or written) the file at \<open>sp\<close>, and how often its
  own submission has run so far.
\<close>

definition opened :: "ppath \<Rightarrow> string option \<Rightarrow> ppath \<Rightarrow> json dict \<Rightarrow> host \<Rightarrow> bool" where
  "opened p J sp d h \<longleftrightarrow> ledger p J h \<and> h_state h sp = Some (Holds (JObj d))"

definition fired :: "ppath \<Rightarrow> string option \<Rightarrow> ppath \<Rightarrow> json dict \<Rightarrow> nat \<Rightarrow> host \<Rightarrow> bool" where
  "fired p J sp d n h \<longleftrightarrow>
     h_state h sp = Some (Holds (JObj d)) \<and>
     (if sp = p then J = None \<and> submits p h = n \<and> dict_get d ''job_id'' = None
      else ledger p J h)"

lemma ledger_cong:
  "h_state h' p = h_state h p \<Longrightarrow> submits p h' = submits p h \<Longrightarrow> ledger p J h' = ledger p J h"
  by (simp add: ledger_def)

lemma submits_simps [simp]:
  "submits p (h\<lparr>h_state := f\<rparr>) = submits p h"
  "submits p (h\<lparr>h_blob := b\<rparr>) = submits p h"
  "submits p (h\<lparr>h_dirs := g\<rparr>) = submits p h"
  "submits p (h\<lparr>h_log := l @ [c]\<rparr>) =
     length (filter (is_submit_for p) l) + (if is_submit_for p c then 1 else 0)"
  by (simp_all add: submits_def)

lemma ledger_dirs [simp]: "ledger p J (make_dirs q h) = ledger p J h"
  by (rule ledger_cong) (simp_all add: make_dirs_def)

lemma ledger_blob [simp]: "ledger p J (h\<lparr>h_blob := b\<rparr>) = ledger p J h"
  by (rule ledger_cong) simp_all

lemma ledger_log:
  "\<not> is_submit_for p c \<Longrightarrow> ledger p J (h\<lparr>h_log := h_log h @ [c]\<rparr>) = ledger p J h"
  by (rule ledger_cong) (simp_all add: submits_def)

lemma ledger_le: "ledger p J h \<Longrightarrow> submits p h \<le> 1"
  unfolding ledger_def
  by (cases "(J, h_state h p, submits p h)" rule: view_ok.cases) (auto simp: entry_ok_def)

lemma opened_ledger: "opened p J sp d h \<Longrightarrow> ledger p J h"
  by (simp add: opened_def)

lemma ledger_write:
  assumes "opened p J sp d h" and "\<And>n. entry_ok J d n \<Longrightarrow> entry_ok J d' n"
  shows "ledger p J (h\<lparr>h_state := (h_state h)(sp := Some (Holds (JObj d')))\<rparr>)"
  using assms by (cases "sp = p") (auto simp: opened_def ledger_def)

lemma opened_fired:
  "opened p J sp d h \<Longrightarrow> dict_get d ''state'' = Some (JStr ''prepared'') \<Longrightarrow> fired p J sp d 0 h"
  by (cases J) (auto simp: opened_def fired_def ledger_def entry_ok_def)

lemma fired_ledger:
  "fired p J sp d n h \<Longrightarrow> dict_get d ''state'' = Some (JStr st) \<Longrightarrow>
     st \<noteq> ''prepared'' \<Longrightarrow> st \<noteq> ''submitted'' \<Longrightarrow> n \<le> 1 \<Longrightarrow> ledger p J h"
  by (auto simp: fired_def ledger_def entry_ok_def split: if_splits)

lemma fired_write:
  "fired p J sp d n h \<Longrightarrow> (dict_get d ''job_id'' = None \<Longrightarrow> entry_ok None d' n) \<Longrightarrow>
     ledger p J (h\<lparr>h_state := (h_state h)(sp := Some (Holds (JObj d')))\<rparr>)"
  by (cases "sp = p") (auto simp: fired_def ledger_def)

lemma fired_rewrite:
  "fired p J sp d n h \<Longrightarrow> dict_get d' ''job_id'' = dict_get d ''job_id'' \<Longrightarrow>
     fired p J sp d' n (h\<lparr>h_state := (h_state h)(sp := Some (Holds (JObj d')))\<rparr>)"
  by (cases "sp = p") (auto simp: fired_def ledger_def)

lemma fired_log:
  "fired p J sp d n h \<Longrightarrow> fired p J sp d (Suc n) (h\<lparr>h_log := h_log h @ [SubmitCmd sp argv inp]\<rparr>)"
  by (auto simp: fired_def ledger_log submits_def)

section \<open>Every operation upholds the ledger\<close>

abbreviation upholds :: "ppath \<Rightarrow> string option \<Rightarrow> 'a worker \<Rightarrow> bool" where
  "upholds p J m \<equiv> trip (ledger p J) m (\<lambda>_. ledger p J) (ledger p J)"

lemma trip_read_state:
  "trip (ledger p J) (read_state sp e) (\<lambda>d. opened p J sp d) (ledger p J)"
  by (auto simp: trip_def read_state_def readE_def opened_def
      split: option.splits file_state.splits json.splits if_splits)

lemma trip_state_of:
  "trip (ledger p J) (state_of payload e) (\<lambda>(sp, d). opened p J sp d) (ledger p J)"
  unfolding state_of_def Let_def
  by (intro trip_bind_lift trip_if trip_raise trip_bind [OF trip_read_state] trip_ret)
    (auto simp: opened_def)

lemma keeps_query:
  assumes "\<not> is_submit_for p c" and "\<And>h. P h \<Longrightarrow> ledger p J h"
    and "\<And>h. P h \<Longrightarrow> P (h\<lparr>h_log := h_log h @ [c]\<rparr>)"
    and "\<And>r. trip P (f r) S (ledger p J)"
  shows "trip P (bindE (run_cmd env n c) f) S (ledger p J)"
  unfolding run_cmd_def
  using assms by (intro trip_bind [where Q = "\<lambda>_. P"] trip_bind_write [where Q = P] trip_lift) auto

lemma opened_query:
  "opened p J sp d h \<Longrightarrow> \<not> is_submit_for p c \<Longrightarrow> opened p J sp d (h\<lparr>h_log := h_log h @ [c]\<rparr>)"
  by (simp add: opened_def ledger_log)

lemma ledger_write_new:
  "ledger p J h \<Longrightarrow> h_state h sp = None \<Longrightarrow> entry_ok None d 0 \<Longrightarrow>
     ledger p J (h\<lparr>h_state := (h_state h)(sp := Some (Holds (JObj d)))\<rparr>)"
  by (cases "sp = p") (auto simp: ledger_def)

lemma keeps_prepare_variant: "upholds p J (prepare_variant sroot v)"
proof (cases v)
  case (JObj d)
  show ?thesis
    unfolding prepare_variant_def JObj json.case
    by (intro trip_if trip_raise trip_bind_lift trip_write) simp_all
qed (simp_all add: prepare_variant_def trip_ret trip_raise)

lemma entry_ok_new: "entry_ok None (new_state env e f s x v) 0"
  by (simp add: entry_ok_def new_state_def)

lemma keeps_prepare_new:
  "trip (\<lambda>h. ledger p J h \<and> h_state h sp = None) (prepare_new env e f x v st sp)
     (\<lambda>_. ledger p J) (ledger p J)"
  unfolding prepare_new_def write_state_def Let_def
proof (intro trip_bind_read, goal_cases)
  case (2 u)
  show ?case
    by (intro trip_bind_write [where Q = "\<lambda>h. ledger p J h \<and> h_state h sp = None"]
        trip_bind_write [where Q = "ledger p J"] trip_ret)
      (auto intro: ledger_write_new [OF _ _ entry_ok_new] simp: make_dirs_def
        ledger_dirs [unfolded make_dirs_def])
qed simp

lemma keeps_prepare_retry:
  "trip (opened p J sp d) (prepare_retry f x v d) (\<lambda>_. ledger p J) (ledger p J)"
  unfolding prepare_retry_def
  by (intro trip_if trip_raise trip_ret) (simp_all add: opened_ledger)

lemma keeps_prepare: "upholds p J (prepare env payload)"
proof -
  note retry = trip_pre [OF trip_bind [OF trip_read_state keeps_prepare_retry]]
  note new = trip_pre [OF keeps_prepare_new]
  show ?thesis
    unfolding prepare_def Let_def
    by (intro trip_bind_lift trip_if trip_raise trip_bind [OF keeps_prepare_variant]
        trip_bind_read retry new) auto
qed

section \<open>Submission\<close>

lemma entry_ended:
  "dict_get d ''job_id'' = None \<Longrightarrow> st \<noteq> ''prepared'' \<Longrightarrow> st \<noteq> ''submitted'' \<Longrightarrow> n \<le> 1 \<Longrightarrow>
     entry_ok None (with_state st now d) n"
  "dict_get d ''job_id'' = None \<Longrightarrow> st \<noteq> ''prepared'' \<Longrightarrow> st \<noteq> ''submitted'' \<Longrightarrow> n \<le> 1 \<Longrightarrow>
     entry_ok None (dict_set ''diagnostic'' v (with_state st now d)) n"
  by (auto simp: entry_ok_def with_state_def)

lemma entry_submitted:
  "j \<noteq> [] \<Longrightarrow> entry_ok None (dict_set ''updated_at'' a (dict_set ''submitted_at'' b
     (dict_set ''job_id'' (JStr j) (dict_set ''state'' (JStr ''submitted'') d)))) (Suc 0)"
  by (auto simp: entry_ok_def)

lemma fullmatch_job_nonempty: "\<not> nullable SLURM_JOB" "\<not> nullable PBS_JOB"
  by (simp_all add: SLURM_JOB_def PBS_JOB_def rplus_def)

lemma job_id_of_nonempty: "job_id_of f out = Some j \<Longrightarrow> j \<noteq> []"
  by (auto simp: job_id_of_def Let_def fullmatch_job_nonempty str_simps all_digits_def
      split: if_splits)

text \<open>A final write of the handler, whatever it records, upholds the ledger.\<close>

lemma trip_final_write:
  assumes "\<And>h. P h \<Longrightarrow> ledger p J (h\<lparr>h_state := (h_state h)(sp := Some (Holds (JObj d')))\<rparr>)"
  shows "trip P (bindE (write_state sp d') (\<lambda>_. retE y)) (\<lambda>_. ledger p J) (ledger p J)"
  unfolding write_state_def
  using assms by (intro trip_bind_write [where Q = "ledger p J"] trip_ret) auto

lemma trip_submit_input:
  "(\<And>h. P h \<Longrightarrow> R h) \<Longrightarrow> trip P (submit_input f s) (\<lambda>_. P) R"
  unfolding submit_input_def by (intro trip_if trip_ret trip_read) auto

lemma keeps_launch:
  "trip (fired p J sp d 0) (launch env sp d family exe staging) (\<lambda>_. ledger p J) (ledger p J)"
proof -
  let ?d1 = "with_state ''submitting'' (e_now env 0) d"
  have st1: "dict_get ?d1 ''state'' = Some (JStr ''submitting'')"
    and job1: "dict_get ?d1 ''job_id'' = dict_get d ''job_id''"
    by (simp_all add: with_state_def)
  have l: "ledger p J h" if "fired p J sp ?d1 n h" "n \<le> 1" for n h
    using fired_ledger [OF that(1) st1] that(2) by simp
  have ended: "ledger p J (h\<lparr>h_state := (h_state h)(sp := Some (Holds (JObj d')))\<rparr>)"
    if "fired p J sp ?d1 1 h" and "dict_get ?d1 ''job_id'' = None \<Longrightarrow> entry_ok None d' 1" for h d'
    using fired_write [OF that] .
  have wrote: "trip (fired p J sp d 0) (write_state sp ?d1) (\<lambda>_. fired p J sp ?d1 0) (ledger p J)"
    unfolding write_state_def
    by (rule trip_write) (use fired_rewrite [OF _ job1] l in fastforce)
  have ran: "trip (fired p J sp ?d1 0) (run_cmd env 0 (SubmitCmd sp a i)) (\<lambda>_. fired p J sp ?d1 1)
      (ledger p J)" for a i
    unfolding run_cmd_def
    by (rule trip_bind_write [where Q = "fired p J sp ?d1 1"], use fired_log l in fastforce,
        rule trip_lift) (auto intro: l)
  show ?thesis
    unfolding launch_def Let_def
    by (rule trip_bind [OF wrote], rule trip_bind [OF trip_submit_input], rule l, assumption, simp,
        rule trip_bind [OF ran], intro trip_if trip_option trip_final_write ended)
      (auto intro: entry_ended entry_submitted dest: job_id_of_nonempty)
qed

text \<open>Rewrites of the state dictionary that start from what the handler read.\<close>

lemma entry_ok_no_job:
  assumes "entry_ok J d n" and "dict_get d ''state'' = Some (JStr st)"
    and "st \<noteq> ''submitted''" and "st \<noteq> ''cancelled''"
  shows "dict_get d ''job_id'' = None" and "J = None" and "n \<le> 1"
  using assms by (cases J; auto simp: entry_ok_def)+

lemma entry_pending:
  assumes "entry_ok J d n" and "dict_get d ''state'' = Some (JStr st)"
    and "st = ''submitting'' \<or> st = ''ambiguous''"
  shows "entry_ok J (with_state ''ambiguous'' now d) n"
proof -
  have "st \<noteq> ''submitted''" "st \<noteq> ''cancelled''" using assms(3) by auto
  from entry_ok_no_job [OF assms(1,2) this] show ?thesis
    by (simp add: entry_ended)
qed

lemma entry_unavailable:
  assumes "entry_ok J d n" and "dict_get d ''state'' = Some (JStr ''prepared'')"
  shows "entry_ok J (dict_set ''diagnostic'' v (with_state ''submission_failed'' now d)) n"
  using entry_ok_no_job [OF assms] by (simp add: entry_ended)

lemma entry_cancelled:
  assumes "entry_ok J d n" and "jget d ''job_id'' \<noteq> JNull"
  shows "entry_ok J (with_state ''cancelled'' now d) n"
proof -
  obtain v where "dict_get d ''job_id'' = Some v"
    using assms(2) by (auto simp: jget_def split: option.splits)
  then show ?thesis using assms(1) by (auto simp: entry_ok_def with_state_def)
qed

lemma item_Inr: "item d k = Inr v \<longleftrightarrow> dict_get d k = Some v"
  by (auto simp: item_def split: option.splits)

lemma in_strings_True: "in_strings v xs = Inr True \<Longrightarrow> \<exists>x \<in> set xs. v = JStr x"
  by (auto simp: in_strings_def split: if_splits)

lemma trip_opened_write:
  assumes "\<And>n. entry_ok J d n \<Longrightarrow> entry_ok J d' n"
  shows "trip (opened p J sp d) (bindE (write_state sp d') (\<lambda>_. retE y)) (\<lambda>_. ledger p J)
           (ledger p J)"
  by (rule trip_final_write) (rule ledger_write [OF _ assms])

lemma trip_bind_state_of:
  assumes "\<And>sp d. trip (opened p J sp d) (f (sp, d)) S (ledger p J)"
  shows "trip (ledger p J) (bindE (state_of payload e) f) S (ledger p J)"
  by (rule trip_bind [OF trip_state_of]) (auto intro: assms)

lemma trip_pending_write:
  assumes "item d ''state'' = Inr v" and "in_strings v [''submitting'', ''ambiguous''] = Inr b" and b
  shows "trip (opened p J sp d)
      (bindE (write_state sp (with_state ''ambiguous'' now d)) (\<lambda>_. retE y))
      (\<lambda>_. ledger p J) (ledger p J)"
proof (rule trip_opened_write)
  obtain x where x: "v = JStr x" "x \<in> set [''submitting'', ''ambiguous'']"
    using assms in_strings_True [of v "[''submitting'', ''ambiguous'']"] by auto
  show "entry_ok J (with_state ''ambiguous'' now d) n" if "entry_ok J d n" for n
    using that assms(1) x by (intro entry_pending [of _ _ _ x]) (auto simp: item_Inr)
qed

text \<open>Reads leave what is known of the file alone.\<close>

lemma trip_bind_read_opened:
  assumes "\<And>x. trip (opened p J sp d) (f x) S (ledger p J)"
  shows "trip (opened p J sp d) (bindE (readE g) f) S (ledger p J)"
  by (rule trip_bind_read) (auto intro: trip_pre [OF assms] simp: opened_ledger)

lemma trip_launch_opened:
  "dict_get d ''state'' = Some (JStr ''prepared'') \<Longrightarrow>
     trip (opened p J sp d) (launch env sp d family exe staging) (\<lambda>_. ledger p J) (ledger p J)"
  by (rule trip_pre [OF keeps_launch]) (rule opened_fired)

lemma keeps_submit: "upholds p J (submit env payload)"
  unfolding submit_def Let_def
  apply (intro trip_bind_lift trip_bind_state_of)
   apply simp
  apply (simp only: split_conv)
  apply (intro trip_bind_lift trip_if trip_pending_write trip_ret trip_bind_read_opened trip_option
      trip_opened_write entry_unavailable trip_launch_opened)
  apply (simp_all add: opened_ledger item_Inr)
  done

lemma keeps_scheduler_observation:
  "trip (opened p J sp d) (scheduler_observation env st) (\<lambda>_. opened p J sp d) (ledger p J)"
proof -
  have q: "trip (opened p J sp d) (bindE (run_cmd env n (QueryCmd a)) f) S (ledger p J)"
    if "\<And>r. trip (opened p J sp d) (f r) S (ledger p J)" for n a f S
    by (rule keeps_query [OF _ _ _ that]) (auto simp: opened_ledger intro: opened_query)
  have fallback: "trip (opened p J sp d) (lsf_fallback env e r j i) (\<lambda>_. opened p J sp d) (ledger p J)"
    for e r j i
    unfolding lsf_fallback_def Let_def
    by (intro trip_if trip_ret trip_bind_lift q trip_option) (auto simp: opened_ledger)
  show ?thesis
    unfolding scheduler_observation_def Let_def
    by (intro trip_bind_lift trip_option trip_ret q trip_if fallback) (auto simp: opened_ledger)
qed

lemma keeps_reconcile: "upholds p J (reconcile env payload)"
  unfolding reconcile_def Let_def
  apply (intro trip_bind_lift trip_bind_state_of)
   apply simp
  apply (simp only: split_conv)
  apply (intro trip_bind_lift trip_if trip_pending_write trip_ret
      trip_bind [OF keeps_scheduler_observation] trip_bind_read_opened)
  apply (auto simp: opened_ledger)
  done

lemma keeps_cancel: "upholds p J (cancel env payload)"
proof -
  have c: "trip (opened p J sp d) (bindE (run_cmd env n (CancelCmd a)) f) S (ledger p J)"
    if "\<And>r. trip (opened p J sp d) (f r) S (ledger p J)" for n a f S sp d
    by (rule keeps_query [OF _ _ _ that]) (auto simp: opened_ledger intro: opened_query)
  show ?thesis
    unfolding cancel_def Let_def
    apply (intro trip_bind_lift trip_bind_state_of)
     apply simp
    apply (simp only: split_conv)
    apply (intro trip_bind_lift trip_if trip_ret trip_option c trip_opened_write entry_cancelled)
    apply (auto simp: opened_ledger)
    done
qed

lemma keeps_dispatch: "upholds p J (dispatch env op payload)"
  by (cases op) (simp_all add: keeps_prepare keeps_submit keeps_reconcile keeps_cancel)

section \<open>Hosts that invocations of the worker can lead to\<close>

definition fresh_host :: "host \<Rightarrow> bool" where
  "fresh_host h \<longleftrightarrow> (\<forall>p. h_state h p = None) \<and> h_log h = []"

text \<open>Between two invocations the transport stages files; it writes no submission state.\<close>

definition staged :: "host \<Rightarrow> host \<Rightarrow> bool" where
  "staged h h' \<longleftrightarrow> h_state h' = h_state h \<and> h_log h' = h_log h"

definition invocation :: "renv \<times> operation \<times> json dict \<Rightarrow> reply worker" where
  "invocation i = (case i of (env, op, payload) \<Rightarrow> dispatch env op payload)"

abbreviation reachable_host :: "host \<Rightarrow> bool" where
  "reachable_host \<equiv> reaches fresh_host invocation staged"

interpretation worker: durable_invariant fresh_host invocation staged "ledger p None" for p
proof unfold_locales
  show "ledger p None h" if "fresh_host h" for h
    using that by (simp add: fresh_host_def ledger_def submits_def)
  show "upholds p None (invocation i)" for i
    by (cases i) (simp add: invocation_def keeps_dispatch)
  show "ledger p None h'" if "ledger p None h" "staged h h'" for h h'
    using that ledger_cong [of h' p h] by (simp add: staged_def submits_def)
qed

lemma ledger_recorded:
  assumes "ledger p None h" and "job_recorded p j h"
  shows "ledger p (Some j) h"
  using assms by (auto simp: ledger_def job_recorded_def entry_ok_def)

lemma ledger_job: "ledger p (Some j) h \<Longrightarrow> job_recorded p j h"
  unfolding ledger_def job_recorded_def
  by (cases "(Some j, h_state h p, submits p h)" rule: view_ok.cases) (auto simp: entry_ok_def)

end
