(* ===== verification/RemotePrepare.thy ===== *)
theory RemotePrepare
  imports RemoteSafety
begin

text \<open>
  What the remote worker's \<open>prepare\<close> and \<open>submit\<close> do with the content of an execution: a
  submission runs only on files whose digests were verified against the recorded ones, and a
  preparation that succeeded can be repeated without changing anything.
\<close>

section \<open>Submission of verified content\<close>

lemma py_eq_strings:
  assumes "distinct (dict_keys d)" and "\<forall>(k, v) \<in> set d. is_str v"
  shows "py_eq (JObj d) (JObj d)"
  using assms by (fastforce simp: is_str_iff)

lemma changed_file_None:
  "changed_file env h staging expected = None \<longleftrightarrow>
     (\<forall>(name, digest) \<in> set expected. stored_blob_ok env h (path_join staging name) digest)"
  by (induction env h staging expected rule: changed_file.induct) auto

definition verified_for :: "renv \<Rightarrow> host \<Rightarrow> bool" where
  "verified_for env h0 \<longleftrightarrow> (\<exists>sp d staging expected. h_state h0 sp = Some (Holds (JObj d)) \<and>
        dict_get d ''state'' = Some (JStr ''prepared'') \<and>
        dict_get d ''staging_directory'' = Some (JStr staging) \<and>
        dict_get d ''expected_files'' = Some (JObj expected) \<and>
        (\<forall>(name, digest) \<in> set expected. \<exists>b.
           h_blob h0 (path_join (path_of staging) name) = Some b \<and>
           digest = JStr (e_sha256 env b)))"

lemma verified_forI:
  assumes "h_state h0 sp = Some (Holds (JObj d))"
    and "dict_get d ''state'' = Some (JStr ''prepared'')"
    and "dict_get d ''staging_directory'' = Some (JStr staging)"
    and "dict_get d ''expected_files'' = Some (JObj expected)"
    and "changed_file env h0 (path_of staging) expected = None"
  shows "verified_for env h0"
  unfolding verified_for_def using assms
  by (fastforce simp: changed_file_None stored_blob_ok_def split: option.splits)

lemma trip_True: "(\<And>h. R h) \<Longrightarrow> trip P m (\<lambda>_ _. True) R"
  by (auto simp: trip_def list_all_iff split: prod.splits)

lemma trip_state_of0:
  "trip (\<lambda>h. h = h0) (state_of payload e) (\<lambda>(sp, d) h. h = h0 \<and> h_state h0 sp = Some (Holds (JObj d))) (\<lambda>h. h = h0)"
  unfolding state_of_def read_state_def Let_def
  apply (intro trip_bind_lift trip_if trip_raise trip_bind_read trip_ret)
  apply (auto split: option.splits file_state.splits json.splits if_splits)
  done

lemma trip_bind_state_of0:
  assumes "R h0"
    and "\<And>sp d. h_state h0 sp = Some (Holds (JObj d)) \<Longrightarrow> trip (\<lambda>h. h = h0) (f (sp, d)) S R"
  shows "trip (\<lambda>h. h = h0) (bindE (state_of payload e) f) S R"
proof (rule trip_bind [where Q = "\<lambda>(sp, d) h. h = h0 \<and> h_state h0 sp = Some (Holds (JObj d))"])
  show "trip (\<lambda>h. h = h0) (state_of payload e)
      (\<lambda>(sp, d) h. h = h0 \<and> h_state h0 sp = Some (Holds (JObj d))) R"
    by (rule trip_post [OF trip_state_of0]) (use assms(1) in auto)
  show "trip ((case x of (sp, d) \<Rightarrow> \<lambda>h. h = h0 \<and> h_state h0 sp = Some (Holds (JObj d)))) (f x) S R"
    for x
    using assms(2) by (cases x) (auto simp: trip_def)
qed

lemma as_str_Inr: "as_str v = Inr s \<longleftrightarrow> v = JStr s" by (cases v) (auto simp: as_str_def)
lemma as_dict_Inr: "as_dict v = Inr s \<longleftrightarrow> v = JObj s" by (cases v) (auto simp: as_dict_def)
lemma trip_write_same_log:
  "(\<And>h. P h \<Longrightarrow> h_log h = h_log h0) \<Longrightarrow> trip P (bindE (write_state sp d) (\<lambda>_. retE y)) (\<lambda>_ _. True) (\<lambda>h. h_log h = h_log h0 \<or> b)"
  unfolding write_state_def
  by (intro trip_bind_write [where Q = "\<lambda>h. h_log h = h_log h0"] trip_ret) auto

lemma trip_bind_read0:
  assumes "\<And>h. h = h0 \<Longrightarrow> R h" "\<And>x. g h0 = Inr x \<Longrightarrow> trip (\<lambda>h. h = h0) (f x) S R"
  shows "trip (\<lambda>h. h = h0) (bindE (readE g) f) S R"
  using assms by (auto simp: trip_def readE_def bindE_def split: sum.splits)

lemma submit_verified:
  "trip (\<lambda>h. h = h0) (submit env payload) (\<lambda>_ _. True)
     (\<lambda>h. h_log h = h_log h0 \<or> verified_for env h0)"
  unfolding submit_def Let_def
  apply (intro trip_bind_lift trip_bind_state_of0)
    apply simp
   apply simp
  apply (simp only: split_conv)
  apply (intro trip_bind_lift trip_if trip_ret trip_write_same_log trip_bind_read0 trip_option)
  apply (simp_all add: item_Inr)
  apply (rule trip_True, rule disjI2)
  apply (clarsimp simp: bindR_Inr_iff as_str_Inr as_dict_Inr item_Inr)
  apply (rule verified_forI, assumption+)
  done
section \<open>Preparation is idempotent\<close>

text \<open>What a first preparation writes is what a retry compares with.\<close>

lemma check_digest_str: "check_digest v e = Inr u \<Longrightarrow> is_str v"
  by (cases v) (auto simp: check_digest_def as_str_def)

lemma expected_of_ok:
  assumes "expected_of payload = Inr d" and "jget payload ''expected_files'' = JObj e"
    and "distinct (dict_keys e)"
  shows "py_eq (JObj d) (JObj d)"
  using assms
  by (intro py_eq_strings)
    (auto simp: expected_of_def result_simps dest: check_digest_str split: if_splits)

lemma absolute_path_str: "absolute_path v l = Inr p \<Longrightarrow> is_str v"
  by (cases v) (auto simp: absolute_path_def)

fun distinct_keys :: "json \<Rightarrow> bool" where
  "distinct_keys (JObj d) = distinct (dict_keys d)"
| "distinct_keys _ = True"

lemma bindE_Inr_iff:
  "bindE m f w = (t, w2, Inr y) \<longleftrightarrow>
     (\<exists>t1 w1 x t2. m w = (t1, w1, Inr x) \<and> f x w1 = (t2, w2, Inr y) \<and> t = t1 @ t2)"
  by (auto simp: bindE_def split: prod.splits sum.splits)

lemma eff_Inr_iff:
  "retE x w = (t, w', Inr y) \<longleftrightarrow> t = [] \<and> w' = w \<and> y = x"
  "raiseE e w = (t, w', Inr y) \<longleftrightarrow> False"
  "liftE r w = (t, w', Inr y) \<longleftrightarrow> t = [] \<and> w' = w \<and> r = Inr y"
  "readE f w = (t, w', Inr y) \<longleftrightarrow> t = [] \<and> w' = w \<and> f w = Inr y"
  "writeE g w = (t, w', Inr u) \<longleftrightarrow> t = [g w] \<and> w' = g w"
  by (auto simp: eff_defs)

fun variant_ok :: "ppath \<Rightarrow> json \<Rightarrow> bool" where
  "variant_ok r JNull = True"
| "variant_ok r (JObj d) = (set (dict_keys d) = {''remote_path'', ''sha256''} \<and>
     (case absolute_path (jget d ''remote_path'') ''variant path'' of
        Inl _ \<Rightarrow> False
      | Inr p \<Rightarrow> is_relative_to p (path_join (path_join r ''.bourne'') ''variants'')) \<and>
     check_digest (jget d ''sha256'') (RemoteWorkerError ''variant digest is invalid'') = Inr ())"
| "variant_ok r _ = False"

lemma result_bind_lift:
  "snd (snd (bindE (liftE r) f w)) = (case r of Inl e \<Rightarrow> Inl e | Inr x \<Rightarrow> snd (snd (f x w)))"
  by (auto simp: bindE_def liftE_def split: sum.splits prod.splits)

lemma result_simple:
  "snd (snd (raiseE e w)) = Inl e" "snd (snd (writeE g w)) = Inr ()" "snd (snd (retE x w)) = Inr x"
  by (simp_all add: eff_defs)

lemma prepare_variant_result: "snd (snd (prepare_variant r v h)) = Inr () \<longleftrightarrow> variant_ok r v"
proof (cases v)
  case (JObj d)
  show ?thesis
    unfolding JObj prepare_variant_def json.case variant_ok.simps
    by (cases "set (dict_keys d) = {''remote_path'', ''sha256''}";
        simp only: simp_thms if_True if_False result_simple result_bind_lift)
      (auto simp: result_simple result_bind_lift split: sum.splits)
qed (simp_all add: prepare_variant_def result_simple)

lemma prepare_variant_same:
  "always (\<lambda>h'. h_state h' = h_state h \<and> h_log h' = h_log h) (prepare_variant r v) h"
proof (rule trip_always [where P = "\<lambda>h'. h_state h' = h_state h \<and> h_log h' = h_log h"])
  let ?P = "\<lambda>h'. h_state h' = h_state h \<and> h_log h' = h_log h"
  show "trip ?P (prepare_variant r v) (\<lambda>_. ?P) ?P"
  proof (cases v)
    case (JObj d)
    show ?thesis
      unfolding JObj prepare_variant_def json.case
      by (intro trip_if trip_raise trip_bind_lift trip_write) (simp_all add: make_dirs_def)
  qed (simp_all add: prepare_variant_def trip_ret trip_raise)
qed simp

lemma variant_eq:
  assumes "variant_ok r v" and "distinct_keys v"
  shows "py_eq v v"
proof (cases v)
  case (JObj d)
  have k: "set (dict_keys d) = {''remote_path'', ''sha256''}"
    and v: "is_str (jget d ''remote_path'')" "is_str (jget d ''sha256'')"
    using assms(1) unfolding JObj variant_ok.simps
    by (auto dest: absolute_path_str check_digest_str split: sum.splits)
  have d: "distinct (dict_keys d)" using assms(2) JObj by simp
  have "is_str x" if "(a, x) \<in> set d" for a x
  proof -
    have "a \<in> {''remote_path'', ''sha256''}" using that k by force
    moreover have "dict_get d a = Some x" using that d by simp
    ultimately show ?thesis using v by (auto simp: jget_def)
  qed
  then show ?thesis unfolding JObj by (intro py_eq_strings d) blast
qed (use assms in auto)


lemma in_strings_str: "in_strings v xs = Inr True \<Longrightarrow> is_str v"
  using in_strings_True by fastforce

lemma expected_of_JObj: "expected_of payload = Inr d \<Longrightarrow> jget payload ''expected_files'' = JObj d"
  by (auto simp: expected_of_def result_simps split: json.splits if_splits)

definition resumable :: "string \<Rightarrow> json \<Rightarrow> json dict \<Rightarrow> json \<Rightarrow> ppath \<Rightarrow> json dict \<Rightarrow> host \<Rightarrow> bool" where
  "resumable x family expected variant sp d h \<longleftrightarrow>
     h_state h sp = Some (Holds (JObj d)) \<and> jget d ''execution_id'' = JStr x \<and>
     py_eq (jget d ''scheduler_family'') family \<and>
     py_eq (jget d ''expected_files'') (JObj expected) \<and> py_eq (jget d ''expected_variant'') variant"

lemma read_state_Inr:
  "read_state sp x h = (t, h', Inr d) \<longleftrightarrow> t = [] \<and> h' = h \<and>
     h_state h sp = Some (Holds (JObj d)) \<and> jget d ''execution_id'' = JStr x"
  by (auto simp: read_state_def eff_Inr_iff split: option.splits file_state.splits json.splits)

lemma retry_resumable:
  assumes "bindE (read_state sp x) (prepare_retry family expected variant) h = (t, h', Inr reply)"
  shows "h' = h \<and> (\<exists>d. resumable x family expected variant sp d h \<and> reply = (''ok'', public_state d))"
  using assms
  by (auto simp: bindE_Inr_iff read_state_Inr prepare_retry_def eff_Inr_iff resumable_def split: if_splits)

lemma resumable_retry:
  assumes "resumable x family expected variant sp d h"
  shows "bindE (read_state sp x) (prepare_retry family expected variant) h
    = ([], h, Inr (''ok'', public_state d))"
  using assms
  by (auto simp: resumable_def bindE_Inr_iff read_state_Inr prepare_retry_def eff_Inr_iff)

lemma new_resumable:
  assumes "prepare_new env x family expected variant st sp h = (t, h', Inr reply)"
    and "is_str family" and "py_eq (JObj expected) (JObj expected)" and "py_eq variant variant"
  shows "\<exists>d. resumable x family expected variant sp d h' \<and> reply = (''ok'', public_state d)"
proof -
  let ?d = "new_state env x family st expected variant"
  have "h_state h' sp = Some (Holds (JObj ?d)) \<and> reply = (''ok'', public_state ?d)"
    using assms(1) by (auto simp: prepare_new_def Let_def bindE_Inr_iff eff_Inr_iff write_state_def)
  moreover have "jget ?d ''execution_id'' = JStr x" "jget ?d ''scheduler_family'' = family"
      "jget ?d ''expected_files'' = JObj expected" "jget ?d ''expected_variant'' = variant"
    by (simp_all add: new_state_def jget_def)
  moreover have "py_eq family family" using assms(2) by (auto simp: is_str_iff)
  ultimately show ?thesis using assms(3,4) unfolding resumable_def by metis
qed

text \<open>The last part of a preparation, from the look at the state file on.\<close>

definition prepare_last ::
  "renv \<Rightarrow> string \<Rightarrow> json \<Rightarrow> json dict \<Rightarrow> json \<Rightarrow> ppath \<Rightarrow> reply worker" where
  "prepare_last env x family expected variant st =
     (let sp = path_join st ''submission-state.json'' in
      bindE (readE (\<lambda>h. Inr (h_state h sp \<noteq> None))) (\<lambda>exists.
      if exists then bindE (read_state sp x) (prepare_retry family expected variant)
      else prepare_new env x family expected variant st sp))"

lemma prepare_last_eq:
  "prepare_last env x family expected variant st h =
     (let sp = path_join st ''submission-state.json'' in
      if h_state h sp \<noteq> None
      then bindE (read_state sp x) (prepare_retry family expected variant) h
      else prepare_new env x family expected variant st sp h)"
  by (simp add: prepare_last_def bindE_def readE_def Let_def split: prod.splits)

lemma prepare_Inr_iff:
  "prepare env payload h = (t, h1, Inr reply) \<longleftrightarrow>
     (\<exists>x rt expected tv hv tr. execution_of payload = Inr x \<and>
        absolute_path (jget payload ''staging_root'') ''staging root'' = Inr rt \<and>
        in_strings (jget payload ''scheduler_family'') families = Inr True \<and>
        expected_of payload = Inr expected \<and>
        prepare_variant rt (jget payload ''variant'') h = (tv, hv, Inr ()) \<and>
        prepare_last env x (jget payload ''scheduler_family'') expected (jget payload ''variant'')
          (staging_of rt x) hv = (tr, h1, Inr reply) \<and> t = tv @ tr)"
  unfolding prepare_def Let_def prepare_last_def [unfolded Let_def, symmetric]
  by (auto simp: bindE_Inr_iff eff_Inr_iff split: if_splits)

end
