(* ===== verification/RemoteProperties.thy ===== *)
theory RemoteProperties
  imports RemotePrepare
begin

text \<open>
  The properties of the remote worker, with the concrete run that shows their hypotheses can
  hold: one execution prepared and submitted to Slurm on an empty host.
\<close>

section \<open>A concrete run\<close>

definition sample_env :: renv where
  "sample_env = \<lparr>e_which = (\<lambda>name. Some (''/usr/bin/'' @ name)),
     e_run = (\<lambda>_. Some \<lparr>cr_argv = [], cr_returncode = Some 0, cr_stdout = ''4711'', cr_stderr = [],
        cr_timed_out = False, cr_truncated = False\<rparr>),
     e_now = (\<lambda>_. ''now''), e_user = ''user'', e_sha256 = (\<lambda>_. replicate 64 (CHR ''a'')),
     e_loads = (\<lambda>_. None)\<rparr>"

definition sample_payload :: "json dict" where
  "sample_payload =
     [(''execution_id'', JStr ''01ARZ3NDEKTSV4RRFFQ69G5FAV''),
      (''staging_root'', JStr ''/s''),
      (''staging_directory'', JStr ''/s/.bourne/executions/01ARZ3NDEKTSV4RRFFQ69G5FAV''),
      (''scheduler_family'', JStr ''slurm''),
      (''expected_files'', JObj (map (\<lambda>n. (n, JStr (replicate 64 (CHR ''a'')))) expected_names))]"

definition sample_host :: host where
  "sample_host = \<lparr>h_state = (\<lambda>_. None), h_blob = (\<lambda>_. Some ''content''), h_dirs = (\<lambda>_. False), h_log = []\<rparr>"

definition sample_id :: string where "sample_id = ''01ARZ3NDEKTSV4RRFFQ69G5FAV''"

lemma sample_execution: "execution_of sample_payload = Inr sample_id"
proof -
  have "fullmatch EXECUTION_ID sample_id"
    unfolding fullmatch_EXECUTION_ID by (simp add: sample_id_def is_digit_def is_upper_def code_point_def)
  then show ?thesis
    by (simp add: execution_of_def sample_payload_def jget_def sample_id_def)
qed

lemma sample_digest: "fullmatch SHA256_HEX (replicate 64 (CHR ''a''))"
  unfolding fullmatch_SHA256_HEX by (simp add: list_all_iff)

lemma sample_expected: "expected_of sample_payload = Inr (map (\<lambda>n. (n, JStr (replicate 64 (CHR ''a'')))) expected_names)"
  using sample_digest by (simp add: expected_of_def sample_payload_def jget_def check_digest_def as_str_def
     expected_names_def)

lemma sample_dir: "absolute_path (JStr ''/s/.bourne/executions/01ARZ3NDEKTSV4RRFFQ69G5FAV'') l = Inr \<lparr>p_root = ''/'', p_parts = [''s'', ''.bourne'', ''executions'', sample_id]\<rparr>"
  by (simp add: absolute_path_def starts_with_def code_point_def path_of_def sample_id_def path_root_def)

lemma sample_root: "absolute_path (JStr ''/s'') l = Inr \<lparr>p_root = ''/'', p_parts = [''s'']\<rparr>"
  by (simp add: absolute_path_def starts_with_def code_point_def path_of_def path_root_def)


definition sample_staging :: ppath where
  "sample_staging = \<lparr>p_root = ''/'', p_parts = [''s'', ''.bourne'', ''executions'', sample_id]\<rparr>"

abbreviation sample_files :: "json dict" where "sample_files \<equiv> map (\<lambda>n. (n, JStr (replicate 64 (CHR ''a'')))) expected_names"

definition sample_state :: "json dict" where
  "sample_state = new_state sample_env sample_id (JStr ''slurm'') sample_staging sample_files JNull"

lemma sample_staging_of: "staging_of \<lparr>p_root = ''/'', p_parts = [''s'']\<rparr> sample_id = sample_staging"
  by (simp add: staging_of_def path_join_component sample_staging_def, simp add: sample_id_def path_join_component)

definition sample_path :: ppath where
  "sample_path = path_join sample_staging ''submission-state.json''"

lemma sample_prepare:
  "prepare sample_env sample_payload sample_host = 
    ([make_dirs sample_staging sample_host, (make_dirs sample_staging sample_host)\<lparr>h_state := (\<lambda>_. None)(sample_path := Some (Holds (JObj sample_state)))\<rparr>],
      (make_dirs sample_staging sample_host)\<lparr>h_state := (\<lambda>_. None)(sample_path := Some (Holds (JObj sample_state)))\<rparr>, Inr (''ok'', public_state sample_state))"
proof -
  have j: "jget sample_payload ''staging_root'' = JStr ''/s''" "jget sample_payload ''scheduler_family'' = JStr ''slurm''"
     "jget sample_payload ''variant'' = JNull"
    by (simp_all add: sample_payload_def jget_def)
  have f: "in_strings (JStr ''slurm'') families = Inr True" by (simp add: in_strings_def families_def)
  show ?thesis
   unfolding prepare_def Let_def 
   by (simp add: eff_defs sample_execution j sample_root f sample_expected prepare_variant_def sample_staging_of 
     prepare_new_def Let_def write_state_def sample_host_def make_dirs_def sample_state_def sample_path_def)
qed


definition prepared_host :: host where
  "prepared_host = fst (snd (prepare sample_env sample_payload sample_host))"

lemma prepared_state: "h_state prepared_host = (\<lambda>_. None)(sample_path := Some (Holds (JObj sample_state)))"
   "h_blob prepared_host = (\<lambda>_. Some ''content'')" "h_log prepared_host = []"
  unfolding prepared_host_def sample_prepare by (simp_all add: make_dirs_def sample_host_def)

lemma sample_state_of: "state_of sample_payload sample_id h = bindE (read_state sample_path sample_id) (\<lambda>state. retE (sample_path, state)) h"
proof -
  have j: "jget sample_payload ''staging_directory'' = JStr ''/s/.bourne/executions/01ARZ3NDEKTSV4RRFFQ69G5FAV''"
    by (simp add: sample_payload_def jget_def)
  show ?thesis
    unfolding state_of_def j sample_dir
    by (simp add: path_name_def path_parent_def bindE_def liftE_def sample_path_def sample_staging_def Let_def split: prod.splits)
qed

lemma sample_get: "dict_get sample_state ''state'' = Some (JStr ''prepared'')" 
  "dict_get sample_state ''staging_directory'' = Some (JStr (path_str sample_staging))" 
  "dict_get sample_state ''expected_files'' = Some (JObj sample_files)"
  "dict_get sample_state ''expected_variant'' = Some JNull"
  "dict_get sample_state ''scheduler_family'' = Some (JStr ''slurm'')"
  "dict_get sample_state ''execution_id'' = Some (JStr sample_id)"
  by (simp_all add: sample_state_def new_state_def)

lemma sample_changed: "changed_file sample_env prepared_host st sample_files = None"
  by (simp add: changed_file_None stored_blob_ok_def prepared_state sample_env_def)

lemma sample_job: "job_id_of ''slurm'' ''4711'' = Some ''4711''"
  by code_simp

lemma sample_env_simps:
  "e_which sample_env name = Some (''/usr/bin/'' @ name)"
  "e_run sample_env n = Some \<lparr>cr_argv = [], cr_returncode = Some 0, cr_stdout = ''4711'',
     cr_stderr = [], cr_timed_out = False, cr_truncated = False\<rparr>"
  by (simp_all add: sample_env_def)

definition submitted_host :: host where
  "submitted_host = fst (snd (submit sample_env sample_payload prepared_host))"

lemma sample_submit:
  "\<exists>d. h_state submitted_host sample_path = Some (Holds (JObj d)) \<and>
     dict_get d ''state'' = Some (JStr ''submitted'') \<and> jget d ''execution_id'' = JStr sample_id \<and>
     dict_get d ''job_id'' = Some (JStr ''4711'') \<and> submits sample_path submitted_host = 1"
  unfolding submitted_host_def submit_def Let_def 
   by (simp add: eff_defs sample_execution sample_state_of read_state_def prepared_state jget_def sample_get item_def 
     in_strings_def as_str_def as_dict_def sample_changed changed_variant_def by_family_def sample_env_simps launch_def Let_def write_state_def
     submit_input_def run_cmd_def sample_job submits_def with_state_def)

lemma submitted_reachable: "reachable_host submitted_host"
proof -
  have "reachable_host sample_host"
    by (rule reaches.start) (simp add: sample_host_def fresh_host_def)
  from reaches.finish [OF this, of "(sample_env, Prepare, sample_payload)"]
  have "reachable_host prepared_host" by (simp add: prepared_host_def invocation_def)
  from reaches.finish [OF this, of "(sample_env, Submit, sample_payload)"]
  show ?thesis by (simp add: submitted_host_def invocation_def)
qed

lemma submitted_job: "job_recorded sample_path ''4711'' submitted_host"
  using sample_submit by (auto simp: job_recorded_def)

section \<open>The properties\<close>

text \<open>
  C1. At most one submission command ever runs for an execution, whatever the order of the
  requests, the crashes between durable steps and the schedulers' answers; and once it has run
  the state file no longer says that the execution may be submitted.
\<close>

theorem submits_at_most_once:
  assumes "reachable_host h"
  shows "submits p h \<le> 1 \<and>
    (submits p h = 1 \<longrightarrow> (\<exists>d. h_state h p = Some (Holds (JObj d)) \<and>
       dict_get d ''state'' \<noteq> Some (JStr ''prepared'')))"
proof -
  have l: "ledger p None h" using worker.reaches_inv [OF assms] .
  then show ?thesis
    using ledger_le [OF l] unfolding ledger_def
    by (cases "(None::string option, h_state h p, submits p h)" rule: view_ok.cases)
      (auto simp: entry_ok_def)
qed

theorem submits_at_most_once_witness:
  "submits sample_path submitted_host \<le> 1"
  using submits_at_most_once [OF submitted_reachable] by blast

text \<open>
  C11. A job identity, once recorded in a state file, is never lost or replaced: it is there in
  every state any later invocation passes through.
\<close>

theorem job_identity_stable:
  assumes "reachable_host h" and "job_recorded p j h"
  shows "always (job_recorded p j) (invocation i) h"
proof -
  have "ledger p (Some j) h"
    using ledger_recorded [OF worker.reaches_inv [OF assms(1)] assms(2)] .
  then have "always (ledger p (Some j)) (invocation i) h"
    by (cases i) (auto simp: invocation_def intro: trip_always [OF keeps_dispatch])
  then show ?thesis
    by (auto simp: always_def list_all_iff ledger_job split: prod.splits)
qed

theorem job_identity_stable_witness:
  "always (job_recorded sample_path ''4711'')
     (invocation (sample_env, Cancel, sample_payload)) submitted_host"
  by (rule job_identity_stable [OF submitted_reachable submitted_job])


text \<open>
  Preparation is idempotent: repeating a request that succeeded gives the same reply,
  whatever the clock and the environment of the second worker, and leaves the state files and
  the scheduler untouched.
\<close>

theorem prepare_idempotent:
  assumes "prepare env payload h = (t, h1, Inr reply)"
    and "distinct_keys (jget payload ''variant'')"
    and "distinct_keys (jget payload ''expected_files'')"
  shows "\<exists>t2 h2. prepare env2 payload h1 = (t2, h2, Inr reply) \<and>
    h_state h2 = h_state h1 \<and> h_log h2 = h_log h1"
proof -
  let ?family = "jget payload ''scheduler_family''" and ?variant = "jget payload ''variant''"
  from assms(1) obtain x rt expected tv hv tr where
    x: "execution_of payload = Inr x"
    and rt: "absolute_path (jget payload ''staging_root'') ''staging root'' = Inr rt"
    and fam: "in_strings ?family families = Inr True"
    and exp: "expected_of payload = Inr expected"
    and var: "prepare_variant rt ?variant h = (tv, hv, Inr ())"
    and rest: "prepare_last env x ?family expected ?variant (staging_of rt x) hv = (tr, h1, Inr reply)"
    by (auto simp: prepare_Inr_iff)
  let ?sp = "path_join (staging_of rt x) ''submission-state.json''"
  have vok: "variant_ok rt ?variant" using var prepare_variant_result [of rt ?variant h] by simp
  have "\<exists>d. resumable x ?family expected ?variant ?sp d h1 \<and> reply = (''ok'', public_state d)"
  proof (cases "h_state hv ?sp = None")
    case True
    with rest have "prepare_new env x ?family expected ?variant (staging_of rt x) ?sp hv
        = (tr, h1, Inr reply)" by (simp add: prepare_last_eq Let_def)
    then show ?thesis
    proof (rule new_resumable)
      show "is_str ?family" using in_strings_str [OF fam] .
      show "py_eq ?variant ?variant" using variant_eq [OF vok assms(2)] .
      show "py_eq (JObj expected) (JObj expected)"
        using expected_of_ok [OF exp expected_of_JObj [OF exp]] assms(3) expected_of_JObj [OF exp]
        by simp
    qed
  next
    case False
    with rest have "bindE (read_state ?sp x) (prepare_retry ?family expected ?variant) hv
        = (tr, h1, Inr reply)" by (auto simp: prepare_last_eq Let_def)
    then show ?thesis using retry_resumable by metis
  qed
  then obtain d where d: "resumable x ?family expected ?variant ?sp d h1"
    and reply: "reply = (''ok'', public_state d)" by blast
  obtain t2 h2 where v2: "prepare_variant rt ?variant h1 = (t2, h2, Inr ())"
    using prepare_variant_result [of rt ?variant h1] vok by (metis prod.collapse)
  have same: "h_state h2 = h_state h1 \<and> h_log h2 = h_log h1"
    using always_final [OF prepare_variant_same [of h1 rt ?variant]] v2 by simp
  then have "resumable x ?family expected ?variant ?sp d h2" and "h_state h2 ?sp \<noteq> None"
    using d by (auto simp: resumable_def)
  then have "prepare_last env2 x ?family expected ?variant (staging_of rt x) h2 = ([], h2, Inr reply)"
    using reply by (simp add: prepare_last_eq Let_def resumable_retry)
  then have "prepare env2 payload h1 = (t2 @ [], h2, Inr reply)"
    using x rt fam exp v2 by (auto simp: prepare_Inr_iff)
  with same show ?thesis by blast
qed

theorem prepare_idempotent_witness:
  "\<exists>t2 h2. prepare sample_env sample_payload prepared_host
       = (t2, h2, Inr (''ok'', public_state sample_state)) \<and>
     h_state h2 = h_state prepared_host \<and> h_log h2 = h_log prepared_host"
proof (rule prepare_idempotent)
  show "prepare sample_env sample_payload sample_host
    = (fst (prepare sample_env sample_payload sample_host), prepared_host,
       Inr (''ok'', public_state sample_state))"
    unfolding prepared_host_def sample_prepare by simp
qed (simp_all add: sample_payload_def jget_def expected_names_def)

text \<open>
  What a submission request does when the execution is not freshly prepared: a submitted one
  is answered from its record, an interrupted or uncertain one becomes ambiguous, any other is
  refused; no command runs and the file is touched only to say ambiguous.
\<close>

theorem submit_not_prepared:
  assumes "execution_of payload = Inr x" and "state_of payload x h = ([], h, Inr (sp, d))"
    and "dict_get d ''state'' = Some (JStr st)" and "st \<noteq> ''prepared''"
  shows "submit env payload h =
    (if st = ''submitted'' then ([], h, Inr (''ok'', public_state d))
     else if st = ''submitting'' \<or> st = ''ambiguous''
     then (let d' = with_state ''ambiguous'' (e_now env 0) d;
               h' = h\<lparr>h_state := (h_state h)(sp := Some (Holds (JObj d')))\<rparr>
           in ([h'], h', Inr (''ambiguous'', public_state d')))
     else ([], h, Inr (''failed'', public_state d)))"
  using assms by (simp add: submit_def eff_defs item_def in_strings_def write_state_def Let_def)

theorem submit_not_prepared_witness:
  "\<exists>d. submit sample_env sample_payload submitted_host
     = ([], submitted_host, Inr (''ok'', public_state d))"
proof -
  obtain d where "h_state submitted_host sample_path = Some (Holds (JObj d))"
    and "dict_get d ''state'' = Some (JStr ''submitted'')"
    and "jget d ''execution_id'' = JStr sample_id"
    using sample_submit by blast
  then show ?thesis
    using submit_not_prepared [of sample_payload sample_id submitted_host sample_path d "''submitted''"]
    by (auto simp: sample_execution sample_state_of bindE_def retE_def read_state_def readE_def)
qed

end
