(* ===== verification/WorkloadModels.thy ===== *)
theory WorkloadModels
  imports Prelude
begin

text \<open>
  The shared workload records (\<open>workload_models.py\<close>): requested resources, placement constraints,
  evidence, the workload and the execution plan. A function named as the class performs the
  checks of its \<open>__post_init__\<close> and returns the value.
\<close>

datatype py_error = PyValueError string | PyTypeError | PyKeyError string | PyZeroDivisionError
  | PyAttributeError

type_synonym 'a pyres = "(py_error, 'a) res"

abbreviation value_error :: "string \<Rightarrow> 'a pyres" where
  "value_error msg \<equiv> Inl (PyValueError msg)"

text \<open>\<open>list(value)\<close> of a JSON value: the keys of an object, the characters of a text.\<close>

definition py_list :: "json \<Rightarrow> json list pyres" where
  "py_list v =
     (case v of
        JArr xs \<Rightarrow> Inr xs
      | JObj d \<Rightarrow> Inr (map (\<lambda>(k, _). JStr k) d)
      | JStr s \<Rightarrow> Inr (map (\<lambda>c. JStr [c]) s)
      | _ \<Rightarrow> Inl PyTypeError)"

definition evidence_states :: "string list" where
  "evidence_states = [''explicit'', ''observed'', ''inferred'', ''historical'', ''unknown'']"

definition backends :: "string list" where
  "backends = [''direct'', ''slurm'', ''pbs'', ''lsf'']"

definition compatibility_states :: "string list" where
  "compatibility_states = [''compatible'', ''partial'', ''incompatible'', ''unknown'']"

section \<open>Resources and constraints\<close>

definition at_least :: "int \<Rightarrow> int option \<Rightarrow> bool" where
  "at_least m v = (case v of None \<Rightarrow> True | Some i \<Rightarrow> m \<le> i)"

lemma at_least_simps [simp]: "at_least m None" "at_least m (Some i) \<longleftrightarrow> m \<le> i"
  by (simp_all add: at_least_def)

record resources =
  r_cpus :: "int option"
  r_gpus :: "int option"
  r_nodes :: "int option"
  r_mpi_ranks :: "int option"
  r_memory_bytes :: "int option"
  r_walltime_seconds :: "int option"

definition ResourceRequirements :: "resources \<Rightarrow> resources pyres" where
  "ResourceRequirements r =
     bindR (checkAll (\<lambda>(name, v).
         raise_if (\<not> at_least 1 v) (PyValueError (name @ '' must be at least 1'')))
       [(''cpus'', r_cpus r), (''nodes'', r_nodes r), (''mpi_ranks'', r_mpi_ranks r),
        (''memory_bytes'', r_memory_bytes r), (''walltime_seconds'', r_walltime_seconds r)]) (\<lambda>_.
     if \<not> at_least 0 (r_gpus r) then value_error ''gpus must be at least 0'' else Inr r)"

definition no_resources :: resources where
  "no_resources = \<lparr>r_cpus = None, r_gpus = None, r_nodes = None, r_mpi_ranks = None,
     r_memory_bytes = None, r_walltime_seconds = None\<rparr>"

definition resources_ok :: "resources \<Rightarrow> bool" where
  "resources_ok r \<longleftrightarrow> at_least 1 (r_cpus r) \<and> at_least 0 (r_gpus r) \<and> at_least 1 (r_nodes r) \<and>
     at_least 1 (r_mpi_ranks r) \<and> at_least 1 (r_memory_bytes r) \<and>
     at_least 1 (r_walltime_seconds r)"

lemma ResourceRequirements_Inr:
  "ResourceRequirements r = Inr r' \<longleftrightarrow> r' = r \<and> resources_ok r"
  by (auto simp: ResourceRequirements_def resources_ok_def result_simps)

record constraints =
  x_backend :: string
  x_target :: "string option"
  x_context :: "string option"

definition backend_names :: "string list" where
  "backend_names = [''auto'', ''direct'', ''slurm'', ''pbs'', ''lsf'']"

definition ExecutionConstraints :: "constraints \<Rightarrow> constraints pyres" where
  "ExecutionConstraints x =
     (if x_backend x \<notin> set backend_names
      then value_error (''unsupported backend: '' @ x_backend x) else Inr x)"

section \<open>Evidence and requirements\<close>

record evidence =
  ve_subject :: string
  ve_state :: string
  ve_source :: string
  ve_value :: json
  ve_detail :: "string option"

definition RequirementEvidence :: "evidence \<Rightarrow> evidence pyres" where
  "RequirementEvidence e =
     (if ve_state e \<notin> set evidence_states
      then value_error (''unsupported evidence state: '' @ ve_state e) else Inr e)"

record capability_requirement =
  cr_kind :: string
  cr_name :: string
  cr_evidence_state :: string
  cr_required :: bool

record launcher =
  l_name :: "string option"
  l_mpi_ranks :: int
  l_evidence_state :: string

definition LauncherRequirement :: "launcher \<Rightarrow> launcher pyres" where
  "LauncherRequirement l =
     (if l_mpi_ranks l < 1 then value_error ''mpi_ranks must be at least 1''
      else if l_evidence_state l \<notin> set evidence_states
      then value_error (''unsupported evidence state: '' @ l_evidence_state l)
      else Inr l)"

section \<open>Workloads and plans\<close>

record workload =
  w_id :: string
  w_created_at :: string
  w_working_directory :: string
  w_executable :: string
  w_arguments :: "string list"
  w_inputs :: "string list"
  w_outputs :: "string list"
  w_resources :: resources
  w_capabilities :: "capability_requirement list"
  w_launcher :: "launcher option"
  w_constraints :: constraints
  w_evidence :: "evidence list"
  w_parent :: "string option"
  w_markers :: "string list"
  w_metadata :: "json dict"

definition validate_strings :: "string list \<Rightarrow> string \<Rightarrow> unit pyres" where
  "validate_strings values label =
     raise_if (length values > 4096) (PyValueError (label @ '' must be a bounded string list''))"

definition WorkloadSpec :: "workload \<Rightarrow> workload pyres" where
  "WorkloadSpec w =
     bindR (raise_if (w_id w = [] \<or> w_executable w = [] \<or> w_working_directory w = [])
       (PyValueError ''workload ID, executable, and working directory are required'')) (\<lambda>_.
     bindR (validate_strings (w_arguments w) ''workload arguments'') (\<lambda>_.
     bindR (validate_strings (w_inputs w) ''workload inputs'') (\<lambda>_.
     bindR (validate_strings (w_outputs w) ''workload outputs'') (\<lambda>_. Inr w))))"

definition workload_argv :: "workload \<Rightarrow> string list" where
  "workload_argv w = w_executable w # w_arguments w"

record decision =
  de_state :: string
  de_subject :: string
  de_message :: string
  de_subject_id :: "string option"

definition DecisionEvidence :: "decision \<Rightarrow> decision pyres" where
  "DecisionEvidence d =
     (if de_state d \<notin> set evidence_states
      then value_error (''unsupported evidence state: '' @ de_state d) else Inr d)"

end
