(* ===== verification/Request.thy ===== *)
theory Request
  imports Regex WorkloadModels
begin

text \<open>
  The execution request (\<open>execution_request.py\<close>): validation of a JSON document to a normalized
  request, and the document a request is published as. What \<open>json.loads\<close> returned is a \<open>json\<close>;
  the request's fields are typed, since the validation leaves only values of those types.
  Error messages are kept, except that a value quoted in one is not escaped as \<open>repr\<close> would.
\<close>

section \<open>Constants and errors\<close>

datatype request_error =
    ExecutionRequestError string
  | PyRaised py_error

definition REQUEST_KIND :: string where "REQUEST_KIND = ''bourne.execution-request''"
definition RELEASED_REQUEST_SCHEMA_VERSION :: int where "RELEASED_REQUEST_SCHEMA_VERSION = 1"
definition REQUEST_SCHEMA_VERSION :: int where "REQUEST_SCHEMA_VERSION = 2"
definition MAX_REQUEST_BYTES :: nat where "MAX_REQUEST_BYTES = 1024 * 1024"
definition MAX_REQUEST_ARGV :: nat where "MAX_REQUEST_ARGV = 4096"
definition MAX_REQUEST_STRING :: nat where "MAX_REQUEST_STRING = 16 * 1024"
definition MAX_REQUEST_ARTIFACTS_PER_ROLE :: nat where "MAX_REQUEST_ARTIFACTS_PER_ROLE = 2048"
definition MAX_REQUEST_CHECKS :: nat where "MAX_REQUEST_CHECKS = 2048"
definition MAX_REQUEST_JSON_DEPTH :: nat where "MAX_REQUEST_JSON_DEPTH = 12"
definition MAX_SOURCE_METADATA_FIELDS :: nat where "MAX_SOURCE_METADATA_FIELDS = 32"

lemmas request_limits = MAX_REQUEST_BYTES_def MAX_REQUEST_ARGV_def MAX_REQUEST_STRING_def
  MAX_REQUEST_ARTIFACTS_PER_ROLE_def MAX_REQUEST_CHECKS_def MAX_REQUEST_JSON_DEPTH_def
  MAX_SOURCE_METADATA_FIELDS_def

type_synonym 'a parsed = "(request_error, 'a) res"

abbreviation bad :: "string \<Rightarrow> 'a parsed" where
  "bad msg \<equiv> Inl (ExecutionRequestError msg)"

section \<open>Bounded values\<close>

definition bounded_string :: "json \<Rightarrow> string \<Rightarrow> bool \<Rightarrow> unit parsed" where
  "bounded_string value label allow_empty =
     (case value of
        JStr s \<Rightarrow>
          if \<not> allow_empty \<and> s = [] then bad (label @ '' must not be empty'')
          else if length s > MAX_REQUEST_STRING
          then bad (label @ '' exceeds the 16384-character limit'')
          else if list_ex (\<lambda>c. code_point c = 0) s then bad (label @ '' must not contain NUL'')
          else Inr ()
      | _ \<Rightarrow> bad (label @ '' must be a string''))"

fun validate_json_bounds :: "nat \<Rightarrow> json \<Rightarrow> unit parsed" where
  "validate_json_bounds depth value =
     (if depth > MAX_REQUEST_JSON_DEPTH
      then bad ''request JSON exceeds the nesting-depth limit''
      else (case value of
          JNull \<Rightarrow> Inr ()
        | JBool _ \<Rightarrow> Inr ()
        | JInt _ \<Rightarrow> Inr ()
        | JFloat f \<Rightarrow>
            if \<not> is_finite f then bad ''request JSON contains a non-finite number'' else Inr ()
        | JStr s \<Rightarrow> bounded_string (JStr s) ''request string'' True
        | JArr xs \<Rightarrow>
            if length xs > MAX_REQUEST_ARGV then bad ''request JSON array exceeds the count limit''
            else checkAll (validate_json_bounds (depth + 1)) xs
        | JObj d \<Rightarrow>
            if length d > 256 then bad ''request JSON object exceeds the field limit''
            else checkAll (\<lambda>(key, item).
                   bindR (bounded_string (JStr key) ''request field name'' False) (\<lambda>_.
                     validate_json_bounds (depth + 1) item)) d))"

declare validate_json_bounds.simps [simp del]

definition validate_string_list :: "json list \<Rightarrow> string \<Rightarrow> nat \<Rightarrow> bool \<Rightarrow> unit parsed" where
  "validate_string_list value label limit require_nonempty =
     (if length value > limit then bad (label @ '' exceeds the count limit ('' @ str_nat limit @ '')'')
      else if require_nonempty \<and> value = []
      then bad (label @ '' must contain at least one value'')
      else checkAll (\<lambda>item. bounded_string item label False) value)"

definition string_list :: "json \<Rightarrow> string \<Rightarrow> nat \<Rightarrow> bool \<Rightarrow> string list parsed" where
  "string_list value label limit require_nonempty =
     (case value of
        JArr xs \<Rightarrow> bindR (validate_string_list xs label limit require_nonempty)
          (\<lambda>_. Inr (map the_str xs))
      | _ \<Rightarrow> bad (label @ '' must be an array of strings''))"

definition object_of :: "json \<Rightarrow> string \<Rightarrow> json dict parsed" where
  "object_of value label =
     (case value of JObj d \<Rightarrow> Inr d | _ \<Rightarrow> bad (label @ '' must be a JSON object''))"

definition optional_object :: "json dict \<Rightarrow> string \<Rightarrow> json dict parsed" where
  "optional_object parent key =
     (case dict_get parent key of None \<Rightarrow> Inr [] | Some v \<Rightarrow> object_of v key)"

definition parse_field :: "json dict \<Rightarrow> string \<Rightarrow> (json dict \<Rightarrow> 'a parsed) \<Rightarrow> 'a parsed" where
  "parse_field parent key parse = bindR (optional_object parent key) parse"

definition reject_unknown :: "json dict \<Rightarrow> string list \<Rightarrow> string \<Rightarrow> unit parsed" where
  "reject_unknown value allowed label =
     (let unknown = filter (\<lambda>k. k \<notin> set allowed) (dict_keys value) in
      if unknown \<noteq> []
      then bad (''unknown '' @ label @ '' field(s): '' @ join '', '' (sort_str unknown))
      else Inr ())"

text \<open>\<open>_unique_object\<close>, the hook of \<open>json.loads\<close>: repeated fields are refused.\<close>

fun unique_object_from :: "json dict \<Rightarrow> json dict \<Rightarrow> json dict parsed" where
  "unique_object_from value [] = Inr value"
| "unique_object_from value ((key, item) # pairs) =
     (if key \<in> set (dict_keys value) then bad (''duplicate request field: '' @ key)
      else unique_object_from (dict_set key item value) pairs)"

definition unique_object :: "json dict \<Rightarrow> json dict parsed" where
  "unique_object pairs = unique_object_from [] pairs"

section \<open>The size of a document\<close>

text \<open>
  \<open>json.dumps(value, ensure_ascii=False, sort_keys=True, separators=(",", ":"))\<close>. How a float is
  written is Python's \<open>repr\<close>, a parameter.
\<close>

definition hex_digit :: "nat \<Rightarrow> char" where
  "hex_digit n = (if n < 10 then digit_char n else char_of (87 + n))"

definition json_escape :: "char \<Rightarrow> string" where
  "json_escape c =
     (let n = code_point c in
      if n = 34 then [char_of (92::nat), c] else if n = 92 then [c, c]
      else if n = 10 then [char_of (92::nat), CHR ''n'']
      else if n = 13 then [char_of (92::nat), CHR ''r'']
      else if n = 9 then [char_of (92::nat), CHR ''t'']
      else if n = 12 then [char_of (92::nat), CHR ''f'']
      else if n = 8 then [char_of (92::nat), CHR ''b'']
      else if n < 32 then [char_of (92::nat), CHR ''u'', CHR ''0'', CHR ''0'',
                           hex_digit (n div 16), hex_digit (n mod 16)]
      else [c])"

definition json_string :: "string \<Rightarrow> string" where
  "json_string s = [char_of (34::nat)] @ concat (map json_escape s) @ [char_of (34::nat)]"

fun insort_pair :: "string \<times> string \<Rightarrow> (string \<times> string) list \<Rightarrow> (string \<times> string) list" where
  "insort_pair x [] = [x]"
| "insort_pair x (y # ys) =
     (if str_less (fst y) (fst x) then y # insort_pair x ys else x # y # ys)"

fun json_dumps :: "(py_float \<Rightarrow> string) \<Rightarrow> json \<Rightarrow> string" where
  "json_dumps fr JNull = ''null''"
| "json_dumps fr (JBool b) = (if b then ''true'' else ''false'')"
| "json_dumps fr (JInt i) = str_int i"
| "json_dumps fr (JFloat f) = fr f"
| "json_dumps fr (JStr s) = json_string s"
| "json_dumps fr (JArr xs) = ''['' @ join '','' (map (json_dumps fr) xs) @ '']''"
| "json_dumps fr (JObj d) =
     ''{'' @ join '','' (map (\<lambda>(k, t). json_string k @ '':'' @ t)
       (foldr insort_pair (map (\<lambda>(k, v). (k, json_dumps fr v)) d) [])) @ ''}''"

text \<open>The UTF-8 length of a text of code points below 256.\<close>

definition utf8_length :: "string \<Rightarrow> nat" where
  "utf8_length s = sum_list (map (\<lambda>c. if code_point c < 128 then 1 else 2) s)"

text \<open>\<open>text.encode("utf-8")\<close>, for code points below 256.\<close>

definition utf8_char :: "char \<Rightarrow> string" where
  "utf8_char c =
     (let n = code_point c in
      if n < 128 then [c] else [char_of (192 + n div 64), char_of (128 + n mod 64)])"

definition utf8_encode :: "string \<Rightarrow> string" where
  "utf8_encode s = concat (map utf8_char s)"

lemma length_utf8_encode: "length (utf8_encode s) = utf8_length s"
  by (induction s) (simp_all add: utf8_encode_def utf8_length_def utf8_char_def Let_def)

section \<open>Quantities\<close>

text \<open>\<open>int(text)\<close> of decimal digits: the interpreter refuses more than 4300 of them.\<close>

definition py_int :: "string \<Rightarrow> int parsed" where
  "py_int s = (if length s > 4300 then Inl (PyRaised (PyValueError ''Exceeds the limit for integer string conversion''))
               else Inr (int (parse_nat s)))"

text \<open>\<open>s.replace(t, "")\<close> for a non-empty \<open>t\<close>.\<close>

fun str_remove :: "string \<Rightarrow> string \<Rightarrow> string" where
  "str_remove t [] = []"
| "str_remove t (c # cs) =
     (if t \<noteq> [] \<and> starts_with t (c # cs) then str_remove t (drop (length t - 1) cs)
      else c # str_remove t cs)"

text \<open>\<open>[1-9][0-9]*\<close> in front, and what follows it.\<close>

definition number_prefix :: "string \<Rightarrow> (string \<times> string) option" where
  "number_prefix s =
     (let n = takeWhile is_digit s in
      if n = [] \<or> hd n = CHR ''0'' then None else Some (n, dropWhile is_digit s))"

definition MEMORY_UNIT :: rx where
  "MEMORY_UNIT =
     RAlt REps (RAlt (RCls (\<lambda>c. upper_char c = CHR ''B''))
       (RSeq (RCls (\<lambda>c. upper_char c \<in> set ''KMGT''))
         (ropt (RSeq (ropt (RCls (\<lambda>c. upper_char c = CHR ''I'')))
                     (RCls (\<lambda>c. upper_char c = CHR ''B''))))))"

definition memory_factor :: "string \<Rightarrow> int option" where
  "memory_factor unit =
     (if unit = [] then Some 1
      else if unit = ''K'' then Some 1024
      else if unit = ''M'' then Some (1024 ^ 2)
      else if unit = ''G'' then Some (1024 ^ 3)
      else if unit = ''T'' then Some (1024 ^ 4)
      else None)"

definition parse_memory :: "json \<Rightarrow> int parsed" where
  "parse_memory value =
     (case value of
        JInt i \<Rightarrow> if i < 1 then bad ''memory must be at least 1 byte'' else Inr i
      | JStr s \<Rightarrow>
          (case number_prefix s of
             None \<Rightarrow> bad ''memory must be a value such as 4G or 512MiB''
           | Some (digits, suffix) \<Rightarrow>
               if \<not> fullmatch MEMORY_UNIT suffix
               then bad ''memory must be a value such as 4G or 512MiB''
               else
                 (let u = str_remove ''B'' (str_remove ''IB''
                            (py_upper (if suffix = [] then ''B'' else suffix)))
                  in bindR (py_int digits) (\<lambda>n.
                     case memory_factor u of
                       None \<Rightarrow> Inl (PyRaised (PyKeyError u))
                     | Some f \<Rightarrow> Inr (n * f))))
      | _ \<Rightarrow> bad ''memory must be positive bytes or a size string'')"

definition walltime_factor :: "char \<Rightarrow> int option" where
  "walltime_factor c =
     (let u = upper_char c in
      if u = CHR ''H'' then Some 3600 else if u = CHR ''M'' then Some 60
      else if u = CHR ''S'' then Some 1 else None)"

definition sixty :: "string \<Rightarrow> bool" where
  "sixty s \<longleftrightarrow> (\<exists>a b. s = [a, b] \<and> is_digit a \<and> digit_value a < 6 \<and> is_digit b)"

lemma sixty_code [code]:
  "sixty s = (case s of [a, b] \<Rightarrow> is_digit a \<and> digit_value a < 6 \<and> is_digit b | _ \<Rightarrow> False)"
  by (auto simp: sixty_def split: list.splits)

definition parse_walltime :: "json \<Rightarrow> int parsed" where
  "parse_walltime value =
     (let wrong = bad ''walltime must be seconds, 2h/30m, or HH:MM:SS'' in
      case value of
        JInt i \<Rightarrow> if i < 1 then bad ''walltime must be at least 1 second'' else Inr i
      | JStr s \<Rightarrow>
          (case number_prefix s of
             Some (digits, []) \<Rightarrow> py_int digits
           | Some (digits, [u]) \<Rightarrow>
               (case walltime_factor u of
                  Some f \<Rightarrow> bindR (py_int digits) (\<lambda>n. Inr (n * f))
                | None \<Rightarrow> wrong)
           | _ \<Rightarrow>
               (case split_on (CHR '':'') s of
                  [h, m, t] \<Rightarrow>
                    if all_digits h \<and> sixty m \<and> sixty t
                    then bindR (py_int h) (\<lambda>hours. bindR (py_int m) (\<lambda>minutes.
                         bindR (py_int t) (\<lambda>seconds.
                           let total = hours * 3600 + minutes * 60 + seconds
                           in if total > 0 then Inr total else wrong)))
                    else wrong
                | _ \<Rightarrow> wrong))
      | _ \<Rightarrow> bad ''walltime must be positive seconds or a duration string'')"

definition resource_integer :: "json dict \<Rightarrow> string \<Rightarrow> int \<Rightarrow> int option parsed" where
  "resource_integer value key minimum =
     (case dict_get value key of
        None \<Rightarrow> Inr None
      | Some (JInt i) \<Rightarrow>
          if i < minimum
          then bad (''resources.'' @ key @ '' must be at least '' @ str_int minimum)
          else Inr (Some i)
      | Some _ \<Rightarrow> bad (''resources.'' @ key @ '' must be at least '' @ str_int minimum))"

section \<open>Verification checks\<close>

record check =
  ck_type :: string
  ck_path :: string
  ck_min_bytes :: "int option"
  ck_sha256 :: "string option"

definition check_types :: "string list" where
  "check_types = [''output_exists'', ''output_min_bytes'', ''output_sha256'']"

definition SHA256 :: "string \<Rightarrow> bool" where
  "SHA256 s \<longleftrightarrow> length s = 64 \<and> list_all (\<lambda>c. is_digit c \<or> lower_char c \<in> set ''abcdef'') s"

text \<open>The dataclass's own checks, on the values the document holds.\<close>

definition VerificationCheckSpec :: "string \<Rightarrow> string \<Rightarrow> json \<Rightarrow> json \<Rightarrow> check parsed" where
  "VerificationCheckSpec t path min_bytes sha =
     (if t \<notin> set check_types then bad (''unsupported verification check: '' @ t)
      else bindR (bounded_string (JStr path) ''verification path'' False) (\<lambda>_.
        if t = ''output_exists'' then
          (if min_bytes \<noteq> JNull \<or> sha \<noteq> JNull
           then bad ''output_exists accepts only type and path''
           else Inr \<lparr>ck_type = t, ck_path = path, ck_min_bytes = None, ck_sha256 = None\<rparr>)
        else if t = ''output_min_bytes'' then
          (case min_bytes of
             JInt n \<Rightarrow>
               if n < 0 \<or> sha \<noteq> JNull
               then bad ''output_min_bytes requires a non-negative min_bytes value''
               else Inr \<lparr>ck_type = t, ck_path = path, ck_min_bytes = Some n, ck_sha256 = None\<rparr>
           | _ \<Rightarrow> bad ''output_min_bytes requires a non-negative min_bytes value'')
        else
          (case sha of
             JStr d \<Rightarrow>
               if min_bytes \<noteq> JNull \<or> \<not> SHA256 d
               then bad ''output_sha256 requires a 64-digit SHA-256 value''
               else Inr \<lparr>ck_type = t, ck_path = path, ck_min_bytes = None, ck_sha256 = Some d\<rparr>
           | _ \<Rightarrow> bad ''output_sha256 requires a 64-digit SHA-256 value'')))"

definition check_to_dict :: "check \<Rightarrow> json dict" where
  "check_to_dict c =
     [(''type'', JStr (ck_type c)), (''path'', JStr (ck_path c))]
     @ (case ck_min_bytes c of None \<Rightarrow> [] | Some n \<Rightarrow> [(''min_bytes'', JInt n)])
     @ (case ck_sha256 c of None \<Rightarrow> [] | Some d \<Rightarrow> [(''sha256'', JStr d)])"

definition parse_check :: "json \<Rightarrow> nat \<Rightarrow> check parsed" where
  "parse_check value index =
     (let label = ''verification check '' @ str_nat (index + 1) in
      bindR (object_of value label) (\<lambda>d.
      bindR (reject_unknown d [''type'', ''path'', ''min_bytes'', ''sha256''] label) (\<lambda>_.
      bindR (bounded_string (jget d ''type'') ''verification check type'' False) (\<lambda>_.
      bindR (bounded_string (jget d ''path'') ''verification path'' False) (\<lambda>_.
      let sha = (case jget d ''sha256'' of JStr x \<Rightarrow> JStr (casefold x) | v \<Rightarrow> v) in
      VerificationCheckSpec (the_str (jget d ''type'')) (the_str (jget d ''path''))
        (jget d ''min_bytes'') sha)))))"

fun parse_checks :: "json list \<Rightarrow> nat \<Rightarrow> check list parsed" where
  "parse_checks [] index = Inr []"
| "parse_checks (item # items) index =
     bindR (parse_check item index) (\<lambda>c.
     bindR (parse_checks items (index + 1)) (\<lambda>cs. Inr (c # cs)))"

section \<open>Resources, placement and source\<close>

record source =
  so_kind :: string
  so_metadata :: "(string \<times> string) list"

definition source_kinds :: "string list" where
  "source_kinds = [''cli'', ''file'', ''sdk'']"

definition RequestSource :: "source \<Rightarrow> source parsed" where
  "RequestSource s =
     (if so_kind s \<notin> set source_kinds
      then bad (''unsupported request source kind: '' @ so_kind s)
      else if length (so_metadata s) > MAX_SOURCE_METADATA_FIELDS
      then bad ''request source metadata exceeds the field limit''
      else if length (dedup (map fst (so_metadata s))) \<noteq> length (so_metadata s)
      then bad ''request source metadata keys must be unique''
      else bindR (checkAll (\<lambda>(key, value).
          bindR (bounded_string (JStr key) ''request source metadata key'' False) (\<lambda>_.
            bounded_string (JStr value) ''request source metadata value'' True)) (so_metadata s))
        (\<lambda>_. Inr s))"

section \<open>The request\<close>

record request =
  rq_id :: string
  rq_created_at :: string
  rq_command :: "string list"
  rq_base_directory :: string
  rq_working_directory :: string
  rq_resolved_working_directory :: string
  rq_inputs :: "string list"
  rq_outputs :: "string list"
  rq_resources :: resources
  rq_execution :: constraints
  rq_requested_parent :: "string option"
  rq_resolved_parent :: "string option"
  rq_telemetry_mode :: string
  rq_checks :: "check list"
  rq_source :: source
  rq_kind :: string
  rq_version :: int

definition telemetry_modes :: "string list" where
  "telemetry_modes = [''off'', ''summary'']"

definition unique_paths :: "string list \<Rightarrow> string \<Rightarrow> unit parsed" where
  "unique_paths paths label =
     raise_if (length (dedup paths) \<noteq> length paths)
       (ExecutionRequestError (label @ '' artifact paths must be unique''))"

text \<open>\<open>ExecutionRequest.__post_init__\<close>\<close>

definition ExecutionRequest :: "request \<Rightarrow> request parsed" where
  "ExecutionRequest r =
     bindR (raise_if (rq_kind r \<noteq> REQUEST_KIND)
       (ExecutionRequestError (''unsupported request kind: '' @ rq_kind r))) (\<lambda>_.
     bindR (raise_if (rq_version r \<notin> {RELEASED_REQUEST_SCHEMA_VERSION, REQUEST_SCHEMA_VERSION})
       (ExecutionRequestError
         (''unsupported execution request version: '' @ str_int (rq_version r)))) (\<lambda>_.
     bindR (raise_if (rq_id r = [] \<or> rq_created_at r = [])
       (ExecutionRequestError ''request ID and creation time are required'')) (\<lambda>_.
     bindR (validate_string_list (map JStr (rq_command r)) ''command'' MAX_REQUEST_ARGV True) (\<lambda>_.
     bindR (bounded_string (JStr (rq_base_directory r)) ''request base directory'' False) (\<lambda>_.
     bindR (bounded_string (JStr (rq_working_directory r)) ''working directory'' False) (\<lambda>_.
     bindR (bounded_string (JStr (rq_resolved_working_directory r)) ''resolved working directory''
       False) (\<lambda>_.
     bindR (validate_string_list (map JStr (rq_inputs r)) ''input artifacts''
       MAX_REQUEST_ARTIFACTS_PER_ROLE False) (\<lambda>_.
     bindR (validate_string_list (map JStr (rq_outputs r)) ''output artifacts''
       MAX_REQUEST_ARTIFACTS_PER_ROLE False) (\<lambda>_.
     bindR (unique_paths (rq_inputs r) ''input'') (\<lambda>_.
     bindR (unique_paths (rq_outputs r) ''output'') (\<lambda>_.
     bindR (raise_if (rq_telemetry_mode r \<notin> set telemetry_modes)
       (ExecutionRequestError (''unsupported telemetry mode: '' @ rq_telemetry_mode r))) (\<lambda>_.
     bindR (raise_if (length (rq_checks r) > MAX_REQUEST_CHECKS)
       (ExecutionRequestError ''verification checks exceed the count limit'')) (\<lambda>_.
     bindR (checkAll (\<lambda>c. raise_if (ck_path c \<notin> set (rq_outputs r))
       (ExecutionRequestError (''verification path '' @ ck_path c @ '' is not a declared output'')))
       (rq_checks r)) (\<lambda>_.
     bindR (case rq_requested_parent r of
         None \<Rightarrow> Inr ()
       | Some p \<Rightarrow> bounded_string (JStr p) ''requested parent experiment'' False) (\<lambda>_.
     bindR (case rq_resolved_parent r of
         None \<Rightarrow> Inr ()
       | Some p \<Rightarrow>
           if rq_requested_parent r = None
           then bad ''a resolved parent experiment requires a requested reference''
           else bounded_string (JStr p) ''resolved parent experiment ID'' False) (\<lambda>_.
     Inr r))))))))))))))))"

section \<open>Parsing\<close>

text \<open>
  What one call takes from outside: the base directory after \<open>resolve\<close>, path resolution (which
  follows symbolic links), the new identity, the clock, and how floats are written.
\<close>

record parse_env =
  pe_base :: string
  pe_resolve :: "string \<Rightarrow> string"
  pe_ulid :: string
  pe_now :: string
  pe_float :: "py_float \<Rightarrow> string"

definition opt_str :: "json \<Rightarrow> string option" where
  "opt_str v = (case v of JStr s \<Rightarrow> Some s | _ \<Rightarrow> None)"

definition opt_bounded :: "json \<Rightarrow> string \<Rightarrow> unit parsed" where
  "opt_bounded v label = (if v = JNull then Inr () else bounded_string v label False)"

definition quantity :: "json dict \<Rightarrow> string \<Rightarrow> (json \<Rightarrow> int parsed) \<Rightarrow> int option parsed" where
  "quantity d key parse =
     (case dict_get d key of None \<Rightarrow> Inr None | Some v \<Rightarrow> mapR Some (parse v))"

definition parse_resources :: "json dict \<Rightarrow> resources parsed" where
  "parse_resources value =
     bindR (reject_unknown value
       [''cpus'', ''gpus'', ''nodes'', ''mpi_ranks'', ''memory'', ''walltime''] ''resources'') (\<lambda>_.
     bindR (resource_integer value ''cpus'' 1) (\<lambda>cpus.
     bindR (resource_integer value ''gpus'' 0) (\<lambda>gpus.
     bindR (resource_integer value ''nodes'' 1) (\<lambda>nodes.
     bindR (resource_integer value ''mpi_ranks'' 1) (\<lambda>mpi_ranks.
     bindR (quantity value ''memory'' parse_memory) (\<lambda>memory.
     bindR (quantity value ''walltime'' parse_walltime) (\<lambda>walltime.
     mapErr PyRaised (ResourceRequirements \<lparr>r_cpus = cpus, r_gpus = gpus, r_nodes = nodes,
       r_mpi_ranks = mpi_ranks, r_memory_bytes = memory, r_walltime_seconds = walltime\<rparr>))))))))"

definition parse_execution :: "json dict \<Rightarrow> int \<Rightarrow> constraints parsed" where
  "parse_execution value version =
     bindR (reject_unknown value [''backend'', ''target'', ''context''] ''execution'') (\<lambda>_.
     let backend = jget_or value ''backend'' (JStr ''auto'');
         target = jget value ''target''; context = jget value ''context'' in
     bindR (bounded_string backend ''execution backend'' False) (\<lambda>_.
     bindR (opt_bounded target ''execution target'') (\<lambda>_.
     bindR (opt_bounded context ''execution context'') (\<lambda>_.
     bindR (mapErr PyRaised (ExecutionConstraints \<lparr>x_backend = the_str backend,
              x_target = opt_str target, x_context = opt_str context\<rparr>)) (\<lambda>execution.
     if version = RELEASED_REQUEST_SCHEMA_VERSION \<and> backend = JStr ''lsf''
     then bad ''LSF backend requires execution request version 2''
     else Inr execution)))))"

definition parse_version :: "json \<Rightarrow> int parsed" where
  "parse_version v =
     (case v of
        JInt version \<Rightarrow>
          if version \<notin> {RELEASED_REQUEST_SCHEMA_VERSION, REQUEST_SCHEMA_VERSION}
          then bad (''unsupported execution request version: '' @ str_int version)
          else Inr version
      | _ \<Rightarrow> bad ''request version must be an integer'')"

text \<open>The checks of the whole document before its fields are read.\<close>

definition parse_root :: "parse_env \<Rightarrow> json \<Rightarrow> json dict parsed" where
  "parse_root env value =
     bindR (validate_json_bounds 0 value) (\<lambda>_.
     if utf8_length (json_dumps (pe_float env) value) > MAX_REQUEST_BYTES
     then bad ''request document exceeds 1048576 bytes''
     else bindR (object_of value ''execution request'') (\<lambda>d.
     bindR (reject_unknown d [''kind'', ''version'', ''command'', ''working_directory'',
       ''artifacts'', ''resources'', ''execution'', ''provenance'', ''telemetry'', ''verification'']
       ''execution request'') (\<lambda>_.
     if jget d ''kind'' \<noteq> JStr REQUEST_KIND
     then bad (''request kind must be '' @ [CHR 0x27] @ REQUEST_KIND @ [CHR 0x27])
     else Inr d)))"

definition parse_parent :: "json dict \<Rightarrow> string option parsed" where
  "parse_parent value =
     bindR (reject_unknown value [''parent_experiment''] ''provenance'') (\<lambda>_.
     bindR (opt_bounded (jget value ''parent_experiment'') ''parent experiment'') (\<lambda>_.
     Inr (opt_str (jget value ''parent_experiment''))))"

definition parse_telemetry :: "json dict \<Rightarrow> string parsed" where
  "parse_telemetry value =
     bindR (reject_unknown value [''mode''] ''telemetry'') (\<lambda>_.
     let mode = jget_or value ''mode'' (JStr ''summary'') in
     bindR (bounded_string mode ''telemetry mode'' False) (\<lambda>_. Inr (the_str mode)))"

definition parse_verification :: "json dict \<Rightarrow> check list parsed" where
  "parse_verification value =
     bindR (reject_unknown value [''checks''] ''verification'') (\<lambda>_.
     case jget_or value ''checks'' (JArr []) of
       JArr xs \<Rightarrow>
         if length xs > MAX_REQUEST_CHECKS
         then bad ''verification checks must be a bounded array''
         else parse_checks xs 0
     | _ \<Rightarrow> bad ''verification checks must be a bounded array'')"

definition parse_execution_request ::
  "parse_env \<Rightarrow> source \<Rightarrow> json \<Rightarrow> request parsed" where
  "parse_execution_request env source value =
     bindR (parse_root env value) (\<lambda>d.
     bindR (parse_version (jget d ''version'')) (\<lambda>version.
     bindR (string_list (jget d ''command'') ''command'' MAX_REQUEST_ARGV True) (\<lambda>command.
     let working_directory = jget_or d ''working_directory'' (JStr ''.'') in
     bindR (bounded_string working_directory ''working directory'' False) (\<lambda>_.
     bindR (optional_object d ''artifacts'') (\<lambda>artifacts.
     bindR (reject_unknown artifacts [''inputs'', ''outputs''] ''artifacts'') (\<lambda>_.
     bindR (string_list (jget_or artifacts ''inputs'' (JArr [])) ''input artifacts''
       MAX_REQUEST_ARTIFACTS_PER_ROLE False) (\<lambda>inputs.
     bindR (string_list (jget_or artifacts ''outputs'' (JArr [])) ''output artifacts''
       MAX_REQUEST_ARTIFACTS_PER_ROLE False) (\<lambda>outputs.
     bindR (parse_field d ''resources'' parse_resources) (\<lambda>resources.
     bindR (parse_field d ''execution'' (\<lambda>v. parse_execution v version)) (\<lambda>execution.
     bindR (parse_field d ''provenance'' parse_parent) (\<lambda>parent.
     bindR (parse_field d ''telemetry'' parse_telemetry) (\<lambda>telemetry_mode.
     bindR (parse_field d ''verification'' parse_verification) (\<lambda>checks.
     ExecutionRequest
       \<lparr>rq_id = pe_ulid env, rq_created_at = pe_now env, rq_command = command,
        rq_base_directory = pe_base env, rq_working_directory = the_str working_directory,
        rq_resolved_working_directory = pe_resolve env (the_str working_directory),
        rq_inputs = inputs, rq_outputs = outputs, rq_resources = resources,
        rq_execution = execution, rq_requested_parent = parent, rq_resolved_parent = None,
        rq_telemetry_mode = telemetry_mode, rq_checks = checks, rq_source = source,
        rq_kind = REQUEST_KIND, rq_version = version\<rparr>)))))))))))))"

section \<open>The published document\<close>

definition strings :: "string list \<Rightarrow> json" where
  "strings xs = JArr (map JStr xs)"

definition opt_field :: "string \<Rightarrow> ('a \<Rightarrow> json) \<Rightarrow> 'a option \<Rightarrow> json dict" where
  "opt_field key f v = (case v of None \<Rightarrow> [] | Some x \<Rightarrow> [(key, f x)])"

definition resources_document :: "resources \<Rightarrow> json dict" where
  "resources_document r =
     opt_field ''cpus'' JInt (r_cpus r) @ opt_field ''gpus'' JInt (r_gpus r)
     @ opt_field ''nodes'' JInt (r_nodes r) @ opt_field ''mpi_ranks'' JInt (r_mpi_ranks r)
     @ opt_field ''memory'' JInt (r_memory_bytes r)
     @ opt_field ''walltime'' JInt (r_walltime_seconds r)"

definition execution_document :: "constraints \<Rightarrow> json dict" where
  "execution_document x =
     [(''backend'', JStr (x_backend x))]
     @ opt_field ''target'' JStr (x_target x) @ opt_field ''context'' JStr (x_context x)"

definition to_document :: "request \<Rightarrow> json dict" where
  "to_document r =
     [(''kind'', JStr REQUEST_KIND), (''version'', JInt (rq_version r)),
      (''command'', strings (rq_command r)),
      (''working_directory'', JStr (rq_working_directory r))]
     @ (if rq_inputs r \<noteq> [] \<or> rq_outputs r \<noteq> []
        then [(''artifacts'', JObj [(''inputs'', strings (rq_inputs r)),
                                   (''outputs'', strings (rq_outputs r))])] else [])
     @ (if resources_document (rq_resources r) \<noteq> []
        then [(''resources'', JObj (resources_document (rq_resources r)))] else [])
     @ (if rq_execution r \<noteq> \<lparr>x_backend = ''auto'', x_target = None, x_context = None\<rparr>
        then [(''execution'', JObj (execution_document (rq_execution r)))] else [])
     @ (case rq_requested_parent r of None \<Rightarrow> []
        | Some p \<Rightarrow> [(''provenance'', JObj [(''parent_experiment'', JStr p)])])
     @ (if rq_telemetry_mode r \<noteq> ''summary''
        then [(''telemetry'', JObj [(''mode'', JStr (rq_telemetry_mode r))])] else [])
     @ (if rq_checks r \<noteq> []
        then [(''verification'',
                JObj [(''checks'', JArr (map (\<lambda>c. JObj (check_to_dict c)) (rq_checks r)))])]
        else [])"

text \<open>\<open>execution_request_from_cli\<close>: explicit callers go through the same validation.\<close>

definition cli_document ::
  "string list \<Rightarrow> string list \<Rightarrow> string list \<Rightarrow> resources \<Rightarrow> constraints \<Rightarrow> string option \<Rightarrow>
   string \<Rightarrow> check list \<Rightarrow> json dict" where
  "cli_document argv inputs outputs requested constraints parent telemetry_mode checks =
     [(''kind'', JStr REQUEST_KIND), (''version'', JInt REQUEST_SCHEMA_VERSION),
      (''command'', strings argv), (''working_directory'', JStr ''.''),
      (''artifacts'', JObj [(''inputs'', strings inputs), (''outputs'', strings outputs)]),
      (''resources'', JObj (resources_document requested)),
      (''execution'', JObj (execution_document constraints))]
     @ opt_field ''provenance'' (\<lambda>p. JObj [(''parent_experiment'', JStr p)]) parent
     @ [(''telemetry'', JObj [(''mode'', JStr telemetry_mode)]),
        (''verification'', JObj [(''checks'', JArr (map (\<lambda>c. JObj (check_to_dict c)) checks))])]"

definition execution_request_from_cli ::
  "parse_env \<Rightarrow> string list \<Rightarrow> string list \<Rightarrow> string list \<Rightarrow> resources \<Rightarrow> constraints \<Rightarrow>
   string option \<Rightarrow> string \<Rightarrow> check list \<Rightarrow> string \<Rightarrow> request parsed" where
  "execution_request_from_cli env argv inputs outputs requested constraints parent telemetry_mode
     checks source_kind =
     bindR (RequestSource \<lparr>so_kind = source_kind, so_metadata = []\<rparr>) (\<lambda>source.
     parse_execution_request env source
       (JObj (cli_document argv inputs outputs requested constraints parent telemetry_mode checks)))"

definition with_resolved_parent_experiment :: "request \<Rightarrow> string \<Rightarrow> request parsed" where
  "with_resolved_parent_experiment r canonical_id =
     (if rq_requested_parent r = None
      then bad ''cannot resolve a parent experiment that was not requested''
      else ExecutionRequest (r\<lparr>rq_resolved_parent := Some canonical_id\<rparr>))"

end
