(* ===== verification/RequestDocuments.thy ===== *)
theory RequestDocuments
  imports Request
begin

text \<open>
  What an accepted request satisfies, and that the document a request publishes is read back as
  the same request. Each validator is first turned into the condition under which it accepts.
\<close>

section \<open>When the validators accept\<close>

definition str_ok :: "string \<Rightarrow> bool" where
  "str_ok s \<longleftrightarrow> s \<noteq> [] \<and> length s \<le> MAX_REQUEST_STRING \<and> \<not> list_ex (\<lambda>c. code_point c = 0) s"

named_theorems accept_simps \<open>when a validator accepts\<close>

lemma bounded_string_Inr [accept_simps]:
  "bounded_string v l e = Inr u \<longleftrightarrow> (\<exists>s. v = JStr s \<and> (str_ok s \<or> e \<and> s = []))"
  by (auto simp: bounded_string_def str_ok_def split: json.splits if_splits)

lemma validate_string_list_Inr:
  "validate_string_list xs l n e = Inr u \<longleftrightarrow>
     length xs \<le> n \<and> (e \<longrightarrow> xs \<noteq> []) \<and> (\<forall>x \<in> set xs. \<exists>s. x = JStr s \<and> str_ok s)"
  by (auto simp: validate_string_list_def checkAll_Inr_iff bounded_string_Inr)

definition list_ok :: "nat \<Rightarrow> bool \<Rightarrow> string list \<Rightarrow> bool" where
  "list_ok n e xs \<longleftrightarrow> length xs \<le> n \<and> (e \<longrightarrow> xs \<noteq> []) \<and> (\<forall>x \<in> set xs. str_ok x)"

lemma validate_strings_Inr [accept_simps]:
  "validate_string_list (map JStr xs) l n e = Inr u \<longleftrightarrow> list_ok n e xs"
  by (auto simp: validate_string_list_Inr list_ok_def)

lemma map_the_str: "\<forall>x \<in> set ys. \<exists>s. x = JStr s \<and> P s \<Longrightarrow> map JStr (map the_str ys) = ys"
  by (induction ys) auto

lemma string_list_Inr [accept_simps]:
  "string_list v l n e = Inr xs \<longleftrightarrow> v = strings xs \<and> list_ok n e xs"
proof
  assume "string_list v l n e = Inr xs"
  then obtain ys where v: "v = JArr ys" and ok: "validate_string_list ys l n e = Inr ()"
    and xs: "xs = map the_str ys"
    by (auto simp: string_list_def result_simps split: json.splits)
  then have ys: "ys = map JStr xs"
    by (auto simp: validate_string_list_Inr dest!: map_the_str)
  then show "v = strings xs \<and> list_ok n e xs"
    using v ok by (simp add: strings_def validate_strings_Inr)
next
  assume "v = strings xs \<and> list_ok n e xs"
  then show "string_list v l n e = Inr xs"
    by (simp add: string_list_def strings_def bindR_Inr_iff validate_strings_Inr)
      (simp add: map_idI comp_def)
qed

lemma reject_unknown_Inr [accept_simps]:
  "reject_unknown d ks l = Inr u \<longleftrightarrow> set (dict_keys d) \<subseteq> set ks"
  by (auto simp: reject_unknown_def Let_def filter_empty_conv)

lemma object_of_Inr [accept_simps]: "object_of v l = Inr d \<longleftrightarrow> v = JObj d"
  by (auto simp: object_of_def split: json.splits)

lemma opt_bounded_Inr [accept_simps]:
  "opt_bounded v l = Inr u \<longleftrightarrow> v = JNull \<or> (\<exists>s. v = JStr s \<and> str_ok s)"
  by (auto simp: opt_bounded_def bounded_string_Inr)

lemma dict_get_opt_field [dict_simps]:
  "dict_get (opt_field k f v @ d) k' =
     (if k' = k then (case v of None \<Rightarrow> dict_get d k' | Some x \<Rightarrow> Some (f x)) else dict_get d k')"
  "dict_get (opt_field k f v) k' =
     (if k' = k then (case v of None \<Rightarrow> None | Some x \<Rightarrow> Some (f x)) else None)"
  by (auto simp: opt_field_def split: option.splits)

lemma keys_opt_field [dict_simps]: "set (dict_keys (opt_field k f v)) \<subseteq> {k}"
  by (auto simp: opt_field_def split: option.splits)

section \<open>Resources\<close>

lemma parse_resources_ok: "parse_resources d = Inr r \<Longrightarrow> resources_ok r"
  by (auto simp: parse_resources_def bindR_Inr_iff mapErr_Inr_iff ResourceRequirements_Inr)

lemma resource_integer_document:
  "dict_get d k = map_option JInt v \<Longrightarrow> at_least m v \<Longrightarrow> resource_integer d k m = Inr v"
  by (cases v) (auto simp: resource_integer_def at_least_def)

lemma quantity_document:
  assumes "dict_get d k = map_option JInt v" and "at_least 1 v"
    and "\<And>i. 1 \<le> i \<Longrightarrow> parse (JInt i) = Inr i"
  shows "quantity d k parse = Inr v"
  using assms by (cases v) (auto simp: quantity_def at_least_def)

lemma resources_document_keys:
  "set (dict_keys (resources_document r)) \<subseteq>
     {''cpus'', ''gpus'', ''nodes'', ''mpi_ranks'', ''memory'', ''walltime''}"
  by (auto simp: resources_document_def opt_field_def split: option.splits)

lemma resources_document_get:
  "dict_get (resources_document r) ''cpus'' = map_option JInt (r_cpus r)"
  "dict_get (resources_document r) ''gpus'' = map_option JInt (r_gpus r)"
  "dict_get (resources_document r) ''nodes'' = map_option JInt (r_nodes r)"
  "dict_get (resources_document r) ''mpi_ranks'' = map_option JInt (r_mpi_ranks r)"
  "dict_get (resources_document r) ''memory'' = map_option JInt (r_memory_bytes r)"
  "dict_get (resources_document r) ''walltime'' = map_option JInt (r_walltime_seconds r)"
  by (simp_all add: resources_document_def dict_get_opt_field del: map_of_append split: option.split)

lemma parse_resources_document:
  assumes "resources_ok r"
  shows "parse_resources (resources_document r) = Inr r"
proof -
  have keys: "reject_unknown (resources_document r)
      [''cpus'', ''gpus'', ''nodes'', ''mpi_ranks'', ''memory'', ''walltime''] ''resources'' = Inr ()"
    using resources_document_keys [of r] by (simp add: reject_unknown_Inr)
  have "resource_integer (resources_document r) ''cpus'' 1 = Inr (r_cpus r)"
    "resource_integer (resources_document r) ''gpus'' 0 = Inr (r_gpus r)"
    "resource_integer (resources_document r) ''nodes'' 1 = Inr (r_nodes r)"
    "resource_integer (resources_document r) ''mpi_ranks'' 1 = Inr (r_mpi_ranks r)"
    using assms by (auto simp: resources_ok_def intro!: resource_integer_document resources_document_get)
  moreover have "quantity (resources_document r) ''memory'' parse_memory = Inr (r_memory_bytes r)"
    "quantity (resources_document r) ''walltime'' parse_walltime = Inr (r_walltime_seconds r)"
    using assms
    by (auto simp: resources_ok_def parse_memory_def parse_walltime_def Let_def
        intro!: quantity_document resources_document_get)
  moreover have "\<lparr>r_cpus = r_cpus r, r_gpus = r_gpus r, r_nodes = r_nodes r,
      r_mpi_ranks = r_mpi_ranks r, r_memory_bytes = r_memory_bytes r,
      r_walltime_seconds = r_walltime_seconds r\<rparr> = r" by simp
  ultimately show ?thesis
    unfolding parse_resources_def keys
    using assms by (simp only: bindR_simps mapErr_Inr_iff ResourceRequirements_Inr)
qed

section \<open>Placement, provenance, telemetry\<close>

definition constraints_ok :: "int \<Rightarrow> constraints \<Rightarrow> bool" where
  "constraints_ok version x \<longleftrightarrow> x_backend x \<in> set backend_names \<and>
     (version = RELEASED_REQUEST_SCHEMA_VERSION \<longrightarrow> x_backend x \<noteq> ''lsf'') \<and>
     pred_option str_ok (x_target x) \<and> pred_option str_ok (x_context x)"

lemma parse_execution_ok:
  assumes "parse_execution d version = Inr x"
  shows "constraints_ok version x"
  using assms
  by (auto simp: parse_execution_def constraints_ok_def result_simps accept_simps Let_def
      ExecutionConstraints_def opt_str_def split: if_splits)

lemma backend_names_ok: "b \<in> set backend_names \<Longrightarrow> str_ok b"
  by (auto simp: backend_names_def str_ok_def MAX_REQUEST_STRING_def code_point_def)

lemma parse_execution_document:
  assumes "constraints_ok version x"
  shows "parse_execution (execution_document x) version = Inr x"
proof -
  have keys: "set (dict_keys (execution_document x)) \<subseteq> {''backend'', ''target'', ''context''}"
    by (auto simp: execution_document_def opt_field_def split: option.splits)
  have get: "jget_or (execution_document x) ''backend'' v = JStr (x_backend x)"
    "jget (execution_document x) ''target'' = opt_json JStr (x_target x)"
    "jget (execution_document x) ''context'' = opt_json JStr (x_context x)" for v
    by (auto simp: execution_document_def dict_get_opt_field jget_def jget_or_def
        simp del: map_of_append split: option.splits)
  have "opt_bounded (opt_json JStr (x_target x)) l = Inr ()" "opt_str (opt_json JStr (x_target x)) = x_target x"
    "opt_bounded (opt_json JStr (x_context x)) l = Inr ()" "opt_str (opt_json JStr (x_context x)) = x_context x"
    for l
    using assms by (cases "x_target x"; cases "x_context x"; auto simp: constraints_ok_def accept_simps opt_str_def)+
  then show ?thesis
    using assms keys backend_names_ok [of "x_backend x"]
    by (auto simp: parse_execution_def get bindR_Inr_iff mapErr_Inr_iff accept_simps constraints_ok_def
        ExecutionConstraints_def Let_def)
qed

lemma parse_execution_default:
  "parse_execution [] version = Inr \<lparr>x_backend = ''auto'', x_target = None, x_context = None\<rparr>"
  using backend_names_ok [of "''auto''"]
  by (simp add: parse_execution_def bindR_Inr_iff mapErr_Inr_iff accept_simps jget_def jget_or_def Let_def
      ExecutionConstraints_def backend_names_def opt_str_def)

lemma parse_parent_ok: "parse_parent d = Inr p \<Longrightarrow> pred_option str_ok p"
  by (auto simp: parse_parent_def bindR_Inr_iff accept_simps opt_str_def)

lemma parse_parent_document:
  "str_ok p \<Longrightarrow> parse_parent [(''parent_experiment'', JStr p)] = Inr (Some p)"
  "parse_parent [] = Inr None"
  by (simp_all add: parse_parent_def bindR_Inr_iff accept_simps jget_def opt_str_def)

lemma parse_telemetry_document:
  "m \<in> set telemetry_modes \<Longrightarrow> parse_telemetry [(''mode'', JStr m)] = Inr m"
  "parse_telemetry [] = Inr ''summary''"
  by (auto simp: parse_telemetry_def bindR_Inr_iff accept_simps jget_or_def telemetry_modes_def
      str_ok_def MAX_REQUEST_STRING_def code_point_def Let_def)

section \<open>Checks\<close>

definition check_ok :: "check \<Rightarrow> bool" where
  "check_ok c \<longleftrightarrow> str_ok (ck_path c) \<and>
     (ck_type c = ''output_exists'' \<and> ck_min_bytes c = None \<and> ck_sha256 c = None \<or>
      ck_type c = ''output_min_bytes'' \<and> (\<exists>n \<ge> 0. ck_min_bytes c = Some n) \<and> ck_sha256 c = None \<or>
      ck_type c = ''output_sha256'' \<and> ck_min_bytes c = None \<and>
        (\<exists>d. ck_sha256 c = Some d \<and> SHA256 d \<and> casefold d = d))"

lemma lower_char_idem [simp]: "lower_char (lower_char c) = lower_char c"
proof (cases "is_upper c")
  case True
  then have "code_point c + 32 < 256" by (simp add: is_upper_def)
  then have "code_point (lower_char c) = code_point c + 32"
    using True by (simp add: lower_char_def code_point_def)
  then have "\<not> is_upper (lower_char c)" using True by (simp add: is_upper_def)
  then show ?thesis by (simp add: lower_char_def)
next
  case False
  then show ?thesis by (simp add: lower_char_def)
qed

lemma casefold_idem [simp]: "casefold (casefold s) = casefold s"
  by (simp add: casefold_def)

lemma VerificationCheckSpec_ok:
  assumes "VerificationCheckSpec t p m s = Inr c" and "\<And>x. s = JStr x \<Longrightarrow> casefold x = x"
  shows "check_ok c"
  using assms
  by (auto simp: VerificationCheckSpec_def check_ok_def bindR_Inr_iff bounded_string_Inr check_types_def
      split: if_splits json.splits)

lemma folded_sha: "(case v of JStr x \<Rightarrow> JStr (casefold x) | v \<Rightarrow> v) = JStr y \<Longrightarrow> casefold y = y"
  by (cases v) auto

lemma parse_check_ok:
  assumes "parse_check v i = Inr c"
  shows "check_ok c"
proof -
  obtain d where "VerificationCheckSpec (the_str (jget d ''type'')) (the_str (jget d ''path''))
      (jget d ''min_bytes'') (case jget d ''sha256'' of JStr x \<Rightarrow> JStr (casefold x) | v \<Rightarrow> v) = Inr c"
    using assms unfolding parse_check_def Let_def by (simp only: bindR_Inr_iff) blast
  then show ?thesis by (rule VerificationCheckSpec_ok) (rule folded_sha)
qed

lemma check_to_dict_get:
  "jget (check_to_dict c) ''type'' = JStr (ck_type c)"
  "jget (check_to_dict c) ''path'' = JStr (ck_path c)"
  "jget (check_to_dict c) ''min_bytes'' = opt_json JInt (ck_min_bytes c)"
  "jget (check_to_dict c) ''sha256'' = opt_json JStr (ck_sha256 c)"
  by (simp_all add: check_to_dict_def jget_def split: option.splits)

lemma check_type_ok: "t \<in> set check_types \<Longrightarrow> str_ok t"
  by (auto simp: check_types_def str_ok_def MAX_REQUEST_STRING_def code_point_def)

lemma VerificationCheckSpec_document:
  assumes "check_ok c"
  shows "VerificationCheckSpec (ck_type c) (ck_path c) (opt_json JInt (ck_min_bytes c))
     (opt_json JStr (ck_sha256 c)) = Inr c"
  using assms
  by (auto simp: check_ok_def VerificationCheckSpec_def bindR_Inr_iff bounded_string_Inr check_types_def)

lemma parse_check_document:
  assumes "check_ok c"
  shows "parse_check (JObj (check_to_dict c)) i = Inr c"
proof -
  have keys: "set (dict_keys (check_to_dict c)) \<subseteq> {''type'', ''path'', ''min_bytes'', ''sha256''}"
    by (auto simp: check_to_dict_def split: option.splits)
  have t: "ck_type c \<in> set check_types" using assms by (auto simp: check_ok_def check_types_def)
  have sha: "(case opt_json JStr (ck_sha256 c) of JStr x \<Rightarrow> JStr (casefold x) | v \<Rightarrow> v)
      = opt_json JStr (ck_sha256 c)"
    using assms by (auto simp: check_ok_def)
  show ?thesis
    using assms keys check_type_ok [OF t] VerificationCheckSpec_document [OF assms]
    by (simp add: parse_check_def Let_def bindR_Inr_iff accept_simps check_to_dict_get sha)
      (auto simp: check_ok_def)
qed

lemma parse_checks_ok: "parse_checks xs i = Inr cs \<Longrightarrow> list_all check_ok cs \<and> length cs = length xs"
  by (induction xs i arbitrary: cs rule: parse_checks.induct)
    (auto simp: bindR_Inr_iff dest: parse_check_ok)

lemma parse_checks_document:
  "list_all check_ok cs \<Longrightarrow> parse_checks (map (\<lambda>c. JObj (check_to_dict c)) cs) i = Inr cs"
  by (induction cs arbitrary: i) (auto simp: bindR_Inr_iff parse_check_document)

section \<open>Accepted requests\<close>

definition request_ok :: "request \<Rightarrow> bool" where
  "request_ok r \<longleftrightarrow> ExecutionRequest r = Inr r \<and> resources_ok (rq_resources r) \<and>
     constraints_ok (rq_version r) (rq_execution r) \<and> list_all check_ok (rq_checks r)"

lemma ExecutionRequest_same: "ExecutionRequest r = Inr r' \<Longrightarrow> r' = r"
  by (auto simp: ExecutionRequest_def bindR_Inr_iff)

lemma parse_field_Inr:
  "parse_field d k f = Inr x \<longleftrightarrow>
     (dict_get d k = None \<and> f [] = Inr x \<or> (\<exists>e. dict_get d k = Some (JObj e) \<and> f e = Inr x))"
  by (auto simp: parse_field_def optional_object_def bindR_Inr_iff object_of_Inr split: option.splits)

lemma parse_verification_ok: "parse_verification d = Inr cs \<Longrightarrow> list_all check_ok cs"
  by (auto simp: parse_verification_def bindR_Inr_iff dest: parse_checks_ok
      split: json.splits if_splits)

lemma parse_request_parts:
  assumes "parse_execution_request env src v = Inr r"
  shows "\<exists>d. parse_root env v = Inr d \<and>
     parse_version (jget d ''version'') = Inr (rq_version r) \<and>
     parse_field d ''resources'' parse_resources = Inr (rq_resources r) \<and>
     parse_field d ''execution'' (\<lambda>v. parse_execution v (rq_version r)) = Inr (rq_execution r) \<and>
     parse_field d ''provenance'' parse_parent = Inr (rq_requested_parent r) \<and>
     parse_field d ''telemetry'' parse_telemetry = Inr (rq_telemetry_mode r) \<and>
     parse_field d ''verification'' parse_verification = Inr (rq_checks r) \<and>
     ExecutionRequest r = Inr r \<and> rq_resolved_parent r = None \<and>
     rq_id r = pe_ulid env \<and> rq_created_at r = pe_now env \<and> rq_base_directory r = pe_base env \<and>
     rq_resolved_working_directory r = pe_resolve env (rq_working_directory r) \<and>
     rq_source r = src \<and> rq_kind r = REQUEST_KIND"
proof -
  obtain d version command inputs outputs resources execution parent mode checks w where
    d: "parse_root env v = Inr d"
    and p: "parse_version (jget d ''version'') = Inr version"
      "parse_field d ''resources'' parse_resources = Inr resources"
      "parse_field d ''execution'' (\<lambda>v. parse_execution v version) = Inr execution"
      "parse_field d ''provenance'' parse_parent = Inr parent"
      "parse_field d ''telemetry'' parse_telemetry = Inr mode"
      "parse_field d ''verification'' parse_verification = Inr checks"
    and r: "ExecutionRequest \<lparr>rq_id = pe_ulid env, rq_created_at = pe_now env, rq_command = command,
        rq_base_directory = pe_base env, rq_working_directory = w,
        rq_resolved_working_directory = pe_resolve env w,
        rq_inputs = inputs, rq_outputs = outputs, rq_resources = resources,
        rq_execution = execution, rq_requested_parent = parent, rq_resolved_parent = None,
        rq_telemetry_mode = mode, rq_checks = checks, rq_source = src,
        rq_kind = REQUEST_KIND, rq_version = version\<rparr> = Inr r"
    using assms unfolding parse_execution_request_def Let_def by (simp only: bindR_Inr_iff) blast
  show ?thesis
    using d p r ExecutionRequest_same [OF r] by auto
qed

lemma field_cases:
  assumes "parse_field d k f = Inr x" and "\<And>e. f e = Inr x \<Longrightarrow> P"
  shows P
  using assms by (auto simp: parse_field_Inr)

lemma parse_request_ok: "parse_execution_request env src v = Inr r \<Longrightarrow> request_ok r"
  unfolding request_ok_def
  by (drule parse_request_parts)
    (blast elim: field_cases dest: parse_resources_ok parse_execution_ok parse_verification_ok)

section \<open>The document is within the bounds\<close>

lemma bounds_str: "str_ok s \<Longrightarrow> d \<le> MAX_REQUEST_JSON_DEPTH \<Longrightarrow> validate_json_bounds d (JStr s) = Inr ()"
  by (simp add: validate_json_bounds.simps [of d "JStr s"] bounded_string_Inr)

lemma bounds_int: "d \<le> MAX_REQUEST_JSON_DEPTH \<Longrightarrow> validate_json_bounds d (JInt i) = Inr ()"
  by (simp add: validate_json_bounds.simps [of d "JInt i"])

lemma bounds_arr:
  "d \<le> MAX_REQUEST_JSON_DEPTH \<Longrightarrow> length xs \<le> MAX_REQUEST_ARGV \<Longrightarrow>
     (\<And>x. x \<in> set xs \<Longrightarrow> validate_json_bounds (Suc d) x = Inr ()) \<Longrightarrow>
     validate_json_bounds d (JArr xs) = Inr ()"
  by (simp add: validate_json_bounds.simps [of d "JArr xs"] checkAll_Inr_iff)

lemma bounds_obj:
  "d \<le> MAX_REQUEST_JSON_DEPTH \<Longrightarrow> length e \<le> 256 \<Longrightarrow>
     (\<And>k x. (k, x) \<in> set e \<Longrightarrow> str_ok k \<and> validate_json_bounds (Suc d) x = Inr ()) \<Longrightarrow>
     validate_json_bounds d (JObj e) = Inr ()"
  by (auto simp: validate_json_bounds.simps [of d "JObj e"] checkAll_Inr_iff bindR_Inr_iff
      bounded_string_Inr)

lemma bounds_strings:
  "Suc d \<le> MAX_REQUEST_JSON_DEPTH \<Longrightarrow> list_ok n b xs \<Longrightarrow> n \<le> MAX_REQUEST_ARGV \<Longrightarrow>
     validate_json_bounds d (strings xs) = Inr ()"
  unfolding strings_def by (rule bounds_arr) (auto simp: list_ok_def bounds_str)

lemma str_ok_name [simp]: "str_ok (c # s) \<longleftrightarrow>
    length (c # s) \<le> MAX_REQUEST_STRING \<and> \<not> list_ex (\<lambda>c. code_point c = 0) (c # s)"
  by (simp only: str_ok_def) simp

lemma bounds_resources:
  "d < MAX_REQUEST_JSON_DEPTH \<Longrightarrow> validate_json_bounds d (JObj (resources_document r)) = Inr ()"
  by (rule bounds_obj)
    (auto simp: resources_document_def opt_field_def bounds_int MAX_REQUEST_STRING_def code_point_def
      split: option.splits)

lemma pred_option_Some: "pred_option P v \<Longrightarrow> Some x = v \<Longrightarrow> P x"
  by auto

lemma bounds_execution:
  "constraints_ok v x \<Longrightarrow> d < MAX_REQUEST_JSON_DEPTH \<Longrightarrow>
     validate_json_bounds d (JObj (execution_document x)) = Inr ()"
  by (rule bounds_obj)
    (auto simp: execution_document_def opt_field_def MAX_REQUEST_STRING_def code_point_def
      constraints_ok_def intro!: bounds_str intro: backend_names_ok pred_option_Some split: option.splits)

lemma hex_not_nul: "is_digit c \<or> lower_char c \<in> set ''abcdef'' \<Longrightarrow> code_point c \<noteq> 0"
proof
  assume h: "is_digit c \<or> lower_char c \<in> set ''abcdef''" and z: "code_point c = 0"
  then have "lower_char c = c" "\<not> is_digit c" by (simp_all add: lower_char_def is_upper_def is_digit_def)
  with h have "c \<in> set ''abcdef''" by simp
  with z show False by (auto simp: code_point_def)
qed

lemma SHA256_ok: "SHA256 s \<Longrightarrow> str_ok s"
  unfolding SHA256_def str_ok_def list_all_iff list_ex_iff using hex_not_nul
  by (auto simp: MAX_REQUEST_STRING_def)

lemma bounds_check:
  assumes "check_ok c" and "d < MAX_REQUEST_JSON_DEPTH"
  shows "validate_json_bounds d (JObj (check_to_dict c)) = Inr ()"
proof -
  have "ck_type c \<in> set check_types" using assms(1) by (auto simp: check_ok_def check_types_def)
  then have "str_ok (ck_type c)" by (rule check_type_ok)
  moreover have "str_ok (ck_path c)" "\<And>s. ck_sha256 c = Some s \<Longrightarrow> str_ok s"
    using assms(1) by (auto simp: check_ok_def intro: SHA256_ok)
  ultimately show ?thesis
    using assms(2)
    by (intro bounds_obj) (auto simp: check_to_dict_def bounds_int bounds_str MAX_REQUEST_STRING_def
        code_point_def split: option.splits)
qed

text \<open>What \<open>__post_init__\<close> established, one field at a time.\<close>

lemma request_ok_fields:
  assumes "request_ok r"
  shows "list_ok MAX_REQUEST_ARGV True (rq_command r)"
    and "str_ok (rq_working_directory r)"
    and "list_ok MAX_REQUEST_ARTIFACTS_PER_ROLE False (rq_inputs r)"
    and "list_ok MAX_REQUEST_ARTIFACTS_PER_ROLE False (rq_outputs r)"
    and "rq_telemetry_mode r \<in> set telemetry_modes"
    and "length (rq_checks r) \<le> MAX_REQUEST_CHECKS"
    and "pred_option str_ok (rq_requested_parent r)"
    and "rq_version r \<in> {RELEASED_REQUEST_SCHEMA_VERSION, REQUEST_SCHEMA_VERSION}"
    and "rq_kind r = REQUEST_KIND"
  using assms
  by (auto simp: request_ok_def ExecutionRequest_def result_simps accept_simps split: option.splits)

lemma telemetry_modes_ok: "m \<in> set telemetry_modes \<Longrightarrow> str_ok m"
  by (auto simp: telemetry_modes_def MAX_REQUEST_STRING_def code_point_def)

lemma bounds_document:
  assumes "request_ok r"
  shows "validate_json_bounds 0 (JObj (to_document r)) = Inr ()"
proof -
  note ok = request_ok_fields [OF assms]
  have depth: "n \<le> 11 \<Longrightarrow> n < MAX_REQUEST_JSON_DEPTH" for n
    by (simp add: MAX_REQUEST_JSON_DEPTH_def)
  have cons: "constraints_ok (rq_version r) (rq_execution r)" and ch: "list_all check_ok (rq_checks r)"
    using assms by (simp_all add: request_ok_def)
  have name: "str_ok k" if "k \<in> {''kind'', ''version'', ''command'', ''working_directory'',
      ''artifacts'', ''resources'', ''execution'', ''provenance'', ''telemetry'', ''verification'',
      ''inputs'', ''outputs'', ''parent_experiment'', ''mode'', ''checks'', REQUEST_KIND}" for k
    using that by (auto simp: MAX_REQUEST_STRING_def code_point_def REQUEST_KIND_def)
  have single: "validate_json_bounds (Suc 0) (JObj [(k, x)]) = Inr ()"
    if "str_ok k" "validate_json_bounds 2 x = Inr ()" for k x
    using that by (intro bounds_obj) (auto simp: MAX_REQUEST_JSON_DEPTH_def numeral_2_eq_2)
  have lists: "validate_json_bounds d (strings xs) = Inr ()"
    if "list_ok n b xs" "n \<le> MAX_REQUEST_ARGV" "d \<le> 2" for d n b xs
    by (rule bounds_strings [OF _ that(1,2)]) (use that(3) in \<open>simp add: MAX_REQUEST_JSON_DEPTH_def\<close>)
  have artifacts: "validate_json_bounds (Suc 0) (JObj [(''inputs'', strings (rq_inputs r)),
      (''outputs'', strings (rq_outputs r))]) = Inr ()"
    using lists [OF ok(3), of 2] lists [OF ok(4), of 2]
    by (intro bounds_obj) (auto simp: request_limits numeral_2_eq_2 code_point_def)
  have checks: "validate_json_bounds 2 (JArr (map (\<lambda>c. JObj (check_to_dict c)) (rq_checks r))) = Inr ()"
    using ch ok(6)
    by (intro bounds_arr) (auto simp: request_limits list_all_iff intro!: bounds_check)
  have parent: "validate_json_bounds 2 (JStr p) = Inr ()" if "Some p = rq_requested_parent r" for p
    using pred_option_Some [OF ok(7) that] by (rule bounds_str) (simp add: MAX_REQUEST_JSON_DEPTH_def)
  have tm: "str_ok (rq_telemetry_mode r)" using telemetry_modes_ok [OF ok(5)] .
  have tm2: "validate_json_bounds 2 (JStr (rq_telemetry_mode r)) = Inr ()"
    using tm by (rule bounds_str) (simp add: MAX_REQUEST_JSON_DEPTH_def)
  show ?thesis
  proof (rule bounds_obj)
    show "length (to_document r) \<le> 256" by (simp add: to_document_def split: option.split)
    fix k x assume "(k, x) \<in> set (to_document r)"
    then show "str_ok k \<and> validate_json_bounds (Suc 0) x = Inr ()"
      using ok(1,2,5,7) cons
      by (auto simp del: str_ok_name simp: to_document_def split: if_splits option.splits
          intro!: tm2 name single lists artifacts checks parent bounds_resources bounds_execution
            bounds_int bounds_str depth tm)
        (simp_all add: request_limits)
  qed (simp add: MAX_REQUEST_JSON_DEPTH_def)
qed

section \<open>Reading a published document back\<close>

lemma to_document_get:
  "jget (to_document r) ''kind'' = JStr REQUEST_KIND"
  "jget (to_document r) ''version'' = JInt (rq_version r)"
  "jget (to_document r) ''command'' = strings (rq_command r)"
  "jget_or (to_document r) ''working_directory'' z = JStr (rq_working_directory r)"
  by (simp_all add: to_document_def jget_def jget_or_def)

lemma dict_get_if_append:
  "dict_get ((if b then [(k, x)] else []) @ d) k' =
     (if b \<and> k = k' then Some x else dict_get d k')"
  by simp

lemma dict_get_if_single:
  "dict_get (if b then [(k, x)] else []) k' = (if b \<and> k = k' then Some x else None)"
  by simp

lemma dict_get_option_append:
  "dict_get ((case v of None \<Rightarrow> [] | Some y \<Rightarrow> [(k, f y)]) @ d) k' =
     (if k = k' \<and> v \<noteq> None then map_option f v else dict_get d k')"
  by (cases v) auto

lemma to_document_fields:
  "dict_get (to_document r) ''artifacts'' =
     (if rq_inputs r \<noteq> [] \<or> rq_outputs r \<noteq> []
      then Some (JObj [(''inputs'', strings (rq_inputs r)), (''outputs'', strings (rq_outputs r))])
      else None)"
  "dict_get (to_document r) ''resources'' =
     (if resources_document (rq_resources r) \<noteq> []
      then Some (JObj (resources_document (rq_resources r))) else None)"
  "dict_get (to_document r) ''execution'' =
     (if rq_execution r \<noteq> \<lparr>x_backend = ''auto'', x_target = None, x_context = None\<rparr>
      then Some (JObj (execution_document (rq_execution r))) else None)"
  "dict_get (to_document r) ''provenance'' =
     map_option (\<lambda>p. JObj [(''parent_experiment'', JStr p)]) (rq_requested_parent r)"
  "dict_get (to_document r) ''telemetry'' =
     (if rq_telemetry_mode r \<noteq> ''summary''
      then Some (JObj [(''mode'', JStr (rq_telemetry_mode r))]) else None)"
  "dict_get (to_document r) ''verification'' =
     (if rq_checks r \<noteq> []
      then Some (JObj [(''checks'', JArr (map (\<lambda>c. JObj (check_to_dict c)) (rq_checks r)))])
      else None)"
  by (simp_all add: to_document_def dict_get_if_append dict_get_if_single dict_get_option_append
      del: map_of_append split del: if_split) (auto split: option.split)

lemma to_document_keys:
  "set (dict_keys (to_document r)) \<subseteq> {''kind'', ''version'', ''command'', ''working_directory'',
     ''artifacts'', ''resources'', ''execution'', ''provenance'', ''telemetry'', ''verification''}"
  by (auto simp: to_document_def split: option.splits)

lemma resources_document_empty: "resources_ok r \<Longrightarrow> resources_document r = [] \<Longrightarrow> parse_resources [] = Inr r"
  using parse_resources_document [of r] by simp

lemma roundtrip_parts:
  assumes "request_ok r"
  shows "parse_field (to_document r) ''resources'' parse_resources = Inr (rq_resources r)"
    and "parse_field (to_document r) ''execution'' (\<lambda>v. parse_execution v (rq_version r))
      = Inr (rq_execution r)"
    and "parse_field (to_document r) ''provenance'' parse_parent = Inr (rq_requested_parent r)"
    and "parse_field (to_document r) ''telemetry'' parse_telemetry = Inr (rq_telemetry_mode r)"
    and "parse_field (to_document r) ''verification'' parse_verification = Inr (rq_checks r)"
proof -
  note ok = request_ok_fields [OF assms]
  have res: "resources_ok (rq_resources r)" and con: "constraints_ok (rq_version r) (rq_execution r)"
    and ch: "list_all check_ok (rq_checks r)" using assms by (simp_all add: request_ok_def)
  show "parse_field (to_document r) ''resources'' parse_resources = Inr (rq_resources r)"
    using resources_document_empty [OF res] parse_resources_document [OF res]
    by (simp add: parse_field_Inr to_document_fields)
  show "parse_field (to_document r) ''execution'' (\<lambda>v. parse_execution v (rq_version r))
      = Inr (rq_execution r)"
    using parse_execution_document [OF con]
    by (auto simp: parse_field_Inr to_document_fields parse_execution_default)
  show "parse_field (to_document r) ''provenance'' parse_parent = Inr (rq_requested_parent r)"
    using ok(7)
    by (cases "rq_requested_parent r")
      (simp_all add: parse_field_Inr to_document_fields parse_parent_document)
  show "parse_field (to_document r) ''telemetry'' parse_telemetry = Inr (rq_telemetry_mode r)"
    using ok(5) by (auto simp: parse_field_Inr to_document_fields parse_telemetry_document)
  have "parse_verification [(''checks'', JArr (map (\<lambda>c. JObj (check_to_dict c)) (rq_checks r)))]
      = Inr (rq_checks r)"
    using ok(6) ch
    by (simp add: parse_verification_def bindR_Inr_iff reject_unknown_Inr jget_or_def
        parse_checks_document)
  moreover have "parse_verification [] = Inr []"
    by (simp add: parse_verification_def bindR_Inr_iff reject_unknown_Inr jget_or_def)
  ultimately show "parse_field (to_document r) ''verification'' parse_verification = Inr (rq_checks r)"
    by (auto simp: parse_field_Inr to_document_fields)
qed

lemma roundtrip_artifacts:
  assumes "request_ok r"
  shows "\<exists>a. optional_object (to_document r) ''artifacts'' = Inr a \<and>
    reject_unknown a [''inputs'', ''outputs''] ''artifacts'' = Inr () \<and>
    string_list (jget_or a ''inputs'' (JArr [])) l MAX_REQUEST_ARTIFACTS_PER_ROLE False
      = Inr (rq_inputs r) \<and>
    string_list (jget_or a ''outputs'' (JArr [])) l' MAX_REQUEST_ARTIFACTS_PER_ROLE False
      = Inr (rq_outputs r)"
  using request_ok_fields(3,4) [OF assms]
  by (simp add: optional_object_def to_document_fields string_list_Inr reject_unknown_Inr
      object_of_def jget_or_def strings_def)

lemma parse_version_ok: "parse_version v = Inr n \<Longrightarrow> parse_version (JInt n) = Inr n"
  by (auto simp: parse_version_def split: json.splits if_splits)

section \<open>Decimal texts\<close>

lemma str_nat_nonempty [simp]: "str_nat n \<noteq> []"
  using str_nat_digits [of n] by (simp add: all_digits_def)

lemma str_nat_is_digit: "c \<in> set (str_nat n) \<Longrightarrow> is_digit c"
  using str_nat_digits [of n] by (simp add: all_digits_def list_all_iff)

lemma str_nat_first: "1 \<le> n \<Longrightarrow> hd (str_nat n) \<noteq> CHR ''0''"
proof (induction n rule: str_nat.induct)
  case (1 n)
  show ?case
  proof (cases "n < 10")
    case True
    with 1 have "digit_value (digit_char n) \<noteq> digit_value (CHR ''0'')"
      by (simp add: digit_value_char) (simp add: digit_value_def code_point_def)
    then show ?thesis using True by (auto simp: str_nat.simps [of n])
  next
    case False
    then have "hd (str_nat (n div 10)) \<noteq> CHR ''0''" using 1 by simp
    with False show ?thesis by (simp add: str_nat.simps [of n])
  qed
qed

lemma number_prefix_str_nat:
  assumes "1 \<le> n" and "\<And>c cs. t = c # cs \<Longrightarrow> \<not> is_digit c"
  shows "number_prefix (str_nat n @ t) = Some (str_nat n, t)"
proof -
  have "takeWhile is_digit t = []" "dropWhile is_digit t = t"
    using assms(2) by (cases t; simp)+
  moreover have "takeWhile is_digit (str_nat n @ t) = str_nat n @ takeWhile is_digit t"
    "dropWhile is_digit (str_nat n @ t) = dropWhile is_digit t"
    by (auto intro: takeWhile_append2 dropWhile_append2 str_nat_is_digit)
  ultimately show ?thesis
    using str_nat_first [OF assms(1)] by (simp add: number_prefix_def)
qed

end
