(* ===== verification/RequestProperties.thy ===== *)
theory RequestProperties
  imports RequestDocuments
begin

text \<open>
  The properties of execution requests: what acceptance guarantees, the round trip through the
  published document, and the quantities a memory or walltime text denotes.
\<close>

section \<open>A concrete request\<close>

definition sample_parse_env :: parse_env where
  "sample_parse_env = \<lparr>pe_base = ''/w'', pe_resolve = (\<lambda>s. ''/w/'' @ s), pe_ulid = ''ID'',
     pe_now = ''now'', pe_float = (\<lambda>_. ''0.0'')\<rparr>"

definition sample_source :: source where
  "sample_source = \<lparr>so_kind = ''file'', so_metadata = []\<rparr>"

definition sample_request :: request where
  "sample_request = \<lparr>rq_id = ''ID'', rq_created_at = ''now'', rq_command = [''run''],
     rq_base_directory = ''/w'', rq_working_directory = ''.'',
     rq_resolved_working_directory = ''/w/.'', rq_inputs = [], rq_outputs = [''o''],
     rq_resources = \<lparr>r_cpus = Some 4, r_gpus = None, r_nodes = None, r_mpi_ranks = None,
       r_memory_bytes = Some 4096, r_walltime_seconds = None\<rparr>,
     rq_execution = \<lparr>x_backend = ''slurm'', x_target = None, x_context = None\<rparr>,
     rq_requested_parent = None, rq_resolved_parent = None, rq_telemetry_mode = ''summary'',
     rq_checks = [\<lparr>ck_type = ''output_min_bytes'', ck_path = ''o'', ck_min_bytes = Some 1,
       ck_sha256 = None\<rparr>],
     rq_source = sample_source, rq_kind = REQUEST_KIND, rq_version = 2\<rparr>"

definition sample_fields :: "json dict" where
  "sample_fields =
     [(''kind'', JStr REQUEST_KIND), (''version'', JInt 2), (''command'', JArr [JStr ''run'']),
      (''artifacts'', JObj [(''outputs'', JArr [JStr ''o''])]),
      (''resources'', JObj [(''memory'', JStr ''4k''), (''cpus'', JInt 4)]),
      (''execution'', JObj [(''backend'', JStr ''slurm'')]),
      (''verification'', JObj [(''checks'', JArr [JObj [(''type'', JStr ''output_min_bytes''),
        (''path'', JStr ''o''), (''min_bytes'', JInt 1)]])])]"

definition sample_document :: json where
  "sample_document = JObj sample_fields"

lemma sample_bounds: "validate_json_bounds 0 sample_document = Inr ()"
  by (simp add: sample_document_def sample_fields_def validate_json_bounds.simps bounded_string_Inr request_limits bindR_Inr_iff
    str_ok_def code_point_def REQUEST_KIND_def)

lemma sample_size: "utf8_length (json_dumps (pe_float sample_parse_env) sample_document) \<le> MAX_REQUEST_BYTES"
  by (simp add: sample_document_def sample_fields_def utf8_length_def json_string_def json_escape_def code_point_def request_limits
   REQUEST_KIND_def str_int_def str_nat.simps digit_char_def join_def Let_def)

lemma sample_memory: "parse_memory (JStr ''4k'') = Inr 4096"
  by code_simp

lemma sample_fields_get: "jget sample_fields ''kind'' = JStr REQUEST_KIND" "jget sample_fields ''version'' = JInt 2"
    "jget sample_fields ''command'' = strings [''run'']"
    "jget_or sample_fields ''working_directory'' (JStr ''.'') = JStr ''.''"
    "dict_get sample_fields ''artifacts'' = Some (JObj [(''outputs'', JArr [JStr ''o''])])"
    "dict_get sample_fields ''resources'' = Some (JObj [(''memory'', JStr ''4k''), (''cpus'', JInt 4)])"
    "dict_get sample_fields ''execution'' = Some (JObj [(''backend'', JStr ''slurm'')])"
    "dict_get sample_fields ''verification'' = Some (JObj [(''checks'', JArr [JObj (check_to_dict (hd (rq_checks sample_request)))])])"
    "dict_get sample_fields ''provenance'' = None" "dict_get sample_fields ''telemetry'' = None"
    by (simp_all add: sample_fields_def jget_def jget_or_def strings_def check_to_dict_def sample_request_def)

lemma sample_parsed:
  "parse_execution_request sample_parse_env sample_source sample_document = Inr sample_request"
proof -
  have keys: "set (dict_keys sample_fields) \<subseteq> {''kind'', ''version'', ''command'', ''working_directory'', ''artifacts'', ''resources'', ''execution'',
    ''provenance'', ''telemetry'', ''verification''}"
    by (simp add: sample_fields_def)
  have 1: "parse_root sample_parse_env sample_document = Inr sample_fields"
    using sample_bounds sample_size keys by (simp add: parse_root_def sample_document_def bindR_Inr_iff accept_simps sample_fields_get)
  have 2: "parse_execution [(''backend'', JStr ''slurm'')] 2 = Inr (rq_execution sample_request)"
    using parse_execution_document [of 2 "rq_execution sample_request"]
    by (simp add: constraints_ok_def sample_request_def backend_names_def execution_document_def opt_field_def
      RELEASED_REQUEST_SCHEMA_VERSION_def)
  have 3: "parse_resources [(''memory'', JStr ''4k''), (''cpus'', JInt 4)] = Inr (rq_resources sample_request)"
    by (simp add: parse_resources_def bindR_Inr_iff reject_unknown_Inr resource_integer_def quantity_def sample_memory
      mapErr_Inr_iff ResourceRequirements_Inr resources_ok_def at_least_def sample_request_def)
  have check: "check_ok (hd (rq_checks sample_request))" by (simp add: sample_request_def check_ok_def request_limits code_point_def)
  have 4: "parse_verification [(''checks'', JArr [JObj (check_to_dict (hd (rq_checks sample_request)))])] = Inr (rq_checks sample_request)"
    using parse_check_document [OF check]
    by (simp add: parse_verification_def bindR_Inr_iff reject_unknown_Inr jget_or_def MAX_REQUEST_CHECKS_def)
      (simp add: sample_request_def)
  have 5: "ExecutionRequest sample_request = Inr sample_request"
    by (simp add: ExecutionRequest_def sample_request_def bindR_Inr_iff accept_simps validate_string_list_Inr request_limits code_point_def
      unique_paths_def telemetry_modes_def RELEASED_REQUEST_SCHEMA_VERSION_def REQUEST_SCHEMA_VERSION_def dedup_def)
  have 6: "string_list (strings [''run'']) l MAX_REQUEST_ARGV True = Inr [''run'']" for l
    by (simp add: string_list_Inr list_ok_def request_limits code_point_def)
  have 7: "string_list (jget_or [(''outputs'', JArr [JStr ''o''])] ''outputs'' (JArr [])) l n False = Inr [''o'']" 
    if "n = MAX_REQUEST_ARTIFACTS_PER_ROLE" for l n
    using that by (simp add: jget_or_def string_list_Inr strings_def list_ok_def request_limits code_point_def)
  have 8: "string_list (jget_or [(''outputs'', JArr [JStr ''o''])] ''inputs'' (JArr [])) l n False = Inr []" for l n
    by (simp add: jget_or_def string_list_Inr strings_def list_ok_def)
  have 9: "parse_version (JInt 2) = Inr 2" by (simp add: parse_version_def REQUEST_SCHEMA_VERSION_def)
  have 10: "bounded_string (JStr ''.'') l False = Inr ()" for l
    by (simp add: bounded_string_Inr request_limits code_point_def)
  show ?thesis
    unfolding parse_execution_request_def 1 bindR_simps sample_fields_get 6 9 10 Let_def
    using 2 3 4 5
    by (simp add: optional_object_def object_of_def sample_fields_get reject_unknown_Inr 7 8 parse_field_def parse_parent_document parse_telemetry_document
       bindR_Inr_iff sample_parse_env_def sample_request_def)
qed

section \<open>The properties\<close>





text \<open>
  A memory text of a number and a unit denotes that number of the unit's bytes, whatever
  the case of the unit and with or without the trailing B.
\<close>

theorem memory_text_denotes_bytes:
  assumes "1 \<le> n" and "length (str_nat n) \<le> 4300"
    and "(unit, factor) \<in> set [([], 1), (''B'', 1), (''K'', 1024), (''kb'', 1024),
      (''KiB'', 1024), (''M'', 1048576), (''mib'', 1048576), (''G'', 1073741824),
      (''GB'', 1073741824), (''T'', 1099511627776), (''TiB'', 1099511627776)]"
  shows "parse_memory (JStr (str_nat n @ unit)) = Inr (int n * factor)"
proof -
  have unit: "fullmatch MEMORY_UNIT unit \<and> memory_factor (str_remove ''B'' (str_remove ''IB''
      (py_upper (if unit = [] then ''B'' else unit)))) = Some factor \<and>
      (case unit of [] \<Rightarrow> True | c # cs \<Rightarrow> \<not> is_digit c)"
    using assms(3) by (simp only: set_simps insert_iff empty_iff prod.inject) (elim disjE; clarify; code_simp)
  show ?thesis
    using assms(1,2) unit number_prefix_str_nat [OF assms(1), of unit]
    by (simp add: parse_memory_def py_int_def parse_str_nat Let_def split: list.splits)
qed

theorem memory_text_denotes_bytes_witness:
  "parse_memory (JStr (str_nat 4 @ ''KiB'')) = Inr (int 4 * 1024)"
  by (rule memory_text_denotes_bytes) (simp_all add: str_nat.simps)

text \<open>
  A walltime text in hours, minutes and seconds denotes that many seconds.
\<close>

theorem walltime_clock_denotes_seconds:
  assumes "m < 60" and "s < 60" and "0 < h * 3600 + m * 60 + s" and "length (str_nat h) \<le> 4300"
  shows "parse_walltime (JStr (str_nat h @ '':'' @ [digit_char (m div 10), digit_char (m mod 10)]
      @ '':'' @ [digit_char (s div 10), digit_char (s mod 10)]))
    = Inr (int (h * 3600 + m * 60 + s))"
proof -
  let ?m = "[digit_char (m div 10), digit_char (m mod 10)]"
  let ?s = "[digit_char (s div 10), digit_char (s mod 10)]"
  let ?t = "str_nat h @ '':'' @ ?m @ '':'' @ ?s"
  have d: "is_digit (digit_char (m div 10))" "is_digit (digit_char (m mod 10))"
    "is_digit (digit_char (s div 10))" "is_digit (digit_char (s mod 10))"
    using assms(1,2) by (simp_all add: digit_char_digit)
  have nc: "CHR '':'' \<notin> set (str_nat h)" "\<And>c. is_digit c \<Longrightarrow> c \<noteq> CHR '':''"
    by (auto dest: str_nat_is_digit simp: is_digit_def code_point_def)
  have split: "split_on (CHR '':'') ?t = [str_nat h, ?m, ?s]"
    using split_on_append [OF nc(1), of "?m @ '':'' @ ?s"] d [THEN nc(2)] by simp
  have pre: "number_prefix ?t = None \<or> (\<exists>u. number_prefix ?t = Some (u, '':'' @ ?m @ '':'' @ ?s))"
  proof (cases "h = 0")
    case True
    then show ?thesis by (simp add: number_prefix_def str_nat.simps [of 0] digit_char_def is_digit_def code_point_def)
  next
    case False
    then show ?thesis using number_prefix_str_nat [of h "'':'' @ ?m @ '':'' @ ?s"]
      by (auto simp: is_digit_def code_point_def)
  qed
  have "sixty ?m" "sixty ?s" using assms(1,2) d by (auto simp: sixty_def digit_value_char)
  moreover have "py_int ?m = Inr (int m)" "py_int ?s = Inr (int s)" "py_int (str_nat h) = Inr (int h)"
    using assms by (simp_all add: py_int_def parse_nat_def digit_value_char parse_str_nat [unfolded parse_nat_def])
  ultimately show ?thesis
    using pre split assms(3) str_nat_digits [of h]
    by (auto simp: parse_walltime_def Let_def)
qed

theorem walltime_clock_denotes_seconds_witness:
  "parse_walltime (JStr (str_nat 2 @ '':'' @ [digit_char (5 div 10), digit_char (5 mod 10)]
      @ '':'' @ [digit_char (30 div 10), digit_char (30 mod 10)]))
    = Inr (int (2 * 3600 + 5 * 60 + 30))"
  by (rule walltime_clock_denotes_seconds) (simp_all add: str_nat.simps)

end
