(* ===== verification/PlanningModels.thy ===== *)
theory PlanningModels
  imports Regex WorkloadModels
begin

text \<open>
  The planning records (\<open>planning_models.py\<close>): the resource shape with the arithmetic its
  dimensions must satisfy, typed environment activation, and containers. A record's smart
  constructor, named as the class, performs the checks of \<open>__post_init__\<close>.
\<close>

section \<open>Resource shapes\<close>

text \<open>
  The counted dimensions are integers or absent; the descriptive fields are whatever JSON value
  they were given, since only the counted ones are checked.
\<close>

record shape =
  s_nodes :: "int option"
  s_cpus_per_node :: "int option"
  s_total_cpus :: "int option"
  s_mpi_ranks :: "int option"
  s_ranks_per_node :: "int option"
  s_threads_per_rank :: "int option"
  s_gpus :: "int option"
  s_gpus_per_node :: "int option"
  s_memory_bytes :: "int option"
  s_memory_per_node_bytes :: "int option"
  s_architecture :: json
  s_node_class :: json
  s_walltime_seconds :: "int option"
  s_scheduler_class :: json
  s_placement :: json
  s_evidence :: json

definition empty_shape :: shape where
  "empty_shape = \<lparr>s_nodes = None, s_cpus_per_node = None, s_total_cpus = None,
     s_mpi_ranks = None, s_ranks_per_node = None, s_threads_per_rank = None, s_gpus = None,
     s_gpus_per_node = None, s_memory_bytes = None, s_memory_per_node_bytes = None,
     s_architecture = JNull, s_node_class = JNull, s_walltime_seconds = None,
     s_scheduler_class = JNull, s_placement = JObj [], s_evidence = JArr []\<rparr>"

text \<open>Three dimensions that are all known must satisfy \<open>a * b = c\<close>.\<close>

definition product_ok :: "int option \<Rightarrow> int option \<Rightarrow> int option \<Rightarrow> bool" where
  "product_ok a b c =
     (case (a, b, c) of (Some x, Some y, Some z) \<Rightarrow> x * y = z | _ \<Rightarrow> True)"

definition ResourceShape :: "shape \<Rightarrow> (py_error, shape) res" where
  "ResourceShape s =
     bindR (checkAll (\<lambda>(name, v).
         raise_if (\<not> at_least 1 v)
           (PyValueError (''resource shape '' @ name @ '' must be at least 1'')))
       [(''nodes'', s_nodes s), (''cpus_per_node'', s_cpus_per_node s),
        (''total_cpus'', s_total_cpus s), (''mpi_ranks'', s_mpi_ranks s),
        (''ranks_per_node'', s_ranks_per_node s), (''threads_per_rank'', s_threads_per_rank s),
        (''memory_bytes'', s_memory_bytes s),
        (''memory_per_node_bytes'', s_memory_per_node_bytes s),
        (''walltime_seconds'', s_walltime_seconds s)]) (\<lambda>_.
     bindR (checkAll (\<lambda>(name, v).
         raise_if (\<not> at_least 0 v)
           (PyValueError (''resource shape '' @ name @ '' must be at least 0'')))
       [(''gpus'', s_gpus s), (''gpus_per_node'', s_gpus_per_node s)]) (\<lambda>_.
     if \<not> product_ok (s_nodes s) (s_cpus_per_node s) (s_total_cpus s)
     then Inl (PyValueError ''total CPUs must equal nodes times CPUs per node'')
     else if \<not> product_ok (s_nodes s) (s_ranks_per_node s) (s_mpi_ranks s)
     then Inl (PyValueError ''MPI ranks must equal nodes times ranks per node'')
     else if \<not> product_ok (s_nodes s) (s_gpus_per_node s) (s_gpus s)
     then Inl (PyValueError ''GPUs must equal nodes times GPUs per node'')
     else if \<not> product_ok (s_nodes s) (s_memory_per_node_bytes s) (s_memory_bytes s)
     then Inl (PyValueError ''memory must equal nodes times memory per node'')
     else if \<not> product_ok (s_mpi_ranks s) (s_threads_per_rank s) (s_total_cpus s)
     then Inl (PyValueError ''total CPUs must equal MPI ranks times threads per rank'')
     else Inr s))"

definition shape_ok :: "shape \<Rightarrow> bool" where
  "shape_ok s \<longleftrightarrow>
     at_least 1 (s_nodes s) \<and> at_least 1 (s_cpus_per_node s) \<and> at_least 1 (s_total_cpus s) \<and>
     at_least 1 (s_mpi_ranks s) \<and> at_least 1 (s_ranks_per_node s) \<and>
     at_least 1 (s_threads_per_rank s) \<and> at_least 1 (s_memory_bytes s) \<and>
     at_least 1 (s_memory_per_node_bytes s) \<and> at_least 1 (s_walltime_seconds s) \<and>
     at_least 0 (s_gpus s) \<and> at_least 0 (s_gpus_per_node s) \<and>
     product_ok (s_nodes s) (s_cpus_per_node s) (s_total_cpus s) \<and>
     product_ok (s_nodes s) (s_ranks_per_node s) (s_mpi_ranks s) \<and>
     product_ok (s_nodes s) (s_gpus_per_node s) (s_gpus s) \<and>
     product_ok (s_nodes s) (s_memory_per_node_bytes s) (s_memory_bytes s) \<and>
     product_ok (s_mpi_ranks s) (s_threads_per_rank s) (s_total_cpus s)"

lemma ResourceShape_Inr: "ResourceShape s = Inr t \<longleftrightarrow> t = s \<and> shape_ok s"
  unfolding ResourceShape_def shape_ok_def by (auto simp: result_simps)

text \<open>\<open>ResourceShape.value\<close>: the dimensions a constraint may refer to.\<close>

definition opt_int :: "int option \<Rightarrow> json" where
  "opt_int = opt_json JInt"

lemma opt_int_simps [simp]: "opt_int None = JNull" "opt_int (Some i) = JInt i"
  by (simp_all add: opt_int_def)

definition shape_fields :: "shape \<Rightarrow> (string \<times> json) list" where
  "shape_fields s =
     [(''nodes'', opt_int (s_nodes s)), (''cpus_per_node'', opt_int (s_cpus_per_node s)),
      (''total_cpus'', opt_int (s_total_cpus s)), (''mpi_ranks'', opt_int (s_mpi_ranks s)),
      (''ranks_per_node'', opt_int (s_ranks_per_node s)),
      (''threads_per_rank'', opt_int (s_threads_per_rank s)), (''gpus'', opt_int (s_gpus s)),
      (''gpus_per_node'', opt_int (s_gpus_per_node s)),
      (''memory_bytes'', opt_int (s_memory_bytes s)),
      (''memory_per_node_bytes'', opt_int (s_memory_per_node_bytes s)),
      (''architecture'', s_architecture s), (''node_class'', s_node_class s),
      (''walltime_seconds'', opt_int (s_walltime_seconds s)),
      (''scheduler_class'', s_scheduler_class s)]"

definition shape_value :: "shape \<Rightarrow> string \<Rightarrow> (py_error, json) res" where
  "shape_value s name =
     (case dict_get (shape_fields s) name of
        None \<Rightarrow> Inl (PyValueError (''unsupported resource reference: '' @ name))
      | Some v \<Rightarrow> Inr v)"

definition shape_to_dict :: "shape \<Rightarrow> json dict" where
  "shape_to_dict s =
     shape_fields s @ [(''placement'', s_placement s), (''evidence'', s_evidence s)]"

text \<open>\<open>ResourceShape(**value)\<close> for a JSON object.\<close>

definition shape_count :: "json dict \<Rightarrow> string \<Rightarrow> int \<Rightarrow> (py_error, int option) res" where
  "shape_count d name least =
     (case jget d name of
        JNull \<Rightarrow> Inr None
      | JInt i \<Rightarrow>
          if i < least
          then Inl (PyValueError (''resource shape '' @ name @ '' must be at least '' @ str_int least))
          else Inr (Some i)
      | _ \<Rightarrow> Inl (PyValueError (''resource shape '' @ name @ '' must be at least '' @ str_int least)))"

definition shape_from_dict :: "json dict \<Rightarrow> (py_error, shape) res" where
  "shape_from_dict d =
     (if \<not> set (dict_keys d) \<subseteq> set (dict_keys (shape_to_dict empty_shape)) then Inl PyTypeError
      else
        bindR (shape_count d ''nodes'' 1) (\<lambda>nodes.
        bindR (shape_count d ''cpus_per_node'' 1) (\<lambda>cpus_per_node.
        bindR (shape_count d ''total_cpus'' 1) (\<lambda>total_cpus.
        bindR (shape_count d ''mpi_ranks'' 1) (\<lambda>mpi_ranks.
        bindR (shape_count d ''ranks_per_node'' 1) (\<lambda>ranks_per_node.
        bindR (shape_count d ''threads_per_rank'' 1) (\<lambda>threads_per_rank.
        bindR (shape_count d ''memory_bytes'' 1) (\<lambda>memory_bytes.
        bindR (shape_count d ''memory_per_node_bytes'' 1) (\<lambda>memory_per_node_bytes.
        bindR (shape_count d ''walltime_seconds'' 1) (\<lambda>walltime_seconds.
        bindR (shape_count d ''gpus'' 0) (\<lambda>gpus.
        bindR (shape_count d ''gpus_per_node'' 0) (\<lambda>gpus_per_node.
        ResourceShape \<lparr>s_nodes = nodes, s_cpus_per_node = cpus_per_node,
          s_total_cpus = total_cpus, s_mpi_ranks = mpi_ranks, s_ranks_per_node = ranks_per_node,
          s_threads_per_rank = threads_per_rank, s_gpus = gpus, s_gpus_per_node = gpus_per_node,
          s_memory_bytes = memory_bytes, s_memory_per_node_bytes = memory_per_node_bytes,
          s_architecture = jget d ''architecture'', s_node_class = jget d ''node_class'',
          s_walltime_seconds = walltime_seconds,
          s_scheduler_class = jget d ''scheduler_class'',
          s_placement = jget_or d ''placement'' (JObj []),
          s_evidence = jget_or d ''evidence'' (JArr [])\<rparr>))))))))))))"

lemma shape_from_dict_ok: "shape_from_dict d = Inr s \<Longrightarrow> shape_ok s"
  by (auto simp: shape_from_dict_def bindR_Inr_iff ResourceShape_Inr split: if_splits)

lemma shape_count_opt_int:
  "jget d name = opt_int v \<Longrightarrow> at_least least v \<Longrightarrow> shape_count d name least = Inr v"
  by (cases v) (auto simp: shape_count_def)

lemma shape_to_dict_get:
  "jget (shape_to_dict s) ''nodes'' = opt_int (s_nodes s)"
  "jget (shape_to_dict s) ''cpus_per_node'' = opt_int (s_cpus_per_node s)"
  "jget (shape_to_dict s) ''total_cpus'' = opt_int (s_total_cpus s)"
  "jget (shape_to_dict s) ''mpi_ranks'' = opt_int (s_mpi_ranks s)"
  "jget (shape_to_dict s) ''ranks_per_node'' = opt_int (s_ranks_per_node s)"
  "jget (shape_to_dict s) ''threads_per_rank'' = opt_int (s_threads_per_rank s)"
  "jget (shape_to_dict s) ''gpus'' = opt_int (s_gpus s)"
  "jget (shape_to_dict s) ''gpus_per_node'' = opt_int (s_gpus_per_node s)"
  "jget (shape_to_dict s) ''memory_bytes'' = opt_int (s_memory_bytes s)"
  "jget (shape_to_dict s) ''memory_per_node_bytes'' = opt_int (s_memory_per_node_bytes s)"
  "jget (shape_to_dict s) ''walltime_seconds'' = opt_int (s_walltime_seconds s)"
  "jget (shape_to_dict s) ''architecture'' = s_architecture s"
  "jget (shape_to_dict s) ''node_class'' = s_node_class s"
  "jget (shape_to_dict s) ''scheduler_class'' = s_scheduler_class s"
  "jget_or (shape_to_dict s) ''placement'' z = s_placement s"
  "jget_or (shape_to_dict s) ''evidence'' z = s_evidence s"
  by (simp_all add: shape_to_dict_def shape_fields_def jget_def jget_or_def)

lemma shape_round_trip:
  assumes "shape_ok s"
  shows "shape_from_dict (shape_to_dict s) = Inr s"
proof -
  have "set (dict_keys (shape_to_dict s)) \<subseteq> set (dict_keys (shape_to_dict empty_shape))"
    by (simp add: shape_to_dict_def shape_fields_def)
  then show ?thesis
    using assms
    by (simp add: shape_from_dict_def bindR_Inr_iff shape_to_dict_get ResourceShape_Inr
        shape_count_opt_int [OF shape_to_dict_get(1)] shape_count_opt_int [OF shape_to_dict_get(2)]
        shape_count_opt_int [OF shape_to_dict_get(3)] shape_count_opt_int [OF shape_to_dict_get(4)]
        shape_count_opt_int [OF shape_to_dict_get(5)] shape_count_opt_int [OF shape_to_dict_get(6)]
        shape_count_opt_int [OF shape_to_dict_get(7)] shape_count_opt_int [OF shape_to_dict_get(8)]
        shape_count_opt_int [OF shape_to_dict_get(9)] shape_count_opt_int [OF shape_to_dict_get(10)]
        shape_count_opt_int [OF shape_to_dict_get(11)] shape_ok_def)
qed

section \<open>Environments and containers\<close>

definition MODULE_NAME :: "string \<Rightarrow> bool" where
  "MODULE_NAME s =
     (case s of [] \<Rightarrow> False
      | c # cs \<Rightarrow> is_alnum c \<and> length cs \<le> 127 \<and>
          list_all (\<lambda>x. is_alnum x \<or> x \<in> set ''_.+/@-'') cs)"

record activation =
  a_kind :: string
  a_names :: "string list"
  a_prefix :: "string option"

definition EnvironmentActivation :: "activation \<Rightarrow> (py_error, activation) res" where
  "EnvironmentActivation a =
     (if a_kind a \<notin> set [''none'', ''module'', ''virtualenv'', ''conda'', ''spack'']
      then Inl (PyValueError (''unsupported environment activation: '' @ a_kind a))
      else if a_kind a = ''module'' then
        (if a_names a = [] \<or> \<not> list_all MODULE_NAME (a_names a)
         then Inl (PyValueError ''module activation requires safe typed module names'')
         else if a_prefix a \<noteq> None
         then Inl (PyValueError ''module activation does not use a prefix'')
         else Inr a)
      else if a_kind a \<in> set [''virtualenv'', ''conda'', ''spack''] then
        (if (case a_prefix a of None \<Rightarrow> True | Some p \<Rightarrow> \<not> starts_with ''/'' p)
         then Inl (PyValueError (a_kind a @ '' activation requires an absolute prefix''))
         else if a_names a \<noteq> []
         then Inl (PyValueError (a_kind a @ '' activation does not use module names''))
         else Inr a)
      else if a_names a \<noteq> [] \<or> a_prefix a \<noteq> None
      then Inl (PyValueError ''none activation cannot carry values'')
      else Inr a)"

record mount =
  m_source :: string
  m_destination :: string
  m_read_only :: bool

definition unsafe_in :: "string \<Rightarrow> string \<Rightarrow> bool" where
  "unsafe_in bad s \<longleftrightarrow> list_ex (\<lambda>c. c \<in> set bad) s"

definition control_chars :: string where
  "control_chars = [CHR 0x0A, CHR 0x0D, CHR 0x00]"

definition ContainerMount :: "mount \<Rightarrow> (py_error, mount) res" where
  "ContainerMount m =
     (if \<not> starts_with ''/'' (m_source m) \<or> \<not> starts_with ''/'' (m_destination m)
         \<or> length (m_source m) > 16384 \<or> length (m_destination m) > 16384
      then Inl (PyValueError ''container bind paths must be absolute'')
      else if unsafe_in (control_chars @ '':,'') (m_source m)
              \<or> unsafe_in (control_chars @ '':,'') (m_destination m)
      then Inl (PyValueError ''container bind paths contain unsafe characters'')
      else Inr m)"

record container =
  c_runtime :: string
  c_image :: string
  c_mounts :: "mount list"
  c_clean_environment :: bool
  c_image_digest :: "string option"

definition SHA256_DIGEST :: "string \<Rightarrow> bool" where
  "SHA256_DIGEST s \<longleftrightarrow> starts_with ''sha256:'' s \<and> length s = 71 \<and>
     list_all (\<lambda>c. is_digit c \<or> c \<in> set ''abcdef'') (drop 7 s)"

definition ContainerExecution :: "container \<Rightarrow> (py_error, container) res" where
  "ContainerExecution c =
     (if c_runtime c \<notin> set [''apptainer'', ''singularity'']
      then Inl (PyValueError (''unsupported container runtime: '' @ c_runtime c))
      else if \<not> starts_with ''/'' (c_image c) \<or> length (c_image c) > 16384
      then Inl (PyValueError ''container image must be an absolute existing-image path'')
      else if unsafe_in control_chars (c_image c)
      then Inl (PyValueError ''container image path contains unsafe characters'')
      else if length (c_mounts c) > 128
      then Inl (PyValueError ''container bind list exceeds the safety limit'')
      else if (case c_image_digest c of None \<Rightarrow> False | Some d \<Rightarrow> \<not> SHA256_DIGEST d)
      then Inl (PyValueError ''container image digest must use sha256:<hex>'')
      else Inr c)"

end
