(* ===== verification/Constraints.thy ===== *)
theory Constraints
  imports PlanningModels
begin

text \<open>
  Declarative constraint providers (\<open>constraint_providers.py\<close>): the contract document, the
  expressions over parameters and resource dimensions, their evaluation, the parameter
  assignments to try, and when a parameter may be changed without a person's approval.

  A validated expression is a typed tree instead of a dictionary with one key. Integers are
  exact; what floating point numbers do (rounding, conversion, \<open>%\<close> formatting of text) is the
  interpreter's and a parameter.
\<close>

section \<open>Python arithmetic on JSON values\<close>

datatype provider_error =
    ProviderContractError string
  | PyError py_error
  | PyOverflowError

type_synonym 'a provided = "(provider_error, 'a) res"

abbreviation contract :: "string \<Rightarrow> 'a provided" where
  "contract msg \<equiv> Inl (ProviderContractError msg)"

abbreviation type_error :: "'a provided" where
  "type_error \<equiv> Inl (PyError PyTypeError)"

record py_ops =
  f_of_int :: "int \<Rightarrow> py_float option"
  f_add :: "py_float \<Rightarrow> py_float \<Rightarrow> py_float"
  f_sub :: "py_float \<Rightarrow> py_float \<Rightarrow> py_float"
  f_mul :: "py_float \<Rightarrow> py_float \<Rightarrow> py_float"
  f_mod :: "py_float \<Rightarrow> py_float \<Rightarrow> py_float"
  f_format :: "string \<Rightarrow> json \<Rightarrow> bool"

fun as_int :: "json \<Rightarrow> int option" where
  "as_int (JInt i) = Some i"
| "as_int (JBool b) = Some (if b then 1 else 0)"
| "as_int _ = None"

fun is_number :: "json \<Rightarrow> bool" where
  "is_number (JInt _) = True"
| "is_number (JBool _) = True"
| "is_number (JFloat _) = True"
| "is_number _ = False"

fun as_float :: "py_ops \<Rightarrow> json \<Rightarrow> py_float provided" where
  "as_float po (JFloat f) = Inr f"
| "as_float po v =
     (case as_int v of
        None \<Rightarrow> type_error
      | Some i \<Rightarrow> (case f_of_int po i of None \<Rightarrow> Inl PyOverflowError | Some f \<Rightarrow> Inr f))"

definition arith ::
  "py_ops \<Rightarrow> (int \<Rightarrow> int \<Rightarrow> int) \<Rightarrow> (py_float \<Rightarrow> py_float \<Rightarrow> py_float) \<Rightarrow> json \<Rightarrow> json \<Rightarrow> json provided" where
  "arith po fi ff a b =
     (case (as_int a, as_int b) of
        (Some x, Some y) \<Rightarrow> Inr (JInt (fi x y))
      | _ \<Rightarrow>
          if is_number a \<and> is_number b
          then bindR (as_float po a) (\<lambda>x. bindR (as_float po b) (\<lambda>y. Inr (JFloat (ff x y))))
          else type_error)"

text \<open>\<open>a + b\<close> as \<open>sum\<close> applies it, from 0 on: a sequence on either side fails.\<close>

definition py_add :: "py_ops \<Rightarrow> json \<Rightarrow> json \<Rightarrow> json provided" where
  "py_add po = arith po (+) (f_add po)"

definition py_sub :: "py_ops \<Rightarrow> json \<Rightarrow> json \<Rightarrow> json provided" where
  "py_sub po = arith po (-) (f_sub po)"

text \<open>\<open>a * b\<close>: an integer repeats a text or a list.\<close>

fun py_mul :: "py_ops \<Rightarrow> json \<Rightarrow> json \<Rightarrow> json provided" where
  "py_mul po (JStr s) b =
     (case as_int b of None \<Rightarrow> type_error
      | Some n \<Rightarrow> Inr (JStr (concat (replicate (nat n) s))))"
| "py_mul po (JArr xs) b =
     (case as_int b of None \<Rightarrow> type_error
      | Some n \<Rightarrow> Inr (JArr (concat (replicate (nat n) xs))))"
| "py_mul po a (JStr s) =
     (case as_int a of None \<Rightarrow> type_error
      | Some n \<Rightarrow> Inr (JStr (concat (replicate (nat n) s))))"
| "py_mul po a (JArr xs) =
     (case as_int a of None \<Rightarrow> type_error
      | Some n \<Rightarrow> Inr (JArr (concat (replicate (nat n) xs))))"
| "py_mul po a b = arith po (*) (f_mul po) a b"

text \<open>Order comparisons: numbers exactly, texts by code point, lists lexicographically.\<close>

fun float_less :: "py_float \<Rightarrow> py_float \<Rightarrow> bool" where
  "float_less NaN _ = False"
| "float_less _ NaN = False"
| "float_less (Infinite p) (Infinite q) = (\<not> p \<and> q)"
| "float_less (Infinite p) (Finite _) = (\<not> p)"
| "float_less (Finite _) (Infinite q) = q"
| "float_less (Finite x) (Finite y) = (x < y)"

fun numeric :: "json \<Rightarrow> py_float" where
  "numeric (JInt i) = Finite (of_int i)"
| "numeric (JBool b) = Finite (if b then 1 else 0)"
| "numeric (JFloat f) = f"
| "numeric _ = NaN"

fun py_less :: "bool \<Rightarrow> json \<Rightarrow> json \<Rightarrow> bool provided"
  and py_less_list :: "bool \<Rightarrow> json list \<Rightarrow> json list \<Rightarrow> bool provided" where
  "py_less orequal (JStr s) b =
     (case b of JStr t \<Rightarrow> Inr (str_less s t \<or> orequal \<and> s = t) | _ \<Rightarrow> type_error)"
| "py_less orequal (JArr xs) b =
     (case b of JArr ys \<Rightarrow> py_less_list orequal xs ys | _ \<Rightarrow> type_error)"
| "py_less orequal JNull b = type_error"
| "py_less orequal (JObj d) b = type_error"
| "py_less orequal (JInt i) b =
     (if is_number b
      then Inr (float_less (Finite (of_int i)) (numeric b) \<or> orequal \<and> py_eq (JInt i) b)
      else type_error)"
| "py_less orequal (JBool x) b =
     (if is_number b
      then Inr (float_less (numeric (JBool x)) (numeric b) \<or> orequal \<and> py_eq (JBool x) b)
      else type_error)"
| "py_less orequal (JFloat f) b =
     (if is_number b
      then Inr (float_less f (numeric b) \<or> orequal \<and> py_eq (JFloat f) b)
      else type_error)"
| "py_less_list orequal [] ys = Inr (ys \<noteq> [] \<or> orequal)"
| "py_less_list orequal (x # xs) ys =
     (case ys of
        [] \<Rightarrow> Inr False
      | y # ys \<Rightarrow> if py_eq x y then py_less_list orequal xs ys else py_less orequal x y)"

text \<open>\<open>left % right == 0\<close> once \<open>right != 0\<close>.\<close>

definition divides_evenly :: "py_ops \<Rightarrow> json \<Rightarrow> json \<Rightarrow> bool provided" where
  "divides_evenly po left right =
     (case left of
        JStr s \<Rightarrow> if f_format po s right then Inr False else type_error
      | _ \<Rightarrow>
          (case (as_int left, as_int right) of
             (Some x, Some y) \<Rightarrow> Inr (x mod y = 0)
           | _ \<Rightarrow>
               if is_number left \<and> is_number right
               then bindR (as_float po left) (\<lambda>x. bindR (as_float po right) (\<lambda>y.
                      Inr (f_mod po x y = Finite 0)))
               else type_error))"

definition compare :: "py_ops \<Rightarrow> string \<Rightarrow> json \<Rightarrow> json \<Rightarrow> bool provided" where
  "compare po operator left right =
     (if operator = ''equal'' then Inr (py_eq left right)
      else if operator = ''not_equal'' then Inr (\<not> py_eq left right)
      else if operator = ''less_than'' then py_less False left right
      else if operator = ''less_or_equal'' then py_less True left right
      else if operator = ''greater_than'' then py_less False right left
      else if operator = ''greater_or_equal'' then py_less True right left
      else if operator = ''divisible_by'' then
        (if py_eq right (JInt 0) then Inr False else divides_evenly po left right)
      else contract (''unsupported comparison: '' @ operator))"

section \<open>Expressions\<close>

datatype expr =
    Constant json
  | Parameter string
  | Resource string
  | Add "expr list"
  | Multiply "expr list"
  | Subtract expr expr

definition shape_reference :: "string \<Rightarrow> unit provided" where
  "shape_reference name = bindR (mapErr PyError (shape_value empty_shape name)) (\<lambda>_. Inr ())"

text \<open>\<open>_validate_expression\<close>, returning the expression it accepted.\<close>

function validate_expression :: "nat \<Rightarrow> json \<Rightarrow> expr provided" where
  "validate_expression depth value =
     (if depth > 12 then contract ''constraint expression must be a bounded typed object''
      else (case value of
          JObj [(key, operand)] \<Rightarrow>
            if key = ''constant'' then
              (if is_dict operand \<or> is_list operand
               then contract ''constraint constants must be scalar'' else Inr (Constant operand))
            else if key = ''parameter'' \<or> key = ''resource'' then
              (case operand of
                 JStr s \<Rightarrow>
                   if s = [] then contract (key @ '' reference must be a string'')
                   else if key = ''parameter'' then Inr (Parameter s)
                   else bindR (shape_reference s) (\<lambda>_. Inr (Resource s))
               | _ \<Rightarrow> contract (key @ '' reference must be a string''))
            else if key = ''subtract'' then
              (case operand of
                 JArr [a, b] \<Rightarrow>
                   bindR (validate_expression (depth + 1) a) (\<lambda>x.
                   bindR (validate_expression (depth + 1) b) (\<lambda>y. Inr (Subtract x y)))
               | _ \<Rightarrow> contract ''subtract requires exactly two operands'')
            else if key = ''add'' \<or> key = ''multiply'' then
              (case operand of
                 JArr items \<Rightarrow>
                   if length items < 2 \<or> length items > 16
                   then contract (key @ '' requires two to sixteen operands'')
                   else bindR (mapM (validate_expression (depth + 1)) items) (\<lambda>es.
                          Inr (if key = ''add'' then Add es else Multiply es))
               | _ \<Rightarrow> contract (key @ '' requires two to sixteen operands''))
            else contract (''unsupported expression operator: '' @ key)
        | _ \<Rightarrow> contract ''constraint expression must be a bounded typed object''))"
  by pat_completeness auto
termination by (relation "measure (\<lambda>(depth, _). 13 - depth)") auto

declare validate_expression.simps [simp del]

text \<open>Unknown is \<open>None\<close>; a null parameter or dimension is unknown, a null constant is not.\<close>

definition known :: "json \<Rightarrow> json option" where
  "known v = (if v = JNull then None else Some v)"

fun fold_op :: "(json \<Rightarrow> json \<Rightarrow> json provided) \<Rightarrow> json \<Rightarrow> json list \<Rightarrow> json provided" where
  "fold_op f acc [] = Inr acc"
| "fold_op f acc (v # vs) = bindR (f acc v) (\<lambda>acc'. fold_op f acc' vs)"

definition combine ::
  "(json list \<Rightarrow> json provided) \<Rightarrow> json option list \<Rightarrow> json option provided" where
  "combine f values =
     (if list_ex (\<lambda>v. v = None) values then Inr None else mapR Some (f (map the values)))"

fun eval_expr :: "py_ops \<Rightarrow> expr \<Rightarrow> json dict \<Rightarrow> shape \<Rightarrow> json option provided" where
  "eval_expr po (Constant v) parameters s = Inr (Some v)"
| "eval_expr po (Parameter name) parameters s = Inr (known (jget parameters name))"
| "eval_expr po (Resource name) parameters s =
     bindR (mapErr PyError (shape_value s name)) (\<lambda>v. Inr (known v))"
| "eval_expr po (Add es) parameters s =
     bindR (mapM (\<lambda>e. eval_expr po e parameters s) es)
       (combine (fold_op (py_add po) (JInt 0)))"
| "eval_expr po (Multiply es) parameters s =
     bindR (mapM (\<lambda>e. eval_expr po e parameters s) es)
       (combine (fold_op (py_mul po) (JInt 1)))"
| "eval_expr po (Subtract a b) parameters s =
     bindR (mapM (\<lambda>e. eval_expr po e parameters s) [a, b])
       (combine (\<lambda>vs. py_sub po (vs ! 0) (vs ! 1)))"

fun expression_parameters :: "expr \<Rightarrow> string set" where
  "expression_parameters (Parameter p) = {p}"
| "expression_parameters (Add es) = \<Union> (set (map expression_parameters es))"
| "expression_parameters (Multiply es) = \<Union> (set (map expression_parameters es))"
| "expression_parameters (Subtract a b) = expression_parameters a \<union> expression_parameters b"
| "expression_parameters _ = {}"

fun expression_resources :: "expr \<Rightarrow> string set" where
  "expression_resources (Resource r) = {r}"
| "expression_resources (Add es) = \<Union> (set (map expression_resources es))"
| "expression_resources (Multiply es) = \<Union> (set (map expression_resources es))"
| "expression_resources (Subtract a b) = expression_resources a \<union> expression_resources b"
| "expression_resources _ = {}"

fun direct_resource :: "expr \<Rightarrow> string option" where
  "direct_resource (Resource r) = Some r"
| "direct_resource _ = None"

section \<open>The provider document\<close>

datatype step = Key string | Index int

record binding =
  bd_input :: string
  bd_path :: "step list"

record param =
  pd_name :: string
  pd_classification :: string
  pd_evidence :: "json dict"
  pd_allowed :: "json list"
  pd_minimum :: json
  pd_maximum :: json
  pd_default :: json
  pd_binding :: "binding option"
  pd_equivalence :: bool

record constraint =
  cd_id :: string
  cd_operator :: string
  cd_left :: expr
  cd_right :: expr
  cd_hard :: bool
  cd_message :: string

record provider =
  pv_name :: string
  pv_version :: string
  pv_parameters :: "param list"
  pv_constraints :: "constraint list"
  pv_environments :: "json dict list"
  pv_launchers :: "json dict list"
  pv_digest :: "string option"

definition MAX_PARAMETERS :: nat where "MAX_PARAMETERS = 128"
definition MAX_CONSTRAINTS :: nat where "MAX_CONSTRAINTS = 256"
definition MAX_VALUES_PER_PARAMETER :: nat where "MAX_VALUES_PER_PARAMETER = 64"

definition classes :: "string list" where
  "classes = [''execution_only'', ''performance_tunable'', ''scientific_semantics'', ''unknown'']"

definition predicates :: "string list" where
  "predicates = [''equal'', ''not_equal'', ''less_than'', ''less_or_equal'', ''greater_than'',
     ''greater_or_equal'', ''divisible_by'']"

definition reject_extra :: "json \<Rightarrow> string list \<Rightarrow> string \<Rightarrow> json dict provided" where
  "reject_extra value allowed label =
     (case value of
        JObj d \<Rightarrow>
          if \<not> set (dict_keys d) \<subseteq> set allowed
          then contract (''unsupported '' @ label @ '' fields'') else Inr d
      | _ \<Rightarrow> contract (label @ '' must be an object''))"

text \<open>\<open>v not in {...}\<close>, which fails on a value that cannot be hashed.\<close>

definition one_of :: "json \<Rightarrow> string list \<Rightarrow> string \<Rightarrow> string provided" where
  "one_of v xs msg =
     (if \<not> hashable v then type_error
      else if is_str v \<and> the_str v \<in> set xs then Inr (the_str v) else contract msg)"

fun path_step :: "json \<Rightarrow> step option" where
  "path_step (JStr s) = Some (Key s)"
| "path_step (JInt i) = Some (Index i)"
| "path_step _ = None"

definition validate_binding :: "json \<Rightarrow> binding provided" where
  "validate_binding value =
     bindR (if is_dict value then Inr () else contract ''variant binding must be an object'') (\<lambda>_.
     bindR (reject_extra value [''kind'', ''input'', ''path''] ''variant binding'') (\<lambda>d.
     if jget d ''kind'' \<noteq> JStr ''json_path''
     then contract ''only safe json_path bindings are supported''
     else if \<not> is_str (jget d ''input'') \<or> the_str (jget d ''input'') = []
     then contract ''variant binding input is required''
     else (case jget d ''path'' of
         JArr path \<Rightarrow>
           if path = [] \<or> length path > 32 \<or> list_ex (\<lambda>x. path_step x = None) path
           then contract ''variant binding path must be a bounded key/index list''
           else Inr \<lparr>bd_input = the_str (jget d ''input''),
                     bd_path = map (the \<circ> path_step) path\<rparr>
       | _ \<Rightarrow> contract ''variant binding path must be a bounded key/index list'')))"

definition bound_ok :: "json \<Rightarrow> bool" where
  "bound_ok v = (case v of JNull \<Rightarrow> True | JInt _ \<Rightarrow> True | JFloat _ \<Rightarrow> True | _ \<Rightarrow> False)"

definition name_ok :: "json \<Rightarrow> nat \<Rightarrow> bool" where
  "name_ok v n \<longleftrightarrow> is_str v \<and> the_str v \<noteq> [] \<and> length (the_str v) \<le> n"

definition parameter_from_dict :: "json \<Rightarrow> param provided" where
  "parameter_from_dict value =
     bindR (reject_extra value [''name'', ''classification'', ''classification_evidence'',
       ''allowed_values'', ''minimum'', ''maximum'', ''default'', ''binding'',
       ''scientific_equivalence''] ''parameter'') (\<lambda>d.
     if \<not> name_ok (jget d ''name'') 128
     then contract ''parameter name must be a bounded non-empty string''
     else bindR (one_of (jget d ''classification'') classes
       ''unsupported parameter classification'') (\<lambda>classification.
     case jget d ''classification_evidence'' of
       JObj evidence \<Rightarrow>
         (case jget_or d ''allowed_values'' (JArr []) of
            JArr values \<Rightarrow>
              if length values > MAX_VALUES_PER_PARAMETER
              then contract ''parameter allowed values must be a bounded list''
              else
                let minimum = jget d ''minimum''; maximum = jget d ''maximum'' in
                if \<not> bound_ok minimum then contract ''parameter minimum must be numeric''
                else if \<not> bound_ok maximum then contract ''parameter maximum must be numeric''
                else if minimum \<noteq> JNull \<and> maximum \<noteq> JNull
                        \<and> float_less (numeric maximum) (numeric minimum)
                then contract ''parameter minimum cannot exceed maximum''
                else
                  bindR (if jget d ''binding'' = JNull then Inr None
                         else mapR Some (validate_binding (jget d ''binding''))) (\<lambda>binding.
                  case jget_or d ''scientific_equivalence'' (JBool False) of
                    JBool equivalence \<Rightarrow>
                      Inr \<lparr>pd_name = the_str (jget d ''name''),
                           pd_classification = classification, pd_evidence = evidence,
                           pd_allowed = values, pd_minimum = minimum, pd_maximum = maximum,
                           pd_default = jget d ''default'', pd_binding = binding,
                           pd_equivalence = equivalence\<rparr>
                  | _ \<Rightarrow> contract ''scientific_equivalence must be boolean'')
          | _ \<Rightarrow> contract ''parameter allowed values must be a bounded list'')
     | _ \<Rightarrow> contract ''parameter classification requires structured evidence''))"

definition constraint_from_dict :: "json \<Rightarrow> constraint provided" where
  "constraint_from_dict value =
     bindR (reject_extra value [''id'', ''operator'', ''left'', ''right'', ''hard'', ''message'']
       ''constraint'') (\<lambda>d.
     if \<not> is_str (jget d ''id'') \<or> the_str (jget d ''id'') = []
     then contract ''constraint ID is required''
     else bindR (one_of (jget d ''operator'') predicates ''unsupported constraint operator'')
       (\<lambda>operator.
     bindR (validate_expression 0 (jget d ''left'')) (\<lambda>left.
     bindR (validate_expression 0 (jget d ''right'')) (\<lambda>right.
     case jget_or d ''hard'' (JBool True) of
       JBool hard \<Rightarrow>
         let message = jget_or d ''message'' (jget d ''id'') in
         if \<not> is_str message \<or> the_str message = []
         then contract ''constraint message must be a non-empty string''
         else Inr \<lparr>cd_id = the_str (jget d ''id''), cd_operator = operator, cd_left = left,
                   cd_right = right, cd_hard = hard, cd_message = the_str message\<rparr>
     | _ \<Rightarrow> contract ''constraint hard flag must be boolean''))))"

definition requirement_from_dict :: "string \<Rightarrow> json \<Rightarrow> json dict provided" where
  "requirement_from_dict label item =
     bindR (if is_dict item then Inr () else contract (label @ '' requirement must be an object'')) (\<lambda>_.
     bindR (reject_extra item [''kind'', ''name'', ''version'', ''required'']
       (label @ '' requirement'')) (\<lambda>d.
     if \<not> is_str (jget d ''kind'') \<or> \<not> is_str (jget d ''name'')
     then contract (label @ '' requirement kind and name are required'') else Inr d))"

definition requirements :: "json \<Rightarrow> string \<Rightarrow> json dict list provided" where
  "requirements value label =
     (case value of
        JArr items \<Rightarrow>
          if length items > 128 then contract (label @ '' requirements must be a bounded list'')
          else mapM (requirement_from_dict label) items
      | _ \<Rightarrow> contract (label @ '' requirements must be a bounded list''))"

definition bounded_items :: "json \<Rightarrow> nat \<Rightarrow> string \<Rightarrow> json list provided" where
  "bounded_items v n msg =
     (case v of JArr xs \<Rightarrow> if length xs > n then contract msg else Inr xs | _ \<Rightarrow> contract msg)"

definition provider_from_dict :: "json \<Rightarrow> provider provided" where
  "provider_from_dict value =
     bindR (reject_extra value [''kind'', ''schema_version'', ''name'', ''provider_version'',
       ''parameters'', ''constraints'', ''environment_requirements'', ''launcher_requirements'',
       ''source_digest''] ''provider'') (\<lambda>d.
     if jget d ''kind'' \<noteq> JStr ''bourne.constraint-provider''
     then contract ''provider kind must be bourne.constraint-provider''
     else if \<not> py_eq (jget d ''schema_version'') (JInt 1)
     then contract ''unsupported declarative provider schema version''
     else if \<not> name_ok (jget d ''name'') 128 then contract ''provider name is required''
     else if \<not> name_ok (jget d ''provider_version'') 64 then contract ''provider version is required''
     else
       bindR (bounded_items (jget_or d ''parameters'' (JArr [])) MAX_PARAMETERS
         ''provider parameters must be a bounded list'') (\<lambda>raw_parameters.
       bindR (bounded_items (jget_or d ''constraints'' (JArr [])) MAX_CONSTRAINTS
         ''provider constraints must be a bounded list'') (\<lambda>raw_constraints.
       bindR (mapM parameter_from_dict raw_parameters) (\<lambda>parameters.
       bindR (raise_if (\<not> distinct (map pd_name parameters))
         (ProviderContractError ''provider parameter names must be unique'')) (\<lambda>_.
       bindR (mapM constraint_from_dict raw_constraints) (\<lambda>constraints.
       bindR (raise_if (\<not> distinct (map cd_id constraints))
         (ProviderContractError ''provider constraint IDs must be unique'')) (\<lambda>_.
       bindR (requirements (jget_or d ''environment_requirements'' (JArr [])) ''environment'')
         (\<lambda>environments.
       bindR (requirements (jget_or d ''launcher_requirements'' (JArr [])) ''launcher'')
         (\<lambda>launchers.
       let digest = jget d ''source_digest'' in
       if digest \<noteq> JNull \<and> \<not> (is_str digest \<and> SHA256_DIGEST (the_str digest))
       then contract ''provider source digest must use canonical sha256:<hex> form''
       else
         bindR (checkAll (\<lambda>c. raise_if
             (\<not> expression_parameters (cd_left c) \<union> expression_parameters (cd_right c)
                \<subseteq> set (map pd_name parameters))
             (ProviderContractError ''constraint references unknown parameters'')) constraints) (\<lambda>_.
         Inr \<lparr>pv_name = the_str (jget d ''name''),
              pv_version = the_str (jget d ''provider_version''),
              pv_parameters = parameters, pv_constraints = constraints,
              pv_environments = environments, pv_launchers = launchers,
              pv_digest = (if digest = JNull then None else Some (the_str digest))\<rparr>))))))))))"

section \<open>Assignments\<close>

definition py_in :: "json \<Rightarrow> json list \<Rightarrow> bool" where
  "py_in v xs = list_ex (\<lambda>x. py_eq v x) xs"

definition candidate_values :: "param \<Rightarrow> json list" where
  "candidate_values p =
     (if pd_allowed p \<noteq> [] then pd_allowed p
      else
        let values = foldl (\<lambda>acc item. if item \<noteq> JNull \<and> \<not> py_in item acc then acc @ [item] else acc)
                       [] [pd_default p, pd_minimum p, pd_maximum p]
        in if values = [] then [JNull] else values)"

text \<open>\<open>itertools.product\<close>: the last position varies fastest.\<close>

fun product_of :: "'a list list \<Rightarrow> 'a list list" where
  "product_of [] = [[]]"
| "product_of (xs # xss) = concat (map (\<lambda>x. map ((#) x) (product_of xss)) xs)"

definition parameter_assignments :: "provider \<Rightarrow> nat \<Rightarrow> (json dict list \<times> nat) provided" where
  "parameter_assignments p limit =
     (if limit < 1 then Inl (PyError (PyValueError ''candidate limit must be positive''))
      else
        let value_sets = map candidate_values (pv_parameters p) in
        Inr (map (\<lambda>values. zip (map pd_name (pv_parameters p)) values)
               (take limit (product_of value_sets)),
             fold (\<lambda>values n. n * length values) value_sets 1))"

section \<open>Evaluation\<close>

record evaluation =
  ev_constraint :: string
  ev_state :: string
  ev_hard :: bool
  ev_message :: string
  ev_left :: json
  ev_right :: json

definition shown :: "json option \<Rightarrow> json" where
  "shown v = (case v of None \<Rightarrow> JNull | Some x \<Rightarrow> x)"

text \<open>\<open>OverflowError\<close> is not among the exceptions the comparison is guarded against.\<close>

definition comparison_state ::
  "py_ops \<Rightarrow> string \<Rightarrow> json option \<Rightarrow> json option \<Rightarrow> string provided" where
  "comparison_state po operator left right =
     (case (left, right) of
        (Some l, Some r) \<Rightarrow>
          (case compare po operator l r of
             Inr b \<Rightarrow> Inr (if b then ''satisfied'' else ''violated'')
           | Inl PyOverflowError \<Rightarrow> Inl PyOverflowError
           | Inl _ \<Rightarrow> Inr ''unknown'')
      | _ \<Rightarrow> Inr ''unknown'')"

definition evaluate_constraint ::
  "py_ops \<Rightarrow> json dict \<Rightarrow> shape \<Rightarrow> constraint \<Rightarrow> evaluation provided" where
  "evaluate_constraint po parameters s c =
     bindR (eval_expr po (cd_left c) parameters s) (\<lambda>left.
     bindR (eval_expr po (cd_right c) parameters s) (\<lambda>right.
     bindR (comparison_state po (cd_operator c) left right) (\<lambda>state.
     Inr \<lparr>ev_constraint = cd_id c, ev_state = state, ev_hard = cd_hard c,
          ev_message = cd_message c, ev_left = shown left, ev_right = shown right\<rparr>)))"

definition evaluate :: "py_ops \<Rightarrow> provider \<Rightarrow> json dict \<Rightarrow> shape \<Rightarrow> evaluation list provided" where
  "evaluate po p parameters s = mapM (evaluate_constraint po parameters s) (pv_constraints p)"

definition parameter :: "provider \<Rightarrow> string \<Rightarrow> param provided" where
  "parameter p name =
     (case find (\<lambda>x. pd_name x = name) (pv_parameters p) of
        None \<Rightarrow> contract (''unknown provider parameter: '' @ name)
      | Some x \<Rightarrow> Inr x)"

section \<open>Resource value hints\<close>

text \<open>The values one side of an equality contributes to the dimension the other side names.\<close>

definition hint_value :: "string \<Rightarrow> json option \<Rightarrow> int list" where
  "hint_value resource_name v =
     (case v of
        Some (JInt i) \<Rightarrow>
          if i > 0 \<or> resource_name \<in> {''gpus'', ''gpus_per_node''} then [i] else []
      | _ \<Rightarrow> [])"

definition side_hints ::
  "py_ops \<Rightarrow> json dict list \<Rightarrow> expr \<times> expr \<Rightarrow> (string \<times> int) list provided" where
  "side_hints po assignments sides =
     (case sides of (resource_expression, value_expression) \<Rightarrow>
        (case direct_resource resource_expression of
           None \<Rightarrow> Inr []
         | Some name \<Rightarrow>
             if expression_resources value_expression \<noteq> {} then Inr []
             else bindR (mapM (\<lambda>a. eval_expr po value_expression a empty_shape) assignments)
               (\<lambda>vs. Inr (map (\<lambda>i. (name, i)) (concat (map (hint_value name) vs))))))"

fun hints_of :: "py_ops \<Rightarrow> json dict list \<Rightarrow> constraint list \<Rightarrow> (string \<times> int) list provided" where
  "hints_of po assignments [] = Inr []"
| "hints_of po assignments (c # cs) =
     (if \<not> cd_hard c \<or> cd_operator c \<noteq> ''equal'' then hints_of po assignments cs
      else
        bindR (side_hints po assignments (cd_left c, cd_right c)) (\<lambda>h1.
        bindR (side_hints po assignments (cd_right c, cd_left c)) (\<lambda>h2.
        bindR (hints_of po assignments cs) (\<lambda>h3. Inr (h1 @ h2 @ h3)))))"

definition resource_value_hints ::
  "py_ops \<Rightarrow> provider \<Rightarrow> nat \<Rightarrow> (string \<times> int list) list provided" where
  "resource_value_hints po p limit =
     bindR (parameter_assignments p limit) (\<lambda>(assignments, _).
     bindR (hints_of po assignments (pv_constraints p)) (\<lambda>pairs.
     Inr (map (\<lambda>name. (name, sorted_list_of_set (set (map snd (filter (\<lambda>h. fst h = name) pairs)))))
            (sort_str (dedup (map fst pairs))))))"

section \<open>When a parameter may be changed\<close>

definition contract_evidence :: "param \<Rightarrow> bool provided" where
  "contract_evidence p =
     (let kind = jget (pd_evidence p) ''kind'' in
      if \<not> hashable kind then type_error
      else Inr (kind \<in> {JStr ''provider_contract'', JStr ''machine_contract'',
                        JStr ''user_declared''}))"

definition automatic_change_allowed :: "param \<Rightarrow> bool \<Rightarrow> bool \<Rightarrow> bool \<Rightarrow> bool provided" where
  "automatic_change_allowed p user_declaration change_approval trusted_contract =
     (if change_approval then Inr True
      else if pd_classification p = ''execution_only'' then
        (if user_declaration then Inr True
         else if trusted_contract then contract_evidence p else Inr False)
      else if pd_classification p = ''performance_tunable'' then
        (if pd_equivalence p \<and> trusted_contract then contract_evidence p else Inr False)
      else Inr False)"

definition ensure_remote_provider_available :: "string \<Rightarrow> bool \<Rightarrow> string list \<Rightarrow> unit provided" where
  "ensure_remote_provider_available name declarative available =
     (if declarative then Inr ()
      else if name \<notin> set available
      then contract (''required trusted code provider '' @ name @ '' is unavailable'')
      else Inr ())"

end
