(* ===== verification/Variants.thy ===== *)
theory Variants
  imports Constraints Paths
begin

text \<open>
  Workload variants (\<open>variants.py\<close>): reading and replacing one place of a JSON document, and the
  loop that applies the approved changes to a copy of the document. Reading the source file and
  writing the derived one are the operating system's; the document is what \<open>json.loads\<close> gave.
\<close>

section \<open>Places in a document\<close>

definition key_error :: "'a provided" where
  "key_error = contract ''variant binding key does not exist''"

definition index_error :: "'a provided" where
  "index_error = contract ''variant binding index does not exist''"

definition child :: "json \<Rightarrow> step \<Rightarrow> json provided" where
  "child current component =
     (case component of
        Index i \<Rightarrow>
          (case current of
             JArr xs \<Rightarrow> if 0 \<le> i \<and> nat i < length xs then Inr (xs ! nat i) else index_error
           | _ \<Rightarrow> index_error)
      | Key k \<Rightarrow>
          (case current of
             JObj d \<Rightarrow> (case dict_get d k of Some v \<Rightarrow> Inr v | None \<Rightarrow> key_error)
           | _ \<Rightarrow> key_error))"

fun lookup :: "json \<Rightarrow> step list \<Rightarrow> json provided" where
  "lookup current [] = Inr current"
| "lookup current (component # path) = bindR (child current component) (\<lambda>c. lookup c path)"

text \<open>\<open>current[component] = v\<close> for a component that exists.\<close>

definition set_child :: "json \<Rightarrow> step \<Rightarrow> json \<Rightarrow> json" where
  "set_child current component v =
     (case component of
        Index i \<Rightarrow> (case current of JArr xs \<Rightarrow> JArr (xs[nat i := v]) | _ \<Rightarrow> current)
      | Key k \<Rightarrow> (case current of JObj d \<Rightarrow> JObj (dict_set k v d) | _ \<Rightarrow> current))"

text \<open>
  \<open>_replace\<close> mutates the document in place; a decoded document shares no part, so the mutation is
  the document with that one place exchanged. The old value is returned beside it.
\<close>

fun replace :: "json \<Rightarrow> step list \<Rightarrow> json \<Rightarrow> (json \<times> json) provided" where
  "replace current [] v = Inl (PyError (PyValueError ''list index out of range''))"
| "replace current [final] v =
     bindR (child current final) (\<lambda>old. Inr (old, set_child current final v))"
| "replace current (component # path) v =
     bindR (child current component) (\<lambda>c.
     bindR (replace c path v) (\<lambda>(old, c'). Inr (old, set_child current component c')))"

section \<open>Applying changes\<close>

datatype variant_error = Provider provider_error | PermissionError string

record change =
  ch_parameter :: string
  ch_path :: "step list"
  ch_before :: json
  ch_after :: json

definition input_name :: "binding \<Rightarrow> string" where
  "input_name b = path_name (path_of (bd_input b))"

definition flag :: "(string \<times> bool) list \<Rightarrow> string \<Rightarrow> bool" where
  "flag flags name = (case map_of flags name of Some b \<Rightarrow> b | None \<Rightarrow> False)"

definition apply_change ::
  "provider \<Rightarrow> string \<Rightarrow> (string \<times> bool) list \<Rightarrow> (string \<times> bool) list \<Rightarrow> bool \<Rightarrow> json \<Rightarrow>
   string \<Rightarrow> json \<Rightarrow> (variant_error, json \<times> change) res" where
  "apply_change p original_name approvals declarations trusted document name v =
     bindR (mapErr Provider (parameter p name)) (\<lambda>d.
     case pd_binding d of
       None \<Rightarrow> Inl (Provider (ProviderContractError
         (''parameter '' @ name @ '' has no safe materialization binding'')))
     | Some b \<Rightarrow>
         if input_name b \<noteq> original_name
         then Inl (Provider (ProviderContractError
           (''parameter '' @ name @ '' binding does not target '' @ original_name)))
         else
           bindR (mapErr Provider (automatic_change_allowed d (flag declarations name)
             (flag approvals name) trusted)) (\<lambda>allowed.
           if \<not> allowed
           then Inl (PermissionError
             (''parameter '' @ name @ '' ('' @ pd_classification d @ '') is not approved for this change''))
           else
             bindR (mapErr Provider (replace document (bd_path b) v)) (\<lambda>(old, document').
             Inr (document', \<lparr>ch_parameter = name, ch_path = bd_path b, ch_before = old,
                              ch_after = v\<rparr>))))"

fun apply_changes ::
  "provider \<Rightarrow> string \<Rightarrow> (string \<times> bool) list \<Rightarrow> (string \<times> bool) list \<Rightarrow> bool \<Rightarrow> json \<Rightarrow>
   json dict \<Rightarrow> string list \<Rightarrow> (variant_error, json \<times> change list) res" where
  "apply_changes p original_name approvals declarations trusted document changes [] =
     Inr (document, [])"
| "apply_changes p original_name approvals declarations trusted document changes (name # names) =
     bindR (apply_change p original_name approvals declarations trusted document name
       (jget changes name)) (\<lambda>(document', c).
     bindR (apply_changes p original_name approvals declarations trusted document' changes names)
       (\<lambda>(document'', cs). Inr (document'', c # cs)))"

definition materialize_json_variant ::
  "provider \<Rightarrow> string \<Rightarrow> (string \<times> bool) list \<Rightarrow> (string \<times> bool) list \<Rightarrow> bool \<Rightarrow> json \<Rightarrow>
   json dict \<Rightarrow> (variant_error, json \<times> change list) res" where
  "materialize_json_variant p original_name approvals declarations trusted document changes =
     apply_changes p original_name approvals declarations trusted document changes
       (sort_str (dict_keys changes))"

text \<open>\<open>candidate_variant_changes\<close>: the bound values that differ from the document's.\<close>

fun variant_changes ::
  "provider \<Rightarrow> string \<Rightarrow> json \<Rightarrow> json dict \<Rightarrow> string list \<Rightarrow> json dict provided" where
  "variant_changes p original_name document parameters [] = Inr []"
| "variant_changes p original_name document parameters (name # names) =
     bindR (parameter p name) (\<lambda>d.
     case pd_binding d of
       None \<Rightarrow> variant_changes p original_name document parameters names
     | Some b \<Rightarrow>
         if input_name b \<noteq> original_name
         then variant_changes p original_name document parameters names
         else
           bindR (lookup document (bd_path b)) (\<lambda>v.
           bindR (variant_changes p original_name document parameters names) (\<lambda>rest.
           Inr (if py_eq v (jget parameters name) then rest
                else (name, jget parameters name) # rest))))"

definition candidate_variant_changes ::
  "provider \<Rightarrow> string \<Rightarrow> json \<Rightarrow> json dict \<Rightarrow> json dict provided" where
  "candidate_variant_changes p original_name document parameters =
     variant_changes p original_name document parameters (sort_str (dict_keys parameters))"

section \<open>Laws of lookup and replace\<close>

lemma child_set_same: "child d c = Inr x \<Longrightarrow> child (set_child d c v) c = Inr v"
  by (auto simp: child_def set_child_def index_error_def key_error_def
      split: step.splits json.splits if_splits option.splits)

lemma child_set_other:
  assumes "child d c = Inr x" and "c \<noteq> c'"
  shows "child (set_child d c v) c' = child d c'"
proof (cases c)
  case (Key k)
  then show ?thesis using assms
    by (cases c') (auto simp: child_def set_child_def key_error_def split: json.splits option.splits)
next
  case (Index i)
  then obtain xs where d: "d = JArr xs" and i: "0 \<le> i" "nat i < length xs"
    using assms(1) by (auto simp: child_def index_error_def split: json.splits if_splits)
  show ?thesis
  proof (cases c')
    case (Key k)
    then show ?thesis using Index d by (simp add: child_def set_child_def)
  next
    case (Index j)
    then show ?thesis
      using \<open>c = Index i\<close> d i assms(2)
      by (auto simp: child_def set_child_def nth_list_update nat_eq_iff2)
  qed
qed

lemma replace_Cons:
  "path \<noteq> [] \<Longrightarrow> replace d (c # path) v =
     bindR (child d c) (\<lambda>x. bindR (replace x path v) (\<lambda>(old, x'). Inr (old, set_child d c x')))"
  by (cases path) auto

lemma lookup_replace_same:
  "replace d path v = Inr (old, d') \<Longrightarrow> lookup d path = Inr old \<and> lookup d' path = Inr v"
proof (induction path arbitrary: d d')
  case Nil
  then show ?case by simp
next
  case (Cons c path)
  show ?case
  proof (cases "path = []")
    case True
    then show ?thesis using Cons.prems by (auto simp: bindR_Inr_iff child_set_same)
  next
    case False
    then show ?thesis using Cons
      by (auto simp: replace_Cons bindR_Inr_iff child_set_same split: prod.splits)
  qed
qed

text \<open>Two paths are apart when they part ways before either ends.\<close>

fun apart :: "step list \<Rightarrow> step list \<Rightarrow> bool" where
  "apart (a # p) (b # q) = (a \<noteq> b \<or> apart p q)"
| "apart _ _ = False"

lemma lookup_replace_apart:
  "replace d path v = Inr (old, d') \<Longrightarrow> apart path q \<Longrightarrow> lookup d' q = lookup d q"
proof (induction path arbitrary: d d' q)
  case Nil
  then show ?case by simp
next
  case (Cons c path)
  then obtain b q' where q: "q = b # q'" by (cases q) auto
  obtain x where x: "child d c = Inr x" using Cons.prems(1) by (cases path) (auto simp: bindR_Inr_iff)
  show ?case
  proof (cases "b = c")
    case True
    with Cons.prems(2) q have ap: "apart path q'" by auto
    then have ne: "path \<noteq> []" by auto
    obtain x' where r: "replace x path v = Inr (old, x')" and d': "d' = set_child d c x'"
      using Cons.prems(1) x by (auto simp: replace_Cons [OF ne] bindR_Inr_iff split: prod.splits)
    have "child d' c = Inr x'" using x d' by (simp add: child_set_same)
    then show ?thesis using q True x Cons.IH [OF r ap] by simp
  next
    case False
    obtain y where d': "d' = set_child d c y"
      using Cons.prems(1) x
      by (cases "path = []") (auto simp: replace_Cons bindR_Inr_iff split: prod.splits)
    then have "child d' b = child d b" using child_set_other [OF x] False by metis
    then show ?thesis using q by simp
  qed
qed

section \<open>The interface of addressable places\<close>

text \<open>
  What the loop over the changes relies on: a place written holds the new value and gave its
  old one, and a place apart from it is as before. \<open>put_all\<close> writes places one after another.
\<close>

fun put_all ::
  "('d \<Rightarrow> 'p \<Rightarrow> 'v \<Rightarrow> ('e, 'v \<times> 'd) res) \<Rightarrow> 'd \<Rightarrow> ('p \<times> 'v) list \<Rightarrow> ('e, 'v list \<times> 'd) res" where
  "put_all put d [] = Inr ([], d)"
| "put_all put d ((p, v) # pvs) =
     bindR (put d p v) (\<lambda>(old, d').
     bindR (put_all put d' pvs) (\<lambda>(olds, d''). Inr (old # olds, d'')))"

locale places =
  fixes get :: "'d \<Rightarrow> 'p \<Rightarrow> ('e, 'v) res"
    and put :: "'d \<Rightarrow> 'p \<Rightarrow> 'v \<Rightarrow> ('e, 'v \<times> 'd) res"
    and separate :: "'p \<Rightarrow> 'p \<Rightarrow> bool"
  assumes put_get: "put d p v = Inr (old, d') \<Longrightarrow> get d p = Inr old \<and> get d' p = Inr v"
    and put_separate: "put d p v = Inr (old, d') \<Longrightarrow> separate p q \<Longrightarrow> get d' q = get d q"
begin

lemma put_all_separate:
  "put_all put d pvs = Inr (olds, d') \<Longrightarrow> (\<And>p v. (p, v) \<in> set pvs \<Longrightarrow> separate p q) \<Longrightarrow>
     get d' q = get d q"
proof (induction pvs arbitrary: d olds)
  case Nil
  then show ?case by simp
next
  case (Cons pv pvs)
  obtain p v where pv: "pv = (p, v)" by (cases pv)
  obtain old d1 olds1 where 1: "put d p v = Inr (old, d1)" "put_all put d1 pvs = Inr (olds1, d')"
    using Cons.prems(1) pv by (auto simp: bindR_Inr_iff split: prod.splits)
  have "separate p q" using Cons.prems(2) [of p v] pv by simp
  then have "get d1 q = get d q" using put_separate [OF 1(1)] by simp
  moreover have "get d' q = get d1 q"
    using Cons.IH [OF 1(2)] Cons.prems(2) pv by auto
  ultimately show ?case by simp
qed

lemma put_all_get:
  "put_all put d pvs = Inr (olds, d') \<Longrightarrow>
     sorted_wrt (\<lambda>(p, _) (q, _). separate p q \<and> separate q p) pvs \<Longrightarrow>
     map (\<lambda>(p, _). get d p) pvs = map Inr olds \<and> (\<forall>(p, v) \<in> set pvs. get d' p = Inr v)"
proof (induction pvs arbitrary: d olds)
  case Nil
  then show ?case by simp
next
  case (Cons pv pvs)
  obtain p v where pv: "pv = (p, v)" by (cases pv)
  obtain old d1 olds1 where 1: "put d p v = Inr (old, d1)" "put_all put d1 pvs = Inr (olds1, d')"
    and olds: "olds = old # olds1"
    using Cons.prems(1) pv by (auto simp: bindR_Inr_iff split: prod.splits)
  have sep: "separate p q \<and> separate q p" if "(q, w) \<in> set pvs" for q w
    using that Cons.prems(2) pv by auto
  have tl: "sorted_wrt (\<lambda>(p, _) (q, _). separate p q \<and> separate q p) pvs"
    using Cons.prems(2) by simp
  have ih: "map (\<lambda>(p, _). get d1 p) pvs = map Inr olds1" "\<forall>(p, v) \<in> set pvs. get d' p = Inr v"
    using Cons.IH [OF 1(2) tl] by auto
  have "get d' p = get d1 p" using put_all_separate [OF 1(2)] sep by blast
  moreover have "map (\<lambda>(p, _). get d p) pvs = map (\<lambda>(p, _). get d1 p) pvs"
    using put_separate [OF 1(1)] sep by auto
  ultimately show ?case using ih put_get [OF 1(1)] pv olds by auto
qed

end

interpretation doc: places lookup replace apart
  by unfold_locales (auto dest: lookup_replace_same lookup_replace_apart)

text \<open>The loop over the changes, seen as writing the changed places one after another.\<close>

lemma apply_changes_put_all:
  "apply_changes p n ap de tr document changes names = Inr (document', cs) \<Longrightarrow>
     map ch_parameter cs = names \<and> (\<forall>c \<in> set cs. ch_after c = jget changes (ch_parameter c)) \<and>
     put_all replace document (map (\<lambda>c. (ch_path c, ch_after c)) cs)
       = Inr (map ch_before cs, document')"
proof (induction names arbitrary: document cs)
  case Nil
  then show ?case by simp
next
  case (Cons name names)
  from Cons.prems obtain d1 c cs1 where
    1: "apply_change p n ap de tr document name (jget changes name) = Inr (d1, c)"
      "apply_changes p n ap de tr d1 changes names = Inr (document', cs1)"
    and cs: "cs = c # cs1"
    by (auto simp: bindR_Inr_iff split: prod.splits)
  have "replace document (ch_path c) (ch_after c) = Inr (ch_before c, d1) \<and>
      ch_parameter c = name \<and> ch_after c = jget changes name"
    using 1(1)
    by (auto simp: apply_change_def bindR_Inr_iff mapErr_Inr_iff split: option.splits if_splits prod.splits)
  then show ?case using Cons.IH [OF 1(2)] cs by auto
qed

lemma apply_changes_allowed:
  "apply_changes p n ap de tr document changes names = Inr (document', cs) \<Longrightarrow> c \<in> set cs \<Longrightarrow>
     \<exists>d b. parameter p (ch_parameter c) = Inr d \<and> pd_binding d = Some b \<and> input_name b = n \<and>
       ch_path c = bd_path b \<and>
       automatic_change_allowed d (flag de (ch_parameter c)) (flag ap (ch_parameter c)) tr = Inr True"
proof (induction names arbitrary: document cs)
  case Nil
  then show ?case by simp
next
  case (Cons name names)
  from Cons.prems(1) obtain d1 c1 cs1 where
    1: "apply_change p n ap de tr document name (jget changes name) = Inr (d1, c1)"
      "apply_changes p n ap de tr d1 changes names = Inr (document', cs1)"
    and cs: "cs = c1 # cs1"
    by (auto simp: bindR_Inr_iff split: prod.splits)
  show ?case
  proof (cases "c \<in> set cs1")
    case True
    then show ?thesis using Cons.IH [OF 1(2)] by blast
  next
    case False
    then have "c = c1" using Cons.prems(2) cs by simp
    then show ?thesis using 1(1)
      by (auto simp: apply_change_def bindR_Inr_iff mapErr_Inr_iff split: option.splits if_splits prod.splits)
  qed
qed

end
