(* ===== verification/ConstraintProperties.thy ===== *)
theory ConstraintProperties
  imports Variants
begin

text \<open>
  The properties of constraint providers and workload variants: which parameters may change
  without approval, what a derived document keeps of its source, what the enumerated parameter
  assignments cover, and the integer meaning of constraint expressions.
\<close>

section \<open>Enumeration of assignments\<close>

lemma product_of_set: "values \<in> set (product_of vss) \<longleftrightarrow> list_all2 (\<lambda>v vs. v \<in> set vs) values vss"
  by (induction vss arbitrary: "values") (auto simp: list_all2_Cons2)

lemma length_product_of: "length (product_of vss) = fold (\<lambda>vs n. n * length vs) vss 1"
proof -
  have "fold (\<lambda>vs n. n * length vs) vss k = k * length (product_of vss)" for k
  proof (induction vss arbitrary: k)
    case Nil
    then show ?case by simp
  next
    case (Cons vs vss)
    have "length (product_of (vs # vss)) = length vs * length (product_of vss)"
      by (induction vs) auto
    then show ?case using Cons by simp
  qed
  then show ?thesis by simp
qed

lemma candidate_values_nonempty: "candidate_values p \<noteq> []"
  by (simp add: candidate_values_def Let_def)

lemma assignments_Inr:
  "parameter_assignments p limit = Inr (as, n) \<longleftrightarrow> 1 \<le> limit \<and>
     as = map (zip (map pd_name (pv_parameters p)))
       (take limit (product_of (map candidate_values (pv_parameters p)))) \<and>
     n = length (product_of (map candidate_values (pv_parameters p)))"
  by (auto simp: parameter_assignments_def length_product_of Let_def)

text \<open>An assignment gives each parameter of the provider one of its candidate values.\<close>

definition assigns :: "provider \<Rightarrow> json dict \<Rightarrow> bool" where
  "assigns p a \<longleftrightarrow> list_all2 (\<lambda>(name, v) d. name = pd_name d \<and> v \<in> set (candidate_values d))
     a (pv_parameters p)"

lemma assigns_product:
  "assigns p a \<longleftrightarrow> (\<exists>values \<in> set (product_of (map candidate_values (pv_parameters p))).
     a = zip (map pd_name (pv_parameters p)) values)"
proof -
  have "list_all2 (\<lambda>(name, v) d. name = pd_name d \<and> v \<in> set (candidate_values d)) a ds \<longleftrightarrow>
    (\<exists>values. list_all2 (\<lambda>v vs. v \<in> set vs) values (map candidate_values ds) \<and>
       a = zip (map pd_name ds) values)" for ds
  proof (induction ds arbitrary: a)
    case Nil
    then show ?case by auto
  next
    case (Cons d ds)
    have "(\<exists>values. list_all2 (\<lambda>v vs. v \<in> set vs) values (map candidate_values (d # ds)) \<and>
        a = zip (map pd_name (d # ds)) values) \<longleftrightarrow>
      (\<exists>v vs. v \<in> set (candidate_values d) \<and>
        list_all2 (\<lambda>v vs. v \<in> set vs) vs (map candidate_values ds) \<and>
        a = (pd_name d, v) # zip (map pd_name ds) vs)"
      by (simp only: list.map list_all2_Cons2) (metis zip_Cons_Cons)
    also have "\<dots> \<longleftrightarrow> (\<exists>v rest. v \<in> set (candidate_values d) \<and> a = (pd_name d, v) # rest \<and>
        list_all2 (\<lambda>(name, v) d. name = pd_name d \<and> v \<in> set (candidate_values d)) rest ds)"
      by (subst Cons) blast
    finally show ?case by (auto simp: list_all2_Cons2)
  qed
  then show ?thesis by (auto simp: assigns_def product_of_set)
qed

text \<open>
  The assignments tried are assignments of the declared candidate values, never more than
  the limit; the theoretical count is the number of combinations, and when it is within the
  limit every combination is tried.
\<close>

theorem assignments_cover_combinations:
  assumes "parameter_assignments p limit = Inr (as, n)"
  shows "(\<forall>a \<in> set as. assigns p a) \<and> length as = min limit n \<and>
    (n \<le> limit \<longrightarrow> (\<forall>a. assigns p a \<longrightarrow> a \<in> set as))"
  using assms
  by (auto simp: assignments_Inr assigns_product dest: in_set_takeD)

section \<open>Integer meaning of expressions\<close>

text \<open>
  The reference: an expression over the integers, with an unknown parameter or dimension making
  the value unknown. The code computes it on Python values.
\<close>

fun int_expr :: "expr \<Rightarrow> bool" where
  "int_expr (Constant v) = (\<exists>i. v = JInt i)"
| "int_expr (Parameter _) = True"
| "int_expr (Resource r) = (r \<in> {''nodes'', ''cpus_per_node'', ''total_cpus'', ''mpi_ranks'',
     ''ranks_per_node'', ''threads_per_rank'', ''gpus'', ''gpus_per_node'', ''memory_bytes'',
     ''memory_per_node_bytes'', ''walltime_seconds''})"
| "int_expr (Add es) = list_all int_expr es"
| "int_expr (Multiply es) = list_all int_expr es"
| "int_expr (Subtract a b) = (int_expr a \<and> int_expr b)"

definition int_params :: "json dict \<Rightarrow> bool" where
  "int_params a \<longleftrightarrow> (\<forall>(k, v) \<in> set a. v = JNull \<or> (\<exists>i. v = JInt i))"

definition as_known :: "json \<Rightarrow> int option" where
  "as_known v = (case v of JInt i \<Rightarrow> Some i | _ \<Rightarrow> None)"

fun all_some :: "'a option list \<Rightarrow> 'a list option" where
  "all_some [] = Some []"
| "all_some (x # xs) =
     (case (x, all_some xs) of (Some y, Some ys) \<Rightarrow> Some (y # ys) | _ \<Rightarrow> None)"

fun denote :: "expr \<Rightarrow> json dict \<Rightarrow> shape \<Rightarrow> int option" where
  "denote (Constant v) a s = as_known v"
| "denote (Parameter n) a s = as_known (jget a n)"
| "denote (Resource r) a s =
     (case dict_get (shape_fields s) r of None \<Rightarrow> None | Some v \<Rightarrow> as_known v)"
| "denote (Add es) a s = map_option sum_list (all_some (map (\<lambda>e. denote e a s) es))"
| "denote (Multiply es) a s = map_option prod_list (all_some (map (\<lambda>e. denote e a s) es))"
| "denote (Subtract x y) a s =
     (case (denote x a s, denote y a s) of (Some i, Some j) \<Rightarrow> Some (i - j) | _ \<Rightarrow> None)"

lemma all_some_None: "all_some xs = None \<longleftrightarrow> None \<in> set xs"
  by (induction xs) (auto split: option.splits)

lemma all_some_Some: "all_some xs = Some ys \<longleftrightarrow> xs = map Some ys"
proof
  show "all_some xs = Some ys \<Longrightarrow> xs = map Some ys"
    by (induction xs arbitrary: ys) (auto split: option.splits)
  have "all_some (map Some ys) = Some ys" by (induction ys) auto
  then show "xs = map Some ys \<Longrightarrow> all_some xs = Some ys" by simp
qed

lemma arith_ints: "arith po fi ff (JInt a) (JInt b) = Inr (JInt (fi a b))"
  by (simp add: arith_def)

lemma fold_add: "fold_op (py_add po) (JInt i) (map JInt ns) = Inr (JInt (i + sum_list ns))"
  by (induction ns arbitrary: i) (auto simp: py_add_def arith_ints algebra_simps)

lemma fold_mul: "fold_op (py_mul po) (JInt i) (map JInt ns) = Inr (JInt (i * prod_list ns))"
  by (induction ns arbitrary: i) (auto simp: arith_ints algebra_simps)

lemma combine_denoted:
  assumes "\<And>ns. f (map JInt ns) = Inr (JInt (g ns))"
  shows "combine f (map (map_option JInt) xs) = Inr (map_option (\<lambda>ns. JInt (g ns)) (all_some xs))"
proof (cases "all_some xs")
  case None
  then show ?thesis by (auto simp: combine_def all_some_None list_ex_iff)
next
  case (Some ns)
  then have xs: "xs = map Some ns" by (simp add: all_some_Some)
  have "\<not> list_ex (\<lambda>v. v = None) (map (map_option JInt) xs)" by (auto simp: xs list_ex_iff)
  moreover have "map the (map (map_option JInt) xs) = map JInt ns" by (simp add: xs)
  ultimately show ?thesis using assms Some by (simp add: combine_def)
qed

lemma jget_int_params: "int_params a \<Longrightarrow> known (jget a n) = map_option JInt (as_known (jget a n))"
proof -
  assume "int_params a"
  moreover have "jget a n = JNull \<or> (n, jget a n) \<in> set a"
    by (auto simp: jget_def split: option.splits dest: map_of_SomeD)
  ultimately show ?thesis
    by (auto simp: int_params_def known_def as_known_def split: json.splits)
qed

lemma int_dimension:
  assumes "int_expr (Resource r)"
  shows "\<exists>v. dict_get (shape_fields s) r = Some v \<and> known v = map_option JInt (as_known v)"
proof -
  have "known (opt_int v) = map_option JInt (as_known (opt_int v))" for v
    by (cases v) (simp_all add: known_def as_known_def)
  then show ?thesis using assms by (auto simp: shape_fields_def)
qed

lemma eval_int_expr:
  "int_expr e \<Longrightarrow> int_params a \<Longrightarrow> eval_expr po e a s = Inr (map_option JInt (denote e a s))"
proof (induction e)
  case (Constant v)
  then show ?case by (auto simp: as_known_def)
next
  case (Parameter n)
  then show ?case by (simp add: jget_int_params)
next
  case (Resource r)
  then obtain v where "dict_get (shape_fields s) r = Some v"
    and "known v = map_option JInt (as_known v)"
    using int_dimension by blast
  then show ?case by (simp add: shape_value_def)
next
  case (Add es)
  have "mapM (\<lambda>e. eval_expr po e a s) es = Inr (map (\<lambda>e. map_option JInt (denote e a s)) es)"
    using Add by (intro mapM_all_Inr) (auto simp: list_all_iff)
  then show ?case
    using combine_denoted [of "fold_op (py_add po) (JInt 0)" sum_list "map (\<lambda>e. denote e a s) es"]
    by (simp add: fold_add comp_def option.map_comp)
next
  case (Multiply es)
  have "mapM (\<lambda>e. eval_expr po e a s) es = Inr (map (\<lambda>e. map_option JInt (denote e a s)) es)"
    using Multiply by (intro mapM_all_Inr) (auto simp: list_all_iff)
  then show ?case
    using combine_denoted [of "fold_op (py_mul po) (JInt 1)" prod_list "map (\<lambda>e. denote e a s) es"]
    by (simp add: fold_mul comp_def option.map_comp)
next
  case (Subtract x y)
  then show ?case
    by (cases "denote x a s"; cases "denote y a s")
      (auto simp: combine_def py_sub_def arith_ints)
qed

text \<open>The relation an operator stands for.\<close>

definition relation :: "string \<Rightarrow> int \<Rightarrow> int \<Rightarrow> bool" where
  "relation operator x y =
     (if operator = ''equal'' then x = y
      else if operator = ''not_equal'' then x \<noteq> y
      else if operator = ''less_than'' then x < y
      else if operator = ''less_or_equal'' then x \<le> y
      else if operator = ''greater_than'' then x > y
      else if operator = ''greater_or_equal'' then x \<ge> y
      else y \<noteq> 0 \<and> y dvd x)"

lemma compare_ints:
  "operator \<in> set predicates \<Longrightarrow> compare po operator (JInt x) (JInt y) = Inr (relation operator x y)"
  unfolding predicates_def
  by (simp only: set_simps insert_iff empty_iff)
    (elim disjE; simp add: compare_def relation_def divides_evenly_def dvd_eq_mod_eq_0; linarith?)

text \<open>
  C14. On integers the evaluation of a constraint is arithmetic: the code's verdict is that of
  the relation between the two integer expressions, and unknown exactly when one of them
  depends on a parameter or dimension that is not known.
\<close>

theorem constraint_evaluation_is_arithmetic:
  assumes "int_expr (cd_left c)" and "int_expr (cd_right c)" and "int_params a"
    and "cd_operator c \<in> set predicates"
  shows "mapR ev_state (evaluate_constraint po a s c) =
    Inr (case (denote (cd_left c) a s, denote (cd_right c) a s) of
        (Some x, Some y) \<Rightarrow> if relation (cd_operator c) x y then ''satisfied'' else ''violated''
      | _ \<Rightarrow> ''unknown'')"
  using assms
  by (cases "denote (cd_left c) a s"; cases "denote (cd_right c) a s")
    (auto simp: evaluate_constraint_def eval_int_expr comparison_state_def compare_ints)

section \<open>Changes and variants\<close>

text \<open>
  No parameter of scientific meaning, and none of unknown meaning, changes without an
  explicit approval of that change; a performance parameter changes without one only when its
  scientific equivalence is declared and the contract is trusted.
\<close>

theorem change_requires_approval:
  assumes "automatic_change_allowed p user_declaration approval trusted = Inr True"
  shows "approval \<or>
    pd_classification p = ''execution_only'' \<and> (user_declaration \<or> trusted) \<or>
    pd_classification p = ''performance_tunable'' \<and> pd_equivalence p \<and> trusted \<and>
      jget (pd_evidence p) ''kind'' \<in> {JStr ''provider_contract'', JStr ''machine_contract'',
        JStr ''user_declared''}"
  using assms by (auto simp: automatic_change_allowed_def contract_evidence_def Let_def split: if_splits)



section \<open>A concrete provider\<close>

definition sample_param :: "string \<Rightarrow> string \<Rightarrow> param" where
  "sample_param name classification =
     \<lparr>pd_name = name, pd_classification = classification,
      pd_evidence = [(''kind'', JStr ''user_declared'')], pd_allowed = [JInt 1, JInt 2],
      pd_minimum = JNull, pd_maximum = JNull, pd_default = JNull,
      pd_binding = Some \<lparr>bd_input = ''in/run.json'', bd_path = [Key name]\<rparr>,
      pd_equivalence = True\<rparr>"

definition sample_constraint :: constraint where
  "sample_constraint = \<lparr>cd_id = ''c'', cd_operator = ''equal'', cd_left = Parameter ''ranks'',
     cd_right = Multiply [Resource ''nodes'', Constant (JInt 2)], cd_hard = True,
     cd_message = ''m''\<rparr>"

definition sample_provider :: provider where
  "sample_provider = \<lparr>pv_name = ''p'', pv_version = ''1'',
     pv_parameters = [sample_param ''ranks'' ''performance_tunable'', sample_param ''dt'' ''scientific_semantics''],
     pv_constraints = [sample_constraint], pv_environments = [], pv_launchers = [],
     pv_digest = None\<rparr>"

theorem assignments_cover_combinations_witness:
  "assigns sample_provider [(''ranks'', JInt 1), (''dt'', JInt 2)]"
proof -
  have "parameter_assignments sample_provider 3 =
      Inr (map (zip [''ranks'', ''dt'']) [[JInt 1, JInt 1], [JInt 1, JInt 2], [JInt 2, JInt 1]], 4)"
    by (simp add: parameter_assignments_def sample_provider_def sample_param_def candidate_values_def
        Let_def)
  from assignments_cover_combinations [OF this] show ?thesis by simp
qed

theorem constraint_evaluation_is_arithmetic_witness:
  "\<forall>po. mapR ev_state (evaluate_constraint po [(''ranks'', JInt 8)] (empty_shape\<lparr>s_nodes := Some 4\<rparr>)
     sample_constraint) = Inr ''satisfied''"
proof
  fix po
  let ?s = "empty_shape\<lparr>s_nodes := Some 4\<rparr>" and ?a = "[(''ranks'', JInt 8)]"
  have d: "denote (cd_left sample_constraint) ?a ?s = Some 8"
    "denote (cd_right sample_constraint) ?a ?s = Some 8"
    by (simp_all add: sample_constraint_def jget_def as_known_def shape_fields_def)
  have "int_expr (cd_left sample_constraint)" "int_expr (cd_right sample_constraint)"
    "int_params ?a" "cd_operator sample_constraint \<in> set predicates"
    "relation (cd_operator sample_constraint) 8 8"
    by (simp_all add: sample_constraint_def int_params_def predicates_def relation_def)
  then show "mapR ev_state (evaluate_constraint po ?a ?s sample_constraint) = Inr ''satisfied''"
    using constraint_evaluation_is_arithmetic [of sample_constraint ?a po ?s] d by simp
qed

theorem change_requires_approval_witness:
  "automatic_change_allowed (sample_param ''dt'' ''scientific_semantics'') True True True = Inr True \<and>
   (True \<or> pd_classification (sample_param ''dt'' ''scientific_semantics'') = ''execution_only'')"
  using change_requires_approval [of "sample_param ''dt'' ''scientific_semantics''" True True True]
  by (simp add: automatic_change_allowed_def)

definition sample_changed :: "change list" where
  "sample_changed = [\<lparr>ch_parameter = ''dt'', ch_path = [Key ''dt''], ch_before = JInt 1, ch_after = JInt 2\<rparr>,
     \<lparr>ch_parameter = ''ranks'', ch_path = [Key ''ranks''], ch_before = JInt 7, ch_after = JInt 8\<rparr>]"

lemma sample_materialized:
  "materialize_json_variant sample_provider ''run.json'' [(''dt'', True)] [] True
     (JObj [(''dt'', JInt 1), (''ranks'', JInt 7), (''x'', JNull)])
     [(''ranks'', JInt 8), (''dt'', JInt 2)]
   = Inr (JObj [(''dt'', JInt 2), (''ranks'', JInt 8), (''x'', JNull)], sample_changed)"
proof -
  have n: "input_name \<lparr>bd_input = ''in/run.json'', bd_path = q\<rparr> = ''run.json''" for q
    by (simp add: input_name_def path_name_def path_of_def)
  have "sort_str [''ranks'', ''dt''] = [''dt'', ''ranks'']"
    by (simp add: sort_str_def code_point_def)
  moreover have "parameter sample_provider ''dt'' = Inr (sample_param ''dt'' ''scientific_semantics'')"
    "parameter sample_provider ''ranks'' = Inr (sample_param ''ranks'' ''performance_tunable'')"
    by (simp_all add: parameter_def sample_provider_def sample_param_def)
  ultimately show ?thesis
    by (simp add: materialize_json_variant_def apply_change_def sample_param_def n flag_def
        automatic_change_allowed_def contract_evidence_def jget_def child_def set_child_def
        sample_changed_def Let_def)
qed



end
