(* ===== verification/SiteModels.thy ===== *)
theory SiteModels
  imports PlanningModels Paths
begin

text \<open>
  Sites and policy claims (\<open>site_models.py\<close>): the access context of a site, and a policy
  assertion with its provenance, scope and interpretation.
\<close>

section \<open>Sites\<close>

definition SITE_NAME :: "string \<Rightarrow> bool" where
  "SITE_NAME s =
     (case s of [] \<Rightarrow> False
      | c # cs \<Rightarrow> is_alnum c \<and> length cs \<le> 63 \<and>
          list_all (\<lambda>x. is_alnum x \<or> x \<in> set ''_.-'') cs)"

record site =
  st_id :: string
  st_name :: string
  st_kind :: string
  st_created_at :: string
  st_ssh_host :: "string option"
  st_ssh_username :: "string option"
  st_ssh_port :: "int option"
  st_scheduler_hint :: "string option"
  st_local_root :: "string option"
  st_remote_root :: "string option"
  st_worker_path :: "string option"

definition ssh_field_ok :: "string option \<Rightarrow> bool" where
  "ssh_field_ok v = (case v of None \<Rightarrow> True | Some s \<Rightarrow> s \<noteq> [] \<and> \<not> unsafe_in control_chars s)"

definition Site :: "site \<Rightarrow> site pyres" where
  "Site s =
     (if st_id s = [] \<or> \<not> SITE_NAME (st_name s)
      then value_error ''site ID and a safe site name are required''
      else if st_kind s \<notin> {''local'', ''remote_ssh''}
      then value_error (''unsupported site kind: '' @ st_kind s)
      else if st_scheduler_hint s \<notin> {None, Some ''slurm'', Some ''pbs'', Some ''lsf'',
                Some ''none'', Some ''auto''}
      then value_error ''scheduler hint must be slurm, pbs, lsf, none, or auto''
      else if (case st_ssh_port s of None \<Rightarrow> False | Some p \<Rightarrow> p < 1 \<or> p > 65535)
      then value_error ''SSH port must be between 1 and 65535''
      else if st_kind s = ''remote_ssh'' \<and> st_ssh_host s \<in> {None, Some []}
      then value_error ''remote SSH sites require an SSH host or alias''
      else if st_kind s = ''local'' \<and>
              (st_ssh_host s \<noteq> None \<or> st_ssh_username s \<noteq> None \<or> st_ssh_port s \<noteq> None)
      then value_error ''local sites cannot contain SSH connection fields''
      else if st_kind s = ''local'' \<and> (st_remote_root s \<noteq> None \<or> st_worker_path s \<noteq> None)
      then value_error ''local sites cannot contain remote worker fields''
      else if \<not> ssh_field_ok (st_ssh_host s) then value_error ''SSH host is invalid''
      else if \<not> ssh_field_ok (st_ssh_username s) then value_error ''SSH username is invalid''
      else if \<not> ssh_field_ok (st_worker_path s) then value_error ''remote worker path is invalid''
      else if st_kind s = ''remote_ssh'' \<and>
              (case st_remote_root s of None \<Rightarrow> False
               | Some r \<Rightarrow> \<not> starts_with ''/'' r \<or> ''..'' \<in> set (p_parts (path_of r)))
      then value_error ''remote project root must be an absolute POSIX path''
      else Inr s)"

definition ssh_destination :: "site \<Rightarrow> string pyres" where
  "ssh_destination s =
     (case (st_kind s = ''remote_ssh'', st_ssh_host s) of
        (True, Some host) \<Rightarrow>
          Inr (case st_ssh_username s of None \<Rightarrow> host | Some user \<Rightarrow> user @ ''@'' @ host)
      | _ \<Rightarrow> value_error ''local sites do not have an SSH destination'')"

section \<open>Policy claims\<close>

definition policy_scopes :: "string list" where
  "policy_scopes =
     [''global'', ''scheduler_class'', ''queue'', ''partition'', ''node_class'', ''account'']"

record applicability =
  ap_scope :: string
  ap_value :: "string option"

definition PolicyApplicability :: "applicability \<Rightarrow> applicability pyres" where
  "PolicyApplicability a =
     (if ap_scope a \<notin> set policy_scopes
      then value_error (''unsupported policy applicability scope: '' @ ap_scope a)
      else if ap_scope a = ''global'' \<and> ap_value a \<noteq> None
      then value_error ''global policy applicability cannot have a value''
      else if ap_scope a \<noteq> ''global'' \<and>
              (case ap_value a of None \<Rightarrow> True | Some v \<Rightarrow> v = [] \<or> length v > 256)
      then value_error ''scoped policy applicability requires a bounded value''
      else if (case ap_value a of None \<Rightarrow> False | Some v \<Rightarrow> unsafe_in control_chars v)
      then value_error ''policy applicability value is invalid''
      else Inr a)"

record claim =
  cl_id :: string
  cl_site_id :: string
  cl_subject :: string
  cl_property :: string
  cl_value :: json
  cl_evidence_kind :: string
  cl_interpretation :: string
  cl_source_identity :: string
  cl_created_at :: string
  cl_source_identifier :: "string option"
  cl_source_url :: "string option"
  cl_retrieved_at :: "string option"
  cl_document_date :: "string option"
  cl_content_digest :: "string option"
  cl_applicability :: applicability

definition is_hard :: "claim \<Rightarrow> bool" where
  "is_hard c \<longleftrightarrow> cl_interpretation c = ''hard_constraint''"

definition evidence_kinds :: "string list" where
  "evidence_kinds =
     [''observed_now'', ''site_declared'', ''user_declared'', ''historical'', ''inferred'', ''unknown'']"

fun validate_policy_value :: "nat \<Rightarrow> json \<Rightarrow> unit pyres" where
  "validate_policy_value depth value =
     (if depth > 8 then value_error ''policy value exceeds the structured-data depth limit''
      else (case value of
          JArr xs \<Rightarrow>
            if length xs > 256
            then value_error ''policy value exceeds the structured-data item limit''
            else checkAll (validate_policy_value (depth + 1)) xs
        | JObj d \<Rightarrow>
            if length d > 256 \<or> list_ex (\<lambda>(k, _). length k > 256) d
            then value_error ''policy value has invalid or excessive structured keys''
            else checkAll (\<lambda>(_, v). validate_policy_value (depth + 1) v) d
        | _ \<Rightarrow> Inr ()))"

declare validate_policy_value.simps [simp del]

definition bounded_text :: "string option \<Rightarrow> string \<Rightarrow> nat \<Rightarrow> unit pyres" where
  "bounded_text v label maximum =
     (case v of
        None \<Rightarrow> Inr ()
      | Some s \<Rightarrow> raise_if (length s > maximum \<or> unsafe_in control_chars s)
          (PyValueError (label @ '' is invalid or too long'')))"

text \<open>
  \<open>SitePolicyClaim.__post_init__\<close>; the last check is of the value's encoded size, with
  non-finite numbers refused by \<open>json.dumps\<close>: \<open>encode\<close> stands for it and gives the number of bytes.
\<close>

definition SitePolicyClaim :: "(json \<Rightarrow> nat option) \<Rightarrow> claim \<Rightarrow> claim pyres" where
  "SitePolicyClaim encode c =
     (if [] \<in> {cl_id c, cl_site_id c, cl_subject c, cl_property c, cl_source_identity c,
               cl_created_at c}
      then value_error ''policy identity, subject, property, and source are required''
      else if cl_evidence_kind c \<notin> set evidence_kinds
      then value_error (''unsupported policy evidence kind: '' @ cl_evidence_kind c)
      else if cl_interpretation c \<notin> {''hard_constraint'', ''advisory'', ''unresolved''}
      then value_error (''unsupported policy interpretation: '' @ cl_interpretation c)
      else if cl_interpretation c = ''hard_constraint''
              \<and> cl_evidence_kind c \<notin> {''site_declared'', ''user_declared''}
      then value_error ''only site- or user-declared policy can be a hard constraint''
      else if (case cl_content_digest c of None \<Rightarrow> False | Some d \<Rightarrow> \<not> SHA256_DIGEST d)
      then value_error ''content digest must use canonical sha256:<hex> form''
      else
        bindR (checkAll (\<lambda>(v, label, maximum). bounded_text v label maximum)
          [(Some (cl_id c), ''policy ID'', 128), (Some (cl_site_id c), ''policy site ID'', 128),
           (Some (cl_subject c), ''policy subject'', 256),
           (Some (cl_property c), ''policy property'', 256),
           (Some (cl_source_identity c), ''policy source identity'', 512),
           (Some (cl_created_at c), ''policy creation time'', 128),
           (cl_source_identifier c, ''policy source identifier'', 2048),
           (cl_source_url c, ''policy source URL'', 2048),
           (cl_retrieved_at c, ''policy retrieval time'', 128),
           (cl_document_date c, ''policy document date'', 128)]) (\<lambda>_.
        bindR (validate_policy_value 0 (cl_value c)) (\<lambda>_.
        case encode (cl_value c) of
          None \<Rightarrow> value_error ''policy value must be structured JSON data''
        | Some n \<Rightarrow>
            if n > 16384
            then value_error ''policy value exceeds the 16 KiB structured-data limit''
            else Inr c)))"

text \<open>A hard constraint always comes from a declaration, never from an observation.\<close>

lemma hard_claim_declared:
  "SitePolicyClaim encode c = Inr c' \<Longrightarrow>
     c' = c \<and> (is_hard c \<longrightarrow> cl_evidence_kind c \<in> {''site_declared'', ''user_declared''})"
  by (auto simp: SitePolicyClaim_def is_hard_def bindR_Inr_iff split: if_splits option.splits)

end
