(* ===== verification/Inventory.thy ===== *)
theory Inventory
  imports WorkloadModels
begin

text \<open>
  The parts of an inventory snapshot (\<open>inventory_models.py\<close>) that planning and resolution read:
  targets, schedulers, execution contexts and capabilities. Identity, storage, discovery evidence
  and provider results are not read there and are left out.
\<close>

record target =
  t_id :: string
  t_role :: string
  t_name :: string
  t_locator :: "string option"
  t_visible :: "bool option"
  t_authorization :: string
  t_metadata :: "json dict"

record scheduler =
  sc_id :: string
  sc_family :: string
  sc_targets :: "string list"

record econtext =
  k_id :: string
  k_target_id :: "string option"
  k_key :: string
  k_kind :: string
  k_name :: string
  k_locator :: "string option"
  k_metadata :: "json dict"

record capability =
  cap_id :: string
  cap_context_id :: string
  cap_kind :: string
  cap_name :: string
  cap_observation :: string
  cap_classifications :: "string list"

record inventory =
  i_id :: string
  i_targets :: "target list"
  i_schedulers :: "scheduler list"
  i_contexts :: "econtext list"
  i_capabilities :: "capability list"

definition current_target :: "inventory \<Rightarrow> target option" where
  "current_target snapshot = find (\<lambda>t. t_role t = ''access_target'') (i_targets snapshot)"

definition execution_targets :: "inventory \<Rightarrow> target list" where
  "execution_targets snapshot = filter (\<lambda>t. t_role t \<noteq> ''access_target'') (i_targets snapshot)"

end
