(* ===== verification/SiteShapes.thy ===== *)
theory SiteShapes
  imports Constraints SiteModels Inventory
begin

text \<open>
  Resource shapes of a site (\<open>site_planning.py\<close>, first half): the quantities scheduler metadata
  states, the capacity of a target, the node counts a request can be laid out on, and the
  bounded shapes generated for a target.

  Texts of digits are read with at most 4300 digits, the interpreter's limit. \<open>total / per_node\<close>
  is exact here; the code divides floating point numbers, which is the same below \<open>2 ^ 53\<close>.
\<close>

section \<open>Quantities in scheduler metadata\<close>

definition positive_int :: "json \<Rightarrow> int option" where
  "positive_int v =
     (case v of
        JInt i \<Rightarrow> if i > 0 then Some i else None
      | JStr s \<Rightarrow>
          if all_digits s \<and> parse_nat s > 0 then Some (int (parse_nat s)) else None
      | _ \<Rightarrow> None)"

text \<open>
  \<open>(?::[^,:]+)*:(\d+)\<close> after \<open>gpu\<close>: the greedy match with backtracking takes the last count it
  can. \<open>seg\<close> says which characters a segment may hold. The result is the digits and the rest.
\<close>

function gpu_tail :: "(char \<Rightarrow> bool) \<Rightarrow> string \<Rightarrow> (string \<times> string) option" where
  "gpu_tail seg [] = None"
| "gpu_tail seg (c # cs) =
     (if c \<noteq> CHR '':'' then None
      else
        (case (if takeWhile seg cs = [] then None else gpu_tail seg (dropWhile seg cs)) of
           Some r \<Rightarrow> Some r
         | None \<Rightarrow>
             if takeWhile is_digit cs = [] then None
             else Some (takeWhile is_digit cs, dropWhile is_digit cs)))"
  by pat_completeness auto
termination
  by (relation "measure (\<lambda>(_, s). length s)")
    (auto simp: le_imp_less_Suc length_dropWhile_le)

lemma gpu_tail_shorter: "gpu_tail seg s = Some (d, r) \<Longrightarrow> length r < length s"
proof (induction seg s rule: gpu_tail.induct)
  case (1 seg)
  then show ?case by simp
next
  case (2 seg c cs)
  have len: "length (dropWhile p cs) < Suc (length cs)" for p
    by (simp add: le_imp_less_Suc length_dropWhile_le)
  from 2 len [of seg] len [of is_digit] show ?case
    by (auto split: if_splits option.splits dest: less_trans)
qed

text \<open>\<open>re.findall(r"(?:^|,)gpu...")\<close> from one position on.\<close>

definition gpu_match :: "(char \<Rightarrow> bool) \<Rightarrow> bool \<Rightarrow> string \<Rightarrow> (string \<times> string) option" where
  "gpu_match seg line_start s =
     (if line_start \<and> starts_with ''gpu'' s then gpu_tail seg (drop 3 s)
      else if starts_with '',gpu'' s then gpu_tail seg (drop 4 s)
      else None)"

lemma gpu_match_shorter: "gpu_match seg b s = Some (d, r) \<Longrightarrow> length r < length s"
  by (auto simp: gpu_match_def split: if_splits dest!: gpu_tail_shorter)

function gpu_counts :: "(char \<Rightarrow> bool) \<Rightarrow> bool \<Rightarrow> string \<Rightarrow> int list" where
  "gpu_counts seg line_start s =
     (case gpu_match seg line_start s of
        Some (d, r) \<Rightarrow> int (parse_nat d) # gpu_counts seg False r
      | None \<Rightarrow> (case s of [] \<Rightarrow> [] | c # cs \<Rightarrow> gpu_counts seg False cs))"
  by pat_completeness auto
termination
  by (relation "measure (\<lambda>(_, _, s). length s)") (auto dest: gpu_match_shorter)

declare gpu_counts.simps [simp del]

definition gpu_count :: "json \<Rightarrow> int option" where
  "gpu_count v =
     (case v of
        JStr s \<Rightarrow>
          (let counts = gpu_counts (\<lambda>c. c \<noteq> CHR '','' \<and> c \<noteq> CHR '':'') True s in
           if counts = [] then None else Some (Max (set counts)))
      | _ \<Rightarrow> None)"

definition memory_bytes :: "json \<Rightarrow> int option" where
  "memory_bytes v =
     (case v of
        JInt i \<Rightarrow> if i > 0 then Some i else None
      | JStr s \<Rightarrow>
          (let r = dropWhile is_space s;
               digits = takeWhile is_digit r;
               r1 = dropWhile is_space (dropWhile is_digit r);
               u = (case r1 of c # _ \<Rightarrow> if lower_char c \<in> set ''kmgt'' then [lower_char c] else []
                    | [] \<Rightarrow> []);
               r2 = casefold (drop (length u) r1);
               r3 = (if starts_with ''ib'' r2 then drop 2 r2
                     else if starts_with ''b'' r2 then drop 1 r2 else r2)
           in if digits = [] \<or> dropWhile is_space r3 \<noteq> [] then None
              else Some (int (parse_nat digits) *
                1024 ^ (if u = ''k'' then 1 else if u = ''m'' then 2 else if u = ''g'' then 3
                        else if u = ''t'' then 4 else 0)))
      | _ \<Rightarrow> None)"

text \<open>\<open>(?:(\d+)-)?(\d+):(\d+)(?::(\d+))?\<close>\<close>

definition duration_seconds :: "json \<Rightarrow> int option" where
  "duration_seconds v =
     (case v of
        JInt i \<Rightarrow> if i > 0 then Some i else None
      | JStr s \<Rightarrow>
          if casefold s \<in> {''infinite'', ''unlimited'', ''--''} then None
          else
            (let r = py_strip s;
                 d = takeWhile is_digit r;
                 dated = (d \<noteq> [] \<and> starts_with ''-'' (dropWhile is_digit r));
                 days = (if dated then int (parse_nat d) else 0);
                 clock = split_on (CHR '':'') (if dated then drop (length d + 1) r else r)
             in if \<not> list_all all_digits clock then None
                else (case map (\<lambda>x. int (parse_nat x)) clock of
                    [minutes, seconds] \<Rightarrow> Some (days * 86400 + minutes * 60 + seconds)
                  | [hours, minutes, seconds] \<Rightarrow>
                      Some (days * 86400 + hours * 3600 + minutes * 60 + seconds)
                  | _ \<Rightarrow> None))
      | _ \<Rightarrow> None)"

definition bounded_metadata_string :: "json \<Rightarrow> string option" where
  "bounded_metadata_string v =
     (case v of JStr s \<Rightarrow> if 0 < length s \<and> length s \<le> 256 then Some s else None | _ \<Rightarrow> None)"

section \<open>The capacity of a target\<close>

type_synonym capacity = "(string \<times> int) list"

definition capacity_item :: "string \<Rightarrow> int option \<Rightarrow> capacity" where
  "capacity_item name v = (case v of None \<Rightarrow> [] | Some i \<Rightarrow> [(name, i)])"

definition target_capacity :: "json dict \<Rightarrow> string \<Rightarrow> capacity" where
  "target_capacity metadata family =
     (if family = ''slurm'' then
        capacity_item ''cpus_per_node'' (positive_int (jget metadata ''cpus_per_node''))
        @ capacity_item ''memory_per_node_bytes''
            (map_option (\<lambda>m. m * 1024 * 1024) (positive_int (jget metadata ''memory_per_node'')))
        @ capacity_item ''gpus_per_node'' (gpu_count (jget metadata ''generic_resources''))
        @ capacity_item ''walltime_seconds'' (duration_seconds (jget metadata ''wall_time_limit''))
      else
        capacity_item ''total_cpus'' (positive_int (jget metadata ''resources_max.ncpus''))
        @ capacity_item ''memory_bytes'' (memory_bytes (jget metadata ''resources_max.mem''))
        @ capacity_item ''walltime_seconds''
            (duration_seconds (jget metadata ''resources_max.walltime'')))"

text \<open>\<open>getattr(shape, name)\<close> for the counted dimensions.\<close>

definition shape_dimension :: "shape \<Rightarrow> string \<Rightarrow> int option" where
  "shape_dimension s name =
     (case dict_get (shape_fields s) name of Some (JInt i) \<Rightarrow> Some i | _ \<Rightarrow> None)"

definition within_observed_capacity :: "shape \<Rightarrow> capacity \<Rightarrow> bool" where
  "within_observed_capacity s capacity =
     list_all (\<lambda>(name, maximum).
       case shape_dimension s name of None \<Rightarrow> True | Some v \<Rightarrow> v \<le> maximum) capacity"

section \<open>Policy and authorization\<close>

text \<open>A shape made from a document may have a placement that is no object: it has no \<open>get\<close>.\<close>

definition policy_applies :: "claim \<Rightarrow> shape \<Rightarrow> bool pyres" where
  "policy_applies c s =
     (let scope = ap_scope (cl_applicability c);
          v = opt_json JStr (ap_value (cl_applicability c)) in
      if scope = ''global'' then Inr True
      else if scope \<in> {''scheduler_class'', ''queue'', ''partition''}
      then Inr (py_eq (s_scheduler_class s) v)
      else if scope = ''node_class'' then Inr (py_eq (s_node_class s) v)
      else if scope = ''account'' then
        (case s_placement s of JObj d \<Rightarrow> Inr (py_eq (jget d ''account'') v)
         | _ \<Rightarrow> Inl PyAttributeError)
      else Inr False)"

definition target_placement :: "target \<Rightarrow> string \<Rightarrow> json" where
  "target_placement t family =
     JObj ([(''target_id'', JStr (t_id t)), (''scheduler'', JStr family)]
       @ (case bounded_metadata_string (jget (t_metadata t) ''account'') of
            None \<Rightarrow> [] | Some a \<Rightarrow> [(''account'', JStr a)]))"

text \<open>Here the shape is made for the question and its placement is an object.\<close>

text \<open>\<open>isinstance(v, (int, float)) and not isinstance(v, bool) and math.isfinite(v)\<close>\<close>

definition finite_number :: "json \<Rightarrow> rat option" where
  "finite_number v =
     (case v of JInt i \<Rightarrow> Some (of_int i) | JFloat (Finite q) \<Rightarrow> Some q | _ \<Rightarrow> None)"

definition applicable_hard_max_nodes :: "target \<Rightarrow> string \<Rightarrow> claim list \<Rightarrow> int option" where
  "applicable_hard_max_nodes t family claims =
     (let target_shape = empty_shape\<lparr>s_scheduler_class := JStr (t_name t),
            s_node_class := opt_json JStr
              (bounded_metadata_string (jget (t_metadata t) ''node_class'')),
            s_placement := target_placement t family\<rparr>;
          applicable = map cl_value (filter (\<lambda>c. is_hard c \<and> cl_property c = ''max_nodes''
            \<and> policy_applies c target_shape = Inr True) claims);
          numbers = map finite_number applicable
      in if applicable = [] \<or> None \<in> set numbers then None
         else (let normalized = dedup (map (\<lambda>v. floor (the v)) numbers)
               in if length normalized \<noteq> 1 then None else Some (hd normalized)))"

definition authorization_claim_value :: "json \<Rightarrow> string option" where
  "authorization_claim_value v =
     (if v = JBool True \<or> v \<in> {JStr ''authorized'', JStr ''user-declared-authorized''}
      then Some ''user-declared-authorized''
      else if v = JBool False
              \<or> v \<in> {JStr ''denied'', JStr ''unauthorized'', JStr ''observed-unauthorized''}
      then Some ''unauthorized''
      else None)"

definition surface_evidence :: "target \<Rightarrow> json" where
  "surface_evidence t =
     JObj [(''kind'', JStr ''observed_now''), (''scope'', JStr ''remote_login_scheduler_surface''),
           (''target_id'', JStr (t_id t)), (''visibility'', opt_json JBool (t_visible t)),
           (''authorization'', JStr (t_authorization t))]"

definition claim_evidence :: "claim \<Rightarrow> string \<Rightarrow> json" where
  "claim_evidence c authorization =
     JObj [(''kind'', JStr (cl_evidence_kind c)), (''scope'', JStr ''authorization_claim''),
           (''claim_id'', JStr (cl_id c)), (''authorization'', JStr authorization)]"

definition claim_authorization :: "claim \<Rightarrow> shape \<Rightarrow> json list pyres" where
  "claim_authorization c s =
     (if cl_property c \<in> {''authorization'', ''authorized''}
         \<and> cl_evidence_kind c \<in> {''site_declared'', ''user_declared''}
      then bindR (policy_applies c s) (\<lambda>applies.
        Inr (case (applies, authorization_claim_value (cl_value c)) of
              (True, Some a) \<Rightarrow> [claim_evidence c a] | _ \<Rightarrow> []))
      else Inr [])"

definition authorization_evidence :: "claim list \<Rightarrow> shape \<Rightarrow> json list pyres" where
  "authorization_evidence claims s = mapR concat (mapM (\<lambda>c. claim_authorization c s) claims)"

definition shape_with_evidence :: "shape \<Rightarrow> json list \<Rightarrow> shape pyres" where
  "shape_with_evidence s evidence =
     shape_from_dict (shape_to_dict (s\<lparr>s_evidence := JArr evidence\<rparr>))"

definition shape_with_target_evidence :: "shape \<Rightarrow> target \<Rightarrow> claim list \<Rightarrow> shape pyres" where
  "shape_with_target_evidence s t claims =
     bindR (py_list (s_evidence s)) (\<lambda>old.
     let evidence = old @ [surface_evidence t] in
     bindR (shape_with_evidence s evidence) (\<lambda>provisional.
     bindR (authorization_evidence claims provisional) (\<lambda>declared.
     shape_with_evidence s (evidence @ declared))))"

section \<open>Node counts\<close>

text \<open>\<open>math.isqrt\<close>\<close>

fun isqrt :: "nat \<Rightarrow> nat" where
  "isqrt 0 = 0"
| "isqrt (Suc n) = (let m = isqrt n in if (m + 1) * (m + 1) \<le> Suc n then m + 1 else m)"

definition positive_divisors :: "nat \<Rightarrow> nat list" where
  "positive_divisors value =
     (let lower = filter (\<lambda>c. value mod c = 0) [1..<isqrt value + 1];
          upper = map (\<lambda>c. value div c) (filter (\<lambda>c. value div c \<noteq> c) lower)
      in lower @ rev upper)"

definition provider_layout_nodes ::
  "int option \<Rightarrow> int option \<Rightarrow> int list option \<Rightarrow> int list option \<Rightarrow> int list option \<Rightarrow>
   int list option" where
  "provider_layout_nodes total_cpus mpi_ranks hinted_nodes cpus_per_node ranks_per_node =
     (let hints = (\<lambda>h. case h of None \<Rightarrow> [] | Some xs \<Rightarrow> xs);
          exact = (\<lambda>whole per. case whole of None \<Rightarrow> []
            | Some n \<Rightarrow> map (\<lambda>p. n div p) (filter (\<lambda>p. p > 0 \<and> n mod p = 0) (hints per)));
          values = hints hinted_nodes @ exact total_cpus cpus_per_node
                   @ exact mpi_ranks ranks_per_node;
          positive = sorted_list_of_set (set (filter (\<lambda>v. v > 0) values))
      in if positive = [] then None else Some positive)"

definition ceil_div :: "int \<Rightarrow> int \<Rightarrow> int pyres" where
  "ceil_div a b = (if b = 0 then Inl PyZeroDivisionError else Inr (- ((- a) div b)))"

definition node_bound :: "int option \<times> int option \<Rightarrow> int list pyres" where
  "node_bound p =
     (case p of (Some whole, Some per) \<Rightarrow> mapR (\<lambda>n. [n]) (ceil_div whole per) | _ \<Rightarrow> Inr [])"

text \<open>\<open>a % b == 0\<close> where an absent number divides or is divided trivially.\<close>

definition divides_opt :: "int option \<Rightarrow> int option \<Rightarrow> bool" where
  "divides_opt b a = (case (a, b) of (Some x, Some y) \<Rightarrow> x mod y = 0 | _ \<Rightarrow> True)"

definition below_max :: "int option \<Rightarrow> int \<Rightarrow> bool" where
  "below_max hard_max_nodes n = (case hard_max_nodes of None \<Rightarrow> True | Some m \<Rightarrow> n \<le> m)"

definition aggregate_values :: "int option list \<Rightarrow> int list" where
  "aggregate_values totals =
     filter (\<lambda>v. v > 0) (concat (map (\<lambda>v. case v of None \<Rightarrow> [] | Some i \<Rightarrow> [i]) totals))"

text \<open>The node counts once the lower bounds are known: divisors common to all totals.\<close>

definition layout_counts ::
  "int list \<Rightarrow> int list \<Rightarrow> int option \<Rightarrow> int option \<Rightarrow> nat \<Rightarrow> bool \<Rightarrow> int option list" where
  "layout_counts lower_bounds aggregate memory hard_max_nodes limit preserve_unknown =
     (if lower_bounds = [] \<or> aggregate = [] then (if preserve_unknown then [None] else [Some 1])
      else
        let minimum = Max (insert 1 (set lower_bounds));
            divisor = nat (Gcd (set aggregate))
        in take limit (map Some (filter
             (\<lambda>n. n \<ge> minimum \<and> below_max hard_max_nodes n \<and> divides_opt (Some n) memory)
             (map int (positive_divisors divisor)))))"

definition derived_node_values ::
  "int option \<Rightarrow> int list option \<Rightarrow> int option \<Rightarrow> int option \<Rightarrow> int option \<Rightarrow> int option \<Rightarrow>
   capacity \<Rightarrow> int option \<Rightarrow> nat \<Rightarrow> bool \<Rightarrow> int option list pyres" where
  "derived_node_values requested_nodes hinted_nodes total_cpus mpi_ranks gpus memory capacity
     hard_max_nodes limit preserve_unknown =
     (if \<not> below_max hard_max_nodes 1 then Inr []
      else if requested_nodes \<noteq> None then Inr [requested_nodes]
      else if hinted_nodes \<notin> {None, Some []} then
        Inr (take limit (map Some (filter (below_max hard_max_nodes)
          (sorted_list_of_set (set (the hinted_nodes))))))
      else
        bindR (mapM node_bound [(total_cpus, map_of capacity ''cpus_per_node''),
                 (gpus, map_of capacity ''gpus_per_node''),
                 (memory, map_of capacity ''memory_per_node_bytes'')]) (\<lambda>bounds.
        Inr (layout_counts (concat bounds) (aggregate_values [total_cpus, mpi_ranks, gpus])
               memory hard_max_nodes limit preserve_unknown)))"

section \<open>Shapes of a target\<close>

type_synonym hints = "(string \<times> int list) list"

definition optional_dimension_values :: "int option \<Rightarrow> int list option \<Rightarrow> int option list" where
  "optional_dimension_values requested hinted =
     (case requested of
        Some r \<Rightarrow> [Some r]
      | None \<Rightarrow> (case hinted of None \<Rightarrow> [None] | Some [] \<Rightarrow> [None] | Some xs \<Rightarrow> map Some xs))"

definition cpu_values :: "int option \<Rightarrow> int list option \<Rightarrow> int option \<Rightarrow> int option list" where
  "cpu_values requested_cpus hinted_cpus mpi_ranks =
     (case requested_cpus of
        Some c \<Rightarrow> [Some c]
      | None \<Rightarrow>
          (case hinted_cpus of
             Some (x # xs) \<Rightarrow> map Some (x # xs)
           | _ \<Rightarrow> [mpi_ranks]))"

definition div_opt :: "int option \<Rightarrow> int option \<Rightarrow> int option" where
  "div_opt a b = (case (a, b) of (Some x, Some y) \<Rightarrow> Some (x div y) | _ \<Rightarrow> None)"

definition layout_ok ::
  "int option \<Rightarrow> int option \<Rightarrow> int option \<Rightarrow> int option \<Rightarrow> int option \<Rightarrow> bool" where
  "layout_ok nodes total_cpus mpi_ranks gpus memory \<longleftrightarrow>
     divides_opt nodes total_cpus \<and> divides_opt nodes mpi_ranks \<and>
     divides_opt mpi_ranks total_cpus \<and> divides_opt nodes gpus \<and> divides_opt nodes memory"

definition layout_shape ::
  "target \<Rightarrow> string \<Rightarrow> resources \<Rightarrow> int option \<Rightarrow> int option \<Rightarrow> int option \<Rightarrow> shape" where
  "layout_shape t family requested nodes total_cpus mpi_ranks =
     \<lparr>s_nodes = nodes, s_cpus_per_node = div_opt total_cpus nodes, s_total_cpus = total_cpus,
      s_mpi_ranks = mpi_ranks, s_ranks_per_node = div_opt mpi_ranks nodes,
      s_threads_per_rank = div_opt total_cpus mpi_ranks, s_gpus = r_gpus requested,
      s_gpus_per_node = div_opt (r_gpus requested) nodes,
      s_memory_bytes = r_memory_bytes requested,
      s_memory_per_node_bytes = div_opt (r_memory_bytes requested) nodes,
      s_architecture = opt_json JStr (bounded_metadata_string (jget (t_metadata t) ''architecture'')),
      s_node_class = opt_json JStr (bounded_metadata_string (jget (t_metadata t) ''node_class'')),
      s_walltime_seconds = r_walltime_seconds requested, s_scheduler_class = JStr (t_name t),
      s_placement = target_placement t family, s_evidence = JArr []\<rparr>"

definition capacity_evidence ::
  "target \<Rightarrow> capacity \<Rightarrow> int option \<Rightarrow> int list option \<Rightarrow> hints \<Rightarrow> json" where
  "capacity_evidence t capacity nodes provider_nodes hints =
     JObj ([(''kind'', JStr ''observed_now''), (''scope'', JStr ''scheduler_target_capacity''),
            (''target_id'', JStr (t_id t)),
            (''capacity'', JObj (map (\<lambda>(k, v). (k, JInt v)) capacity)),
            (''topology'', JStr (if nodes = None then ''unknown'' else ''derived''))]
       @ (case (provider_nodes, nodes) of
            (Some ns, Some n) \<Rightarrow>
              if n \<in> set ns
              then [(''provider_layout_hints'', JObj (concat (map (\<lambda>key.
                      case map_of hints key of None \<Rightarrow> []
                      | Some vs \<Rightarrow> [(key, JArr (map JInt vs))])
                    [''nodes'', ''cpus_per_node'', ''ranks_per_node''])))]
              else []
          | _ \<Rightarrow> []))"

text \<open>
  One turn of the innermost loop: a shape for these totals on these nodes, or nothing when the
  layout does not divide evenly or exceeds the observed capacity.
\<close>

definition shape_for ::
  "target \<Rightarrow> string \<Rightarrow> resources \<Rightarrow> hints \<Rightarrow> claim list \<Rightarrow> capacity \<Rightarrow> int list option \<Rightarrow>
   int option \<Rightarrow> int option \<Rightarrow> int option \<Rightarrow> shape option pyres" where
  "shape_for t family requested hints claims capacity provider_nodes mpi_ranks provisional_cpus nodes =
     (let total_cpus = (if provisional_cpus \<noteq> None \<or> nodes = None then provisional_cpus else nodes) in
      if \<not> layout_ok nodes total_cpus mpi_ranks (r_gpus requested) (r_memory_bytes requested)
      then Inr None
      else
        bindR (ResourceShape (layout_shape t family requested nodes total_cpus mpi_ranks)) (\<lambda>s.
        if \<not> within_observed_capacity s capacity then Inr None
        else
          bindR (shape_with_evidence s
                   [capacity_evidence t capacity nodes provider_nodes hints]) (\<lambda>s'.
          mapR Some (shape_with_target_evidence s' t claims))))"

text \<open>Run the turns until enough shapes were generated.\<close>

fun first_shapes :: "nat \<Rightarrow> ('a \<Rightarrow> shape option pyres) \<Rightarrow> 'a list \<Rightarrow> shape list pyres" where
  "first_shapes limit f [] = Inr []"
| "first_shapes limit f (x # xs) =
     (if limit = 0 then Inr []
      else
        bindR (f x) (\<lambda>r.
        case r of
          None \<Rightarrow> first_shapes limit f xs
        | Some s \<Rightarrow> bindR (first_shapes (limit - 1) f xs) (\<lambda>ss. Inr (s # ss))))"

definition hinted_layouts ::
  "resources \<Rightarrow> hints \<Rightarrow> int option \<Rightarrow> int option \<Rightarrow> int list option" where
  "hinted_layouts requested hints mpi_ranks provisional_cpus =
     provider_layout_nodes provisional_cpus mpi_ranks (map_of hints ''nodes'')
       (map_of hints ''cpus_per_node'') (map_of hints ''ranks_per_node'')"

definition node_turns ::
  "string \<Rightarrow> resources \<Rightarrow> hints \<Rightarrow> capacity \<Rightarrow> int option \<Rightarrow> nat \<Rightarrow> int option \<times> int option \<Rightarrow>
   (int option \<times> int option \<times> int option) list pyres" where
  "node_turns family requested hints capacity max_nodes limit turn =
     (case turn of (mpi_ranks, provisional_cpus) \<Rightarrow>
        mapR (map (\<lambda>nodes. (mpi_ranks, provisional_cpus, nodes)))
          (derived_node_values (r_nodes requested)
             (hinted_layouts requested hints mpi_ranks provisional_cpus)
             provisional_cpus mpi_ranks (r_gpus requested) (r_memory_bytes requested) capacity
             max_nodes limit (family = ''lsf'')))"

text \<open>
  The three nested loops in the order the code runs them; node counts for a pair are derived
  when its turn comes, so a failure there is raised only if the limit was not reached before.
\<close>

fun generate_turns ::
  "nat \<Rightarrow> (int option \<times> int option \<Rightarrow> (int option \<times> int option \<times> int option) list pyres) \<Rightarrow>
   (int option \<times> int option \<times> int option \<Rightarrow> shape option pyres) \<Rightarrow>
   (int option \<times> int option) list \<Rightarrow> shape list pyres" where
  "generate_turns limit nodes_of f [] = Inr []"
| "generate_turns limit nodes_of f (turn # turns) =
     (if limit = 0 then Inr []
      else
        bindR (nodes_of turn) (\<lambda>ns.
        bindR (first_shapes limit f ns) (\<lambda>ss.
        bindR (generate_turns (limit - length ss) nodes_of f turns) (\<lambda>rest. Inr (ss @ rest)))))"

definition generated_target_shapes ::
  "target \<Rightarrow> string \<Rightarrow> resources \<Rightarrow> hints \<Rightarrow> claim list \<Rightarrow> nat \<Rightarrow> shape list pyres" where
  "generated_target_shapes t family requested hints claims limit =
     (let capacity = target_capacity (t_metadata t) family;
          max_nodes = applicable_hard_max_nodes t family claims;
          turns = concat (map (\<lambda>mpi_ranks. map (\<lambda>c. (mpi_ranks, c))
                    (cpu_values (r_cpus requested) (map_of hints ''total_cpus'') mpi_ranks))
                  (optional_dimension_values (r_mpi_ranks requested) (map_of hints ''mpi_ranks'')))
      in generate_turns limit (node_turns family requested hints capacity max_nodes limit)
           (\<lambda>(mpi_ranks, cpus, nodes). shape_for t family requested hints claims capacity
              (hinted_layouts requested hints mpi_ranks cpus) mpi_ranks cpus nodes)
           turns)"

end
