(* ===== verification/SiteShapeProperties.thy ===== *)
theory SiteShapeProperties
  imports SiteShapes
begin

text \<open>
  The properties of shape generation: the divisors tried are exactly the divisors, derived node
  counts lay the request out evenly within the observed capacity, generated shapes satisfy the
  arithmetic of a shape and carry only declared authorization, and when generation fails.
\<close>

section \<open>Divisors\<close>

lemma isqrt_spec: "isqrt n * isqrt n \<le> n \<and> n < (isqrt n + 1) * (isqrt n + 1)"
  by (induction n) (auto simp: Let_def)

lemma le_isqrt_iff: "m \<le> isqrt n \<longleftrightarrow> m * m \<le> n"
proof
  assume "m \<le> isqrt n"
  then have "m * m \<le> isqrt n * isqrt n" by (simp add: mult_le_mono)
  then show "m * m \<le> n" using isqrt_spec [of n] by linarith
next
  assume m: "m * m \<le> n"
  show "m \<le> isqrt n"
  proof (rule ccontr)
    assume "\<not> m \<le> isqrt n"
    then have "(isqrt n + 1) * (isqrt n + 1) \<le> m * m" by (intro mult_le_mono) auto
    then show False using m isqrt_spec [of n] by linarith
  qed
qed

lemma small_divisor: "0 < v \<Longrightarrow> d dvd v \<Longrightarrow> d \<le> isqrt v \<or> v div d \<le> isqrt v" for v d :: nat
proof (rule ccontr)
  assume v: "0 < v" and d: "d dvd v" and "\<not> (d \<le> isqrt v \<or> v div d \<le> isqrt v)"
  then have "isqrt v + 1 \<le> d" "isqrt v + 1 \<le> v div d" by auto
  then have "(isqrt v + 1) * (isqrt v + 1) \<le> d * (v div d)" by (rule mult_le_mono)
  then show False using isqrt_spec [of v] d by simp
qed

definition lower_divisors :: "nat \<Rightarrow> nat list" where
  "lower_divisors v = filter (\<lambda>c. v mod c = 0) [1..<isqrt v + 1]"

lemma set_lower: "set (lower_divisors v) = {c. 1 \<le> c \<and> c \<le> isqrt v \<and> c dvd v}"
  by (auto simp: lower_divisors_def dvd_eq_mod_eq_0)

lemma positive_divisors_alt:
  "positive_divisors v = lower_divisors v @
     rev (map (\<lambda>c. v div c) (filter (\<lambda>c. v div c \<noteq> c) (lower_divisors v)))"
  by (simp add: positive_divisors_def lower_divisors_def Let_def)

lemma set_positive_divisors: "0 < v \<Longrightarrow> set (positive_divisors v) = {d. d dvd v}"
proof (intro equalityI subsetI)
  fix d assume v: "0 < v" and "d \<in> set (positive_divisors v)"
  then show "d \<in> {d. d dvd v}"
    by (auto simp: positive_divisors_alt set_lower div_dvd_iff_mult dvd_div_eq_mult intro: dvd_trans)
next
  fix d assume v: "0 < v" and "d \<in> {d. d dvd v}"
  then have d: "d dvd v" "0 < d" by (auto intro: dvd_pos_nat)
  show "d \<in> set (positive_divisors v)"
  proof (cases "d \<le> isqrt v")
    case True
    then show ?thesis using d by (simp add: positive_divisors_alt set_lower)
  next
    case False
    let ?e = "v div d"
    have e: "?e \<le> isqrt v" "?e dvd v" "v div ?e = d" "1 \<le> ?e" "d \<noteq> ?e"
      using small_divisor [OF v d(1)] False d v
      by (auto simp: div_div_eq_right dvd_div_eq_mult div_dvd_iff_mult dvd_imp_le Suc_le_eq
          div_greater_zero_iff)
    then have "d \<in> (\<lambda>c. v div c) ` {c \<in> set (lower_divisors v). v div c \<noteq> c}"
      by (intro image_eqI [of _ _ ?e]) (auto simp: set_lower)
    then show ?thesis by (auto simp: positive_divisors_alt)
  qed
qed

lemma div_strict_antimono:
  "a < b \<Longrightarrow> 0 < a \<Longrightarrow> a dvd v \<Longrightarrow> b dvd v \<Longrightarrow> 0 < v \<Longrightarrow> v div b < v div a" for v a b :: nat
proof (rule ccontr)
  assume h: "a < b" "0 < a" "a dvd v" "b dvd v" "0 < v" and "\<not> v div b < v div a"
  then have "a * (v div a) \<le> a * (v div b)" by (intro mult_le_mono2) simp
  moreover have "0 < v div b" using h by (auto elim: dvdE)
  then have "a * (v div b) < b * (v div b)" using h(1) by simp
  moreover have "a * (v div a) = v" "b * (v div b) = v" using h by simp_all
  ultimately show False by linarith
qed

lemma sorted_positive_divisors:
  assumes "0 < v"
  shows "sorted_wrt (<) (positive_divisors v)"
proof -
  have low: "sorted_wrt (<) (lower_divisors v)"
    unfolding lower_divisors_def by (intro sorted_wrt_filter) (rule sorted_wrt_upt)
  let ?f = "filter (\<lambda>c. v div c \<noteq> c) (lower_divisors v)"
  have fs: "sorted_wrt (<) ?f" using low by (rule sorted_wrt_filter)
  have "sorted_wrt (\<lambda>a b. v div b < v div a) ?f"
    by (rule sorted_wrt_mono_rel [OF _ fs])
      (use assms in \<open>auto simp: set_lower intro!: div_strict_antimono\<close>)
  then have up: "sorted_wrt (<) (rev (map (\<lambda>c. v div c) ?f))"
    by (simp add: sorted_wrt_rev sorted_wrt_map)
  have "x < v div c" if "x \<in> set (lower_divisors v)" "c \<in> set ?f" for x c
  proof -
    have c: "c dvd v" "1 \<le> c" "c \<le> isqrt v" "v div c \<noteq> c" and x: "x \<le> isqrt v"
      using that by (auto simp: set_lower)
    have "c * c \<le> v" using c(3) le_isqrt_iff by blast
    then have "c \<le> v div c" using c by (simp add: less_eq_div_iff_mult_less_eq)
    then have lt: "c < v div c" using c(4) by simp
    show ?thesis
    proof (rule ccontr)
      assume "\<not> x < v div c"
      then have "v div c \<le> isqrt v" using x by simp
      then have "(v div c) * (v div c) \<le> v" using le_isqrt_iff by blast
      moreover have "c * (v div c) = v" using c(1) by simp
      moreover have "c * (v div c) < (v div c) * (v div c)" using lt by simp
      ultimately show False by linarith
    qed
  qed
  then show ?thesis
    using low up by (auto simp: positive_divisors_alt sorted_wrt_append)
qed

section \<open>Derived node counts\<close>

lemma ceil_div_Inr:
  assumes "ceil_div a b = Inr n" and "0 < b" and "n \<le> k"
  shows "a \<le> k * b"
proof -
  have n: "n = - ((- a) div b)" using assms(1,2) by (simp add: ceil_div_def)
  have "- a \<ge> ((- a) div b) * b" using assms(2) by (simp add: mult.commute minus_mod_eq_mult_div [symmetric])
  then have "a \<le> n * b" by (simp add: n)
  also have "\<dots> \<le> k * b" using assms(2,3) by (simp add: mult_right_mono)
  finally show ?thesis .
qed

definition capacity_positive :: "capacity \<Rightarrow> bool" where
  "capacity_positive capacity \<longleftrightarrow>
     (\<forall>name \<in> {''cpus_per_node'', ''gpus_per_node'', ''memory_per_node_bytes''}.
        \<forall>v. map_of capacity name = Some v \<longrightarrow> 0 < v)"

definition fits :: "int \<Rightarrow> int option \<Rightarrow> int option \<Rightarrow> bool" where
  "fits n whole per =
     (case (whole, per) of (Some w, Some p) \<Rightarrow> w \<le> n * p | _ \<Rightarrow> True)"

lemma node_bound_fits:
  assumes "node_bound (whole, per) = Inr ns" and "\<And>p. per = Some p \<Longrightarrow> 0 < p"
    and "\<And>x. x \<in> set ns \<Longrightarrow> x \<le> n"
  shows "fits n whole per"
  using assms by (auto simp: node_bound_def fits_def mapR_Inr_iff split: option.splits
      dest!: ceil_div_Inr [where k = n])

lemma layout_counts_nodes:
  assumes "Some n \<in> set (layout_counts lower_bounds aggregate memory hard_max limit unknown)"
    and "n \<noteq> 1" and "\<forall>v \<in> set aggregate. 0 < v"
  shows "1 \<le> n \<and> (\<forall>b \<in> set lower_bounds. b \<le> n) \<and> (\<forall>v \<in> set aggregate. n dvd v) \<and>
    below_max hard_max n \<and> divides_opt (Some n) memory"
proof -
  have ne: "lower_bounds \<noteq> []" "aggregate \<noteq> []"
    using assms(1,2) by (auto simp: layout_counts_def split: if_splits)
  then obtain v where "v \<in> set aggregate" by (meson last_in_set)
  then have "Gcd (set aggregate) \<noteq> 0" using assms(3) by (auto simp: Gcd_0_iff)
  then have pos: "0 < nat (Gcd (set aggregate))" by (simp add: order_le_neq_trans)
  have n: "Max (insert 1 (set lower_bounds)) \<le> n" "below_max hard_max n" "divides_opt (Some n) memory"
    "n \<in> int ` set (positive_divisors (nat (Gcd (set aggregate))))"
    using assms(1) ne by (auto simp: layout_counts_def Let_def dest!: in_set_takeD)
  have "n dvd Gcd (set aggregate)"
    using n(4) set_positive_divisors [OF pos] by (auto simp: int_dvd_int_iff [symmetric])
  then have "\<forall>v \<in> set aggregate. n dvd v" by (meson Gcd_dvd dvd_trans)
  then show ?thesis using n by auto
qed

lemma derived_nodes:
  assumes "derived_node_values None hinted total_cpus mpi_ranks gpus memory capacity hard_max limit
      unknown = Inr ns"
    and "hinted = None \<or> hinted = Some []" and "capacity_positive capacity"
    and "Some n \<in> set ns" and "n \<noteq> 1"
  shows "1 \<le> n \<and> (\<forall>v \<in> set (aggregate_values [total_cpus, mpi_ranks, gpus]). n dvd v) \<and>
    divides_opt (Some n) memory \<and> fits n total_cpus (map_of capacity ''cpus_per_node'') \<and>
    fits n gpus (map_of capacity ''gpus_per_node'') \<and>
    fits n memory (map_of capacity ''memory_per_node_bytes'') \<and> below_max hard_max n"
proof -
  let ?pairs = "[(total_cpus, map_of capacity ''cpus_per_node''),
      (gpus, map_of capacity ''gpus_per_node''), (memory, map_of capacity ''memory_per_node_bytes'')]"
  let ?agg = "aggregate_values [total_cpus, mpi_ranks, gpus]"
  have "below_max hard_max 1"
  proof (rule ccontr)
    assume "\<not> below_max hard_max 1"
    then show False using assms(1,4) by (simp add: derived_node_values_def)
  qed
  then have "bindR (mapM node_bound ?pairs) (\<lambda>bounds.
      Inr (layout_counts (concat bounds) ?agg memory hard_max limit unknown)) = Inr ns"
    using assms(1,2) by (elim disjE) (simp_all add: derived_node_values_def)
  then obtain bounds where b: "mapM node_bound ?pairs = Inr bounds"
    and ns: "ns = layout_counts (concat bounds) ?agg memory hard_max limit unknown"
    unfolding bindR_Inr_iff by blast
  have "\<forall>v \<in> set ?agg. 0 < v" by (auto simp: aggregate_values_def)
  from layout_counts_nodes [OF assms(4) [unfolded ns] assms(5) this]
  have n: "1 \<le> n" "\<forall>b \<in> set (concat bounds). b \<le> n" "\<forall>v \<in> set ?agg. n dvd v"
    "below_max hard_max n" "divides_opt (Some n) memory" by blast+
  have fit: "fits n whole per" if "(whole, per) \<in> set ?pairs" for whole per
  proof -
    obtain i where i: "i < length ?pairs" "?pairs ! i = (whole, per)"
      using \<open>(whole, per) \<in> set ?pairs\<close> by (meson in_set_conv_nth)
    then have nb: "node_bound (whole, per) = Inr (bounds ! i)" using mapM_Inr_nth [OF b i(1)] by simp
    have "set (bounds ! i) \<subseteq> set (concat bounds)"
      using i(1) mapM_Inr_length [OF b] by (metis UN_upper nth_mem set_concat)
    then have le: "\<And>x. x \<in> set (bounds ! i) \<Longrightarrow> x \<le> n" using n(2) by blast
    show ?thesis
      by (rule node_bound_fits [OF nb _ le])
        (use that assms(3) in \<open>auto simp: capacity_positive_def\<close>)
  qed
  show ?thesis by (intro conjI n fit) simp_all
qed

section \<open>Generated shapes\<close>

lemma shape_with_evidence_ok:
  assumes "shape_ok s"
  shows "shape_with_evidence s e = Inr (s\<lparr>s_evidence := JArr e\<rparr>)"
proof -
  have "shape_ok (s\<lparr>s_evidence := JArr e\<rparr>)" using assms by (simp add: shape_ok_def)
  then show ?thesis by (simp add: shape_with_evidence_def shape_round_trip)
qed

lemma shape_ok_evidence [simp]: "shape_ok (s\<lparr>s_evidence := e\<rparr>) = shape_ok s"
  by (simp add: shape_ok_def)

lemma shape_with_target_evidence_ok:
  assumes "shape_ok s"
  shows "shape_with_target_evidence (s\<lparr>s_evidence := JArr old\<rparr>) t claims =
    bindR (authorization_evidence claims (s\<lparr>s_evidence := JArr (old @ [surface_evidence t])\<rparr>))
      (\<lambda>declared. Inr (s\<lparr>s_evidence := JArr (old @ [surface_evidence t] @ declared)\<rparr>))"
  using assms
  by (simp add: shape_with_target_evidence_def py_list_def shape_with_evidence_ok Let_def)

text \<open>Everything a generated shape is: a valid layout of the request with its evidence.\<close>

lemma shape_for_Some:
  assumes "shape_for t family requested hints claims capacity pn mpi cpus nodes = Inr (Some s)"
  defines "whole \<equiv> (if cpus \<noteq> None \<or> nodes = None then cpus else nodes)"
  defines "base \<equiv> layout_shape t family requested nodes whole mpi"
  shows "shape_ok base \<and> within_observed_capacity base capacity \<and>
    (\<exists>s0 declared. authorization_evidence claims s0 = Inr declared \<and>
       s = base\<lparr>s_evidence := JArr (capacity_evidence t capacity nodes pn hints #
         surface_evidence t # declared)\<rparr>)"
proof -
  have ok: "shape_ok base" and cap: "within_observed_capacity base capacity"
    using assms(1)
    by (auto simp: shape_for_def Let_def bindR_Inr_iff ResourceShape_Inr base_def whole_def
        split: if_splits)
  have "\<exists>declared. authorization_evidence claims (base\<lparr>s_evidence :=
        JArr ([capacity_evidence t capacity nodes pn hints] @ [surface_evidence t])\<rparr>) = Inr declared \<and>
      s = base\<lparr>s_evidence := JArr ([capacity_evidence t capacity nodes pn hints] @
        [surface_evidence t] @ declared)\<rparr>"
    using assms(1) ok cap
    by (auto simp: shape_for_def Let_def bindR_Inr_iff mapR_Inr_iff ResourceShape_Inr
        shape_with_evidence_ok shape_with_target_evidence_ok base_def whole_def split: if_splits)
  then show ?thesis using ok cap by auto
qed

lemma first_shapes_Inr:
  "first_shapes limit f xs = Inr ss \<Longrightarrow>
     length ss \<le> limit \<and> (\<forall>s \<in> set ss. \<exists>x \<in> set xs. f x = Inr (Some s))"
proof (induction limit f xs arbitrary: ss rule: first_shapes.induct)
  case (2 limit f x xs)
  show ?case
  proof (cases "limit = 0")
    case False
    with 2 show ?thesis
      by (auto simp: bindR_Inr_iff Suc_le_eq split: option.splits) fastforce+
  qed (use 2 in simp)
qed simp

lemma generate_turns_Inr:
  "generate_turns limit nodes_of f turns = Inr ss \<Longrightarrow>
     length ss \<le> limit \<and>
     (\<forall>s \<in> set ss. \<exists>turn \<in> set turns. \<exists>ns. nodes_of turn = Inr ns \<and> (\<exists>x \<in> set ns. f x = Inr (Some s)))"
proof (induction limit nodes_of f turns arbitrary: ss rule: generate_turns.induct)
  case (2 limit nodes_of f turn turns)
  show ?case
  proof (cases "limit = 0")
    case False
    then obtain ns ss1 rest where 1: "nodes_of turn = Inr ns" "first_shapes limit f ns = Inr ss1"
      "generate_turns (limit - length ss1) nodes_of f turns = Inr rest" and ss: "ss = ss1 @ rest"
      using 2(2) by (auto simp: bindR_Inr_iff)
    have ih: "length rest \<le> limit - length ss1"
      "\<forall>s \<in> set rest. \<exists>turn \<in> set turns. \<exists>ns. nodes_of turn = Inr ns \<and> (\<exists>x \<in> set ns. f x = Inr (Some s))"
      using 2(1) [OF False 1(1) 1(2) 1(3)] by auto
    with first_shapes_Inr [OF 1(2)] 1(1) ss show ?thesis by auto
  qed (use 2 in simp)
qed simp

lemma generated_shape:
  assumes "generated_target_shapes t family requested hints claims limit = Inr ss" and "s \<in> set ss"
  obtains mpi cpus nodes ns where
    "shape_for t family requested hints claims (target_capacity (t_metadata t) family)
       (hinted_layouts requested hints mpi cpus) mpi cpus nodes = Inr (Some s)"
    "derived_node_values (r_nodes requested) (hinted_layouts requested hints mpi cpus) cpus mpi
       (r_gpus requested) (r_memory_bytes requested) (target_capacity (t_metadata t) family)
       (applicable_hard_max_nodes t family claims) limit (family = ''lsf'') = Inr ns"
    "nodes \<in> set ns"
    "mpi \<in> set (optional_dimension_values (r_mpi_ranks requested) (map_of hints ''mpi_ranks''))"
    "cpus \<in> set (cpu_values (r_cpus requested) (map_of hints ''total_cpus'') mpi)"
  using assms(2) generate_turns_Inr [OF assms(1) [unfolded generated_target_shapes_def Let_def]]
  by (fastforce simp: node_turns_def mapR_Inr_iff)

section \<open>The properties\<close>

text \<open>
  The divisors enumerated from the square root down are all the divisors, in increasing
  order and each once.
\<close>

theorem positive_divisors_correct:
  assumes "0 < v"
  shows "set (positive_divisors v) = {d. d dvd v} \<and> sorted_wrt (<) (positive_divisors v)"
  using assms by (simp add: set_positive_divisors sorted_positive_divisors)

theorem positive_divisors_correct_witness:
  "set (positive_divisors 12) = {d. d dvd 12} \<and> sorted_wrt (<) (positive_divisors 12)"
  by (rule positive_divisors_correct) simp

text \<open>
  A node count derived from the totals divides each of them evenly, leaves no node with
  more than its observed CPUs, GPUs or memory, and respects the hard node limit.
\<close>

theorem derived_node_counts_fit:
  assumes "derived_node_values None None total_cpus mpi_ranks gpus memory capacity hard_max limit
      unknown = Inr ns"
    and "capacity_positive capacity" and "Some n \<in> set ns" and "n \<noteq> 1"
  shows "1 \<le> n \<and> (\<forall>v \<in> set (aggregate_values [total_cpus, mpi_ranks, gpus]). n dvd v) \<and>
    divides_opt (Some n) memory \<and> fits n total_cpus (map_of capacity ''cpus_per_node'') \<and>
    fits n gpus (map_of capacity ''gpus_per_node'') \<and>
    fits n memory (map_of capacity ''memory_per_node_bytes'') \<and> below_max hard_max n"
  using derived_nodes [OF assms(1) _ assms(2-4)] by blast

theorem derived_node_counts_fit_witness:
  "fits 4 (Some 64) (map_of [(''cpus_per_node'', 16)] ''cpus_per_node'')"
proof -
  have d: "derived_node_values None None (Some 64) (Some 8) None None [(''cpus_per_node'', 16)] None 8
      False = Inr [Some 4, Some 8]"
    by code_simp
  have "capacity_positive [(''cpus_per_node'', 16)]" by (simp add: capacity_positive_def)
  from derived_node_counts_fit [OF d this, of 4] show ?thesis by simp
qed

text \<open>
  C13. Every generated shape satisfies the arithmetic of a shape, is within the observed
  capacity, states exactly the requested totals, and the shapes are at most as many as asked.
\<close>

theorem generated_shapes_valid:
  assumes "generated_target_shapes t family requested hints claims limit = Inr ss"
  shows "length ss \<le> limit \<and> (\<forall>s \<in> set ss. shape_ok s \<and>
    within_observed_capacity s (target_capacity (t_metadata t) family) \<and>
    s_gpus s = r_gpus requested \<and> s_memory_bytes s = r_memory_bytes requested \<and>
    s_walltime_seconds s = r_walltime_seconds requested \<and>
    (r_nodes requested \<noteq> None \<longrightarrow> s_nodes s = r_nodes requested) \<and>
    (r_cpus requested \<noteq> None \<longrightarrow> s_total_cpus s = r_cpus requested) \<and>
    (r_mpi_ranks requested \<noteq> None \<longrightarrow> s_mpi_ranks s = r_mpi_ranks requested))"
proof (intro conjI ballI)
  show "length ss \<le> limit"
    using generate_turns_Inr [OF assms [unfolded generated_target_shapes_def Let_def]] by blast
  fix s assume "s \<in> set ss"
  then obtain mpi cpus nodes ns where f: "shape_for t family requested hints claims
      (target_capacity (t_metadata t) family) (hinted_layouts requested hints mpi cpus) mpi cpus nodes
      = Inr (Some s)"
    and d: "derived_node_values (r_nodes requested) (hinted_layouts requested hints mpi cpus) cpus mpi
       (r_gpus requested) (r_memory_bytes requested) (target_capacity (t_metadata t) family)
       (applicable_hard_max_nodes t family claims) limit (family = ''lsf'') = Inr ns"
      "nodes \<in> set ns"
    and m: "mpi \<in> set (optional_dimension_values (r_mpi_ranks requested) (map_of hints ''mpi_ranks''))"
    and c: "cpus \<in> set (cpu_values (r_cpus requested) (map_of hints ''total_cpus'') mpi)"
    by (rule generated_shape [OF assms])
  let ?b = "layout_shape t family requested nodes
      (if cpus \<noteq> None \<or> nodes = None then cpus else nodes) mpi"
  obtain e where ok: "shape_ok ?b" "within_observed_capacity ?b (target_capacity (t_metadata t) family)"
    and s: "s = ?b\<lparr>s_evidence := JArr e\<rparr>"
    using shape_for_Some [OF f] by blast
  show "shape_ok s" using ok(1) s by simp
  have "shape_dimension s n = shape_dimension ?b n" for n
    by (simp add: s shape_dimension_def shape_fields_def)
  then show "within_observed_capacity s (target_capacity (t_metadata t) family)"
    using ok(2) by (simp add: within_observed_capacity_def)
  show "s_gpus s = r_gpus requested" "s_memory_bytes s = r_memory_bytes requested"
    "s_walltime_seconds s = r_walltime_seconds requested"
    by (simp_all add: s layout_shape_def)
  show "r_nodes requested \<noteq> None \<longrightarrow> s_nodes s = r_nodes requested"
    using d by (auto simp: s layout_shape_def derived_node_values_def split: if_splits)
  show "r_cpus requested \<noteq> None \<longrightarrow> s_total_cpus s = r_cpus requested"
    using c by (auto simp: s layout_shape_def cpu_values_def)
  show "r_mpi_ranks requested \<noteq> None \<longrightarrow> s_mpi_ranks s = r_mpi_ranks requested"
    using m by (auto simp: s layout_shape_def optional_dimension_values_def)
qed

lemma claim_authorization_declared:
  assumes "claim_authorization c s = Inr ds" and "d \<in> set ds"
  shows "cl_property c \<in> {''authorization'', ''authorized''} \<and>
     cl_evidence_kind c \<in> {''site_declared'', ''user_declared''} \<and>
     (\<exists>a. authorization_claim_value (cl_value c) = Some a \<and> d = claim_evidence c a)"
proof -
  let ?p = "cl_property c \<in> {''authorization'', ''authorized''}"
  let ?k = "cl_evidence_kind c \<in> {''site_declared'', ''user_declared''}"
  have pk: "?p \<and> ?k"
  proof (rule ccontr)
    assume "\<not> (?p \<and> ?k)"
    then have "claim_authorization c s = Inr []" unfolding claim_authorization_def by argo
    then show False using assms by simp
  qed
  then obtain applies where "ds = (case (applies, authorization_claim_value (cl_value c)) of
      (True, Some a) \<Rightarrow> [claim_evidence c a] | _ \<Rightarrow> [])"
    using assms(1) unfolding claim_authorization_def by (cases "policy_applies c s") auto
  then have "\<exists>a. authorization_claim_value (cl_value c) = Some a \<and> d = claim_evidence c a"
    using assms(2) by (cases applies; cases "authorization_claim_value (cl_value c)") simp_all
  with pk show ?thesis by blast
qed

text \<open>
  Generation invents no authorization: what a generated shape says of authorization is the
  observed state of its target, or a claim a site or a user declared for that kind of shape.
\<close>

theorem generated_authorization_is_declared:
  assumes "generated_target_shapes t family requested hints claims limit = Inr ss"
    and "s \<in> set ss"
  shows "\<exists>e. s_evidence s = JArr e \<and> surface_evidence t \<in> set e \<and>
    (\<forall>d \<in> set e. is_dict d \<and> d \<noteq> surface_evidence t \<and>
       (\<exists>x. d = JObj x \<and> dict_get x ''authorization'' \<noteq> None) \<longrightarrow>
       (\<exists>c \<in> set claims. \<exists>a. cl_property c \<in> {''authorization'', ''authorized''} \<and>
          cl_evidence_kind c \<in> {''site_declared'', ''user_declared''} \<and>
          authorization_claim_value (cl_value c) = Some a \<and> d = claim_evidence c a))"
proof -
  obtain mpi cpus nodes where f: "shape_for t family requested hints claims
      (target_capacity (t_metadata t) family) (hinted_layouts requested hints mpi cpus) mpi cpus nodes
      = Inr (Some s)"
    by (rule generated_shape [OF assms])
  define ce where "ce = capacity_evidence t (target_capacity (t_metadata t) family) nodes
      (hinted_layouts requested hints mpi cpus) hints"
  obtain s0 declared where s0: "authorization_evidence claims s0 = Inr declared"
    and e: "s_evidence s = JArr (ce # surface_evidence t # declared)"
    using shape_for_Some [OF f] by (auto simp: ce_def)
  have no: "dict_get x ''authorization'' = None" if "ce = JObj x" for x
    using that by (auto simp: ce_def capacity_evidence_def split: option.splits if_splits)
  have "\<exists>c \<in> set claims. \<exists>a. cl_property c \<in> {''authorization'', ''authorized''} \<and>
      cl_evidence_kind c \<in> {''site_declared'', ''user_declared''} \<and>
      authorization_claim_value (cl_value c) = Some a \<and> d = claim_evidence c a"
    if d: "d \<in> set declared" for d
  proof -
    obtain dss where dss: "mapM (\<lambda>c. claim_authorization c s0) claims = Inr dss" "declared = concat dss"
      using s0 by (auto simp: authorization_evidence_def mapR_Inr_iff)
    then obtain ds where ds: "ds \<in> set dss" "d \<in> set ds" using d by auto
    then obtain c where "c \<in> set claims" "claim_authorization c s0 = Inr ds"
      using mapM_Inr_set [OF dss(1)] by blast
    then show ?thesis using claim_authorization_declared ds(2) by blast
  qed
  then show ?thesis using e no by auto
qed

section \<open>A concrete target\<close>

definition sample_target :: target where
  "sample_target = \<lparr>t_id = ''t1'', t_role = ''execution'', t_name = ''debug'', t_locator = None,
     t_visible = Some True, t_authorization = ''unknown'',
     t_metadata = [(''scheduler'', JStr ''slurm'')]\<rparr>"

definition sample_requested :: resources where
  "sample_requested = no_resources\<lparr>r_cpus := Some 4, r_nodes := Some 2\<rparr>"

definition sample_base :: shape where
  "sample_base = layout_shape sample_target ''slurm'' sample_requested (Some 2) (Some 4) None"

definition sample_shape :: shape where
  "sample_shape = sample_base\<lparr>s_evidence := JArr [capacity_evidence sample_target [] (Some 2) None [],
     surface_evidence sample_target]\<rparr>"

lemma sample_generated:
  "generated_target_shapes sample_target ''slurm'' sample_requested [] [] 1 = Inr [sample_shape]"
proof -
  have cap: "target_capacity (t_metadata sample_target) ''slurm'' = []"
    by (simp add: target_capacity_def sample_target_def capacity_item_def jget_def positive_int_def
        gpu_count_def duration_seconds_def)
  have base: "shape_ok sample_base"
    by (simp add: sample_base_def shape_ok_def layout_shape_def sample_requested_def
        no_resources_def div_opt_def product_ok_def)
  have layout: "layout_ok (Some 2) (Some 4) None None None"
    by (simp add: layout_ok_def divides_opt_def)
  have "shape_for sample_target ''slurm'' sample_requested [] [] [] None None (Some 4) (Some 2)
      = Inr (Some sample_shape)"
    using base layout
    by (simp add: shape_for_def ResourceShape_Inr bindR_Inr_iff within_observed_capacity_def
        sample_base_def [symmetric] shape_with_evidence_ok shape_with_target_evidence_ok
        authorization_evidence_def sample_shape_def sample_requested_def no_resources_def
        sample_base_def [unfolded sample_requested_def no_resources_def, simplified, symmetric])
  then show ?thesis
    by (simp add: generated_target_shapes_def cap optional_dimension_values_def cpu_values_def
        sample_requested_def no_resources_def node_turns_def derived_node_values_def below_max_def
        applicable_hard_max_nodes_def hinted_layouts_def provider_layout_nodes_def Let_def)
qed

theorem generated_shapes_valid_witness:
  "shape_ok sample_shape \<and> s_total_cpus sample_shape = Some 4"
  using generated_shapes_valid [OF sample_generated]
  by (simp add: sample_requested_def no_resources_def)

theorem generated_authorization_is_declared_witness:
  "\<exists>e. s_evidence sample_shape = JArr e \<and> surface_evidence sample_target \<in> set e"
  using generated_authorization_is_declared [OF sample_generated] by auto


end
