(* ===== verification/Environments.thy ===== *)
theory Environments
  imports Request Constraints Inventory
begin

text \<open>
  Execution environments (\<open>planning_models.py\<close>, \<open>site_planning.py\<close>): the activation a discovered
  context describes, the resolved environment with its document and digest, and
  \<open>resolve_environments\<close>, which decides which contexts of an inventory offer the capabilities a
  provider requires.
\<close>

text \<open>
  What the interpreter adds: the digest of a text, the text of a float, of a JSON value that is
  no string, and of a \<open>TypeError\<close>, and the arithmetic of floats.
\<close>

record site_env =
  x_digest :: "string \<Rightarrow> string"
  x_float :: "py_float \<Rightarrow> string"
  x_str :: "json \<Rightarrow> string"
  x_type_text :: string
  x_ops :: py_ops

definition canonical_digest :: "site_env \<Rightarrow> json \<Rightarrow> string" where
  "canonical_digest x v = ''sha256:'' @ x_digest x (json_dumps (x_float x) v)"

definition shape_identity :: "site_env \<Rightarrow> shape \<Rightarrow> string" where
  "shape_identity x s = canonical_digest x (JObj (shape_to_dict s))"

definition str_of :: "site_env \<Rightarrow> json \<Rightarrow> string" where
  "str_of x v = (case v of JStr s \<Rightarrow> s | _ \<Rightarrow> x_str x v)"

text \<open>\<open>str(exc)\<close> of the errors the callers catch\<close>

definition exc_text :: "site_env \<Rightarrow> py_error \<Rightarrow> string" where
  "exc_text x e = (case e of PyValueError msg \<Rightarrow> msg | _ \<Rightarrow> x_type_text x)"

section \<open>Activation documents\<close>

definition no_activation :: activation where
  "no_activation = \<lparr>a_kind = ''none'', a_names = [], a_prefix = None\<rparr>"

definition activation_to_dict :: "activation \<Rightarrow> json dict" where
  "activation_to_dict a =
     [(''kind'', JStr (a_kind a)), (''names'', JArr (map JStr (a_names a))),
      (''prefix'', opt_json JStr (a_prefix a))]"

text \<open>\<open>all(_MODULE_NAME.fullmatch(item) for item in names)\<close> on values of any type\<close>

fun module_names :: "json list \<Rightarrow> unit pyres" where
  "module_names [] = Inr ()"
| "module_names (v # vs) =
     (case v of
        JStr s \<Rightarrow>
          if MODULE_NAME s then module_names vs
          else value_error ''module activation requires safe typed module names''
      | _ \<Rightarrow> Inl PyTypeError)"

text \<open>\<open>EnvironmentActivation.from_dict\<close> with the checks of the constructor it calls\<close>

definition activation_from_dict :: "site_env \<Rightarrow> json \<Rightarrow> activation pyres" where
  "activation_from_dict x value =
     (case value of
        JObj d \<Rightarrow>
          let kind = jget_or d ''kind'' (JStr ''none''); prefix = jget d ''prefix'' in
          bindR (py_list (jget_or d ''names'' (JArr []))) (\<lambda>names.
          if \<not> hashable kind then Inl PyTypeError
          else if kind \<notin> {JStr ''none'', JStr ''module'', JStr ''virtualenv'', JStr ''conda'',
                          JStr ''spack''}
          then value_error (''unsupported environment activation: '' @ str_of x kind)
          else if kind = JStr ''module'' then
            (if names = []
             then value_error ''module activation requires safe typed module names''
             else bindR (module_names names) (\<lambda>_.
               if prefix \<noteq> JNull
               then value_error ''module activation does not use a prefix''
               else Inr \<lparr>a_kind = ''module'', a_names = map the_str names, a_prefix = None\<rparr>))
          else if kind = JStr ''none'' then
            (if names \<noteq> [] \<or> prefix \<noteq> JNull
             then value_error ''none activation cannot carry values'' else Inr no_activation)
          else if \<not> truthy prefix
          then value_error (the_str kind @ '' activation requires an absolute prefix'')
          else (case prefix of
              JStr p \<Rightarrow>
                if \<not> starts_with ''/'' p
                then value_error (the_str kind @ '' activation requires an absolute prefix'')
                else if names \<noteq> []
                then value_error (the_str kind @ '' activation does not use module names'')
                else Inr \<lparr>a_kind = the_str kind, a_names = [], a_prefix = Some p\<rparr>
            | _ \<Rightarrow> Inl PyAttributeError))
      | _ \<Rightarrow> Inl PyAttributeError)"

lemma module_names_Inr:
  "module_names vs = Inr u \<longleftrightarrow> (\<exists>ss. vs = map JStr ss \<and> list_all MODULE_NAME ss)"
proof (induction vs)
  case (Cons v vs)
  show ?case
  proof (cases v)
    case (JStr s)
    with Cons show ?thesis by (auto simp: Cons_eq_map_conv)
  qed auto
qed simp

lemma map_the_str_JStr [simp]: "map (the_str \<circ> JStr) ss = ss"
  by (induction ss) auto

text \<open>An activation that was read satisfies the constructor's checks.\<close>

lemma activation_from_dict_ok:
  assumes "activation_from_dict x value = Inr a"
  shows "EnvironmentActivation a = Inr a"
proof -
  obtain d where v: "value = JObj d"
    using assms by (cases "value") (simp_all add: activation_from_dict_def)
  let ?kind = "jget_or d ''kind'' (JStr ''none'')" and ?prefix = "jget d ''prefix''"
  obtain names where n: "py_list (jget_or d ''names'' (JArr [])) = Inr names"
    using assms v by (auto simp: activation_from_dict_def Let_def bindR_Inr_iff)
  note a = assms [unfolded v activation_from_dict_def, simplified, unfolded Let_def n, simplified]
  show ?thesis
  proof (cases "?kind = JStr ''module''")
    case True
    from a True have ne: "names \<noteq> []" and m: "bindR (module_names names) (\<lambda>_.
        if ?prefix \<noteq> JNull then value_error ''module activation does not use a prefix''
        else Inr \<lparr>a_kind = ''module'', a_names = map the_str names, a_prefix = None\<rparr>) = Inr a"
      by (auto split: if_splits)
    then have names: "\<exists>ss. names = map JStr ss \<and> list_all MODULE_NAME ss"
      and "a = \<lparr>a_kind = ''module'', a_names = map the_str names, a_prefix = None\<rparr>"
      by (auto simp: bindR_Inr_iff module_names_Inr split: if_splits)
    with ne show ?thesis by (auto simp: EnvironmentActivation_def list_all_iff)
  next
    case False
    show ?thesis
    proof (cases "?kind = JStr ''none''")
      case True
      with a show ?thesis
        by (auto simp: EnvironmentActivation_def no_activation_def split: if_splits)
    next
      case False': False
      with a False obtain k p where k: "?kind = JStr k" "k \<in> {''virtualenv'', ''conda'', ''spack''}"
        and "?prefix = JStr p" "starts_with ''/'' p" "names = []"
        and "a = \<lparr>a_kind = k, a_names = [], a_prefix = Some p\<rparr>"
        by (auto split: if_splits json.splits)
      then show ?thesis by (auto simp: EnvironmentActivation_def)
    qed
  qed
qed

section \<open>Resolved environments\<close>

record environment =
  re_context_id :: string
  re_name :: string
  re_kind :: string
  re_state :: string
  re_activation :: activation
  re_evidence :: "json list"
  re_unresolved :: "string list"

definition is_compatible :: "environment \<Rightarrow> bool" where
  "is_compatible e \<longleftrightarrow> re_state e = ''compatible'' \<and> re_unresolved e = []"

definition environment_to_dict :: "environment \<Rightarrow> json dict" where
  "environment_to_dict e =
     [(''context_id'', JStr (re_context_id e)), (''name'', JStr (re_name e)),
      (''kind'', JStr (re_kind e)), (''state'', JStr (re_state e)),
      (''activation'', JObj (activation_to_dict (re_activation e))),
      (''evidence'', JArr (re_evidence e)),
      (''unresolved'', JArr (map JStr (re_unresolved e)))]"

text \<open>
  One requirement against one capability. The observation state is looked at last, and the kind
  only once the name agrees.
\<close>

definition capability_matches :: "json dict \<Rightarrow> capability \<Rightarrow> bool pyres" where
  "capability_matches requirement c =
     (case dict_get requirement ''name'' of
        None \<Rightarrow> Inl (PyKeyError ''name'')
      | Some name \<Rightarrow>
          if name \<noteq> JStr (cap_name c) then Inr False
          else
            let kind = jget requirement ''kind'' in
            if \<not> hashable kind then Inl PyTypeError
            else Inr ((kind = JStr ''any'' \<or> kind = JStr (cap_kind c)
                       \<or> kind \<in> JStr ` set (cap_classifications c))
                      \<and> cap_observation c = ''observed''))"

fun matching :: "json dict \<Rightarrow> capability list \<Rightarrow> capability list pyres" where
  "matching requirement [] = Inr []"
| "matching requirement (c # cs) =
     bindR (capability_matches requirement c) (\<lambda>b.
     bindR (matching requirement cs) (\<lambda>rest. Inr (if b then c # rest else rest)))"

definition capability_evidence :: "econtext \<Rightarrow> capability \<Rightarrow> json" where
  "capability_evidence k c =
     JObj [(''kind'', JStr ''observed_now''), (''capability_id'', JStr (cap_id c)),
           (''context_id'', JStr (k_id k))]"

text \<open>What one requirement adds: the missing note, if any, and the evidence.\<close>

definition requirement_outcome ::
  "site_env \<Rightarrow> econtext \<Rightarrow> capability list \<Rightarrow> json dict \<Rightarrow> (string list \<times> json list) pyres" where
  "requirement_outcome x k capabilities requirement =
     bindR (matching requirement capabilities) (\<lambda>found.
     if found = [] \<and> truthy (jget_or requirement ''required'' (JBool True)) then
       (case dict_get requirement ''name'' of
          None \<Rightarrow> Inl (PyKeyError ''name'')
        | Some name \<Rightarrow> Inr ([''required '' @ str_of x (jget requirement ''kind'') @ '' '' @ [CHR 0x27]
              @ str_of x name @ [CHR 0x27] @ '' is not observed''], []))
     else Inr ([], map (capability_evidence k) found))"

text \<open>The activation, or the note that it is not one; other errors are not caught.\<close>

definition context_activation :: "site_env \<Rightarrow> econtext \<Rightarrow> (string list \<times> activation) pyres" where
  "context_activation x k =
     (case activation_from_dict x
        (jget_or (k_metadata k) ''activation'' (JObj [(''kind'', JStr ''none'')])) of
        Inr a \<Rightarrow> Inr ([], a)
      | Inl (PyValueError msg) \<Rightarrow>
          Inr ([''environment activation is invalid: '' @ exc_text x (PyValueError msg)], no_activation)
      | Inl PyTypeError \<Rightarrow>
          Inr ([''environment activation is invalid: '' @ exc_text x PyTypeError], no_activation)
      | Inl e \<Rightarrow> Inl e)"

definition resolve_environment ::
  "site_env \<Rightarrow> inventory \<Rightarrow> json dict list \<Rightarrow> econtext \<Rightarrow> environment pyres" where
  "resolve_environment x snapshot required k =
     bindR (mapM (requirement_outcome x k
              (filter (\<lambda>c. cap_context_id c = k_id k) (i_capabilities snapshot))) required)
       (\<lambda>outcomes.
     bindR (context_activation x k) (\<lambda>(invalid, activation).
     let missing = concat (map fst outcomes) @ invalid in
     Inr \<lparr>re_context_id = k_id k, re_name = k_name k, re_kind = k_kind k,
          re_state = (if missing = [] then ''compatible'' else ''unresolved''),
          re_activation = activation, re_evidence = concat (map snd outcomes),
          re_unresolved = missing\<rparr>))"

definition resolve_environments ::
  "site_env \<Rightarrow> inventory \<Rightarrow> json dict list \<Rightarrow> environment list pyres" where
  "resolve_environments x snapshot required =
     mapM (resolve_environment x snapshot required)
       (sort_by (\<lambda>a b. str_less (k_key a) (k_key b)) (i_contexts snapshot))"

section \<open>What a compatible environment offers\<close>

lemma matching_Inr:
  "matching r cs = Inr found \<Longrightarrow> c \<in> set found \<Longrightarrow> c \<in> set cs \<and> capability_matches r c = Inr True"
  by (induction cs arbitrary: found) (auto simp: bindR_Inr_iff split: if_splits)

lemma capability_matches_True:
  "capability_matches r c = Inr True \<longleftrightarrow>
     jget r ''name'' = JStr (cap_name c) \<and> cap_observation c = ''observed'' \<and>
     jget r ''kind'' \<in> JStr ` ({''any'', cap_kind c} \<union> set (cap_classifications c))"
  by (auto simp: capability_matches_def jget_def Let_def split: option.splits if_splits)

lemma requirement_met:
  assumes "requirement_outcome x k cs r = Inr ([], ev)"
    and "truthy (jget_or r ''required'' (JBool True))"
  shows "\<exists>c \<in> set cs. capability_matches r c = Inr True \<and> capability_evidence k c \<in> set ev"
proof -
  from assms obtain found where f: "matching r cs = Inr found" "found \<noteq> []"
    and ev: "ev = map (capability_evidence k) found"
    by (auto simp: requirement_outcome_def bindR_Inr_iff split: if_splits option.splits)
  from f(2) obtain c where "c \<in> set found" by (cases found) auto
  with matching_Inr [OF f(1)] ev show ?thesis by auto
qed

lemma context_activation_ok:
  "context_activation x k = Inr ([], a) \<Longrightarrow> EnvironmentActivation a = Inr a"
  by (auto simp: context_activation_def intro: activation_from_dict_ok
      split: sum.splits py_error.splits)

lemma resolve_environment_compatible:
  assumes "resolve_environment x snapshot required k = Inr e" and "is_compatible e"
  shows "re_context_id e = k_id k \<and> EnvironmentActivation (re_activation e) = Inr (re_activation e) \<and>
    (\<forall>r \<in> set required. truthy (jget_or r ''required'' (JBool True)) \<longrightarrow>
       (\<exists>c \<in> set (i_capabilities snapshot). cap_context_id c = k_id k \<and>
          capability_matches r c = Inr True \<and> capability_evidence k c \<in> set (re_evidence e)))"
proof -
  let ?cs = "filter (\<lambda>c. cap_context_id c = k_id k) (i_capabilities snapshot)"
  obtain outcomes invalid a where o: "mapM (requirement_outcome x k ?cs) required = Inr outcomes"
    and a: "context_activation x k = Inr (invalid, a)"
    and e: "e = \<lparr>re_context_id = k_id k, re_name = k_name k, re_kind = k_kind k,
          re_state = (if concat (map fst outcomes) @ invalid = [] then ''compatible'' else ''unresolved''),
          re_activation = a, re_evidence = concat (map snd outcomes),
          re_unresolved = concat (map fst outcomes) @ invalid\<rparr>"
    using assms(1) by (auto simp: resolve_environment_def bindR_Inr_iff Let_def)
  have none: "invalid = []" "\<forall>oc \<in> set outcomes. fst oc = []"
    using assms(2) by (simp_all add: is_compatible_def e)
  have "\<exists>c \<in> set ?cs. capability_matches r c = Inr True \<and> capability_evidence k c \<in> set (re_evidence e)"
    if r: "r \<in> set required" "truthy (jget_or r ''required'' (JBool True))" for r
  proof -
    from r(1) obtain i where i: "i < length required" "required ! i = r"
      by (auto simp: in_set_conv_nth)
    then have oi: "requirement_outcome x k ?cs r = Inr (outcomes ! i)"
      using mapM_Inr_nth [OF o i(1)] by (simp add: i(2))
    have mem: "outcomes ! i \<in> set outcomes" using i(1) mapM_Inr_length [OF o] by simp
    with none(2) have "outcomes ! i = ([], snd (outcomes ! i))" by (simp add: prod_eq_iff)
    with oi have "requirement_outcome x k ?cs r = Inr ([], snd (outcomes ! i))" by simp
    from requirement_met [OF this r(2)] mem show ?thesis by (auto simp: e)
  qed
  with a none(1) context_activation_ok show ?thesis by (fastforce simp: e)
qed

end
