(* ===== verification/SiteExploration.thy ===== *)
theory SiteExploration
  imports Environments SiteShapes
begin

text \<open>
  Candidates of a site (\<open>site_planning.py\<close>): the shapes offered per target in turns, and the
  exploration that combines shapes, environments and parameter assignments, prunes what is
  hard invalid for every assignment, and grades each candidate by authorization, resources,
  policy, environment and the provider's constraints.
\<close>

section \<open>Shapes from an inventory\<close>

text \<open>\<open>target.metadata.get("scheduler") in {"slurm", "pbs", "lsf"}\<close>\<close>

definition scheduler_family :: "target \<Rightarrow> string option pyres" where
  "scheduler_family t =
     (let v = jget (t_metadata t) ''scheduler'' in
      if \<not> hashable v then Inl PyTypeError
      else if v \<in> {JStr ''slurm'', JStr ''pbs'', JStr ''lsf''} then Inr (Some (the_str v))
      else Inr None)"

text \<open>\<open>except (TypeError, ValueError): continue\<close>\<close>

definition skip_bad :: "'a pyres \<Rightarrow> 'a list pyres" where
  "skip_bad r =
     (case r of
        Inr a \<Rightarrow> Inr [a]
      | Inl (PyValueError _) \<Rightarrow> Inr []
      | Inl PyTypeError \<Rightarrow> Inr []
      | Inl e \<Rightarrow> Inl e)"

definition DEFAULT_CANDIDATE_LIMIT :: nat where
  "DEFAULT_CANDIDATE_LIMIT = 64"

text \<open>The partial facts of a scheduler target that lists no shapes of its own.\<close>

definition observed_raw_shapes :: "target \<Rightarrow> json option pyres" where
  "observed_raw_shapes t =
     (if jget (t_metadata t) ''resource_shapes'' \<noteq> JNull
      then Inr (Some (jget (t_metadata t) ''resource_shapes''))
      else bindR (scheduler_family t) (\<lambda>family.
        case family of
          None \<Rightarrow> Inr None
        | Some f \<Rightarrow> Inr (Some (JArr [JObj ([(''scheduler_class'', JStr (t_name t))]
            @ (if f = ''slurm'' then
                 (case positive_int (jget (t_metadata t) ''cpus_per_node'') of
                    None \<Rightarrow> [] | Some n \<Rightarrow> [(''cpus_per_node'', JInt n)])
               else []))]))))"

text \<open>
  One raw shape with the evidence of its target. An error while the old evidence is listed is
  raised; one in the constructor is skipped.
\<close>

definition observed_shape :: "target \<Rightarrow> json \<Rightarrow> shape list pyres" where
  "observed_shape t raw =
     (case raw of
        JObj d \<Rightarrow>
          bindR (py_list (jget_or d ''evidence'' (JArr []))) (\<lambda>old.
          skip_bad (shape_from_dict
            (dict_set ''evidence'' (JArr (old @ [surface_evidence t])) d)))
      | _ \<Rightarrow> Inr [])"

definition observed_shapes :: "target \<Rightarrow> shape list pyres" where
  "observed_shapes t =
     bindR (observed_raw_shapes t) (\<lambda>raw.
     case raw of
       Some (JArr raws) \<Rightarrow>
         mapR concat (mapM (observed_shape t) (take DEFAULT_CANDIDATE_LIMIT raws))
     | _ \<Rightarrow> Inr [])"

definition by_identity :: "site_env \<Rightarrow> shape list \<Rightarrow> shape list" where
  "by_identity x = sort_by (\<lambda>a b. str_less (shape_identity x a) (shape_identity x b))"

definition resource_shapes_from_inventory :: "site_env \<Rightarrow> inventory \<Rightarrow> shape list pyres" where
  "resource_shapes_from_inventory x snapshot =
     mapR (by_identity x \<circ> concat) (mapM observed_shapes (execution_targets snapshot))"

section \<open>Shapes for a request\<close>

text \<open>A raw shape listed by the target, with the target's evidence and the claims about it.\<close>

definition listed_shape :: "target \<Rightarrow> claim list \<Rightarrow> json \<Rightarrow> shape list pyres" where
  "listed_shape t claims raw =
     (case raw of
        JObj d \<Rightarrow>
          skip_bad (bindR (shape_from_dict d) (\<lambda>s. shape_with_target_evidence s t claims))
      | _ \<Rightarrow> Inr [])"

definition target_shapes ::
  "target \<Rightarrow> resources \<Rightarrow> hints \<Rightarrow> claim list \<Rightarrow> nat \<Rightarrow> shape list pyres" where
  "target_shapes t requested hints claims limit =
     (case jget (t_metadata t) ''resource_shapes'' of
        JArr raws \<Rightarrow> mapR concat (mapM (listed_shape t claims) (take limit raws))
      | _ \<Rightarrow>
          bindR (scheduler_family t) (\<lambda>family.
          case family of
            None \<Rightarrow> Inr []
          | Some f \<Rightarrow> generated_target_shapes t f requested hints claims limit))"

text \<open>\<open>{shape.identity: shape ...}\<close> in the order of its keys: the last shape of an identity stays.\<close>

definition unique_shapes :: "site_env \<Rightarrow> shape list \<Rightarrow> shape list" where
  "unique_shapes x ss =
     map (\<lambda>key. the (map_of (rev (map (\<lambda>s. (shape_identity x s, s)) ss)) key))
       (sort_str (dedup (map (shape_identity x) ss)))"

definition sorted_targets :: "inventory \<Rightarrow> target list" where
  "sorted_targets snapshot = sort_by (\<lambda>a b. str_less (t_id a) (t_id b)) (execution_targets snapshot)"

definition limit_ok :: "nat \<Rightarrow> bool" where
  "limit_ok limit \<longleftrightarrow> 1 \<le> limit \<and> limit \<le> DEFAULT_CANDIDATE_LIMIT"

definition provider_hints :: "py_ops \<Rightarrow> provider option \<Rightarrow> nat \<Rightarrow> hints provided" where
  "provider_hints po provider limit =
     (case provider of None \<Rightarrow> Inr [] | Some p \<Rightarrow> resource_value_hints po p limit)"

definition per_target_shapes ::
  "site_env \<Rightarrow> inventory \<Rightarrow> resources \<Rightarrow> hints \<Rightarrow> claim list \<Rightarrow> nat \<Rightarrow> shape list list pyres" where
  "per_target_shapes x snapshot requested hints claims limit =
     mapR (\<lambda>sss. map (unique_shapes x) (filter (\<lambda>ss. ss \<noteq> []) sss))
       (mapM (\<lambda>t. target_shapes t requested hints claims limit) (sorted_targets snapshot))"

definition generate_resource_shapes ::
  "site_env \<Rightarrow> inventory \<Rightarrow> workload \<Rightarrow> provider option \<Rightarrow> claim list \<Rightarrow> nat \<Rightarrow> shape list provided" where
  "generate_resource_shapes x snapshot w provider claims limit =
     (if \<not> limit_ok limit
      then Inl (PyError (PyValueError ''shape limit must be between 1 and 64''))
      else
        bindR (provider_hints (x_ops x) provider limit) (\<lambda>hints.
        mapErr PyError
          (mapR (\<lambda>sss. take limit (round_robin sss))
             (per_target_shapes x snapshot (w_resources w) hints claims limit))))"

section \<open>Reasons and grades\<close>

datatype grade = Viable | HardInvalid | Unresolved | PolicyIncompatible

record reason =
  rs_code :: string
  rs_message :: string
  rs_kind :: json
  rs_sources :: "string list"

definition reason_of :: "string \<Rightarrow> string \<Rightarrow> json \<Rightarrow> string list \<Rightarrow> reason" where
  "reason_of code message kind sources =
     \<lparr>rs_code = code, rs_message = message, rs_kind = kind, rs_sources = sources\<rparr>"

section \<open>Authorization\<close>

definition authorization_value :: "json \<Rightarrow> (json \<times> json) list" where
  "authorization_value v =
     (case v of
        JObj d \<Rightarrow> (case dict_get d ''authorization'' of
            None \<Rightarrow> [] | Some a \<Rightarrow> [(a, jget_or d ''kind'' (JStr ''unknown''))])
      | _ \<Rightarrow> [])"

definition authorization_values :: "shape \<Rightarrow> (json \<times> json) list pyres" where
  "authorization_values s = mapR (\<lambda>vs. concat (map authorization_value vs)) (py_list (s_evidence s))"

text \<open>The first value that is one of the given texts; testing a list or an object raises.\<close>

fun first_of :: "string list \<Rightarrow> (json \<times> json) list \<Rightarrow> (json \<times> json) option pyres" where
  "first_of texts [] = Inr None"
| "first_of texts ((v, kind) # rest) =
     (if \<not> hashable v then Inl PyTypeError
      else if v \<in> JStr ` set texts then Inr (Some (v, kind))
      else first_of texts rest)"

definition denials :: "string list" where
  "denials = [''denied'', ''unauthorized'', ''observed-unauthorized'']"

definition grants :: "string list" where
  "grants = [''authorized'', ''observed-authorized'', ''user-declared-authorized'']"

definition authorization :: "shape \<Rightarrow> (reason list \<times> grade) pyres" where
  "authorization s =
     bindR (authorization_values s) (\<lambda>values.
     bindR (first_of denials values) (\<lambda>denied.
     case denied of
       Some (_, kind) \<Rightarrow>
         Inr ([reason_of ''authorization_incompatible''
                 ''resource visibility does not grant authorization for this shape'' kind []],
              HardInvalid)
     | None \<Rightarrow>
         bindR (first_of grants values) (\<lambda>granted.
         if granted \<noteq> None then Inr ([], Viable)
         else Inr ([reason_of ''authorization_unknown''
                      ''authorization for this visible resource shape is unknown''
                      (JStr ''unknown'') []], Unresolved))))"

section \<open>Requested resources\<close>

text \<open>The requested quantity and the dimension of the shape that has to cover it.\<close>

definition requirement_mapping ::
  "resources \<Rightarrow> shape \<Rightarrow> (int option \<times> string \<times> int option) list" where
  "requirement_mapping requested s =
     [(r_cpus requested, ''total_cpus'', s_total_cpus s), (r_gpus requested, ''gpus'', s_gpus s),
      (r_nodes requested, ''nodes'', s_nodes s),
      (r_mpi_ranks requested, ''mpi_ranks'', s_mpi_ranks s),
      (r_memory_bytes requested, ''memory_bytes'', s_memory_bytes s),
      (r_walltime_seconds requested, ''walltime_seconds'', s_walltime_seconds s)]"

definition requirement_reason :: "int option \<times> string \<times> int option \<Rightarrow> reason list" where
  "requirement_reason m =
     (case m of
        (None, _, _) \<Rightarrow> []
      | (Some required, name, None) \<Rightarrow>
          [reason_of ''resource_unknown'' (name @ '' is unknown for this resource shape'')
             (JStr ''unknown'') []]
      | (Some required, name, Some available) \<Rightarrow>
          if available < required
          then [reason_of ''resource_incompatible''
                  (name @ '' '' @ str_int available @ '' is below requested '' @ str_int required)
                  (JStr ''observed_now'') []]
          else [])"

definition resource_requirements :: "resources \<Rightarrow> shape \<Rightarrow> reason list" where
  "resource_requirements requested s =
     concat (map requirement_reason (requirement_mapping requested s))"

text \<open>What LSF has no agreed request mapping for\<close>

definition lsf_requirements :: "resources \<Rightarrow> shape \<Rightarrow> reason list pyres" where
  "lsf_requirements requested s =
     (case s_placement s of
        JObj d \<Rightarrow>
          Inr (if jget d ''scheduler'' = JStr ''lsf'' then
                 concat (map (\<lambda>(name, v).
                     if v \<in> {None, Some 0} then []
                     else [reason_of ''resource_unknown''
                             (''LSF '' @ name @ '' request mapping is unresolved for this site'')
                             (JStr ''unknown'') []])
                   [(''memory'', r_memory_bytes requested), (''GPU'', r_gpus requested)])
               else [])
      | _ \<Rightarrow> Inl PyAttributeError)"

section \<open>Policy\<close>

definition policy_properties :: "(string \<times> (shape \<Rightarrow> int option) \<times> string) list" where
  "policy_properties =
     [(''max_nodes'', s_nodes, ''nodes''), (''max_total_cpus'', s_total_cpus, ''total_cpus''),
      (''max_gpus'', s_gpus, ''gpus''),
      (''max_walltime_seconds'', s_walltime_seconds, ''walltime_seconds'')]"

text \<open>The hard numeric claims that apply, the test for applicability last.\<close>

fun applicable_claims :: "shape \<Rightarrow> claim list \<Rightarrow> claim list pyres" where
  "applicable_claims s [] = Inr []"
| "applicable_claims s (c # cs) =
     (if is_hard c \<and> cl_property c \<in> fst ` set policy_properties then
        bindR (policy_applies c s) (\<lambda>applies.
        bindR (applicable_claims s cs) (\<lambda>rest. Inr (if applies then c # rest else rest)))
      else applicable_claims s cs)"

text \<open>\<open>isinstance(value, (int, float)) and not isinstance(value, bool)\<close>\<close>

definition policy_number :: "json \<Rightarrow> bool" where
  "policy_number v = (case v of JInt _ \<Rightarrow> True | JFloat _ \<Rightarrow> True | _ \<Rightarrow> False)"

text \<open>\<open>min(values)\<close>: the first of the least, by the exact comparison of numbers.\<close>

fun py_min :: "py_float \<Rightarrow> py_float list \<Rightarrow> py_float" where
  "py_min m [] = m"
| "py_min m (q # qs) = py_min (if float_less q m then q else m) qs"

definition value_text :: "site_env \<Rightarrow> json \<Rightarrow> string" where
  "value_text x v =
     (case v of JInt i \<Rightarrow> str_int i | JFloat f \<Rightarrow> x_float x f | _ \<Rightarrow> str_of x v)"

text \<open>
  The verdict on one property: its reasons, and how it changes the grade so far. Claims that
  are no numbers, or a shape that does not say, leave it unresolved.
\<close>

definition property_verdict ::
  "site_env \<Rightarrow> shape \<Rightarrow> string \<Rightarrow> claim list \<Rightarrow> reason list \<times> grade" where
  "property_verdict x s property items =
     (let invalid = filter (\<lambda>c. \<not> policy_number (cl_value c)) items;
          (dimension_of, dimension) = the (map_of policy_properties property);
          numbers = map (\<lambda>c. numeric (cl_value c)) items in
      if invalid \<noteq> [] then
        (map (\<lambda>c. reason_of ''policy_unknown'' (''hard policy '' @ property @ '' is not numeric'')
           (JStr (cl_evidence_kind c)) [cl_id c]) invalid, Unresolved)
      else (case dimension_of s of
          None \<Rightarrow>
            (map (\<lambda>c. reason_of ''policy_unknown'' (dimension @ '' is unknown under hard policy'')
               (JStr (cl_evidence_kind c)) [cl_id c]) items, Unresolved)
        | Some requested \<Rightarrow>
            if float_less (py_min (hd numbers) (tl numbers)) (Finite (of_int requested)) then
              (map (\<lambda>c. reason_of ''policy_incompatible''
                 (dimension @ '' '' @ str_int requested @ '' exceeds applicable hard '' @ property
                  @ ''='' @ value_text x (cl_value c))
                 (JStr (cl_evidence_kind c)) [cl_id c])
                 (filter (\<lambda>c. float_less (numeric (cl_value c)) (Finite (of_int requested))) items),
               PolicyIncompatible)
            else if length (dedup numbers) > 1 then
              (map (\<lambda>c. reason_of ''policy_conflict_preserved''
                 (''true '' @ property @ '' remains unknown/conflicted; this shape satisfies every ''
                  @ ''current hard interpretation'')
                 (JStr (cl_evidence_kind c)) [cl_id c]) items, Viable)
            else ([], Viable)))"

text \<open>Unresolved never hides an incompatibility, and an incompatibility stays.\<close>

definition worse :: "grade \<Rightarrow> grade \<Rightarrow> grade" where
  "worse state verdict =
     (case verdict of
        PolicyIncompatible \<Rightarrow> PolicyIncompatible
      | Unresolved \<Rightarrow> if state = Viable then Unresolved else state
      | _ \<Rightarrow> state)"

definition policy :: "site_env \<Rightarrow> shape \<Rightarrow> claim list \<Rightarrow> (reason list \<times> grade) pyres" where
  "policy x s claims =
     bindR (applicable_claims s claims) (\<lambda>applicable.
     let verdicts = map (\<lambda>p. property_verdict x s p (filter (\<lambda>c. cl_property c = p) applicable))
           (dedup (map cl_property applicable))
     in Inr (concat (map fst verdicts), foldl worse Viable (map snd verdicts)))"

section \<open>One candidate\<close>

record pcandidate =
  pc_id :: string
  pc_shape :: shape
  pc_environment :: "environment option"
  pc_parameters :: "json dict"
  pc_state :: grade
  pc_reasons :: "reason list"
  pc_unresolved :: "string list"

text \<open>The grade, the reasons and the unresolved conditions, as the stages build them up.\<close>

type_synonym assessment = "grade \<times> reason list \<times> string list"

definition weaken :: "grade \<Rightarrow> grade" where
  "weaken state = (if state = Viable then Unresolved else state)"

definition has_code :: "string \<Rightarrow> reason list \<Rightarrow> bool" where
  "has_code code rs \<longleftrightarrow> list_ex (\<lambda>r. rs_code r = code) rs"

definition messages_of :: "string \<Rightarrow> reason list \<Rightarrow> string list" where
  "messages_of code rs = map rs_message (filter (\<lambda>r. rs_code r = code) rs)"

definition after_authorization :: "reason list \<times> grade \<Rightarrow> assessment" where
  "after_authorization a =
     (case a of (rs, verdict) \<Rightarrow>
        if verdict = HardInvalid then (HardInvalid, rs, [])
        else if verdict = Unresolved then (Unresolved, rs, map rs_message rs)
        else (Viable, rs, []))"

definition after_requirements :: "reason list \<Rightarrow> assessment \<Rightarrow> assessment" where
  "after_requirements rs a =
     (case a of (state, reasons, unresolved) \<Rightarrow>
        if has_code ''resource_incompatible'' rs then (HardInvalid, reasons @ rs, unresolved)
        else if has_code ''resource_unknown'' rs
        then (weaken state, reasons @ rs, unresolved @ messages_of ''resource_unknown'' rs)
        else (state, reasons @ rs, unresolved))"

definition after_policy :: "reason list \<times> grade \<Rightarrow> assessment \<Rightarrow> assessment" where
  "after_policy p a =
     (case (p, a) of ((rs, verdict), (state, reasons, unresolved)) \<Rightarrow>
        if verdict = PolicyIncompatible \<and> state \<noteq> HardInvalid
        then (PolicyIncompatible, reasons @ rs, unresolved)
        else if verdict = Unresolved
        then (weaken state, reasons @ rs, unresolved @ messages_of ''policy_unknown'' rs)
        else (state, reasons @ rs, unresolved))"

definition after_environment ::
  "provider option \<Rightarrow> environment option \<Rightarrow> assessment \<Rightarrow> assessment" where
  "after_environment provider environment a =
     (case a of (state, reasons, unresolved) \<Rightarrow>
        (case environment of
           None \<Rightarrow>
             if (case provider of None \<Rightarrow> False | Some p \<Rightarrow> pv_environments p \<noteq> [])
             then (weaken state, reasons, unresolved @ [''no existing environment was resolved''])
             else a
         | Some e \<Rightarrow>
             if \<not> is_compatible e then (weaken state, reasons, unresolved @ re_unresolved e)
             else a))"

definition after_evaluation :: "evaluation \<Rightarrow> assessment \<Rightarrow> assessment" where
  "after_evaluation ev a =
     (case a of (state, reasons, unresolved) \<Rightarrow>
        if ev_state ev = ''violated'' \<and> ev_hard ev
        then (HardInvalid, reasons @ [reason_of ''constraint_violated'' (ev_message ev)
                (JStr ''provider_contract'') [ev_constraint ev]], unresolved)
        else if ev_state ev = ''unknown''
        then (weaken state, reasons @ [reason_of ''constraint_unknown'' (ev_message ev)
                (JStr ''unknown'') [ev_constraint ev]], unresolved @ [ev_message ev])
        else a)"

definition evaluations ::
  "py_ops \<Rightarrow> provider option \<Rightarrow> json dict \<Rightarrow> shape \<Rightarrow> evaluation list provided" where
  "evaluations po provider parameters s =
     (case provider of None \<Rightarrow> Inr [] | Some p \<Rightarrow> evaluate po p parameters s)"

text \<open>\<open>canonical_digest\<close> of the shape, the environment and the parameters\<close>

definition candidate_id ::
  "site_env \<Rightarrow> shape \<Rightarrow> environment option \<Rightarrow> json dict \<Rightarrow> string" where
  "candidate_id x s environment parameters =
     canonical_digest x (JObj [(''resource_shape'', JObj (shape_to_dict s)),
       (''environment'', opt_json (\<lambda>e. JObj (environment_to_dict e)) environment),
       (''parameters'', JObj parameters)])"

definition assess ::
  "site_env \<Rightarrow> workload \<Rightarrow> shape \<Rightarrow> environment option \<Rightarrow> json dict \<Rightarrow> provider option \<Rightarrow>
   claim list \<Rightarrow> assessment provided" where
  "assess x w s environment parameters provider claims =
     bindR (mapErr PyError (authorization s)) (\<lambda>auth.
     bindR (mapErr PyError (lsf_requirements (w_resources w) s)) (\<lambda>lsf.
     bindR (mapErr PyError (policy x s claims)) (\<lambda>pol.
     bindR (evaluations (x_ops x) provider parameters s) (\<lambda>evs.
     Inr (foldl (\<lambda>a ev. after_evaluation ev a)
       (after_environment provider environment
         (after_policy pol
           (after_requirements (resource_requirements (w_resources w) s @ lsf)
             (after_authorization auth)))) evs)))))"

definition evaluate_candidate ::
  "site_env \<Rightarrow> workload \<Rightarrow> provider option \<Rightarrow> claim list \<Rightarrow>
   (shape \<times> environment option) \<times> json dict \<Rightarrow> pcandidate provided" where
  "evaluate_candidate x w provider claims c =
     (case c of ((s, environment), parameters) \<Rightarrow>
        bindR (assess x w s environment parameters provider claims)
          (\<lambda>(state, reasons, unresolved).
        Inr \<lparr>pc_id = candidate_id x s environment parameters, pc_shape = s,
             pc_environment = environment, pc_parameters = parameters, pc_state = state,
             pc_reasons = reasons, pc_unresolved = sort_str (dedup unresolved)\<rparr>))"

section \<open>Pruning and exploration\<close>

text \<open>With no parameter known, a violated hard constraint depends on the shape alone.\<close>

definition group_is_hard_invalid ::
  "site_env \<Rightarrow> workload \<Rightarrow> shape \<Rightarrow> provider option \<Rightarrow> claim list \<Rightarrow> bool provided" where
  "group_is_hard_invalid x w s provider claims =
     bindR (mapErr PyError (authorization s)) (\<lambda>(_, auth).
     if auth = HardInvalid then Inr True
     else if has_code ''resource_incompatible'' (resource_requirements (w_resources w) s)
     then Inr True
     else
       bindR (mapErr PyError (policy x s claims)) (\<lambda>(_, pol).
       if pol = PolicyIncompatible then Inr True
       else
         bindR (evaluations (x_ops x) provider [] s) (\<lambda>evs.
         Inr (list_ex (\<lambda>ev. ev_state ev = ''violated'' \<and> ev_hard ev) evs))))"

definition priority :: "evaluation list \<Rightarrow> nat" where
  "priority evs =
     (if list_ex (\<lambda>ev. ev_state ev = ''violated'' \<and> ev_hard ev) evs then 2
      else if list_ex (\<lambda>ev. ev_state ev = ''unknown'') evs then 1 else 0)"

text \<open>The index as the second key makes the sort stable, which the insertion sort is.\<close>

definition assignments_by_feasibility ::
  "py_ops \<Rightarrow> provider option \<Rightarrow> json dict list \<Rightarrow> shape \<Rightarrow> json dict list provided" where
  "assignments_by_feasibility po provider assignments s =
     (case provider of
        None \<Rightarrow> Inr assignments
      | Some p \<Rightarrow>
          mapR (\<lambda>ranked. map snd (sort_by (\<lambda>a b. fst a < fst b) ranked))
            (mapM (\<lambda>a. mapR (\<lambda>evs. (priority evs, a)) (evaluate po p a s)) assignments))"

record exploration =
  xp_candidates :: "pcandidate list"
  xp_generated :: nat
  xp_theoretical :: nat
  xp_hard_invalid :: nat
  xp_viable :: nat
  xp_truncated :: bool
  xp_coverage :: string
  xp_hard_pruned :: int
  xp_explored_groups :: nat
  xp_total_groups :: nat

type_synonym group = "shape \<times> environment option"

definition sorted_environments :: "environment list \<Rightarrow> environment option list" where
  "sorted_environments es =
     (if es = [] then [None]
      else map Some (sort_by (\<lambda>a b. str_less (re_context_id a) (re_context_id b)
             \<or> (re_context_id a = re_context_id b \<and> str_less (re_name a) (re_name b))) es))"

definition groups_of :: "shape list \<Rightarrow> environment option list \<Rightarrow> group list" where
  "groups_of shapes envs = concat (map (\<lambda>s. map (\<lambda>e. (s, e)) envs) shapes)"

text \<open>A group with no assignments is pruned, one with them is expanded in their order.\<close>

definition classify_group ::
  "site_env \<Rightarrow> workload \<Rightarrow> provider option \<Rightarrow> claim list \<Rightarrow> json dict list \<Rightarrow> group \<Rightarrow>
   (group \<times> json dict list option) provided" where
  "classify_group x w provider claims assignments g =
     bindR (group_is_hard_invalid x w (fst g) provider claims) (\<lambda>hard.
     if hard then Inr (g, None)
     else mapR (\<lambda>as. (g, Some as))
            (assignments_by_feasibility (x_ops x) provider assignments (fst g)))"

definition hard_groups :: "(group \<times> json dict list option) list \<Rightarrow> group list" where
  "hard_groups cs = map fst (filter (\<lambda>c. snd c = None) cs)"

definition expandable :: "(group \<times> json dict list option) list \<Rightarrow> (group \<times> json dict) list list" where
  "expandable cs = map (\<lambda>(g, as). map (Pair g) (the as)) (filter (\<lambda>c. snd c \<noteq> None) cs)"

definition group_key :: "site_env \<Rightarrow> group \<Rightarrow> string \<times> string option" where
  "group_key x g = (shape_identity x (fst g), map_option re_context_id (snd g))"

definition coverage_text :: "bool \<Rightarrow> nat \<Rightarrow> int \<Rightarrow> nat \<Rightarrow> nat \<Rightarrow> nat \<Rightarrow> string" where
  "coverage_text truncated materialized pruned theoretical explored total_groups =
     (if truncated then
        ''explored a bounded subset: materialized '' @ str_nat materialized
        @ '' and hard-pruned '' @ str_int pruned @ '' of '' @ str_nat theoretical
        @ '' deterministic combinations across '' @ str_nat explored @ '' of ''
        @ str_nat total_groups @ '' shape/environment groups; ''
        @ ''viable and rejection counts describe only that explored subset and do not ''
        @ ''establish global absence of viable candidates''
      else
        ''explored all '' @ str_nat theoretical @ '' deterministic combinations: materialized ''
        @ str_nat materialized @ '' and hard-pruned '' @ str_int pruned @ '' across ''
        @ str_nat total_groups @ '' shape/environment groups'')"

definition parameter_choices :: "provider option \<Rightarrow> nat \<Rightarrow> (json dict list \<times> nat) provided" where
  "parameter_choices provider limit =
     (case provider of None \<Rightarrow> Inr ([[]], 1) | Some p \<Rightarrow> parameter_assignments p limit)"

text \<open>The accounting of an exploration from what was expanded and what was pruned.\<close>

definition exploration_of ::
  "site_env \<Rightarrow> nat \<Rightarrow> nat \<Rightarrow> (group \<times> json dict list option) list \<Rightarrow> (group \<times> json dict) list \<Rightarrow>
   pcandidate list \<Rightarrow> pcandidate list \<Rightarrow> exploration" where
  "exploration_of x theoretical count classified turns main representatives =
     (let candidates = main @ representatives;
          pruned = int count * int (length (hard_groups classified)) - int (length representatives);
          explored = length (dedup (map (group_key x) (hard_groups classified)
                                    @ map (group_key x \<circ> fst) turns));
          truncated = int theoretical > int (length candidates) + pruned
      in \<lparr>xp_candidates = candidates, xp_generated = length candidates,
          xp_theoretical = theoretical,
          xp_hard_invalid = length (filter (\<lambda>c. pc_state c \<in> {HardInvalid, PolicyIncompatible}) candidates),
          xp_viable = length (filter (\<lambda>c. pc_state c = Viable) candidates),
          xp_truncated = truncated,
          xp_coverage = coverage_text truncated (length candidates) pruned theoretical explored
            (length classified),
          xp_hard_pruned = pruned, xp_explored_groups = explored,
          xp_total_groups = length classified\<rparr>)"

text \<open>
  The layers over the assignments are the turns of a round robin over the expandable groups;
  both loops stop at the limit. The representatives of the pruned groups come last.
\<close>

definition explore_candidates ::
  "site_env \<Rightarrow> workload \<Rightarrow> shape list \<Rightarrow> environment list \<Rightarrow> provider option \<Rightarrow> claim list \<Rightarrow>
   nat \<Rightarrow> exploration provided" where
  "explore_candidates x w resource_shapes environments provider claims limit =
     (if \<not> limit_ok limit
      then Inl (PyError (PyValueError ''candidate limit must be between 1 and 64''))
      else
        bindR (parameter_choices provider limit) (\<lambda>(assignments, count).
        let groups = groups_of (by_identity x resource_shapes) (sorted_environments environments) in
        bindR (mapM (classify_group x w provider claims assignments) groups) (\<lambda>classified.
        let turns = take limit (round_robin (expandable classified)) in
        bindR (mapM (evaluate_candidate x w provider claims) turns) (\<lambda>main.
        let representative = (case assignments of [] \<Rightarrow> [] | a # _ \<Rightarrow> a) in
        bindR (mapM (evaluate_candidate x w provider claims)
                 (map (\<lambda>g. (g, representative))
                   (take (limit - length main) (hard_groups classified)))) (\<lambda>representatives.
        Inr (exploration_of x (length groups * count) count classified turns main representatives))))))"

end
