(* ===== verification/Samples.thy ===== *)
theory Samples
  imports Environments
begin

text \<open>Concrete interpreter parameters the witnesses evaluate with.\<close>

definition sample_ops :: py_ops where
  "sample_ops = \<lparr>f_of_int = (\<lambda>i. Some (Finite (of_int i))), f_add = (\<lambda>a b. a), f_sub = (\<lambda>a b. a),
     f_mul = (\<lambda>a b. a), f_mod = (\<lambda>a b. a), f_format = (\<lambda>s v. False)\<rparr>"

definition sample_site_env :: site_env where
  "sample_site_env = \<lparr>x_digest = (\<lambda>s. replicate 64 (CHR ''0'')), x_float = (\<lambda>f. ''1.5''),
     x_str = (\<lambda>v. ''?''), x_type_text = ''wrong type'', x_ops = sample_ops\<rparr>"

end
