(* ===== verification/SiteClaims.thy ===== *)
theory SiteClaims
  imports SiteExplorationProperties SiteShapeProperties Samples
begin

text \<open>
  The claims about site planning: justification of viable candidates, soundness of pruning,
  fairness and completeness of the exploration, and of the shapes generated per target.
\<close>

section \<open>Viable candidates\<close>

text \<open>The whole of what makes a candidate viable.\<close>

definition environment_ok :: "provider option \<Rightarrow> environment option \<Rightarrow> bool" where
  "environment_ok provider environment \<longleftrightarrow>
     (case environment of
        None \<Rightarrow> (case provider of None \<Rightarrow> True | Some p \<Rightarrow> pv_environments p = [])
      | Some e \<Rightarrow> is_compatible e)"

lemma assess_viable:
  assumes "assess x w s environment parameters provider claims = Inr (Viable, reasons, unresolved)"
  obtains auth lsf pol evs where
    "authorization s = Inr auth" "snd auth \<notin> {HardInvalid, Unresolved}"
    "\<not> has_code ''resource_incompatible'' (resource_requirements (w_resources w) s)"
    "\<not> has_code ''resource_unknown'' (resource_requirements (w_resources w) s)"
    "policy x s claims = Inr pol" "snd pol \<notin> {PolicyIncompatible, Unresolved}"
    "environment_ok provider environment"
    "evaluations (x_ops x) provider parameters s = Inr evs"
    "\<forall>ev \<in> set evs. \<not> (ev_state ev = ''violated'' \<and> ev_hard ev) \<and> ev_state ev \<noteq> ''unknown''"
proof -
  obtain auth lsf pol evs where parts: "authorization s = Inr auth"
      "lsf_requirements (w_resources w) s = Inr lsf" "policy x s claims = Inr pol"
      "evaluations (x_ops x) provider parameters s = Inr evs"
    and res: "foldl (\<lambda>a ev. after_evaluation ev a)
       (after_environment provider environment
         (after_policy pol
           (after_requirements (resource_requirements (w_resources w) s @ lsf)
             (after_authorization auth)))) evs = (Viable, reasons, unresolved)"
    using assms by (auto simp: assess_def bindR_Inr_iff mapErr_Inr_iff)
  have "fst (foldl (\<lambda>a ev. after_evaluation ev a)
       (after_environment provider environment
         (after_policy pol
           (after_requirements (resource_requirements (w_resources w) s @ lsf)
             (after_authorization auth)))) evs) = Viable"
    by (simp add: res)
  then show thesis unfolding stages
    by (intro that [OF parts(1) _ _ _ parts(3) _ _ parts(4)])
      (simp_all add: environment_ok_def)
qed

lemma evaluation_states:
  assumes "evaluate po p parameters s = Inr evs" and "ev \<in> set evs"
  shows "ev_state ev \<in> {''satisfied'', ''violated'', ''unknown''}"
proof -
  obtain c where "evaluate_constraint po parameters s c = Inr ev"
    using mapM_Inr_set [OF assms(1) [unfolded evaluate_def] assms(2)] by blast
  then obtain l r where "comparison_state po (cd_operator c) l r = Inr (ev_state ev)"
    by (auto simp: evaluate_constraint_def bindR_Inr_iff)
  then show ?thesis
    by (auto simp: comparison_state_def split: option.splits sum.splits provider_error.splits if_splits)
qed

text \<open>
  A viable candidate is justified on every account: somebody or something granted the
  authorization and nobody denied it; every requested quantity is covered by the shape; every
  hard numeric policy that applies is respected; the environment offers what is required; and
  every hard constraint of the provider is satisfied.
\<close>

definition justified :: "site_env \<Rightarrow> provider option \<Rightarrow> claim list \<Rightarrow> resources \<Rightarrow> shape \<Rightarrow> environment option \<Rightarrow>
    json dict \<Rightarrow> bool" where
  "justified x provider claims requested s environment parameters \<longleftrightarrow>
     granted s \<and> covers requested s \<and> environment_ok provider environment \<and>
     (\<forall>cl \<in> set claims. is_hard cl \<and> cl_property cl \<in> fst ` set policy_properties \<and>
        policy_applies cl s = Inr True \<longrightarrow> obeys s cl) \<and>
     (\<exists>evs. evaluations (x_ops x) provider parameters s = Inr evs \<and>
        (\<forall>ev \<in> set evs. ev_hard ev \<longrightarrow> ev_state ev = ''satisfied''))"

lemma viable_justified:
  assumes "evaluate_candidate x w provider claims ((s, environment), parameters) = Inr c"
    and "pc_state c = Viable" and "finite_claims claims"
  shows "justified x provider claims (w_resources w) s environment parameters"
proof -
  obtain reasons unresolved where
    "assess x w s environment parameters provider claims = Inr (Viable, reasons, unresolved)"
    using assms(1,2) by (auto simp: evaluate_candidate_def bindR_Inr_iff)
  then show ?thesis
  proof (rule assess_viable)
    fix auth pol evs
    assume a: "authorization s = Inr auth" "snd auth \<notin> {HardInvalid, Unresolved}"
      and r: "\<not> has_code ''resource_incompatible'' (resource_requirements (w_resources w) s)"
        "\<not> has_code ''resource_unknown'' (resource_requirements (w_resources w) s)"
      and p: "policy x s claims = Inr pol" "snd pol \<notin> {PolicyIncompatible, Unresolved}"
      and e: "environment_ok provider environment"
      and evs: "evaluations (x_ops x) provider parameters s = Inr evs"
        "\<forall>ev \<in> set evs. \<not> (ev_state ev = ''violated'' \<and> ev_hard ev) \<and> ev_state ev \<noteq> ''unknown''"
    have "ev_state ev = ''satisfied''" if ev: "ev \<in> set evs" "ev_hard ev" for ev
    proof (cases provider)
      case None
      with evs(1) ev(1) show ?thesis by (simp add: evaluations_def)
    next
      case (Some pr)
      with evs(1) have "evaluate (x_ops x) pr parameters s = Inr evs" by (simp add: evaluations_def)
      from evaluation_states [OF this ev(1)] evs(2) ev show ?thesis by auto
    qed
    with authorization_viable [OF a] requirements_cover [OF r] e evs(1)
      policy_respected [OF p assms(3)] show ?thesis unfolding justified_def by blast
  qed
qed

section \<open>Pruning\<close>

text \<open>What is known without any parameter stays as it is when the parameters are given.\<close>

lemma eval_expr_mono:
  "eval_expr po e [] s = Inr (Some v) \<Longrightarrow> eval_expr po e ps s = Inr (Some v)"
proof -
  have list: "mapM (\<lambda>e. eval_expr po e [] s) es = Inr vs \<Longrightarrow> None \<notin> set vs \<Longrightarrow>
      (\<And>e v. e \<in> set es \<Longrightarrow> eval_expr po e [] s = Inr (Some v) \<Longrightarrow> eval_expr po e ps s = Inr (Some v)) \<Longrightarrow>
      mapM (\<lambda>e. eval_expr po e ps s) es = Inr vs" for es vs
  proof (induction es arbitrary: vs)
    case (Cons e es)
    then obtain u us where u: "eval_expr po e [] s = Inr u" "mapM (\<lambda>e. eval_expr po e [] s) es = Inr us"
      "vs = u # us" by (auto simp: bindR_Inr_iff)
    from Cons.prems(2) u(3) obtain v where v: "u = Some v" by (cases u) auto
    have "eval_expr po e ps s = Inr (Some v)" using Cons.prems(3) u(1) v by simp
    moreover have "mapM (\<lambda>e. eval_expr po e ps s) es = Inr us"
      by (rule Cons.IH [OF u(2)]) (use Cons.prems u(3) in auto)
    ultimately show ?case by (simp add: u(3) v)
  qed simp
  have known: "combine f vs = Inr (Some w) \<Longrightarrow> None \<notin> set vs" for f vs w
    by (auto simp: combine_def list_ex_iff split: if_splits)
  show "eval_expr po e [] s = Inr (Some v) \<Longrightarrow> eval_expr po e ps s = Inr (Some v)"
  proof (induction e arbitrary: v)
    case (Parameter name)
    then show ?case by (simp add: jget_def known_def)
  next
    case (Add es)
    then obtain vs where vs: "mapM (\<lambda>e. eval_expr po e [] s) es = Inr vs"
      "combine (fold_op (py_add po) (JInt 0)) vs = Inr (Some v)" by (auto simp: bindR_Inr_iff)
    have "mapM (\<lambda>e. eval_expr po e ps s) es = Inr vs"
      by (rule list [OF vs(1) known [OF vs(2)]]) (rule Add.IH)
    with vs(2) show ?case by simp
  next
    case (Multiply es)
    then obtain vs where vs: "mapM (\<lambda>e. eval_expr po e [] s) es = Inr vs"
      "combine (fold_op (py_mul po) (JInt 1)) vs = Inr (Some v)" by (auto simp: bindR_Inr_iff)
    have "mapM (\<lambda>e. eval_expr po e ps s) es = Inr vs"
      by (rule list [OF vs(1) known [OF vs(2)]]) (rule Multiply.IH)
    with vs(2) show ?case by simp
  next
    case (Subtract a b)
    from Subtract.prems obtain vs where vs: "mapM (\<lambda>e. eval_expr po e [] s) [a, b] = Inr vs"
      "combine (\<lambda>vs. py_sub po (vs ! 0) (vs ! 1)) vs = Inr (Some v)"
      unfolding eval_expr.simps bindR_Inr_iff by blast
    have "mapM (\<lambda>e. eval_expr po e ps s) [a, b] = Inr vs"
      by (rule list [OF vs(1) known [OF vs(2)]]) (use Subtract.IH in auto)
    with vs(2) show ?case unfolding eval_expr.simps by simp
  qed simp_all
qed

lemma violation_mono:
  assumes "evaluate po p [] s = Inr evs0" and "evaluate po p ps s = Inr evs"
    and "ev0 \<in> set evs0" "ev_state ev0 = ''violated''" "ev_hard ev0"
  shows "\<exists>ev \<in> set evs. ev_state ev = ''violated'' \<and> ev_hard ev"
proof -
  obtain c where c: "c \<in> set (pv_constraints p)" "evaluate_constraint po [] s c = Inr ev0"
    using mapM_Inr_set [OF assms(1) [unfolded evaluate_def] assms(3)] by blast
  then obtain l r where lr: "eval_expr po (cd_left c) [] s = Inr l" "eval_expr po (cd_right c) [] s = Inr r"
    and cmp: "comparison_state po (cd_operator c) l r = Inr ''violated''" and h: "cd_hard c"
    using assms(4,5) by (auto simp: evaluate_constraint_def bindR_Inr_iff)
  from cmp obtain l' r' where some: "l = Some l'" "r = Some r'"
    by (auto simp: comparison_state_def split: option.splits)
  have "eval_expr po (cd_left c) ps s = Inr l" "eval_expr po (cd_right c) ps s = Inr r"
    using lr eval_expr_mono unfolding some by blast+
  then have "\<exists>ev. evaluate_constraint po ps s c = Inr ev \<and> ev_state ev = ''violated'' \<and> ev_hard ev"
    using cmp h by (simp add: evaluate_constraint_def)
  moreover obtain i where i: "i < length (pv_constraints p)" "pv_constraints p ! i = c"
    using c(1) by (auto simp: in_set_conv_nth)
  ultimately show ?thesis
    using mapM_Inr_nth [OF assms(2) [unfolded evaluate_def] i(1)]
      mapM_Inr_length [OF assms(2) [unfolded evaluate_def]] i
    by (metis nth_mem sum.inject(2))
qed

text \<open>
  C21. Pruning loses nothing: when a group of candidates is pruned, every candidate of the group,
  whatever its environment and its parameters, is hard invalid or incompatible with policy.
\<close>
theorem hard_pruning_is_sound:
  assumes "group_is_hard_invalid x w s provider claims = Inr True"
    and "evaluate_candidate x w provider claims ((s, environment), parameters) = Inr c"
  shows "pc_state c \<in> {HardInvalid, PolicyIncompatible}"
proof -
  obtain auth lsf pol evs where parts: "authorization s = Inr auth"
      "lsf_requirements (w_resources w) s = Inr lsf" "policy x s claims = Inr pol"
      "evaluations (x_ops x) provider parameters s = Inr evs"
    and st: "pc_state c = fst (foldl (\<lambda>a ev. after_evaluation ev a)
       (after_environment provider environment
         (after_policy pol
           (after_requirements (resource_requirements (w_resources w) s @ lsf)
             (after_authorization auth)))) evs)"
    using assms(2)
    by (auto simp: evaluate_candidate_def assess_def bindR_Inr_iff mapErr_Inr_iff split: prod.splits)
  have "snd auth = HardInvalid \<or> has_code ''resource_incompatible'' (resource_requirements (w_resources w) s)
      \<or> snd pol = PolicyIncompatible
      \<or> (\<exists>ev \<in> set evs. ev_state ev = ''violated'' \<and> ev_hard ev)"
  proof (rule ccontr)
    assume no: "\<not> ?thesis"
    then obtain evs0 where e0: "evaluations (x_ops x) provider [] s = Inr evs0"
      and "list_ex (\<lambda>ev. ev_state ev = ''violated'' \<and> ev_hard ev) evs0"
      using assms(1) parts(1,3)
      by (auto simp: group_is_hard_invalid_def bindR_Inr_iff split: prod.splits)
    then obtain ev0 where ev0: "ev0 \<in> set evs0" "ev_state ev0 = ''violated''" "ev_hard ev0"
      by (auto simp: list_ex_iff)
    show False
    proof (cases provider)
      case None
      with e0 ev0(1) show False by (simp add: evaluations_def)
    next
      case (Some p)
      with e0 parts(4) have "evaluate (x_ops x) p [] s = Inr evs0" "evaluate (x_ops x) p parameters s = Inr evs"
        by (simp_all add: evaluations_def)
      from violation_mono [OF this ev0] no show False by blast
    qed
  qed
  then have "invalid_grade (pc_state c)" unfolding st
    by (blast intro: invalid_evaluations invalid_after_environment invalid_after_policy
        invalid_after_requirements invalid_after_authorization has_code_append [THEN iffD2])
  then show ?thesis by (simp add: invalid_grade_def)
qed

section \<open>Exploration\<close>

text \<open>The parameter assignments an exploration ranges over.\<close>

definition choice :: "provider option \<Rightarrow> json dict \<Rightarrow> bool" where
  "choice provider a \<longleftrightarrow> (case provider of None \<Rightarrow> a = [] | Some p \<Rightarrow> assigns p a)"

lemma parameter_choices_Inr:
  assumes "parameter_choices provider limit = Inr (as, n)" and "1 \<le> limit"
  shows "length as = min limit n \<and> 1 \<le> n \<and> (n \<le> limit \<longrightarrow> (\<forall>a. choice provider a \<longrightarrow> a \<in> set as))"
proof (cases provider)
  case None
  with assms show ?thesis by (auto simp: parameter_choices_def choice_def)
next
  case (Some p)
  with assms(1) have pa: "parameter_assignments p limit = Inr (as, n)"
    by (simp add: parameter_choices_def)
  have "product_of (map candidate_values ds) \<noteq> []" for ds :: "param list"
  proof (induction ds)
    case (Cons d ds)
    then show ?case using candidate_values_nonempty [of d] by (auto simp: neq_Nil_conv)
  qed simp
  moreover have "n = length (product_of (map candidate_values (pv_parameters p)))"
    using pa unfolding assignments_Inr by blast
  ultimately have "1 \<le> n" by (metis One_nat_def Suc_leI length_greater_0_conv)
  with pa Some show ?thesis
    by (auto simp: assignments_Inr assigns_product choice_def)
qed

lemma feasibility_same:
  assumes "assignments_by_feasibility po provider as s = Inr bs"
  shows "set bs = set as \<and> length bs = length as"
proof (cases provider)
  case None
  with assms show ?thesis by (simp add: assignments_by_feasibility_def)
next
  case (Some p)
  with assms obtain ranked where
    r: "mapM (\<lambda>a. mapR (\<lambda>evs. (priority evs, a)) (evaluate po p a s)) as = Inr ranked"
    and bs: "bs = map snd (sort_by (\<lambda>a b. fst a < fst b) ranked)"
    by (auto simp: assignments_by_feasibility_def mapR_Inr_iff)
  have "map snd ranked = as" using r
    by (induction as arbitrary: ranked) (auto simp: bindR_Inr_iff mapR_Inr_iff)
  then have "set as = snd ` set ranked" "length as = length ranked"
    by (metis list.set_map) (metis length_map \<open>map snd ranked = as\<close>)
  then show ?thesis using bs by simp
qed

lemma classify_all:
  assumes "mapM (classify_group x w provider claims as) groups = Inr cs"
  shows "map fst cs = groups \<and>
    (\<forall>c \<in> set cs. (snd c = None \<longleftrightarrow> group_is_hard_invalid x w (fst (fst c)) provider claims = Inr True) \<and>
       (\<forall>bs. snd c = Some bs \<longrightarrow> set bs = set as \<and> length bs = length as))"
  using assms
proof (induction groups arbitrary: cs)
  case (Cons g groups)
  then obtain c rest where c: "classify_group x w provider claims as g = Inr c"
    and rest: "mapM (classify_group x w provider claims as) groups = Inr rest" and cs: "cs = c # rest"
    by (auto simp: bindR_Inr_iff)
  from c have "fst c = g \<and>
      (snd c = None \<longleftrightarrow> group_is_hard_invalid x w (fst g) provider claims = Inr True) \<and>
       (\<forall>bs. snd c = Some bs \<longrightarrow> set bs = set as \<and> length bs = length as)"
    by (auto simp: classify_group_def bindR_Inr_iff mapR_Inr_iff dest: feasibility_same split: if_splits)
  with Cons.IH [OF rest] cs show ?case by auto
qed simp

lemma explore_parts:
  assumes "explore_candidates x w shapes envs provider claims limit = Inr e"
  obtains as n cs main reps where
    "1 \<le> limit" "parameter_choices provider limit = Inr (as, n)"
    "mapM (classify_group x w provider claims as)
       (groups_of (by_identity x shapes) (sorted_environments envs)) = Inr cs"
    "mapM (evaluate_candidate x w provider claims) (take limit (round_robin (expandable cs))) = Inr main"
    "length reps = min (limit - length main) (length (hard_groups cs))"
    "e = exploration_of x (length (groups_of (by_identity x shapes) (sorted_environments envs)) * n) n cs
       (take limit (round_robin (expandable cs))) main reps"
proof -
  let ?groups = "groups_of (by_identity x shapes) (sorted_environments envs)"
  from assms have lim: "limit_ok limit" by (simp add: explore_candidates_def split: if_splits)
  with assms obtain as n where a: "parameter_choices provider limit = Inr (as, n)"
    unfolding explore_candidates_def by (auto simp: bindR_Inr_iff)
  with assms lim obtain cs where c: "mapM (classify_group x w provider claims as) ?groups = Inr cs"
    unfolding explore_candidates_def by (auto simp: bindR_Inr_iff Let_def)
  with assms lim a obtain main where
    m: "mapM (evaluate_candidate x w provider claims) (take limit (round_robin (expandable cs))) = Inr main"
    unfolding explore_candidates_def by (auto simp: bindR_Inr_iff Let_def)
  with assms lim a c obtain reps where
    r: "mapM (evaluate_candidate x w provider claims)
          (map (\<lambda>g. (g, case as of [] \<Rightarrow> [] | a # _ \<Rightarrow> a)) (take (limit - length main) (hard_groups cs)))
        = Inr reps"
      "e = exploration_of x (length ?groups * n) n cs (take limit (round_robin (expandable cs))) main reps"
    unfolding explore_candidates_def by (auto simp: bindR_Inr_iff Let_def)
  have "length reps = min (limit - length main) (length (hard_groups cs))"
    using mapM_Inr_length [OF r(1)] by simp
  with that a c m r(2) lim show thesis by (simp add: limit_ok_def)
qed

lemma evaluated_candidate:
  "evaluate_candidate x w provider claims ((s, env), ps) = Inr c \<Longrightarrow>
     pc_shape c = s \<and> pc_environment c = env \<and> pc_parameters c = ps"
  by (auto simp: evaluate_candidate_def bindR_Inr_iff split: prod.splits)

text \<open>Each candidate of an exploration is the evaluation of a shape, an environment and an assignment.\<close>

lemma explored_candidate:
  assumes "explore_candidates x w shapes envs provider claims limit = Inr e" and "c \<in> set (xp_candidates e)"
  shows "evaluate_candidate x w provider claims ((pc_shape c, pc_environment c), pc_parameters c) = Inr c"
proof -
  obtain turns turns' main reps where
    "mapM (evaluate_candidate x w provider claims) turns = Inr main"
    "mapM (evaluate_candidate x w provider claims) turns' = Inr reps" "xp_candidates e = main @ reps"
    using assms(1) unfolding explore_candidates_def
    by (fastforce simp: bindR_Inr_iff Let_def exploration_of_def split: if_splits prod.splits)
  then obtain g ps where c: "evaluate_candidate x w provider claims (g, ps) = Inr c"
    using assms(2) mapM_Inr_set by (metis Un_iff set_append surj_pair)
  obtain s env where "g = (s, env)" by (cases g)
  with c evaluated_candidate [OF c [unfolded this]] show ?thesis by simp
qed

text \<open>Each turn that was taken has its candidate.\<close>

lemma turn_candidate:
  assumes "mapM (evaluate_candidate x w provider claims) turns = Inr cands"
    and "((s, env), a) \<in> set turns"
  shows "\<exists>c \<in> set cands. pc_shape c = s \<and> pc_environment c = env \<and> pc_parameters c = a"
proof -
  obtain i where i: "i < length turns" "turns ! i = ((s, env), a)"
    using assms(2) unfolding in_set_conv_nth by blast
  from mapM_Inr_nth [OF assms(1) i(1)] i(2)
  have "evaluate_candidate x w provider claims ((s, env), a) = Inr (cands ! i)" by simp
  moreover have "cands ! i \<in> set cands" using i(1) mapM_Inr_length [OF assms(1)] by simp
  ultimately show ?thesis using evaluated_candidate by metis
qed

lemma in_expandable:
  assumes "c \<in> set cs" "fst c = g" "snd c = Some bs"
  shows "map (Pair g) bs \<in> set (expandable cs)"
proof -
  have "c = (g, Some bs)" using assms(2,3) by (simp add: prod_eq_iff)
  with assms(1) have "(g, Some bs) \<in> set (filter (\<lambda>c. snd c \<noteq> None) cs)" by simp
  then have "(\<lambda>(g, as). map (Pair g) (the as)) (g, Some bs) \<in> set (expandable cs)"
    unfolding expandable_def set_map by (rule imageI)
  then show ?thesis by simp
qed

lemma expandable_lengths:
  assumes "\<forall>c \<in> set cs. \<forall>bs. snd c = Some bs \<longrightarrow> length bs = n"
  shows "length (round_robin (expandable cs)) = n * length (filter (\<lambda>c. snd c \<noteq> None) cs)"
  using assms by (induction cs) (auto simp: expandable_def split: prod.splits)

lemma groups_split:
  "length cs = length (hard_groups cs) + length (filter (\<lambda>c. snd c \<noteq> None) cs)"
  by (induction cs) (auto simp: hard_groups_def)

text \<open>
  C22. An exploration that is not truncated has considered every combination: each shape and
  environment with each parameter assignment was made a candidate, unless its group was pruned
  as hard invalid.
\<close>
theorem untruncated_exploration_is_complete:
  assumes "explore_candidates x w shapes envs provider claims limit = Inr e"
    and "\<not> xp_truncated e"
    and "(s, env) \<in> set (groups_of (by_identity x shapes) (sorted_environments envs))"
    and "choice provider a"
  shows "group_is_hard_invalid x w s provider claims = Inr True \<or>
    (\<exists>c \<in> set (xp_candidates e). pc_shape c = s \<and> pc_environment c = env \<and> pc_parameters c = a)"
  using assms(1)
proof (rule explore_parts)
  fix as n cs main reps
  let ?groups = "groups_of (by_identity x shapes) (sorted_environments envs)"
  let ?turns = "round_robin (expandable cs)"
  assume lim: "1 \<le> limit" and as: "parameter_choices provider limit = Inr (as, n)"
    and cs: "mapM (classify_group x w provider claims as) ?groups = Inr cs"
    and main: "mapM (evaluate_candidate x w provider claims) (take limit ?turns) = Inr main"
    and reps: "length reps = min (limit - length main) (length (hard_groups cs))"
    and e: "e = exploration_of x (length ?groups * n) n cs (take limit ?turns) main reps"
  note choices = parameter_choices_Inr [OF as lim]
  note classified = classify_all [OF cs]
  have cands: "xp_candidates e = main @ reps" by (simp add: e exploration_of_def Let_def)
  let ?X = "length (filter (\<lambda>c. snd c \<noteq> None) cs)"
  have turns: "length ?turns = length as * ?X"
    by (rule expandable_lengths) (use classified in blast)
  have main_len: "length main = min limit (length as * ?X)"
    using mapM_Inr_length [OF main] turns by simp
  have groups: "length ?groups = length (hard_groups cs) + ?X"
    using classified groups_split [of cs] by (metis length_map)
  have "int (length ?groups * n) \<le> int (length main + length reps)
      + (int n * int (length (hard_groups cs)) - int (length reps))"
    using assms(2) by (simp add: e exploration_of_def Let_def)
  then have "int (length ?groups * n) \<le> int (length main + n * length (hard_groups cs))" by simp
  then have "length ?groups * n \<le> length main + n * length (hard_groups cs)"
    by (simp only: of_nat_le_iff)
  with groups have cover: "?X * n \<le> length main" by (simp add: algebra_simps)
  from assms(3) classified obtain c where c: "c \<in> set cs" "fst c = (s, env)"
    by (metis (no_types, lifting) image_iff list.set_map)
  show ?thesis
  proof (cases "snd c")
    case None
    with classified c show ?thesis by force
  next
    case (Some bs)
    have "c \<in> set (filter (\<lambda>c. snd c \<noteq> None) cs)" using c(1) Some by simp
    then have X: "1 \<le> ?X" by (metis One_nat_def Suc_leI length_pos_if_in_set)
    have "?X * n \<le> ?X * length as" using cover main_len by (simp add: mult.commute)
    with X choices have n: "n \<le> limit" "length as = n" by auto
    with choices assms(4) have "a \<in> set as" by blast
    with classified c(1) Some have "a \<in> set bs" by blast
    then have "((s, env), a) \<in> set (map (Pair (s, env)) bs)" by simp
    moreover have "set (map (Pair (s, env)) bs) \<in> set (map set (expandable cs))"
      unfolding set_map [of set] by (rule imageI) (rule in_expandable [OF c Some])
    ultimately have "((s, env), a) \<in> \<Union> (set (map set (expandable cs)))" by (rule UnionI [rotated])
    then have "((s, env), a) \<in> set ?turns" by (simp only: set_round_robin)
    moreover have "length as * ?X \<le> limit" using cover main_len n by (simp add: mult.commute)
    then have "take limit ?turns = ?turns" using turns by simp
    ultimately have "((s, env), a) \<in> set (take limit ?turns)" by simp
    from turn_candidate [OF main this] show ?thesis unfolding cands by auto
  qed
qed

text \<open>
  C23. The exploration is bounded and fair: it has at most as many candidates as the limit, the
  graded counts are within them, and when the groups that were not pruned are no more than the
  limit, each of them has a candidate.
\<close>
theorem exploration_is_bounded_and_fair:
  assumes "explore_candidates x w shapes envs provider claims limit = Inr e"
  shows "length (xp_candidates e) \<le> limit \<and> xp_generated e = length (xp_candidates e) \<and>
    xp_viable e + xp_hard_invalid e \<le> xp_generated e \<and>
    (length (filter (\<lambda>g. group_is_hard_invalid x w (fst g) provider claims \<noteq> Inr True)
       (groups_of (by_identity x shapes) (sorted_environments envs))) \<le> limit \<longrightarrow>
     (\<forall>(s, env) \<in> set (groups_of (by_identity x shapes) (sorted_environments envs)).
        group_is_hard_invalid x w s provider claims \<noteq> Inr True \<longrightarrow>
        (\<exists>c \<in> set (xp_candidates e). pc_shape c = s \<and> pc_environment c = env)))"
  using assms
proof (rule explore_parts)
  fix as n cs main reps
  let ?groups = "groups_of (by_identity x shapes) (sorted_environments envs)"
  let ?turns = "round_robin (expandable cs)"
  let ?open = "\<lambda>g. group_is_hard_invalid x w (fst g) provider claims \<noteq> Inr True"
  assume lim: "1 \<le> limit" and as: "parameter_choices provider limit = Inr (as, n)"
    and cs: "mapM (classify_group x w provider claims as) ?groups = Inr cs"
    and main: "mapM (evaluate_candidate x w provider claims) (take limit ?turns) = Inr main"
    and reps: "length reps = min (limit - length main) (length (hard_groups cs))"
    and e: "e = exploration_of x (length ?groups * n) n cs (take limit ?turns) main reps"
  have cands: "xp_candidates e = main @ reps" by (simp add: e exploration_of_def Let_def)
  have main_len: "length main \<le> limit" using mapM_Inr_length [OF main] by simp
  note classified = classify_all [OF cs]
  have "as \<noteq> []" using parameter_choices_Inr [OF as lim] lim by auto
  with classified have ne: "\<forall>xs \<in> set (expandable cs). xs \<noteq> []"
    by (auto simp: expandable_def)
  have "filter (?open \<circ> fst) cs = filter (\<lambda>c. snd c \<noteq> None) cs"
    by (rule filter_cong) (use classified in auto)
  moreover have "filter ?open ?groups = map fst (filter (?open \<circ> fst) cs)"
    using classified filter_map by metis
  ultimately have open_len: "length (filter ?open ?groups) = length (expandable cs)"
    by (simp add: expandable_def)
  have fair: "\<exists>c \<in> set (xp_candidates e). pc_shape c = s \<and> pc_environment c = env"
    if g: "(s, env) \<in> set ?groups" "?open (s, env)" and small: "length (expandable cs) \<le> limit" for s env
  proof -
    from g(1) classified obtain c where c: "c \<in> set cs" "fst c = (s, env)"
      by (metis (no_types, lifting) image_iff list.set_map)
    with g(2) classified obtain bs where bs: "snd c = Some bs" by (cases "snd c") force+
    from round_robin_turn [OF ne small in_expandable [OF c bs]]
    have turn: "hd (map (Pair (s, env)) bs) \<in> set (take limit ?turns)" .
    have "bs \<noteq> []" using classified c(1) bs \<open>as \<noteq> []\<close> by fastforce
    with turn have "((s, env), hd bs) \<in> set (take limit ?turns)" by (simp add: hd_map)
    from turn_candidate [OF main this] show ?thesis unfolding cands by auto
  qed
  have graded: "length (filter (\<lambda>c. pc_state c = Viable) xs)
      + length (filter (\<lambda>c. pc_state c \<in> {HardInvalid, PolicyIncompatible}) xs) \<le> length xs" for xs
    by (induction xs) auto
  have counts: "xp_viable e + xp_hard_invalid e \<le> xp_generated e"
    using graded [of "main @ reps"] by (simp only: e exploration_of_def Let_def exploration.simps)
  from main_len reps cands counts fair open_len show ?thesis
    by (auto simp: e exploration_of_def Let_def)
qed

section \<open>Shapes per target\<close>

lemma unique_shapes_subset: "set (unique_shapes x ss) \<subseteq> set ss"
proof
  fix s assume "s \<in> set (unique_shapes x ss)"
  then obtain key where key: "key \<in> shape_identity x ` set ss"
    and s: "s = the (map_of (rev (map (\<lambda>s. (shape_identity x s, s)) ss)) key)"
    by (auto simp: unique_shapes_def)
  have "map_of (rev (map (\<lambda>s. (shape_identity x s, s)) ss)) key \<noteq> None"
    using key by (auto simp: map_of_eq_None_iff image_iff)
  then obtain t where t: "map_of (rev (map (\<lambda>s. (shape_identity x s, s)) ss)) key = Some t" by blast
  from map_of_SomeD [OF this] s t show "s \<in> set ss" by auto
qed

lemma unique_shapes_Nil [simp]: "unique_shapes x ss = [] \<longleftrightarrow> ss = []"
proof -
  have "length (unique_shapes x ss) = length (dedup (map (shape_identity x) ss))"
    by (simp add: unique_shapes_def)
  then show ?thesis by (metis dedup_eq_Nil length_0_conv list.map_disc_iff)
qed

text \<open>
  The shapes offered for a request are at most the limit, each is a shape of one of the
  site's targets, and when the targets are no more than the limit, every target that has a
  shape at all is offered with one: no target starves another.
\<close>
theorem every_target_is_served:
  assumes "generate_resource_shapes x snapshot w provider claims limit = Inr ss"
    and "provider_hints (x_ops x) provider limit = Inr hints"
  shows "length ss \<le> limit \<and>
    (\<forall>s \<in> set ss. \<exists>t \<in> set (execution_targets snapshot). \<exists>ts.
       target_shapes t (w_resources w) hints claims limit = Inr ts \<and> s \<in> set ts) \<and>
    (length (execution_targets snapshot) \<le> limit \<longrightarrow>
     (\<forall>t \<in> set (execution_targets snapshot). \<exists>ts.
        target_shapes t (w_resources w) hints claims limit = Inr ts \<and>
        (ts = [] \<or> set ts \<inter> set ss \<noteq> {})))"
proof -
  obtain tss where tss: "mapM (\<lambda>t. target_shapes t (w_resources w) hints claims limit)
        (sorted_targets snapshot) = Inr tss"
    and ss: "ss = take limit (round_robin (map (unique_shapes x) (filter (\<lambda>ts. ts \<noteq> []) tss)))"
    using assms by (auto simp: generate_resource_shapes_def per_target_shapes_def bindR_Inr_iff
        mapErr_Inr_iff mapR_Inr_iff split: if_splits)
  let ?lists = "map (unique_shapes x) (filter (\<lambda>ts. ts \<noteq> []) tss)"
  have targets: "set (sorted_targets snapshot) = set (execution_targets snapshot)"
    "length (sorted_targets snapshot) = length (execution_targets snapshot)"
    by (simp_all add: sorted_targets_def)
  have from_target: "\<exists>t \<in> set (execution_targets snapshot). \<exists>ts.
       target_shapes t (w_resources w) hints claims limit = Inr ts \<and> s \<in> set ts"
    if s: "s \<in> set ss" for s
  proof -
    have "s \<in> set (round_robin ?lists)" using s ss by (auto dest: in_set_takeD)
    then obtain ts where ts: "ts \<in> set tss" "s \<in> set (unique_shapes x ts)"
      by (auto simp only: set_round_robin set_map set_filter)
    with mapM_Inr_set [OF tss ts(1)] unique_shapes_subset targets show ?thesis by blast
  qed
  have ne: "\<forall>l \<in> set ?lists. l \<noteq> []" by auto
  have served: "\<exists>ts. target_shapes t (w_resources w) hints claims limit = Inr ts \<and>
        (ts = [] \<or> set ts \<inter> set ss \<noteq> {})"
    if few: "length (execution_targets snapshot) \<le> limit" and t: "t \<in> set (execution_targets snapshot)" for t
  proof -
    from t targets obtain i where i: "i < length (sorted_targets snapshot)" "sorted_targets snapshot ! i = t"
      unfolding in_set_conv_nth [symmetric] by (metis in_set_conv_nth)
    have ti: "target_shapes t (w_resources w) hints claims limit = Inr (tss ! i)"
      using mapM_Inr_nth [OF tss i(1)] i(2) by simp
    show ?thesis
    proof (cases "tss ! i = []")
      case False
      have "tss ! i \<in> set tss" using i(1) mapM_Inr_length [OF tss] by simp
      with False have "unique_shapes x (tss ! i) \<in> set ?lists" by auto
      moreover have "length ?lists \<le> limit"
        using few targets(2) mapM_Inr_length [OF tss] length_filter_le [of "\<lambda>ts. ts \<noteq> []" tss] by simp
      ultimately have "hd (unique_shapes x (tss ! i)) \<in> set ss"
        unfolding ss using round_robin_turn [OF ne] by blast
      moreover have "hd (unique_shapes x (tss ! i)) \<in> set (tss ! i)"
        using False unique_shapes_subset [of x "tss ! i"] hd_in_set [of "unique_shapes x (tss ! i)"] by auto
      ultimately show ?thesis using ti by blast
    qed (use ti in blast)
  qed
  have "length ss \<le> limit" by (simp add: ss)
  with from_target served show ?thesis by blast
qed

text \<open>
  A context resolved as compatible really offers what is required: for every required
  capability the inventory holds one observed in that context under that name and kind, cited as
  evidence, and its activation passed the checks of an activation.
\<close>
theorem compatible_environment_is_observed:
  assumes "resolve_environments x snapshot required = Inr es" and "e \<in> set es" and "is_compatible e"
  shows "\<exists>k \<in> set (i_contexts snapshot). re_context_id e = k_id k \<and>
    EnvironmentActivation (re_activation e) = Inr (re_activation e) \<and>
    (\<forall>r \<in> set required. truthy (jget_or r ''required'' (JBool True)) \<longrightarrow>
       (\<exists>c \<in> set (i_capabilities snapshot). cap_context_id c = k_id k \<and>
          jget r ''name'' = JStr (cap_name c) \<and> cap_observation c = ''observed'' \<and>
          jget r ''kind'' \<in> JStr ` ({''any'', cap_kind c} \<union> set (cap_classifications c)) \<and>
          capability_evidence k c \<in> set (re_evidence e)))"
proof -
  obtain k where "k \<in> set (i_contexts snapshot)" "resolve_environment x snapshot required k = Inr e"
    using mapM_Inr_set [OF assms(1) [unfolded resolve_environments_def] assms(2)] by auto
  with resolve_environment_compatible [OF this(2) assms(3)] show ?thesis
    unfolding capability_matches_True by blast
qed

section \<open>A concrete site\<close>

definition granted_shape :: shape where
  "granted_shape = empty_shape\<lparr>s_nodes := Some 2, s_total_cpus := Some 8, s_scheduler_class := JStr ''debug'',
     s_evidence := JArr [JObj [(''kind'', JStr ''user_declared''),
       (''authorization'', JStr ''authorized'')]]\<rparr>"

definition denied_shape :: shape where
  "denied_shape = granted_shape\<lparr>s_evidence := JArr [JObj [(''authorization'', JStr ''denied'')]]\<rparr>"

definition sample_workload :: workload where
  "sample_workload = \<lparr>w_id = ''w'', w_created_at = ''t'', w_working_directory = ''/p'',
     w_executable = ''run'', w_arguments = [], w_inputs = [], w_outputs = [],
     w_resources = no_resources\<lparr>r_cpus := Some 4\<rparr>, w_capabilities = [], w_launcher = None,
     w_constraints = \<lparr>x_backend = ''auto'', x_target = None, x_context = None\<rparr>, w_evidence = [],
     w_parent = None, w_markers = [], w_metadata = []\<rparr>"

definition node_policy :: claim where
  "node_policy = \<lparr>cl_id = ''p1'', cl_site_id = ''s1'', cl_subject = ''debug'', cl_property = ''max_nodes'',
     cl_value = JInt 4, cl_evidence_kind = ''site_declared'', cl_interpretation = ''hard_constraint'',
     cl_source_identity = ''site'', cl_created_at = ''t'', cl_source_identifier = None,
     cl_source_url = None, cl_retrieved_at = None, cl_document_date = None, cl_content_digest = None,
     cl_applicability = \<lparr>ap_scope = ''partition'', ap_value = Some ''debug''\<rparr>\<rparr>"

lemma granted_authorization: "authorization granted_shape = Inr ([], Viable)"
  by (simp add: authorization_def authorization_values_def granted_shape_def empty_shape_def py_list_def
      authorization_value_def jget_or_def denials_def grants_def)

lemma denied_authorization:
  "\<exists>rs. authorization denied_shape = Inr (rs, HardInvalid)"
  by (simp add: authorization_def authorization_values_def denied_shape_def granted_shape_def
      empty_shape_def py_list_def authorization_value_def jget_or_def denials_def)

lemma node_policy_respected: "policy sample_site_env granted_shape [node_policy] = Inr ([], Viable)"
  by (simp add: policy_def node_policy_def is_hard_def policy_properties_def policy_applies_def
      granted_shape_def empty_shape_def property_verdict_def policy_number_def worse_def Let_def
      dedup_def)

lemma sample_assess:
  "assess sample_site_env sample_workload granted_shape None [] None [node_policy] = Inr (Viable, [], [])"
  by (simp add: assess_def granted_authorization node_policy_respected evaluations_def)
    (simp add: lsf_requirements_def granted_shape_def empty_shape_def jget_def resource_requirements_def
      requirement_mapping_def requirement_reason_def sample_workload_def no_resources_def
      after_authorization_def after_requirements_def after_policy_def after_environment_def
      has_code_def)

lemma sample_candidate:
  "\<exists>c. evaluate_candidate sample_site_env sample_workload None [node_policy] ((granted_shape, None), [])
     = Inr c \<and> pc_state c = Viable"
  by (simp add: evaluate_candidate_def sample_assess)

lemma denied_pruned:
  "group_is_hard_invalid sample_site_env sample_workload denied_shape None [] = Inr True"
  using denied_authorization by (auto simp: group_is_hard_invalid_def)

theorem hard_pruning_is_sound_witness:
  "\<exists>c. evaluate_candidate sample_site_env sample_workload None [] ((denied_shape, None), []) = Inr c \<and>
     pc_state c \<in> {HardInvalid, PolicyIncompatible}"
proof -
  obtain rs where "authorization denied_shape = Inr (rs, HardInvalid)" using denied_authorization by blast
  then have "\<exists>c. evaluate_candidate sample_site_env sample_workload None [] ((denied_shape, None), []) = Inr c"
    by (simp add: evaluate_candidate_def assess_def policy_def evaluations_def lsf_requirements_def
        denied_shape_def granted_shape_def empty_shape_def split: prod.split)
  with hard_pruning_is_sound [OF denied_pruned] show ?thesis by blast
qed

lemma granted_open:
  "group_is_hard_invalid sample_site_env sample_workload granted_shape None [node_policy] = Inr False"
  by (simp add: group_is_hard_invalid_def granted_authorization node_policy_respected evaluations_def)
    (simp add: has_code_def resource_requirements_def requirement_mapping_def requirement_reason_def
      granted_shape_def empty_shape_def sample_workload_def no_resources_def)

lemma sample_groups:
  "groups_of (by_identity x [granted_shape]) (sorted_environments []) = [(granted_shape, None)]"
  by (simp add: groups_of_def by_identity_def sorted_environments_def)

lemma sample_exploration:
  "\<exists>e. explore_candidates sample_site_env sample_workload [granted_shape] [] None [node_policy] 2 = Inr e
     \<and> \<not> xp_truncated e"
proof -
  obtain c where c: "evaluate_candidate sample_site_env sample_workload None [node_policy]
      ((granted_shape, None), []) = Inr c"
    using sample_candidate by blast
  have cs: "classify_group sample_site_env sample_workload None [node_policy] [[]] (granted_shape, None)
      = Inr ((granted_shape, None), Some [[]])"
    by (simp add: classify_group_def granted_open assignments_by_feasibility_def)
  have turns: "round_robin [[((granted_shape, None), [])]] = [((granted_shape, None), [])]"
    by (simp add: round_robin.simps)
  show ?thesis
    using c by (simp add: explore_candidates_def limit_ok_def DEFAULT_CANDIDATE_LIMIT_def
        parameter_choices_def sample_groups cs expandable_def turns hard_groups_def
        exploration_of_def Let_def)
qed

theorem untruncated_exploration_is_complete_witness:
  "\<exists>e. explore_candidates sample_site_env sample_workload [granted_shape] [] None [node_policy] 2 = Inr e
     \<and> (\<exists>c \<in> set (xp_candidates e). pc_shape c = granted_shape \<and> pc_environment c = None \<and>
          pc_parameters c = [])"
proof -
  obtain e where e: "explore_candidates sample_site_env sample_workload [granted_shape] [] None
      [node_policy] 2 = Inr e" "\<not> xp_truncated e"
    using sample_exploration by blast
  have "choice None []" by (simp add: choice_def)
  from untruncated_exploration_is_complete [OF e _ this, of granted_shape None] e(1) granted_open
  show ?thesis by (simp add: sample_groups)
qed

theorem exploration_is_bounded_and_fair_witness:
  "\<exists>e. explore_candidates sample_site_env sample_workload [granted_shape] [] None [node_policy] 2 = Inr e
     \<and> length (xp_candidates e) \<le> 2 \<and> (\<exists>c \<in> set (xp_candidates e). pc_shape c = granted_shape)"
proof -
  obtain e where e: "explore_candidates sample_site_env sample_workload [granted_shape] [] None
      [node_policy] 2 = Inr e"
    using sample_exploration by blast
  from exploration_is_bounded_and_fair [OF e] e granted_open show ?thesis
    by (auto simp: sample_groups)
qed

definition sample_inventory :: inventory where
  "sample_inventory = \<lparr>i_id = ''i1'', i_targets = [sample_target], i_schedulers = [],
     i_contexts = [\<lparr>k_id = ''k1'', k_target_id = None, k_key = ''a'', k_kind = ''python'',
       k_name = ''base'', k_locator = None, k_metadata = []\<rparr>],
     i_capabilities = [\<lparr>cap_id = ''c1'', cap_context_id = ''k1'', cap_kind = ''executable'',
       cap_name = ''mpirun'', cap_observation = ''observed'', cap_classifications = [''launcher'']\<rparr>]\<rparr>"

definition sample_need :: "json dict" where
  "sample_need = [(''kind'', JStr ''launcher''), (''name'', JStr ''mpirun'')]"

lemma sample_offered:
  "generate_resource_shapes sample_site_env sample_inventory
     (sample_workload\<lparr>w_resources := sample_requested\<rparr>) None [] 1 = Inr [sample_shape]"
proof -
  have t: "target_shapes sample_target sample_requested [] [] (Suc 0) = Inr [sample_shape]"
    using sample_generated
    by (simp add: target_shapes_def scheduler_family_def sample_target_def jget_def)
  have ts: "sorted_targets sample_inventory = [sample_target]"
    by (simp add: sorted_targets_def execution_targets_def sample_inventory_def sample_target_def)
  have u: "unique_shapes x [sample_shape] = [sample_shape]" for x
    by (simp add: unique_shapes_def dedup_def sort_str_def)
  have rr: "round_robin [[sample_shape]] = [sample_shape]" by (simp add: round_robin.simps)
  show ?thesis
    by (simp add: generate_resource_shapes_def limit_ok_def DEFAULT_CANDIDATE_LIMIT_def
        provider_hints_def per_target_shapes_def ts t u rr)
qed

theorem every_target_is_served_witness:
  "\<exists>ts. target_shapes sample_target sample_requested [] [] 1 = Inr ts \<and>
     (ts = [] \<or> set ts \<inter> {sample_shape} \<noteq> {})"
proof -
  have "provider_hints (x_ops sample_site_env) None 1 = Inr []" by (simp add: provider_hints_def)
  from every_target_is_served [OF sample_offered this] show ?thesis
    by (simp add: execution_targets_def sample_inventory_def sample_target_def)
qed

lemma sample_resolved:
  "\<exists>e. resolve_environments sample_site_env sample_inventory [sample_need] = Inr [e] \<and> is_compatible e \<and>
     re_context_id e = ''k1''"
  by (simp add: resolve_environments_def resolve_environment_def sample_inventory_def sample_need_def
      requirement_outcome_def capability_matches_def context_activation_def activation_from_dict_def
      jget_def jget_or_def py_list_def is_compatible_def Let_def)

theorem compatible_environment_is_observed_witness:
  "\<exists>c \<in> set (i_capabilities sample_inventory). cap_name c = ''mpirun'' \<and> cap_observation c = ''observed''"
proof -
  obtain e where e: "resolve_environments sample_site_env sample_inventory [sample_need] = Inr [e]"
    "is_compatible e" using sample_resolved by blast
  from compatible_environment_is_observed [OF e(1) _ e(2)] show ?thesis
    by (auto simp: sample_need_def jget_def jget_or_def truthy_def)
qed

end
