(* ===== verification/Plans.thy ===== *)
theory Plans
  imports Environments
begin

text \<open>
  Plan candidates, execution plans and resolution results (\<open>workload_models.py\<close>), with the checks
  of their constructors and the document a plan is staged as.
\<close>

section \<open>Candidates and plans\<close>

record candidate =
  pc_backend :: string
  pc_access :: string
  pc_target :: "string option"
  pc_context :: "string option"
  pc_scheduler :: "string option"
  pc_state :: string
  pc_unresolved :: "string list"
  pc_evidence :: "decision list"

definition check_backend :: "string \<Rightarrow> string \<Rightarrow> unit pyres" where
  "check_backend backend state =
     bindR (raise_if (backend \<notin> set backends)
              (PyValueError (''unsupported backend: '' @ backend))) (\<lambda>_.
     raise_if (state \<notin> set compatibility_states)
       (PyValueError (''unsupported compatibility state: '' @ state)))"

definition PlanCandidate :: "candidate \<Rightarrow> candidate pyres" where
  "PlanCandidate c = bindR (check_backend (pc_backend c) (pc_state c)) (\<lambda>_. Inr c)"

record plan =
  pl_id :: string
  pl_workload_id :: string
  pl_inventory_id :: string
  pl_backend :: string
  pl_access :: string
  pl_target :: "string option"
  pl_context :: "string option"
  pl_scheduler :: "string option"
  pl_resources :: resources
  pl_executable :: string
  pl_arguments :: "string list"
  pl_working_directory :: string
  pl_inputs :: "string list"
  pl_outputs :: "string list"
  pl_state :: string
  pl_unresolved :: "string list"
  pl_evidence :: "decision list"
  pl_created_at :: string
  pl_site_id :: "string option"
  pl_shape :: "shape option"
  pl_environment :: "environment option"
  pl_variant_id :: "string option"
  pl_selection_id :: "string option"
  pl_policy_basis :: "json list"
  pl_container :: "container option"

definition ExecutionPlan :: "plan \<Rightarrow> plan pyres" where
  "ExecutionPlan p =
     bindR (check_backend (pl_backend p) (pl_state p)) (\<lambda>_.
     bindR (raise_if (pl_id p = [] \<or> pl_workload_id p = [] \<or> pl_inventory_id p = [])
       (PyValueError ''plan, workload, and inventory IDs are required'')) (\<lambda>_.
     bindR (raise_if (pl_executable p = [] \<or> pl_working_directory p = [])
       (PyValueError ''plan executable and working directory are required'')) (\<lambda>_.
     bindR (validate_strings (pl_arguments p) ''plan arguments'') (\<lambda>_.
     bindR (validate_strings (pl_inputs p) ''plan inputs'') (\<lambda>_.
     bindR (validate_strings (pl_outputs p) ''plan outputs'') (\<lambda>_. Inr p))))))"

definition plan_argv :: "plan \<Rightarrow> string list" where
  "plan_argv p = pl_executable p # pl_arguments p"

record resolution =
  rr_candidates :: "candidate list"
  rr_selected :: "plan option"
  rr_reason :: "string option"

definition plan_ok :: "plan \<Rightarrow> bool" where
  "plan_ok p \<longleftrightarrow>
     pl_backend p \<in> set backends \<and> pl_state p \<in> set compatibility_states \<and>
     pl_id p \<noteq> [] \<and> pl_workload_id p \<noteq> [] \<and> pl_inventory_id p \<noteq> [] \<and>
     pl_executable p \<noteq> [] \<and> pl_working_directory p \<noteq> [] \<and>
     length (pl_arguments p) \<le> 4096 \<and> length (pl_inputs p) \<le> 4096 \<and>
     length (pl_outputs p) \<le> 4096"

lemma check_backend_Inr:
  "check_backend b s = Inr u \<longleftrightarrow> b \<in> set backends \<and> s \<in> set compatibility_states"
  by (auto simp: check_backend_def result_simps)

lemma PlanCandidate_Inr:
  "PlanCandidate c = Inr c' \<longleftrightarrow>
     c' = c \<and> pc_backend c \<in> set backends \<and> pc_state c \<in> set compatibility_states"
  by (auto simp: PlanCandidate_def bindR_Inr_iff check_backend_Inr)

lemma ExecutionPlan_Inr: "ExecutionPlan p = Inr q \<longleftrightarrow> q = p \<and> plan_ok p"
  by (auto simp: ExecutionPlan_def plan_ok_def bindR_Inr_iff check_backend_Inr validate_strings_def
      result_simps)

end
