(* ===== verification/Resolver.thy ===== *)
theory Resolver
  imports Plans Paths SiteShapes
begin

text \<open>
  Matching a workload to an inventory (\<open>resolver.py\<close>): the candidates, the grade of each with its
  unresolved conditions and evidence, and the conservative selection. The file system (is there
  an executable file at a path, or does asking fail), the text of a metadata value that is no
  string, and the identity and time of a new plan are parameters. The states of the evidence
  built here are constants the constructor accepts (\<open>evaluate_direct_decisions\<close>,
  \<open>evaluate_scheduler_decisions\<close>), so its check is not repeated.
\<close>

section \<open>Matching and reading metadata\<close>

definition matches_target :: "string option \<Rightarrow> target option \<Rightarrow> bool" where
  "matches_target reference target =
     (case reference of
        None \<Rightarrow> True
      | Some r \<Rightarrow>
          (case target of
             None \<Rightarrow> False
           | Some t \<Rightarrow> r = t_id t \<or> r = t_name t \<or> t_locator t = Some r))"

definition matches_context :: "string option \<Rightarrow> econtext option \<Rightarrow> bool" where
  "matches_context reference context =
     (case reference of
        None \<Rightarrow> True
      | Some r \<Rightarrow>
          (case context of
             None \<Rightarrow> False
           | Some k \<Rightarrow> r = k_id k \<or> r = k_key k \<or> r = k_name k \<or> k_locator k = Some r))"

text \<open>\<open>re.match(r"\s*(\d+)", str(value))\<close>\<close>

definition leading_int :: "site_env \<Rightarrow> json \<Rightarrow> int option" where
  "leading_int x v =
     (if v = JNull then None
      else let digits = takeWhile is_digit (dropWhile is_space (str_of x v)) in
        if digits = [] then None else Some (int (parse_nat digits)))"

text \<open>\<open>[^,:()]\<close>: a socket suffix ends a segment here.\<close>

definition slurm_gpu_count :: "site_env \<Rightarrow> json \<Rightarrow> int option" where
  "slurm_gpu_count x v =
     (if v = JNull \<or> py_strip (str_of x v) \<in> {[], ''(null)'', ''N/A''} then None
      else let counts = gpu_counts (\<lambda>c. c \<notin> set '',:()'') True (str_of x v) in
        if counts = [] then None else Some (sum_list counts))"

definition direct_gpu_count :: "target \<Rightarrow> int option" where
  "direct_gpu_count t =
     (case jget (t_metadata t) ''system'' of
        JObj system \<Rightarrow>
          (case jget system ''gpus'' of JArr gpus \<Rightarrow> Some (int (length gpus)) | _ \<Rightarrow> None)
      | _ \<Rightarrow> None)"

text \<open>\<open>executable_file p\<close> is \<open>None\<close> when asking the operating system fails.\<close>

definition executable_state ::
  "(ppath \<Rightarrow> bool option) \<Rightarrow> workload \<Rightarrow> capability list \<Rightarrow> econtext option \<Rightarrow> string" where
  "executable_state executable_file w capabilities context =
     (let requested = w_executable w in
      if CHR ''/'' \<in> set requested then
        (let path = (if is_absolute (path_of requested) then path_of requested
                     else path_join (path_of (w_working_directory w)) requested)
         in case executable_file path of
              Some b \<Rightarrow> if b then ''observed'' else ''missing''
            | None \<Rightarrow> ''unknown'')
      else
        (case context of
           None \<Rightarrow> ''unknown''
         | Some k \<Rightarrow>
             (let found = filter (\<lambda>c. cap_context_id c = k_id k \<and> cap_kind c = ''executable''
                                    \<and> cap_name c = path_name (path_of requested)) capabilities
              in if list_ex (\<lambda>c. cap_observation c \<noteq> ''historical'') found then ''observed''
                 else if found \<noteq> [] then ''historical''
                 else ''missing'')))"

section \<open>The direct candidate\<close>

definition observed :: "string \<Rightarrow> string \<Rightarrow> string option \<Rightarrow> decision" where
  "observed subject message subject_id =
     \<lparr>de_state = ''observed'', de_subject = subject, de_message = message,
      de_subject_id = subject_id\<rparr>"

text \<open>
  A grade in the making: whether something rules the candidate out, the unresolved conditions
  and the evidence, in the order the code appends them.
\<close>

type_synonym verdict = "bool \<times> string list \<times> decision list"

definition no_verdict :: verdict where
  "no_verdict = (False, [], [])"

definition join_verdicts :: "verdict list \<Rightarrow> verdict" where
  "join_verdicts vs =
     (list_ex fst vs, concat (map (fst \<circ> snd) vs), concat (map (snd \<circ> snd) vs))"

definition direct_executable :: "string \<Rightarrow> verdict" where
  "direct_executable state =
     (if state = ''observed'' then
        (False, [], [observed ''executable''
           ''requested executable is available in the current context'' None])
      else if state = ''missing'' then
        (True, [], [observed ''executable''
           ''requested executable is not available in the current context'' None])
      else
        (False, [''current executable availability is unknown''],
         [\<lparr>de_state = state, de_subject = ''executable'',
           de_message = ''current executable availability is not established'',
           de_subject_id = None\<rparr>]))"

definition direct_gpus :: "int option \<Rightarrow> target \<Rightarrow> verdict" where
  "direct_gpus requested t =
     (case requested of
        None \<Rightarrow> no_verdict
      | Some n \<Rightarrow>
          if n \<le> 0 then no_verdict
          else
            (case direct_gpu_count t of
               None \<Rightarrow> (False, [''current GPU count is unknown''], [])
             | Some g \<Rightarrow>
                 (g < n, [],
                  [observed ''resources.gpus''
                     (''observed '' @ str_int g @ '' GPU(s), requested '' @ str_int n) None])))"

definition mpi_launcher :: "workload \<Rightarrow> verdict" where
  "mpi_launcher w =
     (case r_mpi_ranks (w_resources w) of
        None \<Rightarrow> no_verdict
      | Some n \<Rightarrow>
          if n > 1 \<and> (case w_launcher w of None \<Rightarrow> True | Some l \<Rightarrow> l_name l = None)
          then (False, [''MPI rank count has no explicit launcher''], []) else no_verdict)"

definition direct_verdict :: "(ppath \<Rightarrow> bool option) \<Rightarrow> workload \<Rightarrow> inventory \<Rightarrow> target \<Rightarrow>
    econtext option \<Rightarrow> verdict" where
  "direct_verdict executable_file w inventory t context =
     (let requested = w_resources w in
      join_verdicts
       [(False, [],
         [observed ''target'' ''current Bourne host is directly accessible'' (Some (t_id t))]),
        direct_executable (executable_state executable_file w (i_capabilities inventory) context),
        direct_gpus (r_gpus requested) t,
        (if r_nodes requested \<in> {None, Some 1} then no_verdict
         else (True, [],
           [observed ''resources.nodes'' ''direct execution represents one observed host'' None])),
        (if (case r_cpus requested of Some n \<Rightarrow> n > 1 | None \<Rightarrow> False)
         then (False, [''available direct CPU count was not recorded''], []) else no_verdict),
        (if r_memory_bytes requested \<noteq> None
         then (False, [''available direct memory was not recorded''], []) else no_verdict),
        mpi_launcher w])"

definition evaluate_direct :: "(ppath \<Rightarrow> bool option) \<Rightarrow> workload \<Rightarrow> inventory \<Rightarrow> target \<Rightarrow>
    econtext option \<Rightarrow> string \<times> string list \<times> decision list" where
  "evaluate_direct executable_file w inventory t context =
     (case direct_verdict executable_file w inventory t context of
        (ruled_out, unresolved, ev) \<Rightarrow>
          (if ruled_out then ''incompatible'' else if unresolved \<noteq> [] then ''partial'' else ''compatible'',
           unresolved, ev))"

section \<open>A scheduler candidate\<close>

definition nodes_or_one :: "int option \<Rightarrow> int" where
  "nodes_or_one n = (case n of None \<Rightarrow> 1 | Some i \<Rightarrow> if i = 0 then 1 else i)"

definition scheduler_nodes :: "site_env \<Rightarrow> workload \<Rightarrow> target \<Rightarrow> verdict" where
  "scheduler_nodes x w t =
     (case r_nodes (w_resources w) of
        None \<Rightarrow> no_verdict
      | Some n \<Rightarrow>
          (case leading_int x (jget (t_metadata t) ''visible_nodes'') of
             None \<Rightarrow> (False, [''scheduler node capacity is unknown''], [])
           | Some available \<Rightarrow>
               if n > available then
                 (True, [], [observed ''resources.nodes''
                    (''target reports '' @ str_int available @ '' visible node(s), requested ''
                     @ str_int n) (Some (t_id t))])
               else no_verdict))"

definition scheduler_cpus :: "site_env \<Rightarrow> workload \<Rightarrow> scheduler \<Rightarrow> target \<Rightarrow> verdict" where
  "scheduler_cpus x w s t =
     (case r_cpus (w_resources w) of
        None \<Rightarrow> no_verdict
      | Some n \<Rightarrow>
          (case (if sc_family s = ''slurm'' then leading_int x (jget (t_metadata t) ''cpus_per_node'')
                 else if sc_family s = ''pbs''
                 then leading_int x (jget (t_metadata t) ''resources_max.ncpus'') else None) of
             None \<Rightarrow> (False, [''scheduler CPU capacity is unknown''], [])
           | Some available \<Rightarrow>
               if n > available * nodes_or_one (r_nodes (w_resources w)) then
                 (True, [], [observed ''resources.cpus''
                    (''target reports '' @ str_int available @ '' CPU(s) per unit, requested ''
                     @ str_int n) (Some (t_id t))])
               else no_verdict))"

definition scheduler_gpus :: "site_env \<Rightarrow> workload \<Rightarrow> scheduler \<Rightarrow> target \<Rightarrow> verdict" where
  "scheduler_gpus x w s t =
     (case r_gpus (w_resources w) of
        None \<Rightarrow> no_verdict
      | Some n \<Rightarrow>
          if n \<le> 0 then no_verdict
          else
            (case (if sc_family s \<noteq> ''slurm'' then None
                   else slurm_gpu_count x (jget (t_metadata t) ''generic_resources'')) of
               None \<Rightarrow> (False, [''scheduler GPU capacity is unknown''], [])
             | Some available \<Rightarrow>
                 if n > available * nodes_or_one (r_nodes (w_resources w)) then
                   (True, [], [observed ''resources.gpus''
                      (''target reports '' @ str_int available @ '' GPU(s) per node, requested ''
                       @ str_int n) (Some (t_id t))])
                 else no_verdict))"

definition scheduler_resources ::
  "site_env \<Rightarrow> workload \<Rightarrow> scheduler \<Rightarrow> target \<Rightarrow> verdict" where
  "scheduler_resources x w s t =
     join_verdicts [scheduler_nodes x w t, scheduler_cpus x w s t, scheduler_gpus x w s t]"

definition scheduler_target :: "site_env \<Rightarrow> workload \<Rightarrow> scheduler \<Rightarrow> target option \<Rightarrow> verdict" where
  "scheduler_target x w s target =
     (case target of
        None \<Rightarrow> (False, [''scheduler execution target class is unknown''], [])
      | Some t \<Rightarrow> join_verdicts
          [(t_visible t = Some False,
            if t_authorization t = ''unknown'' then [''scheduler authorization is unknown''] else [],
            [observed ''target'' (''scheduler target '' @ [CHR 0x27] @ t_name t @ [CHR 0x27]
               @ '' is visible'') (Some (t_id t))]),
           scheduler_resources x w s t])"

definition scheduler_verdict :: "site_env \<Rightarrow> workload \<Rightarrow> scheduler \<Rightarrow> target option \<Rightarrow>
    econtext option \<Rightarrow> verdict" where
  "scheduler_verdict x w s target context =
     join_verdicts
       [(False,
         [''compute-node executable availability is unknown'',
          ''staging visibility from the compute allocation is unknown''],
         [observed ''scheduler'' (sc_family s @ '' scheduler was observed'') (Some (sc_id s))]),
        scheduler_target x w s target,
        mpi_launcher w,
        (if context = None
         then (False, [''compute execution context is unknown before allocation''], [])
         else no_verdict)]"

definition evaluate_scheduler :: "site_env \<Rightarrow> workload \<Rightarrow> scheduler \<Rightarrow> target option \<Rightarrow>
    econtext option \<Rightarrow> string \<times> string list \<times> decision list" where
  "evaluate_scheduler x w s target context =
     (case scheduler_verdict x w s target context of
        (ruled_out, unresolved, ev) \<Rightarrow>
          (if ruled_out then ''incompatible'' else ''partial'', dedup unresolved, ev))"

section \<open>All candidates\<close>

definition direct_candidates :: "(ppath \<Rightarrow> bool option) \<Rightarrow> workload \<Rightarrow> inventory \<Rightarrow> target \<Rightarrow>
    candidate list pyres" where
  "direct_candidates executable_file w inventory access =
     (let context = find (\<lambda>k. k_key k = ''current'') (i_contexts inventory) in
      if x_backend (w_constraints w) \<in> {''auto'', ''direct''}
         \<and> matches_target (x_target (w_constraints w)) (Some access)
         \<and> matches_context (x_context (w_constraints w)) context
      then
        (case evaluate_direct executable_file w inventory access context of
           (state, unresolved, ev) \<Rightarrow>
             mapR (\<lambda>c. [c]) (PlanCandidate
               \<lparr>pc_backend = ''direct'', pc_access = t_id access, pc_target = Some (t_id access),
                pc_context = map_option k_id context, pc_scheduler = None, pc_state = state,
                pc_unresolved = unresolved, pc_evidence = ev\<rparr>))
      else Inr [])"

definition scheduler_candidate :: "site_env \<Rightarrow> workload \<Rightarrow> inventory \<Rightarrow> target \<Rightarrow> scheduler \<Rightarrow>
    target option \<Rightarrow> candidate list pyres" where
  "scheduler_candidate x w inventory access s target =
     (let at_target = (case target of None \<Rightarrow> []
            | Some t \<Rightarrow> filter (\<lambda>k. k_target_id k = Some (t_id t)) (i_contexts inventory));
          wanted = x_context (w_constraints w);
          contexts = (if wanted = None then at_target
                      else filter (\<lambda>k. matches_context wanted (Some k)) at_target);
          context = (case contexts of [k] \<Rightarrow> Some k | _ \<Rightarrow> None)
      in if \<not> matches_target (x_target (w_constraints w)) target then Inr []
         else if wanted \<noteq> None \<and> contexts = [] then Inr []
         else
           (case evaluate_scheduler x w s target context of
              (state, unresolved, ev) \<Rightarrow>
                mapR (\<lambda>c. [c]) (PlanCandidate
                  \<lparr>pc_backend = sc_family s, pc_access = t_id access,
                   pc_target = map_option t_id target, pc_context = map_option k_id context,
                   pc_scheduler = Some (sc_id s), pc_state = state, pc_unresolved = unresolved,
                   pc_evidence = ev\<rparr>)))"

definition scheduler_targets :: "inventory \<Rightarrow> scheduler \<Rightarrow> target option list" where
  "scheduler_targets inventory s =
     (let found = filter (\<lambda>t. t_id t \<in> set (sc_targets s)) (i_targets inventory) in
      if found = [] then [None] else map Some found)"

definition scheduler_candidates :: "site_env \<Rightarrow> workload \<Rightarrow> inventory \<Rightarrow> target \<Rightarrow> scheduler \<Rightarrow>
    candidate list pyres" where
  "scheduler_candidates x w inventory access s =
     (if sc_family s \<notin> {''slurm'', ''pbs'', ''lsf''} then Inr []
      else if x_backend (w_constraints w) \<notin> {''auto'', sc_family s} then Inr []
      else mapR concat
        (mapM (scheduler_candidate x w inventory access s) (scheduler_targets inventory s)))"

definition candidates :: "site_env \<Rightarrow> (ppath \<Rightarrow> bool option) \<Rightarrow> workload \<Rightarrow> inventory \<Rightarrow>
    candidate list pyres" where
  "candidates x executable_file w inventory =
     (case current_target inventory of
        None \<Rightarrow> Inr []
      | Some access \<Rightarrow>
          bindR (direct_candidates executable_file w inventory access) (\<lambda>direct.
          bindR (mapM (scheduler_candidates x w inventory access) (i_schedulers inventory))
            (\<lambda>scheduled. Inr (direct @ concat scheduled))))"

section \<open>Selection\<close>

definition explicit_choice :: "constraints \<Rightarrow> bool" where
  "explicit_choice x \<longleftrightarrow> x_backend x \<noteq> ''auto'' \<or> x_target x \<noteq> None \<or> x_context x \<noteq> None"

definition is_viable :: "candidate \<Rightarrow> bool" where
  "is_viable c \<longleftrightarrow> pc_state c \<noteq> ''incompatible''"

definition compatible_direct :: "candidate \<Rightarrow> bool" where
  "compatible_direct c \<longleftrightarrow> pc_backend c = ''direct'' \<and> pc_state c = ''compatible''"

text \<open>The selected candidate, or the reason there is none.\<close>

definition select :: "bool \<Rightarrow> candidate list \<Rightarrow> (string, candidate) res" where
  "select explicit cs =
     (let viable = filter is_viable cs;
          direct = filter compatible_direct viable;
          scheduled = filter (\<lambda>c. pc_backend c \<noteq> ''direct'') viable
      in if explicit then
           (case viable of
              [c] \<Rightarrow> Inr c
            | [] \<Rightarrow> Inl ''the explicit constraints have no viable candidate''
            | _ \<Rightarrow> Inl ''the explicit constraints still match multiple candidates'')
         else
           (case direct of
              [c] \<Rightarrow> Inr c
            | _ \<Rightarrow>
                (case scheduled of
                   [c] \<Rightarrow> Inr c
                 | _ # _ \<Rightarrow>
                     Inl ''multiple scheduler candidates remain; select a target explicitly''
                 | [] \<Rightarrow>
                     if viable \<noteq> []
                     then Inl (''direct requirements are not all known satisfied; ''
                               @ ''select a backend explicitly'')
                     else Inl ''no viable execution candidate was discovered'')))"

definition make_plan :: "string \<Rightarrow> string \<Rightarrow> workload \<Rightarrow> inventory \<Rightarrow> candidate \<Rightarrow> plan pyres" where
  "make_plan new_id now w inventory c = ExecutionPlan
     \<lparr>pl_id = new_id, pl_workload_id = w_id w, pl_inventory_id = i_id inventory,
      pl_backend = pc_backend c, pl_access = pc_access c, pl_target = pc_target c,
      pl_context = pc_context c, pl_scheduler = pc_scheduler c, pl_resources = w_resources w,
      pl_executable = w_executable w, pl_arguments = w_arguments w,
      pl_working_directory = w_working_directory w, pl_inputs = w_inputs w,
      pl_outputs = w_outputs w, pl_state = pc_state c, pl_unresolved = pc_unresolved c,
      pl_evidence = pc_evidence c, pl_created_at = now, pl_site_id = None, pl_shape = None,
      pl_environment = None, pl_variant_id = None, pl_selection_id = None,
      pl_policy_basis = [], pl_container = None\<rparr>"

definition resolve_execution :: "site_env \<Rightarrow> (ppath \<Rightarrow> bool option) \<Rightarrow> string \<Rightarrow> string \<Rightarrow>
    workload \<Rightarrow> inventory \<Rightarrow> resolution pyres" where
  "resolve_execution x executable_file new_id now w inventory =
     bindR (candidates x executable_file w inventory) (\<lambda>cs.
     case select (explicit_choice (w_constraints w)) cs of
       Inl reason \<Rightarrow> Inr \<lparr>rr_candidates = cs, rr_selected = None, rr_reason = Some reason\<rparr>
     | Inr c \<Rightarrow>
         mapR (\<lambda>p. \<lparr>rr_candidates = cs, rr_selected = Some p, rr_reason = None\<rparr>)
           (make_plan new_id now w inventory c))"

end
