(* ===== verification/ResolverProperties.thy ===== *)
theory ResolverProperties
  imports Resolver Samples
begin

text \<open>
  Properties of resolution: the selection is conservative and honours the constraints, and a
  candidate that is not ruled out asks for nothing the inventory is known not to have.
\<close>

section \<open>Verdicts\<close>

lemma join_verdicts_simps [simp]:
  "join_verdicts [] = no_verdict"
  "fst (join_verdicts (v # vs)) \<longleftrightarrow> fst v \<or> fst (join_verdicts vs)"
  "fst (snd (join_verdicts (v # vs))) = fst (snd v) @ fst (snd (join_verdicts vs))"
  "snd (snd (join_verdicts (v # vs))) = snd (snd v) @ snd (snd (join_verdicts vs))"
  by (simp_all add: join_verdicts_def no_verdict_def)

lemma no_verdict_simps [simp]:
  "fst no_verdict = False" "fst (snd no_verdict) = []" "snd (snd no_verdict) = []"
  by (simp_all add: no_verdict_def)

lemma executable_state_cases:
  "executable_state f w cs k \<in> {''observed'', ''missing'', ''unknown'', ''historical''}"
  by (auto simp: executable_state_def Let_def split: option.splits)

lemma observed_state [simp]: "de_state (observed s m i) = ''observed''"
  by (simp add: observed_def)

lemma DecisionEvidence_Inr: "DecisionEvidence d = Inr d \<longleftrightarrow> de_state d \<in> set evidence_states"
  by (simp add: DecisionEvidence_def)

lemma direct_gpus_decisions: "d \<in> set (snd (snd (direct_gpus n t))) \<Longrightarrow> de_state d = ''observed''"
  by (auto simp: direct_gpus_def split: option.splits if_splits)

lemma mpi_launcher_simps [simp]: "fst (mpi_launcher w) = False" "snd (snd (mpi_launcher w)) = []"
  by (simp_all add: mpi_launcher_def no_verdict_def split: option.splits)

lemma direct_executable_simps [simp]:
  "fst (direct_executable s) \<longleftrightarrow> s = ''missing''"
  "fst (snd (direct_executable s)) = [] \<longleftrightarrow> s = ''observed'' \<or> s = ''missing''"
  by (auto simp: direct_executable_def)

lemma direct_executable_decisions:
  "d \<in> set (snd (snd (direct_executable s))) \<Longrightarrow> de_state d = ''observed'' \<or> de_state d = s"
  by (auto simp: direct_executable_def split: if_splits)

lemma evaluate_direct_decisions:
  assumes "evaluate_direct f w snap t k = (state, unresolved, ev)" and "d \<in> set ev"
  shows "DecisionEvidence d = Inr d"
proof -
  let ?s = "executable_state f w (i_capabilities snap) k"
  have e: "ev = snd (snd (direct_verdict f w snap t k))"
    using assms(1) by (auto simp: evaluate_direct_def split: prod.splits)
  have "de_state d = ''observed'' \<or> de_state d = ?s \<and> d \<in> set (snd (snd (direct_executable ?s)))"
    using assms(2) unfolding e direct_verdict_def Let_def
    by (auto dest: direct_gpus_decisions direct_executable_decisions split: if_splits)
  moreover have "de_state d \<in> set evidence_states"
    if "d \<in> set (snd (snd (direct_executable ?s)))" "de_state d = ?s"
    using that executable_state_cases [of f w "i_capabilities snap" k]
    by (auto simp: direct_executable_def evidence_states_def split: if_splits)
  ultimately show ?thesis by (auto simp: DecisionEvidence_Inr evidence_states_def)
qed

lemma scheduler_resources_decisions:
  "d \<in> set (snd (snd (scheduler_resources x w s t))) \<Longrightarrow> de_state d = ''observed''"
  by (auto simp: scheduler_resources_def scheduler_nodes_def scheduler_cpus_def scheduler_gpus_def
      split: option.splits if_splits)

lemma evaluate_scheduler_decisions:
  assumes "evaluate_scheduler x w s t k = (state, unresolved, ev)" and "d \<in> set ev"
  shows "DecisionEvidence d = Inr d"
proof -
  have e: "ev = snd (snd (scheduler_verdict x w s t k))"
    using assms(1) by (auto simp: evaluate_scheduler_def split: prod.splits)
  have "de_state d = ''observed''" using assms(2) unfolding e
    by (auto simp: scheduler_verdict_def scheduler_target_def
        dest: scheduler_resources_decisions split: option.splits if_splits)
  then show ?thesis by (simp add: DecisionEvidence_Inr evidence_states_def)
qed

section \<open>Where a candidate comes from\<close>

definition from_direct :: "(ppath \<Rightarrow> bool option) \<Rightarrow> workload \<Rightarrow> inventory \<Rightarrow> candidate \<Rightarrow> bool" where
  "from_direct f w snap c \<longleftrightarrow>
     (\<exists>t k. current_target snap = Some t \<and> pc_backend c = ''direct'' \<and> pc_target c = Some (t_id t) \<and>
        pc_scheduler c = None \<and> x_backend (w_constraints w) \<in> {''auto'', ''direct''} \<and>
        matches_target (x_target (w_constraints w)) (Some t) \<and>
        matches_context (x_context (w_constraints w)) k \<and>
        evaluate_direct f w snap t k = (pc_state c, pc_unresolved c, pc_evidence c))"

definition from_scheduler :: "site_env \<Rightarrow> workload \<Rightarrow> inventory \<Rightarrow> candidate \<Rightarrow> bool" where
  "from_scheduler x w snap c \<longleftrightarrow>
     (\<exists>s t k. s \<in> set (i_schedulers snap) \<and> t \<in> set (scheduler_targets snap s) \<and>
        pc_backend c = sc_family s \<and> sc_family s \<in> {''slurm'', ''pbs'', ''lsf''} \<and>
        pc_target c = map_option t_id t \<and> pc_scheduler c = Some (sc_id s) \<and>
        x_backend (w_constraints w) \<in> {''auto'', sc_family s} \<and>
        matches_target (x_target (w_constraints w)) t \<and>
        evaluate_scheduler x w s t k = (pc_state c, pc_unresolved c, pc_evidence c))"

lemma direct_candidates_from:
  assumes "direct_candidates f w snap t = Inr cs" and "c \<in> set cs" and "current_target snap = Some t"
  shows "from_direct f w snap c"
  using assms
  by (auto simp: direct_candidates_def Let_def from_direct_def mapR_Inr_iff PlanCandidate_Inr
      split: if_splits prod.splits)

lemma scheduler_candidate_from:
  assumes "scheduler_candidate x w snap access s t = Inr cs" and "c \<in> set cs"
  shows "\<exists>k. pc_backend c = sc_family s \<and> pc_target c = map_option t_id t \<and>
    pc_scheduler c = Some (sc_id s) \<and> matches_target (x_target (w_constraints w)) t \<and>
    evaluate_scheduler x w s t k = (pc_state c, pc_unresolved c, pc_evidence c)"
  using assms
  by (auto simp: scheduler_candidate_def Let_def mapR_Inr_iff PlanCandidate_Inr
      split: if_splits prod.splits)

lemma scheduler_candidates_from:
  assumes "scheduler_candidates x w snap access s = Inr cs" and "c \<in> set cs"
    and "s \<in> set (i_schedulers snap)"
  shows "from_scheduler x w snap c"
proof -
  have f: "sc_family s \<in> {''slurm'', ''pbs'', ''lsf''}"
      "x_backend (w_constraints w) \<in> {''auto'', sc_family s}"
    using assms(1,2) by (auto simp: scheduler_candidates_def split: if_splits)
  then obtain css where css: "mapM (scheduler_candidate x w snap access s)
      (scheduler_targets snap s) = Inr css" "cs = concat css"
    using assms(1) by (auto simp: scheduler_candidates_def mapR_Inr_iff)
  with assms(2) obtain l where l: "l \<in> set css" "c \<in> set l" by auto
  from mapM_Inr_set [OF css(1) l(1)] obtain t where t: "t \<in> set (scheduler_targets snap s)"
    "scheduler_candidate x w snap access s t = Inr l" by blast
  from scheduler_candidate_from [OF t(2) l(2)] t(1) f assms(3) show ?thesis
    unfolding from_scheduler_def by blast
qed

lemma candidates_from:
  assumes "candidates x f w snap = Inr cs" and "c \<in> set cs"
  shows "from_direct f w snap c \<or> from_scheduler x w snap c"
proof -
  obtain t where t: "current_target snap = Some t"
    using assms by (cases "current_target snap") (auto simp: candidates_def)
  then obtain ds ss where d: "direct_candidates f w snap t = Inr ds"
    and s: "mapM (scheduler_candidates x w snap t) (i_schedulers snap) = Inr ss"
    and cs: "cs = ds @ concat ss"
    using assms(1) by (auto simp: candidates_def bindR_Inr_iff)
  from cs assms(2) consider "c \<in> set ds" | l where "l \<in> set ss" "c \<in> set l" by auto
  then show ?thesis
  proof cases
    case 1
    with direct_candidates_from [OF d _ t] show ?thesis by blast
  next
    case 2
    with mapM_Inr_set [OF s 2(1)] scheduler_candidates_from show ?thesis by blast
  qed
qed

section \<open>What a candidate that is not ruled out asks for\<close>

lemma direct_not_ruled_out:
  assumes "evaluate_direct f w snap t k = (state, unresolved, ev)" and "state \<noteq> ''incompatible''"
  shows "executable_state f w (i_capabilities snap) k \<noteq> ''missing'' \<and>
    r_nodes (w_resources w) \<in> {None, Some 1} \<and>
    (\<forall>n g. r_gpus (w_resources w) = Some n \<longrightarrow> n > 0 \<longrightarrow> direct_gpu_count t = Some g \<longrightarrow> n \<le> g)"
proof -
  have "\<not> fst (direct_verdict f w snap t k)"
    using assms by (auto simp: evaluate_direct_def split: prod.splits)
  then show ?thesis
    by (auto simp: direct_verdict_def Let_def direct_gpus_def split: if_splits option.splits)
qed

lemma direct_compatible:
  assumes "evaluate_direct f w snap t k = (''compatible'', unresolved, ev)"
  shows "unresolved = [] \<and> executable_state f w (i_capabilities snap) k = ''observed'' \<and>
    (\<forall>n. r_gpus (w_resources w) = Some n \<longrightarrow> n > 0 \<longrightarrow> (\<exists>g. direct_gpu_count t = Some g \<and> n \<le> g)) \<and>
    r_memory_bytes (w_resources w) = None"
proof -
  have v: "\<not> fst (direct_verdict f w snap t k)" "unresolved = []"
    "fst (snd (direct_verdict f w snap t k)) = []"
    using assms by (auto simp: evaluate_direct_def split: prod.splits if_splits)
  then show ?thesis
    by (auto simp: direct_verdict_def Let_def direct_gpus_def split: if_splits option.splits)
qed

lemma scheduler_never_compatible: "evaluate_scheduler x w s t k \<noteq> (''compatible'', unresolved, ev)"
  by (auto simp: evaluate_scheduler_def split: prod.splits)

lemma scheduler_not_ruled_out:
  assumes "evaluate_scheduler x w s (Some t) k = (state, unresolved, ev)"
    and "state \<noteq> ''incompatible''"
  shows "t_visible t \<noteq> Some False \<and>
    (\<forall>n a. r_nodes (w_resources w) = Some n \<longrightarrow>
       leading_int x (jget (t_metadata t) ''visible_nodes'') = Some a \<longrightarrow> n \<le> a) \<and>
    (\<forall>n a. r_cpus (w_resources w) = Some n \<longrightarrow> sc_family s = ''slurm'' \<longrightarrow>
       leading_int x (jget (t_metadata t) ''cpus_per_node'') = Some a \<longrightarrow>
       n \<le> a * nodes_or_one (r_nodes (w_resources w))) \<and>
    (\<forall>n a. r_gpus (w_resources w) = Some n \<longrightarrow> n > 0 \<longrightarrow> sc_family s = ''slurm'' \<longrightarrow>
       slurm_gpu_count x (jget (t_metadata t) ''generic_resources'') = Some a \<longrightarrow>
       n \<le> a * nodes_or_one (r_nodes (w_resources w)))"
proof -
  have "\<not> fst (scheduler_verdict x w s (Some t) k)"
    using assms by (auto simp: evaluate_scheduler_def split: prod.splits)
  then have n: "\<not> fst (scheduler_nodes x w t)" and c: "\<not> fst (scheduler_cpus x w s t)"
    and g: "\<not> fst (scheduler_gpus x w s t)" and v: "t_visible t \<noteq> Some False"
    by (simp_all add: scheduler_verdict_def scheduler_target_def scheduler_resources_def)
  show ?thesis
    using v n c g
    by (auto simp: scheduler_nodes_def scheduler_cpus_def scheduler_gpus_def split: if_splits)
qed

section \<open>The selection\<close>

lemma select_Inr:
  assumes "select explicit cs = Inr c"
  shows "c \<in> set cs \<and> is_viable c \<and>
    (if explicit then filter is_viable cs = [c]
     else filter compatible_direct cs = [c] \<or>
       length (filter compatible_direct cs) \<noteq> 1 \<and>
       filter (\<lambda>d. is_viable d \<and> pc_backend d \<noteq> ''direct'') cs = [c])"
proof -
  have d: "filter compatible_direct (filter is_viable cs) = filter compatible_direct cs"
    by (auto simp: is_viable_def compatible_direct_def intro: filter_cong)
  have s: "filter (\<lambda>c. pc_backend c \<noteq> ''direct'') (filter is_viable cs)
      = filter (\<lambda>d. is_viable d \<and> pc_backend d \<noteq> ''direct'') cs"
    by (simp add: conj_commute)
  have m: "c \<in> set cs \<and> P c" if "filter P cs = [c]" for P
  proof -
    have "c \<in> set (filter P cs)" using that by simp
    then show ?thesis by simp
  qed
  have m': "c \<in> set cs \<and> is_viable c" if "filter compatible_direct cs = [c]"
    using m [OF that] by (simp add: is_viable_def compatible_direct_def)
  have m'': "c \<in> set cs \<and> is_viable c"
    if "filter (\<lambda>d. is_viable d \<and> pc_backend d \<noteq> ''direct'') cs = [c]"
    using m [OF that] by simp
  show ?thesis
    using assms m [of is_viable] m' m'' unfolding select_def Let_def d s
    by (auto split: if_splits list.splits)
qed

lemma find_in: "find P xs = Some y \<Longrightarrow> y \<in> set xs \<and> P y"
  by (auto simp: find_Some_iff)

lemma scheduler_targets_in: "Some u \<in> set (scheduler_targets snap s) \<Longrightarrow> u \<in> set (i_targets snap)"
  by (auto simp: scheduler_targets_def Let_def split: if_splits)

lemma matches_target_None [simp]: "matches_target r None \<longleftrightarrow> r = None"
  by (simp add: matches_target_def split: option.split)

text \<open>The candidate a reference to a target was matched on.\<close>

lemma candidate_target:
  assumes "from_direct f w snap c \<or> from_scheduler x w snap c"
  shows "x_backend (w_constraints w) \<in> {''auto'', pc_backend c} \<and>
    (\<forall>r. x_target (w_constraints w) = Some r \<longrightarrow>
       (\<exists>t \<in> set (i_targets snap). pc_target c = Some (t_id t) \<and> matches_target (Some r) (Some t)))"
  using assms
proof
  assume "from_direct f w snap c"
  then show ?thesis
    using find_in by (fastforce simp: from_direct_def current_target_def)
next
  assume "from_scheduler x w snap c"
  then obtain s t where t: "t \<in> set (scheduler_targets snap s)" "pc_target c = map_option t_id t"
    "x_backend (w_constraints w) \<in> {''auto'', pc_backend c}"
    "matches_target (x_target (w_constraints w)) t"
    by (auto simp: from_scheduler_def)
  have "u \<in> set (i_targets snap)" if "t = Some u" for u
    using t(1) that scheduler_targets_in by blast
  with t(2-4) show ?thesis by (cases t) auto
qed

lemma resolve_selected:
  assumes "resolve_execution x f new_id now w snap = Inr r" and "rr_selected r = Some p"
  obtains c where "candidates x f w snap = Inr (rr_candidates r)"
    and "select (explicit_choice (w_constraints w)) (rr_candidates r) = Inr c"
    and "make_plan new_id now w snap c = Inr p" and "rr_reason r = None"
proof -
  obtain cs where cs: "candidates x f w snap = Inr cs"
    using assms(1) by (auto simp: resolve_execution_def bindR_Inr_iff)
  show thesis
    using that assms cs
    by (cases "select (explicit_choice (w_constraints w)) cs")
      (auto simp: resolve_execution_def mapR_Inr_iff)
qed



text \<open>A workload for one host, and an inventory that knows it and a Slurm partition.\<close>

definition sample_host :: target where
  "sample_host = \<lparr>t_id = ''t1'', t_role = ''access_target'', t_name = ''login'', t_locator = None,
     t_visible = Some True, t_authorization = ''observed'', t_metadata = []\<rparr>"

definition sample_partition :: target where
  "sample_partition = \<lparr>t_id = ''t2'', t_role = ''execution_target'', t_name = ''main'',
     t_locator = None, t_visible = Some True, t_authorization = ''unknown'',
     t_metadata = [(''visible_nodes'', JStr ''4''), (''cpus_per_node'', JStr ''8'')]\<rparr>"

definition sample_snapshot :: inventory where
  "sample_snapshot = \<lparr>i_id = ''i1'', i_targets = [sample_host, sample_partition],
     i_schedulers = [\<lparr>sc_id = ''s1'', sc_family = ''slurm'', sc_targets = [''t2'']\<rparr>],
     i_contexts = [], i_capabilities = []\<rparr>"

definition sample_job :: workload where
  "sample_job = \<lparr>w_id = ''w1'', w_created_at = ''t'', w_working_directory = ''/w'',
     w_executable = ''/bin/sim'', w_arguments = [''-x''], w_inputs = [], w_outputs = [],
     w_resources = no_resources\<lparr>r_cpus := Some 16, r_nodes := Some 2\<rparr>, w_capabilities = [],
     w_launcher = None,
     w_constraints = \<lparr>x_backend = ''auto'', x_target = None, x_context = None\<rparr>,
     w_evidence = [], w_parent = None, w_markers = [], w_metadata = []\<rparr>"

definition sample_plan_found :: bool where
  "sample_plan_found \<longleftrightarrow>
     (case resolve_execution sample_site_env (\<lambda>_. Some True) ''p1'' ''now'' sample_job sample_snapshot of
        Inl _ \<Rightarrow> False | Inr r \<Rightarrow> (case rr_selected r of None \<Rightarrow> False | Some _ \<Rightarrow> True))"

lemma sample_plan_found_holds: "sample_plan_found"
  by code_simp

lemma sample_resolution:
  obtains r p where "resolve_execution sample_site_env (\<lambda>_. Some True) ''p1'' ''now'' sample_job
      sample_snapshot = Inr r" and "rr_selected r = Some p"
  using sample_plan_found_holds
  by (auto simp: sample_plan_found_def split: sum.splits option.splits)



end
