(* ===== verification/Workload.thy ===== *)
theory Workload
  imports WorkloadModels Paths
begin

text \<open>
  Inspection of a command (\<open>workload.py\<close>): the workload it describes, with the number of MPI ranks
  read from the launcher's own arguments. Which marker files exist in the working directory, the
  resolved directory, the identity and the time are arguments.
\<close>

section \<open>\<open>int(text)\<close>\<close>

text \<open>Digits that may be grouped by single underscores.\<close>

fun grouped_digits :: "string \<Rightarrow> bool" where
  "grouped_digits [] = False"
| "grouped_digits [c] = is_digit c"
| "grouped_digits (c # d # cs) =
     (is_digit c \<and> (if d = CHR ''_'' then grouped_digits cs else grouped_digits (d # cs)))"

text \<open>\<open>None\<close> is \<open>ValueError\<close>, which more than 4300 digits raise too.\<close>

definition int_of_text :: "string \<Rightarrow> int option" where
  "int_of_text s =
     (let r = py_strip s;
          body = (case r of c # cs \<Rightarrow> if c \<in> set ''+-'' then cs else r | [] \<Rightarrow> []);
          digits = filter (\<lambda>c. c \<noteq> CHR ''_'') body
      in if \<not> grouped_digits body \<or> length digits > 4300 then None
         else Some (if starts_with ''-'' r then - int (parse_nat digits)
                    else int (parse_nat digits)))"

section \<open>The launcher\<close>

definition PROJECT_MARKERS :: "string list" where
  "PROJECT_MARKERS = [''pyproject.toml'', ''requirements.txt'', ''environment.yml'',
     ''environment.yaml'', ''Dockerfile'', ''Makefile'', ''CMakeLists.txt'', ''Project.toml'']"

definition MPI_LAUNCHERS :: "string list" where
  "MPI_LAUNCHERS = [''mpirun'', ''mpiexec'', ''srun'']"

definition MPI_COUNT_FLAGS :: "string list" where
  "MPI_COUNT_FLAGS = [''-n'', ''-np'', ''--ntasks'']"

definition positive_count :: "string \<Rightarrow> int option" where
  "positive_count s =
     (case int_of_text s of None \<Rightarrow> None | Some v \<Rightarrow> if v > 0 then Some v else None)"

fun rank_count :: "string list \<Rightarrow> int option" where
  "rank_count [] = None"
| "rank_count (item # rest) =
     (if item \<in> set MPI_COUNT_FLAGS \<and> rest \<noteq> [] then positive_count (hd rest)
      else if starts_with ''--ntasks='' item then positive_count (drop 9 item)
      else rank_count rest)"

definition launcher_from_argv :: "string list \<Rightarrow> string option \<times> int option" where
  "launcher_from_argv argv =
     (let launcher = casefold (path_name (path_of (hd argv))) in
      if launcher \<notin> set MPI_LAUNCHERS then (None, None)
      else (Some launcher, rank_count (tl argv)))"

section \<open>The workload\<close>

definition stated :: "string \<Rightarrow> string \<Rightarrow> json \<Rightarrow> evidence" where
  "stated subject source v = \<lparr>ve_subject = subject, ve_state = ''explicit'', ve_source = source,
     ve_value = v, ve_detail = None\<rparr>"

definition resource_evidence :: "resources \<Rightarrow> evidence list" where
  "resource_evidence r =
     concat (map (\<lambda>(name, v). case v of None \<Rightarrow> []
         | Some i \<Rightarrow> [stated (''resources.'' @ name) ''user_constraint'' (JInt i)])
       [(''cpus'', r_cpus r), (''gpus'', r_gpus r), (''nodes'', r_nodes r),
        (''mpi_ranks'', r_mpi_ranks r), (''memory_bytes'', r_memory_bytes r),
        (''walltime_seconds'', r_walltime_seconds r)])"

definition constraint_evidence :: "constraints \<Rightarrow> evidence list" where
  "constraint_evidence x =
     concat (map (\<lambda>(name, v). case v of None \<Rightarrow> []
         | Some s \<Rightarrow> if s = ''auto'' then []
             else [stated (''constraints.'' @ name) ''user_constraint'' (JStr s)])
       [(''backend'', Some (x_backend x)), (''target'', x_target x), (''context'', x_context x)])"

definition inferred_ranks :: "int \<Rightarrow> evidence" where
  "inferred_ranks n = \<lparr>ve_subject = ''resources.mpi_ranks'', ve_state = ''inferred'',
     ve_source = ''launcher_argv'', ve_value = JInt n,
     ve_detail = Some ''parsed from an explicit MPI launcher argument''\<rparr>"

text \<open>The effective resources, the launcher's requirement and the evidence they add.\<close>

definition launcher_requirement :: "string list \<Rightarrow> resources \<Rightarrow>
    (resources \<times> launcher option \<times> evidence list) pyres" where
  "launcher_requirement argv requested =
     (case launcher_from_argv argv of
        (name, ranks) \<Rightarrow>
          (case r_mpi_ranks requested of
             Some n \<Rightarrow>
               mapR (\<lambda>l. (requested, Some l, []))
                 (LauncherRequirement \<lparr>l_name = name, l_mpi_ranks = n, l_evidence_state = ''explicit''\<rparr>)
           | None \<Rightarrow>
               (case ranks of
                  None \<Rightarrow> Inr (requested, None, [])
                | Some n \<Rightarrow>
                    bindR (ResourceRequirements (requested\<lparr>r_mpi_ranks := Some n\<rparr>)) (\<lambda>effective.
                    bindR (LauncherRequirement
                      \<lparr>l_name = name, l_mpi_ranks = n, l_evidence_state = ''inferred''\<rparr>) (\<lambda>l.
                    Inr (effective, Some l, [inferred_ranks n]))))))"

definition inspection_metadata :: "json dict" where
  "inspection_metadata =
     [(''inspection_scope'', JStr ''argv_and_allowlisted_cwd_markers''),
      (''recursive_scan'', JBool False), (''marker_contents_read'', JBool False),
      (''commands_executed'', JBool False)]"

definition workload_evidence :: "string list \<Rightarrow> string \<Rightarrow> string list \<Rightarrow> string list \<Rightarrow>
    string list \<Rightarrow> resources \<Rightarrow> constraints \<Rightarrow> evidence list \<Rightarrow> evidence list" where
  "workload_evidence argv directory inputs outputs markers requested selected inferred =
     [stated ''executable'' ''command_argv'' (JStr (hd argv)),
      stated ''working_directory'' ''command_context'' (JStr directory)]
     @ resource_evidence requested @ constraint_evidence selected
     @ map (\<lambda>p. stated ''input'' ''user_constraint'' (JStr p)) inputs
     @ map (\<lambda>p. stated ''output'' ''user_constraint'' (JStr p)) outputs
     @ (case fst (launcher_from_argv argv) of None \<Rightarrow> []
        | Some l \<Rightarrow> [stated ''launcher'' ''command_argv'' (JStr l)])
     @ inferred
     @ map (\<lambda>m. \<lparr>ve_subject = ''project_marker'', ve_state = ''observed'',
         ve_source = ''bounded_directory_marker'', ve_value = JStr m, ve_detail = None\<rparr>) markers"

definition inspect_workload :: "(string \<Rightarrow> bool) \<Rightarrow> string \<Rightarrow> string \<Rightarrow> string \<Rightarrow> string list \<Rightarrow>
    string list \<Rightarrow> string list \<Rightarrow> resources option \<Rightarrow> constraints option \<Rightarrow> string option \<Rightarrow>
    workload pyres" where
  "inspect_workload is_marker directory new_id now argv inputs outputs resources constraints parent =
     (if argv = [] \<or> hd argv = [] then value_error ''a scientific command is required''
      else
        let requested = (case resources of None \<Rightarrow> no_resources | Some r \<Rightarrow> r);
            selected = (case constraints of
              None \<Rightarrow> \<lparr>x_backend = ''auto'', x_target = None, x_context = None\<rparr> | Some x \<Rightarrow> x);
            markers = filter is_marker PROJECT_MARKERS;
            name = path_name (path_of (hd argv))
        in
        bindR (launcher_requirement argv requested) (\<lambda>(effective, launcher, inferred).
        WorkloadSpec
          \<lparr>w_id = new_id, w_created_at = now, w_working_directory = directory,
           w_executable = hd argv, w_arguments = tl argv, w_inputs = inputs, w_outputs = outputs,
           w_resources = effective,
           w_capabilities = [\<lparr>cr_kind = ''executable'',
             cr_name = (if name = [] then hd argv else name),
             cr_evidence_state = ''explicit'', cr_required = True\<rparr>],
           w_launcher = launcher, w_constraints = selected,
           w_evidence = workload_evidence argv directory inputs outputs markers requested selected
             inferred,
           w_parent = parent, w_markers = markers, w_metadata = inspection_metadata\<rparr>))"

section \<open>Well-formed workloads\<close>

lemma positive_count_positive: "positive_count s = Some n \<Longrightarrow> n \<ge> 1"
  by (auto simp: positive_count_def split: option.splits if_splits)

lemma rank_count_positive: "rank_count args = Some n \<Longrightarrow> n \<ge> 1"
  by (induction args) (auto intro: positive_count_positive split: if_splits)

lemma LauncherRequirement_Inr:
  "LauncherRequirement l = Inr l' \<longleftrightarrow>
     l' = l \<and> l_mpi_ranks l \<ge> 1 \<and> l_evidence_state l \<in> set evidence_states"
  by (auto simp: LauncherRequirement_def)

lemma WorkloadSpec_Inr:
  "WorkloadSpec w = Inr w' \<longleftrightarrow> w' = w \<and> w_id w \<noteq> [] \<and> w_executable w \<noteq> [] \<and>
     w_working_directory w \<noteq> [] \<and> length (w_arguments w) \<le> 4096 \<and> length (w_inputs w) \<le> 4096 \<and>
     length (w_outputs w) \<le> 4096"
  by (auto simp: WorkloadSpec_def validate_strings_def result_simps)

text \<open>What the resources and the launcher of an inspected workload have to do with the request.\<close>

definition launcher_fits :: "string list \<Rightarrow> resources \<Rightarrow> resources \<Rightarrow> launcher option \<Rightarrow> bool" where
  "launcher_fits argv requested effective launcher \<longleftrightarrow>
     effective = requested\<lparr>r_mpi_ranks := r_mpi_ranks effective\<rparr> \<and>
     (r_mpi_ranks requested \<noteq> None \<longrightarrow> r_mpi_ranks effective = r_mpi_ranks requested) \<and>
     (case launcher of
        None \<Rightarrow> r_mpi_ranks effective = None
      | Some l \<Rightarrow> r_mpi_ranks effective = Some (l_mpi_ranks l) \<and>
          l_name l = fst (launcher_from_argv argv) \<and>
          l_evidence_state l = (if r_mpi_ranks requested = None then ''inferred'' else ''explicit''))"

lemma launcher_requirement_fits:
  assumes "launcher_requirement argv requested = Inr (effective, launcher, ev)"
  shows "launcher_fits argv requested effective launcher \<and>
    (resources_ok requested \<longrightarrow> resources_ok effective) \<and>
    (\<forall>l. launcher = Some l \<longrightarrow> LauncherRequirement l = Inr l)"
proof (cases "r_mpi_ranks requested")
  case None
  then show ?thesis
    using assms
    by (cases "snd (launcher_from_argv argv)")
      (auto simp: launcher_requirement_def launcher_fits_def bindR_Inr_iff ResourceRequirements_Inr
        LauncherRequirement_Inr split: prod.splits)
next
  case (Some n)
  then show ?thesis
    using assms
    by (auto simp: launcher_requirement_def launcher_fits_def mapR_Inr_iff LauncherRequirement_Inr
        split: prod.splits)
qed

lemma launcher_requirement_evidence:
  assumes "launcher_requirement argv requested = Inr (effective, launcher, ev)" and "e \<in> set ev"
  shows "ve_state e = ''inferred''"
  using assms
  by (auto simp: launcher_requirement_def bindR_Inr_iff mapR_Inr_iff inferred_ranks_def
      split: prod.splits option.splits)

lemma RequirementEvidence_Inr:
  "RequirementEvidence e = Inr e \<longleftrightarrow> ve_state e \<in> set evidence_states"
  by (simp add: RequirementEvidence_def)

lemma stated_state [simp]: "ve_state (stated s c v) = ''explicit''"
  by (simp add: stated_def)

lemma request_evidence_states:
  "e \<in> set (resource_evidence r) \<Longrightarrow> ve_state e = ''explicit''"
  "e \<in> set (constraint_evidence x) \<Longrightarrow> ve_state e = ''explicit''"
  by (auto simp: resource_evidence_def constraint_evidence_def split: option.splits if_splits)


definition sample_request_resources :: resources where
  "sample_request_resources = no_resources\<lparr>r_nodes := Some 2\<rparr>"

definition inspected_sample :: "workload pyres" where
  "inspected_sample = inspect_workload (\<lambda>m. m = ''Makefile'') ''/work'' ''w1'' ''now''
     [''/usr/bin/mpirun'', ''-np'', ''8'', ''./sim''] [''in.dat''] [''out.dat'']
     (Some sample_request_resources) (Some \<lparr>x_backend = ''auto'', x_target = None, x_context = None\<rparr>)
     None"

lemma inspected_sample_ranks:
  "(case inspected_sample of Inl _ \<Rightarrow> False | Inr w \<Rightarrow> r_mpi_ranks (w_resources w) = Some 8)"
  by code_simp


end
