(* ===== verification/Batch.thy ===== *)
theory Batch
  imports Plans Regex
begin

text \<open>
  The batch scripts of the scheduler backends (\<open>backends.py\<close>, \<open>render_batch_script\<close> and what it
  calls): the directives of Slurm, PBS and LSF for a plan's resource shape or requested resources,
  and the fixed shell text that starts the worker. \<open>shlex.quote\<close> is the standard library's. The
  target name and paths are texts.
\<close>

section \<open>Quoting\<close>

text \<open>\<open>[\w@%+=:,./-]\<close> in ASCII\<close>

definition shell_safe :: "char \<Rightarrow> bool" where
  "shell_safe c \<longleftrightarrow> is_alnum c \<or> c \<in> set ''_@%+=:,./-''"

definition single_quote :: char where
  "single_quote = CHR 0x27"

definition double_quote :: char where
  "double_quote = CHR 0x22"

fun escape_quotes :: "string \<Rightarrow> string" where
  "escape_quotes [] = []"
| "escape_quotes (c # cs) =
     (if c = single_quote
      then [single_quote, double_quote, single_quote, double_quote, single_quote] else [c])
     @ escape_quotes cs"

definition shlex_quote :: "string \<Rightarrow> string" where
  "shlex_quote s =
     (if s = [] then [single_quote, single_quote]
      else if list_all shell_safe s then s
      else [single_quote] @ escape_quotes s @ [single_quote])"

section \<open>Quantities\<close>

definition pad2 :: "string \<Rightarrow> string" where
  "pad2 s = (if length s < 2 then CHR ''0'' # s else s)"

definition walltime_text :: "int \<Rightarrow> string" where
  "walltime_text seconds =
     pad2 (str_int (seconds div 3600)) @ '':'' @ pad2 (str_int (seconds mod 3600 div 60)) @ '':''
     @ pad2 (str_int (seconds mod 3600 mod 60))"

definition mebibytes :: "int \<Rightarrow> int" where
  "mebibytes v = max 1 ((v + 1024 * 1024 - 1) div (1024 * 1024))"

definition or_one :: "int option \<Rightarrow> int" where
  "or_one n = (case n of None \<Rightarrow> 1 | Some i \<Rightarrow> if i = 0 then 1 else i)"

definition shape_per_node ::
  "int option \<Rightarrow> int option \<Rightarrow> int option \<Rightarrow> string \<Rightarrow> int option pyres" where
  "shape_per_node whole per_node nodes label =
     (case per_node of
        Some p \<Rightarrow> Inr (Some p)
      | None \<Rightarrow>
          (case whole of
             None \<Rightarrow> Inr None
           | Some t \<Rightarrow>
               if t mod or_one nodes \<noteq> 0
               then value_error (''resource-shape '' @ label @ '' are not divisible across nodes'')
               else Inr (Some (t div or_one nodes))))"

definition shape_threads_per_rank :: "shape \<Rightarrow> int option pyres" where
  "shape_threads_per_rank s =
     (case s_threads_per_rank s of
        Some t \<Rightarrow> Inr (Some t)
      | None \<Rightarrow>
          (case (s_total_cpus s, s_mpi_ranks s) of
             (Some c, Some r) \<Rightarrow>
               if c mod r \<noteq> 0
               then value_error ''resource-shape CPUs are not divisible across MPI ranks''
               else Inr (Some (c div r))
           | _ \<Rightarrow> Inr None))"

section \<open>Directives\<close>

text \<open>A line \<open>prefix value suffix\<close>, when there is a value.\<close>

definition opt_line :: "string \<Rightarrow> string \<Rightarrow> int option \<Rightarrow> string list" where
  "opt_line prefix suffix v = (case v of None \<Rightarrow> [] | Some i \<Rightarrow> [prefix @ str_int i @ suffix])"

definition name_line :: "string \<Rightarrow> string option \<Rightarrow> string list" where
  "name_line prefix name =
     (case name of None \<Rightarrow> [] | Some n \<Rightarrow> if n = [] then [] else [prefix @ n])"

definition walltime_line :: "string \<Rightarrow> int option \<Rightarrow> string list" where
  "walltime_line prefix v = (case v of None \<Rightarrow> [] | Some i \<Rightarrow> [prefix @ walltime_text i])"

text \<open>CPUs of a shape without a rank layout\<close>

definition slurm_rankless_cpus :: "shape \<Rightarrow> string list pyres" where
  "slurm_rankless_cpus s =
     (if s_mpi_ranks s \<noteq> None then Inr []
      else
        (case s_cpus_per_node s of
           Some c \<Rightarrow> Inr [''#SBATCH --ntasks-per-node=1'', ''#SBATCH --cpus-per-task='' @ str_int c]
         | None \<Rightarrow>
             (case s_total_cpus s of
                None \<Rightarrow> Inr []
              | Some t \<Rightarrow>
                  if s_nodes s \<in> {None, Some 1} then Inr [''#SBATCH --cpus-per-task='' @ str_int t]
                  else value_error ''multi-node Slurm shape requires CPUs per node or MPI layout'')))"

definition slurm_cpu_lines :: "shape \<Rightarrow> string list pyres" where
  "slurm_cpu_lines s =
     bindR (shape_threads_per_rank s) (\<lambda>threads.
     case threads of
       Some t \<Rightarrow> Inr [''#SBATCH --cpus-per-task='' @ str_int t]
     | None \<Rightarrow> slurm_rankless_cpus s)"

definition slurm_gpu_lines :: "shape \<Rightarrow> string list" where
  "slurm_gpu_lines s =
     (case s_gpus_per_node s of
        Some _ \<Rightarrow> opt_line ''#SBATCH --gpus-per-node='' [] (s_gpus_per_node s)
      | None \<Rightarrow> opt_line ''#SBATCH --gpus='' [] (s_gpus s))"

definition slurm_shape_lines :: "shape \<Rightarrow> string list pyres" where
  "slurm_shape_lines s =
     bindR (slurm_cpu_lines s) (\<lambda>cpus.
     bindR (shape_per_node (s_memory_bytes s) (s_memory_per_node_bytes s) (s_nodes s) ''memory'')
       (\<lambda>memory.
     Inr (opt_line ''#SBATCH --nodes='' [] (s_nodes s)
       @ opt_line ''#SBATCH --ntasks='' [] (s_mpi_ranks s)
       @ opt_line ''#SBATCH --ntasks-per-node='' [] (s_ranks_per_node s)
       @ cpus
       @ slurm_gpu_lines s
       @ opt_line ''#SBATCH --mem='' ''M'' (map_option mebibytes memory)
       @ walltime_line ''#SBATCH --time='' (s_walltime_seconds s))))"

definition slurm_resource_lines :: "resources \<Rightarrow> string list" where
  "slurm_resource_lines r =
     opt_line ''#SBATCH --nodes='' [] (r_nodes r)
     @ opt_line ''#SBATCH --cpus-per-task='' [] (r_cpus r)
     @ opt_line ''#SBATCH --gpus='' [] (r_gpus r)
     @ opt_line ''#SBATCH --ntasks='' [] (r_mpi_ranks r)
     @ opt_line ''#SBATCH --mem='' ''M'' (map_option mebibytes (r_memory_bytes r))
     @ walltime_line ''#SBATCH --time='' (r_walltime_seconds r)"

definition slurm_directives :: "plan \<Rightarrow> string option \<Rightarrow> string list pyres" where
  "slurm_directives p target_name =
     mapR (\<lambda>ls. ''#SBATCH --job-name=bourne'' # name_line ''#SBATCH --partition='' target_name @ ls)
       (case pl_shape p of
          Some s \<Rightarrow> slurm_shape_lines s
        | None \<Rightarrow> Inr (slurm_resource_lines (pl_resources p)))"

definition pbs_shape_lines :: "shape \<Rightarrow> string list pyres" where
  "pbs_shape_lines s =
     bindR (shape_per_node (s_total_cpus s) (s_cpus_per_node s) (s_nodes s) ''CPUs'') (\<lambda>cpus.
     bindR (shape_per_node (s_gpus s) (s_gpus_per_node s) (s_nodes s) ''GPUs'') (\<lambda>gpus.
     bindR (shape_per_node (s_memory_bytes s) (s_memory_per_node_bytes s) (s_nodes s) ''memory'')
       (\<lambda>memory.
     bindR (shape_per_node (s_mpi_ranks s) (s_ranks_per_node s) (s_nodes s) ''MPI ranks'') (\<lambda>ranks.
     Inr ((''#PBS -l '' @ join '':''
            ([''select='' @ str_int (or_one (s_nodes s))]
             @ opt_line ''ncpus='' [] cpus @ opt_line ''ngpus='' [] gpus
             @ opt_line ''mem='' ''mb'' (map_option mebibytes memory)
             @ opt_line ''mpiprocs='' [] ranks
             @ opt_line ''ompthreads='' [] (s_threads_per_rank s)))
          # walltime_line ''#PBS -l walltime='' (s_walltime_seconds s))))))"

definition pbs_resource_lines :: "resources \<Rightarrow> string list" where
  "pbs_resource_lines r =
     (''#PBS -l '' @ join '':''
        ([''select='' @ str_int (or_one (r_nodes r))]
         @ opt_line ''ncpus='' [] (r_cpus r) @ opt_line ''ngpus='' [] (r_gpus r)
         @ opt_line ''mem='' ''mb'' (map_option mebibytes (r_memory_bytes r))))
     # walltime_line ''#PBS -l walltime='' (r_walltime_seconds r)"

definition pbs_directives :: "plan \<Rightarrow> string option \<Rightarrow> string list pyres" where
  "pbs_directives p target_name =
     mapR (\<lambda>ls. ''#PBS -N bourne'' # name_line ''#PBS -q '' target_name @ ls)
       (case pl_shape p of
          Some s \<Rightarrow> pbs_shape_lines s
        | None \<Rightarrow> Inr (pbs_resource_lines (pl_resources p)))"

text \<open>\<open>ranks or cpus\<close>\<close>

definition lsf_slots :: "int option \<Rightarrow> int option \<Rightarrow> int option" where
  "lsf_slots ranks cpus = (if ranks \<in> {None, Some 0} then cpus else ranks)"

definition ptile :: "int \<Rightarrow> string" where
  "ptile p = ''#BSUB -R '' @ [double_quote] @ ''span[ptile='' @ str_int p @ '']'' @ [double_quote]"

definition lsf_span :: "int option \<Rightarrow> int option \<Rightarrow> int option \<Rightarrow> string list pyres" where
  "lsf_span nodes slots per_host =
     (case nodes of
        None \<Rightarrow> Inr (case per_host of None \<Rightarrow> [] | Some p \<Rightarrow> [ptile p])
      | Some n \<Rightarrow>
          (case slots of
             None \<Rightarrow> value_error
               ''LSF node count requires total CPUs or MPI ranks for a portable mapping''
           | Some k \<Rightarrow>
               (case per_host of
                  Some p \<Rightarrow>
                    if k = n * p then Inr [ptile p]
                    else if n = 1
                    then Inr [''#BSUB -R '' @ [double_quote] @ ''span[hosts=1]'' @ [double_quote]]
                    else value_error
                      ''LSF multi-node shape requires a divisible per-host CPU or MPI layout''
                | None \<Rightarrow>
                    if n = 1
                    then Inr [''#BSUB -R '' @ [double_quote] @ ''span[hosts=1]'' @ [double_quote]]
                    else value_error
                      ''LSF multi-node shape requires a divisible per-host CPU or MPI layout'')))"

definition lsf_directives :: "plan \<Rightarrow> string option \<Rightarrow> string list pyres" where
  "lsf_directives p target_name =
     (let r = pl_resources p;
          pick = (\<lambda>f g. case pl_shape p of None \<Rightarrow> g r | Some s \<Rightarrow> f s);
          ranks = pick s_mpi_ranks r_mpi_ranks;
          slots = lsf_slots ranks (pick s_total_cpus r_cpus);
          per_host = (case pl_shape p of None \<Rightarrow> None
            | Some s \<Rightarrow> if ranks \<noteq> None then s_ranks_per_node s else s_cpus_per_node s)
      in
      bindR (lsf_span (pick s_nodes r_nodes) slots per_host) (\<lambda>span.
      if pick s_gpus r_gpus \<notin> {None, Some 0}
      then value_error (''LSF GPU mapping is unresolved; ''
             @ ''Bourne will not invent site-specific -gpu semantics'')
      else if pick s_memory_bytes r_memory_bytes \<noteq> None
      then value_error (''LSF memory mapping is unresolved; ''
             @ ''Bourne will not invent site-specific -M units'')
      else Inr (''#BSUB -J bourne'' # name_line ''#BSUB -q '' target_name
        @ opt_line ''#BSUB -n '' [] slots @ span
        @ opt_line ''#BSUB -W '' []
            (map_option (\<lambda>w. max 1 ((w + 59) div 60)) (pick s_walltime_seconds r_walltime_seconds)))))"

section \<open>The script\<close>

definition SAFE_SCHEDULER_NAME :: "string \<Rightarrow> bool" where
  "SAFE_SCHEDULER_NAME s \<longleftrightarrow> s \<noteq> [] \<and> list_all (\<lambda>c. is_alnum c \<or> c \<in> set ''_.+-'') s"

definition newline :: string where
  "newline = [CHR 0x0A]"

definition exec_line :: "string \<Rightarrow> string list \<Rightarrow> string" where
  "exec_line interpreter args = ''  exec '' @ interpreter @ '' '' @ join '' '' (map shlex_quote args)"

definition script_tail :: "string list \<Rightarrow> string list" where
  "script_tail args =
     [''set -eu'',
      ''if command -v python3 >/dev/null 2>&1; then'',
      exec_line ''python3'' args,
      ''elif command -v python >/dev/null 2>&1; then'',
      exec_line ''python'' args,
      ''else'',
      ''  echo '' @ [single_quote] @ ''bourne worker requires a Python 3 runtime'' @ [single_quote]
        @ '' >&2'',
      ''  exit 70'',
      ''fi'', '''']"

definition directives :: "string \<Rightarrow> plan \<Rightarrow> string option \<Rightarrow> string list pyres" where
  "directives family p target_name =
     (if family = ''slurm'' then slurm_directives p target_name
      else if family = ''pbs'' then pbs_directives p target_name
      else lsf_directives p target_name)"

definition render_batch_script :: "string \<Rightarrow> plan \<Rightarrow> string \<Rightarrow> string \<Rightarrow> string \<Rightarrow> string \<Rightarrow>
    string option \<Rightarrow> string pyres" where
  "render_batch_script family p worker_path plan_path result_path execution_id target_name =
     (if family \<notin> {''slurm'', ''pbs'', ''lsf''} then value_error ''unsupported scheduler family''
      else if (case target_name of None \<Rightarrow> False | Some n \<Rightarrow> \<not> SAFE_SCHEDULER_NAME n)
      then value_error ''scheduler target name contains unsafe characters''
      else mapR (\<lambda>ds. join newline (''#!/bin/sh'' # ds
             @ script_tail [worker_path, plan_path, result_path, execution_id]))
        (directives family p target_name))"

end
