(* ===== verification/SamplePlans.thy ===== *)
theory SamplePlans
  imports Plans
begin

text \<open>A concrete plan with a resource shape, for the witnesses of the backends and the store.\<close>

definition sample_shape :: shape where
  "sample_shape = empty_shape\<lparr>s_nodes := Some 2, s_cpus_per_node := Some 8, s_total_cpus := Some 16,
     s_memory_bytes := Some 3000000, s_walltime_seconds := Some 5400\<rparr>"

definition sample_plan :: plan where
  "sample_plan = \<lparr>pl_id = ''p'', pl_workload_id = ''w'', pl_inventory_id = ''i'',
     pl_backend = ''slurm'', pl_access = ''t'', pl_target = None, pl_context = None,
     pl_scheduler = None, pl_resources = no_resources, pl_executable = ''sim'',
     pl_arguments = [''; rm -rf $HOME''], pl_working_directory = ''/w'', pl_inputs = [],
     pl_outputs = [], pl_state = ''partial'', pl_unresolved = [], pl_evidence = [],
     pl_created_at = ''now'', pl_site_id = None, pl_shape = Some sample_shape,
     pl_environment = None, pl_variant_id = None, pl_selection_id = None, pl_policy_basis = [],
     pl_container = None\<rparr>"

end
