(* ===== verification/BatchProperties.thy ===== *)
theory BatchProperties
  imports Batch SiteShapes SamplePlans
begin

text \<open>
  Properties of the batch scripts: the command line lexes back to exactly the worker's arguments
  under a reference reading of the shell's quoting rules, and the scheduler's own reading of the
  directives never asks for less than the resource shape states.
\<close>

section \<open>A reference reader of shell words\<close>

text \<open>
  The part of POSIX shell tokenisation that needs no expansion: blanks separate words, single
  quotes are literal, double quotes are literal when nothing in them expands, and an unquoted
  character must have no meaning to the shell. Anything else is refused.
\<close>

definition expands_in_quotes :: "char \<Rightarrow> bool" where
  "expands_in_quotes c \<longleftrightarrow> c \<in> set [CHR ''$'', CHR 0x60, CHR 0x5C, CHR ''!'']"

function sh_lex :: "string option \<Rightarrow> string \<Rightarrow> string list option" where
  "sh_lex w [] = Some (case w of None \<Rightarrow> [] | Some a \<Rightarrow> [rev a])"
| "sh_lex w (c # cs) =
     (let acc = (case w of None \<Rightarrow> [] | Some a \<Rightarrow> a) in
      if c = CHR '' '' then
        (case w of None \<Rightarrow> sh_lex None cs | Some a \<Rightarrow> map_option ((#) (rev a)) (sh_lex None cs))
      else if c = single_quote then
        (case dropWhile (\<lambda>d. d \<noteq> single_quote) cs of
           [] \<Rightarrow> None
         | _ # rest \<Rightarrow> sh_lex (Some (rev (takeWhile (\<lambda>d. d \<noteq> single_quote) cs) @ acc)) rest)
      else if c = double_quote then
        (case dropWhile (\<lambda>d. d \<noteq> double_quote) cs of
           [] \<Rightarrow> None
         | _ # rest \<Rightarrow>
             if list_ex expands_in_quotes (takeWhile (\<lambda>d. d \<noteq> double_quote) cs) then None
             else sh_lex (Some (rev (takeWhile (\<lambda>d. d \<noteq> double_quote) cs) @ acc)) rest)
      else if shell_safe c then sh_lex (Some (c # acc)) cs
      else None)"
  by pat_completeness auto
termination
proof (relation "measure (\<lambda>(_, s). length s)", goal_cases)
  case (4 w c cs acc x rest)
  then show ?case using length_dropWhile_le [of "\<lambda>d. d \<noteq> single_quote" cs] by simp
next
  case (5 w c cs acc x rest)
  then show ?case using length_dropWhile_le [of "\<lambda>d. d \<noteq> double_quote" cs] by simp
qed simp_all

definition sh_words :: "string \<Rightarrow> string list option" where
  "sh_words s = sh_lex None s"

declare sh_lex.simps [simp del]

lemma sh_lex_end: "sh_lex w [] = Some (case w of None \<Rightarrow> [] | Some a \<Rightarrow> [rev a])"
  by (simp add: sh_lex.simps)

lemma sh_lex_blank:
  "sh_lex None (CHR '' '' # cs) = sh_lex None cs"
  "sh_lex (Some a) (CHR '' '' # cs) = map_option ((#) (rev a)) (sh_lex None cs)"
  by (simp_all add: sh_lex.simps)

definition started :: "string option \<Rightarrow> string" where
  "started w = (case w of None \<Rightarrow> [] | Some a \<Rightarrow> a)"

lemma shell_safe_not: "shell_safe c \<Longrightarrow> c \<noteq> CHR '' '' \<and> c \<noteq> single_quote \<and> c \<noteq> double_quote"
  by (auto simp: shell_safe_def is_alnum_def is_digit_def is_upper_def is_lower_def code_point_def
      single_quote_def double_quote_def)

lemma sh_lex_safe: "shell_safe c \<Longrightarrow> sh_lex w (c # cs) = sh_lex (Some (c # started w)) cs"
  using shell_safe_not [of c] by (simp add: sh_lex.simps started_def)

lemma sh_lex_safe_word:
  "list_all shell_safe s \<Longrightarrow> s \<noteq> [] \<Longrightarrow> sh_lex w (s @ rest) = sh_lex (Some (rev s @ started w)) rest"
proof (induction s arbitrary: w)
  case (Cons c s)
  then show ?case
    by (cases "s = []") (simp_all add: sh_lex_safe started_def)
qed simp

lemma sh_lex_single:
  "single_quote \<notin> set body \<Longrightarrow>
   sh_lex w (single_quote # body @ single_quote # rest) = sh_lex (Some (rev body @ started w)) rest"
proof -
  assume a: "single_quote \<notin> set body"
  then have "takeWhile (\<lambda>d. d \<noteq> single_quote) (body @ single_quote # rest) = body"
    and "dropWhile (\<lambda>d. d \<noteq> single_quote) (body @ single_quote # rest) = single_quote # rest"
    by (induction body) auto
  then show ?thesis by (simp add: sh_lex.simps started_def single_quote_def)
qed

lemma sh_lex_quoted_quote:
  "sh_lex (Some a) (double_quote # single_quote # double_quote # rest)
     = sh_lex (Some (single_quote # a)) rest"
  by (simp add: sh_lex.simps(2) single_quote_def double_quote_def expands_in_quotes_def)

lemma sh_lex_escaped:
  "single_quote \<notin> set body \<Longrightarrow>
   sh_lex w (single_quote # body @ escape_quotes s @ single_quote # rest)
     = sh_lex (Some (rev s @ rev body @ started w)) rest"
proof (induction s arbitrary: w body)
  case Nil
  then show ?case by (simp add: sh_lex_single)
next
  case (Cons c s)
  show ?case
  proof (cases "c = single_quote")
    case True
    then show ?thesis
      using sh_lex_single [OF Cons.prems, of w
          "double_quote # single_quote # double_quote # single_quote # escape_quotes s @ single_quote # rest"]
        Cons.IH [of "[]" "Some (single_quote # rev body @ started w)"]
      by (simp add: sh_lex_quoted_quote started_def)
  next
    case False
    then show ?thesis using Cons.IH [of "body @ [c]" w] Cons.prems by simp
  qed
qed

lemma sh_lex_quote: "sh_lex w (shlex_quote s @ rest) = sh_lex (Some (rev s @ started w)) rest"
  using sh_lex_single [of "[]" w rest] sh_lex_escaped [of "[]" w s rest]
  by (simp add: shlex_quote_def sh_lex_safe_word)

lemma sh_lex_join: "sh_lex None (join '' '' (map shlex_quote ws)) = Some ws"
proof (cases ws)
  case Nil
  then show ?thesis by (simp add: join_def sh_lex_end)
next
  case (Cons w us)
  have "sh_lex (Some a) (concat (map (\<lambda>x. '' '' @ x) (map shlex_quote us))) = Some (rev a # us)" for a
  proof (induction us arbitrary: a)
    case Nil
    then show ?case by (simp add: sh_lex_end)
  next
    case (Cons u us)
    then show ?case by (simp add: sh_lex_blank sh_lex_quote started_def o_def)
  qed
  then show ?thesis by (simp add: Cons join_def sh_lex_quote started_def o_def)
qed

lemma sh_words_exec_line:
  assumes "list_all shell_safe interpreter" and "interpreter \<noteq> []"
  shows "sh_words (exec_line interpreter args) = Some (''exec'' # interpreter # args)"
proof -
  let ?rest = "CHR '' '' # join '' '' (map shlex_quote args)"
  have "list_all shell_safe ''exec''"
    by (simp add: shell_safe_def is_alnum_def is_lower_def code_point_def)
  then have "sh_lex None (''exec'' @ t) = sh_lex (Some (rev ''exec'')) t" for t
    using sh_lex_safe_word [of "''exec''" None t] by (simp add: started_def)
  then have "sh_lex None (''exec'' @ CHR '' '' # interpreter @ ?rest) = Some (''exec'' # interpreter # args)"
    using sh_lex_safe_word [OF assms, of None ?rest] by (simp add: sh_lex_blank sh_lex_join started_def)
  then show ?thesis by (simp add: sh_words_def exec_line_def sh_lex_blank)
qed

section \<open>The walltime text\<close>

lemma pad2_digits: "all_digits s \<Longrightarrow> all_digits (pad2 s) \<and> parse_nat (pad2 s) = parse_nat s"
  by (simp add: pad2_def all_digits_def is_digit_def code_point_def parse_nat_def digit_value_def)

text \<open>The clock reader of site planning reads the walltime text back.\<close>

lemma duration_of_walltime_text:
  assumes "0 \<le> n"
  shows "duration_seconds (JStr (walltime_text n)) = Some n"
proof -
  define h m t where h: "h = pad2 (str_int (n div 3600))"
    and m: "m = pad2 (str_int (n mod 3600 div 60))" and t: "t = pad2 (str_int (n mod 3600 mod 60))"
  let ?w = "h @ CHR '':'' # m @ CHR '':'' # t"
  have w: "walltime_text n = ?w" by (simp add: walltime_text_def h m t)
  have nn: "0 \<le> n div 3600" "0 \<le> n mod 3600 div 60" "0 \<le> n mod 3600 mod 60"
    using assms by simp_all
  have d: "all_digits h" "all_digits m" "all_digits t"
    by (simp_all add: h m t str_int_nat nn pad2_digits str_nat_digits)
  have v: "int (parse_nat h) = n div 3600" "int (parse_nat m) = n mod 3600 div 60"
    "int (parse_nat t) = n mod 3600 mod 60"
    by (simp_all add: h m t str_int_nat nn pad2_digits str_nat_digits parse_str_nat)
  have colon: "\<not> is_digit (CHR '':'')" "\<not> is_space (CHR '':'')"
    by (simp_all add: is_digit_def is_space_def code_point_def)
  have split: "split_on (CHR '':'') ?w = [h, m, t]"
    using d colon by (simp add: split_on_append split_on_single all_digits_not_in)
  have strip: "py_strip ?w = ?w"
    using d colon by (intro py_strip_id) (auto simp: all_digits_def list_all_iff digit_not_space)
  obtain c cs where h': "h = c # cs" "is_digit c" using d(1) by (cases h) (auto simp: all_digits_def)
  have "casefold ?w \<notin> {''infinite'', ''unlimited'', ''--''}"
    using h' by (auto simp: casefold_def lower_char_def is_upper_def is_digit_def code_point_def split: if_splits)
  moreover have "takeWhile is_digit ?w = h" "dropWhile is_digit ?w = CHR '':'' # m @ CHR '':'' # t"
    using takeWhile_digits [of h "CHR '':''" "m @ CHR '':'' # t"] d(1) colon by (auto simp: all_digits_def)
  ultimately have "duration_seconds (JStr ?w) = Some (int (parse_nat h) * 3600 + int (parse_nat m) * 60
      + int (parse_nat t))"
    using d by (simp add: duration_seconds_def Let_def strip split starts_with_def)
  also have "\<dots> = Some n" unfolding v by (simp add: minus_mod_eq_mult_div [symmetric] minus_mult_div_eq_mod)
  finally show ?thesis by (simp add: w)
qed

lemma mebibytes_covers: "v \<le> mebibytes v * (1024 * 1024)"
proof -
  have "v \<le> (v + 1048576 - 1) div 1048576 * 1048576" by linarith
  then have "v \<le> (v + 1024 * 1024 - 1) div (1024 * 1024) * (1024 * 1024)" by simp
  also have "\<dots> \<le> mebibytes v * (1024 * 1024)"
    unfolding mebibytes_def by (intro mult_right_mono) simp_all
  finally show ?thesis .
qed

section \<open>Slurm's reading of the directives\<close>

text \<open>\<open>#SBATCH --key=value\<close>; a later directive overrides an earlier one.\<close>

definition option_of :: "string \<Rightarrow> string \<times> string" where
  "option_of line = (takeWhile (\<lambda>c. c \<noteq> CHR ''='') line, drop 1 (dropWhile (\<lambda>c. c \<noteq> CHR ''='') line))"

definition slurm_text :: "string list \<Rightarrow> string \<Rightarrow> string option" where
  "slurm_text ds key = map_of (rev (map option_of ds)) (''#SBATCH --'' @ key)"

definition slurm_number :: "string list \<Rightarrow> string \<Rightarrow> int option" where
  "slurm_number ds key =
     map_option (\<lambda>v. int (parse_nat (takeWhile is_digit v))) (slurm_text ds key)"

definition default_one :: "int option \<Rightarrow> int" where
  "default_one v = (case v of None \<Rightarrow> 1 | Some i \<Rightarrow> i)"

text \<open>The number of tasks: given, or so many on each node.\<close>

definition slurm_tasks :: "string list \<Rightarrow> int" where
  "slurm_tasks ds =
     (case slurm_number ds ''ntasks'' of
        Some t \<Rightarrow> t
      | None \<Rightarrow> default_one (slurm_number ds ''nodes'')
          * default_one (slurm_number ds ''ntasks-per-node''))"

definition slurm_cpus :: "string list \<Rightarrow> int" where
  "slurm_cpus ds = slurm_tasks ds * default_one (slurm_number ds ''cpus-per-task'')"

definition slurm_gpus :: "string list \<Rightarrow> int" where
  "slurm_gpus ds =
     (case slurm_number ds ''gpus-per-node'' of
        Some g \<Rightarrow> default_one (slurm_number ds ''nodes'') * g
      | None \<Rightarrow> (case slurm_number ds ''gpus'' of None \<Rightarrow> 0 | Some g \<Rightarrow> g))"

text \<open>Bytes per node; the unit is mebibytes.\<close>

definition slurm_memory :: "string list \<Rightarrow> int option" where
  "slurm_memory ds = map_option (\<lambda>m. m * (1024 * 1024)) (slurm_number ds ''mem'')"

definition slurm_seconds :: "string list \<Rightarrow> int option" where
  "slurm_seconds ds =
     (case slurm_text ds ''time'' of None \<Rightarrow> None | Some v \<Rightarrow> duration_seconds (JStr v))"

lemma str_int_number:
  "0 \<le> i \<Longrightarrow> int (parse_nat (takeWhile is_digit (str_int i))) = i"
  "0 \<le> i \<Longrightarrow> int (parse_nat (takeWhile is_digit (str_int i @ ''M''))) = i"
  "0 \<le> i \<Longrightarrow> int (parse_nat (takeWhile is_digit (str_int i @ ''mb''))) = i"
proof -
  assume i: "0 \<le> i"
  have d: "list_all is_digit (str_int i)"
    using str_nat_digits [of "nat i"] by (simp add: str_int_nat i all_digits_def)
  then have t: "takeWhile is_digit (str_int i) = str_int i" by (simp add: list_all_iff)
  have p: "int (parse_nat (str_int i)) = i" by (simp add: str_int_nat i parse_str_nat)
  show "int (parse_nat (takeWhile is_digit (str_int i))) = i" unfolding t by (rule p)
  have "\<not> is_digit (CHR ''M'')" "\<not> is_digit (CHR ''m'')" by (simp_all add: is_digit_def code_point_def)
  with takeWhile_digits [OF d this(1), of "[]"] takeWhile_digits [OF d this(2), of "''b''"] p
  show "int (parse_nat (takeWhile is_digit (str_int i @ ''M''))) = i"
    "int (parse_nat (takeWhile is_digit (str_int i @ ''mb''))) = i" by simp_all
qed

lemma option_of_append: "CHR ''='' \<notin> set key \<Longrightarrow> option_of (key @ CHR ''='' # v) = (key, v)"
  by (induction key) (auto simp: option_of_def)

lemma slurm_text_Nil: "slurm_text [] key = None"
  by (simp add: slurm_text_def)

lemma slurm_text_append:
  "slurm_text (xs @ ys) key =
     (case slurm_text ys key of None \<Rightarrow> slurm_text xs key | Some v \<Rightarrow> Some v)"
  by (simp add: slurm_text_def map_add_def split: option.split)

lemma slurm_text_line:
  "CHR ''='' \<notin> set k \<Longrightarrow>
   slurm_text [''#SBATCH --'' @ k @ CHR ''='' # v] key = (if key = k then Some v else None)"
  using option_of_append [of "''#SBATCH --'' @ k" v] by (simp add: slurm_text_def)

lemma slurm_text_opt_line:
  "CHR ''='' \<notin> set k \<Longrightarrow>
   slurm_text (opt_line (''#SBATCH --'' @ k @ ''='') suffix v) key =
     (if key = k then map_option (\<lambda>i. str_int i @ suffix) v else None)"
  using slurm_text_line [of k _ key] by (cases v) (simp_all add: opt_line_def slurm_text_Nil)

lemmas slurm_text_simps =
  slurm_text_Nil slurm_text_append
  slurm_text_opt_line [of "''nodes''", simplified] slurm_text_opt_line [of "''ntasks''", simplified]
  slurm_text_opt_line [of "''ntasks-per-node''", simplified]
  slurm_text_opt_line [of "''gpus-per-node''", simplified]
  slurm_text_opt_line [of "''gpus''", simplified] slurm_text_opt_line [of "''mem''", simplified]
  slurm_text_line [of "''cpus-per-task''", simplified]
  slurm_text_line [of "''ntasks-per-node''" "''1''", simplified]
  slurm_text_line [of "''time''", simplified] slurm_text_line [of "''job-name''", simplified]
  slurm_text_line [of "''partition''", simplified]

lemma slurm_text_walltime:
  "slurm_text (walltime_line ''#SBATCH --time='' v) key =
     (if key = ''time'' then map_option walltime_text v else None)"
  by (cases v) (simp_all add: walltime_line_def slurm_text_simps)

text \<open>The lines that name the job and the partition carry none of the quantities.\<close>

lemma slurm_directives_text:
  assumes "slurm_directives p target = Inr ds" and "pl_shape p = Some s"
    and "key \<noteq> ''job-name''" and "key \<noteq> ''partition''"
  obtains ls where "slurm_shape_lines s = Inr ls" and "slurm_text ds key = slurm_text ls key"
proof -
  obtain ls where ls: "slurm_shape_lines s = Inr ls"
    and ds: "ds = [''#SBATCH --job-name=bourne''] @ name_line ''#SBATCH --partition='' target @ ls"
    using assms(1,2) by (auto simp: slurm_directives_def mapR_Inr_iff)
  have "slurm_text (name_line ''#SBATCH --partition='' target) key = None"
    using assms(4) by (simp add: name_line_def slurm_text_simps split: option.split)
  then have "slurm_text ds key = slurm_text ls key"
    using assms(3) slurm_text_line [of "''job-name''" "''bourne''" key]
    by (simp add: ds slurm_text_append [of "[x]" for x, simplified] slurm_text_append split: option.split)
  with ls show thesis using that by blast
qed

lemma slurm_shape_lines_parts:
  assumes "slurm_shape_lines s = Inr ls"
  obtains cpus memory where "slurm_cpu_lines s = Inr cpus"
    and "shape_per_node (s_memory_bytes s) (s_memory_per_node_bytes s) (s_nodes s) ''memory''
      = Inr memory"
    and "ls = opt_line ''#SBATCH --nodes='' [] (s_nodes s)
       @ opt_line ''#SBATCH --ntasks='' [] (s_mpi_ranks s)
       @ opt_line ''#SBATCH --ntasks-per-node='' [] (s_ranks_per_node s)
       @ cpus @ slurm_gpu_lines s
       @ opt_line ''#SBATCH --mem='' ''M'' (map_option mebibytes memory)
       @ walltime_line ''#SBATCH --time='' (s_walltime_seconds s)"
  using assms by (auto simp: slurm_shape_lines_def bindR_Inr_iff)

lemma slurm_text_gpu_lines:
  "slurm_text (slurm_gpu_lines s) key =
     (case s_gpus_per_node s of
        Some g \<Rightarrow> if key = ''gpus-per-node'' then Some (str_int g) else None
      | None \<Rightarrow> if key = ''gpus'' then map_option str_int (s_gpus s) else None)"
  by (simp add: slurm_gpu_lines_def slurm_text_simps split: option.split)

lemma slurm_cpu_lines_keys:
  assumes "slurm_cpu_lines s = Inr cpus" and "key \<noteq> ''cpus-per-task''" and "key \<noteq> ''ntasks-per-node''"
  shows "slurm_text cpus key = None"
proof -
  have two: "slurm_text [''#SBATCH --ntasks-per-node=1'', ''#SBATCH --cpus-per-task='' @ v] key = None" for v
    using slurm_text_append [of "[''#SBATCH --ntasks-per-node=1'']" "[''#SBATCH --cpus-per-task='' @ v]" key]
      assms(2,3) by (simp add: slurm_text_simps)
  show ?thesis
    using assms two
    by (auto simp: slurm_cpu_lines_def bindR_Inr_iff slurm_rankless_cpus_def slurm_text_simps
        split: option.splits if_splits)
qed

lemma at_least_option: "at_least m v \<Longrightarrow> v = Some i \<Longrightarrow> m \<le> i"
  by simp

lemma map_number: "at_least 0 v \<Longrightarrow>
    map_option (\<lambda>v. int (parse_nat (takeWhile is_digit v))) (map_option str_int v) = v"
  by (cases v) (simp_all add: str_int_number)

lemma shape_ok_nonneg:
  assumes "shape_ok s"
  shows "at_least 0 (s_nodes s)" "at_least 0 (s_mpi_ranks s)" "at_least 0 (s_ranks_per_node s)"
    "at_least 0 (s_gpus_per_node s)" "at_least 0 (s_gpus s)" "at_least 0 (s_walltime_seconds s)"
  using assms by (auto simp: shape_ok_def at_least_def split: option.splits)

lemma slurm_shape_numbers:
  assumes "slurm_shape_lines s = Inr ls" and "shape_ok s"
  shows "slurm_number ls ''nodes'' = s_nodes s" "slurm_number ls ''ntasks'' = s_mpi_ranks s"
    "slurm_number ls ''gpus-per-node'' = s_gpus_per_node s"
    "s_gpus_per_node s = None \<Longrightarrow> slurm_number ls ''gpus'' = s_gpus s"
    "slurm_seconds ls = s_walltime_seconds s"
proof -
  obtain cpus memory where c: "slurm_cpu_lines s = Inr cpus"
    and ls: "ls = opt_line ''#SBATCH --nodes='' [] (s_nodes s)
       @ opt_line ''#SBATCH --ntasks='' [] (s_mpi_ranks s)
       @ opt_line ''#SBATCH --ntasks-per-node='' [] (s_ranks_per_node s)
       @ cpus @ slurm_gpu_lines s
       @ opt_line ''#SBATCH --mem='' ''M'' (map_option mebibytes memory)
       @ walltime_line ''#SBATCH --time='' (s_walltime_seconds s)"
    using slurm_shape_lines_parts [OF assms(1)] by metis
  note t = slurm_text_simps slurm_text_walltime slurm_text_gpu_lines slurm_cpu_lines_keys [OF c]
  note n = shape_ok_nonneg [OF assms(2)]
  have "slurm_text ls ''nodes'' = map_option str_int (s_nodes s)"
    "slurm_text ls ''ntasks'' = map_option str_int (s_mpi_ranks s)"
    "slurm_text ls ''gpus-per-node'' = map_option str_int (s_gpus_per_node s)"
    "s_gpus_per_node s = None \<Longrightarrow> slurm_text ls ''gpus'' = map_option str_int (s_gpus s)"
    "slurm_text ls ''time'' = map_option walltime_text (s_walltime_seconds s)"
    by (auto simp: ls t split: option.split)
  then show "slurm_number ls ''nodes'' = s_nodes s" "slurm_number ls ''ntasks'' = s_mpi_ranks s"
    "slurm_number ls ''gpus-per-node'' = s_gpus_per_node s"
    "s_gpus_per_node s = None \<Longrightarrow> slurm_number ls ''gpus'' = s_gpus s"
    "slurm_seconds ls = s_walltime_seconds s"
    using n by (simp_all only: slurm_number_def slurm_seconds_def map_number)
      (cases "s_walltime_seconds s"; simp add: duration_of_walltime_text)
qed

lemma slurm_shape_memory:
  assumes "slurm_shape_lines s = Inr ls"
  obtains memory where "shape_per_node (s_memory_bytes s) (s_memory_per_node_bytes s) (s_nodes s)
      ''memory'' = Inr memory"
    and "slurm_memory ls = map_option (\<lambda>m. mebibytes m * (1024 * 1024)) memory"
proof -
  obtain cpus memory where c: "slurm_cpu_lines s = Inr cpus"
    and m: "shape_per_node (s_memory_bytes s) (s_memory_per_node_bytes s) (s_nodes s) ''memory''
      = Inr memory"
    and ls: "ls = opt_line ''#SBATCH --nodes='' [] (s_nodes s)
       @ opt_line ''#SBATCH --ntasks='' [] (s_mpi_ranks s)
       @ opt_line ''#SBATCH --ntasks-per-node='' [] (s_ranks_per_node s)
       @ cpus @ slurm_gpu_lines s
       @ opt_line ''#SBATCH --mem='' ''M'' (map_option mebibytes memory)
       @ walltime_line ''#SBATCH --time='' (s_walltime_seconds s)"
    using slurm_shape_lines_parts [OF assms] .
  have "slurm_text ls ''mem'' = map_option (\<lambda>m. str_int (mebibytes m) @ ''M'') memory"
    by (simp add: ls slurm_text_simps slurm_text_walltime slurm_text_gpu_lines
        slurm_cpu_lines_keys [OF c] split: option.split)
  then have "slurm_memory ls = map_option (\<lambda>m. mebibytes m * (1024 * 1024)) memory"
    by (cases memory) (simp_all add: slurm_memory_def slurm_number_def str_int_number mebibytes_def)
  with m show thesis by (rule that)
qed

lemma shape_per_node_covers:
  assumes "shape_per_node whole per_node (Some n) label = Inr v" and "1 \<le> n"
    and "product_ok (Some n) per_node whole" and "whole = Some w"
  obtains p where "v = Some p" and "n * p = w"
  using assms
  by (auto simp: shape_per_node_def or_one_def product_ok_def split: option.splits if_splits)

lemma product_ok_known [simp]: "product_ok (Some a) (Some b) (Some c) \<longleftrightarrow> a * b = c"
  by (simp add: product_ok_def)

lemma threads_per_rank_covers:
  assumes "shape_threads_per_rank s = Inr v" and "shape_ok s" and "s_mpi_ranks s = Some r"
    and "s_total_cpus s = Some c"
  obtains t where "v = Some t" and "r * t = c" and "0 \<le> t"
proof (cases "s_threads_per_rank s")
  case None
  with assms have "v = Some (c div r)" "c mod r = 0" "1 \<le> r" "1 \<le> c"
    by (simp_all add: shape_threads_per_rank_def shape_ok_def split: if_splits)
  with that [of "c div r"] show thesis by (simp add: pos_imp_zdiv_nonneg_iff minus_mod_eq_mult_div [symmetric])
next
  case (Some t)
  with assms(2-4) have "r * t = c" "0 \<le> t" by (simp_all add: shape_ok_def)
  moreover have "v = Some t" using assms(1) Some by (simp add: shape_threads_per_rank_def)
  ultimately show thesis using that by blast
qed

text \<open>CPUs: the tasks times the CPUs of each cover the total.\<close>

lemma slurm_shape_cpus:
  assumes "slurm_shape_lines s = Inr ls" and "shape_ok s" and "s_nodes s = Some n"
    and "s_total_cpus s = Some c" and "s_mpi_ranks s \<noteq> None \<or> s_threads_per_rank s = None"
  shows "c \<le> slurm_cpus ls"
proof -
  obtain cpus memory where cl: "slurm_cpu_lines s = Inr cpus"
    and ls: "ls = opt_line ''#SBATCH --nodes='' [] (s_nodes s)
       @ opt_line ''#SBATCH --ntasks='' [] (s_mpi_ranks s)
       @ opt_line ''#SBATCH --ntasks-per-node='' [] (s_ranks_per_node s)
       @ cpus @ slurm_gpu_lines s
       @ opt_line ''#SBATCH --mem='' ''M'' (map_option mebibytes memory)
       @ walltime_line ''#SBATCH --time='' (s_walltime_seconds s)"
    using slurm_shape_lines_parts [OF assms(1)] by metis
  have tx: "slurm_text ls key = (case slurm_text cpus key of Some v \<Rightarrow> Some v
      | None \<Rightarrow> if key = ''ntasks-per-node'' then map_option str_int (s_ranks_per_node s) else None)"
    if "key = ''cpus-per-task'' \<or> key = ''ntasks-per-node''" for key
  proof -
    have "slurm_text (slurm_gpu_lines s @ opt_line ''#SBATCH --mem='' ''M'' (map_option mebibytes memory)
       @ walltime_line ''#SBATCH --time='' (s_walltime_seconds s)) key = None"
      using that by (elim disjE) (simp_all add: slurm_text_simps slurm_text_walltime
          slurm_text_gpu_lines split: option.split)
    moreover have "slurm_text (opt_line ''#SBATCH --nodes='' [] (s_nodes s)
       @ opt_line ''#SBATCH --ntasks='' [] (s_mpi_ranks s)
       @ opt_line ''#SBATCH --ntasks-per-node='' [] (s_ranks_per_node s)) key
       = (if key = ''ntasks-per-node'' then map_option str_int (s_ranks_per_node s) else None)"
      using that by (elim disjE) (simp_all add: slurm_text_simps split: option.split)
    ultimately show ?thesis
      using slurm_text_append [of "opt_line ''#SBATCH --nodes='' [] (s_nodes s)
          @ opt_line ''#SBATCH --ntasks='' [] (s_mpi_ranks s)
          @ opt_line ''#SBATCH --ntasks-per-node='' [] (s_ranks_per_node s)" _ key]
        slurm_text_append [of cpus _ key]
      by (auto simp: ls split: option.splits if_splits)
  qed
  note ok = assms(2) [unfolded shape_ok_def]
  note numbers = slurm_shape_numbers(1,2) [OF assms(1,2)]
  show ?thesis
  proof (cases "s_mpi_ranks s")
    case (Some r)
    obtain v where "shape_threads_per_rank s = Inr v"
      using cl by (auto simp: slurm_cpu_lines_def bindR_Inr_iff)
    moreover from threads_per_rank_covers [OF this assms(2) Some assms(4)]
    obtain t where "v = Some t" and rt: "r * t = c" and t: "0 \<le> t" .
    ultimately have cpus: "cpus = [''#SBATCH --cpus-per-task='' @ str_int t]"
      using cl by (simp add: slurm_cpu_lines_def)
    have "slurm_number ls ''cpus-per-task'' = Some t"
      using t by (simp add: slurm_number_def tx cpus slurm_text_simps str_int_number)
    then show ?thesis using rt by (simp add: slurm_cpus_def slurm_tasks_def numbers Some default_one_def)
  next
    case None
    with assms(5) have "slurm_rankless_cpus s = Inr cpus"
      using cl by (cases "s_total_cpus s") (simp_all add: slurm_cpu_lines_def shape_threads_per_rank_def)
    then consider k where "s_cpus_per_node s = Some k"
        "cpus = [''#SBATCH --ntasks-per-node=1'', ''#SBATCH --cpus-per-task='' @ str_int k]"
      | "n = 1" "cpus = [''#SBATCH --cpus-per-task='' @ str_int c]"
      using None assms(3,4)
      by (auto simp: slurm_rankless_cpus_def split: option.splits if_splits)
    then show ?thesis
    proof cases
      case 1
      then have k: "0 \<le> k" "n * k = c" using ok assms(3,4) by (auto simp: product_ok_def)
      have one: "int (parse_nat (takeWhile is_digit ''1'')) = 1"
        by (simp add: is_digit_def code_point_def parse_nat_def digit_value_def)
      have "slurm_number ls ''cpus-per-task'' = Some k" "slurm_number ls ''ntasks-per-node'' = Some 1"
        using k one slurm_text_append [of "[''#SBATCH --ntasks-per-node=1'']"
            "[''#SBATCH --cpus-per-task='' @ str_int k]"]
        by (simp_all add: slurm_number_def tx 1(2) slurm_text_simps str_int_number)
      with k show ?thesis
        by (simp add: slurm_cpus_def slurm_tasks_def numbers None assms(3) default_one_def)
    next
      case 2
      have c: "1 \<le> c" using ok assms(4) by simp
      then have "slurm_number ls ''cpus-per-task'' = Some c"
        by (simp add: slurm_number_def tx 2(2) slurm_text_simps str_int_number)
      moreover have "1 \<le> default_one (slurm_number ls ''ntasks-per-node'')"
        using shape_ok_nonneg(3) [OF assms(2)] ok
        by (cases "s_ranks_per_node s")
          (simp_all add: slurm_number_def tx 2(2) slurm_text_simps str_int_number default_one_def)
      ultimately show ?thesis using 2(1) c mult_right_mono [of 1 "default_one (slurm_number ls ''ntasks-per-node'')" c]
        by (simp add: slurm_cpus_def slurm_tasks_def numbers None assms(3) default_one_def)
    qed
  qed
qed

lemma slurm_directives_shape:
  assumes "slurm_directives p target = Inr ds" and "pl_shape p = Some s"
  obtains ls where "slurm_shape_lines s = Inr ls"
    and "\<And>key. key \<noteq> ''job-name'' \<Longrightarrow> key \<noteq> ''partition'' \<Longrightarrow> slurm_number ds key = slurm_number ls key"
    and "slurm_seconds ds = slurm_seconds ls"
proof -
  obtain ls where ls: "slurm_shape_lines s = Inr ls"
    using assms by (auto simp: slurm_directives_def mapR_Inr_iff)
  have "slurm_text ds key = slurm_text ls key" if "key \<noteq> ''job-name''" "key \<noteq> ''partition''" for key
    using slurm_directives_text [OF assms that] ls by (metis Inr_inject)
  then show thesis by (intro that [OF ls]) (simp_all add: slurm_number_def slurm_seconds_def)
qed


section \<open>PBS's reading of the selection\<close>

text \<open>The chunk statement of the one \<open>-l select\<close> line, a list of names and numbers.\<close>

definition pbs_selection :: "string list \<Rightarrow> (string \<times> string) list" where
  "pbs_selection ds =
     (case find (starts_with ''#PBS -l select='') ds of
        None \<Rightarrow> [] | Some line \<Rightarrow> map option_of (split_on (CHR '':'') (drop 8 line)))"

definition pbs_number :: "string list \<Rightarrow> string \<Rightarrow> int option" where
  "pbs_number ds key =
     map_option (\<lambda>v. int (parse_nat (takeWhile is_digit v))) (map_of (pbs_selection ds) key)"

lemma opt_line_no_colon:
  assumes "CHR '':'' \<notin> set key" and "CHR '':'' \<notin> set suffix" and "w \<in> set (opt_line key suffix v)"
  shows "CHR '':'' \<notin> set w"
proof -
  have "CHR '':'' \<notin> set (str_int i)" for i
    by (rule str_int_no) (simp_all add: is_digit_def code_point_def)
  with assms show ?thesis by (auto simp: opt_line_def split: option.splits)
qed

lemma map_of_opt_line:
  assumes "CHR ''='' \<notin> set k"
  shows "map_of (map option_of (opt_line (k @ ''='') suffix v)) key =
    (if key = k then map_option (\<lambda>i. str_int i @ suffix) v else None)"
  using option_of_append [OF assms] by (cases v) (simp_all add: opt_line_def)

lemmas pbs_simps =
  map_of_opt_line [of "''ncpus''", simplified] map_of_opt_line [of "''ngpus''", simplified]
  map_of_opt_line [of "''mem''", simplified] map_of_opt_line [of "''mpiprocs''", simplified]
  map_of_opt_line [of "''ompthreads''", simplified]

lemma option_of_select: "option_of (''select='' @ v) = (''select'', v)"
  using option_of_append [of "''select''" v] by simp

definition pbs_chunks :: "int \<Rightarrow> int option \<Rightarrow> int option \<Rightarrow> int option \<Rightarrow> int option \<Rightarrow> int option \<Rightarrow> string list" where
  "pbs_chunks n cpus gpus memory ranks threads =
     [''select='' @ str_int n] @ opt_line ''ncpus='' [] cpus @ opt_line ''ngpus='' [] gpus
     @ opt_line ''mem='' ''mb'' (map_option mebibytes memory) @ opt_line ''mpiprocs='' [] ranks
     @ opt_line ''ompthreads='' [] threads"

lemma pbs_chunks_split:
  "split_on (CHR '':'') (join '':'' (pbs_chunks n cpus gpus memory ranks threads))
     = pbs_chunks n cpus gpus memory ranks threads"
proof (rule split_on_join)
  have "CHR '':'' \<notin> set (str_int i)" for i
    by (rule str_int_no) (simp_all add: is_digit_def code_point_def)
  then show "list_all (\<lambda>w. CHR '':'' \<notin> set w) (pbs_chunks n cpus gpus memory ranks threads)"
    by (auto simp: pbs_chunks_def list_all_iff dest: opt_line_no_colon [rotated 2])
qed (simp add: pbs_chunks_def)

lemma pbs_selection_chunks:
  assumes "pbs_shape_lines s = Inr ls"
    and "ds = ''#PBS -N bourne'' # name_line ''#PBS -q '' target @ ls"
  obtains cpus gpus memory ranks where
    "shape_per_node (s_total_cpus s) (s_cpus_per_node s) (s_nodes s) ''CPUs'' = Inr cpus"
    and "shape_per_node (s_gpus s) (s_gpus_per_node s) (s_nodes s) ''GPUs'' = Inr gpus"
    and "shape_per_node (s_memory_bytes s) (s_memory_per_node_bytes s) (s_nodes s) ''memory'' = Inr memory"
    and "shape_per_node (s_mpi_ranks s) (s_ranks_per_node s) (s_nodes s) ''MPI ranks'' = Inr ranks"
    and "pbs_selection ds = map option_of
      (pbs_chunks (or_one (s_nodes s)) cpus gpus memory ranks (s_threads_per_rank s))"
proof -
  obtain cpus gpus memory ranks where v:
    "shape_per_node (s_total_cpus s) (s_cpus_per_node s) (s_nodes s) ''CPUs'' = Inr cpus"
    "shape_per_node (s_gpus s) (s_gpus_per_node s) (s_nodes s) ''GPUs'' = Inr gpus"
    "shape_per_node (s_memory_bytes s) (s_memory_per_node_bytes s) (s_nodes s) ''memory'' = Inr memory"
    "shape_per_node (s_mpi_ranks s) (s_ranks_per_node s) (s_nodes s) ''MPI ranks'' = Inr ranks"
    and ls: "ls = (''#PBS -l '' @ join '':'' (pbs_chunks (or_one (s_nodes s)) cpus gpus memory ranks
        (s_threads_per_rank s))) # walltime_line ''#PBS -l walltime='' (s_walltime_seconds s)"
    using assms(1) by (auto simp: pbs_shape_lines_def pbs_chunks_def bindR_Inr_iff)
  let ?chunks = "pbs_chunks (or_one (s_nodes s)) cpus gpus memory ranks (s_threads_per_rank s)"
  have "find (starts_with ''#PBS -l select='') ds = Some (''#PBS -l '' @ join '':'' ?chunks)"
    by (simp add: assms(2) ls name_line_def starts_with_def join_def pbs_chunks_def split: option.split)
  then have "pbs_selection ds = map option_of ?chunks"
    by (simp add: pbs_selection_def pbs_chunks_split)
  with v show thesis by (rule that)
qed

lemma pbs_numbers:
  assumes "pbs_selection ds = map option_of (pbs_chunks n cpus gpus memory ranks threads)"
    and "0 \<le> n" "at_least 0 cpus" "at_least 0 gpus" "at_least 0 ranks"
  shows "pbs_number ds ''select'' = Some n" "pbs_number ds ''ncpus'' = cpus"
    "pbs_number ds ''ngpus'' = gpus" "pbs_number ds ''mpiprocs'' = ranks"
    "pbs_number ds ''mem'' = map_option mebibytes memory"
proof -
  have "map_of (pbs_selection ds) ''select'' = Some (str_int n)"
    "map_of (pbs_selection ds) ''ncpus'' = map_option str_int cpus"
    "map_of (pbs_selection ds) ''ngpus'' = map_option str_int gpus"
    "map_of (pbs_selection ds) ''mpiprocs'' = map_option str_int ranks"
    "map_of (pbs_selection ds) ''mem'' = map_option (\<lambda>m. str_int (mebibytes m) @ ''mb'') memory"
    using option_of_select [of "str_int n"]
    by (auto simp: assms(1) pbs_chunks_def map_add_def pbs_simps o_def option.map_comp
        simp del: append.simps(2) split: option.split)
  then show "pbs_number ds ''select'' = Some n" "pbs_number ds ''ncpus'' = cpus"
    "pbs_number ds ''ngpus'' = gpus" "pbs_number ds ''mpiprocs'' = ranks"
    "pbs_number ds ''mem'' = map_option mebibytes memory"
    using assms(2-5)
    by (simp_all only: pbs_number_def map_number) (cases memory; simp add: str_int_number mebibytes_def)+
qed

lemma shape_per_node_nonneg:
  "shape_per_node w q (Some n) l = Inr v \<Longrightarrow> 1 \<le> n \<Longrightarrow> at_least 0 w \<Longrightarrow> at_least 0 q \<Longrightarrow> at_least 0 v"
  by (auto simp: shape_per_node_def or_one_def pos_imp_zdiv_nonneg_iff split: option.splits if_splits)

lemma shape_ok_nonneg':
  assumes "shape_ok s"
  shows "at_least 0 (s_total_cpus s)" "at_least 0 (s_cpus_per_node s)"
  using assms by (auto simp: shape_ok_def at_least_def split: option.splits)

text \<open>
  For a resource shape with a known number of nodes, the PBS selection never asks for less
  than the shape: as PBS reads the chunk statement, the chunks are the nodes, and the nodes times
  the CPUs, GPUs and MPI processes of a chunk are the totals of the shape, while the nodes times
  the memory of a chunk, in mebibytes, cover its total memory.
\<close>

theorem pbs_request_covers_shape:
  assumes "pbs_directives p target = Inr ds" and "pl_shape p = Some s" and "shape_ok s"
    and "s_nodes s = Some n"
  shows "pbs_number ds ''select'' = Some n \<and>
    (\<forall>c. s_total_cpus s = Some c \<longrightarrow> (\<exists>k. pbs_number ds ''ncpus'' = Some k \<and> n * k = c)) \<and>
    (\<forall>g. s_gpus s = Some g \<longrightarrow> (\<exists>k. pbs_number ds ''ngpus'' = Some k \<and> n * k = g)) \<and>
    (\<forall>r. s_mpi_ranks s = Some r \<longrightarrow> (\<exists>k. pbs_number ds ''mpiprocs'' = Some k \<and> n * k = r)) \<and>
    (\<forall>m. s_memory_bytes s = Some m \<longrightarrow>
       (\<exists>k. pbs_number ds ''mem'' = Some k \<and> m \<le> n * (k * (1024 * 1024))))"
proof -
  obtain ls where ls: "pbs_shape_lines s = Inr ls"
    and ds: "ds = ''#PBS -N bourne'' # name_line ''#PBS -q '' target @ ls"
    using assms(1,2) by (auto simp: pbs_directives_def mapR_Inr_iff)
  note ok = assms(3) [unfolded shape_ok_def assms(4), simplified]
  obtain cpus gpus memory ranks where v:
    "shape_per_node (s_total_cpus s) (s_cpus_per_node s) (Some n) ''CPUs'' = Inr cpus"
    "shape_per_node (s_gpus s) (s_gpus_per_node s) (Some n) ''GPUs'' = Inr gpus"
    "shape_per_node (s_memory_bytes s) (s_memory_per_node_bytes s) (Some n) ''memory'' = Inr memory"
    "shape_per_node (s_mpi_ranks s) (s_ranks_per_node s) (Some n) ''MPI ranks'' = Inr ranks"
    and sel: "pbs_selection ds = map option_of
      (pbs_chunks (or_one (Some n)) cpus gpus memory ranks (s_threads_per_rank s))"
    using pbs_selection_chunks [OF ls ds] assms(4) by metis
  have n: "or_one (Some n) = n" using ok by (simp add: or_one_def)
  have c: "\<exists>k. cpus = Some k \<and> n * k = c" if "s_total_cpus s = Some c" for c
    using shape_per_node_covers [OF v(1) _ _ that] ok by metis
  have g: "\<exists>k. gpus = Some k \<and> n * k = g" if "s_gpus s = Some g" for g
    using shape_per_node_covers [OF v(2) _ _ that] ok by metis
  have m: "\<exists>k. memory = Some k \<and> n * k = m" if "s_memory_bytes s = Some m" for m
    using shape_per_node_covers [OF v(3) _ _ that] ok by metis
  have r: "\<exists>k. ranks = Some k \<and> n * k = r" if "s_mpi_ranks s = Some r" for r
    using shape_per_node_covers [OF v(4) _ _ that] ok by metis
  have n1: "1 \<le> n" using ok by simp
  note nn = shape_ok_nonneg [OF assms(3)] shape_ok_nonneg' [OF assms(3)]
  have pos: "at_least 0 cpus" "at_least 0 gpus" "at_least 0 ranks"
    using shape_per_node_nonneg [OF v(1) n1] shape_per_node_nonneg [OF v(2) n1]
      shape_per_node_nonneg [OF v(4) n1] nn by simp_all
  have n0: "0 \<le> n" using n1 by simp
  note numbers = pbs_numbers [OF sel [unfolded n] n0 pos]
  have memory: "m \<le> n * (mebibytes k * (1024 * 1024))" if "n * k = m" for k m
    using mult_left_mono [OF mebibytes_covers [of k] n0] that by simp
  show ?thesis
    using numbers c g r m memory by (auto simp: numbers)
qed

section \<open>The whole script\<close>

definition one_line :: "string \<Rightarrow> string \<Rightarrow> bool" where
  "one_line marker d \<longleftrightarrow> CHR 0x0A \<notin> set d \<and> starts_with marker d"

lemma starts_with_append: "starts_with m p \<Longrightarrow> starts_with m (p @ t)"
  by (auto simp: starts_with_iff)

lemma number_no_newline: "CHR 0x0A \<notin> set (str_int i)" "CHR 0x0A \<notin> set (walltime_text n)"
proof -
  have i: "CHR 0x0A \<notin> set (str_int i)" for i
    by (rule str_int_no) (simp_all add: is_digit_def code_point_def)
  then show "CHR 0x0A \<notin> set (str_int i)" .
  have "CHR 0x0A \<notin> set (pad2 (str_int i))" for i using i [of i] by (simp add: pad2_def)
  then show "CHR 0x0A \<notin> set (walltime_text n)" by (simp add: walltime_text_def)
qed

lemma one_line_append:
  "one_line marker prefix \<Longrightarrow> CHR 0x0A \<notin> set t \<Longrightarrow> one_line marker (prefix @ t)"
  by (simp add: one_line_def starts_with_append)

lemma one_line_parts:
  assumes "one_line marker prefix"
  shows "CHR 0x0A \<notin> set suffix \<Longrightarrow> list_all (one_line marker) (opt_line prefix suffix v)"
    and "list_all (one_line marker) (walltime_line prefix v)"
    and "(case target of None \<Rightarrow> True | Some n \<Rightarrow> SAFE_SCHEDULER_NAME n) \<Longrightarrow>
      list_all (one_line marker) (name_line prefix target)"
proof -
  have "CHR 0x0A \<notin> set n" if "SAFE_SCHEDULER_NAME n" for n
    using that by (auto simp: SAFE_SCHEDULER_NAME_def list_all_iff is_alnum_def is_digit_def
        is_upper_def is_lower_def code_point_def)
  then show "(case target of None \<Rightarrow> True | Some n \<Rightarrow> SAFE_SCHEDULER_NAME n) \<Longrightarrow>
      list_all (one_line marker) (name_line prefix target)"
    using assms by (auto simp: name_line_def intro!: one_line_append split: option.split)
qed (use assms number_no_newline in
    \<open>auto simp: opt_line_def walltime_line_def intro!: one_line_append split: option.split\<close>)

lemma join_no_newline:
  "CHR 0x0A \<notin> set sep \<Longrightarrow> list_all (\<lambda>w. CHR 0x0A \<notin> set w) ws \<Longrightarrow> CHR 0x0A \<notin> set (join sep ws)"
  by (auto simp: join_def list_all_iff split: list.split)

lemma opt_line_no_newline:
  "CHR 0x0A \<notin> set prefix \<Longrightarrow> CHR 0x0A \<notin> set suffix \<Longrightarrow>
   list_all (\<lambda>w. CHR 0x0A \<notin> set w) (opt_line prefix suffix v)"
  using number_no_newline(1) by (cases v) (simp_all add: opt_line_def)

lemma slurm_lines_ok:
  assumes "slurm_directives p target = Inr ds"
    and "case target of None \<Rightarrow> True | Some n \<Rightarrow> SAFE_SCHEDULER_NAME n"
  shows "list_all (one_line ''#SBATCH '') ds"
proof -
  have prefixes: "one_line ''#SBATCH '' (''#SBATCH --'' @ k)" if "CHR 0x0A \<notin> set k" for k
    using that by (simp add: one_line_def starts_with_def)
  note parts = one_line_parts [OF prefixes]
  have cpu: "list_all (one_line ''#SBATCH '') c" if "slurm_cpu_lines s = Inr c" for s c
    using that number_no_newline(1)
    by (auto simp: slurm_cpu_lines_def slurm_rankless_cpus_def bindR_Inr_iff one_line_def starts_with_def
        split: option.splits if_splits)
  have shape: "list_all (one_line ''#SBATCH '') ls" if "slurm_shape_lines s = Inr ls" for s ls
    using that cpu parts(1) [of "''nodes=''" "[]" "s_nodes s"]
      parts(1) [of "''ntasks=''" "[]" "s_mpi_ranks s"]
      parts(1) [of "''ntasks-per-node=''" "[]" "s_ranks_per_node s"]
      parts(1) [of "''gpus-per-node=''" "[]" "s_gpus_per_node s"]
      parts(1) [of "''gpus=''" "[]" "s_gpus s"] parts(1) [of "''mem=''" "''M''"]
      parts(2) [of "''time=''" "s_walltime_seconds s"]
    by (auto simp: slurm_shape_lines_def slurm_gpu_lines_def bindR_Inr_iff split: option.split)
  have resources: "list_all (one_line ''#SBATCH '') (slurm_resource_lines r)" for r
    using parts(1) [of "''nodes=''" "[]" "r_nodes r"] parts(1) [of "''cpus-per-task=''" "[]" "r_cpus r"]
      parts(1) [of "''gpus=''" "[]" "r_gpus r"] parts(1) [of "''ntasks=''" "[]" "r_mpi_ranks r"]
      parts(1) [of "''mem=''" "''M''"] parts(2) [of "''time=''" "r_walltime_seconds r"]
    by (simp add: slurm_resource_lines_def)
  show ?thesis
    using assms(1) shape resources parts(3) [of "''partition=''" target] assms(2)
      prefixes [of "''job-name=bourne''"]
    by (auto simp: slurm_directives_def mapR_Inr_iff split: option.splits)
qed

lemma pbs_lines_ok:
  assumes "pbs_directives p target = Inr ds"
    and "case target of None \<Rightarrow> True | Some n \<Rightarrow> SAFE_SCHEDULER_NAME n"
  shows "list_all (one_line ''#PBS '') ds"
proof -
  have prefixes: "one_line ''#PBS '' (''#PBS -'' @ k)" if "CHR 0x0A \<notin> set k" for k
    using that by (simp add: one_line_def starts_with_def)
  note parts = one_line_parts [OF prefixes]
  have chunks: "one_line ''#PBS '' (''#PBS -l '' @ join '':'' (pbs_chunks n c g m r t))" for n c g m r t
  proof -
    have "list_all (\<lambda>w. CHR 0x0A \<notin> set w) (pbs_chunks n c g m r t)"
      using number_no_newline(1) by (simp add: pbs_chunks_def opt_line_no_newline)
    then show ?thesis using one_line_append [OF prefixes [of "''l ''"]] by (simp add: join_no_newline)
  qed
  have shape: "list_all (one_line ''#PBS '') ls" if "pbs_shape_lines s = Inr ls" for s ls
    using that chunks parts(2) [of "''l walltime=''"]
    by (auto simp: pbs_shape_lines_def pbs_chunks_def bindR_Inr_iff)
  have resources: "list_all (one_line ''#PBS '') (pbs_resource_lines r)" for r
    using chunks [of "or_one (r_nodes r)" "r_cpus r" "r_gpus r" "r_memory_bytes r" None None]
      parts(2) [of "''l walltime=''"]
    by (simp add: pbs_resource_lines_def pbs_chunks_def opt_line_def [of "''mpiprocs=''"]
        opt_line_def [of "''ompthreads=''"])
  show ?thesis
    using assms(1) shape resources parts(3) [of "''q ''" target] assms(2) prefixes [of "''N bourne''"]
    by (auto simp: pbs_directives_def mapR_Inr_iff split: option.splits)
qed

lemma lsf_span_ok: "lsf_span nodes slots per_host = Inr ls \<Longrightarrow> list_all (one_line ''#BSUB '') ls"
  using number_no_newline(1)
  by (auto simp: lsf_span_def ptile_def one_line_def starts_with_def double_quote_def
      split: option.splits if_splits)

lemma lsf_lines_ok:
  assumes "lsf_directives p target = Inr ds"
    and "case target of None \<Rightarrow> True | Some n \<Rightarrow> SAFE_SCHEDULER_NAME n"
  shows "list_all (one_line ''#BSUB '') ds"
proof -
  have prefixes: "one_line ''#BSUB '' (''#BSUB -'' @ k)" if "CHR 0x0A \<notin> set k" for k
    using that by (simp add: one_line_def starts_with_def)
  note parts = one_line_parts [OF prefixes]
  show ?thesis
    using assms(1) lsf_span_ok parts(1) [of "''n ''" "[]"] parts(1) [of "''W ''" "[]"]
      parts(3) [of "''q ''" target] assms(2) prefixes [of "''J bourne''"]
    by (auto simp: lsf_directives_def Let_def bindR_Inr_iff split: if_splits)
qed

lemma directives_ok:
  assumes "directives family p target = Inr ds"
    and "case target of None \<Rightarrow> True | Some n \<Rightarrow> SAFE_SCHEDULER_NAME n" and "d \<in> set ds"
  shows "\<exists>m \<in> {''#SBATCH '', ''#PBS '', ''#BSUB ''}. one_line m d"
  using assms slurm_lines_ok [of p target ds] pbs_lines_ok [of p target ds] lsf_lines_ok [of p target ds]
  by (auto simp: directives_def list_all_iff split: if_splits)

lemma directives_argv:
  "directives family (p\<lparr>pl_executable := e, pl_arguments := a, pl_inputs := i, pl_outputs := k\<rparr>) target
     = directives family p target"
  by (simp add: directives_def slurm_directives_def pbs_directives_def lsf_directives_def
      cong: option.case_cong)

text \<open>
  C27. A batch script is data-safe: it is the fixed shell text around one-line directives of a
  scheduler; under the shell's quoting rules both command lines that start the worker lex to
  exactly exec, the interpreter, the worker, the staged plan, the result path and the execution
  identity, whatever characters those contain; and the scientific command has no influence on it.
\<close>

theorem batch_script_is_data_safe:
  assumes "render_batch_script family p worker_path plan_path result_path execution_id target = Inr script"
  shows "(\<exists>ds. directives family p target = Inr ds \<and>
      script = join newline (''#!/bin/sh'' # ds
        @ script_tail [worker_path, plan_path, result_path, execution_id]) \<and>
      (\<forall>d \<in> set ds. \<exists>m \<in> {''#SBATCH '', ''#PBS '', ''#BSUB ''}. one_line m d)) \<and>
    (\<forall>(i, python) \<in> {(2, ''python3''), (4, ''python'')}.
       sh_words (script_tail [worker_path, plan_path, result_path, execution_id] ! i)
         = Some [''exec'', python, worker_path, plan_path, result_path, execution_id]) \<and>
    (\<forall>executable arguments inputs outputs.
       render_batch_script family (p\<lparr>pl_executable := executable, pl_arguments := arguments,
         pl_inputs := inputs, pl_outputs := outputs\<rparr>) worker_path plan_path result_path execution_id
         target = Inr script)"
proof -
  let ?args = "[worker_path, plan_path, result_path, execution_id]"
  have t: "case target of None \<Rightarrow> True | Some n \<Rightarrow> SAFE_SCHEDULER_NAME n"
    using assms by (auto simp: render_batch_script_def split: if_splits option.splits)
  obtain ds where ds: "directives family p target = Inr ds"
    and script: "script = join newline (''#!/bin/sh'' # ds @ script_tail ?args)"
    using assms by (auto simp: render_batch_script_def mapR_Inr_iff split: if_splits)
  have py: "list_all shell_safe ''python3''" "list_all shell_safe ''python''"
    by (simp_all add: shell_safe_def is_alnum_def is_lower_def is_digit_def code_point_def)
  have words: "\<forall>(i, python) \<in> {(2, ''python3''), (4, ''python'')}.
      sh_words (script_tail ?args ! i) = Some (''exec'' # python # ?args)"
    using sh_words_exec_line [OF py(1), of ?args] sh_words_exec_line [OF py(2), of ?args]
    by (simp add: script_tail_def)
  have same: "render_batch_script family (p\<lparr>pl_executable := executable, pl_arguments := arguments,
      pl_inputs := inputs, pl_outputs := outputs\<rparr>) worker_path plan_path result_path execution_id
      target = Inr script" for executable arguments inputs outputs
    using assms unfolding render_batch_script_def directives_argv .
  show ?thesis using ds script directives_ok [OF ds t] words same by blast
qed

section \<open>Concrete plans\<close>

lemma sample_shape_ok: "shape_ok sample_shape"
  by (simp add: sample_shape_def shape_ok_def empty_shape_def product_ok_def)

lemma sample_plan_shape: "pl_shape sample_plan = Some sample_shape"
  by (simp add: sample_plan_def)

lemma sample_scripts:
  "isOk (slurm_directives sample_plan (Some ''main''))"
  "isOk (pbs_directives sample_plan (Some ''main''))"
  by (simp_all add: slurm_directives_def pbs_directives_def sample_plan_def sample_shape_def empty_shape_def
      slurm_shape_lines_def slurm_cpu_lines_def slurm_rankless_cpus_def shape_threads_per_rank_def
      shape_per_node_def or_one_def pbs_shape_lines_def)


theorem pbs_request_covers_shape_witness:
  "\<exists>ds k. pbs_directives sample_plan (Some ''main'') = Inr ds \<and> pbs_number ds ''ncpus'' = Some k \<and>
     2 * k = 16"
proof -
  obtain ds where ds: "pbs_directives sample_plan (Some ''main'') = Inr ds"
    using sample_scripts(2) by (auto simp: isOk_iff)
  have "s_nodes sample_shape = Some 2" "s_total_cpus sample_shape = Some 16"
    by (simp_all add: sample_shape_def empty_shape_def)
  with pbs_request_covers_shape [OF ds sample_plan_shape sample_shape_ok this(1)] ds
  show ?thesis by blast
qed

theorem batch_script_is_data_safe_witness:
  "\<exists>script. render_batch_script ''slurm'' sample_plan ''/a b/worker.pyz'' ''/x;y/plan.json'' ''r''
       ''01J'' (Some ''main'') = Inr script \<and>
     sh_words (script_tail [''/a b/worker.pyz'', ''/x;y/plan.json'', ''r'', ''01J''] ! 2)
       = Some [''exec'', ''python3'', ''/a b/worker.pyz'', ''/x;y/plan.json'', ''r'', ''01J'']"
proof -
  have "isOk (render_batch_script ''slurm'' sample_plan ''/a b/worker.pyz'' ''/x;y/plan.json'' ''r''
      ''01J'' (Some ''main''))"
    using sample_scripts(1)
    by (auto simp: render_batch_script_def directives_def isOk_iff SAFE_SCHEDULER_NAME_def is_alnum_def
        is_lower_def code_point_def)
  then obtain script where script: "render_batch_script ''slurm'' sample_plan ''/a b/worker.pyz''
      ''/x;y/plan.json'' ''r'' ''01J'' (Some ''main'') = Inr script"
    by (auto simp: isOk_iff)
  with batch_script_is_data_safe [OF script] show ?thesis by auto
qed

section \<open>What the directives leave out\<close>

text \<open>
  Threads per rank without a rank count: two nodes of eight CPUs each are asked for as two tasks
  of four CPUs.
\<close>

definition threaded_shape :: shape where
  "threaded_shape = sample_shape\<lparr>s_threads_per_rank := Some 4\<rparr>"

lemma slurm_threads_without_ranks_underrequest:
  "shape_ok threaded_shape" "s_total_cpus threaded_shape = Some 16"
  "(case slurm_directives (sample_plan\<lparr>pl_shape := Some threaded_shape\<rparr>) None of
      Inl _ \<Rightarrow> False | Inr ds \<Rightarrow> slurm_cpus ds = 8)"
  by code_simp+

text \<open>LSF: GPUs and memory per node are dropped when the shape does not also state their totals.\<close>

lemma lsf_drops_quantities_per_node:
  "lsf_directives (sample_plan\<lparr>pl_shape := Some (empty_shape\<lparr>s_total_cpus := Some 8,
       s_gpus_per_node := Some 4, s_memory_per_node_bytes := Some 1000000000\<rparr>)\<rparr>) None
     = Inr [''#BSUB -J bourne'', ''#BSUB -n 8'']"
  by code_simp

end
