(* ===== verification/Scheduler.thy ===== *)
theory Scheduler
  imports Lsf WorkloadModels
begin

text \<open>
  How the local scheduler backends read their schedulers (\<open>backends.py\<close>): the parsing of
  submissions, the exact-job queries of Slurm, PBS and LSF with their fallbacks, the observation
  they yield and the execution state it is projected to. Commands are run by the caller's runner:
  a function from the argument vector to the bounded result, \<open>None\<close> when the process cannot be
  started; \<open>shutil.which\<close> is an argument too.
\<close>

section \<open>Observations\<close>

record observation =
  o_state :: string
  o_source :: string
  o_observable :: bool
  o_terminal :: bool
  o_diagnostic :: "string option"
  o_raw_state :: "string option"

definition observation_details :: "observation \<Rightarrow> string \<Rightarrow> string \<Rightarrow> json dict" where
  "observation_details b family job_id =
     [(''scheduler_family'', JStr family), (''scheduler_state'', JStr (o_state b)),
      (''job_id'', JStr job_id), (''observation_source'', JStr (o_source b)),
      (''job_observable'', JBool (o_observable b)), (''scheduler_terminal'', JBool (o_terminal b))]
     @ (case o_diagnostic b of None \<Rightarrow> [] | Some d \<Rightarrow> [(''diagnostic'', JStr d)])
     @ (case o_raw_state b of None \<Rightarrow> [] | Some r \<Rightarrow> [(''raw_scheduler_state'', JStr r)])"

datatype backend_error =
    BackendError string
  | AmbiguousSubmission string
  | BackendValueError
  | BackendIndexError

type_synonym 'a backend = "(backend_error, 'a) res"

text \<open>A job is known by its identity and the user that submitted it.\<close>

record job =
  j_execution :: string
  j_family :: string
  j_job_id :: string
  j_identity :: string
  j_submitted_at :: string
  j_state :: string
  j_observed_at :: string

text \<open>\<open>_failure_detail\<close>; an exit code that is not known prints as \<open>None\<close>.\<close>

definition failure_detail :: "cmd_result \<Rightarrow> string" where
  "failure_detail r =
     (if cr_timed_out r then ''scheduler command timed out''
      else take 4096
        (if py_strip (cr_stderr r) \<noteq> [] then py_strip (cr_stderr r)
         else if py_strip (cr_stdout r) \<noteq> [] then py_strip (cr_stdout r)
         else ''exit '' @ (case cr_returncode r of None \<Rightarrow> ''None'' | Some c \<Rightarrow> str_int c)))"

definition failed :: "cmd_result \<Rightarrow> bool" where
  "failed r \<longleftrightarrow> cr_returncode r \<noteq> Some 0 \<or> cr_timed_out r"

type_synonym runner = "string list \<Rightarrow> cmd_result option"

definition run_command :: "runner \<Rightarrow> string list \<Rightarrow> cmd_result backend" where
  "run_command run argv =
     (case run argv of
        None \<Rightarrow> Inl (BackendError ''could not run scheduler command'')
      | Some r \<Rightarrow> Inr r)"

definition unobservable :: "string \<Rightarrow> string \<Rightarrow> observation" where
  "unobservable source diagnostic =
     \<lparr>o_state = ''unobservable'', o_source = source, o_observable = False, o_terminal = False,
      o_diagnostic = Some diagnostic, o_raw_state = None\<rparr>"

definition seen :: "string list \<Rightarrow> string \<Rightarrow> string \<Rightarrow> string option \<Rightarrow> observation" where
  "seen terminal_states state source raw =
     \<lparr>o_state = state, o_source = source, o_observable = True,
      o_terminal = state \<in> set terminal_states, o_diagnostic = None, o_raw_state = raw\<rparr>"

section \<open>Slurm\<close>

definition slurm_terminal_states :: "string list" where
  "slurm_terminal_states = [''completed'', ''failed'', ''cancelled'', ''timeout'', ''node_fail'',
     ''out_of_memory'', ''preempted'', ''boot_fail'', ''deadline'']"

text \<open>\<open>value.strip().split(None, 1)[0].rstrip("+").replace("-", "_").casefold()\<close>\<close>

definition normalize_slurm_state :: "string \<Rightarrow> string backend" where
  "normalize_slurm_state v =
     (case split_ws v of
        [] \<Rightarrow> Inl BackendIndexError
      | w # _ \<Rightarrow> Inr (casefold (map (\<lambda>c. if c = CHR ''-'' then CHR ''_'' else c)
          (rev (dropWhile (\<lambda>c. c = CHR ''+'') (rev w))))))"

text \<open>The first line whose job field is exactly the job; a blank state counts as none.\<close>

fun parse_slurm_accounting :: "string list \<Rightarrow> string \<Rightarrow> string option" where
  "parse_slurm_accounting [] job_id = None"
| "parse_slurm_accounting (line # lines) job_id =
     (case split_on (CHR ''|'') line of
        j # s # _ \<Rightarrow>
          if py_strip j = job_id
          then (if py_strip s = [] then None else Some (py_strip s))
          else parse_slurm_accounting lines job_id
      | _ \<Rightarrow> parse_slurm_accounting lines job_id)"

definition parse_slurm_accounting_state :: "string \<Rightarrow> string \<Rightarrow> string option backend" where
  "parse_slurm_accounting_state stdout job_id =
     (case parse_slurm_accounting (splitlines stdout) job_id of
        None \<Rightarrow> Inr None
      | Some s \<Rightarrow> mapR Some (normalize_slurm_state s))"

definition slurm_active_argv :: "string \<Rightarrow> job \<Rightarrow> string list" where
  "slurm_active_argv executable j =
     [executable, ''--noheader'', ''--jobs'', j_job_id j, ''--user'', j_identity j, ''--format=%T'']"

definition slurm_accounting_argv :: "string \<Rightarrow> job \<Rightarrow> string list" where
  "slurm_accounting_argv executable j =
     [executable, ''--noheader'', ''--parsable2'', ''--jobs'', j_job_id j, ''--user'', j_identity j,
      ''--format=JobIDRaw,State'']"

text \<open>\<open>SlurmBackend._parse_status\<close>: no line at all is \<open>"unobservable"\<close>.\<close>

definition slurm_status :: "cmd_result \<Rightarrow> string backend" where
  "slurm_status r =
     (if failed r then Inl (BackendError (''Slurm status failed: '' @ failure_detail r))
      else (case splitlines (py_strip (cr_stdout r)) of
          [] \<Rightarrow> Inr ''unobservable''
        | line # _ \<Rightarrow> normalize_slurm_state line))"

definition slurm_accounting :: "runner \<Rightarrow> (string \<Rightarrow> string option) \<Rightarrow> job \<Rightarrow> observation backend" where
  "slurm_accounting run which j =
     (case which ''sacct'' of
        None \<Rightarrow> Inr (unobservable ''accounting_unavailable''
          (''known job was absent from squeue and Slurm accounting '' @ ''was unavailable''))
      | Some executable \<Rightarrow>
          bindR (run_command run (slurm_accounting_argv executable j)) (\<lambda>r.
          if failed r then
            Inr (unobservable ''accounting_error'' (take 4096
              (''known job was absent from squeue and Slurm accounting '' @ ''failed: ''
               @ failure_detail r)))
          else
            bindR (parse_slurm_accounting_state (cr_stdout r) (j_job_id j)) (\<lambda>state.
            case state of
              None \<Rightarrow> Inr (unobservable ''terminal_accounting''
                ''known job was absent from squeue and had no exact sacct record'')
            | Some s \<Rightarrow> Inr (seen slurm_terminal_states s ''terminal_accounting'' None))))"

definition slurm_observe ::
  "runner \<Rightarrow> (string \<Rightarrow> string option) \<Rightarrow> job \<Rightarrow> string \<Rightarrow> observation backend" where
  "slurm_observe run which j executable =
     bindR (run_command run (slurm_active_argv executable j)) (\<lambda>r.
     bindR (slurm_status r) (\<lambda>state.
     if state \<noteq> ''unobservable'' then Inr (seen slurm_terminal_states state ''active'' None)
     else slurm_accounting run which j))"

section \<open>PBS\<close>

definition pbs_terminal_states :: "string list" where
  "pbs_terminal_states = [''completed'', ''failed'', ''cancelled'', ''finished'', ''expired'']"

text \<open>
  \<open>re.search(r"^\s*job_state\s*=\s*([A-Za-z])\s*$", text, re.MULTILINE)\<close>: \<open>^\<close> matches at the start
  and after each newline, \<open>$\<close> at the end and before a newline; \<open>\s\<close> includes newlines.
\<close>

definition job_state_at :: "string \<Rightarrow> char option" where
  "job_state_at s =
     (let r = dropWhile is_space s in
      if \<not> starts_with ''job_state'' r then None
      else (case dropWhile is_space (drop 9 r) of
          [] \<Rightarrow> None
        | c # r2 \<Rightarrow>
            if c \<noteq> CHR ''='' then None
            else (case dropWhile is_space r2 of
                [] \<Rightarrow> None
              | g # r3 \<Rightarrow>
                  if (is_upper g \<or> is_lower g)
                     \<and> (CHR 0x0A \<in> set (takeWhile is_space r3) \<or> dropWhile is_space r3 = [])
                  then Some g else None)))"

fun find_job_state :: "bool \<Rightarrow> string \<Rightarrow> char option" where
  "find_job_state line_start [] = None"
| "find_job_state line_start (c # cs) =
     (case (if line_start then job_state_at (c # cs) else None) of
        Some g \<Rightarrow> Some g
      | None \<Rightarrow> find_job_state (c = CHR 0x0A) cs)"

definition pbs_states :: "(char \<times> string) list" where
  "pbs_states = [(CHR ''Q'', ''queued''), (CHR ''H'', ''held''), (CHR ''R'', ''running''),
     (CHR ''E'', ''exiting''), (CHR ''F'', ''finished''), (CHR ''C'', ''completed''),
     (CHR ''S'', ''suspended'')]"

definition pbs_status :: "cmd_result \<Rightarrow> string backend" where
  "pbs_status r =
     (if failed r then Inl (BackendError (''PBS status failed: '' @ failure_detail r))
      else Inr (case find_job_state True (cr_stdout r) of
          None \<Rightarrow> ''unknown''
        | Some g \<Rightarrow>
            (case map_of pbs_states (upper_char g) of None \<Rightarrow> ''unknown'' | Some s \<Rightarrow> s)))"

text \<open>\<open>unknown\s+job(?:\s+id)?|job(?:\s+id)?\s+(?:does\s+not\s+exist|not\s+found)\<close>\<close>

definition pbs_unobservable_rx :: rx where
  "pbs_unobservable_rx =
     RAlt (rseq [rlit ''unknown'', rsp, rlit ''job'', ropt (rseq [rsp, rlit ''id''])])
          (rseq [rlit ''job'', ropt (rseq [rsp, rlit ''id'']), rsp,
             RAlt (rseq [rlit ''does'', rsp, rlit ''not'', rsp, rlit ''exist''])
                  (rseq [rlit ''not'', rsp, rlit ''found''])])"

definition pbs_job_is_unobservable :: "cmd_result \<Rightarrow> bool" where
  "pbs_job_is_unobservable r =
     search pbs_unobservable_rx (casefold (cr_stderr r @ [CHR 0x0A] @ cr_stdout r))"

definition pbs_observe :: "runner \<Rightarrow> job \<Rightarrow> string \<Rightarrow> observation backend" where
  "pbs_observe run j executable =
     bindR (run_command run [executable, ''-f'', j_job_id j]) (\<lambda>r.
     if cr_timed_out r then Inl (BackendError (''PBS status failed: '' @ failure_detail r))
     else if cr_returncode r \<noteq> Some 0 then
       (if pbs_job_is_unobservable r
        then Inr (unobservable ''active''
          ''known job was no longer observable through exact-job qstat'')
        else Inl (BackendError (''PBS status failed: '' @ failure_detail r)))
     else if py_strip (cr_stdout r) = []
     then Inr (unobservable ''active'' ''exact-job qstat returned no observable job'')
     else
       bindR (pbs_status r) (\<lambda>state.
       if state = ''unknown''
       then Inl (BackendError ''PBS status did not contain a recognized job_state'')
       else Inr (seen pbs_terminal_states state ''active'' None)))"

section \<open>LSF\<close>

definition lsf_record :: "cmd_result \<Rightarrow> string \<Rightarrow> string option" where
  "lsf_record r job_id =
     (if failed r then None else map_option snd (parse_bjobs_job (cr_stdout r) job_id))"

definition lsf_seen :: "string \<Rightarrow> string \<Rightarrow> observation" where
  "lsf_seen raw source =
     seen LSF_TERMINAL_STATES (normalize_lsf_state raw) source (Some raw)"

definition lsf_argv :: "(lsf_error, string list) res \<Rightarrow> string list backend" where
  "lsf_argv args = mapErr (\<lambda>_. BackendValueError) args"

definition history_record :: "cmd_result \<Rightarrow> string \<Rightarrow> string option" where
  "history_record r job_id =
     (if failed r then None else map_option snd (parse_bhist_job (cr_stdout r) job_id))"

definition history_diagnostic :: "cmd_result \<Rightarrow> string" where
  "history_diagnostic r = take 4096
     (if cr_timed_out r then ''exact-job bhist query timed out''
      else if cr_returncode r \<noteq> Some 0
      then ''exact-job bhist query failed: '' @ failure_detail r
      else if py_strip (cr_stdout r) \<noteq> []
      then ''bhist output did not contain one unique exact job record''
      else ''known job was absent from active, recent, and historical LSF views'')"

definition lsf_history :: "runner \<Rightarrow> (string \<Rightarrow> string option) \<Rightarrow> job \<Rightarrow> observation backend" where
  "lsf_history run which j =
     (case which ''bhist'' of
        None \<Rightarrow> Inr (unobservable ''historical_accounting_unavailable''
          (''known job was absent from active and recent-finished LSF '' @ ''views; bhist is unavailable''))
      | Some executable \<Rightarrow>
          bindR (lsf_argv (historical_job_arguments (j_job_id j) (j_identity j))) (\<lambda>args.
          bindR (run_command run (executable # args)) (\<lambda>r.
          case history_record r (j_job_id j) of
            Some raw \<Rightarrow> Inr (lsf_seen raw ''historical_accounting'')
          | None \<Rightarrow> Inr (unobservable ''historical_accounting'' (history_diagnostic r)))))"

definition lsf_recent ::
  "runner \<Rightarrow> (string \<Rightarrow> string option) \<Rightarrow> job \<Rightarrow> string \<Rightarrow> observation backend" where
  "lsf_recent run which j executable =
     bindR (lsf_argv (recent_job_arguments (j_job_id j) (j_identity j))) (\<lambda>args.
     bindR (run_command run (executable # args)) (\<lambda>r.
     case lsf_record r (j_job_id j) of
       Some raw \<Rightarrow> Inr (lsf_seen raw ''recent_finished'')
     | None \<Rightarrow> lsf_history run which j))"

definition lsf_observe ::
  "runner \<Rightarrow> (string \<Rightarrow> string option) \<Rightarrow> job \<Rightarrow> string \<Rightarrow> observation backend" where
  "lsf_observe run which j executable =
     bindR (lsf_argv (active_job_arguments (j_job_id j) (j_identity j))) (\<lambda>args.
     bindR (run_command run (executable # args)) (\<lambda>r.
     case lsf_record r (j_job_id j) of
       Some raw \<Rightarrow> Inr (lsf_seen raw ''active'')
     | None \<Rightarrow>
         if cr_timed_out r
         then Inl (BackendError (''LSF active status timed out: '' @ failure_detail r))
         else if cr_returncode r \<noteq> Some 0 \<and> \<not> lsf_job_is_unobservable r
         then Inl (BackendError (''LSF active status failed: '' @ failure_detail r))
         else if cr_returncode r = Some 0 \<and> py_strip (cr_stdout r) \<noteq> []
         then Inl (BackendError ''LSF active status did not contain one unique exact job record'')
         else lsf_recent run which j executable))"

section \<open>By family\<close>

definition status_command :: "string \<Rightarrow> string" where
  "status_command family =
     (if family = ''slurm'' then ''squeue'' else if family = ''pbs'' then ''qstat'' else ''bjobs'')"

definition submit_command :: "string \<Rightarrow> string" where
  "submit_command family =
     (if family = ''slurm'' then ''sbatch'' else if family = ''pbs'' then ''qsub'' else ''bsub'')"

definition cancel_command :: "string \<Rightarrow> string" where
  "cancel_command family =
     (if family = ''slurm'' then ''scancel'' else if family = ''pbs'' then ''qdel'' else ''bkill'')"

definition terminal_states :: "string \<Rightarrow> string list" where
  "terminal_states family =
     (if family = ''slurm'' then slurm_terminal_states
      else if family = ''pbs'' then pbs_terminal_states else LSF_TERMINAL_STATES)"

definition observe_job :: "string \<Rightarrow> runner \<Rightarrow> (string \<Rightarrow> string option) \<Rightarrow> job \<Rightarrow> string \<Rightarrow>
    observation backend" where
  "observe_job family run which j executable =
     (if family = ''slurm'' then slurm_observe run which j executable
      else if family = ''pbs'' then pbs_observe run j executable
      else lsf_observe run which j executable)"

definition SAFE_SLURM_JOB :: rx where
  "SAFE_SLURM_JOB = RSeq (rplus (RCls is_digit)) (ropt (RSeq (rlit ''_'') (rplus (RCls is_digit))))"

definition SAFE_PBS_JOB :: rx where
  "SAFE_PBS_JOB = RSeq (RCls is_alnum) (RStar (RCls (\<lambda>c. is_alnum c \<or> c \<in> set ''_.-'')))"

definition slurm_parse_submission :: "string \<Rightarrow> string backend" where
  "slurm_parse_submission stdout =
     (let v = hd (split_on (CHR '';'') (py_strip stdout)) in
      if fullmatch SAFE_SLURM_JOB v then Inr v
      else Inl (BackendError ''Slurm returned an invalid job ID''))"

definition pbs_parse_submission :: "string \<Rightarrow> string backend" where
  "pbs_parse_submission stdout =
     (let v = (case split_ws stdout of [] \<Rightarrow> [] | w # _ \<Rightarrow> w) in
      if fullmatch SAFE_PBS_JOB v then Inr v
      else Inl (BackendError ''PBS returned an invalid job ID''))"

definition lsf_parse_submission :: "string \<Rightarrow> string backend" where
  "lsf_parse_submission stdout =
     (let matches = map fst (job_tags stdout) in
      if length matches = 1 \<and> fullmatch SAFE_LSF_JOB (matches ! 0) then Inr (matches ! 0)
      else Inl (AmbiguousSubmission ''LSF returned no unique exact job identity''))"

definition parse_submission :: "string \<Rightarrow> string \<Rightarrow> string backend" where
  "parse_submission family stdout =
     (if family = ''slurm'' then slurm_parse_submission stdout
      else if family = ''pbs'' then pbs_parse_submission stdout
      else lsf_parse_submission stdout)"

definition submit_arguments :: "string \<Rightarrow> string \<Rightarrow> string list" where
  "submit_arguments family script_path =
     (if family = ''slurm'' then [''--parsable'', script_path]
      else if family = ''pbs'' then [script_path] else [])"

definition cancel_arguments :: "string \<Rightarrow> string \<Rightarrow> string \<Rightarrow> string list" where
  "cancel_arguments family job_id identity =
     (if family = ''slurm'' then [''--user'', identity, job_id] else [job_id])"

definition execution_state :: "observation \<Rightarrow> string" where
  "execution_state b =
     (if \<not> o_observable b \<or> o_state b \<in> {''unknown'', ''scheduler_uncertain''}
      then ''scheduler_unobservable''
      else if o_terminal b then ''scheduler_terminal''
      else (case map_of [(''pending'', ''queued''), (''queued'', ''queued''),
              (''configuring'', ''queued''), (''running'', ''running''),
              (''completing'', ''running''), (''cancelled'', ''cancelled'')] (o_state b) of
          Some s \<Rightarrow> s | None \<Rightarrow> ''submitted''))"

definition scheduler_outcome :: "string \<Rightarrow> string \<Rightarrow> string" where
  "scheduler_outcome state result_evidence =
     (case map_of [(''cancelled'', ''scheduler_cancelled''), (''timeout'', ''scheduler_timeout''),
         (''out_of_memory'', ''out_of_memory''), (''node_fail'', ''node_failure'')] state of
        Some s \<Rightarrow> s
      | None \<Rightarrow> if result_evidence = ''partial'' then ''result_bundle_partial''
                else ''result_bundle_missing'')"

end
