(* ===== verification/SchedulerProperties.thy ===== *)
theory SchedulerProperties
  imports Scheduler
begin

text \<open>
  What a scheduler observation rests on: an observable state was read from a successful query that
  names exactly the job, and nothing else is ever terminal.
\<close>

section \<open>What a command's output says about a job\<close>

definition slurm_reports :: "cmd_result \<Rightarrow> job \<Rightarrow> string \<Rightarrow> bool" where
  "slurm_reports r j state \<longleftrightarrow>
     (\<exists>line lines. splitlines (py_strip (cr_stdout r)) = line # lines \<and>
        normalize_slurm_state line = Inr state) \<or>
     (\<exists>line \<in> set (splitlines (cr_stdout r)). \<exists>n s rest. split_on (CHR ''|'') line = n # s # rest \<and>
        py_strip n = j_job_id j \<and> normalize_slurm_state (py_strip s) = Inr state)"

definition pbs_reports :: "cmd_result \<Rightarrow> string \<Rightarrow> bool" where
  "pbs_reports r state \<longleftrightarrow>
     (\<exists>g. find_job_state True (cr_stdout r) = Some g \<and> map_of pbs_states (upper_char g) = Some state)"

definition lsf_reports :: "cmd_result \<Rightarrow> job \<Rightarrow> string \<Rightarrow> bool" where
  "lsf_reports r j state \<longleftrightarrow>
     (\<exists>raw. state = normalize_lsf_state raw \<and>
        (parse_bjobs_job (cr_stdout r) (j_job_id j) = Some (j_job_id j, raw) \<or>
         parse_bhist_job (cr_stdout r) (j_job_id j) = Some (j_job_id j, raw)))"

definition reports :: "string \<Rightarrow> cmd_result \<Rightarrow> job \<Rightarrow> string \<Rightarrow> bool" where
  "reports family r j state \<longleftrightarrow>
     (if family = ''slurm'' then slurm_reports r j state
      else if family = ''pbs'' then pbs_reports r state else lsf_reports r j state)"

text \<open>A successful query that names the job says the state.\<close>

definition evidenced :: "string \<Rightarrow> runner \<Rightarrow> job \<Rightarrow> string \<Rightarrow> bool" where
  "evidenced family run j state \<longleftrightarrow>
     (\<exists>argv r. run argv = Some r \<and> \<not> failed r \<and> j_job_id j \<in> set argv \<and> reports family r j state)"

definition exact :: "string \<Rightarrow> runner \<Rightarrow> job \<Rightarrow> observation \<Rightarrow> bool" where
  "exact family run j b \<longleftrightarrow>
     (o_terminal b \<longleftrightarrow> o_observable b \<and> o_state b \<in> set (terminal_states family)) \<and>
     (o_observable b \<longrightarrow> evidenced family run j (o_state b)) \<and>
     (\<not> o_observable b \<longrightarrow> o_state b = ''unobservable'' \<and> o_diagnostic b \<noteq> None)"

lemma exact_unobservable [simp]: "exact family run j (unobservable source d)"
  by (simp add: exact_def unobservable_def)

lemma exact_seen:
  "terminal_states family = states \<Longrightarrow> evidenced family run j s \<Longrightarrow>
     exact family run j (seen states s source raw)"
  by (simp add: exact_def seen_def)

lemma run_command_Inr: "run_command run argv = Inr r \<longleftrightarrow> run argv = Some r"
  by (simp add: run_command_def split: option.split)

lemma parse_slurm_accounting_line:
  "parse_slurm_accounting lines n = Some s \<Longrightarrow>
     \<exists>line \<in> set lines. \<exists>m v rest. split_on (CHR ''|'') line = m # v # rest \<and> py_strip m = n \<and>
       s = py_strip v"
  by (induction lines n rule: parse_slurm_accounting.induct)
    (auto split: list.splits if_splits)

section \<open>Slurm, PBS, LSF\<close>

lemma slurm_status_reports:
  assumes "slurm_status r = Inr s" and "s \<noteq> ''unobservable''"
  shows "\<not> failed r \<and> slurm_reports r j s"
  using assms by (auto simp: slurm_status_def slurm_reports_def split: if_splits list.splits)

lemma slurm_accounting_exact:
  assumes "slurm_accounting run which j = Inr b"
  shows "exact ''slurm'' run j b"
proof (cases "which ''sacct''")
  case None
  with assms show ?thesis by (auto simp: slurm_accounting_def)
next
  case (Some e)
  with assms obtain r where r: "run (slurm_accounting_argv e j) = Some r"
    and b: "(if failed r then Inr (unobservable ''accounting_error'' (take 4096
              (''known job was absent from squeue and Slurm accounting '' @ ''failed: ''
               @ failure_detail r)))
          else
            bindR (parse_slurm_accounting_state (cr_stdout r) (j_job_id j)) (\<lambda>state.
            case state of
              None \<Rightarrow> Inr (unobservable ''terminal_accounting''
                ''known job was absent from squeue and had no exact sacct record'')
            | Some s \<Rightarrow> Inr (seen slurm_terminal_states s ''terminal_accounting'' None))) = Inr b"
    by (auto simp: slurm_accounting_def bindR_Inr_iff run_command_Inr)
  show ?thesis
  proof (cases "failed r")
    case True
    with b show ?thesis by (auto simp del: append.simps)
  next
    case False
    with b obtain st where st: "parse_slurm_accounting_state (cr_stdout r) (j_job_id j) = Inr st"
      by (auto simp: bindR_Inr_iff)
    show ?thesis
    proof (cases st)
      case None
      with b False st show ?thesis by auto
    next
      case s: (Some s)
      with st obtain v where "parse_slurm_accounting (splitlines (cr_stdout r)) (j_job_id j) = Some v"
        "normalize_slurm_state v = Inr s"
        by (auto simp: parse_slurm_accounting_state_def mapR_Inr_iff split: option.splits)
      with parse_slurm_accounting_line [OF this(1)] have "slurm_reports r j s"
        unfolding slurm_reports_def by blast
      with r False have "evidenced ''slurm'' run j s"
        unfolding evidenced_def reports_def by (auto simp: slurm_accounting_argv_def intro!: exI)
      with b False st s show ?thesis by (auto simp: terminal_states_def intro!: exact_seen)
    qed
  qed
qed

lemma slurm_observe_exact:
  assumes "slurm_observe run which j e = Inr b"
  shows "exact ''slurm'' run j b"
proof -
  obtain r s where r: "run (slurm_active_argv e j) = Some r" and s: "slurm_status r = Inr s"
    and b: "(if s \<noteq> ''unobservable'' then Inr (seen slurm_terminal_states s ''active'' None)
      else slurm_accounting run which j) = Inr b"
    using assms by (auto simp: slurm_observe_def bindR_Inr_iff run_command_Inr)
  show ?thesis
  proof (cases "s = ''unobservable''")
    case True
    with b slurm_accounting_exact show ?thesis by simp
  next
    case False
    with slurm_status_reports [OF s] r have "evidenced ''slurm'' run j s"
      unfolding evidenced_def reports_def by (auto simp: slurm_active_argv_def intro!: exI)
    with b False show ?thesis by (auto simp: terminal_states_def intro!: exact_seen)
  qed
qed

lemma pbs_observe_exact:
  assumes "pbs_observe run j e = Inr b"
  shows "exact ''pbs'' run j b"
proof -
  obtain r where r: "run [e, ''-f'', j_job_id j] = Some r"
    and b: "(\<exists>source d. b = unobservable source d) \<or>
      (\<exists>s. pbs_status r = Inr s \<and> s \<noteq> ''unknown'' \<and> b = seen pbs_terminal_states s ''active'' None)"
    using assms by (auto simp: pbs_observe_def bindR_Inr_iff run_command_Inr split: if_splits)
  have "evidenced ''pbs'' run j s" if "pbs_status r = Inr s" "s \<noteq> ''unknown''" for s
    using that r unfolding evidenced_def reports_def
    by (auto simp: pbs_status_def pbs_reports_def intro!: exI split: if_splits option.splits)
  with b show ?thesis by (auto simp: terminal_states_def intro!: exact_seen)
qed

lemma lsf_seen_exact:
  assumes "run argv = Some r" and "\<not> failed r" and "j_job_id j \<in> set argv"
    and "parse_bjobs_job (cr_stdout r) (j_job_id j) = Some (j_job_id j, raw) \<or>
      parse_bhist_job (cr_stdout r) (j_job_id j) = Some (j_job_id j, raw)"
  shows "exact ''lsf'' run j (lsf_seen raw source)"
proof -
  have "evidenced ''lsf'' run j (normalize_lsf_state raw)"
    using assms unfolding evidenced_def reports_def lsf_reports_def by auto
  then show ?thesis by (simp add: lsf_seen_def terminal_states_def exact_seen)
qed

lemma lsf_argv_job:
  "lsf_argv (active_job_arguments n i) = Inr args \<Longrightarrow> n \<in> set args"
  "lsf_argv (recent_job_arguments n i) = Inr args \<Longrightarrow> n \<in> set args"
  "lsf_argv (historical_job_arguments n i) = Inr args \<Longrightarrow> n \<in> set args"
  by (auto simp: lsf_argv_def active_job_arguments_def recent_job_arguments_def
      historical_job_arguments_def mapErr_Inr_iff bindR_Inr_iff)

lemma lsf_record_exact:
  assumes "lsf_record r n = Some raw"
  shows "\<not> failed r \<and> parse_bjobs_job (cr_stdout r) n = Some (n, raw)"
  using assms by (auto simp: lsf_record_def dest: parse_bjobs_exact split: if_splits)

lemma lsf_history_exact:
  assumes "lsf_history run which j = Inr b"
  shows "exact ''lsf'' run j b"
proof (cases "which ''bhist''")
  case None
  with assms show ?thesis by (auto simp: lsf_history_def)
next
  case (Some e)
  obtain args where a: "lsf_argv (historical_job_arguments (j_job_id j) (j_identity j)) = Inr args"
    using assms Some by (auto simp: lsf_history_def bindR_Inr_iff)
  with assms Some obtain r where r: "run (e # args) = Some r"
    and b: "(case history_record r (j_job_id j) of
       Some raw \<Rightarrow> Inr (lsf_seen raw ''historical_accounting'')
     | None \<Rightarrow> Inr (unobservable ''historical_accounting'' (history_diagnostic r))) = (Inr b :: observation backend)"
    by (auto simp: lsf_history_def bindR_Inr_iff run_command_Inr)
  show ?thesis
  proof (cases "history_record r (j_job_id j)")
    case None
    with b show ?thesis by auto
  next
    case s: (Some raw)
    then have "\<not> failed r" "parse_bhist_job (cr_stdout r) (j_job_id j) = Some (j_job_id j, raw)"
      by (auto simp: history_record_def dest: parse_bhist_exact split: if_splits)
    with b s show ?thesis
      using lsf_seen_exact [where argv = "e # args" and run = run, OF r] lsf_argv_job(3) [OF a] by auto
  qed
qed

lemma lsf_recent_exact:
  assumes "lsf_recent run which j e = Inr b"
  shows "exact ''lsf'' run j b"
proof -
  obtain args r where a: "lsf_argv (recent_job_arguments (j_job_id j) (j_identity j)) = Inr args"
    and r: "run (e # args) = Some r"
    and b: "(case lsf_record r (j_job_id j) of
       Some raw \<Rightarrow> Inr (lsf_seen raw ''recent_finished'') | None \<Rightarrow> lsf_history run which j) = Inr b"
    using assms by (auto simp: lsf_recent_def bindR_Inr_iff run_command_Inr)
  show ?thesis
  proof (cases "lsf_record r (j_job_id j)")
    case None
    with b lsf_history_exact show ?thesis by simp
  next
    case (Some raw)
    with b lsf_seen_exact [where argv = "e # args" and run = run, OF r] lsf_record_exact [OF Some] lsf_argv_job(2) [OF a]
    show ?thesis by auto
  qed
qed

lemma lsf_observe_exact:
  assumes "lsf_observe run which j e = Inr b"
  shows "exact ''lsf'' run j b"
proof -
  obtain args r where a: "lsf_argv (active_job_arguments (j_job_id j) (j_identity j)) = Inr args"
    and r: "run (e # args) = Some r"
    and b: "(\<exists>raw. lsf_record r (j_job_id j) = Some raw \<and> b = lsf_seen raw ''active'') \<or>
      lsf_recent run which j e = Inr b"
    using assms
    by (auto simp: lsf_observe_def bindR_Inr_iff run_command_Inr split: option.splits if_splits)
  from b show ?thesis
    using lsf_recent_exact lsf_seen_exact [where argv = "e # args" and run = run, OF r] lsf_argv_job(1) [OF a]
    by (auto dest!: lsf_record_exact)
qed

text \<open>
  C29. An observation of a job is exact: it is terminal precisely when it is observable and its
  state is one of the scheduler's terminal states; an observable state was read from a successful
  query that named the job, whose output reports that state for it; and an unobservable job is
  never called finished, but keeps a diagnostic and leaves the execution marked unobservable.
\<close>

theorem observation_is_exact:
  assumes "observe_job family run which j executable = Inr b"
    and "family \<in> {''slurm'', ''pbs'', ''lsf''}"
  shows "(o_terminal b \<longleftrightarrow> o_observable b \<and> o_state b \<in> set (terminal_states family)) \<and>
    (o_observable b \<longrightarrow>
       (\<exists>argv r. run argv = Some r \<and> \<not> failed r \<and> j_job_id j \<in> set argv \<and>
          reports family r j (o_state b))) \<and>
    (\<not> o_observable b \<longrightarrow> o_state b = ''unobservable'' \<and> o_diagnostic b \<noteq> None \<and>
       execution_state b = ''scheduler_unobservable'') \<and>
    (execution_state b = ''scheduler_terminal'' \<longrightarrow> o_terminal b)"
proof -
  have x: "exact family run j b"
    using assms slurm_observe_exact pbs_observe_exact lsf_observe_exact
    by (auto simp: observe_job_def)
  have e: "execution_state b = ''scheduler_terminal'' \<Longrightarrow> o_terminal b"
    by (auto simp: execution_state_def split: if_splits option.splits dest!: map_of_SomeD)
  have u: "\<not> o_observable b \<Longrightarrow> execution_state b = ''scheduler_unobservable''"
    by (simp add: execution_state_def)
  from x e u show ?thesis unfolding exact_def evidenced_def by blast
qed

section \<open>Submission replies\<close>

lemma parse_submission_safe:
  "parse_submission family out = Inr n \<Longrightarrow>
     fullmatch (if family = ''slurm'' then SAFE_SLURM_JOB
       else if family = ''pbs'' then SAFE_PBS_JOB else SAFE_LSF_JOB) n"
  by (auto simp: parse_submission_def slurm_parse_submission_def pbs_parse_submission_def lsf_parse_submission_def Let_def split: if_splits)

lemma parse_submission_error:
  "parse_submission family out = Inl e \<Longrightarrow>
     (\<exists>d. e = AmbiguousSubmission d \<and> family \<noteq> ''slurm'' \<and> family \<noteq> ''pbs'') \<or>
     (\<exists>d. e = BackendError d \<and> (family = ''slurm'' \<or> family = ''pbs''))"
  by (auto simp: parse_submission_def slurm_parse_submission_def pbs_parse_submission_def lsf_parse_submission_def Let_def split: if_splits)

section \<open>A finished Slurm job\<close>

definition sample_job_record :: job where
  "sample_job_record = \<lparr>j_execution = ''e'', j_family = ''slurm'', j_job_id = ''42'', j_identity = ''me'',
     j_submitted_at = ''t'', j_state = ''submitted'', j_observed_at = ''t''\<rparr>"

text \<open>\<open>squeue\<close> no longer lists it; accounting has it with its batch step.\<close>

definition sample_runner :: runner where
  "sample_runner argv = Some \<lparr>cr_argv = argv, cr_returncode = Some 0,
     cr_stdout = (if hd argv = ''sacct'' then ''42.batch|FAILED'' @ [CHR 0x0A] @ ''42|COMPLETED'' else []),
     cr_stderr = [], cr_timed_out = False, cr_truncated = False\<rparr>"

lemma sample_observation:
  "observe_job ''slurm'' sample_runner (\<lambda>c. Some c) sample_job_record ''squeue''
     = Inr (seen slurm_terminal_states ''completed'' ''terminal_accounting'' None)"
  by code_simp

theorem observation_is_exact_witness:
  "\<exists>b. observe_job ''slurm'' sample_runner (\<lambda>c. Some c) sample_job_record ''squeue'' = Inr b \<and>
     o_state b = ''completed'' \<and> o_terminal b \<and>
     (\<exists>argv r. sample_runner argv = Some r \<and> ''42'' \<in> set argv \<and>
        reports ''slurm'' r sample_job_record ''completed'')"
proof -
  have s: "o_state (seen slurm_terminal_states ''completed'' ''terminal_accounting'' None) = ''completed''"
    "o_observable (seen slurm_terminal_states ''completed'' ''terminal_accounting'' None)"
    "j_job_id sample_job_record = ''42''"
    by (simp_all add: seen_def sample_job_record_def)
  have "o_terminal (seen slurm_terminal_states ''completed'' ''terminal_accounting'' None)"
    by (simp add: seen_def slurm_terminal_states_def)
  with observation_is_exact [OF sample_observation] s sample_observation show ?thesis by auto
qed

end
