(* ===== verification/Outcomes.thy ===== *)
theory Outcomes
  imports Plans Request
begin

text \<open>
  Verification and telemetry of a finished execution (\<open>execution_outcomes.py\<close>, with the records of
  \<open>models.py\<close> it reads): the state of one check, the run that aggregates them, the telemetry
  summary, and the documents both are stored as. New identities are numbered readings of
  \<open>new_ulid\<close>; the seconds between two timestamps, or that they cannot be read, is an argument.
\<close>

section \<open>Experiments and their artifacts\<close>

record artifact =
  ar_id :: string
  ar_experiment_id :: string
  ar_role :: string
  ar_original_path :: string
  ar_resolved_path :: string
  ar_existence :: string
  ar_capture :: string
  ar_sha256 :: "string option"
  ar_size_bytes :: "int option"
  ar_modified_at :: "string option"
  ar_captured_at :: string
  ar_capture_error :: "string option"

text \<open>
  The duration is a number, the text of the streams is what was captured; the provenance of the
  repository, the system and the launch is carried as the documents it is stored as.
\<close>

record experiment_record =
  ex_id :: string
  ex_status :: string
  ex_command :: string
  ex_arguments :: "string list"
  ex_working_directory :: string
  ex_started_at :: string
  ex_ended_at :: string
  ex_duration :: json
  ex_exit_code :: int
  ex_stdout :: string
  ex_stderr :: string
  ex_git :: "json dict"
  ex_system :: "json dict"
  ex_context :: "json dict"
  ex_schema_version :: int

record lineage =
  li_child :: string
  li_parent :: string
  li_relationship :: string
  li_created_at :: string

record allocation =
  al_id :: string
  al_execution_id :: string
  al_observed_at :: string
  al_resources :: "json dict"
  al_hosts :: "string list"
  al_evidence :: "json dict"

section \<open>One check\<close>

definition check_result_states :: "string list" where
  "check_result_states = [''passed'', ''failed'', ''unknown'']"

record check_result =
  cx_id :: string
  cx_run_id :: string
  cx_ordinal :: int
  cx_type :: string
  cx_path :: string
  cx_state :: string
  cx_evidence :: "json dict"

definition VerificationCheckResult :: "check_result \<Rightarrow> check_result pyres" where
  "VerificationCheckResult c =
     (if cx_state c \<notin> set check_result_states
      then value_error (''unsupported verification check state: '' @ cx_state c)
      else if cx_ordinal c < 0 then value_error ''verification check ordinal must not be negative''
      else if cx_type c \<notin> set check_types
      then value_error (''unsupported verification check: '' @ cx_type c)
      else if cx_id c = [] \<or> cx_run_id c = [] \<or> cx_path c = []
      then value_error ''verification check identity and output path are required''
      else Inr c)"

text \<open>
  \<open>_check_state\<close>: the state and the entries it adds to the evidence. The comparison with a missing
  minimum raises \<open>TypeError\<close>; the check's constructor excludes it.
\<close>

definition check_state :: "check \<Rightarrow> artifact \<Rightarrow> (string \<times> json dict) pyres" where
  "check_state c a =
     (if ck_type c = ''output_exists'' then
        (if ar_existence a = ''present'' then Inr (''passed'', [])
         else if ar_existence a = ''missing'' then Inr (''failed'', [])
         else Inr (''unknown'', [(''reason'', JStr ''artifact existence was not established'')]))
      else if ar_existence a = ''missing'' then Inr (''failed'', [])
      else if ar_existence a \<noteq> ''present'' \<or> ar_capture a \<noteq> ''complete''
      then Inr (''unknown'', [(''reason'', JStr ''artifact capture is not complete'')])
      else if ck_type c = ''output_min_bytes'' then
        (let expected = (''expected_min_bytes'', opt_int (ck_min_bytes c)) in
         case ar_size_bytes a of
           None \<Rightarrow> Inr (''unknown'', [expected, (''reason'', JStr ''artifact size is unavailable'')])
         | Some n \<Rightarrow>
             (case ck_min_bytes c of
                None \<Rightarrow> Inl PyTypeError
              | Some m \<Rightarrow> Inr (if n \<ge> m then ''passed'' else ''failed'', [expected])))
      else
        (let expected = (''expected_sha256'', opt_json JStr (ck_sha256 c)) in
         case ar_sha256 a of
           None \<Rightarrow> Inr (''unknown'', [expected, (''reason'', JStr ''artifact SHA-256 is unavailable'')])
         | Some d \<Rightarrow>
             Inr (if ck_sha256 c = Some (casefold d) then ''passed'' else ''failed'', [expected])))"

definition evaluate_check :: "string \<Rightarrow> string \<Rightarrow> nat \<Rightarrow> check \<Rightarrow> artifact option \<Rightarrow>
    check_result pyres" where
  "evaluate_check new_id run_id ordinal c found =
     (let base = [(''evidence_source'', JStr ''captured_output_artifact_record''),
                  (''declared_output_path'', JStr (ck_path c))] in
      bindR (case found of
          None \<Rightarrow> Inr (''unknown'',
            base @ [(''reason'', JStr ''captured output artifact record is unavailable'')])
        | Some a \<Rightarrow>
            mapR (\<lambda>(state, added).
                (state, base @ [(''artifact_id'', JStr (ar_id a)),
                   (''existence_state'', JStr (ar_existence a)),
                   (''capture_status'', JStr (ar_capture a)),
                   (''size_bytes'', opt_int (ar_size_bytes a)),
                   (''sha256'', opt_json JStr (ar_sha256 a))] @ added))
              (check_state c a)) (\<lambda>(state, evidence).
      VerificationCheckResult
        \<lparr>cx_id = new_id, cx_run_id = run_id, cx_ordinal = int ordinal, cx_type = ck_type c,
         cx_path = ck_path c, cx_state = state, cx_evidence = evidence\<rparr>))"

section \<open>The run\<close>

record verification =
  vr_id :: string
  vr_request_id :: string
  vr_execution_id :: string
  vr_experiment_id :: string
  vr_aggregate :: string
  vr_evaluated_at :: string
  vr_source :: string
  vr_checks :: "check_result list"

definition VerificationRun :: "verification \<Rightarrow> verification pyres" where
  "VerificationRun v =
     (if vr_aggregate v \<notin> set [''passed'', ''failed'', ''unknown'', ''not_requested'']
      then value_error (''unsupported verification aggregate state: '' @ vr_aggregate v)
      else if list_ex (\<lambda>c. cx_run_id c \<noteq> vr_id v) (vr_checks v)
      then value_error ''verification checks must belong to their run''
      else Inr v)"

text \<open>The first output artifact recorded for a path: \<open>dict.setdefault\<close> keeps the first.\<close>

definition first_output :: "artifact list \<Rightarrow> string \<Rightarrow> artifact option" where
  "first_output artifacts path =
     find (\<lambda>a. ar_role a = ''output'' \<and> ar_original_path a = path) artifacts"

definition aggregate_state :: "string list \<Rightarrow> string" where
  "aggregate_state states =
     (if states = [] then ''not_requested''
      else if ''failed'' \<in> set states then ''failed''
      else if ''unknown'' \<in> set states then ''unknown''
      else ''passed'')"

definition evaluate_verification :: "(nat \<Rightarrow> string) \<Rightarrow> request \<Rightarrow> string \<Rightarrow> experiment_record \<Rightarrow>
    artifact list \<Rightarrow> verification pyres" where
  "evaluate_verification new_id r execution_id e artifacts =
     bindR (mapM (\<lambda>(i, c). evaluate_check (new_id (i + 1)) (new_id 0) i c
              (first_output artifacts (ck_path c)))
            (zip [0..<length (rq_checks r)] (rq_checks r))) (\<lambda>results.
     VerificationRun
       \<lparr>vr_id = new_id 0, vr_request_id = rq_id r, vr_execution_id = execution_id,
        vr_experiment_id = ex_id e, vr_aggregate = aggregate_state (map cx_state results),
        vr_evaluated_at = ex_ended_at e, vr_source = ''captured_output_artifact_records'',
        vr_checks = results\<rparr>)"

section \<open>Documents of verification\<close>

definition check_result_to_dict :: "check_result \<Rightarrow> json dict" where
  "check_result_to_dict c =
     [(''id'', JStr (cx_id c)), (''verification_run_id'', JStr (cx_run_id c)),
      (''ordinal'', JInt (cx_ordinal c)), (''check_type'', JStr (cx_type c)),
      (''output_path'', JStr (cx_path c)), (''state'', JStr (cx_state c)),
      (''evidence'', JObj (cx_evidence c))]"

definition verification_to_dict :: "verification \<Rightarrow> json dict" where
  "verification_to_dict v =
     [(''id'', JStr (vr_id v)), (''request_id'', JStr (vr_request_id v)),
      (''execution_id'', JStr (vr_execution_id v)), (''experiment_id'', JStr (vr_experiment_id v)),
      (''aggregate_state'', JStr (vr_aggregate v)), (''evaluated_at'', JStr (vr_evaluated_at v)),
      (''source'', JStr (vr_source v)),
      (''checks'', JArr (map (JObj \<circ> check_result_to_dict) (vr_checks v)))]"

definition all_strings :: "json dict \<Rightarrow> string list \<Rightarrow> bool" where
  "all_strings d names \<longleftrightarrow> list_all (\<lambda>n. is_str (jget d n)) names"

definition text_of :: "json dict \<Rightarrow> string \<Rightarrow> string" where
  "text_of d n = the_str (jget d n)"

definition check_result_from_dict :: "json \<Rightarrow> check_result pyres" where
  "check_result_from_dict v =
     (case v of
        JObj d \<Rightarrow>
          if \<not> all_strings d [''id'', ''verification_run_id'', ''check_type'', ''output_path'', ''state'']
          then value_error ''verification check structure is invalid''
          else
            (case (jget d ''ordinal'', jget d ''evidence'') of
               (JInt i, JObj e) \<Rightarrow> VerificationCheckResult
                 \<lparr>cx_id = text_of d ''id'', cx_run_id = text_of d ''verification_run_id'',
                  cx_ordinal = i, cx_type = text_of d ''check_type'',
                  cx_path = text_of d ''output_path'', cx_state = text_of d ''state'',
                  cx_evidence = e\<rparr>
             | _ \<Rightarrow> value_error ''verification check structure is invalid'')
      | _ \<Rightarrow> Inl PyAttributeError)"

definition verification_from_dict :: "json dict \<Rightarrow> verification pyres" where
  "verification_from_dict d =
     (if \<not> all_strings d [''id'', ''request_id'', ''execution_id'', ''experiment_id'',
           ''aggregate_state'', ''evaluated_at'', ''source'']
      then value_error ''verification run structure is invalid''
      else
        (case jget_or d ''checks'' (JArr []) of
           JArr items \<Rightarrow>
             bindR (mapM check_result_from_dict items) (\<lambda>checks.
             VerificationRun
               \<lparr>vr_id = text_of d ''id'', vr_request_id = text_of d ''request_id'',
                vr_execution_id = text_of d ''execution_id'',
                vr_experiment_id = text_of d ''experiment_id'',
                vr_aggregate = text_of d ''aggregate_state'',
                vr_evaluated_at = text_of d ''evaluated_at'', vr_source = text_of d ''source'',
                vr_checks = checks\<rparr>)
         | _ \<Rightarrow> value_error ''verification run structure is invalid''))"

section \<open>Telemetry\<close>

text \<open>The numbers are JSON values, null when unavailable.\<close>

record telemetry =
  tm_id :: string
  tm_request_id :: string
  tm_execution_id :: string
  tm_experiment_id :: string
  tm_created_at :: string
  tm_state :: string
  tm_sources :: "string list"
  tm_coverage :: "string list"
  tm_wall_seconds :: json
  tm_stdout_bytes :: json
  tm_stderr_bytes :: json
  tm_input_bytes :: json
  tm_output_bytes :: json
  tm_wait_seconds :: json
  tm_requested :: "json dict"
  tm_allocated :: "json dict option"
  tm_unavailable :: "string list"

text \<open>\<open>value is not None and value < 0\<close>\<close>

definition is_negative :: "json \<Rightarrow> bool pyres" where
  "is_negative v =
     (case v of
        JNull \<Rightarrow> Inr False
      | JBool _ \<Rightarrow> Inr False
      | JInt i \<Rightarrow> Inr (i < 0)
      | JFloat f \<Rightarrow> Inr (case f of Finite q \<Rightarrow> q < 0 | Infinite s \<Rightarrow> \<not> s | NaN \<Rightarrow> False)
      | _ \<Rightarrow> Inl PyTypeError)"

definition telemetry_states :: "string list" where
  "telemetry_states = [''complete'', ''partial'', ''unavailable'']"

definition ExecutionTelemetrySummary :: "telemetry \<Rightarrow> telemetry pyres" where
  "ExecutionTelemetrySummary t =
     (if tm_state t \<notin> set telemetry_states
      then value_error (''unsupported telemetry state: '' @ tm_state t)
      else
        bindR (checkAll (\<lambda>(name, v). bindR (is_negative v) (\<lambda>b.
            raise_if b (PyValueError (''telemetry '' @ name @ '' must not be negative''))))
          [(''wall_seconds'', tm_wall_seconds t), (''stdout_bytes'', tm_stdout_bytes t),
           (''stderr_bytes'', tm_stderr_bytes t),
           (''known_input_artifact_bytes'', tm_input_bytes t),
           (''known_output_artifact_bytes'', tm_output_bytes t),
           (''scheduler_wait_seconds'', tm_wait_seconds t)]) (\<lambda>_. Inr t))"

section \<open>Documents of telemetry\<close>

definition resource_names :: "string list" where
  "resource_names = [''cpus'', ''gpus'', ''nodes'', ''mpi_ranks'', ''memory_bytes'', ''walltime_seconds'']"

definition telemetry_to_dict :: "telemetry \<Rightarrow> json dict" where
  "telemetry_to_dict t =
     [(''id'', JStr (tm_id t)), (''request_id'', JStr (tm_request_id t)),
      (''execution_id'', JStr (tm_execution_id t)), (''experiment_id'', JStr (tm_experiment_id t)),
      (''created_at'', JStr (tm_created_at t)), (''state'', JStr (tm_state t)),
      (''sources'', JArr (map JStr (tm_sources t))), (''coverage'', JArr (map JStr (tm_coverage t))),
      (''wall_seconds'', tm_wall_seconds t), (''stdout_bytes'', tm_stdout_bytes t),
      (''stderr_bytes'', tm_stderr_bytes t), (''known_input_artifact_bytes'', tm_input_bytes t),
      (''known_output_artifact_bytes'', tm_output_bytes t),
      (''scheduler_wait_seconds'', tm_wait_seconds t), (''requested_resources'', JObj (tm_requested t)),
      (''allocated_resources'', opt_json JObj (tm_allocated t)),
      (''unavailable'', JArr (map JStr (tm_unavailable t)))]"

definition text_list :: "json \<Rightarrow> string list option" where
  "text_list v =
     (case v of JArr xs \<Rightarrow> if list_all is_str xs then Some (map the_str xs) else None | _ \<Rightarrow> None)"

definition opt_object :: "json \<Rightarrow> json dict option option" where
  "opt_object v = (case v of JNull \<Rightarrow> Some None | JObj d \<Rightarrow> Some (Some d) | _ \<Rightarrow> None)"

definition telemetry_from_dict :: "json dict \<Rightarrow> telemetry pyres" where
  "telemetry_from_dict d =
     (case (text_list (jget d ''sources''), text_list (jget d ''coverage''),
            text_list (jget_or d ''unavailable'' (JArr [])), jget d ''requested_resources'',
            opt_object (jget d ''allocated_resources'')) of
        (Some sources, Some coverage, Some unavailable, JObj requested, Some allocated) \<Rightarrow>
          if \<not> all_strings d [''id'', ''request_id'', ''execution_id'', ''experiment_id'', ''created_at'',
                ''state''] \<or> list_ex (\<lambda>k. k \<notin> set resource_names) (dict_keys requested)
          then value_error ''telemetry summary structure is invalid''
          else ExecutionTelemetrySummary
            \<lparr>tm_id = text_of d ''id'', tm_request_id = text_of d ''request_id'',
             tm_execution_id = text_of d ''execution_id'',
             tm_experiment_id = text_of d ''experiment_id'', tm_created_at = text_of d ''created_at'',
             tm_state = text_of d ''state'', tm_sources = sources, tm_coverage = coverage,
             tm_wall_seconds = jget d ''wall_seconds'', tm_stdout_bytes = jget d ''stdout_bytes'',
             tm_stderr_bytes = jget d ''stderr_bytes'',
             tm_input_bytes = jget d ''known_input_artifact_bytes'',
             tm_output_bytes = jget d ''known_output_artifact_bytes'',
             tm_wait_seconds = jget d ''scheduler_wait_seconds'', tm_requested = requested,
             tm_allocated = allocated, tm_unavailable = unavailable\<rparr>
      | _ \<Rightarrow> value_error ''telemetry summary structure is invalid'')"

lemma text_list_texts [simp]: "text_list (JArr (map JStr xs)) = Some xs"
  by (simp add: text_list_def list_all_iff o_def)

lemma opt_object_objects [simp]: "opt_object (opt_json JObj d) = Some d"
  by (cases d) (simp_all add: opt_object_def)

definition telemetry_ok :: "telemetry \<Rightarrow> bool" where
  "telemetry_ok t \<longleftrightarrow> ExecutionTelemetrySummary t = Inr t \<and>
     list_all (\<lambda>k. k \<in> set resource_names) (dict_keys (tm_requested t))"

lemma telemetry_round_trip:
  assumes "telemetry_ok t"
  shows "telemetry_from_dict (telemetry_to_dict t) = Inr t"
proof -
  have get: "jget (telemetry_to_dict t) ''sources'' = JArr (map JStr (tm_sources t))"
    "jget (telemetry_to_dict t) ''coverage'' = JArr (map JStr (tm_coverage t))"
    "jget_or (telemetry_to_dict t) ''unavailable'' z = JArr (map JStr (tm_unavailable t))"
    "jget (telemetry_to_dict t) ''requested_resources'' = JObj (tm_requested t)"
    "jget (telemetry_to_dict t) ''allocated_resources'' = opt_json JObj (tm_allocated t)"
    "jget (telemetry_to_dict t) ''wall_seconds'' = tm_wall_seconds t"
    "jget (telemetry_to_dict t) ''stdout_bytes'' = tm_stdout_bytes t"
    "jget (telemetry_to_dict t) ''stderr_bytes'' = tm_stderr_bytes t"
    "jget (telemetry_to_dict t) ''known_input_artifact_bytes'' = tm_input_bytes t"
    "jget (telemetry_to_dict t) ''known_output_artifact_bytes'' = tm_output_bytes t"
    "jget (telemetry_to_dict t) ''scheduler_wait_seconds'' = tm_wait_seconds t"
    "all_strings (telemetry_to_dict t) [''id'', ''request_id'', ''execution_id'', ''experiment_id'',
       ''created_at'', ''state'']" for z
    by (simp_all add: telemetry_to_dict_def jget_def jget_or_def all_strings_def)
  have texts: "text_of (telemetry_to_dict t) ''id'' = tm_id t"
    "text_of (telemetry_to_dict t) ''request_id'' = tm_request_id t"
    "text_of (telemetry_to_dict t) ''execution_id'' = tm_execution_id t"
    "text_of (telemetry_to_dict t) ''experiment_id'' = tm_experiment_id t"
    "text_of (telemetry_to_dict t) ''created_at'' = tm_created_at t"
    "text_of (telemetry_to_dict t) ''state'' = tm_state t"
    by (simp_all add: telemetry_to_dict_def jget_def text_of_def)
  have r: "\<not> list_ex (\<lambda>k. k \<notin> set resource_names) (dict_keys (tm_requested t))"
    using assms by (simp add: telemetry_ok_def list_ex_iff list_all_iff)
  have t: "\<lparr>tm_id = tm_id t, tm_request_id = tm_request_id t, tm_execution_id = tm_execution_id t,
      tm_experiment_id = tm_experiment_id t, tm_created_at = tm_created_at t, tm_state = tm_state t,
      tm_sources = tm_sources t, tm_coverage = tm_coverage t, tm_wall_seconds = tm_wall_seconds t,
      tm_stdout_bytes = tm_stdout_bytes t, tm_stderr_bytes = tm_stderr_bytes t,
      tm_input_bytes = tm_input_bytes t, tm_output_bytes = tm_output_bytes t,
      tm_wait_seconds = tm_wait_seconds t, tm_requested = tm_requested t,
      tm_allocated = tm_allocated t, tm_unavailable = tm_unavailable t\<rparr> = t"
    by (cases t) simp
  have "telemetry_from_dict (telemetry_to_dict t) = ExecutionTelemetrySummary t"
    using r unfolding telemetry_from_dict_def get texts text_list_texts opt_object_objects
    by (simp add: t get(12))
  with assms show ?thesis by (simp add: telemetry_ok_def)
qed

section \<open>Building the summary\<close>

definition artifact_total :: "artifact list \<Rightarrow> int option" where
  "artifact_total artifacts =
     (if artifacts = [] then None
      else if list_ex (\<lambda>a. ar_existence a \<noteq> ''present'' \<or> ar_capture a \<noteq> ''complete''
                \<or> ar_size_bytes a = None) artifacts then None
      else Some (sum_list (map (\<lambda>a. case ar_size_bytes a of None \<Rightarrow> 0 | Some n \<Rightarrow> n) artifacts)))"

definition requested_dict :: "resources \<Rightarrow> json dict" where
  "requested_dict r =
     [(''cpus'', opt_int (r_cpus r)), (''gpus'', opt_int (r_gpus r)), (''nodes'', opt_int (r_nodes r)),
      (''mpi_ranks'', opt_int (r_mpi_ranks r)), (''memory_bytes'', opt_int (r_memory_bytes r)),
      (''walltime_seconds'', opt_int (r_walltime_seconds r))]"

definition build_telemetry_summary :: "string \<Rightarrow> request \<Rightarrow> plan \<Rightarrow> string \<Rightarrow> experiment_record \<Rightarrow>
    artifact list \<Rightarrow> allocation option \<Rightarrow> json \<Rightarrow> telemetry option pyres" where
  "build_telemetry_summary new_id r p execution_id e artifacts allocation wait =
     (if rq_telemetry_mode r = ''off'' then Inr None
      else
        let input_total = artifact_total (filter (\<lambda>a. ar_role a = ''input'') artifacts);
            output_total = artifact_total (filter (\<lambda>a. ar_role a = ''output'') artifacts);
            unavailable =
              (if rq_inputs r \<noteq> [] \<and> input_total = None then [''known_input_artifact_bytes''] else [])
              @ (if rq_outputs r \<noteq> [] \<and> output_total = None
                 then [''known_output_artifact_bytes''] else [])
              @ (if pl_backend p \<in> {''slurm'', ''pbs'', ''lsf''} \<and> wait = JNull
                 then [''scheduler_wait_seconds''] else [])
              @ (if allocation = None then [''allocated_resources''] else [])
        in
        mapR Some (ExecutionTelemetrySummary
          \<lparr>tm_id = new_id, tm_request_id = rq_id r, tm_execution_id = execution_id,
           tm_experiment_id = ex_id e, tm_created_at = ex_ended_at e,
           tm_state = (if unavailable \<noteq> [] then ''partial'' else ''complete''),
           tm_sources = [''bourne_experiment_record'']
             @ (if artifacts \<noteq> [] then [''bourne_artifact_records''] else [])
             @ (if allocation \<noteq> None then [''bourne_compute_allocation_observation''] else [])
             @ (if wait \<noteq> JNull then [''bourne_scheduler_lifecycle_events''] else []),
           tm_coverage = [''execution_wall_time'', ''captured_process_output'']
             @ (if artifacts \<noteq> [] then [''declared_artifact_capture''] else [])
             @ (if allocation \<noteq> None then [''allocated_resource_summary''] else [])
             @ (if wait \<noteq> JNull then [''scheduler_queue_interval''] else []),
           tm_wall_seconds = ex_duration e,
           tm_stdout_bytes = JInt (int (utf8_length (ex_stdout e))),
           tm_stderr_bytes = JInt (int (utf8_length (ex_stderr e))),
           tm_input_bytes = opt_int input_total, tm_output_bytes = opt_int output_total,
           tm_wait_seconds = wait, tm_requested = requested_dict (pl_resources p),
           tm_allocated = map_option al_resources allocation, tm_unavailable = unavailable\<rparr>))"

text \<open>
  \<open>seconds\<close> is the difference of the two timestamps, \<open>None\<close> when one of them cannot be read.
\<close>

definition add_scheduler_wait :: "(string \<Rightarrow> string \<Rightarrow> rat option) \<Rightarrow> telemetry \<Rightarrow> string \<Rightarrow> string \<Rightarrow>
    telemetry pyres" where
  "add_scheduler_wait seconds t submitted_at started_at =
     (case seconds submitted_at started_at of
        None \<Rightarrow> Inr t
      | Some s \<Rightarrow>
          if s < 0 then Inr t
          else
            let unavailable = filter (\<lambda>x. x \<noteq> ''scheduler_wait_seconds'') (tm_unavailable t) in
            ExecutionTelemetrySummary (t
              \<lparr>tm_wait_seconds := JFloat (Finite s),
               tm_sources := dedup (tm_sources t @ [''bourne_scheduler_lifecycle_events'']),
               tm_coverage := dedup (tm_coverage t @ [''scheduler_queue_interval'']),
               tm_unavailable := unavailable,
               tm_state := (if unavailable = [] then ''complete'' else ''partial'')\<rparr>))"

end
