(* ===== verification/OutcomeProperties.thy ===== *)
theory OutcomeProperties
  imports Outcomes RequestProperties
begin

text \<open>
  Properties of verification: the aggregate says passed, failed or unknown exactly as the captured
  artifacts establish, and a stored run reads back as itself.
\<close>

section \<open>What an artifact record establishes\<close>

definition meets :: "check \<Rightarrow> artifact \<Rightarrow> bool" where
  "meets c a \<longleftrightarrow> ar_existence a = ''present'' \<and>
     (ck_type c = ''output_exists'' \<or>
      ar_capture a = ''complete'' \<and>
        (ck_type c = ''output_min_bytes'' \<and>
           (\<exists>n m. ar_size_bytes a = Some n \<and> ck_min_bytes c = Some m \<and> m \<le> n) \<or>
         ck_type c = ''output_sha256'' \<and>
           (\<exists>d. ar_sha256 a = Some d \<and> ck_sha256 c = Some (casefold d))))"

definition refutes :: "check \<Rightarrow> artifact \<Rightarrow> bool" where
  "refutes c a \<longleftrightarrow> ar_existence a = ''missing'' \<or>
     ar_existence a = ''present'' \<and> ar_capture a = ''complete'' \<and>
       (ck_type c = ''output_min_bytes'' \<and>
          (\<exists>n m. ar_size_bytes a = Some n \<and> ck_min_bytes c = Some m \<and> n < m) \<or>
        ck_type c = ''output_sha256'' \<and>
          (\<exists>d. ar_sha256 a = Some d \<and> ck_sha256 c \<noteq> Some (casefold d)))"

definition verdict_of :: "check \<Rightarrow> artifact option \<Rightarrow> string" where
  "verdict_of c found =
     (case found of
        None \<Rightarrow> ''unknown''
      | Some a \<Rightarrow> if meets c a then ''passed'' else if refutes c a then ''failed'' else ''unknown'')"

lemma meets_not_refutes: "refutes c a \<Longrightarrow> \<not> meets c a"
proof
  assume r: "refutes c a" and m: "meets c a"
  then have "ar_existence a = ''present''" by (simp add: meets_def)
  with r have types: "ck_type c = ''output_min_bytes'' \<or> ck_type c = ''output_sha256''"
    by (auto simp: refutes_def)
  then show False
  proof
    assume t: "ck_type c = ''output_min_bytes''"
    from m t obtain n k where "ar_size_bytes a = Some n" "ck_min_bytes c = Some k" "k \<le> n"
      by (auto simp: meets_def)
    with r t \<open>ar_existence a = ''present''\<close> show False by (simp add: refutes_def)
  next
    assume t: "ck_type c = ''output_sha256''"
    from m t obtain d where "ar_sha256 a = Some d" "ck_sha256 c = Some (casefold d)"
      by (auto simp: meets_def)
    with r t \<open>ar_existence a = ''present''\<close> show False by (simp add: refutes_def)
  qed
qed

lemma check_state_verdict:
  assumes "check_ok c"
  shows "\<exists>ev. check_state c a = Inr (verdict_of c (Some a), ev)"
proof -
  consider "ck_type c = ''output_exists''" | m where "ck_type c = ''output_min_bytes''" "ck_min_bytes c = Some m"
    | "ck_type c = ''output_sha256''"
    using assms by (auto simp: check_ok_def)
  then show ?thesis
    by cases (auto simp: check_state_def verdict_of_def meets_def refutes_def Let_def split: option.splits)
qed

lemma evaluate_check_verdict:
  assumes "check_ok c" and "new_id \<noteq> []" and "run_id \<noteq> []"
  shows "\<exists>res. evaluate_check new_id run_id i c found = Inr res \<and> cx_state res = verdict_of c found \<and>
    cx_run_id res = run_id \<and> cx_path res = ck_path c \<and> cx_ordinal res = int i"
proof -
  have ok: "ck_path c \<noteq> []" "ck_type c \<in> set check_types"
    using assms(1) by (auto simp: check_ok_def str_ok_def check_types_def)
  have st: "verdict_of c found \<in> set check_result_states"
    by (simp add: verdict_of_def check_result_states_def split: option.split)
  show ?thesis
  proof (cases found)
    case None
    with ok assms(2,3) show ?thesis
      by (simp add: evaluate_check_def VerificationCheckResult_def verdict_of_def check_result_states_def)
  next
    case (Some a)
    obtain ev where "check_state c a = Inr (verdict_of c (Some a), ev)"
      using check_state_verdict [OF assms(1)] by blast
    with Some ok st assms(2,3) show ?thesis
      by (simp add: evaluate_check_def VerificationCheckResult_def)
  qed
qed

lemma mapM_exists:
  "(\<And>x. x \<in> set xs \<Longrightarrow> \<exists>y. f x = Inr y \<and> P x y) \<Longrightarrow> \<exists>ys. mapM f xs = Inr ys \<and> list_all2 P xs ys"
proof (induction xs)
  case (Cons x xs)
  then obtain y ys where "f x = Inr y" "P x y" "mapM f xs = Inr ys" "list_all2 P xs ys"
    by (meson list.set_intros)
  then show ?case by simp
qed simp

lemma evaluate_verification_states:
  assumes "list_all check_ok (rq_checks r)" and "\<And>i. new_id i \<noteq> []"
  obtains v where "evaluate_verification new_id r execution_id e artifacts = Inr v"
    and "map cx_state (vr_checks v)
      = map (\<lambda>c. verdict_of c (first_output artifacts (ck_path c))) (rq_checks r)"
    and "vr_aggregate v = aggregate_state (map cx_state (vr_checks v))"
    and "vr_execution_id v = execution_id" and "vr_experiment_id v = ex_id e"
    and "vr_request_id v = rq_id r"
proof -
  let ?items = "zip [0..<length (rq_checks r)] (rq_checks r)"
  let ?f = "\<lambda>(i, c). evaluate_check (new_id (Suc i)) (new_id 0) i c (first_output artifacts (ck_path c))"
  let ?P = "\<lambda>(i, c) res. cx_state res = verdict_of c (first_output artifacts (ck_path c)) \<and>
    cx_run_id res = new_id 0"
  have each: "\<exists>res. ?f x = Inr res \<and> ?P x res" if "x \<in> set ?items" for x
  proof -
    obtain i c where x: "x = (i, c)" by (cases x)
    with that have "check_ok c" using assms(1) by (auto simp: list_all_iff dest: set_zip_rightD)
    with evaluate_check_verdict [OF this assms(2) assms(2)] x show ?thesis by fastforce
  qed
  obtain results where m: "mapM ?f ?items = Inr results" and all: "list_all2 ?P ?items results"
    using mapM_exists [of ?items ?f ?P] each by blast
  have states: "map cx_state results
      = map (\<lambda>c. verdict_of c (first_output artifacts (ck_path c))) (rq_checks r)"
    using all by (auto simp: list_all2_conv_all_nth intro!: nth_equalityI)
  have runs: "\<not> list_ex (\<lambda>c. cx_run_id c \<noteq> new_id 0) results"
    using all by (auto simp: list_all2_conv_all_nth list_ex_iff in_set_conv_nth)
  have agg: "aggregate_state ss \<in> set [''passed'', ''failed'', ''unknown'', ''not_requested'']" for ss
    by (simp add: aggregate_state_def)
  show thesis
    by (rule that [of "\<lparr>vr_id = new_id 0, vr_request_id = rq_id r, vr_execution_id = execution_id,
        vr_experiment_id = ex_id e, vr_aggregate = aggregate_state (map cx_state results),
        vr_evaluated_at = ex_ended_at e, vr_source = ''captured_output_artifact_records'',
        vr_checks = results\<rparr>"])
      (use agg runs states in \<open>simp_all add: evaluate_verification_def m VerificationRun_def\<close>)
qed

lemma aggregate_state_iff:
  "aggregate_state ss = ''passed'' \<longleftrightarrow> ss \<noteq> [] \<and> ''failed'' \<notin> set ss \<and> ''unknown'' \<notin> set ss"
  "aggregate_state ss = ''failed'' \<longleftrightarrow> ''failed'' \<in> set ss"
  "aggregate_state ss = ''not_requested'' \<longleftrightarrow> ss = []"
  "aggregate_state ss \<in> {''passed'', ''failed'', ''unknown'', ''not_requested''}"
  by (simp_all add: aggregate_state_def)

lemma verdict_of_iff:
  "verdict_of c found = ''passed'' \<longleftrightarrow> (\<exists>a. found = Some a \<and> meets c a)"
  "verdict_of c found = ''failed'' \<longleftrightarrow> (\<exists>a. found = Some a \<and> refutes c a)"
  "verdict_of c found = ''passed'' \<or> verdict_of c found = ''failed'' \<or> verdict_of c found = ''unknown''"
proof -
  have "verdict_of c found = (case found of None \<Rightarrow> ''unknown''
      | Some a \<Rightarrow> if refutes c a then ''failed'' else if meets c a then ''passed'' else ''unknown'')"
    using meets_not_refutes by (cases found) (simp_all add: verdict_of_def)
  then show "verdict_of c found = ''failed'' \<longleftrightarrow> (\<exists>a. found = Some a \<and> refutes c a)"
    by (cases found) simp_all
qed (cases found, simp_all add: verdict_of_def)+

lemma aggregate_passed:
  assumes "\<And>c. f c = p \<or> f c = u \<or> f c = w" and "p \<noteq> u" and "p \<noteq> w" and "u \<noteq> w"
  shows "(\<forall>c \<in> set cs. f c = p) \<longleftrightarrow> u \<notin> set (map f cs) \<and> w \<notin> set (map f cs)"
  using assms by (metis image_eqI image_iff list.set_map)

lemma verification_evidence:
  assumes "list_all check_ok (rq_checks r)" and "\<And>i. new_id i \<noteq> []"
  shows "\<exists>v. evaluate_verification new_id r execution_id e artifacts = Inr v \<and>
    (vr_aggregate v = ''passed'' \<longleftrightarrow> rq_checks r \<noteq> [] \<and>
       (\<forall>c \<in> set (rq_checks r). \<exists>a. first_output artifacts (ck_path c) = Some a \<and> meets c a)) \<and>
    (vr_aggregate v = ''failed'' \<longleftrightarrow>
       (\<exists>c \<in> set (rq_checks r). \<exists>a. first_output artifacts (ck_path c) = Some a \<and> refutes c a)) \<and>
    (vr_aggregate v = ''not_requested'' \<longleftrightarrow> rq_checks r = []) \<and>
    vr_aggregate v \<in> {''passed'', ''failed'', ''unknown'', ''not_requested''} \<and>
    vr_execution_id v = execution_id \<and> vr_experiment_id v = ex_id e \<and> vr_request_id v = rq_id r"
proof -
  obtain v where v: "evaluate_verification new_id r execution_id e artifacts = Inr v"
    and states: "map cx_state (vr_checks v)
      = map (\<lambda>c. verdict_of c (first_output artifacts (ck_path c))) (rq_checks r)"
    and agg: "vr_aggregate v = aggregate_state (map cx_state (vr_checks v))"
    and ids: "vr_execution_id v = execution_id" "vr_experiment_id v = ex_id e" "vr_request_id v = rq_id r"
    by (rule evaluate_verification_states [OF assms])
  let ?s = "\<lambda>c. verdict_of c (first_output artifacts (ck_path c))"
  have "vr_aggregate v = ''passed'' \<longleftrightarrow> rq_checks r \<noteq> [] \<and> (\<forall>c \<in> set (rq_checks r). ?s c = ''passed'')"
  proof -
    have "(\<forall>c \<in> set (rq_checks r). ?s c = ''passed'') \<longleftrightarrow>
        ''failed'' \<notin> set (map ?s (rq_checks r)) \<and> ''unknown'' \<notin> set (map ?s (rq_checks r))"
      by (rule aggregate_passed) (rule verdict_of_iff(3), simp_all)
    then show ?thesis unfolding agg states aggregate_state_iff map_is_Nil_conv by (rule conj_cong [OF refl, symmetric])
  qed
  moreover have "vr_aggregate v = ''failed'' \<longleftrightarrow> (\<exists>c \<in> set (rq_checks r). ?s c = ''failed'')"
    unfolding agg states aggregate_state_iff by (simp only: image_iff set_map eq_commute)
  moreover have "vr_aggregate v = ''not_requested'' \<longleftrightarrow> rq_checks r = []"
    "vr_aggregate v \<in> {''passed'', ''failed'', ''unknown'', ''not_requested''}"
    unfolding agg states by (simp_all only: aggregate_state_iff map_is_Nil_conv)
  ultimately show ?thesis using v ids unfolding verdict_of_iff by blast
qed

text \<open>
  C30. For checks a request can carry, verification always returns, and its aggregate is what the
  captured output artifacts establish: it is passed exactly when there is a check and the first
  captured artifact of every checked path meets its check, failed exactly when the artifact of
  some checked path refutes it, not requested exactly without checks, and unknown otherwise.
\<close>

theorem verification_is_evidence_based:
  assumes "list_all check_ok (rq_checks r)" and "\<And>i. new_id i \<noteq> []"
  shows "\<exists>v. evaluate_verification new_id r execution_id e artifacts = Inr v \<and>
    (vr_aggregate v = ''passed'' \<longleftrightarrow> rq_checks r \<noteq> [] \<and>
       (\<forall>c \<in> set (rq_checks r). \<exists>a. first_output artifacts (ck_path c) = Some a \<and> meets c a)) \<and>
    (vr_aggregate v = ''failed'' \<longleftrightarrow>
       (\<exists>c \<in> set (rq_checks r). \<exists>a. first_output artifacts (ck_path c) = Some a \<and> refutes c a)) \<and>
    (vr_aggregate v = ''not_requested'' \<longleftrightarrow> rq_checks r = []) \<and>
    vr_aggregate v \<in> {''passed'', ''failed'', ''unknown'', ''not_requested''} \<and>
    vr_execution_id v = execution_id \<and> vr_experiment_id v = ex_id e \<and> vr_request_id v = rq_id r"
  using assms by (rule verification_evidence)

definition sample_output :: artifact where
  "sample_output = \<lparr>ar_id = ''A'', ar_experiment_id = ''X'', ar_role = ''output'',
     ar_original_path = ck_path (hd (rq_checks sample_request)), ar_resolved_path = ''/w/o'',
     ar_existence = ''present'', ar_capture = ''complete'', ar_sha256 = Some ''aa'',
     ar_size_bytes = Some 7, ar_modified_at = Some ''t0'', ar_captured_at = ''t1'',
     ar_capture_error = None\<rparr>"

definition sample_experiment :: experiment_record where
  "sample_experiment = \<lparr>ex_id = ''X'', ex_status = ''completed'', ex_command = ''run'', ex_arguments = [],
     ex_working_directory = ''/w'', ex_started_at = ''t0'', ex_ended_at = ''t1'', ex_duration = JInt 1,
     ex_exit_code = 0, ex_stdout = [], ex_stderr = [], ex_git = [], ex_system = [], ex_context = [],
     ex_schema_version = 2\<rparr>"

theorem verification_is_evidence_based_witness:
  "\<exists>v. evaluate_verification (\<lambda>i. ''V'') sample_request ''E'' sample_experiment [sample_output] = Inr v \<and>
    vr_aggregate v = ''passed''"
proof -
  have ok: "list_all check_ok (rq_checks sample_request)"
    by (simp add: sample_request_def check_ok_def str_ok_def request_limits code_point_def)
  have met: "rq_checks sample_request \<noteq> [] \<and> (\<forall>c \<in> set (rq_checks sample_request).
      \<exists>a. first_output [sample_output] (ck_path c) = Some a \<and> meets c a)"
    by (simp add: first_output_def sample_output_def sample_request_def meets_def)
  have new: "\<And>i :: nat. (\<lambda>i. ''V'') i \<noteq> []" by simp
  show ?thesis
    using verification_is_evidence_based [OF ok new, of "''E''" sample_experiment "[sample_output]"] met
    by metis
qed

text \<open>
  The constructor of a check accepts a digest in upper case, and only the artifact's digest is
  folded before the comparison: such a check fails whatever the artifact holds. Requests that are
  parsed from a document fold the digest first.
\<close>

lemma upper_case_digest_never_matches:
  "VerificationCheckSpec ''output_sha256'' ''out'' JNull (JStr (replicate 64 (CHR ''A''))) = Inr
     \<lparr>ck_type = ''output_sha256'', ck_path = ''out'', ck_min_bytes = None,
      ck_sha256 = Some (replicate 64 (CHR ''A''))\<rparr>"
  "ar_existence a = ''present'' \<Longrightarrow> ar_capture a = ''complete'' \<Longrightarrow> ar_sha256 a = Some d \<Longrightarrow>
   ck_type c = ''output_sha256'' \<Longrightarrow> ck_sha256 c = Some x \<Longrightarrow> casefold x \<noteq> x \<Longrightarrow>
   check_state c a = Inr (''failed'', [(''expected_sha256'', JStr x)])"
  subgoal
  proof -
    have "lower_char (CHR ''A'') = CHR ''a''" by code_simp
    then show ?thesis
      by (simp add: VerificationCheckSpec_def check_types_def bindR_Inr_iff bounded_string_Inr
          request_limits SHA256_def code_point_def list_all_iff)
  qed
  subgoal by (auto simp: check_state_def casefold_def)
  done

section \<open>Stored runs\<close>

definition check_result_ok :: "check_result \<Rightarrow> bool" where
  "check_result_ok c \<longleftrightarrow> VerificationCheckResult c = Inr c"

lemma check_result_round_trip:
  "check_result_ok c \<Longrightarrow> check_result_from_dict (JObj (check_result_to_dict c)) = Inr c"
  by (cases c) (simp add: check_result_ok_def check_result_from_dict_def check_result_to_dict_def
      all_strings_def text_of_def jget_def)

lemma mapM_round_trip:
  "list_all P xs \<Longrightarrow> (\<And>x. P x \<Longrightarrow> f (g x) = Inr x) \<Longrightarrow> mapM f (map g xs) = Inr xs"
  by (induction xs) simp_all

lemma verification_to_dict_get:
  "all_strings (verification_to_dict v) [''id'', ''request_id'', ''execution_id'', ''experiment_id'',
     ''aggregate_state'', ''evaluated_at'', ''source'']"
  "text_of (verification_to_dict v) ''id'' = vr_id v"
  "text_of (verification_to_dict v) ''request_id'' = vr_request_id v"
  "text_of (verification_to_dict v) ''execution_id'' = vr_execution_id v"
  "text_of (verification_to_dict v) ''experiment_id'' = vr_experiment_id v"
  "text_of (verification_to_dict v) ''aggregate_state'' = vr_aggregate v"
  "text_of (verification_to_dict v) ''evaluated_at'' = vr_evaluated_at v"
  "text_of (verification_to_dict v) ''source'' = vr_source v"
  "jget_or (verification_to_dict v) ''checks'' z = JArr (map (JObj \<circ> check_result_to_dict) (vr_checks v))"
  by (simp_all add: all_strings_def text_of_def verification_to_dict_def jget_def jget_or_def)

lemma verification_document:
  assumes "VerificationRun v = Inr v" and "list_all check_result_ok (vr_checks v)"
  shows "verification_from_dict (verification_to_dict v) = Inr v"
proof -
  have "mapM check_result_from_dict (map (JObj \<circ> check_result_to_dict) (vr_checks v)) = Inr (vr_checks v)"
    using assms(2) by (rule mapM_round_trip) (simp add: check_result_round_trip)
  then have "verification_from_dict (verification_to_dict v) = VerificationRun
      \<lparr>vr_id = vr_id v, vr_request_id = vr_request_id v, vr_execution_id = vr_execution_id v,
       vr_experiment_id = vr_experiment_id v, vr_aggregate = vr_aggregate v,
       vr_evaluated_at = vr_evaluated_at v, vr_source = vr_source v, vr_checks = vr_checks v\<rparr>"
    by (simp add: verification_from_dict_def verification_to_dict_get)
  also have "\<dots> = VerificationRun v" by (cases v) simp
  finally show ?thesis using assms(1) by simp
qed

text \<open>
  A verification run that satisfies its constructors' checks, with checks that satisfy theirs,
  reads back from its document as itself.
\<close>

theorem verification_round_trip:
  assumes "VerificationRun v = Inr v" and "list_all check_result_ok (vr_checks v)"
  shows "verification_from_dict (verification_to_dict v) = Inr v"
  using assms by (rule verification_document)

definition sample_verification :: verification where
  "sample_verification = \<lparr>vr_id = ''V'', vr_request_id = ''ID'', vr_execution_id = ''E'',
     vr_experiment_id = ''X'', vr_aggregate = ''failed'', vr_evaluated_at = ''t1'', vr_source = ''captured'',
     vr_checks = [\<lparr>cx_id = ''C'', cx_run_id = ''V'', cx_ordinal = 0, cx_type = ''output_exists'',
       cx_path = ''out'', cx_state = ''failed'', cx_evidence = [(''a'', JInt 1)]\<rparr>]\<rparr>"

theorem verification_round_trip_witness:
  "verification_from_dict (verification_to_dict sample_verification) = Inr sample_verification"
  by (rule verification_round_trip) code_simp+

end
