(* ===== verification/RuntimeEvidence.thy ===== *)
theory RuntimeEvidence
  imports WorkloadModels PlanningModels
begin

text \<open>
  Runtime and termination evidence of an execution (\<open>runtime_evidence.py\<close>): the records, the
  checks of their constructors on the values of a document, and the documents. The offending value
  is left out of an error's message.
\<close>

section \<open>Bounded JSON\<close>

text \<open>
  \<open>_bounded_json\<close>: the module's limits on depth, text, lists and objects are arguments, the text
  limit differs from that of \<open>worker_result.py\<close>.
\<close>

fun bounded_json :: "nat \<Rightarrow> nat \<Rightarrow> nat \<Rightarrow> json \<Rightarrow> bool" where
  "bounded_json deepest longest depth (JStr s) \<longleftrightarrow> depth \<le> deepest \<and> length s \<le> longest"
| "bounded_json deepest longest depth (JFloat f) \<longleftrightarrow> depth \<le> deepest \<and> is_finite f"
| "bounded_json deepest longest depth (JArr xs) \<longleftrightarrow> depth \<le> deepest \<and> length xs \<le> 4096 \<and>
     (\<forall>x \<in> set xs. bounded_json deepest longest (Suc depth) x)"
| "bounded_json deepest longest depth (JObj d) \<longleftrightarrow> depth \<le> deepest \<and> length d \<le> 256 \<and>
     (\<forall>p \<in> set d. length (fst p) \<le> 256 \<and> bounded_json deepest longest (Suc depth) (snd p))"
| "bounded_json deepest longest depth _ \<longleftrightarrow> depth \<le> deepest"

definition runtime_bounded_json :: "json \<Rightarrow> bool" where
  "runtime_bounded_json v = bounded_json 10 (16 * 1024) 0 v"

section \<open>Groups\<close>

record group =
  gr_coverage :: string
  gr_source :: string
  gr_metrics :: "json dict"
  gr_diagnostic :: "string option"

definition coverages :: "string list" where
  "coverages = [''observed'', ''partially_observed'', ''unavailable'', ''unsupported'', ''unknown'']"

text \<open>\<open>v is not None and (not isinstance(v, str) or len(v) > 4096)\<close>\<close>

definition diagnostic_ok :: "json \<Rightarrow> bool" where
  "diagnostic_ok v = (case v of JNull \<Rightarrow> True | JStr s \<Rightarrow> length s \<le> 4096 | _ \<Rightarrow> False)"

definition opt_text :: "json \<Rightarrow> string option" where
  "opt_text v = (case v of JStr s \<Rightarrow> Some s | _ \<Rightarrow> None)"

definition RuntimeEvidenceGroup :: "json \<Rightarrow> json \<Rightarrow> json \<Rightarrow> json \<Rightarrow> group pyres" where
  "RuntimeEvidenceGroup coverage source metrics diagnostic =
     (if \<not> is_str coverage \<or> the_str coverage \<notin> set coverages
      then value_error ''unsupported runtime evidence coverage''
      else if \<not> is_str source \<or> the_str source = [] \<or> length (the_str source) > 256
      then value_error ''runtime evidence source must be bounded''
      else if \<not> diagnostic_ok diagnostic
      then value_error ''runtime evidence diagnostic exceeds the safety limit''
      else (case metrics of
          JObj d \<Rightarrow>
            if runtime_bounded_json metrics
            then Inr \<lparr>gr_coverage = the_str coverage, gr_source = the_str source, gr_metrics = d,
                   gr_diagnostic = opt_text diagnostic\<rparr>
            else value_error ''runtime evidence metrics must be bounded JSON''
        | _ \<Rightarrow> value_error ''runtime evidence metrics must be bounded JSON''))"

text \<open>
  \<open>dict(v)\<close>: an object, or a sequence of pairs. A pair whose key is no text gives a value that
  is no JSON object; \<open>JNull\<close> stands for it, which the constructor refuses in the same way.
\<close>

fun pair_of :: "json \<Rightarrow> (json \<times> json) pyres" where
  "pair_of (JArr [k, v]) = Inr (k, v)"
| "pair_of (JStr [a, b]) = Inr (JStr [a], JStr [b])"
| "pair_of (JObj [(a, _), (b, _)]) = Inr (JStr a, JStr b)"
| "pair_of (JArr _) = value_error ''dictionary update sequence''"
| "pair_of (JStr _) = value_error ''dictionary update sequence''"
| "pair_of (JObj _) = value_error ''dictionary update sequence''"
| "pair_of _ = Inl PyTypeError"

definition dict_of_pairs :: "(json \<times> json) list \<Rightarrow> json" where
  "dict_of_pairs ps =
     (if list_all (is_str \<circ> fst) ps
      then JObj (foldl (\<lambda>d (k, v). dict_set (the_str k) v d) [] ps) else JNull)"

definition py_dict :: "json \<Rightarrow> json pyres" where
  "py_dict v =
     (case v of
        JObj d \<Rightarrow> Inr v
      | JArr xs \<Rightarrow>
          bindR (mapM (\<lambda>x. bindR (pair_of x) (\<lambda>p.
              if hashable (fst p) then Inr p else Inl PyTypeError)) xs) (\<lambda>ps. Inr (dict_of_pairs ps))
      | JStr s \<Rightarrow> if s = [] then Inr (JObj []) else value_error ''dictionary update sequence''
      | _ \<Rightarrow> Inl PyTypeError)"

text \<open>
  What \<open>set(v) - names\<close> and the subscript after it raise when \<open>v\<close> is no object.
\<close>

definition not_an_object :: "string list \<Rightarrow> json \<Rightarrow> py_error" where
  "not_an_object names v =
     (case v of
        JStr (c # s) \<Rightarrow> PyValueError ''unknown fields''
      | JArr xs \<Rightarrow>
          if list_all hashable xs \<and> list_ex (\<lambda>x. x \<notin> JStr ` set names) xs
          then PyValueError ''unknown fields'' else PyTypeError
      | _ \<Rightarrow> PyTypeError)"

definition has_unknown :: "json dict \<Rightarrow> string list \<Rightarrow> bool" where
  "has_unknown d names \<longleftrightarrow> list_ex (\<lambda>k. k \<notin> set names) (dict_keys d)"

text \<open>\<open>d[k]\<close>\<close>

definition subscript :: "json dict \<Rightarrow> string \<Rightarrow> json pyres" where
  "subscript d k = (case dict_get d k of None \<Rightarrow> Inl (PyKeyError k) | Some v \<Rightarrow> Inr v)"

definition group_fields :: "string list" where
  "group_fields = [''coverage'', ''source'', ''metrics'', ''diagnostic'']"

definition group_from_dict :: "json \<Rightarrow> group pyres" where
  "group_from_dict v =
     (case v of
        JObj d \<Rightarrow>
          if has_unknown d group_fields
          then value_error ''runtime evidence group contains unknown fields''
          else
            bindR (subscript d ''coverage'') (\<lambda>coverage.
            bindR (subscript d ''source'') (\<lambda>source.
            bindR (py_dict (jget_or d ''metrics'' (JObj []))) (\<lambda>metrics.
            RuntimeEvidenceGroup coverage source metrics (jget d ''diagnostic''))))
      | _ \<Rightarrow> Inl (not_an_object group_fields v))"

definition group_to_dict :: "group \<Rightarrow> json dict" where
  "group_to_dict g =
     [(''coverage'', JStr (gr_coverage g)), (''source'', JStr (gr_source g)),
      (''metrics'', JObj (gr_metrics g)), (''diagnostic'', opt_json JStr (gr_diagnostic g))]"

definition group_ok :: "group \<Rightarrow> bool" where
  "group_ok g \<longleftrightarrow> gr_coverage g \<in> set coverages \<and> gr_source g \<noteq> [] \<and> length (gr_source g) \<le> 256 \<and>
     (\<forall>s. gr_diagnostic g = Some s \<longrightarrow> length s \<le> 4096) \<and> runtime_bounded_json (JObj (gr_metrics g))"

lemma RuntimeEvidenceGroup_ok: "RuntimeEvidenceGroup c s m d = Inr g \<Longrightarrow> group_ok g"
  by (auto simp: RuntimeEvidenceGroup_def group_ok_def diagnostic_ok_def opt_text_def is_str_iff
      split: if_splits json.splits)

lemma group_from_dict_ok: "group_from_dict v = Inr g \<Longrightarrow> group_ok g"
  by (cases v) (auto simp: group_from_dict_def bindR_Inr_iff dest: RuntimeEvidenceGroup_ok
      split: if_splits)

lemma group_round_trip: "group_ok g \<Longrightarrow> group_from_dict (JObj (group_to_dict g)) = Inr g"
  by (cases g; cases "gr_diagnostic g") (auto simp: group_from_dict_def group_to_dict_def has_unknown_def
      group_fields_def subscript_def jget_or_def jget_def py_dict_def RuntimeEvidenceGroup_def
      group_ok_def diagnostic_ok_def opt_text_def)

section \<open>Runtime evidence\<close>

record runtime =
  rt_id :: string
  rt_execution :: string
  rt_experiment :: "string option"
  rt_observed_at :: string
  rt_process :: group
  rt_allocation :: group
  rt_cpu :: group
  rt_memory :: group
  rt_io :: group
  rt_gpu :: group
  rt_environment :: group
  rt_schema_version :: json

text \<open>The constructor, on the values of a document; the groups are typed by their construction.\<close>

definition RuntimeEvidence :: "json \<Rightarrow> json \<Rightarrow> json \<Rightarrow> json \<Rightarrow> group list \<Rightarrow> json \<Rightarrow> runtime pyres" where
  "RuntimeEvidence i execution experiment observed_at groups version =
     (if \<not> py_eq version (JInt 1) then value_error ''unsupported runtime evidence version''
      else if list_ex (\<lambda>v. \<not> is_str v \<or> the_str v = []) [i, execution, observed_at]
      then value_error ''runtime evidence identity is required''
      else if experiment \<noteq> JNull \<and> \<not> is_str experiment
      then value_error ''runtime evidence experiment identity is invalid''
      else (case groups of
          [process, allocation, cpu, memory, io, gpu, environment] \<Rightarrow>
            Inr \<lparr>rt_id = the_str i, rt_execution = the_str execution, rt_experiment = opt_text experiment,
              rt_observed_at = the_str observed_at, rt_process = process, rt_allocation = allocation,
              rt_cpu = cpu, rt_memory = memory, rt_io = io, rt_gpu = gpu,
              rt_environment = environment, rt_schema_version = version\<rparr>
        | _ \<Rightarrow> value_error ''runtime evidence groups must be typed''))"

definition group_names :: "string list" where
  "group_names = [''process'', ''allocation'', ''cpu'', ''memory'', ''io'', ''gpu'', ''environment'']"

definition runtime_fields :: "string list" where
  "runtime_fields = [''id'', ''execution_id'', ''experiment_id'', ''observed_at''] @ group_names
     @ [''schema_version'']"

definition runtime_from_dict :: "json dict \<Rightarrow> runtime pyres" where
  "runtime_from_dict d =
     (if has_unknown d runtime_fields then value_error ''runtime evidence contains unknown fields''
      else
        bindR (subscript d ''id'') (\<lambda>i.
        bindR (subscript d ''execution_id'') (\<lambda>execution.
        bindR (subscript d ''observed_at'') (\<lambda>observed_at.
        bindR (mapM (\<lambda>n. bindR (subscript d n) group_from_dict) group_names) (\<lambda>groups.
        RuntimeEvidence i execution (jget d ''experiment_id'') observed_at groups
          (jget_or d ''schema_version'' (JInt 1)))))))"

definition runtime_groups :: "runtime \<Rightarrow> group list" where
  "runtime_groups r = [rt_process r, rt_allocation r, rt_cpu r, rt_memory r, rt_io r, rt_gpu r,
     rt_environment r]"

definition runtime_to_dict :: "runtime \<Rightarrow> json dict" where
  "runtime_to_dict r =
     [(''id'', JStr (rt_id r)), (''execution_id'', JStr (rt_execution r)),
      (''experiment_id'', opt_json JStr (rt_experiment r)),
      (''observed_at'', JStr (rt_observed_at r))]
     @ zip group_names (map (JObj \<circ> group_to_dict) (runtime_groups r))
     @ [(''schema_version'', rt_schema_version r)]"

definition runtime_coverage :: "runtime \<Rightarrow> (string \<times> string) list" where
  "runtime_coverage r = zip group_names (map gr_coverage (runtime_groups r))"

definition runtime_ok :: "runtime \<Rightarrow> bool" where
  "runtime_ok r \<longleftrightarrow> py_eq (rt_schema_version r) (JInt 1) \<and> rt_id r \<noteq> [] \<and> rt_execution r \<noteq> [] \<and>
     rt_observed_at r \<noteq> [] \<and> list_all group_ok (runtime_groups r)"

lemma runtime_from_dict_ok:
  assumes "runtime_from_dict d = Inr r"
  shows "runtime_ok r"
proof -
  obtain groups i e x o' s where g: "mapM (\<lambda>n. bindR (subscript d n) group_from_dict) group_names = Inr groups"
    and r: "RuntimeEvidence i e x o' groups s = Inr r"
    using assms by (auto simp: runtime_from_dict_def bindR_Inr_iff split: if_splits)
  have "list_all group_ok groups"
    using mapM_Inr_set [OF g] by (auto simp: list_all_iff bindR_Inr_iff dest: group_from_dict_ok)
  with r show ?thesis
    by (auto simp: RuntimeEvidence_def runtime_ok_def runtime_groups_def is_str_iff
        split: if_splits list.splits)
qed

lemma runtime_to_dict_get:
  "dict_get (runtime_to_dict r) ''id'' = Some (JStr (rt_id r))"
  "dict_get (runtime_to_dict r) ''execution_id'' = Some (JStr (rt_execution r))"
  "dict_get (runtime_to_dict r) ''experiment_id'' = Some (opt_json JStr (rt_experiment r))"
  "dict_get (runtime_to_dict r) ''observed_at'' = Some (JStr (rt_observed_at r))"
  "dict_get (runtime_to_dict r) ''schema_version'' = Some (rt_schema_version r)"
  "dict_get (runtime_to_dict r) ''process'' = Some (JObj (group_to_dict (rt_process r)))"
  "dict_get (runtime_to_dict r) ''allocation'' = Some (JObj (group_to_dict (rt_allocation r)))"
  "dict_get (runtime_to_dict r) ''cpu'' = Some (JObj (group_to_dict (rt_cpu r)))"
  "dict_get (runtime_to_dict r) ''memory'' = Some (JObj (group_to_dict (rt_memory r)))"
  "dict_get (runtime_to_dict r) ''io'' = Some (JObj (group_to_dict (rt_io r)))"
  "dict_get (runtime_to_dict r) ''gpu'' = Some (JObj (group_to_dict (rt_gpu r)))"
  "dict_get (runtime_to_dict r) ''environment'' = Some (JObj (group_to_dict (rt_environment r)))"
  "\<not> has_unknown (runtime_to_dict r) runtime_fields"
  by (simp_all add: runtime_to_dict_def group_names_def runtime_groups_def has_unknown_def runtime_fields_def)

lemma runtime_round_trip:
  assumes "runtime_ok r"
  shows "runtime_from_dict (runtime_to_dict r) = Inr r"
proof -
  have "mapM (\<lambda>n. bindR (subscript (runtime_to_dict r) n) group_from_dict) group_names
      = Inr (runtime_groups r)"
    using assms by (simp add: group_names_def subscript_def runtime_to_dict_get runtime_ok_def
        runtime_groups_def group_round_trip)
  with assms show ?thesis
    by (cases r; cases "rt_experiment r") (simp_all add: runtime_from_dict_def runtime_to_dict_get subscript_def
      jget_def jget_or_def RuntimeEvidence_def runtime_ok_def runtime_groups_def opt_text_def)
qed

section \<open>Termination\<close>

record termination_evidence =
  tn_phase :: string
  tn_outcome :: string
  tn_source :: string
  tn_exit_code :: "int option"
  tn_signal :: "int option"
  tn_scheduler_state :: "string option"
  tn_result_evidence :: string
  tn_telemetry_evidence :: string
  tn_diagnostic :: "string option"

definition phases :: "string list" where
  "phases = [''preflight'', ''launch'', ''running'', ''scheduler'', ''collection'', ''verification'']"

definition outcomes :: "string list" where
  "outcomes = [''completed'', ''preflight_failed'', ''launch_failed'', ''running_then_failed'',
     ''terminated_by_signal'', ''scheduler_cancelled'', ''scheduler_timeout'', ''out_of_memory'',
     ''node_failure'', ''result_bundle_partial'', ''result_bundle_missing'',
     ''telemetry_unavailable'', ''verification_failed'', ''unknown'']"

definition result_evidences :: "string list" where
  "result_evidences = [''complete'', ''partial'', ''missing'', ''unknown'']"

definition telemetry_evidences :: "string list" where
  "telemetry_evidences = [''observed'', ''partial'', ''unavailable'', ''unsupported'', ''unknown'']"

definition int_or_none :: "json \<Rightarrow> int option option" where
  "int_or_none v = (case v of JNull \<Rightarrow> Some None | JInt i \<Rightarrow> Some (Some i) | _ \<Rightarrow> None)"

text \<open>\<open>v not in names\<close>: a list or an object cannot be looked up in a set.\<close>

definition one_of_names :: "json \<Rightarrow> string list \<Rightarrow> string \<Rightarrow> unit pyres" where
  "one_of_names v names message =
     (if \<not> hashable v then Inl PyTypeError
      else if is_str v \<and> the_str v \<in> set names then Inr ()
      else value_error message)"

definition TerminationEvidence :: "json \<Rightarrow> json \<Rightarrow> json \<Rightarrow> json \<Rightarrow> json \<Rightarrow> json \<Rightarrow> json \<Rightarrow> json \<Rightarrow> json \<Rightarrow>
    termination_evidence pyres" where
  "TerminationEvidence phase outcome source exit_code signal scheduler_state result_evidence
      telemetry_evidence diagnostic =
     (if \<not> is_str phase \<or> the_str phase \<notin> set phases
      then value_error ''unsupported termination phase''
      else if \<not> is_str outcome \<or> the_str outcome \<notin> set outcomes
      then value_error ''unsupported termination outcome''
      else if \<not> is_str source \<or> the_str source = [] \<or> length (the_str source) > 256
      then value_error ''termination evidence source must be bounded''
      else
        (case (int_or_none exit_code, int_or_none signal) of
           (Some code, Some number) \<Rightarrow>
             if scheduler_state \<noteq> JNull \<and> \<not> is_str scheduler_state
             then value_error ''termination scheduler state must be a string''
             else
               bindR (one_of_names result_evidence result_evidences
                 ''unsupported result evidence state'') (\<lambda>_.
               bindR (one_of_names telemetry_evidence telemetry_evidences
                 ''unsupported telemetry evidence state'') (\<lambda>_.
               if \<not> diagnostic_ok diagnostic
               then value_error ''termination diagnostic exceeds the safety limit''
               else Inr \<lparr>tn_phase = the_str phase, tn_outcome = the_str outcome,
                 tn_source = the_str source, tn_exit_code = code, tn_signal = number,
                 tn_scheduler_state = opt_text scheduler_state,
                 tn_result_evidence = the_str result_evidence,
                 tn_telemetry_evidence = the_str telemetry_evidence,
                 tn_diagnostic = opt_text diagnostic\<rparr>))
         | _ \<Rightarrow> value_error ''termination evidence must be an integer''))"

definition termination_fields :: "string list" where
  "termination_fields = [''phase'', ''outcome'', ''source'', ''exit_code'', ''signal'',
     ''scheduler_state'', ''result_evidence'', ''telemetry_evidence'', ''diagnostic'']"

text \<open>\<open>cls(**value)\<close>: a missing field without a default is a \<open>TypeError\<close>.\<close>

definition termination_from_dict :: "json dict \<Rightarrow> termination_evidence pyres" where
  "termination_from_dict d =
     (if has_unknown d termination_fields
      then value_error ''termination evidence contains unknown fields''
      else if list_ex (\<lambda>n. dict_get d n = None) [''phase'', ''outcome'', ''source'']
      then Inl PyTypeError
      else TerminationEvidence (jget d ''phase'') (jget d ''outcome'') (jget d ''source'')
        (jget d ''exit_code'') (jget d ''signal'') (jget d ''scheduler_state'')
        (jget_or d ''result_evidence'' (JStr ''complete''))
        (jget_or d ''telemetry_evidence'' (JStr ''unknown'')) (jget d ''diagnostic''))"

definition termination_to_dict :: "termination_evidence \<Rightarrow> json dict" where
  "termination_to_dict t =
     [(''phase'', JStr (tn_phase t)), (''outcome'', JStr (tn_outcome t)),
      (''source'', JStr (tn_source t)), (''exit_code'', opt_int (tn_exit_code t)),
      (''signal'', opt_int (tn_signal t)),
      (''scheduler_state'', opt_json JStr (tn_scheduler_state t)),
      (''result_evidence'', JStr (tn_result_evidence t)),
      (''telemetry_evidence'', JStr (tn_telemetry_evidence t)),
      (''diagnostic'', opt_json JStr (tn_diagnostic t))]"

definition termination_ok :: "termination_evidence \<Rightarrow> bool" where
  "termination_ok t \<longleftrightarrow> tn_phase t \<in> set phases \<and> tn_outcome t \<in> set outcomes \<and> tn_source t \<noteq> [] \<and>
     length (tn_source t) \<le> 256 \<and>
     tn_result_evidence t \<in> set result_evidences \<and>
     tn_telemetry_evidence t \<in> set telemetry_evidences \<and>
     (\<forall>s. tn_diagnostic t = Some s \<longrightarrow> length s \<le> 4096)"

lemma one_of_names_Inr: "one_of_names v names m = Inr u \<Longrightarrow> the_str v \<in> set names"
  by (simp add: one_of_names_def split: if_splits)

lemma diagnostic_text: "diagnostic_ok v \<Longrightarrow> opt_text v = Some s \<Longrightarrow> length s \<le> 4096"
  by (cases v) (auto simp: diagnostic_ok_def opt_text_def)

lemma TerminationEvidence_ok:
  assumes "TerminationEvidence p q s e g c r x y = Inr t"
  shows "termination_ok t"
proof -
  have "the_str r \<in> set result_evidences" "the_str x \<in> set telemetry_evidences" "diagnostic_ok y"
    using assms by (auto simp: TerminationEvidence_def bindR_Inr_iff dest: one_of_names_Inr
        split: if_splits option.splits)
  then show ?thesis
    using assms diagnostic_text [of y]
    by (auto simp: TerminationEvidence_def termination_ok_def bindR_Inr_iff split: if_splits option.splits)
qed

lemma termination_from_dict_ok: "termination_from_dict d = Inr t \<Longrightarrow> termination_ok t"
  by (auto simp: termination_from_dict_def dest: TerminationEvidence_ok split: if_splits)

lemma termination_to_dict_get:
  "dict_get (termination_to_dict t) ''phase'' = Some (JStr (tn_phase t))"
  "dict_get (termination_to_dict t) ''outcome'' = Some (JStr (tn_outcome t))"
  "dict_get (termination_to_dict t) ''source'' = Some (JStr (tn_source t))"
  "dict_get (termination_to_dict t) ''exit_code'' = Some (opt_int (tn_exit_code t))"
  "dict_get (termination_to_dict t) ''signal'' = Some (opt_int (tn_signal t))"
  "dict_get (termination_to_dict t) ''scheduler_state'' = Some (opt_json JStr (tn_scheduler_state t))"
  "dict_get (termination_to_dict t) ''result_evidence'' = Some (JStr (tn_result_evidence t))"
  "dict_get (termination_to_dict t) ''telemetry_evidence'' = Some (JStr (tn_telemetry_evidence t))"
  "dict_get (termination_to_dict t) ''diagnostic'' = Some (opt_json JStr (tn_diagnostic t))"
  "\<not> has_unknown (termination_to_dict t) termination_fields"
  by (simp_all add: termination_to_dict_def has_unknown_def termination_fields_def)

lemma opt_readings [simp]:
  "int_or_none (opt_int n) = Some n"
  "opt_text (opt_json JStr s) = s"
  "opt_json JStr s \<noteq> JNull \<and> \<not> is_str (opt_json JStr s) \<longleftrightarrow> False"
  "diagnostic_ok (opt_json JStr s) \<longleftrightarrow> (\<forall>x. s = Some x \<longrightarrow> length x \<le> 4096)"
  by (cases n; simp add: int_or_none_def opt_int_def)
    (cases s; simp add: opt_text_def diagnostic_ok_def)+

lemma termination_round_trip:
  assumes "termination_ok t"
  shows "termination_from_dict (termination_to_dict t) = Inr t"
proof -
  have "one_of_names (JStr (tn_result_evidence t)) result_evidences m = Inr ()"
    "one_of_names (JStr (tn_telemetry_evidence t)) telemetry_evidences m = Inr ()" for m
    using assms by (simp_all add: one_of_names_def termination_ok_def)
  then show ?thesis
    using assms by (simp add: termination_from_dict_def termination_to_dict_get jget_def jget_or_def
        TerminationEvidence_def termination_ok_def)
qed

section \<open>When nothing could be observed\<close>

definition unavailable_runtime_evidence :: "string \<Rightarrow> string \<Rightarrow> string \<Rightarrow> string option \<Rightarrow> group \<Rightarrow> group \<Rightarrow>
    string \<Rightarrow> runtime pyres" where
  "unavailable_runtime_evidence new_id now execution_id experiment_id allocation environment diagnostic =
     bindR (RuntimeEvidenceGroup (JStr ''unavailable'') (JStr ''runtime_collector'') (JObj [])
       (JStr diagnostic)) (\<lambda>unavailable.
     bindR (RuntimeEvidenceGroup (JStr ''unknown'') (JStr ''runtime_collector'') (JObj [])
       (JStr ''GPU telemetry was not established'')) (\<lambda>gpu.
     RuntimeEvidence (JStr new_id) (JStr execution_id) (opt_json JStr experiment_id) (JStr now)
       [unavailable, allocation, unavailable, unavailable, unavailable, gpu, environment] (JInt 1)))"

end
