(* ===== verification/ExecutionStore.thy ===== *)
theory ExecutionStore
  imports Outcomes RuntimeEvidence Scheduler Inventory
begin

text \<open>
  The repository of requests, plans, executions and outcomes (\<open>workload_storage.py\<close>, over the tables
  of \<open>storage.py\<close>). Every operation is one transaction: it returns the store it commits, or an error
  that leaves the store as it was. A table is the list of its rows; a JSON column holds the value
  itself. What the tables refuse, by a key, a reference or a check, is \<open>IntegrityError\<close>.
  New identities are arguments.
\<close>

section \<open>Tables\<close>

datatype store_error =
    ExecutionNotFound string
  | PlanNotFound string
  | WorkloadNotFound string
  | RequestNotFound string
  | StoreValueError string
  | IntegrityError

type_synonym 'a stored = "(store_error, 'a) res"

record attempt =
  at_id :: string
  at_plan :: string
  at_backend :: string
  at_state :: string
  at_created_at :: string
  at_updated_at :: string
  at_identity :: "string option"
  at_staging :: "string option"
  at_error :: "string option"

record event =
  ev_id :: string
  ev_execution :: string
  ev_occurred_at :: string
  ev_state :: string
  ev_details :: "json dict"

text \<open>
  The rows other repositories write and a plan refers to: the site of a snapshot, the selections
  (identity, workload, site) and the variants (identity, workload).
\<close>

record store =
  st_requests :: "request list"
  st_workloads :: "workload list"
  st_request_links :: "(string \<times> string) list"
  st_snapshots :: "inventory list"
  st_sites :: "string list"
  st_site_links :: "(string \<times> string) list"
  st_selections :: "(string \<times> string \<times> string) list"
  st_variants :: "(string \<times> string) list"
  st_plans :: "plan list"
  st_attempts :: "attempt list"
  st_events :: "event list"
  st_jobs :: "job list"
  st_allocations :: "allocation list"
  st_experiments :: "experiment_record list"
  st_artifacts :: "artifact list"
  st_lineage :: "lineage list"
  st_results :: "(string \<times> string) list"
  st_telemetry :: "telemetry list"
  st_verifications :: "verification list"
  st_runtime :: "(runtime \<times> termination_evidence) list"

definition find_row :: "('r \<Rightarrow> 'k) \<Rightarrow> 'k \<Rightarrow> 'r list \<Rightarrow> 'r option" where
  "find_row key k rows = find (\<lambda>r. key r = k) rows"

text \<open>\<open>INSERT\<close> into a table with a key, and with a check on the row.\<close>

definition insert_row :: "('r \<Rightarrow> 'k) \<Rightarrow> ('r \<Rightarrow> bool) \<Rightarrow> 'r \<Rightarrow> 'r list \<Rightarrow> 'r list stored" where
  "insert_row key ok r rows =
     (if key r \<in> key ` set rows \<or> \<not> ok r then Inl IntegrityError else Inr (rows @ [r]))"

fun insert_rows :: "('r \<Rightarrow> 'k) \<Rightarrow> ('r \<Rightarrow> bool) \<Rightarrow> 'r list \<Rightarrow> 'r list \<Rightarrow> 'r list stored" where
  "insert_rows key ok [] rows = Inr rows"
| "insert_rows key ok (r # rs) rows = bindR (insert_row key ok r rows) (insert_rows key ok rs)"

text \<open>\<open>UPDATE ... WHERE key = k\<close>, with the error the caller raises unless exactly one row matched.\<close>

definition update_row :: "('r \<Rightarrow> 'k) \<Rightarrow> 'k \<Rightarrow> ('r \<Rightarrow> 'r) \<Rightarrow> store_error \<Rightarrow> 'r list \<Rightarrow> 'r list stored" where
  "update_row key k f e rows =
     (if length (filter (\<lambda>r. key r = k) rows) \<noteq> 1 then Inl e
      else Inr (map (\<lambda>r. if key r = k then f r else r) rows))"

section \<open>Requests, workloads and plans\<close>

definition insert_request :: "request \<Rightarrow> store \<Rightarrow> store stored" where
  "insert_request r s =
     mapR (\<lambda>rows. s\<lparr>st_requests := rows\<rparr>)
       (insert_row rq_id (\<lambda>r. rq_version r \<in> {1, 2} \<and> so_kind (rq_source r) \<in> set source_kinds) r
          (st_requests s))"

definition insert_workload :: "workload \<Rightarrow> store \<Rightarrow> store stored" where
  "insert_workload w s =
     mapR (\<lambda>rows. s\<lparr>st_workloads := rows\<rparr>) (insert_row w_id (\<lambda>_. True) w (st_workloads s))"

definition compiled_from :: "request \<Rightarrow> workload \<Rightarrow> bool" where
  "compiled_from r w \<longleftrightarrow>
     workload_argv w = rq_command r \<and> w_working_directory w = rq_resolved_working_directory r \<and>
     w_inputs w = rq_inputs r \<and> w_outputs w = rq_outputs r \<and> w_resources w = rq_resources r \<and>
     w_constraints w = rq_execution r \<and> w_parent w = rq_resolved_parent r"

text \<open>The link's request and workload are both keys of their columns.\<close>

definition save_request_with_workload :: "request \<Rightarrow> workload \<Rightarrow> store \<Rightarrow> store stored" where
  "save_request_with_workload r w s =
     (if rq_requested_parent r \<noteq> None \<and> rq_resolved_parent r = None
      then Inl (StoreValueError ''linked request parent reference must be resolved'')
      else if \<not> compiled_from r w
      then Inl (StoreValueError ''workload does not match its execution request'')
      else
        bindR (insert_request r s) (\<lambda>s.
        bindR (insert_workload w s) (\<lambda>s.
        mapR (\<lambda>rows. s\<lparr>st_request_links := rows\<rparr>)
          (insert_row fst (\<lambda>l. snd l \<notin> snd ` set (st_request_links s)) (rq_id r, w_id w)
            (st_request_links s)))))"

definition get_request :: "string \<Rightarrow> store \<Rightarrow> request stored" where
  "get_request k s =
     (case find_row rq_id k (st_requests s) of None \<Rightarrow> Inl (RequestNotFound k) | Some r \<Rightarrow> Inr r)"

definition get_workload :: "string \<Rightarrow> store \<Rightarrow> workload stored" where
  "get_workload k s =
     (case find_row w_id k (st_workloads s) of None \<Rightarrow> Inl (WorkloadNotFound k) | Some w \<Rightarrow> Inr w)"

definition get_plan :: "string \<Rightarrow> store \<Rightarrow> plan stored" where
  "get_plan k s =
     (case find_row pl_id k (st_plans s) of None \<Rightarrow> Inl (PlanNotFound k) | Some p \<Rightarrow> Inr p)"

definition request_for_workload :: "string \<Rightarrow> store \<Rightarrow> request option" where
  "request_for_workload k s =
     Option.bind (find_row snd k (st_request_links s)) (\<lambda>l. find_row rq_id (fst l) (st_requests s))"

definition workload_for_request :: "string \<Rightarrow> store \<Rightarrow> workload option" where
  "workload_for_request k s =
     Option.bind (find_row fst k (st_request_links s)) (\<lambda>l. find_row w_id (snd l) (st_workloads s))"

definition request_for_execution :: "string \<Rightarrow> store \<Rightarrow> request option" where
  "request_for_execution k s =
     Option.bind (find_row at_id k (st_attempts s)) (\<lambda>a.
     Option.bind (find_row pl_id (at_plan a) (st_plans s)) (\<lambda>p.
     request_for_workload (pl_workload_id p) s))"

definition check_selection :: "plan \<Rightarrow> (string \<times> string \<times> string) option \<Rightarrow> store \<Rightarrow> unit stored" where
  "check_selection p selection s =
     (case pl_variant_id p of
        Some v \<Rightarrow>
          (case find_row fst v (st_variants s) of
             None \<Rightarrow> Inl (StoreValueError ''plan workload variant does not exist'')
           | Some (_, w) \<Rightarrow>
               raise_if (case selection of None \<Rightarrow> True | Some (_, w', _) \<Rightarrow> w' \<noteq> w)
                 (StoreValueError ''plan selection/variant lineage does not match''))
      | None \<Rightarrow>
          raise_if (case selection of None \<Rightarrow> False | Some (_, w', _) \<Rightarrow> w' \<noteq> pl_workload_id p)
            (StoreValueError ''plan selection summary does not match workload''))"

definition check_plan_site :: "plan \<Rightarrow> store \<Rightarrow> unit stored" where
  "check_plan_site p s =
     (case pl_site_id p of
        None \<Rightarrow>
          raise_if (pl_selection_id p \<noteq> None \<or> pl_variant_id p \<noteq> None)
            (StoreValueError ''site planning records require a plan site'')
      | Some site \<Rightarrow>
          if site \<notin> set (st_sites s) then Inl (StoreValueError ''execution plan site does not exist'')
          else if map_option snd (find_row fst (pl_inventory_id p) (st_site_links s)) \<noteq> Some site
          then Inl (StoreValueError ''execution plan inventory must belong to its site'')
          else
            (case pl_selection_id p of
               None \<Rightarrow> check_selection p None s
             | Some k \<Rightarrow>
                 (case find_row fst k (st_selections s) of
                    Some (i, w, site') \<Rightarrow>
                      if site' \<noteq> site
                      then Inl (StoreValueError ''plan selection summary does not match site'')
                      else check_selection p (Some (i, w, site')) s
                  | None \<Rightarrow> Inl (StoreValueError ''plan selection summary does not match site''))))"

definition check_plan_inventory :: "plan \<Rightarrow> inventory \<Rightarrow> unit stored" where
  "check_plan_inventory p i =
     (if list_ex (\<lambda>t. t \<notin> t_id ` set (i_targets i))
           (pl_access p # (case pl_target p of None \<Rightarrow> [] | Some t \<Rightarrow> [t]))
      then Inl (StoreValueError ''execution plan targets must belong to its snapshot'')
      else if (case pl_context p of None \<Rightarrow> False | Some c \<Rightarrow> c \<notin> k_id ` set (i_contexts i))
      then Inl (StoreValueError ''execution plan context must belong to its snapshot'')
      else
        (case pl_scheduler p of
           Some c \<Rightarrow>
             raise_if (map_option sc_family (find_row sc_id c (i_schedulers i)) \<noteq> Some (pl_backend p))
               (StoreValueError ''execution plan scheduler must match its backend'')
         | None \<Rightarrow>
             raise_if (pl_backend p \<noteq> ''direct'')
               (StoreValueError ''scheduled execution plans require a scheduler'')))"

definition save_plan :: "plan \<Rightarrow> store \<Rightarrow> store stored" where
  "save_plan p s =
     bindR (get_workload (pl_workload_id p) s) (\<lambda>_.
     case find_row i_id (pl_inventory_id p) (st_snapshots s) of
       None \<Rightarrow> Inl (StoreValueError ''execution plan inventory snapshot does not exist'')
     | Some i \<Rightarrow>
         bindR (check_plan_inventory p i) (\<lambda>_.
         bindR (check_plan_site p s) (\<lambda>_.
         mapR (\<lambda>rows. s\<lparr>st_plans := rows\<rparr>)
           (insert_row pl_id (\<lambda>p. pl_backend p \<in> set backends \<and> pl_state p \<in> set compatibility_states)
             p (st_plans s)))))"

section \<open>Executions and events\<close>

definition insert_event :: "event \<Rightarrow> store \<Rightarrow> store stored" where
  "insert_event e s =
     mapR (\<lambda>rows. s\<lparr>st_events := rows\<rparr>)
       (insert_row ev_id (\<lambda>e. ev_execution e \<in> at_id ` set (st_attempts s)) e (st_events s))"

definition new_event :: "string \<Rightarrow> string \<Rightarrow> string \<Rightarrow> string \<Rightarrow> json dict \<Rightarrow> event" where
  "new_event new_id execution_id occurred_at state details =
     \<lparr>ev_id = new_id, ev_execution = execution_id, ev_occurred_at = occurred_at, ev_state = state,
      ev_details = details\<rparr>"

definition create_execution :: "string \<Rightarrow> attempt \<Rightarrow> store \<Rightarrow> store stored" where
  "create_execution new_id a s =
     bindR (get_plan (at_plan a) s) (\<lambda>p.
     if pl_backend p \<noteq> at_backend a
     then Inl (StoreValueError ''execution backend must match its immutable plan'')
     else
       bindR (insert_row at_id (\<lambda>a. at_backend a \<in> set backends) a (st_attempts s)) (\<lambda>rows.
       insert_event (new_event new_id (at_id a) (at_created_at a) (at_state a)
           [(''backend'', JStr (at_backend a))])
         (s\<lparr>st_attempts := rows\<rparr>)))"

definition get_execution :: "string \<Rightarrow> store \<Rightarrow> attempt stored" where
  "get_execution k s =
     (case find_row at_id k (st_attempts s) of None \<Rightarrow> Inl (ExecutionNotFound k) | Some a \<Rightarrow> Inr a)"

text \<open>\<open>ORDER BY created_at DESC, id DESC LIMIT 1\<close>\<close>

definition more_recent :: "attempt \<Rightarrow> attempt \<Rightarrow> bool" where
  "more_recent a b \<longleftrightarrow> str_less (at_created_at b) (at_created_at a) \<or>
     at_created_at a = at_created_at b \<and> str_less (at_id b) (at_id a)"

definition latest_execution_for_plan :: "string \<Rightarrow> store \<Rightarrow> attempt option" where
  "latest_execution_for_plan plan_id s =
     (case sort_by more_recent (filter (\<lambda>a. at_plan a = plan_id) (st_attempts s)) of
        [] \<Rightarrow> None | a # _ \<Rightarrow> Some a)"

definition set_staging_directory :: "string \<Rightarrow> string \<Rightarrow> string \<Rightarrow> store \<Rightarrow> store stored" where
  "set_staging_directory k path observed_at s =
     mapR (\<lambda>rows. s\<lparr>st_attempts := rows\<rparr>)
       (update_row at_id k (\<lambda>a. a\<lparr>at_staging := Some path, at_updated_at := observed_at\<rparr>)
         (ExecutionNotFound k) (st_attempts s))"

definition set_state :: "string \<Rightarrow> string \<Rightarrow> string option \<Rightarrow> attempt \<Rightarrow> attempt" where
  "set_state state occurred_at error a =
     a\<lparr>at_state := state, at_updated_at := occurred_at, at_error := error\<rparr>"

definition update_execution_state :: "string \<Rightarrow> string \<Rightarrow> string \<Rightarrow> string \<Rightarrow> json dict \<Rightarrow>
    string option \<Rightarrow> store \<Rightarrow> store stored" where
  "update_execution_state new_id k state occurred_at details error s =
     bindR (update_row at_id k (set_state state occurred_at error) (ExecutionNotFound k)
       (st_attempts s)) (\<lambda>rows.
     insert_event (new_event new_id k occurred_at state details) (s\<lparr>st_attempts := rows\<rparr>))"

definition record_execution_event :: "string \<Rightarrow> string \<Rightarrow> string \<Rightarrow> string \<Rightarrow> json dict \<Rightarrow>
    store \<Rightarrow> store stored" where
  "record_execution_event new_id k state occurred_at details s =
     bindR (get_execution k s) (\<lambda>_.
     insert_event (new_event new_id k occurred_at state details) s)"

section \<open>Scheduler jobs\<close>

definition save_scheduler_job :: "job \<Rightarrow> store \<Rightarrow> store stored" where
  "save_scheduler_job j s =
     bindR (get_execution (j_execution j) s) (\<lambda>a.
     if at_backend a \<noteq> j_family j
     then Inl (StoreValueError ''scheduler job family must match the execution backend'')
     else mapR (\<lambda>rows. s\<lparr>st_jobs := rows\<rparr>)
       (insert_row j_execution (\<lambda>j. j_family j \<in> {''slurm'', ''pbs'', ''lsf''} \<and>
            (j_family j, j_job_id j) \<notin> (\<lambda>x. (j_family x, j_job_id x)) ` set (st_jobs s))
          j (st_jobs s)))"

definition get_scheduler_job :: "string \<Rightarrow> store \<Rightarrow> job option" where
  "get_scheduler_job k s = find_row j_execution k (st_jobs s)"

definition update_scheduler_job :: "string \<Rightarrow> string \<Rightarrow> string \<Rightarrow> store \<Rightarrow> store stored" where
  "update_scheduler_job k state observed_at s =
     mapR (\<lambda>rows. s\<lparr>st_jobs := rows\<rparr>)
       (update_row j_execution k (\<lambda>j. j\<lparr>j_state := state, j_observed_at := observed_at\<rparr>)
         (ExecutionNotFound k) (st_jobs s))"

definition experiment_id :: "string \<Rightarrow> store \<Rightarrow> string option" where
  "experiment_id k s = map_option snd (find_row fst k (st_results s))"

text \<open>\<open>ORDER BY occurred_at, id\<close>, for an execution that exists.\<close>

definition event_before :: "event \<Rightarrow> event \<Rightarrow> bool" where
  "event_before a b \<longleftrightarrow> str_less (ev_occurred_at a) (ev_occurred_at b) \<or>
     ev_occurred_at a = ev_occurred_at b \<and> str_less (ev_id a) (ev_id b)"

definition events_of :: "string \<Rightarrow> store \<Rightarrow> event list stored" where
  "events_of k s =
     mapR (\<lambda>_. sort_by event_before (filter (\<lambda>e. ev_execution e = k) (st_events s)))
       (get_execution k s)"

definition allocations_of :: "string \<Rightarrow> store \<Rightarrow> allocation list stored" where
  "allocations_of k s =
     mapR (\<lambda>_. sort_by (\<lambda>a b. str_less (al_observed_at a) (al_observed_at b) \<or>
         al_observed_at a = al_observed_at b \<and> str_less (al_id a) (al_id b))
       (filter (\<lambda>a. al_execution_id a = k) (st_allocations s))) (get_execution k s)"

section \<open>Importing results\<close>

definition insert_allocation :: "allocation \<Rightarrow> store \<Rightarrow> store stored" where
  "insert_allocation a s =
     mapR (\<lambda>rows. s\<lparr>st_allocations := rows\<rparr>)
       (insert_row al_id (\<lambda>a. al_execution_id a \<in> at_id ` set (st_attempts s)) a (st_allocations s))"

definition import_allocation :: "string \<Rightarrow> allocation option \<Rightarrow> store \<Rightarrow> store stored" where
  "import_allocation k allocation s =
     (case allocation of
        None \<Rightarrow> Inr s
      | Some a \<Rightarrow>
          if al_execution_id a \<noteq> k
          then Inl (StoreValueError ''allocation execution ID must match the import'')
          else insert_allocation a s)"

text \<open>The checks of the artifact table, with its column constraints.\<close>

definition artifact_row_ok :: "artifact \<Rightarrow> bool" where
  "artifact_row_ok a \<longleftrightarrow> ar_role a \<noteq> [] \<and>
     (ar_existence a = ''present'' \<and>
        ar_capture a \<in> {''complete'', ''unreadable'', ''unsupported'', ''changed''} \<or>
      ar_existence a = ''missing'' \<and> ar_capture a = ''complete'' \<or>
      ar_existence a = ''unknown'' \<and> ar_capture a = ''unreadable'') \<and>
     (ar_sha256 a \<noteq> None \<longleftrightarrow> ar_existence a = ''present'' \<and> ar_capture a = ''complete'') \<and>
     (if ar_existence a = ''present'' then ar_size_bytes a \<noteq> None \<and> ar_modified_at a \<noteq> None
      else ar_size_bytes a = None \<and> ar_modified_at a = None) \<and>
     (case ar_size_bytes a of None \<Rightarrow> True | Some n \<Rightarrow> n \<ge> 0)"

text \<open>A duration is a number that is not negative; not a number is stored as null and refused.\<close>

definition duration_ok :: "json \<Rightarrow> bool" where
  "duration_ok v =
     (case v of
        JInt i \<Rightarrow> i \<ge> 0
      | JFloat f \<Rightarrow> (case f of Finite q \<Rightarrow> q \<ge> 0 | Infinite negative \<Rightarrow> \<not> negative | NaN \<Rightarrow> False)
      | _ \<Rightarrow> False)"

definition experiment_row_ok :: "experiment_record \<Rightarrow> bool" where
  "experiment_row_ok e \<longleftrightarrow> ex_status e \<in> {''completed'', ''failed'', ''interrupted''} \<and>
     duration_ok (ex_duration e)"

definition insert_experiment_record :: "experiment_record \<Rightarrow> artifact list \<Rightarrow> lineage list \<Rightarrow> store \<Rightarrow>
    store stored" where
  "insert_experiment_record e artifacts edges s =
     (if list_ex (\<lambda>a. ar_experiment_id a \<noteq> ex_id e) artifacts
      then Inl (StoreValueError ''artifact experiment IDs must match the saved experiment'')
      else if list_ex (\<lambda>l. li_child l \<noteq> ex_id e) edges
      then Inl (StoreValueError ''lineage child IDs must match the saved experiment'')
      else
        bindR (insert_row ex_id experiment_row_ok e (st_experiments s)) (\<lambda>experiments.
        bindR (insert_rows ar_id artifact_row_ok artifacts (st_artifacts s)) (\<lambda>artifacts.
        bindR (insert_rows (\<lambda>l. (li_child l, li_relationship l))
            (\<lambda>l. li_parent l \<in> ex_id ` set experiments \<and> li_relationship l \<noteq> [] \<and>
               li_child l \<noteq> li_parent l) edges (st_lineage s)) (\<lambda>edges.
        Inr (s\<lparr>st_experiments := experiments, st_artifacts := artifacts, st_lineage := edges\<rparr>)))))"

definition linked_request :: "string \<Rightarrow> store \<Rightarrow> string option" where
  "linked_request k s =
     Option.bind (find_row at_id k (st_attempts s)) (\<lambda>a.
     Option.bind (find_row pl_id (at_plan a) (st_plans s)) (\<lambda>p.
     map_option fst (find_row snd (pl_workload_id p) (st_request_links s))))"

definition all_checks :: "store \<Rightarrow> check_result list" where
  "all_checks s = concat (map vr_checks (st_verifications s))"

definition insert_verification :: "verification \<Rightarrow> store \<Rightarrow> store stored" where
  "insert_verification v s =
     (if vr_execution_id v \<in> vr_execution_id ` set (st_verifications s) \<or>
         \<not> distinct (map cx_id (all_checks s @ vr_checks v)) \<or>
         \<not> distinct (map cx_ordinal (vr_checks v)) \<or>
         list_ex (\<lambda>c. cx_run_id c \<noteq> vr_id v \<or> cx_ordinal c < 0 \<or> cx_type c \<notin> set check_types \<or>
           cx_state c \<notin> set check_result_states) (vr_checks v)
      then Inl IntegrityError
      else mapR (\<lambda>rows. s\<lparr>st_verifications := rows\<rparr>)
        (insert_row vr_id (\<lambda>v. vr_experiment_id v \<in> ex_id ` set (st_experiments s) \<and>
            vr_aggregate v \<in> {''passed'', ''failed'', ''unknown'', ''not_requested''}) v
          (st_verifications s)))"

definition insert_telemetry :: "telemetry \<Rightarrow> store \<Rightarrow> store stored" where
  "insert_telemetry t s =
     (if tm_execution_id t \<in> tm_execution_id ` set (st_telemetry s) then Inl IntegrityError
      else mapR (\<lambda>rows. s\<lparr>st_telemetry := rows\<rparr>)
        (insert_row tm_id (\<lambda>t. tm_experiment_id t \<in> ex_id ` set (st_experiments s) \<and>
            tm_state t \<in> set telemetry_states) t (st_telemetry s)))"

definition insert_outcomes :: "string \<Rightarrow> string \<Rightarrow> telemetry option \<Rightarrow> verification option \<Rightarrow>
    store \<Rightarrow> store stored" where
  "insert_outcomes k experiment telemetry verification s =
     (if telemetry = None \<and> verification = None then Inr s
      else
        (case linked_request k s of
           None \<Rightarrow> Inl (StoreValueError ''execution outcomes require a linked execution request'')
         | Some request_id \<Rightarrow>
             bindR (case telemetry of
                 None \<Rightarrow> Inr s
               | Some t \<Rightarrow>
                   if tm_request_id t \<noteq> request_id \<or> tm_execution_id t \<noteq> k \<or> tm_experiment_id t \<noteq> experiment
                   then Inl (StoreValueError ''telemetry relationships do not match the imported result'')
                   else insert_telemetry t s) (\<lambda>s.
             case verification of
               None \<Rightarrow> Inr s
             | Some v \<Rightarrow>
                 if vr_request_id v \<noteq> request_id \<or> vr_execution_id v \<noteq> k \<or> vr_experiment_id v \<noteq> experiment
                 then Inl (StoreValueError ''verification relationships do not match the imported result'')
                 else insert_verification v s)))"

definition insert_runtime_evidence :: "string \<Rightarrow> string option \<Rightarrow> runtime option \<Rightarrow>
    termination_evidence option \<Rightarrow> store \<Rightarrow> store stored" where
  "insert_runtime_evidence k experiment evidence termination s =
     (case (evidence, termination) of
        (None, None) \<Rightarrow> Inr s
      | (Some r, Some t) \<Rightarrow>
          if rt_execution r \<noteq> k \<or> rt_experiment r \<noteq> experiment
          then Inl (StoreValueError ''runtime evidence relationships do not match the imported result'')
          else if k \<in> rt_execution ` fst ` set (st_runtime s) then Inl IntegrityError
          else mapR (\<lambda>rows. s\<lparr>st_runtime := rows\<rparr>)
            (insert_row (rt_id \<circ> fst) (\<lambda>r. py_eq (rt_schema_version (fst r)) (JInt 1)) (r, t)
              (st_runtime s))
      | _ \<Rightarrow> Inl (StoreValueError ''runtime and termination evidence must be imported together''))"

definition insert_result :: "string \<Rightarrow> string \<Rightarrow> store \<Rightarrow> store stored" where
  "insert_result k experiment s =
     mapR (\<lambda>rows. s\<lparr>st_results := rows\<rparr>)
       (insert_row fst (\<lambda>l. snd l \<notin> snd ` set (st_results s)) (k, experiment) (st_results s))"

text \<open>The final update is not checked: the execution was found at the start of the transaction.\<close>

definition finish_execution :: "string \<Rightarrow> string \<Rightarrow> string \<Rightarrow> string \<Rightarrow> json dict \<Rightarrow> string option \<Rightarrow>
    store \<Rightarrow> store stored" where
  "finish_execution new_id k state occurred_at details error s =
     insert_event (new_event new_id k occurred_at state details)
       (s\<lparr>st_attempts :=
          map (\<lambda>a. if at_id a = k then set_state state occurred_at error a else a) (st_attempts s)\<rparr>)"

definition import_experiment_result :: "string \<Rightarrow> string \<Rightarrow> experiment_record \<Rightarrow> artifact list \<Rightarrow>
    lineage list \<Rightarrow> allocation option \<Rightarrow> string \<Rightarrow> string \<Rightarrow> json dict \<Rightarrow> telemetry option \<Rightarrow>
    verification option \<Rightarrow> runtime option \<Rightarrow> termination_evidence option \<Rightarrow> store \<Rightarrow> store stored" where
  "import_experiment_result new_id k e artifacts edges allocation state occurred_at details
      telemetry verification evidence termination s =
     bindR (get_execution k s) (\<lambda>_.
     bindR (insert_experiment_record e artifacts edges s) (\<lambda>s.
     bindR (insert_result k (ex_id e) s) (\<lambda>s.
     bindR (import_allocation k allocation s) (\<lambda>s.
     bindR (insert_outcomes k (ex_id e) telemetry verification s) (\<lambda>s.
     bindR (insert_runtime_evidence k (Some (ex_id e)) evidence termination s) (\<lambda>s.
     finish_execution new_id k state occurred_at details None s))))))"

definition import_worker_failure :: "string \<Rightarrow> string \<Rightarrow> allocation option \<Rightarrow> string \<Rightarrow> string \<Rightarrow>
    json dict \<Rightarrow> string option \<Rightarrow> runtime option \<Rightarrow> termination_evidence option \<Rightarrow> store \<Rightarrow>
    store stored" where
  "import_worker_failure new_id k allocation state occurred_at details error evidence termination s =
     bindR (get_execution k s) (\<lambda>_.
     bindR (import_allocation k allocation s) (\<lambda>s.
     bindR (insert_runtime_evidence k None evidence termination s) (\<lambda>s.
     finish_execution new_id k state occurred_at details error s)))"

section \<open>Reading outcomes\<close>

definition telemetry_of :: "string \<Rightarrow> store \<Rightarrow> telemetry option" where
  "telemetry_of k s = find_row tm_execution_id k (st_telemetry s)"

text \<open>The checks are read back in the order of their ordinals.\<close>

definition verification_of :: "string \<Rightarrow> store \<Rightarrow> verification option" where
  "verification_of k s =
     map_option (\<lambda>v. v\<lparr>vr_checks := sort_by (\<lambda>a b. cx_ordinal a < cx_ordinal b) (vr_checks v)\<rparr>)
       (find_row vr_execution_id k (st_verifications s))"

definition runtime_evidence_of :: "string \<Rightarrow> store \<Rightarrow> (runtime \<times> termination_evidence) option" where
  "runtime_evidence_of k s = find_row (rt_execution \<circ> fst) k (st_runtime s)"

end
