(* ===== verification/StoreProperties.thy ===== *)
theory StoreProperties
  imports ExecutionStore SamplePlans
begin

text \<open>
  Properties of the repository: what a keyed table promises, the invariant of the store, and what
  no operation ever takes back.
\<close>

named_theorems preserved \<open>every operation keeps the invariant and takes nothing back\<close>

section \<open>Keyed tables\<close>

lemma find_row_Some: "find_row key k rows = Some r \<Longrightarrow> r \<in> set rows \<and> key r = k"
  by (induction rows) (auto simp: find_row_def split: if_splits)

lemma find_row_None: "find_row key k rows = None \<longleftrightarrow> k \<notin> key ` set rows"
  by (induction rows) (auto simp: find_row_def)

lemma find_row_member: "distinct (map key rows) \<Longrightarrow> r \<in> set rows \<Longrightarrow> find_row key (key r) rows = Some r"
  by (induction rows) (auto simp: find_row_def image_iff)

lemma insert_row_Inr:
  "insert_row key ok r rows = Inr rows' \<longleftrightarrow> key r \<notin> key ` set rows \<and> ok r \<and> rows' = rows @ [r]"
  by (auto simp: insert_row_def)

lemma insert_rows_Inr:
  "insert_rows key ok rs rows = Inr rows' \<Longrightarrow>
   rows' = rows @ rs \<and> (distinct (map key rows) \<longrightarrow> distinct (map key rows')) \<and> list_all ok rs"
  by (induction rs arbitrary: rows) (fastforce simp: bindR_Inr_iff insert_row_Inr)+

lemma update_row_Inr:
  "update_row key k f e rows = Inr rows' \<longleftrightarrow>
     length (filter (\<lambda>r. key r = k) rows) = 1 \<and> rows' = map (\<lambda>r. if key r = k then f r else r) rows"
  by (auto simp: update_row_def)

lemma update_row_present: "update_row key k f e rows = Inr rows' \<Longrightarrow> k \<in> key ` set rows"
  by (cases "filter (\<lambda>r. key r = k) rows") (auto simp: update_row_Inr filter_eq_Cons_iff)

lemma map_key_update: "(\<And>r. key (f r) = key r) \<Longrightarrow> map key (map (\<lambda>r. if key r = k then f r else r) rows) = map key rows"
  by (induction rows) auto

text \<open>
  A table of the store with a key. \<open>get\<close> and \<open>put\<close> are the column's selector and update.
\<close>

locale keyed_table =
  fixes key :: "'r \<Rightarrow> 'k" and get :: "'s \<Rightarrow> 'r list" and put :: "'r list \<Rightarrow> 's \<Rightarrow> 's"
  assumes get_put: "get (put rows s) = rows"
begin

lemma inserted:
  assumes "mapR (\<lambda>rows. put rows s) (insert_row key ok r (get s)) = Inr s'"
  shows "get s' = get s @ [r]" and "find_row key (key r) (get s') = Some r"
    and "k \<noteq> key r \<Longrightarrow> find_row key k (get s') = find_row key k (get s)"
    and "distinct (map key (get s)) \<Longrightarrow> distinct (map key (get s'))"
    and "insert_row key ok' r (get s') = Inl IntegrityError"
proof -
  have r: "key r \<notin> key ` set (get s)" and g: "get s' = get s @ [r]"
    using assms by (auto simp: mapR_Inr_iff insert_row_Inr get_put)
  show "get s' = get s @ [r]" by (rule g)
  have find: "find_row key k (xs @ [r]) = (case find_row key k xs of None \<Rightarrow> if key r = k then Some r else None
      | Some x \<Rightarrow> Some x)" for k and xs
    by (induction xs) (auto simp: find_row_def)
  have "find_row key (key r) (get s) = None" using r by (simp add: find_row_None)
  then show "find_row key (key r) (get s') = Some r" by (simp add: g find)
  show "k \<noteq> key r \<Longrightarrow> find_row key k (get s') = find_row key k (get s)"
    by (simp add: g find split: option.split)
  show "distinct (map key (get s)) \<Longrightarrow> distinct (map key (get s'))" using r by (simp add: g)
  show "insert_row key ok' r (get s') = Inl IntegrityError" by (simp add: g insert_row_def)
qed

lemma updated:
  assumes "mapR (\<lambda>rows. put rows s) (update_row key k f e (get s)) = Inr s'"
    and "\<And>r. key (f r) = key r"
  shows "map key (get s') = map key (get s)"
    and "find_row key k (get s') = map_option f (find_row key k (get s))"
    and "find_row key k (get s) \<noteq> None"
    and "k' \<noteq> k \<Longrightarrow> find_row key k' (get s') = find_row key k' (get s)"
proof -
  have g: "get s' = map (\<lambda>r. if key r = k then f r else r) (get s)"
    and "update_row key k f e (get s) = Inr (get s')"
    using assms(1) by (auto simp: mapR_Inr_iff update_row_Inr get_put)
  then show "find_row key k (get s) \<noteq> None" by (simp add: find_row_None update_row_present)
  show "map key (get s') = map key (get s)" unfolding g by (rule map_key_update) (rule assms(2))
  have *: "find_row key k (map (\<lambda>r. if key r = k then f r else r) xs) = map_option f (find_row key k xs)" for xs
    by (induction xs) (auto simp: find_row_def assms(2))
  then show "find_row key k (get s') = map_option f (find_row key k (get s))" by (simp add: g)
  have "k' \<noteq> k \<Longrightarrow> find_row key k' (map (\<lambda>r. if key r = k then f r else r) xs) = find_row key k' xs" for xs
    by (induction xs) (auto simp: find_row_def assms(2))
  then show "k' \<noteq> k \<Longrightarrow> find_row key k' (get s') = find_row key k' (get s)" by (simp add: g)
qed

end

interpretation attempts: keyed_table at_id st_attempts "\<lambda>rows s. s\<lparr>st_attempts := rows\<rparr>"
  by unfold_locales simp

interpretation events: keyed_table ev_id st_events "\<lambda>rows s. s\<lparr>st_events := rows\<rparr>"
  by unfold_locales simp

interpretation jobs: keyed_table j_execution st_jobs "\<lambda>rows s. s\<lparr>st_jobs := rows\<rparr>"
  by unfold_locales simp

interpretation plans: keyed_table pl_id st_plans "\<lambda>rows s. s\<lparr>st_plans := rows\<rparr>"
  by unfold_locales simp

interpretation results: keyed_table fst st_results "\<lambda>rows s. s\<lparr>st_results := rows\<rparr>"
  by unfold_locales simp

interpretation allocations: keyed_table al_id st_allocations "\<lambda>rows s. s\<lparr>st_allocations := rows\<rparr>"
  by unfold_locales simp

section \<open>The invariant\<close>

definition keys_ok :: "store \<Rightarrow> bool" where
  "keys_ok s \<longleftrightarrow> distinct (map pl_id (st_plans s)) \<and> distinct (map at_id (st_attempts s)) \<and>
     distinct (map ev_id (st_events s)) \<and> distinct (map ex_id (st_experiments s))"

text \<open>Every event belongs to an execution, and the state of an execution is that of one of its events.\<close>

definition evidenced :: "store \<Rightarrow> bool" where
  "evidenced s \<longleftrightarrow>
     (\<forall>e \<in> set (st_events s). ev_execution e \<in> at_id ` set (st_attempts s)) \<and>
     (\<forall>a \<in> set (st_attempts s). \<exists>e \<in> set (st_events s). ev_execution e = at_id a \<and> ev_state e = at_state a)"

text \<open>Every execution runs on the backend of its plan.\<close>

definition planned :: "store \<Rightarrow> bool" where
  "planned s \<longleftrightarrow> (\<forall>a \<in> set (st_attempts s). \<exists>p \<in> set (st_plans s). pl_id p = at_plan a \<and>
     pl_backend p = at_backend a)"

text \<open>An execution has at most one job, of its own backend, and no two executions share one.\<close>

definition jobs_ok :: "store \<Rightarrow> bool" where
  "jobs_ok s \<longleftrightarrow> distinct (map j_execution (st_jobs s)) \<and>
     distinct (map (\<lambda>j. (j_family j, j_job_id j)) (st_jobs s)) \<and>
     (\<forall>j \<in> set (st_jobs s). \<exists>a \<in> set (st_attempts s). at_id a = j_execution j \<and> at_backend a = j_family j)"

text \<open>
  An execution has at most one experiment and no two executions share one; what is stored of
  verification and telemetry is about an execution and its own experiment.
\<close>

definition results_ok :: "store \<Rightarrow> bool" where
  "results_ok s \<longleftrightarrow> distinct (map fst (st_results s)) \<and> distinct (map snd (st_results s)) \<and>
     (\<forall>(k, x) \<in> set (st_results s). k \<in> at_id ` set (st_attempts s) \<and> x \<in> ex_id ` set (st_experiments s)) \<and>
     (\<forall>v \<in> set (st_verifications s). (vr_execution_id v, vr_experiment_id v) \<in> set (st_results s)) \<and>
     (\<forall>t \<in> set (st_telemetry s). (tm_execution_id t, tm_experiment_id t) \<in> set (st_results s)) \<and>
     distinct (map vr_execution_id (st_verifications s)) \<and>
     distinct (map tm_execution_id (st_telemetry s)) \<and>
     distinct (map (rt_execution \<circ> fst) (st_runtime s))"

definition store_ok :: "store \<Rightarrow> bool" where
  "store_ok s \<longleftrightarrow> keys_ok s \<and> evidenced s \<and> planned s \<and> jobs_ok s \<and> results_ok s"

section \<open>What is never taken back\<close>

definition same_job :: "job \<Rightarrow> job \<Rightarrow> bool" where
  "same_job i j \<longleftrightarrow> j_execution i = j_execution j \<and> j_family i = j_family j \<and> j_job_id i = j_job_id j \<and>
     j_identity i = j_identity j \<and> j_submitted_at i = j_submitted_at j"

definition same_attempt :: "attempt \<Rightarrow> attempt \<Rightarrow> bool" where
  "same_attempt a b \<longleftrightarrow> at_id a = at_id b \<and> at_plan a = at_plan b \<and> at_backend a = at_backend b \<and>
     at_created_at a = at_created_at b \<and> at_identity a = at_identity b"

definition keeps :: "('r \<Rightarrow> 'r \<Rightarrow> bool) \<Rightarrow> 'r list \<Rightarrow> 'r list \<Rightarrow> bool" where
  "keeps same xs ys \<longleftrightarrow> list_all2 same xs (take (length xs) ys)"

definition grows :: "store \<Rightarrow> store \<Rightarrow> bool" where
  "grows s s' \<longleftrightarrow>
     keeps (=) (st_requests s) (st_requests s') \<and> keeps (=) (st_workloads s) (st_workloads s') \<and>
     keeps (=) (st_request_links s) (st_request_links s') \<and> keeps (=) (st_plans s) (st_plans s') \<and>
     keeps same_attempt (st_attempts s) (st_attempts s') \<and> keeps (=) (st_events s) (st_events s') \<and>
     keeps same_job (st_jobs s) (st_jobs s') \<and> keeps (=) (st_allocations s) (st_allocations s') \<and>
     keeps (=) (st_experiments s) (st_experiments s') \<and> keeps (=) (st_artifacts s) (st_artifacts s') \<and>
     keeps (=) (st_results s) (st_results s') \<and>
     keeps (=) (st_verifications s) (st_verifications s') \<and>
     keeps (=) (st_telemetry s) (st_telemetry s') \<and> keeps (=) (st_runtime s) (st_runtime s')"

lemma same_refl [simp, intro]: "same_job j j" "same_attempt a a"
  by (simp_all add: same_job_def same_attempt_def)

lemma keeps_iff: "keeps same xs ys \<longleftrightarrow> (\<exists>us zs. ys = us @ zs \<and> list_all2 same xs us)"
proof
  assume "\<exists>us zs. ys = us @ zs \<and> list_all2 same xs us"
  then obtain us zs where "ys = us @ zs" "list_all2 same xs us" by blast
  moreover then have "take (length xs) ys = us" by (simp add: list_all2_lengthD)
  ultimately show "keeps same xs ys" by (simp add: keeps_def)
qed (metis append_take_drop_id keeps_def)

lemma keeps_refl [simp, intro]: "(\<And>x. same x x) \<Longrightarrow> keeps same xs xs"
  by (simp add: keeps_def list_all2_refl)

lemma keeps_append [simp, intro]: "(\<And>x. same x x) \<Longrightarrow> keeps same xs (xs @ ys)"
  by (simp add: keeps_def list_all2_refl)

lemma keeps_map: "(\<And>x. x \<in> set xs \<Longrightarrow> same x (f x)) \<Longrightarrow> keeps same xs (map f xs)"
  by (simp add: keeps_def list_all2_map2 list_all2_same)

lemma keeps_trans:
  assumes "keeps same xs ys" and "keeps same ys zs" and "\<And>a b c. same a b \<Longrightarrow> same b c \<Longrightarrow> same a c"
  shows "keeps same xs zs"
proof -
  obtain us vs where ys: "ys = us @ vs" and u: "list_all2 same xs us"
    using assms(1) by (auto simp: keeps_iff)
  obtain ps qs where zs: "zs = ps @ qs" and p: "list_all2 same (us @ vs) ps"
    using assms(2) ys by (auto simp: keeps_iff)
  obtain p1 p2 where "ps = p1 @ p2" "list_all2 same us p1"
    using p by (auto simp: list_all2_append1)
  with u zs show ?thesis
    by (auto simp: keeps_iff intro: list_all2_trans [where ?P1.0 = same and ?P2.0 = same, OF assms(3)])
qed

lemma keeps_member: "keeps same xs ys \<Longrightarrow> x \<in> set xs \<Longrightarrow> \<exists>y \<in> set ys. same x y"
  by (force simp: keeps_iff list_all2_conv_all_nth in_set_conv_nth)

lemma keeps_eq_iff: "keeps (=) xs ys \<longleftrightarrow> (\<exists>zs. ys = xs @ zs)"
  by (simp add: keeps_iff list.rel_eq)

lemma grows_refl [simp, intro]: "grows s s"
  by (simp add: grows_def)

lemma keeps_transitive:
  "keeps same_job is js \<Longrightarrow> keeps same_job js ks \<Longrightarrow> keeps same_job is ks"
  "keeps same_attempt as bs \<Longrightarrow> keeps same_attempt bs cs \<Longrightarrow> keeps same_attempt as cs"
  "keeps (=) xs ys \<Longrightarrow> keeps (=) ys zs \<Longrightarrow> keeps (=) xs zs"
  by (erule (1) keeps_trans, simp add: same_job_def same_attempt_def)+

lemma grows_trans: "grows s t \<Longrightarrow> grows t u \<Longrightarrow> grows s u"
  unfolding grows_def by (elim conjE) (intro conjI; erule (1) keeps_transitive)

section \<open>Operations\<close>

lemma insert_event_Inr:
  "insert_event e s = Inr s' \<longleftrightarrow> ev_id e \<notin> ev_id ` set (st_events s) \<and>
     ev_execution e \<in> at_id ` set (st_attempts s) \<and> s' = s\<lparr>st_events := st_events s @ [e]\<rparr>"
  by (auto simp: insert_event_def mapR_Inr_iff insert_row_Inr)

lemma get_execution_Inr:
  "get_execution k s = Inr a \<Longrightarrow> a \<in> set (st_attempts s) \<and> at_id a = k"
  by (auto simp: get_execution_def split: option.splits dest: find_row_Some)

text \<open>An update of one execution's row with the event that evidences it.\<close>

definition moved :: "string \<Rightarrow> (attempt \<Rightarrow> attempt) \<Rightarrow> event list \<Rightarrow> store \<Rightarrow> store" where
  "moved k f es s =
     s\<lparr>st_attempts := map (\<lambda>a. if at_id a = k then f a else a) (st_attempts s),
       st_events := st_events s @ es\<rparr>"

lemma moved_attempts:
  assumes "\<And>a. at_id (f a) = at_id a"
  shows "at_id ` set (st_attempts (moved k f es s)) = at_id ` set (st_attempts s)"
    and "map at_id (st_attempts (moved k f es s)) = map at_id (st_attempts s)"
proof -
  show m: "map at_id (st_attempts (moved k f es s)) = map at_id (st_attempts s)"
    unfolding moved_def using map_key_update [of at_id f, OF assms] by simp
  show "at_id ` set (st_attempts (moved k f es s)) = at_id ` set (st_attempts s)"
    using m by (metis set_map)
qed

lemma moved_evidenced:
  assumes ok: "evidenced s" and i: "\<And>a. at_id (f a) = at_id a"
    and state: "\<And>a. at_id a = k \<Longrightarrow> (\<exists>e \<in> set es. at_state (f a) = ev_state e) \<or> at_state (f a) = at_state a"
    and es: "\<And>e. e \<in> set es \<Longrightarrow> ev_execution e = k" and k: "k \<in> at_id ` set (st_attempts s)"
  shows "evidenced (moved k f es s)"
proof -
  have ev: "st_events (moved k f es s) = st_events s @ es" by (simp add: moved_def)
  have o: "\<And>e. e \<in> set (st_events s) \<Longrightarrow> ev_execution e \<in> at_id ` set (st_attempts s)"
    "\<And>a. a \<in> set (st_attempts s) \<Longrightarrow>
      \<exists>e \<in> set (st_events s). ev_execution e = at_id a \<and> ev_state e = at_state a"
    using ok by (auto simp: evidenced_def)
  have "\<exists>e \<in> set (st_events s @ es). ev_execution e = at_id b \<and> ev_state e = at_state b"
    if b: "b \<in> set (st_attempts (moved k f es s))" for b
  proof -
    obtain a where a: "a \<in> set (st_attempts s)" and b: "b = (if at_id a = k then f a else a)"
      using b by (auto simp: moved_def)
    obtain e where e: "e \<in> set (st_events s)" "ev_execution e = at_id a" "ev_state e = at_state a"
      using o(2) [OF a] by blast
    show ?thesis
    proof (cases "at_id a = k")
      case True
      with b have b: "b = f a" by simp
      from state [OF True] show ?thesis
      proof
        assume "\<exists>e \<in> set es. at_state (f a) = ev_state e"
        then obtain x where "x \<in> set es" "at_state (f a) = ev_state x" ..
        with True es b i show ?thesis by (intro bexI [of _ x]) simp_all
      next
        assume "at_state (f a) = at_state a"
        with e b i show ?thesis by (intro bexI [of _ e]) simp_all
      qed
    next
      case False
      with e b show ?thesis by (intro bexI [of _ e]) simp_all
    qed
  qed
  with o(1) es k show ?thesis
    unfolding evidenced_def ev moved_attempts(1) [of f k es s, OF i] by auto
qed

lemma moved_preserved:
  assumes ok: "store_ok s" and f: "\<And>a. same_attempt a (f a)"
    and state: "\<And>a. at_id a = k \<Longrightarrow> (\<exists>e \<in> set es. at_state (f a) = ev_state e) \<or> at_state (f a) = at_state a"
    and es: "\<And>e. e \<in> set es \<Longrightarrow> ev_execution e = k" "distinct (map ev_id es)"
      "ev_id ` set es \<inter> ev_id ` set (st_events s) = {}" and k: "k \<in> at_id ` set (st_attempts s)"
  shows "store_ok (moved k f es s) \<and> grows s (moved k f es s)"
proof -
  have i: "at_id (f a) = at_id a" "at_plan (f a) = at_plan a" "at_backend (f a) = at_backend a" for a
    using f [of a] by (auto simp: same_attempt_def)
  have "keys_ok (moved k f es s)"
  proof -
    have "st_events (moved k f es s) = st_events s @ es" "st_plans (moved k f es s) = st_plans s"
      "st_experiments (moved k f es s) = st_experiments s"
      by (simp_all add: moved_def)
    with ok es moved_attempts(2) [of f k es s, OF i(1)] show ?thesis
      by (simp add: store_ok_def keys_ok_def Int_commute)
  qed
  moreover have "evidenced (moved k f es s)"
    by (rule moved_evidenced) (use ok state es(1) k i(1) in \<open>simp_all add: store_ok_def\<close>)
  moreover have "planned (moved k f es s)"
    using ok by (auto simp: store_ok_def planned_def moved_def i)
  moreover have "jobs_ok (moved k f es s)"
  proof -
    have "\<exists>b \<in> set (st_attempts (moved k f es s)). at_id b = at_id a \<and> at_backend b = at_backend a"
      if "a \<in> set (st_attempts s)" for a
      using that by (cases "at_id a = k") (auto simp: moved_def i intro: rev_bexI)
    with ok show ?thesis
      by (fastforce simp: store_ok_def jobs_ok_def moved_def)
  qed
  moreover have "results_ok (moved k f es s)"
    using ok moved_attempts(1) [of f k es s, OF i(1)]
    by (auto simp: store_ok_def results_ok_def) (auto simp: moved_def)
  moreover have "grows s (moved k f es s)"
    using f by (auto simp: grows_def moved_def intro!: keeps_map)
  ultimately show ?thesis by (simp add: store_ok_def)
qed

lemma update_execution_state_moved:
  assumes "update_execution_state new_id k state now details error s = Inr s'"
  shows "s' = moved k (set_state state now error) [new_event new_id k now state details] s"
    and "k \<in> at_id ` set (st_attempts s)" and "new_id \<notin> ev_id ` set (st_events s)"
proof -
  show "k \<in> at_id ` set (st_attempts s)"
    using assms by (auto simp: update_execution_state_def bindR_Inr_iff dest: update_row_present)
  show "s' = moved k (set_state state now error) [new_event new_id k now state details] s"
    "new_id \<notin> ev_id ` set (st_events s)"
    using assms by (auto simp: update_execution_state_def bindR_Inr_iff update_row_Inr insert_event_Inr
        moved_def new_event_def)
qed

lemma set_state_same [simp]: "same_attempt a (set_state state now error a)"
  by (simp add: set_state_def same_attempt_def)

lemma set_state_moved:
  assumes "store_ok s" and "k \<in> at_id ` set (st_attempts s)" and "new_id \<notin> ev_id ` set (st_events s)"
  shows "store_ok (moved k (set_state state now error) [new_event new_id k now state details] s) \<and>
    grows s (moved k (set_state state now error) [new_event new_id k now state details] s)"
  using assms by (intro moved_preserved) (auto simp: new_event_def set_state_def same_attempt_def)

lemma update_execution_state_preserved [preserved]:
  "update_execution_state new_id k state now details error s = Inr s' \<Longrightarrow> store_ok s \<Longrightarrow>
   store_ok s' \<and> grows s s'"
  using update_execution_state_moved [of new_id k state now details error s s'] set_state_moved by simp

lemma set_staging_directory_preserved [preserved]:
  assumes "set_staging_directory k path now s = Inr s'" and "store_ok s"
  shows "store_ok s' \<and> grows s s'"
proof -
  have "s' = moved k (\<lambda>a. a\<lparr>at_staging := Some path, at_updated_at := now\<rparr>) [] s"
    using assms(1) by (auto simp: set_staging_directory_def mapR_Inr_iff update_row_Inr moved_def)
  moreover have "k \<in> at_id ` set (st_attempts s)"
    using assms(1) by (auto simp: set_staging_directory_def mapR_Inr_iff dest: update_row_present)
  moreover from this have "store_ok (moved k (\<lambda>a. a\<lparr>at_staging := Some path, at_updated_at := now\<rparr>) [] s) \<and>
      grows s (moved k (\<lambda>a. a\<lparr>at_staging := Some path, at_updated_at := now\<rparr>) [] s)"
    using assms(2) by (intro moved_preserved) (auto simp: same_attempt_def)
  ultimately show ?thesis by simp
qed

lemma record_execution_event_preserved [preserved]:
  assumes "record_execution_event new_id k state now details s = Inr s'" and "store_ok s"
  shows "store_ok s' \<and> grows s s'"
proof -
  have *: "s' = moved k (\<lambda>a. a) [new_event new_id k now state details] s"
    "k \<in> at_id ` set (st_attempts s)" "new_id \<notin> ev_id ` set (st_events s)"
    using assms(1) by (auto simp: record_execution_event_def bindR_Inr_iff insert_event_Inr moved_def
        new_event_def)
  have "store_ok (moved k (\<lambda>a. a) [new_event new_id k now state details] s) \<and>
      grows s (moved k (\<lambda>a. a) [new_event new_id k now state details] s)"
    using assms(2) * by (intro moved_preserved) (auto simp: new_event_def)
  with * show ?thesis by simp
qed

lemma create_execution_preserved [preserved]:
  assumes "create_execution new_id a s = Inr s'" and ok: "store_ok s"
  shows "store_ok s' \<and> grows s s'"
proof -
  obtain p where p: "get_plan (at_plan a) s = Inr p" and b: "pl_backend p = at_backend a"
    and new: "at_id a \<notin> at_id ` set (st_attempts s)" "new_id \<notin> ev_id ` set (st_events s)"
    and s': "s' = s\<lparr>st_attempts := st_attempts s @ [a], st_events := st_events s @
      [new_event new_id (at_id a) (at_created_at a) (at_state a) [(''backend'', JStr (at_backend a))]]\<rparr>"
    using assms(1) by (auto simp: create_execution_def bindR_Inr_iff insert_row_Inr insert_event_Inr
        new_event_def split: if_splits)
  have "p \<in> set (st_plans s)" "pl_id p = at_plan a"
    using p by (auto simp: get_plan_def split: option.splits dest: find_row_Some)
  with ok b have "planned s'" by (auto simp: s' store_ok_def planned_def)
  moreover have "keys_ok s'" using ok new by (simp add: s' store_ok_def keys_ok_def new_event_def)
  moreover have "evidenced s'" using ok by (auto simp: s' store_ok_def evidenced_def new_event_def)
  moreover have "jobs_ok s'" using ok by (auto simp: s' store_ok_def jobs_ok_def)
  moreover have "results_ok s'" using ok by (auto simp: s' store_ok_def results_ok_def)
  ultimately show ?thesis by (simp add: store_ok_def) (simp add: s' grows_def)
qed

lemma save_scheduler_job_preserved [preserved]:
  assumes "save_scheduler_job j s = Inr s'" and ok: "store_ok s"
  shows "store_ok s' \<and> grows s s'"
proof -
  obtain a where a: "get_execution (j_execution j) s = Inr a" "at_backend a = j_family j"
    and new: "j_execution j \<notin> j_execution ` set (st_jobs s)"
      "(j_family j, j_job_id j) \<notin> (\<lambda>x. (j_family x, j_job_id x)) ` set (st_jobs s)"
    and s': "s' = s\<lparr>st_jobs := st_jobs s @ [j]\<rparr>"
    using assms(1) by (auto simp: save_scheduler_job_def bindR_Inr_iff mapR_Inr_iff insert_row_Inr
        split: if_splits)
  have "jobs_ok s'"
    using ok new a(2) get_execution_Inr [OF a(1)] by (auto simp: s' store_ok_def jobs_ok_def)
  moreover have "keys_ok s' \<and> evidenced s' \<and> planned s' \<and> results_ok s'"
    using ok by (simp add: s' store_ok_def keys_ok_def evidenced_def planned_def results_ok_def)
  ultimately show ?thesis by (simp add: store_ok_def) (simp add: s' grows_def)
qed

lemma update_scheduler_job_preserved [preserved]:
  assumes "update_scheduler_job k state now s = Inr s'" and ok: "store_ok s"
  shows "store_ok s' \<and> grows s s'"
proof -
  let ?f = "\<lambda>j. if j_execution j = k then j\<lparr>j_state := state, j_observed_at := now\<rparr> else j"
  have s': "s' = s\<lparr>st_jobs := map ?f (st_jobs s)\<rparr>"
    using assms(1) by (auto simp: update_scheduler_job_def mapR_Inr_iff update_row_Inr)
  have f: "j_execution (?f j) = j_execution j" "j_family (?f j) = j_family j" "j_job_id (?f j) = j_job_id j" for j
    by simp_all
  have "jobs_ok s'"
    using ok by (auto simp: s' store_ok_def jobs_ok_def o_def f)
  moreover have "keys_ok s' \<and> evidenced s' \<and> planned s' \<and> results_ok s'"
    using ok by (simp add: s' store_ok_def keys_ok_def evidenced_def planned_def results_ok_def)
  moreover have "grows s s'" by (auto simp: s' grows_def same_job_def intro!: keeps_map)
  ultimately show ?thesis by (simp add: store_ok_def)
qed

lemma save_request_with_workload_preserved [preserved]:
  assumes "save_request_with_workload r w s = Inr s'" and "store_ok s"
  shows "store_ok s' \<and> grows s s'"
  using assms
  by (auto simp: save_request_with_workload_def insert_request_def insert_workload_def bindR_Inr_iff
      mapR_Inr_iff insert_row_Inr store_ok_def keys_ok_def evidenced_def planned_def jobs_ok_def
      results_ok_def grows_def split: if_splits)

lemma save_plan_preserved [preserved]:
  assumes "save_plan p s = Inr s'" and ok: "store_ok s"
  shows "store_ok s' \<and> grows s s'"
proof -
  have new: "pl_id p \<notin> pl_id ` set (st_plans s)" and s': "s' = s\<lparr>st_plans := st_plans s @ [p]\<rparr>"
    using assms(1) by (auto simp: save_plan_def bindR_Inr_iff mapR_Inr_iff insert_row_Inr
        split: option.splits)
  have "keys_ok s'" using ok new by (simp add: s' store_ok_def keys_ok_def)
  moreover have "evidenced s' \<and> planned s' \<and> jobs_ok s' \<and> results_ok s'"
    using ok by (auto simp: s' store_ok_def evidenced_def planned_def jobs_ok_def results_ok_def)
  ultimately show ?thesis by (simp add: store_ok_def) (simp add: s' grows_def)
qed

section \<open>Imports\<close>

lemma insert_experiment_record_step:
  assumes "insert_experiment_record e artifacts edges s = Inr s'" and ok: "store_ok s"
  shows "store_ok s' \<and> grows s s'" and "ex_id e \<in> ex_id ` set (st_experiments s')"
    and "st_attempts s' = st_attempts s" and "st_results s' = st_results s"
    and "st_events s' = st_events s"
proof -
  obtain xs as ls where x: "insert_row ex_id experiment_row_ok e (st_experiments s) = Inr xs"
    and a: "insert_rows ar_id artifact_row_ok artifacts (st_artifacts s) = Inr as"
    and s': "s' = s\<lparr>st_experiments := xs, st_artifacts := as, st_lineage := ls\<rparr>"
    using assms(1) by (auto simp: insert_experiment_record_def bindR_Inr_iff split: if_splits)
  have xs: "xs = st_experiments s @ [e]" "ex_id e \<notin> ex_id ` set (st_experiments s)"
    using x by (auto simp: insert_row_Inr)
  have as: "as = st_artifacts s @ artifacts" using insert_rows_Inr [OF a] by simp
  have "keys_ok s'" using ok xs by (simp add: s' store_ok_def keys_ok_def)
  moreover have "evidenced s' \<and> planned s' \<and> jobs_ok s'"
    using ok by (simp add: s' store_ok_def evidenced_def planned_def jobs_ok_def)
  moreover have "results_ok s'" using ok xs(1) by (auto simp: s' store_ok_def results_ok_def)
  ultimately show "store_ok s' \<and> grows s s'" by (simp add: store_ok_def) (simp add: s' xs as grows_def)
  show "ex_id e \<in> ex_id ` set (st_experiments s')" "st_attempts s' = st_attempts s"
    "st_results s' = st_results s" "st_events s' = st_events s"
    by (simp_all add: s' xs)
qed

lemma insert_result_step:
  assumes "insert_result k x s = Inr s'" and "store_ok s" and "k \<in> at_id ` set (st_attempts s)"
    and "x \<in> ex_id ` set (st_experiments s)"
  shows "store_ok s' \<and> grows s s'" and "(k, x) \<in> set (st_results s')" and "st_attempts s' = st_attempts s"
    and "st_events s' = st_events s"
  using assms by (auto simp: insert_result_def mapR_Inr_iff insert_row_Inr store_ok_def keys_ok_def
      evidenced_def planned_def jobs_ok_def results_ok_def grows_def)

lemma import_allocation_step:
  assumes "import_allocation k allocation s = Inr s'" and "store_ok s"
  shows "store_ok s' \<and> grows s s'" and "st_results s' = st_results s" and "st_attempts s' = st_attempts s"
    and "st_events s' = st_events s"
  using assms by (auto simp: import_allocation_def insert_allocation_def mapR_Inr_iff insert_row_Inr
      store_ok_def keys_ok_def evidenced_def planned_def jobs_ok_def results_ok_def grows_def
      split: option.splits if_splits)

lemma insert_telemetry_step:
  assumes "insert_telemetry t s = Inr s'" and "store_ok s"
    and "(tm_execution_id t, tm_experiment_id t) \<in> set (st_results s)"
  shows "store_ok s' \<and> grows s s'" and "st_results s' = st_results s" and "st_attempts s' = st_attempts s"
    and "st_events s' = st_events s"
  using assms by (auto simp: insert_telemetry_def mapR_Inr_iff insert_row_Inr store_ok_def keys_ok_def
      evidenced_def planned_def jobs_ok_def results_ok_def grows_def split: if_splits)

lemma insert_verification_step:
  assumes "insert_verification v s = Inr s'" and "store_ok s"
    and "(vr_execution_id v, vr_experiment_id v) \<in> set (st_results s)"
  shows "store_ok s' \<and> grows s s'" and "st_results s' = st_results s" and "st_attempts s' = st_attempts s"
    and "st_events s' = st_events s"
proof -
  have new: "vr_execution_id v \<notin> vr_execution_id ` set (st_verifications s)"
    and s': "s' = s\<lparr>st_verifications := st_verifications s @ [v]\<rparr>"
    using assms(1) by (auto simp: insert_verification_def mapR_Inr_iff insert_row_Inr split: if_splits)
  have "results_ok s'"
    using assms(2,3) new by (auto simp: s' store_ok_def results_ok_def)
  moreover have "keys_ok s' \<and> evidenced s' \<and> planned s' \<and> jobs_ok s'"
    using assms(2) by (simp add: s' store_ok_def keys_ok_def evidenced_def planned_def jobs_ok_def)
  ultimately show "store_ok s' \<and> grows s s'" by (simp add: store_ok_def) (simp add: s' grows_def)
qed (use assms(1) in \<open>auto simp: insert_verification_def mapR_Inr_iff insert_row_Inr split: if_splits\<close>)

lemma insert_outcomes_step:
  assumes "insert_outcomes k x t v s = Inr s'" and ok: "store_ok s" and r: "(k, x) \<in> set (st_results s)"
  shows "store_ok s' \<and> grows s s' \<and> st_attempts s' = st_attempts s \<and> st_events s' = st_events s"
proof (cases "t = None \<and> v = None")
  case True
  with assms show ?thesis by (simp add: insert_outcomes_def)
next
  case False
  obtain m request_id where t: "(case t of None \<Rightarrow> Inr s | Some t \<Rightarrow>
        if tm_request_id t \<noteq> request_id \<or> tm_execution_id t \<noteq> k \<or> tm_experiment_id t \<noteq> x
        then Inl (StoreValueError ''telemetry relationships do not match the imported result'')
        else insert_telemetry t s) = Inr m"
    and v: "(case v of None \<Rightarrow> Inr m | Some v \<Rightarrow>
        if vr_request_id v \<noteq> request_id \<or> vr_execution_id v \<noteq> k \<or> vr_experiment_id v \<noteq> x
        then Inl (StoreValueError ''verification relationships do not match the imported result'')
        else insert_verification v m) = Inr s'"
    using assms(1) False by (auto simp: insert_outcomes_def bindR_Inr_iff split: option.splits)
  have m: "store_ok m \<and> grows s m \<and> st_results m = st_results s \<and> st_attempts m = st_attempts s \<and>
      st_events m = st_events s"
    using t ok r insert_telemetry_step by (cases t) (auto split: if_splits)
  with v r have "store_ok s' \<and> grows m s' \<and> st_attempts s' = st_attempts m \<and> st_events s' = st_events m"
    using insert_verification_step by (cases v) (auto split: if_splits)
  with m show ?thesis using grows_trans by metis
qed

lemma insert_runtime_evidence_step:
  assumes "insert_runtime_evidence k x r t s = Inr s'" and "store_ok s"
  shows "store_ok s' \<and> grows s s'" and "st_attempts s' = st_attempts s" and "st_events s' = st_events s"
  using assms by (auto simp: insert_runtime_evidence_def mapR_Inr_iff insert_row_Inr store_ok_def keys_ok_def
      evidenced_def planned_def jobs_ok_def results_ok_def grows_def image_iff
      split: option.splits if_splits)

lemma finish_execution_step:
  assumes "finish_execution new_id k state now details error s = Inr s'" and "store_ok s"
  shows "store_ok s' \<and> grows s s'"
proof -
  have "s' = moved k (set_state state now error) [new_event new_id k now state details] s"
    "new_id \<notin> ev_id ` set (st_events s)" "k \<in> at_id ` set (st_attempts s)"
    using assms(1) moved_attempts(1) [of "set_state state now error" k "[]" s]
    by (auto simp: finish_execution_def insert_event_Inr moved_def new_event_def set_state_def)
  with set_state_moved [OF assms(2)] show ?thesis by simp
qed

lemma import_experiment_result_preserved [preserved]:
  assumes "import_experiment_result new_id k e artifacts edges al state now details t v r tn s = Inr s'"
    and ok: "store_ok s"
  shows "store_ok s' \<and> grows s s'"
proof -
  obtain a s1 s2 s3 s4 s5 where a: "get_execution k s = Inr a"
    and 1: "insert_experiment_record e artifacts edges s = Inr s1"
    and 2: "insert_result k (ex_id e) s1 = Inr s2" and 3: "import_allocation k al s2 = Inr s3"
    and 4: "insert_outcomes k (ex_id e) t v s3 = Inr s4"
    and 5: "insert_runtime_evidence k (Some (ex_id e)) r tn s4 = Inr s5"
    and 6: "finish_execution new_id k state now details None s5 = Inr s'"
    using assms(1) by (auto simp: import_experiment_result_def bindR_Inr_iff)
  note i1 = insert_experiment_record_step [OF 1 ok]
  have k: "k \<in> at_id ` set (st_attempts s1)" using get_execution_Inr [OF a] i1(3) by auto
  note i2 = insert_result_step [OF 2 conjunct1 [OF i1(1)] k i1(2)]
  note i3 = import_allocation_step [OF 3 conjunct1 [OF i2(1)]]
  have r: "(k, ex_id e) \<in> set (st_results s3)" using i2(2) i3(2) by simp
  note i4 = insert_outcomes_step [OF 4 conjunct1 [OF i3(1)] r]
  note i5 = insert_runtime_evidence_step [OF 5 conjunct1 [OF i4]]
  note i6 = finish_execution_step [OF 6 conjunct1 [OF i5(1)]]
  have "grows s s3" using i1(1) i2(1) i3(1) grows_trans by blast
  moreover have "grows s3 s'" using i4 i5(1) i6 grows_trans by blast
  ultimately show ?thesis using i6 grows_trans by blast
qed

lemma import_worker_failure_preserved [preserved]:
  assumes "import_worker_failure new_id k al state now details error r tn s = Inr s'" and ok: "store_ok s"
  shows "store_ok s' \<and> grows s s'"
proof -
  obtain s1 s2 where 1: "import_allocation k al s = Inr s1"
    and 2: "insert_runtime_evidence k None r tn s1 = Inr s2"
    and 3: "finish_execution new_id k state now details error s2 = Inr s'"
    using assms(1) by (auto simp: import_worker_failure_def bindR_Inr_iff)
  note i1 = import_allocation_step(1) [OF 1 ok]
  note i2 = insert_runtime_evidence_step(1) [OF 2 conjunct1 [OF i1]]
  show ?thesis using finish_execution_step [OF 3 conjunct1 [OF i2]] i1 i2 grows_trans by blast
qed

section \<open>Histories\<close>

text \<open>One committed transaction. An operation that raises leaves the store as it was.\<close>

inductive store_step :: "store \<Rightarrow> store \<Rightarrow> bool" where
  step_request: "save_request_with_workload r w s = Inr s' \<Longrightarrow> store_step s s'"
| step_plan: "save_plan p s = Inr s' \<Longrightarrow> store_step s s'"
| step_create: "create_execution new_id a s = Inr s' \<Longrightarrow> store_step s s'"
| step_staging: "set_staging_directory k path now s = Inr s' \<Longrightarrow> store_step s s'"
| step_state: "update_execution_state new_id k state now details error s = Inr s' \<Longrightarrow> store_step s s'"
| step_event: "record_execution_event new_id k state now details s = Inr s' \<Longrightarrow> store_step s s'"
| step_job: "save_scheduler_job j s = Inr s' \<Longrightarrow> store_step s s'"
| step_job_state: "update_scheduler_job k state now s = Inr s' \<Longrightarrow> store_step s s'"
| step_result: "import_experiment_result new_id k e artifacts edges al state now details t v r tn s
    = Inr s' \<Longrightarrow> store_step s s'"
| step_failure: "import_worker_failure new_id k al state now details error r tn s = Inr s' \<Longrightarrow>
    store_step s s'"

inductive_cases store_stepE: "store_step s s'"

definition empty_store :: store where
  "empty_store = \<lparr>st_requests = [], st_workloads = [], st_request_links = [], st_snapshots = [],
     st_sites = [], st_site_links = [], st_selections = [], st_variants = [], st_plans = [],
     st_attempts = [], st_events = [], st_jobs = [], st_allocations = [], st_experiments = [],
     st_artifacts = [], st_lineage = [], st_results = [], st_telemetry = [], st_verifications = [],
     st_runtime = []\<rparr>"

lemma empty_store_ok: "store_ok empty_store"
  by (simp add: empty_store_def store_ok_def keys_ok_def evidenced_def planned_def jobs_ok_def
      results_ok_def)

lemma store_step_preserved: "store_step s s' \<Longrightarrow> store_ok s \<Longrightarrow> store_ok s' \<and> grows s s'"
  by (erule store_stepE; erule (1) preserved)


definition sample_attempt :: attempt where
  "sample_attempt = \<lparr>at_id = ''E'', at_plan = ''p'', at_backend = ''slurm'', at_state = ''planned'',
     at_created_at = ''t0'', at_updated_at = ''t0'', at_identity = Some ''me'', at_staging = None,
     at_error = None\<rparr>"

definition sample_store :: store where
  "sample_store = empty_store\<lparr>st_plans := [sample_plan]\<rparr>"

lemma sample_store_ok: "store_ok sample_store"
  by (simp add: sample_store_def empty_store_def store_ok_def keys_ok_def evidenced_def planned_def
      jobs_ok_def results_ok_def)

lemma sample_created:
  "create_execution ''v1'' sample_attempt sample_store = Inr (sample_store\<lparr>st_attempts := [sample_attempt],
     st_events := [new_event ''v1'' ''E'' ''t0'' ''planned'' [(''backend'', JStr ''slurm'')]]\<rparr>)"
  by (simp add: create_execution_def get_plan_def find_row_def insert_event_def insert_row_def backends_def
      sample_store_def empty_store_def sample_attempt_def sample_plan_def new_event_def)


end
