(* ===== verification/WorkerResults.thy ===== *)
theory WorkerResults
  imports Outcomes RuntimeEvidence
begin

text \<open>
  Result bundles of the compute worker (\<open>worker_result.py\<close>): the record, its document, and the
  parser that decides which bundle a controller accepts. The bundle is data only.

  The records are typed, while the code fills \<open>Artifact\<close>, \<open>ExperimentLineage\<close> and the allocation
  from a document without looking at the types of most fields. A document that puts a value of
  another type there is \<open>IllTyped\<close>: an outcome of its own, of which nothing is claimed. Every
  exception the parser turns into \<open>WorkerResultError\<close> is \<open>BadResult\<close>, one it lets through is
  \<open>Uncaught\<close>.
\<close>

datatype result_error = BadResult string | Uncaught py_error | IllTyped

type_synonym 'a result_res = "(result_error, 'a) res"

definition MAX_RESULT_BUNDLE_BYTES :: nat where
  "MAX_RESULT_BUNDLE_BYTES = 32 * 1024 * 1024"

definition MAX_RESULT_ARTIFACTS :: nat where
  "MAX_RESULT_ARTIFACTS = 4096"

definition MAX_RESULT_LINEAGE :: nat where
  "MAX_RESULT_LINEAGE = 16"

record worker_result =
  wr_execution :: string
  wr_state :: string
  wr_created_at :: string
  wr_experiment :: "experiment_record option"
  wr_artifacts :: "artifact list"
  wr_lineage :: "lineage list"
  wr_allocation :: "allocation option"
  wr_preflight :: "json dict"
  wr_error :: "string option"
  wr_request :: "string option"
  wr_telemetry :: "telemetry option"
  wr_verification :: "verification option"
  wr_runtime :: "runtime option"
  wr_termination :: "termination_evidence option"
  wr_version :: json

text \<open>A version is a number that equals 1, 2 or 3.\<close>

definition version_number :: "json \<Rightarrow> rat" where
  "version_number v = (case json_num v of None \<Rightarrow> 0 | Some q \<Rightarrow> q)"

section \<open>Documents\<close>

definition artifact_to_dict :: "artifact \<Rightarrow> json dict" where
  "artifact_to_dict a =
     [(''id'', JStr (ar_id a)), (''experiment_id'', JStr (ar_experiment_id a)),
      (''role'', JStr (ar_role a)), (''original_path'', JStr (ar_original_path a)),
      (''resolved_path'', JStr (ar_resolved_path a)), (''existence_state'', JStr (ar_existence a)),
      (''capture_status'', JStr (ar_capture a)), (''sha256'', opt_json JStr (ar_sha256 a)),
      (''size_bytes'', opt_int (ar_size_bytes a)), (''modified_at'', opt_json JStr (ar_modified_at a)),
      (''captured_at'', JStr (ar_captured_at a)),
      (''capture_error'', opt_json JStr (ar_capture_error a))]"

definition lineage_to_dict :: "lineage \<Rightarrow> json dict" where
  "lineage_to_dict l =
     [(''child_experiment_id'', JStr (li_child l)), (''parent_experiment_id'', JStr (li_parent l)),
      (''relationship'', JStr (li_relationship l)), (''created_at'', JStr (li_created_at l))]"

definition experiment_to_dict :: "experiment_record \<Rightarrow> json dict" where
  "experiment_to_dict e =
     [(''id'', JStr (ex_id e)), (''status'', JStr (ex_status e)), (''command'', JStr (ex_command e)),
      (''arguments'', JArr (map JStr (ex_arguments e))),
      (''working_directory'', JStr (ex_working_directory e)),
      (''started_at'', JStr (ex_started_at e)), (''ended_at'', JStr (ex_ended_at e)),
      (''duration_seconds'', ex_duration e), (''exit_code'', JInt (ex_exit_code e)),
      (''stdout'', JStr (ex_stdout e)), (''stderr'', JStr (ex_stderr e)), (''git'', JObj (ex_git e)),
      (''system'', JObj (ex_system e)), (''execution_context'', JObj (ex_context e)),
      (''schema_version'', JInt (ex_schema_version e))]"

definition allocation_to_dict :: "allocation \<Rightarrow> json dict" where
  "allocation_to_dict a =
     [(''id'', JStr (al_id a)), (''execution_id'', JStr (al_execution_id a)),
      (''observed_at'', JStr (al_observed_at a)), (''resources'', JObj (al_resources a)),
      (''hosts'', JArr (map JStr (al_hosts a))), (''evidence'', JObj (al_evidence a))]"

definition worker_result_to_dict :: "worker_result \<Rightarrow> json dict" where
  "worker_result_to_dict r =
     [(''schema_version'', wr_version r), (''execution_id'', JStr (wr_execution r)),
      (''state'', JStr (wr_state r)), (''created_at'', JStr (wr_created_at r)),
      (''experiment'', opt_json (JObj \<circ> experiment_to_dict) (wr_experiment r)),
      (''artifacts'', JArr (map (JObj \<circ> artifact_to_dict) (wr_artifacts r))),
      (''lineage'', JArr (map (JObj \<circ> lineage_to_dict) (wr_lineage r))),
      (''allocation'', opt_json (JObj \<circ> allocation_to_dict) (wr_allocation r)),
      (''preflight'', JObj (wr_preflight r)), (''error'', opt_json JStr (wr_error r))]
     @ (if version_number (wr_version r) \<ge> 2
        then [(''request_id'', opt_json JStr (wr_request r)),
              (''telemetry'', opt_json (JObj \<circ> telemetry_to_dict) (wr_telemetry r)),
              (''verification'', opt_json (JObj \<circ> verification_to_dict) (wr_verification r))]
        else [])
     @ (if version_number (wr_version r) \<ge> 3
        then [(''runtime_evidence'', opt_json (JObj \<circ> runtime_to_dict) (wr_runtime r)),
              (''termination'', opt_json (JObj \<circ> termination_to_dict) (wr_termination r))]
        else [])"

definition encode_worker_result :: "(py_float \<Rightarrow> string) \<Rightarrow> worker_result \<Rightarrow> string result_res" where
  "encode_worker_result floats r =
     (let raw = utf8_encode (json_dumps floats (JObj (worker_result_to_dict r))) in
      if length raw > MAX_RESULT_BUNDLE_BYTES
      then Inl (BadResult ''worker result exceeds 33554432 bytes'') else Inr raw)"

section \<open>Parts of a bundle\<close>

definition bad_result :: "string \<Rightarrow> 'a result_res" where
  "bad_result message = Inl (BadResult message)"

definition result_bounded_json :: "json \<Rightarrow> bool" where
  "result_bounded_json v = bounded_json 12 MAX_RESULT_BUNDLE_BYTES 0 v"

definition result_object :: "json \<Rightarrow> string \<Rightarrow> json dict result_res" where
  "result_object v label =
     (case v of
        JObj d \<Rightarrow>
          if result_bounded_json v then Inr d else bad_result (label @ '' must be a bounded JSON object'')
      | _ \<Rightarrow> bad_result (label @ '' must be a bounded JSON object''))"

definition result_string :: "json dict \<Rightarrow> string \<Rightarrow> nat \<Rightarrow> string result_res" where
  "result_string d k limit =
     (case jget d k of
        JStr s \<Rightarrow>
          if s = [] \<or> length s > limit then bad_result (''worker result '' @ k @ '' is invalid'') else Inr s
      | _ \<Rightarrow> bad_result (''worker result '' @ k @ '' is invalid''))"

text \<open>\<open>cls(**d)\<close>: unknown and missing names raise.\<close>

definition keywords_ok :: "json dict \<Rightarrow> string list \<Rightarrow> string list \<Rightarrow> bool" where
  "keywords_ok d required optional \<longleftrightarrow>
     \<not> has_unknown d (required @ optional) \<and> list_all (\<lambda>n. dict_get d n \<noteq> None) required"

definition opt_text_ok :: "json \<Rightarrow> bool" where
  "opt_text_ok v \<longleftrightarrow> v = JNull \<or> is_str v"

definition artifact_required :: "string list" where
  "artifact_required = [''id'', ''experiment_id'', ''role'', ''original_path'', ''resolved_path'',
     ''existence_state'', ''capture_status'', ''sha256'', ''size_bytes'', ''modified_at'',
     ''captured_at'']"

definition artifact_from_dict :: "json \<Rightarrow> artifact result_res" where
  "artifact_from_dict v =
     bindR (result_object v ''artifact'') (\<lambda>d.
     if \<not> keywords_ok d artifact_required [''capture_error'']
     then bad_result ''worker result structure is invalid''
     else if \<not> all_strings d [''id'', ''experiment_id'', ''role'', ''original_path'', ''resolved_path'',
            ''existence_state'', ''capture_status'', ''captured_at''] \<or>
          \<not> list_all (\<lambda>n. opt_text_ok (jget d n)) [''sha256'', ''modified_at'', ''capture_error'']
     then Inl IllTyped
     else
       (case int_or_none (jget d ''size_bytes'') of
          None \<Rightarrow> Inl IllTyped
        | Some bytes \<Rightarrow> Inr \<lparr>ar_id = text_of d ''id'', ar_experiment_id = text_of d ''experiment_id'',
            ar_role = text_of d ''role'', ar_original_path = text_of d ''original_path'',
            ar_resolved_path = text_of d ''resolved_path'',
            ar_existence = text_of d ''existence_state'', ar_capture = text_of d ''capture_status'',
            ar_sha256 = opt_text (jget d ''sha256''), ar_size_bytes = bytes,
            ar_modified_at = opt_text (jget d ''modified_at''),
            ar_captured_at = text_of d ''captured_at'',
            ar_capture_error = opt_text (jget d ''capture_error'')\<rparr>))"

definition lineage_fields :: "string list" where
  "lineage_fields = [''child_experiment_id'', ''parent_experiment_id'', ''relationship'', ''created_at'']"

definition lineage_from_dict :: "json \<Rightarrow> lineage result_res" where
  "lineage_from_dict v =
     bindR (result_object v ''lineage'') (\<lambda>d.
     if \<not> keywords_ok d lineage_fields [] then bad_result ''worker result structure is invalid''
     else if \<not> all_strings d lineage_fields then Inl IllTyped
     else Inr \<lparr>li_child = text_of d ''child_experiment_id'', li_parent = text_of d ''parent_experiment_id'',
       li_relationship = text_of d ''relationship'', li_created_at = text_of d ''created_at''\<rparr>)"

text \<open>
  \<open>GitProvenance\<close>, \<open>SystemProvenance\<close> and \<open>ExecutionContext\<close>: the document \<open>asdict\<close> gives back, with
  the defaults filled in.
\<close>

definition provenance_from :: "(string \<times> json option) list \<Rightarrow> json dict \<Rightarrow> string \<Rightarrow> json dict result_res" where
  "provenance_from slots d k =
     (case dict_get d k of
        Some (JObj p) \<Rightarrow>
          if has_unknown p (map fst slots) \<or>
             list_ex (\<lambda>(n, z). z = None \<and> dict_get p n = None) slots
          then bad_result ''worker result structure is invalid''
          else Inr (map (\<lambda>(n, z). (n, jget_or p n (case z of None \<Rightarrow> JNull | Some z \<Rightarrow> z))) slots)
      | _ \<Rightarrow> bad_result ''worker result structure is invalid'')"

definition git_fields :: "(string \<times> json option) list" where
  "git_fields = [(''available'', None), (''repository_root'', Some JNull), (''commit_sha'', Some JNull),
     (''branch'', Some JNull), (''dirty'', Some JNull), (''error'', Some JNull)]"

definition system_fields :: "(string \<times> json option) list" where
  "system_fields = [(''operating_system'', None), (''os_version'', None), (''architecture'', None),
     (''hostname'', None), (''cpu'', None), (''gpu_available'', None), (''gpus'', Some (JArr [])),
     (''nvidia_driver_version'', Some JNull), (''cuda_version'', Some JNull),
     (''cuda_version_source'', Some JNull), (''gpu_error'', Some JNull),
     (''collector_error'', Some JNull)]"

definition context_fields :: "(string \<times> json option) list" where
  "context_fields = [(''requested_executable'', None), (''resolved_executable'', Some JNull),
     (''recorder_executable'', Some JNull), (''environment_hints'', Some (JObj [])),
     (''containerized'', Some JNull)]"

definition finite_duration :: "json \<Rightarrow> bool" where
  "finite_duration v =
     (case v of JInt i \<Rightarrow> i \<ge> 0 | JFloat (Finite q) \<Rightarrow> q \<ge> 0 | _ \<Rightarrow> False)"

definition experiment_from_dict :: "json \<Rightarrow> experiment_record option result_res" where
  "experiment_from_dict v =
     (if v = JNull then Inr None
      else
        bindR (result_object v ''experiment'') (\<lambda>d.
        if \<not> all_strings d [''id'', ''status'', ''command'', ''working_directory'', ''started_at'',
              ''ended_at'', ''stdout'', ''stderr'']
        then bad_result ''experiment string fields are invalid''
        else
          (case text_list (jget d ''arguments'') of
             None \<Rightarrow> bad_result ''experiment arguments are invalid''
           | Some arguments \<Rightarrow>
               if length arguments > 4096 then bad_result ''experiment arguments are invalid''
               else if text_of d ''status'' \<notin> {''completed'', ''failed'', ''interrupted''}
               then bad_result ''experiment status is invalid''
               else
                 (case (finite_duration (jget d ''duration_seconds''), jget d ''exit_code'') of
                    (True, JInt code) \<Rightarrow>
                      bindR (provenance_from git_fields d ''git'') (\<lambda>git.
                      bindR (provenance_from system_fields d ''system'') (\<lambda>system.
                      bindR (provenance_from context_fields d ''execution_context'') (\<lambda>context.
                      case jget_or d ''schema_version'' (JInt 2) of
                        JInt version \<Rightarrow> Inr (Some
                          \<lparr>ex_id = text_of d ''id'', ex_status = text_of d ''status'',
                           ex_command = text_of d ''command'', ex_arguments = arguments,
                           ex_working_directory = text_of d ''working_directory'',
                           ex_started_at = text_of d ''started_at'', ex_ended_at = text_of d ''ended_at'',
                           ex_duration = jget d ''duration_seconds'', ex_exit_code = code,
                           ex_stdout = text_of d ''stdout'', ex_stderr = text_of d ''stderr'',
                           ex_git = git, ex_system = system, ex_context = context,
                           ex_schema_version = version\<rparr>)
                      | _ \<Rightarrow> Inl IllTyped)))
                  | _ \<Rightarrow> bad_result ''experiment process fields are invalid''))))"

definition allocation_from_dict :: "json \<Rightarrow> string \<Rightarrow> allocation option result_res" where
  "allocation_from_dict v execution_id =
     (if v = JNull then Inr None
      else
        bindR (result_object v ''allocation'') (\<lambda>d.
        if jget d ''execution_id'' \<noteq> JStr execution_id
        then bad_result ''allocation execution ID does not match''
        else
          (case (jget d ''resources'', text_list (jget d ''hosts''), jget_or d ''evidence'' (JObj [])) of
             (JObj resources, Some hosts, JObj evidence) \<Rightarrow>
               if list_ex (\<lambda>h. length h > 1024) hosts \<or> \<not> result_bounded_json (JObj resources) \<or>
                  \<not> result_bounded_json (JObj evidence)
               then bad_result ''allocation evidence is invalid''
               else if dict_get d ''id'' = None \<or> dict_get d ''observed_at'' = None
               then bad_result ''worker result structure is invalid''
               else if \<not> all_strings d [''id'', ''observed_at''] then Inl IllTyped
               else Inr (Some \<lparr>al_id = text_of d ''id'', al_execution_id = execution_id,
                 al_observed_at = text_of d ''observed_at'', al_resources = resources,
                 al_hosts = hosts, al_evidence = evidence\<rparr>)
           | _ \<Rightarrow> bad_result ''allocation evidence is invalid'')))"

section \<open>The whole bundle\<close>

definition result_states :: "string list" where
  "result_states = [''completed'', ''failed'', ''interrupted'', ''preflight_failed'',
     ''collection_failed'', ''cancelled'', ''unknown'']"

definition check_experiment :: "string \<Rightarrow> experiment_record option \<Rightarrow> artifact list \<Rightarrow> lineage list \<Rightarrow>
    unit result_res" where
  "check_experiment state experiment artifacts edges =
     (case experiment of
        None \<Rightarrow>
          if artifacts \<noteq> [] \<or> edges \<noteq> []
          then bad_result ''artifacts and lineage require an experiment''
          else raise_if (state \<notin> {''preflight_failed'', ''collection_failed'', ''cancelled'', ''unknown''})
            (BadResult ''a terminal workload state requires an experiment'')
      | Some e \<Rightarrow>
          if list_ex (\<lambda>a. ar_experiment_id a \<noteq> ex_id e) artifacts
          then bad_result ''artifact experiment IDs do not match''
          else if list_ex (\<lambda>l. li_child l \<noteq> ex_id e) edges
          then bad_result ''lineage child experiment IDs do not match''
          else raise_if (state \<noteq> ex_status e)
            (BadResult ''worker state does not match experiment status''))"

text \<open>
  An optional part: absent or null, or an object its class accepts. \<open>AttributeError\<close> is not among the
  exceptions the parser turns into its own.
\<close>

definition caught :: "py_error \<Rightarrow> result_error" where
  "caught e = (case e of PyAttributeError \<Rightarrow> Uncaught e | _ \<Rightarrow> BadResult ''worker outcome structure is invalid'')"

definition optional_part :: "string \<Rightarrow> (json dict \<Rightarrow> 'a pyres) \<Rightarrow> json \<Rightarrow> 'a option result_res" where
  "optional_part label parse v =
     (if v = JNull then Inr None
      else
        bindR (result_object v label) (\<lambda>d.
        mapErr caught (mapR Some (parse d))))"

definition outcomes_of :: "json dict \<Rightarrow> string \<Rightarrow> experiment_record option \<Rightarrow>
    (string option \<times> telemetry option \<times> verification option) result_res" where
  "outcomes_of d execution_id experiment =
     (case jget d ''request_id'' of
        JStr request_id \<Rightarrow>
          if request_id = [] then bad_result ''worker result request ID is invalid''
          else
            bindR (optional_part ''telemetry'' telemetry_from_dict (jget d ''telemetry'')) (\<lambda>t.
            bindR (optional_part ''verification'' verification_from_dict (jget d ''verification'')) (\<lambda>v.
            case experiment of
              None \<Rightarrow>
                if t \<noteq> None \<or> v \<noteq> None then bad_result ''worker outcomes require an experiment''
                else Inr (Some request_id, None, None)
            | Some e \<Rightarrow>
                (case v of
                   None \<Rightarrow> bad_result ''version-2 worker result requires verification''
                 | Some x \<Rightarrow>
                     if (case t of None \<Rightarrow> False | Some y \<Rightarrow> tm_request_id y \<noteq> request_id \<or>
                           tm_execution_id y \<noteq> execution_id \<or> tm_experiment_id y \<noteq> ex_id e) \<or>
                        vr_request_id x \<noteq> request_id \<or> vr_execution_id x \<noteq> execution_id \<or>
                        vr_experiment_id x \<noteq> ex_id e
                     then bad_result ''worker outcome relationships do not match''
                     else Inr (Some request_id, t, v))))
      | _ \<Rightarrow> bad_result ''worker result request ID is invalid'')"

definition evidence_of :: "json dict \<Rightarrow> string \<Rightarrow> experiment_record option \<Rightarrow>
    (runtime option \<times> termination_evidence option) result_res" where
  "evidence_of d execution_id experiment =
     bindR (optional_part ''runtime evidence'' runtime_from_dict (jget d ''runtime_evidence'')) (\<lambda>r.
     bindR (optional_part ''termination evidence'' termination_from_dict (jget d ''termination'')) (\<lambda>t.
     case (r, t) of
       (Some x, Some y) \<Rightarrow>
         if rt_execution x \<noteq> execution_id \<or> rt_experiment x \<noteq> map_option ex_id experiment
         then bad_result ''runtime evidence relationships do not match''
         else Inr (r, t)
     | _ \<Rightarrow> bad_result ''version-3 worker result requires runtime and termination evidence''))"

text \<open>\<open>protocol_version not in {1, 2, 3}\<close>: a list or an object raises.\<close>

definition check_version :: "json \<Rightarrow> rat result_res" where
  "check_version v =
     (if \<not> hashable v then Inl (Uncaught PyTypeError)
      else if version_number v \<in> {1, 2, 3} then Inr (version_number v)
      else bad_result ''unsupported worker result schema'')"

definition check_header :: "json dict \<Rightarrow> string \<Rightarrow> (string \<times> string \<times> string option \<times> json dict) result_res" where
  "check_header d execution_id =
     (if jget d ''execution_id'' \<noteq> JStr execution_id
      then bad_result ''worker result execution ID does not match''
      else
        bindR (result_string d ''state'' 64) (\<lambda>state.
        if state \<notin> set result_states then bad_result ''worker result state is invalid''
        else
          bindR (result_string d ''created_at'' 128) (\<lambda>created_at.
          if \<not> diagnostic_ok (jget d ''error'') then bad_result ''worker result error is invalid''
          else (case jget d ''preflight'' of
              JObj preflight \<Rightarrow>
                if result_bounded_json (JObj preflight)
                then Inr (state, created_at, opt_text (jget d ''error''), preflight)
                else bad_result ''worker preflight evidence is invalid''
            | _ \<Rightarrow> bad_result ''worker preflight evidence is invalid''))))"

definition parse_worker_result :: "json \<Rightarrow> string \<Rightarrow> worker_result result_res" where
  "parse_worker_result v execution_id =
     (case v of
        JObj d \<Rightarrow>
          bindR (check_version (jget d ''schema_version'')) (\<lambda>version.
          bindR (check_header d execution_id) (\<lambda>(state, created_at, err, preflight).
          case (jget d ''artifacts'', jget d ''lineage'') of
            (JArr artifacts, JArr edges) \<Rightarrow>
              if length artifacts > MAX_RESULT_ARTIFACTS
              then bad_result ''worker artifact list is invalid''
              else if length edges > MAX_RESULT_LINEAGE then bad_result ''worker lineage list is invalid''
              else
                bindR (mapM artifact_from_dict artifacts) (\<lambda>artifacts.
                bindR (mapM lineage_from_dict edges) (\<lambda>edges.
                bindR (experiment_from_dict (jget d ''experiment'')) (\<lambda>experiment.
                bindR (allocation_from_dict (jget d ''allocation'') execution_id) (\<lambda>allocation.
                bindR (check_experiment state experiment artifacts edges) (\<lambda>_.
                bindR (if version \<ge> 2 then outcomes_of d execution_id experiment
                       else Inr (None, None, None)) (\<lambda>(request_id, telemetry, verification).
                bindR (if version = 3 then evidence_of d execution_id experiment
                       else Inr (None, None)) (\<lambda>(evidence, termination).
                Inr \<lparr>wr_execution = execution_id, wr_state = state, wr_created_at = created_at,
                  wr_experiment = experiment, wr_artifacts = artifacts, wr_lineage = edges,
                  wr_allocation = allocation, wr_preflight = preflight, wr_error = err,
                  wr_request = request_id, wr_telemetry = telemetry,
                  wr_verification = verification, wr_runtime = evidence,
                  wr_termination = termination, wr_version = jget d ''schema_version''\<rparr>)))))))
          | (JArr _, _) \<Rightarrow> bad_result ''worker lineage list is invalid''
          | _ \<Rightarrow> bad_result ''worker artifact list is invalid''))
      | _ \<Rightarrow> bad_result ''worker result must be a JSON object'')"

text \<open>
  \<open>content\<close> is what the file holds, \<open>None\<close> when it cannot be read; \<open>loads\<close> decodes UTF-8 and JSON.
\<close>

definition load_worker_result :: "(string \<Rightarrow> json option) \<Rightarrow> string option \<Rightarrow> string \<Rightarrow>
    worker_result result_res" where
  "load_worker_result loads content execution_id =
     (case content of
        None \<Rightarrow> bad_result ''worker result is unavailable''
      | Some raw \<Rightarrow>
          if length raw > MAX_RESULT_BUNDLE_BYTES then bad_result ''worker result exceeds the size limit''
          else (case loads raw of
              None \<Rightarrow> bad_result ''worker result is not valid JSON''
            | Some v \<Rightarrow> parse_worker_result v execution_id))"

end
