(* ===== verification/WorkerResultProperties.thy ===== *)
theory WorkerResultProperties
  imports WorkerResults OutcomeProperties
begin

text \<open>
  Properties of result bundles: what a controller accepts is consistent, and what a worker wrote
  reads back as itself.
\<close>

section \<open>Accepted bundles\<close>

text \<open>The parts of a bundle belong together.\<close>

definition about :: "string \<Rightarrow> string \<Rightarrow> string \<Rightarrow> worker_result \<Rightarrow> bool" where
  "about request_id execution_id experiment_id r \<longleftrightarrow>
     (\<forall>t. wr_telemetry r = Some t \<longrightarrow> tm_request_id t = request_id \<and> tm_execution_id t = execution_id \<and>
        tm_experiment_id t = experiment_id) \<and>
     (\<exists>v. wr_verification r = Some v \<and> vr_request_id v = request_id \<and> vr_execution_id v = execution_id \<and>
        vr_experiment_id v = experiment_id)"

definition experiment_consistent :: "worker_result \<Rightarrow> bool" where
  "experiment_consistent r \<longleftrightarrow>
     (case wr_experiment r of
        None \<Rightarrow> wr_artifacts r = [] \<and> wr_lineage r = [] \<and> wr_telemetry r = None \<and>
          wr_verification r = None \<and>
          wr_state r \<in> {''preflight_failed'', ''collection_failed'', ''cancelled'', ''unknown''}
      | Some e \<Rightarrow> wr_state r = ex_status e \<and> (\<forall>a \<in> set (wr_artifacts r). ar_experiment_id a = ex_id e) \<and>
          (\<forall>l \<in> set (wr_lineage r). li_child l = ex_id e))"

definition evidence_consistent :: "worker_result \<Rightarrow> bool" where
  "evidence_consistent r \<longleftrightarrow>
     (version_number (wr_version r) = 1 \<longrightarrow>
        wr_request r = None \<and> wr_telemetry r = None \<and> wr_verification r = None) \<and>
     (version_number (wr_version r) \<ge> 2 \<longrightarrow>
        (\<exists>q. wr_request r = Some q \<and> q \<noteq> [] \<and>
           (\<forall>e. wr_experiment r = Some e \<longrightarrow> about q (wr_execution r) (ex_id e) r))) \<and>
     (if version_number (wr_version r) = 3
      then (\<exists>x y. wr_runtime r = Some x \<and> wr_termination r = Some y \<and> runtime_ok x \<and> termination_ok y \<and>
             rt_execution x = wr_execution r \<and> rt_experiment x = map_option ex_id (wr_experiment r))
      else wr_runtime r = None \<and> wr_termination r = None)"

lemma bad_result_not [simp]: "bad_result m \<noteq> Inr x" "Inr x \<noteq> bad_result m"
  by (simp_all add: bad_result_def)

lemma check_experiment_Inr:
  assumes "check_experiment state e0 artifacts edges = Inr u"
  shows "case e0 of
      None \<Rightarrow> artifacts = [] \<and> edges = [] \<and>
        state \<in> {''preflight_failed'', ''collection_failed'', ''cancelled'', ''unknown''}
    | Some e \<Rightarrow> state = ex_status e \<and> (\<forall>a \<in> set artifacts. ar_experiment_id a = ex_id e) \<and>
        (\<forall>l \<in> set edges. li_child l = ex_id e)"
  using assms by (cases e0) (simp_all add: check_experiment_def list_ex_iff result_simps split: if_splits)

lemma outcomes_of_Inr:
  assumes "outcomes_of d k experiment = Inr (q, t, v)"
  shows "\<exists>i. q = Some i \<and> i \<noteq> [] \<and>
    (case experiment of
       None \<Rightarrow> t = None \<and> v = None
     | Some e \<Rightarrow>
         (\<forall>y. t = Some y \<longrightarrow> tm_request_id y = i \<and> tm_execution_id y = k \<and> tm_experiment_id y = ex_id e) \<and>
         (\<exists>x. v = Some x \<and> vr_request_id x = i \<and> vr_execution_id x = k \<and> vr_experiment_id x = ex_id e))"
  using assms unfolding outcomes_of_def
  by (auto simp: bindR_Inr_iff split: json.splits if_splits option.splits)

lemma optional_part_Inr:
  "optional_part label parse v = Inr p \<Longrightarrow> p = None \<or> (\<exists>d x. p = Some x \<and> parse d = Inr x)"
  by (auto simp: optional_part_def bindR_Inr_iff result_simps split: if_splits)

lemma evidence_of_Inr:
  assumes "evidence_of d k experiment = Inr (r, t)"
  shows "\<exists>x y. r = Some x \<and> t = Some y \<and> runtime_ok x \<and> termination_ok y \<and> rt_execution x = k \<and>
    rt_experiment x = map_option ex_id experiment"
proof -
  obtain x y where xy: "r = Some x" "t = Some y" "rt_execution x = k" "rt_experiment x = map_option ex_id experiment"
    "optional_part ''runtime evidence'' runtime_from_dict (jget d ''runtime_evidence'') = Inr r"
    "optional_part ''termination evidence'' termination_from_dict (jget d ''termination'') = Inr t"
    using assms unfolding evidence_of_def by (auto simp: bindR_Inr_iff split: option.splits if_splits)
  with optional_part_Inr [OF xy(5)] optional_part_Inr [OF xy(6)] runtime_from_dict_ok termination_from_dict_ok
  show ?thesis by blast
qed

lemma check_version_Inr:
  "check_version v = Inr n \<Longrightarrow> n = version_number v \<and> n \<in> {1, 2, 3}"
  by (auto simp: check_version_def split: if_splits)

text \<open>The parser, taken apart.\<close>

lemma parse_worker_result_Inr:
  assumes "parse_worker_result v k = Inr r"
  obtains d as ls u where "v = JObj d"
    and "version_number (wr_version r) \<in> {1, 2, 3}"
    and "mapM artifact_from_dict as = Inr (wr_artifacts r)" "length as \<le> MAX_RESULT_ARTIFACTS"
    and "mapM lineage_from_dict ls = Inr (wr_lineage r)" "length ls \<le> MAX_RESULT_LINEAGE"
    and "check_header d k = Inr (wr_state r, wr_created_at r, wr_error r, wr_preflight r)"
    and "check_experiment (wr_state r) (wr_experiment r) (wr_artifacts r) (wr_lineage r) = Inr u"
    and "(if version_number (wr_version r) \<ge> 2 then outcomes_of d k (wr_experiment r)
          else Inr (None, None, None)) = Inr (wr_request r, wr_telemetry r, wr_verification r)"
    and "(if version_number (wr_version r) = 3 then evidence_of d k (wr_experiment r)
          else Inr (None, None)) = Inr (wr_runtime r, wr_termination r)"
    and "wr_execution r = k"
proof -
  obtain d where v: "v = JObj d" using assms by (cases v) (auto simp: parse_worker_result_def)
  obtain n state created err preflight where n: "check_version (jget d ''schema_version'') = Inr n"
    and h: "check_header d k = Inr (state, created, err, preflight)"
    using assms unfolding v parse_worker_result_def by (auto simp: bindR_Inr_iff)
  obtain as ls where al: "jget d ''artifacts'' = JArr as" "jget d ''lineage'' = JArr ls"
    "length as \<le> MAX_RESULT_ARTIFACTS" "length ls \<le> MAX_RESULT_LINEAGE"
    using assms n h unfolding v parse_worker_result_def
    by (auto simp: bindR_Inr_iff split: json.splits if_splits)
  obtain xs es e a u q t x y z where
    "mapM artifact_from_dict as = Inr xs" "mapM lineage_from_dict ls = Inr es"
    "check_experiment state e xs es = Inr u"
    "(if n \<ge> 2 then outcomes_of d k e else Inr (None, None, None)) = Inr (q, t, x)"
    "(if n = 3 then evidence_of d k e else Inr (None, None)) = Inr (y, z)"
    "r = \<lparr>wr_execution = k, wr_state = state, wr_created_at = created, wr_experiment = e,
       wr_artifacts = xs, wr_lineage = es, wr_allocation = a, wr_preflight = preflight,
       wr_error = err, wr_request = q, wr_telemetry = t, wr_verification = x, wr_runtime = y,
       wr_termination = z, wr_version = jget d ''schema_version''\<rparr>"
    using assms n h al unfolding v parse_worker_result_def
    by (simp add: bindR_Inr_iff) blast
  moreover have "version_number (jget d ''schema_version'') = n" "n \<in> {1, 2, 3}"
    using check_version_Inr [OF n] by blast+
  ultimately show thesis using h al v by (intro that) (simp_all, auto split: if_splits)
qed

lemma check_header_Inr:
  "check_header d k = Inr (s, c, e, p) \<Longrightarrow> s \<in> set result_states \<and> result_bounded_json (JObj p) \<and>
     (\<forall>m. e = Some m \<longrightarrow> length m \<le> 4096)"
  by (auto simp: check_header_def bindR_Inr_iff diagnostic_ok_def opt_text_def
      split: if_splits json.splits)


section \<open>Written bundles\<close>

abbreviation bounded_doc :: "json dict \<Rightarrow> bool" where
  "bounded_doc d \<equiv> result_bounded_json (JObj d)"

lemma result_object_doc [simp]: "bounded_doc d \<Longrightarrow> result_object (JObj d) label = Inr d"
  by (simp add: result_object_def)

lemma artifact_round_trip:
  assumes "bounded_doc (artifact_to_dict a)"
  shows "artifact_from_dict (JObj (artifact_to_dict a)) = Inr a"
proof -
  have "keywords_ok (artifact_to_dict a) artifact_required [''capture_error'']"
    by (simp add: keywords_ok_def has_unknown_def artifact_required_def artifact_to_dict_def)
  moreover have "all_strings (artifact_to_dict a) [''id'', ''experiment_id'', ''role'', ''original_path'',
      ''resolved_path'', ''existence_state'', ''capture_status'', ''captured_at'']"
    by (simp add: all_strings_def artifact_to_dict_def jget_def)
  moreover have "list_all (\<lambda>n. opt_text_ok (jget (artifact_to_dict a) n)) [''sha256'', ''modified_at'', ''capture_error'']"
    by (cases "ar_sha256 a"; cases "ar_modified_at a"; cases "ar_capture_error a")
      (simp_all add: opt_text_ok_def artifact_to_dict_def jget_def)
  ultimately show ?thesis using assms
    by (cases a) (simp add: artifact_from_dict_def, simp add: artifact_to_dict_def jget_def text_of_def)
qed

lemma lineage_round_trip:
  assumes "bounded_doc (lineage_to_dict l)"
  shows "lineage_from_dict (JObj (lineage_to_dict l)) = Inr l"
proof -
  have "keywords_ok (lineage_to_dict l) lineage_fields []" "all_strings (lineage_to_dict l) lineage_fields"
    by (simp_all add: keywords_ok_def has_unknown_def lineage_fields_def lineage_to_dict_def all_strings_def jget_def)
  with assms show ?thesis
    by (cases l) (simp add: lineage_from_dict_def, simp add: lineage_to_dict_def jget_def text_of_def)
qed

text \<open>A provenance document in the form \<open>asdict\<close> gives it.\<close>

definition provenance_ok :: "(string \<times> json option) list \<Rightarrow> json dict \<Rightarrow> bool" where
  "provenance_ok slots p \<longleftrightarrow> map fst p = map fst slots \<and> distinct (map fst slots)"

lemma provenance_round_trip:
  assumes "provenance_ok slots p" and "dict_get d k = Some (JObj p)"
  shows "provenance_from slots d k = Inr p"
proof -
  have keys: "map fst p = map fst slots" and dist: "distinct (map fst p)"
    using assms(1) by (simp_all add: provenance_ok_def)
  have "\<not> has_unknown p (map fst slots)"
    using keys by (simp add: has_unknown_def list_ex_iff)
  moreover have "\<not> list_ex (\<lambda>(n, z). z = None \<and> dict_get p n = None) slots"
  proof -
    have "n \<in> set (map fst p)" if "(n, z) \<in> set slots" for n z
      unfolding keys using that by force
    then show ?thesis by (fastforce simp: list_ex_iff map_of_eq_None_iff)
  qed
  moreover have "map (\<lambda>(n, z). (n, jget_or p n (f z))) slots = p" for f
  proof (rule nth_equalityI)
    show l: "length (map (\<lambda>(n, z). (n, jget_or p n (f z))) slots) = length p"
      using keys by (metis length_map)
    fix i assume "i < length (map (\<lambda>(n, z). (n, jget_or p n (f z))) slots)"
    then have i: "i < length slots" "i < length p" using l by simp_all
    then have "fst (slots ! i) = fst (p ! i)" using keys by (metis nth_map)
    moreover have "dict_get p (fst (p ! i)) = Some (snd (p ! i))"
      using dist i(2) by (simp add: map_of_eq_Some_iff)
    ultimately show "map (\<lambda>(n, z). (n, jget_or p n (f z))) slots ! i = p ! i"
      using i by (simp add: split_beta jget_or_def prod_eq_iff)
  qed
  ultimately show ?thesis using assms(2) by (simp add: provenance_from_def)
qed

definition experiment_ok :: "experiment_record \<Rightarrow> bool" where
  "experiment_ok e \<longleftrightarrow> bounded_doc (experiment_to_dict e) \<and> length (ex_arguments e) \<le> 4096 \<and>
     ex_status e \<in> {''completed'', ''failed'', ''interrupted''} \<and> finite_duration (ex_duration e) \<and>
     provenance_ok git_fields (ex_git e) \<and> provenance_ok system_fields (ex_system e) \<and>
     provenance_ok context_fields (ex_context e)"

lemma experiment_to_dict_get:
  "all_strings (experiment_to_dict e) [''id'', ''status'', ''command'', ''working_directory'', ''started_at'',
     ''ended_at'', ''stdout'', ''stderr'']"
  "jget (experiment_to_dict e) ''arguments'' = JArr (map JStr (ex_arguments e))"
  "jget (experiment_to_dict e) ''duration_seconds'' = ex_duration e"
  "jget (experiment_to_dict e) ''exit_code'' = JInt (ex_exit_code e)"
  "jget_or (experiment_to_dict e) ''schema_version'' z = JInt (ex_schema_version e)"
  "dict_get (experiment_to_dict e) ''git'' = Some (JObj (ex_git e))"
  "dict_get (experiment_to_dict e) ''system'' = Some (JObj (ex_system e))"
  "dict_get (experiment_to_dict e) ''execution_context'' = Some (JObj (ex_context e))"
  by (simp_all add: experiment_to_dict_def all_strings_def jget_def jget_or_def)

lemma experiment_to_dict_text:
  "text_of (experiment_to_dict e) ''id'' = ex_id e" "text_of (experiment_to_dict e) ''status'' = ex_status e"
  "text_of (experiment_to_dict e) ''command'' = ex_command e"
  "text_of (experiment_to_dict e) ''working_directory'' = ex_working_directory e"
  "text_of (experiment_to_dict e) ''started_at'' = ex_started_at e"
  "text_of (experiment_to_dict e) ''ended_at'' = ex_ended_at e"
  "text_of (experiment_to_dict e) ''stdout'' = ex_stdout e"
  "text_of (experiment_to_dict e) ''stderr'' = ex_stderr e"
  by (simp_all add: experiment_to_dict_def jget_def text_of_def)

lemma experiment_round_trip:
  assumes "experiment_ok e"
  shows "experiment_from_dict (JObj (experiment_to_dict e)) = Inr (Some e)"
proof -
  have "provenance_from git_fields (experiment_to_dict e) ''git'' = Inr (ex_git e)"
    "provenance_from system_fields (experiment_to_dict e) ''system'' = Inr (ex_system e)"
    "provenance_from context_fields (experiment_to_dict e) ''execution_context'' = Inr (ex_context e)"
    using assms by (simp_all add: experiment_ok_def provenance_round_trip experiment_to_dict_get)
  moreover have "bounded_doc (experiment_to_dict e)" "length (ex_arguments e) \<le> 4096"
    "ex_status e \<in> {''completed'', ''failed'', ''interrupted''}" "finite_duration (ex_duration e)"
    using assms by (simp_all add: experiment_ok_def)
  ultimately have "experiment_from_dict (JObj (experiment_to_dict e)) = Inr (Some
     \<lparr>ex_id = ex_id e, ex_status = ex_status e, ex_command = ex_command e, ex_arguments = ex_arguments e,
      ex_working_directory = ex_working_directory e, ex_started_at = ex_started_at e,
      ex_ended_at = ex_ended_at e, ex_duration = ex_duration e, ex_exit_code = ex_exit_code e,
      ex_stdout = ex_stdout e, ex_stderr = ex_stderr e, ex_git = ex_git e, ex_system = ex_system e,
      ex_context = ex_context e, ex_schema_version = ex_schema_version e\<rparr>)"
    by (simp add: experiment_from_dict_def experiment_to_dict_get experiment_to_dict_text)
  then show ?thesis by (cases e) simp
qed

definition allocation_ok :: "string \<Rightarrow> allocation \<Rightarrow> bool" where
  "allocation_ok k a \<longleftrightarrow> bounded_doc (allocation_to_dict a) \<and> al_execution_id a = k \<and>
     list_all (\<lambda>h. length h \<le> 1024) (al_hosts a) \<and> bounded_doc (al_resources a) \<and>
     bounded_doc (al_evidence a)"

lemma allocation_round_trip:
  assumes "allocation_ok k a"
  shows "allocation_from_dict (JObj (allocation_to_dict a)) k = Inr (Some a)"
proof -
  have get: "jget (allocation_to_dict a) ''execution_id'' = JStr (al_execution_id a)"
    "jget (allocation_to_dict a) ''resources'' = JObj (al_resources a)"
    "jget (allocation_to_dict a) ''hosts'' = JArr (map JStr (al_hosts a))"
    "jget_or (allocation_to_dict a) ''evidence'' z = JObj (al_evidence a)"
    "dict_get (allocation_to_dict a) ''id'' = Some (JStr (al_id a))"
    "dict_get (allocation_to_dict a) ''observed_at'' = Some (JStr (al_observed_at a))"
    "text_of (allocation_to_dict a) ''id'' = al_id a"
    "text_of (allocation_to_dict a) ''observed_at'' = al_observed_at a"
    "all_strings (allocation_to_dict a) [''id'', ''observed_at'']" for z
    by (simp_all add: allocation_to_dict_def jget_def jget_or_def text_of_def all_strings_def)
  have "\<not> list_ex (\<lambda>h. length h > 1024) (al_hosts a)"
    using assms by (simp add: allocation_ok_def list_ex_iff list_all_iff not_less)
  with assms have "allocation_from_dict (JObj (allocation_to_dict a)) k = Inr (Some
     \<lparr>al_id = al_id a, al_execution_id = al_execution_id a, al_observed_at = al_observed_at a,
      al_resources = al_resources a, al_hosts = al_hosts a, al_evidence = al_evidence a\<rparr>)"
    by (simp add: allocation_from_dict_def get allocation_ok_def)
  then show ?thesis by (cases a) simp
qed

lemma optional_part_round_trip:
  assumes "\<And>x. p = Some x \<Longrightarrow> bounded_doc (f x) \<and> parse (f x) = Inr x"
  shows "optional_part label parse (opt_json (JObj \<circ> f) p) = Inr p"
  using assms by (cases p) (simp_all add: optional_part_def)

definition optional_ok :: "('a \<Rightarrow> bool) \<Rightarrow> 'a option \<Rightarrow> bool" where
  "optional_ok ok p \<longleftrightarrow> (case p of None \<Rightarrow> True | Some x \<Rightarrow> ok x)"

definition verification_ok :: "verification \<Rightarrow> bool" where
  "verification_ok v \<longleftrightarrow> bounded_doc (verification_to_dict v) \<and> VerificationRun v = Inr v \<and>
     list_all check_result_ok (vr_checks v)"

definition worker_result_ok :: "worker_result \<Rightarrow> bool" where
  "worker_result_ok r \<longleftrightarrow>
     hashable (wr_version r) \<and> version_number (wr_version r) \<in> {1, 2, 3} \<and>
     wr_state r \<in> set result_states \<and> wr_created_at r \<noteq> [] \<and> length (wr_created_at r) \<le> 128 \<and>
     (\<forall>m. wr_error r = Some m \<longrightarrow> length m \<le> 4096) \<and> bounded_doc (wr_preflight r) \<and>
     length (wr_artifacts r) \<le> MAX_RESULT_ARTIFACTS \<and> length (wr_lineage r) \<le> MAX_RESULT_LINEAGE \<and>
     list_all (bounded_doc \<circ> artifact_to_dict) (wr_artifacts r) \<and>
     list_all (bounded_doc \<circ> lineage_to_dict) (wr_lineage r) \<and>
     optional_ok experiment_ok (wr_experiment r) \<and>
     optional_ok (allocation_ok (wr_execution r)) (wr_allocation r) \<and>
     optional_ok (\<lambda>t. bounded_doc (telemetry_to_dict t) \<and> telemetry_ok t) (wr_telemetry r) \<and>
     optional_ok verification_ok (wr_verification r) \<and>
     optional_ok (\<lambda>x. bounded_doc (runtime_to_dict x) \<and> runtime_ok x) (wr_runtime r) \<and>
     optional_ok (\<lambda>x. bounded_doc (termination_to_dict x) \<and> termination_ok x) (wr_termination r) \<and>
     experiment_consistent r \<and> evidence_consistent r"

lemma worker_result_to_dict_get:
  "jget (worker_result_to_dict r) ''schema_version'' = wr_version r"
  "jget (worker_result_to_dict r) ''execution_id'' = JStr (wr_execution r)"
  "jget (worker_result_to_dict r) ''state'' = JStr (wr_state r)"
  "jget (worker_result_to_dict r) ''created_at'' = JStr (wr_created_at r)"
  "jget (worker_result_to_dict r) ''error'' = opt_json JStr (wr_error r)"
  "jget (worker_result_to_dict r) ''preflight'' = JObj (wr_preflight r)"
  "jget (worker_result_to_dict r) ''artifacts'' = JArr (map (JObj \<circ> artifact_to_dict) (wr_artifacts r))"
  "jget (worker_result_to_dict r) ''lineage'' = JArr (map (JObj \<circ> lineage_to_dict) (wr_lineage r))"
  "jget (worker_result_to_dict r) ''experiment'' = opt_json (JObj \<circ> experiment_to_dict) (wr_experiment r)"
  "jget (worker_result_to_dict r) ''allocation'' = opt_json (JObj \<circ> allocation_to_dict) (wr_allocation r)"
  by (simp_all add: worker_result_to_dict_def jget_def)

lemma worker_result_to_dict_outcomes:
  "version_number (wr_version r) \<ge> 2 \<Longrightarrow>
   jget (worker_result_to_dict r) ''request_id'' = opt_json JStr (wr_request r) \<and>
   jget (worker_result_to_dict r) ''telemetry'' = opt_json (JObj \<circ> telemetry_to_dict) (wr_telemetry r) \<and>
   jget (worker_result_to_dict r) ''verification'' = opt_json (JObj \<circ> verification_to_dict) (wr_verification r)"
  "version_number (wr_version r) = 3 \<Longrightarrow>
   jget (worker_result_to_dict r) ''runtime_evidence'' = opt_json (JObj \<circ> runtime_to_dict) (wr_runtime r) \<and>
   jget (worker_result_to_dict r) ''termination'' = opt_json (JObj \<circ> termination_to_dict) (wr_termination r)"
  by (simp_all add: worker_result_to_dict_def jget_def)

lemma header_round_trip:
  assumes "worker_result_ok r"
  shows "check_header (worker_result_to_dict r) (wr_execution r)
    = Inr (wr_state r, wr_created_at r, wr_error r, wr_preflight r)"
proof -
  have "s \<in> set result_states \<Longrightarrow> s \<noteq> [] \<and> length s \<le> 64" for s
    by (auto simp: result_states_def)
  then have "result_string (worker_result_to_dict r) ''state'' 64 = Inr (wr_state r)"
    "result_string (worker_result_to_dict r) ''created_at'' 128 = Inr (wr_created_at r)"
    using assms by (simp_all add: result_string_def worker_result_to_dict_get worker_result_ok_def not_less)
  with assms show ?thesis
    by (simp add: check_header_def worker_result_to_dict_get worker_result_ok_def)
qed

lemma parts_round_trip:
  assumes "worker_result_ok r"
  shows "mapM artifact_from_dict (map (JObj \<circ> artifact_to_dict) (wr_artifacts r)) = Inr (wr_artifacts r)"
    and "mapM lineage_from_dict (map (JObj \<circ> lineage_to_dict) (wr_lineage r)) = Inr (wr_lineage r)"
    and "experiment_from_dict (opt_json (JObj \<circ> experiment_to_dict) (wr_experiment r)) = Inr (wr_experiment r)"
    and "allocation_from_dict (opt_json (JObj \<circ> allocation_to_dict) (wr_allocation r)) (wr_execution r)
      = Inr (wr_allocation r)"
proof -
  have ok: "list_all (bounded_doc \<circ> artifact_to_dict) (wr_artifacts r)"
    "list_all (bounded_doc \<circ> lineage_to_dict) (wr_lineage r)" "optional_ok experiment_ok (wr_experiment r)"
    "optional_ok (allocation_ok (wr_execution r)) (wr_allocation r)"
    using assms by (simp_all add: worker_result_ok_def)
  show "mapM artifact_from_dict (map (JObj \<circ> artifact_to_dict) (wr_artifacts r)) = Inr (wr_artifacts r)"
    using ok(1) by (rule mapM_round_trip) (simp add: artifact_round_trip)
  show "mapM lineage_from_dict (map (JObj \<circ> lineage_to_dict) (wr_lineage r)) = Inr (wr_lineage r)"
    using ok(2) by (rule mapM_round_trip) (simp add: lineage_round_trip)
  show "experiment_from_dict (opt_json (JObj \<circ> experiment_to_dict) (wr_experiment r)) = Inr (wr_experiment r)"
    using ok(3) by (cases "wr_experiment r")
      (simp_all add: experiment_from_dict_def [of JNull] experiment_round_trip optional_ok_def)
  show "allocation_from_dict (opt_json (JObj \<circ> allocation_to_dict) (wr_allocation r)) (wr_execution r)
      = Inr (wr_allocation r)"
    using ok(4) by (cases "wr_allocation r")
      (simp_all add: allocation_from_dict_def [of JNull] allocation_round_trip optional_ok_def)
qed

lemma outcomes_round_trip:
  assumes ok: "worker_result_ok r" and v: "version_number (wr_version r) \<ge> 2"
  shows "outcomes_of (worker_result_to_dict r) (wr_execution r) (wr_experiment r)
    = Inr (wr_request r, wr_telemetry r, wr_verification r)"
proof -
  obtain q where q: "wr_request r = Some q" "q \<noteq> []"
    and a: "\<And>e. wr_experiment r = Some e \<Longrightarrow> about q (wr_execution r) (ex_id e) r"
    using ok v by (auto simp: worker_result_ok_def evidence_consistent_def)
  have "optional_part l telemetry_from_dict (opt_json (JObj \<circ> telemetry_to_dict) (wr_telemetry r))
      = Inr (wr_telemetry r)" for l
    using ok by (intro optional_part_round_trip)
      (simp add: worker_result_ok_def optional_ok_def telemetry_round_trip)
  moreover have "optional_part l verification_from_dict (opt_json (JObj \<circ> verification_to_dict) (wr_verification r))
      = Inr (wr_verification r)" for l
    using ok verification_document by (intro optional_part_round_trip)
      (simp add: worker_result_ok_def optional_ok_def verification_ok_def)
  moreover have "wr_experiment r = None \<Longrightarrow> wr_telemetry r = None \<and> wr_verification r = None"
    using ok by (simp add: worker_result_ok_def experiment_consistent_def)
  ultimately show ?thesis
    using q a worker_result_to_dict_outcomes(1) [OF v]
    by (cases "wr_experiment r"; cases "wr_telemetry r") (force simp: outcomes_of_def about_def)+
qed

lemma evidence_round_trip:
  assumes ok: "worker_result_ok r" and v: "version_number (wr_version r) = 3"
  shows "evidence_of (worker_result_to_dict r) (wr_execution r) (wr_experiment r)
    = Inr (wr_runtime r, wr_termination r)"
proof -
  obtain x y where xy: "wr_runtime r = Some x" "wr_termination r = Some y" "rt_execution x = wr_execution r"
    "rt_experiment x = map_option ex_id (wr_experiment r)"
    using ok v by (auto simp: worker_result_ok_def evidence_consistent_def)
  have "optional_part l runtime_from_dict (opt_json (JObj \<circ> runtime_to_dict) (wr_runtime r))
      = Inr (wr_runtime r)" for l
    using ok by (intro optional_part_round_trip)
      (simp add: worker_result_ok_def optional_ok_def runtime_round_trip)
  moreover have "optional_part l termination_from_dict (opt_json (JObj \<circ> termination_to_dict) (wr_termination r))
      = Inr (wr_termination r)" for l
    using ok by (intro optional_part_round_trip)
      (simp add: worker_result_ok_def optional_ok_def termination_round_trip)
  ultimately show ?thesis
    using xy worker_result_to_dict_outcomes(2) [OF v] by (simp add: evidence_of_def)
qed

lemma worker_result_document:
  assumes "worker_result_ok r"
  shows "parse_worker_result (JObj (worker_result_to_dict r)) (wr_execution r) = Inr r"
proof -
  have version: "check_version (wr_version r) = Inr (version_number (wr_version r))"
    using assms by (auto simp: check_version_def worker_result_ok_def)
  have "check_experiment (wr_state r) (wr_experiment r) (wr_artifacts r) (wr_lineage r) = Inr ()"
    using assms by (auto simp: check_experiment_def worker_result_ok_def experiment_consistent_def
        list_ex_iff result_simps split: option.splits)
  moreover have "(if version_number (wr_version r) \<ge> 2
      then outcomes_of (worker_result_to_dict r) (wr_execution r) (wr_experiment r)
      else Inr (None, None, None)) = Inr (wr_request r, wr_telemetry r, wr_verification r)"
    using assms outcomes_round_trip by (auto simp: worker_result_ok_def evidence_consistent_def)
  moreover have "(if version_number (wr_version r) = 3
      then evidence_of (worker_result_to_dict r) (wr_execution r) (wr_experiment r)
      else Inr (None, None)) = Inr (wr_runtime r, wr_termination r)"
    using assms evidence_round_trip by (auto simp: worker_result_ok_def evidence_consistent_def)
  moreover have "length (wr_artifacts r) \<le> MAX_RESULT_ARTIFACTS" "length (wr_lineage r) \<le> MAX_RESULT_LINEAGE"
    using assms by (simp_all add: worker_result_ok_def)
  ultimately have "parse_worker_result (JObj (worker_result_to_dict r)) (wr_execution r) = Inr
     \<lparr>wr_execution = wr_execution r, wr_state = wr_state r, wr_created_at = wr_created_at r,
      wr_experiment = wr_experiment r, wr_artifacts = wr_artifacts r, wr_lineage = wr_lineage r,
      wr_allocation = wr_allocation r, wr_preflight = wr_preflight r, wr_error = wr_error r,
      wr_request = wr_request r, wr_telemetry = wr_telemetry r, wr_verification = wr_verification r,
      wr_runtime = wr_runtime r, wr_termination = wr_termination r, wr_version = wr_version r\<rparr>"
    using header_round_trip [OF assms] parts_round_trip [OF assms] version
    by (simp add: parse_worker_result_def worker_result_to_dict_get not_less)
  then show ?thesis by (cases r) simp
qed

text \<open>
  C40. What a worker writes, the controller reads back: the document of a well-formed result parses,
  for the result's execution, to exactly that result.
\<close>

theorem worker_result_round_trip:
  assumes "worker_result_ok r"
  shows "parse_worker_result (JObj (worker_result_to_dict r)) (wr_execution r) = Inr r"
  using assms by (rule worker_result_document)

section \<open>A concrete bundle\<close>

definition null_document :: "(string \<times> json option) list \<Rightarrow> json dict" where
  "null_document slots = map (\<lambda>(n, _). (n, JNull)) slots"

definition sample_result_experiment :: experiment_record where
  "sample_result_experiment = sample_experiment\<lparr>ex_git := null_document git_fields,
     ex_system := null_document system_fields, ex_context := null_document context_fields\<rparr>"

definition sample_result_verification :: verification where
  "sample_result_verification = \<lparr>vr_id = ''V'', vr_request_id = ''ID'', vr_execution_id = ''E'',
     vr_experiment_id = ''X'', vr_aggregate = ''not_requested'', vr_evaluated_at = ''t1'',
     vr_source = ''captured'', vr_checks = []\<rparr>"

definition sample_worker_result :: worker_result where
  "sample_worker_result = \<lparr>wr_execution = ''E'', wr_state = ''completed'', wr_created_at = ''t1'',
     wr_experiment = Some sample_result_experiment, wr_artifacts = [sample_output], wr_lineage = [],
     wr_allocation = None, wr_preflight = [], wr_error = None, wr_request = Some ''ID'',
     wr_telemetry = None, wr_verification = Some sample_result_verification, wr_runtime = None,
     wr_termination = None, wr_version = JInt 2\<rparr>"

lemma sample_experiment_ok: "experiment_ok sample_result_experiment"
  by (simp add: experiment_ok_def sample_result_experiment_def sample_experiment_def experiment_to_dict_def
      result_bounded_json_def MAX_RESULT_BUNDLE_BYTES_def finite_duration_def provenance_ok_def
      null_document_def git_fields_def system_fields_def context_fields_def)

lemma sample_output_ok: "bounded_doc (artifact_to_dict sample_output)"
proof -
  have "artifact_to_dict sample_output =
     [(''id'', JStr ''A''), (''experiment_id'', JStr ''X''), (''role'', JStr ''output''),
      (''original_path'', JStr ''o''), (''resolved_path'', JStr ''/w/o''), (''existence_state'', JStr ''present''),
      (''capture_status'', JStr ''complete''), (''sha256'', JStr ''aa''), (''size_bytes'', JInt 7),
      (''modified_at'', JStr ''t0''), (''captured_at'', JStr ''t1''), (''capture_error'', JNull)]"
    by (simp add: artifact_to_dict_def sample_output_def opt_int_def sample_request_def)
  then show ?thesis by (simp add: result_bounded_json_def MAX_RESULT_BUNDLE_BYTES_def)
qed

lemma sample_verification_ok: "verification_ok sample_result_verification"
  by (simp add: verification_ok_def sample_result_verification_def verification_to_dict_def
      result_bounded_json_def MAX_RESULT_BUNDLE_BYTES_def VerificationRun_def)

lemma empty_bounded: "bounded_doc []"
  by (simp add: result_bounded_json_def)

lemma sample_result_ok: "worker_result_ok sample_worker_result"
  unfolding worker_result_ok_def sample_worker_result_def
  by (simp add: sample_experiment_ok sample_output_ok sample_verification_ok optional_ok_def
      version_number_def result_states_def empty_bounded MAX_RESULT_ARTIFACTS_def
      experiment_consistent_def evidence_consistent_def about_def)
    (simp add: sample_result_experiment_def sample_experiment_def sample_output_def
      sample_result_verification_def)

theorem worker_result_round_trip_witness:
  "parse_worker_result (JObj (worker_result_to_dict sample_worker_result)) ''E'' = Inr sample_worker_result"
proof -
  have "wr_execution sample_worker_result = ''E''" by (simp add: sample_worker_result_def)
  then show ?thesis using worker_result_round_trip [OF sample_result_ok] by simp
qed


text \<open>
  A verification run whose checks are not objects makes the parser raise \<open>AttributeError\<close>, which it
  does not turn into its own error; a list as schema version makes it raise \<open>TypeError\<close>.
\<close>

lemma malformed_bundles_escape:
  "optional_part ''verification'' verification_from_dict (JObj [(''id'', JStr ''V''), (''request_id'', JStr ''Q''),
     (''execution_id'', JStr ''E''), (''experiment_id'', JStr ''X''), (''aggregate_state'', JStr ''passed''),
     (''evaluated_at'', JStr ''t''), (''source'', JStr ''s''), (''checks'', JArr [JNull])])
   = Inl (Uncaught PyAttributeError)"
  "parse_worker_result (JObj [(''schema_version'', JArr [])]) k = Inl (Uncaught PyTypeError)"
  subgoal
    by (simp add: optional_part_def result_object_def result_bounded_json_def MAX_RESULT_BUNDLE_BYTES_def
        verification_from_dict_def all_strings_def jget_def jget_or_def check_result_from_dict_def
        caught_def mapR_def)
  subgoal by (simp add: parse_worker_result_def jget_def check_version_def)
  done

end
