(* ===== verification/StagedPlans.thy ===== *)
theory StagedPlans
  imports WorkerResults RequestDocuments ExecutionStore
begin

text \<open>
  The plan handed to a compute node: the documents of plans, workloads and requests
  (\<open>workload_models.py\<close>, \<open>planning_models.py\<close>, \<open>execution_request.py\<close>), the staged document the
  controller writes (\<open>worker_bundle.py\<close>) and the one the compute worker accepts
  (\<open>_load_plan\<close> of \<open>compute_worker.py\<close>).

  As in a result bundle, the code leaves the types of some fields unchecked: a document that puts a
  value of another type there is \<open>StagedIllTyped\<close>, of which nothing is claimed.
\<close>

datatype staged_error =
    StagedRaised py_error
  | StagedRefused request_error
  | StagedUnavailable
  | StagedIllTyped

type_synonym 'a staged = "(staged_error, 'a) res"

abbreviation staged_value_error :: "string \<Rightarrow> 'a staged" where
  "staged_value_error message \<equiv> Inl (StagedRaised (PyValueError message))"

abbreviation staged_type_error :: "'a staged" where
  "staged_type_error \<equiv> Inl (StagedRaised PyTypeError)"

section \<open>Documents\<close>

definition resources_to_dict :: "resources \<Rightarrow> json dict" where
  "resources_to_dict r =
     [(''cpus'', opt_int (r_cpus r)), (''gpus'', opt_int (r_gpus r)), (''nodes'', opt_int (r_nodes r)),
      (''mpi_ranks'', opt_int (r_mpi_ranks r)), (''memory_bytes'', opt_int (r_memory_bytes r)),
      (''walltime_seconds'', opt_int (r_walltime_seconds r))]"

definition constraints_to_dict :: "constraints \<Rightarrow> json dict" where
  "constraints_to_dict x =
     [(''backend'', JStr (x_backend x)), (''target'', opt_json JStr (x_target x)),
      (''context'', opt_json JStr (x_context x))]"

definition decision_to_dict :: "decision \<Rightarrow> json dict" where
  "decision_to_dict d =
     [(''state'', JStr (de_state d)), (''subject'', JStr (de_subject d)),
      (''message'', JStr (de_message d)), (''subject_id'', opt_json JStr (de_subject_id d))]"

definition evidence_to_dict :: "evidence \<Rightarrow> json dict" where
  "evidence_to_dict e =
     [(''subject'', JStr (ve_subject e)), (''state'', JStr (ve_state e)),
      (''source'', JStr (ve_source e)), (''value'', ve_value e),
      (''detail'', opt_json JStr (ve_detail e))]"

definition requirement_to_dict :: "capability_requirement \<Rightarrow> json dict" where
  "requirement_to_dict c =
     [(''kind'', JStr (cr_kind c)), (''name'', JStr (cr_name c)),
      (''evidence_state'', JStr (cr_evidence_state c)), (''required'', JBool (cr_required c))]"

definition launcher_to_dict :: "launcher \<Rightarrow> json dict" where
  "launcher_to_dict l =
     [(''name'', opt_json JStr (l_name l)), (''mpi_ranks'', JInt (l_mpi_ranks l)),
      (''evidence_state'', JStr (l_evidence_state l))]"

definition mount_to_dict :: "mount \<Rightarrow> json dict" where
  "mount_to_dict m =
     [(''source'', JStr (m_source m)), (''destination'', JStr (m_destination m)),
      (''read_only'', JBool (m_read_only m))]"

definition container_to_dict :: "container \<Rightarrow> json dict" where
  "container_to_dict c =
     [(''runtime'', JStr (c_runtime c)), (''image'', JStr (c_image c)),
      (''mounts'', JArr (map (JObj \<circ> mount_to_dict) (c_mounts c))),
      (''clean_environment'', JBool (c_clean_environment c)),
      (''image_digest'', opt_json JStr (c_image_digest c))]"

definition workload_to_dict :: "workload \<Rightarrow> json dict" where
  "workload_to_dict w =
     [(''id'', JStr (w_id w)), (''created_at'', JStr (w_created_at w)),
      (''working_directory'', JStr (w_working_directory w)), (''executable'', JStr (w_executable w)),
      (''arguments'', strings (w_arguments w)), (''inputs'', strings (w_inputs w)),
      (''outputs'', strings (w_outputs w)), (''resources'', JObj (resources_to_dict (w_resources w))),
      (''capability_requirements'', JArr (map (JObj \<circ> requirement_to_dict) (w_capabilities w))),
      (''launcher_requirement'', opt_json (JObj \<circ> launcher_to_dict) (w_launcher w)),
      (''constraints'', JObj (constraints_to_dict (w_constraints w))),
      (''evidence'', JArr (map (JObj \<circ> evidence_to_dict) (w_evidence w))),
      (''parent_experiment_id'', opt_json JStr (w_parent w)),
      (''project_markers'', strings (w_markers w)), (''metadata'', JObj (w_metadata w))]"

definition plan_to_dict :: "plan \<Rightarrow> json dict" where
  "plan_to_dict p =
     [(''id'', JStr (pl_id p)), (''workload_id'', JStr (pl_workload_id p)),
      (''inventory_snapshot_id'', JStr (pl_inventory_id p)), (''backend'', JStr (pl_backend p)),
      (''access_target_id'', JStr (pl_access p)),
      (''execution_target_id'', opt_json JStr (pl_target p)),
      (''execution_context_id'', opt_json JStr (pl_context p)),
      (''scheduler_id'', opt_json JStr (pl_scheduler p)),
      (''requested_resources'', JObj (resources_to_dict (pl_resources p))),
      (''executable'', JStr (pl_executable p)), (''arguments'', strings (pl_arguments p)),
      (''working_directory'', JStr (pl_working_directory p)),
      (''inputs'', strings (pl_inputs p)), (''outputs'', strings (pl_outputs p)),
      (''compatibility_state'', JStr (pl_state p)),
      (''unresolved_conditions'', strings (pl_unresolved p)),
      (''decision_evidence'', JArr (map (JObj \<circ> decision_to_dict) (pl_evidence p))),
      (''created_at'', JStr (pl_created_at p)), (''site_id'', opt_json JStr (pl_site_id p)),
      (''resource_shape'', opt_json (JObj \<circ> shape_to_dict) (pl_shape p)),
      (''environment'', opt_json (JObj \<circ> environment_to_dict) (pl_environment p)),
      (''workload_variant_id'', opt_json JStr (pl_variant_id p)),
      (''selection_summary_id'', opt_json JStr (pl_selection_id p)),
      (''policy_basis'', JArr (pl_policy_basis p)),
      (''container'', opt_json (JObj \<circ> container_to_dict) (pl_container p))]"

definition source_to_dict :: "source \<Rightarrow> json dict" where
  "source_to_dict s =
     [(''kind'', JStr (so_kind s)),
      (''metadata'', JObj (map (\<lambda>(k, v). (k, JStr v)) (so_metadata s)))]"

definition request_to_dict :: "request \<Rightarrow> json dict" where
  "request_to_dict r =
     [(''id'', JStr (rq_id r)), (''created_at'', JStr (rq_created_at r)), (''kind'', JStr (rq_kind r)),
      (''request_schema_version'', JInt (rq_version r)), (''command'', strings (rq_command r)),
      (''base_directory'', JStr (rq_base_directory r)),
      (''working_directory'', JStr (rq_working_directory r)),
      (''resolved_working_directory'', JStr (rq_resolved_working_directory r)),
      (''artifacts'', JObj [(''inputs'', strings (rq_inputs r)), (''outputs'', strings (rq_outputs r))]),
      (''resources'', JObj (resources_to_dict (rq_resources r))),
      (''execution'', JObj (constraints_to_dict (rq_execution r))),
      (''requested_parent_experiment'', opt_json JStr (rq_requested_parent r)),
      (''resolved_parent_experiment_id'', opt_json JStr (rq_resolved_parent r)),
      (''telemetry_mode'', JStr (rq_telemetry_mode r)),
      (''verification_checks'', JArr (map (JObj \<circ> check_to_dict) (rq_checks r))),
      (''source'', JObj (source_to_dict (rq_source r)))]"

section \<open>Staging\<close>

definition staged_version :: "plan \<Rightarrow> request option \<Rightarrow> int" where
  "staged_version p request =
     (case request of
        None \<Rightarrow> 1
      | Some r \<Rightarrow>
          if pl_container p \<noteq> None \<or> rq_version r \<ge> 2 then 4
          else if pl_site_id p \<noteq> None \<or> pl_shape p \<noteq> None \<or> pl_environment p \<noteq> None \<or>
                  pl_variant_id p \<noteq> None \<or> pl_selection_id p \<noteq> None \<or> pl_policy_basis p \<noteq> []
          then 3 else 2)"

definition staged_document :: "string \<Rightarrow> plan \<Rightarrow> workload \<Rightarrow> request option \<Rightarrow> json dict" where
  "staged_document execution_id p w request =
     [(''schema_version'', JInt (staged_version p request)), (''execution_id'', JStr execution_id),
      (''plan'', JObj (plan_to_dict p)), (''workload'', JObj (workload_to_dict w))]
     @ opt_field ''request'' (JObj \<circ> request_to_dict) request"

text \<open>\<open>write_staged_plan\<close>: the bytes that are written.\<close>

definition write_staged_plan :: "(py_float \<Rightarrow> string) \<Rightarrow> string \<Rightarrow> plan \<Rightarrow> workload \<Rightarrow> request option \<Rightarrow>
    string pyres" where
  "write_staged_plan floats execution_id p w request =
     (if pl_workload_id p \<noteq> w_id w then value_error ''workload does not match staged plan''
      else if (case request of None \<Rightarrow> False
               | Some r \<Rightarrow> rq_command r \<noteq> workload_argv w \<or> rq_resolved_parent r \<noteq> w_parent w)
      then value_error ''execution request does not match staged workload''
      else
        let raw = utf8_encode (json_dumps floats (JObj (staged_document execution_id p w request))) in
        if length raw > 1024 * 1024 then value_error ''staged plan exceeds the size limit''
        else Inr raw)"

section \<open>Reading the parts\<close>

text \<open>\<open>cls(**v)\<close>: the value must be an object with the parameters of the class.\<close>

definition keyword_object :: "json \<Rightarrow> string list \<Rightarrow> string list \<Rightarrow> json dict staged" where
  "keyword_object v required optional =
     (case v of
        JObj d \<Rightarrow> if keywords_ok d required optional then Inr d else staged_type_error
      | _ \<Rightarrow> staged_type_error)"

text \<open>\<open>self.state not in {...}\<close>\<close>

definition member_text :: "json \<Rightarrow> string list \<Rightarrow> string \<Rightarrow> string staged" where
  "member_text v allowed message =
     (if \<not> hashable v then staged_type_error
      else if is_str v \<and> the_str v \<in> set allowed then Inr (the_str v)
      else staged_value_error message)"

definition plain_text :: "json \<Rightarrow> string staged" where
  "plain_text v = (case v of JStr s \<Rightarrow> Inr s | _ \<Rightarrow> Inl StagedIllTyped)"

definition plain_opt_text :: "json \<Rightarrow> string option staged" where
  "plain_opt_text v = (case v of JNull \<Rightarrow> Inr None | JStr s \<Rightarrow> Inr (Some s) | _ \<Rightarrow> Inl StagedIllTyped)"

definition plain_texts :: "json list \<Rightarrow> string list staged" where
  "plain_texts xs = (if list_all is_str xs then Inr (map the_str xs) else Inl StagedIllTyped)"

definition staged_item :: "json dict \<Rightarrow> string \<Rightarrow> json staged" where
  "staged_item d k = mapErr StagedRaised (subscript d k)"

definition staged_list :: "json \<Rightarrow> json list staged" where
  "staged_list v = mapErr StagedRaised (py_list v)"

text \<open>An integer that is at least the bound, or nothing; a boolean is refused.\<close>

definition count_field :: "json dict \<Rightarrow> string \<Rightarrow> int \<Rightarrow> int option staged" where
  "count_field d k least =
     (case jget d k of
        JNull \<Rightarrow> Inr None
      | JInt i \<Rightarrow>
          if i < least then staged_value_error (k @ '' must be at least '' @ str_int least)
          else Inr (Some i)
      | _ \<Rightarrow> staged_value_error (k @ '' must be at least '' @ str_int least))"

definition resources_from_dict :: "json \<Rightarrow> resources staged" where
  "resources_from_dict v =
     bindR (keyword_object v []
       [''cpus'', ''gpus'', ''nodes'', ''mpi_ranks'', ''memory_bytes'', ''walltime_seconds'']) (\<lambda>d.
     bindR (count_field d ''cpus'' 1) (\<lambda>cpus.
     bindR (count_field d ''nodes'' 1) (\<lambda>nodes.
     bindR (count_field d ''mpi_ranks'' 1) (\<lambda>mpi_ranks.
     bindR (count_field d ''memory_bytes'' 1) (\<lambda>memory_bytes.
     bindR (count_field d ''walltime_seconds'' 1) (\<lambda>walltime_seconds.
     bindR (count_field d ''gpus'' 0) (\<lambda>gpus.
     Inr \<lparr>r_cpus = cpus, r_gpus = gpus, r_nodes = nodes, r_mpi_ranks = mpi_ranks,
       r_memory_bytes = memory_bytes, r_walltime_seconds = walltime_seconds\<rparr>)))))))"

definition constraints_from_dict :: "json \<Rightarrow> constraints staged" where
  "constraints_from_dict v =
     bindR (keyword_object v [] [''backend'', ''target'', ''context'']) (\<lambda>d.
     bindR (member_text (jget_or d ''backend'' (JStr ''auto'')) backend_names
       ''unsupported backend'') (\<lambda>backend.
     bindR (plain_opt_text (jget d ''target'')) (\<lambda>target.
     bindR (plain_opt_text (jget d ''context'')) (\<lambda>context.
     Inr \<lparr>x_backend = backend, x_target = target, x_context = context\<rparr>))))"

definition decision_from_dict :: "json \<Rightarrow> decision staged" where
  "decision_from_dict v =
     bindR (keyword_object v [''state'', ''subject'', ''message''] [''subject_id'']) (\<lambda>d.
     bindR (member_text (jget d ''state'') evidence_states ''unsupported evidence state'') (\<lambda>state.
     bindR (plain_text (jget d ''subject'')) (\<lambda>subject.
     bindR (plain_text (jget d ''message'')) (\<lambda>message.
     bindR (plain_opt_text (jget d ''subject_id'')) (\<lambda>subject_id.
     Inr \<lparr>de_state = state, de_subject = subject, de_message = message,
       de_subject_id = subject_id\<rparr>)))))"

definition evidence_from_dict :: "json \<Rightarrow> evidence staged" where
  "evidence_from_dict v =
     bindR (keyword_object v [''subject'', ''state'', ''source''] [''value'', ''detail'']) (\<lambda>d.
     bindR (member_text (jget d ''state'') evidence_states ''unsupported evidence state'') (\<lambda>state.
     bindR (plain_text (jget d ''subject'')) (\<lambda>subject.
     bindR (plain_text (jget d ''source'')) (\<lambda>source.
     bindR (plain_opt_text (jget d ''detail'')) (\<lambda>detail.
     Inr \<lparr>ve_subject = subject, ve_state = state, ve_source = source, ve_value = jget d ''value'',
       ve_detail = detail\<rparr>)))))"

definition capability_from_dict :: "json \<Rightarrow> capability_requirement staged" where
  "capability_from_dict v =
     bindR (keyword_object v [''kind'', ''name'', ''evidence_state''] [''required'']) (\<lambda>d.
     bindR (member_text (jget d ''evidence_state'') evidence_states
       ''unsupported evidence state'') (\<lambda>state.
     bindR (plain_text (jget d ''kind'')) (\<lambda>kind.
     bindR (plain_text (jget d ''name'')) (\<lambda>name.
     case jget_or d ''required'' (JBool True) of
       JBool required \<Rightarrow>
         Inr \<lparr>cr_kind = kind, cr_name = name, cr_evidence_state = state, cr_required = required\<rparr>
     | _ \<Rightarrow> Inl StagedIllTyped))))"

definition launcher_from_dict :: "json \<Rightarrow> launcher staged" where
  "launcher_from_dict v =
     bindR (keyword_object v [''name'', ''mpi_ranks'', ''evidence_state''] []) (\<lambda>d.
     case jget d ''mpi_ranks'' of
       JInt ranks \<Rightarrow>
         if ranks < 1 then staged_value_error ''mpi_ranks must be at least 1''
         else
           bindR (member_text (jget d ''evidence_state'') evidence_states
             ''unsupported evidence state'') (\<lambda>state.
           bindR (plain_opt_text (jget d ''name'')) (\<lambda>name.
           Inr \<lparr>l_name = name, l_mpi_ranks = ranks, l_evidence_state = state\<rparr>))
     | _ \<Rightarrow> staged_value_error ''mpi_ranks must be at least 1'')"

section \<open>Containers and environments\<close>

definition mount_from_dict :: "json \<Rightarrow> mount staged" where
  "mount_from_dict v =
     bindR (keyword_object v [''source'', ''destination''] [''read_only'']) (\<lambda>d.
     case (jget d ''source'', jget d ''destination'') of
       (JStr source, JStr destination) \<Rightarrow>
         bindR (mapErr StagedRaised (ContainerMount
           \<lparr>m_source = source, m_destination = destination, m_read_only = True\<rparr>)) (\<lambda>m.
         case jget_or d ''read_only'' (JBool True) of
           JBool b \<Rightarrow> Inr (m\<lparr>m_read_only := b\<rparr>)
         | _ \<Rightarrow> staged_value_error ''container bind read_only must be boolean'')
     | _ \<Rightarrow> staged_value_error ''container bind paths must be absolute'')"

definition container_fields :: "string list" where
  "container_fields = [''runtime'', ''image'', ''mounts'', ''clean_environment'', ''image_digest'']"

text \<open>\<open>set(value) - {...}\<close>, then \<open>value.get\<close>, of a value that is no object.\<close>

definition container_not_object :: "json \<Rightarrow> py_error" where
  "container_not_object v =
     (case v of
        JStr s \<Rightarrow>
          if s = [] then PyAttributeError
          else PyValueError ''container execution contains unknown fields''
      | JArr xs \<Rightarrow>
          if \<not> list_all hashable xs then PyTypeError
          else if list_ex (\<lambda>x. x \<notin> JStr ` set container_fields) xs
          then PyValueError ''container execution contains unknown fields''
          else PyAttributeError
      | _ \<Rightarrow> PyTypeError)"

definition mount_documents :: "json \<Rightarrow> json list staged" where
  "mount_documents v =
     (case v of
        JArr xs \<Rightarrow>
          if list_all (\<lambda>x. case x of
                JObj d \<Rightarrow> \<not> has_unknown d [''source'', ''destination'', ''read_only''] | _ \<Rightarrow> False) xs
          then Inr xs else staged_value_error ''container mounts must be bounded objects''
      | _ \<Rightarrow> staged_value_error ''container mounts must be bounded objects'')"

definition container_from_dict :: "json \<Rightarrow> container staged" where
  "container_from_dict v =
     (case v of
        JObj d \<Rightarrow>
          if has_unknown d container_fields
          then staged_value_error ''container execution contains unknown fields''
          else
            bindR (mount_documents (jget_or d ''mounts'' (JArr []))) (\<lambda>documents.
            bindR (staged_item d ''runtime'') (\<lambda>runtime.
            bindR (staged_item d ''image'') (\<lambda>image.
            bindR (mapM mount_from_dict documents) (\<lambda>mounts.
            if \<not> is_str runtime then staged_value_error ''unsupported container runtime''
            else
              bindR (mapErr StagedRaised (ContainerExecution
                \<lparr>c_runtime = the_str runtime, c_image = (if is_str image then the_str image else []),
                 c_mounts = mounts, c_clean_environment = True, c_image_digest = None\<rparr>)) (\<lambda>c.
              case jget_or d ''clean_environment'' (JBool True) of
                JBool clean \<Rightarrow>
                  (case jget d ''image_digest'' of
                     JNull \<Rightarrow> Inr (c\<lparr>c_clean_environment := clean\<rparr>)
                   | JStr digest \<Rightarrow>
                       if SHA256_DIGEST digest
                       then Inr (c\<lparr>c_clean_environment := clean, c_image_digest := Some digest\<rparr>)
                       else staged_value_error ''container image digest must use sha256:<hex>''
                   | _ \<Rightarrow> staged_value_error ''container image digest must use sha256:<hex>'')
              | _ \<Rightarrow> staged_value_error ''container clean_environment must be boolean'')))))
      | _ \<Rightarrow> Inl (StagedRaised (container_not_object v)))"

definition environment_from_dict :: "site_env \<Rightarrow> json \<Rightarrow> environment staged" where
  "environment_from_dict x v =
     (case v of
        JObj d \<Rightarrow>
          bindR (staged_item d ''context_id'') (\<lambda>context_id.
          bindR (staged_item d ''name'') (\<lambda>name.
          bindR (staged_item d ''kind'') (\<lambda>kind.
          bindR (staged_item d ''state'') (\<lambda>state.
          bindR (staged_item d ''activation'') (\<lambda>activation.
          bindR (mapErr StagedRaised (activation_from_dict x activation)) (\<lambda>activation.
          bindR (staged_list (jget_or d ''evidence'' (JArr []))) (\<lambda>evidence.
          bindR (staged_list (jget_or d ''unresolved'' (JArr []))) (\<lambda>unresolved.
          bindR (plain_text context_id) (\<lambda>context_id.
          bindR (plain_text name) (\<lambda>name.
          bindR (plain_text kind) (\<lambda>kind.
          bindR (plain_text state) (\<lambda>state.
          bindR (plain_texts unresolved) (\<lambda>unresolved.
          Inr \<lparr>re_context_id = context_id, re_name = name, re_kind = kind, re_state = state,
            re_activation = activation, re_evidence = evidence, re_unresolved = unresolved\<rparr>)))))))))))))
      | _ \<Rightarrow> staged_type_error)"

text \<open>\<open>None if v is None else parse(v)\<close>\<close>

definition optional_value :: "(json \<Rightarrow> 'a staged) \<Rightarrow> json \<Rightarrow> 'a option staged" where
  "optional_value parse v = (if v = JNull then Inr None else mapR Some (parse v))"

definition staged_shape :: "json \<Rightarrow> shape staged" where
  "staged_shape v =
     (case v of JObj d \<Rightarrow> mapErr StagedRaised (shape_from_dict d) | _ \<Rightarrow> staged_type_error)"

section \<open>Reading plans, workloads and requests\<close>

definition text_field :: "json dict \<Rightarrow> string \<Rightarrow> string staged" where
  "text_field d k = bindR (staged_item d k) plain_text"

definition texts_field :: "json dict \<Rightarrow> string \<Rightarrow> string list staged" where
  "texts_field d k = bindR (staged_item d k) (\<lambda>v. bindR (staged_list v) plain_texts)"

definition items_field :: "json dict \<Rightarrow> string \<Rightarrow> (json \<Rightarrow> 'a staged) \<Rightarrow> 'a list staged" where
  "items_field d k parse = bindR (staged_item d k) (\<lambda>v. bindR (staged_list v) (mapM parse))"

definition plan_from_dict :: "site_env \<Rightarrow> json dict \<Rightarrow> plan staged" where
  "plan_from_dict x d =
     bindR (text_field d ''id'') (\<lambda>i.
     bindR (text_field d ''workload_id'') (\<lambda>workload_id.
     bindR (text_field d ''inventory_snapshot_id'') (\<lambda>inventory_id.
     bindR (text_field d ''backend'') (\<lambda>backend.
     bindR (text_field d ''access_target_id'') (\<lambda>access.
     bindR (plain_opt_text (jget d ''execution_target_id'')) (\<lambda>target.
     bindR (plain_opt_text (jget d ''execution_context_id'')) (\<lambda>context.
     bindR (plain_opt_text (jget d ''scheduler_id'')) (\<lambda>scheduler.
     bindR (bindR (staged_item d ''requested_resources'') resources_from_dict) (\<lambda>resources.
     bindR (text_field d ''executable'') (\<lambda>executable.
     bindR (texts_field d ''arguments'') (\<lambda>arguments.
     bindR (text_field d ''working_directory'') (\<lambda>working_directory.
     bindR (texts_field d ''inputs'') (\<lambda>inputs.
     bindR (texts_field d ''outputs'') (\<lambda>outputs.
     bindR (text_field d ''compatibility_state'') (\<lambda>state.
     bindR (texts_field d ''unresolved_conditions'') (\<lambda>unresolved.
     bindR (items_field d ''decision_evidence'' decision_from_dict) (\<lambda>evidence.
     bindR (text_field d ''created_at'') (\<lambda>created_at.
     bindR (plain_opt_text (jget d ''site_id'')) (\<lambda>site_id.
     bindR (optional_value staged_shape (jget d ''resource_shape'')) (\<lambda>shape.
     bindR (optional_value (environment_from_dict x) (jget d ''environment'')) (\<lambda>environment.
     bindR (plain_opt_text (jget d ''workload_variant_id'')) (\<lambda>variant_id.
     bindR (plain_opt_text (jget d ''selection_summary_id'')) (\<lambda>selection_id.
     bindR (staged_list (jget_or d ''policy_basis'' (JArr []))) (\<lambda>policy_basis.
     bindR (optional_value container_from_dict (jget d ''container'')) (\<lambda>container.
     mapErr StagedRaised (ExecutionPlan
       \<lparr>pl_id = i, pl_workload_id = workload_id, pl_inventory_id = inventory_id,
        pl_backend = backend, pl_access = access, pl_target = target, pl_context = context,
        pl_scheduler = scheduler, pl_resources = resources, pl_executable = executable,
        pl_arguments = arguments, pl_working_directory = working_directory, pl_inputs = inputs,
        pl_outputs = outputs, pl_state = state, pl_unresolved = unresolved,
        pl_evidence = evidence, pl_created_at = created_at, pl_site_id = site_id,
        pl_shape = shape, pl_environment = environment, pl_variant_id = variant_id,
        pl_selection_id = selection_id, pl_policy_basis = policy_basis,
        pl_container = container\<rparr>))))))))))))))))))))))))))"

text \<open>\<open>dict(value.get("metadata", {}))\<close>; keys that are no text are outside the model.\<close>

definition metadata_field :: "json dict \<Rightarrow> json dict staged" where
  "metadata_field d =
     bindR (mapErr StagedRaised (py_dict (jget_or d ''metadata'' (JObj [])))) (\<lambda>v.
     case v of JObj m \<Rightarrow> Inr m | _ \<Rightarrow> Inl StagedIllTyped)"

definition workload_from_dict :: "json dict \<Rightarrow> workload staged" where
  "workload_from_dict d =
     bindR (text_field d ''id'') (\<lambda>i.
     bindR (text_field d ''created_at'') (\<lambda>created_at.
     bindR (text_field d ''working_directory'') (\<lambda>working_directory.
     bindR (text_field d ''executable'') (\<lambda>executable.
     bindR (texts_field d ''arguments'') (\<lambda>arguments.
     bindR (texts_field d ''inputs'') (\<lambda>inputs.
     bindR (texts_field d ''outputs'') (\<lambda>outputs.
     bindR (bindR (staged_item d ''resources'') resources_from_dict) (\<lambda>resources.
     bindR (items_field d ''capability_requirements'' capability_from_dict) (\<lambda>capabilities.
     bindR (optional_value launcher_from_dict (jget d ''launcher_requirement'')) (\<lambda>launcher.
     bindR (bindR (staged_item d ''constraints'') constraints_from_dict) (\<lambda>constraints.
     bindR (items_field d ''evidence'' evidence_from_dict) (\<lambda>evidence.
     bindR (plain_opt_text (jget d ''parent_experiment_id'')) (\<lambda>parent.
     bindR (bindR (staged_list (jget_or d ''project_markers'' (JArr []))) plain_texts) (\<lambda>markers.
     bindR (metadata_field d) (\<lambda>metadata.
     mapErr StagedRaised (WorkloadSpec
       \<lparr>w_id = i, w_created_at = created_at, w_working_directory = working_directory,
        w_executable = executable, w_arguments = arguments, w_inputs = inputs,
        w_outputs = outputs, w_resources = resources, w_capabilities = capabilities,
        w_launcher = launcher, w_constraints = constraints, w_evidence = evidence,
        w_parent = parent, w_markers = markers, w_metadata = metadata\<rparr>))))))))))))))))"

text \<open>
  \<open>RequestSource.from_dict\<close> sorts the metadata by key. A verification check is built from the
  document as it is: a digest is not folded to lower case here.
\<close>

definition source_from_dict :: "json dict \<Rightarrow> source parsed" where
  "source_from_dict d =
     bindR (reject_unknown d [''kind'', ''metadata''] ''persisted request source'') (\<lambda>_.
     case (jget d ''kind'', jget_or d ''metadata'' (JObj [])) of
       (JStr kind, JObj metadata) \<Rightarrow>
         if list_all (is_str \<circ> snd) metadata
         then RequestSource \<lparr>so_kind = kind, so_metadata =
                sort_by (\<lambda>a b. str_less (fst a) (fst b)) (map (\<lambda>(k, v). (k, the_str v)) metadata)\<rparr>
         else bad ''persisted request source is invalid''
     | _ \<Rightarrow> bad ''persisted request source is invalid'')"

definition persisted_check :: "json \<Rightarrow> check staged" where
  "persisted_check v =
     bindR (keyword_object v [''type'', ''path''] [''min_bytes'', ''sha256'']) (\<lambda>d.
     if \<not> hashable (jget d ''type'') then staged_type_error
     else if \<not> is_str (jget d ''type'')
     then Inl (StagedRefused (ExecutionRequestError ''unsupported verification check''))
     else if the_str (jget d ''type'') \<in> set check_types \<and> \<not> is_str (jget d ''path'')
     then Inl (StagedRefused (ExecutionRequestError ''verification path must be a string''))
     else mapErr StagedRefused (VerificationCheckSpec (the_str (jget d ''type''))
       (the_str (jget d ''path'')) (jget d ''min_bytes'') (jget d ''sha256'')))"

definition request_fields :: "string list" where
  "request_fields = [''id'', ''created_at'', ''kind'', ''request_schema_version'', ''command'',
     ''base_directory'', ''working_directory'', ''resolved_working_directory'', ''artifacts'',
     ''resources'', ''execution'', ''requested_parent_experiment'', ''resolved_parent_experiment_id'',
     ''telemetry_mode'', ''verification_checks'', ''source'']"

text \<open>
  An element of the command or of an artifact list that is no text is refused by the constructor
  with another message than the empty text the model puts in its place.
\<close>

definition element_text :: "json \<Rightarrow> string" where
  "element_text v = (case v of JStr s \<Rightarrow> s | _ \<Rightarrow> [])"

definition request_from_dict :: "json dict \<Rightarrow> request staged" where
  "request_from_dict d =
     bindR (mapErr StagedRefused (reject_unknown d request_fields ''persisted execution request'')) (\<lambda>_.
     case (jget d ''request_schema_version'', jget d ''command'', jget d ''artifacts'',
           jget d ''verification_checks'', jget d ''source'') of
       (JInt version, JArr command, JObj artifacts, JArr checks, JObj source) \<Rightarrow>
         (case (jget artifacts ''inputs'', jget artifacts ''outputs'') of
            (JArr inputs, JArr outputs) \<Rightarrow>
              if \<not> all_strings d [''id'', ''created_at'', ''kind'', ''base_directory'',
                    ''working_directory'', ''resolved_working_directory'', ''telemetry_mode''] \<or>
                 \<not> is_dict (jget d ''resources'') \<or> \<not> is_dict (jget d ''execution'') \<or>
                 \<not> opt_text_ok (jget d ''requested_parent_experiment'') \<or>
                 \<not> opt_text_ok (jget d ''resolved_parent_experiment_id'')
              then Inl (StagedRefused (ExecutionRequestError ''persisted request structure is invalid''))
              else
                bindR (resources_from_dict (jget d ''resources'')) (\<lambda>resources.
                bindR (constraints_from_dict (jget d ''execution'')) (\<lambda>constraints.
                bindR (mapM persisted_check checks) (\<lambda>checks.
                bindR (mapErr StagedRefused (source_from_dict source)) (\<lambda>source.
                mapErr StagedRefused (ExecutionRequest
                  \<lparr>rq_id = text_of d ''id'', rq_created_at = text_of d ''created_at'',
                   rq_command = map element_text command,
                   rq_base_directory = text_of d ''base_directory'',
                   rq_working_directory = text_of d ''working_directory'',
                   rq_resolved_working_directory = text_of d ''resolved_working_directory'',
                   rq_inputs = map element_text inputs, rq_outputs = map element_text outputs,
                   rq_resources = resources, rq_execution = constraints,
                   rq_requested_parent = opt_text (jget d ''requested_parent_experiment''),
                   rq_resolved_parent = opt_text (jget d ''resolved_parent_experiment_id''),
                   rq_telemetry_mode = text_of d ''telemetry_mode'', rq_checks = checks,
                   rq_source = source, rq_kind = text_of d ''kind'', rq_version = version\<rparr>)))))
          | _ \<Rightarrow> Inl (StagedRefused (ExecutionRequestError ''persisted request structure is invalid'')))
     | _ \<Rightarrow> Inl (StagedRefused (ExecutionRequestError ''persisted request structure is invalid'')))"

section \<open>Loading a staged plan\<close>

definition staged_texts :: "json \<Rightarrow> bool" where
  "staged_texts v = (case v of JArr xs \<Rightarrow> length xs \<le> 4096 \<and> list_all is_str xs | _ \<Rightarrow> False)"

definition validate_staged_model :: "string \<Rightarrow> json dict \<Rightarrow> unit staged" where
  "validate_staged_model label d =
     (if \<not> is_str (jget d ''id'') then staged_value_error (''staged '' @ label @ '' ID is invalid'')
      else if \<not> is_str (jget d ''executable'') \<or> the_str (jget d ''executable'') = []
      then staged_value_error (''staged '' @ label @ '' executable is invalid'')
      else
        bindR (checkAll (\<lambda>k. raise_if (\<not> staged_texts (jget d k))
            (StagedRaised (PyValueError (''staged '' @ label @ '' '' @ k @ '' are invalid''))))
          [''arguments'', ''inputs'', ''outputs'']) (\<lambda>_.
        raise_if (\<not> is_str (jget d ''working_directory''))
          (StagedRaised (PyValueError (''staged '' @ label @ '' working directory is invalid'')))))"

definition validate_staged_models :: "json dict \<Rightarrow> json dict \<Rightarrow> unit staged" where
  "validate_staged_models plan_value workload_value =
     bindR (member_text (jget plan_value ''backend'') backends ''staged plan backend is invalid'') (\<lambda>_.
     bindR (validate_staged_model ''plan'' plan_value) (\<lambda>_.
     validate_staged_model ''workload'' workload_value))"

definition staged_request :: "json dict \<Rightarrow> request option staged" where
  "staged_request d =
     (if version_number (jget d ''schema_version'') \<in> {2, 3, 4} then
        (case jget d ''request'' of
           JObj r \<Rightarrow> mapR Some (request_from_dict r)
         | _ \<Rightarrow> staged_value_error ''version-2 staged plan requires an execution request'')
      else Inr None)"

definition plan_matches :: "plan \<Rightarrow> workload \<Rightarrow> bool" where
  "plan_matches p w \<longleftrightarrow> pl_executable p = w_executable w \<and> pl_arguments p = w_arguments w \<and>
     pl_working_directory p = w_working_directory w \<and> pl_inputs p = w_inputs w \<and>
     pl_outputs p = w_outputs w \<and> pl_resources p = w_resources w"

text \<open>A schema version that equals 1 to 4, whatever the number's type.\<close>

definition parse_staged_plan :: "site_env \<Rightarrow> json \<Rightarrow> string \<Rightarrow>
    (plan \<times> workload \<times> request option) staged" where
  "parse_staged_plan x v execution_id =
     (case v of
        JObj d \<Rightarrow>
          if \<not> hashable (jget d ''schema_version'') then staged_type_error
          else if version_number (jget d ''schema_version'') \<notin> {1, 2, 3, 4}
          then staged_value_error ''unsupported staged plan''
          else if jget d ''execution_id'' \<noteq> JStr execution_id
          then staged_value_error ''staged plan execution ID does not match''
          else
            (case (jget d ''plan'', jget d ''workload'') of
               (JObj plan_value, JObj workload_value) \<Rightarrow>
                 bindR (validate_staged_models plan_value workload_value) (\<lambda>_.
                 bindR (plan_from_dict x plan_value) (\<lambda>p.
                 bindR (workload_from_dict workload_value) (\<lambda>w.
                 bindR (staged_request d) (\<lambda>request.
                 if pl_workload_id p \<noteq> w_id w
                 then staged_value_error ''staged workload does not match plan''
                 else if \<not> plan_matches p w
                 then staged_value_error ''staged plan content does not match its workload''
                 else if (case request of None \<Rightarrow> False | Some r \<Rightarrow> \<not> compiled_from r w)
                 then staged_value_error ''staged request does not match its workload''
                 else Inr (p, w, request)))))
             | _ \<Rightarrow> staged_value_error ''staged plan is malformed'')
      | _ \<Rightarrow> staged_value_error ''unsupported staged plan'')"

definition load_plan :: "site_env \<Rightarrow> (string \<Rightarrow> json option) \<Rightarrow> string option \<Rightarrow> string \<Rightarrow>
    (plan \<times> workload \<times> request option) staged" where
  "load_plan x loads content execution_id =
     (case content of
        None \<Rightarrow> Inl StagedUnavailable
      | Some raw \<Rightarrow>
          if length raw > 1024 * 1024 then staged_value_error ''staged plan exceeds the size limit''
          else (case loads raw of
              None \<Rightarrow> staged_value_error ''staged plan is not JSON''
            | Some v \<Rightarrow> parse_staged_plan x v execution_id))"

end
