(* ===== verification/StagedPlanProperties.thy ===== *)
theory StagedPlanProperties
  imports StagedPlans SamplePlans Samples OutcomeProperties
begin

text \<open>
  Properties of staged plans: what the controller stages for an execution, the compute worker reads
  back; and what the compute worker accepts belongs together.
\<close>

section \<open>Parts\<close>

lemma resources_document_round_trip:
  assumes "resources_ok r"
  shows "resources_from_dict (JObj (resources_to_dict r)) = Inr r"
proof -
  have count: "count_field d k least = Inr v" if "jget d k = opt_int v" "at_least least v" for d k least v
    using that by (cases v) (simp_all add: count_field_def)
  have "keyword_object (JObj (resources_to_dict r)) []
      [''cpus'', ''gpus'', ''nodes'', ''mpi_ranks'', ''memory_bytes'', ''walltime_seconds'']
      = Inr (resources_to_dict r)"
    by (simp add: keyword_object_def keywords_ok_def has_unknown_def resources_to_dict_def)
  moreover have "jget (resources_to_dict r) ''cpus'' = opt_int (r_cpus r)"
    "jget (resources_to_dict r) ''gpus'' = opt_int (r_gpus r)"
    "jget (resources_to_dict r) ''nodes'' = opt_int (r_nodes r)"
    "jget (resources_to_dict r) ''mpi_ranks'' = opt_int (r_mpi_ranks r)"
    "jget (resources_to_dict r) ''memory_bytes'' = opt_int (r_memory_bytes r)"
    "jget (resources_to_dict r) ''walltime_seconds'' = opt_int (r_walltime_seconds r)"
    by (simp_all add: resources_to_dict_def jget_def)
  ultimately have "resources_from_dict (JObj (resources_to_dict r)) = Inr
     \<lparr>r_cpus = r_cpus r, r_gpus = r_gpus r, r_nodes = r_nodes r, r_mpi_ranks = r_mpi_ranks r,
      r_memory_bytes = r_memory_bytes r, r_walltime_seconds = r_walltime_seconds r\<rparr>"
    using assms by (simp add: resources_from_dict_def resources_ok_def count)
  then show ?thesis by (cases r) simp
qed

lemma plain_opt_text_json [simp]: "plain_opt_text (opt_json JStr v) = Inr v"
  by (cases v) (simp_all add: plain_opt_text_def)

lemma plain_text_JStr [simp]: "plain_text (JStr s) = Inr s"
  by (simp add: plain_text_def)

lemma plain_texts_JStr [simp]: "plain_texts (map JStr xs) = Inr xs"
  by (simp add: plain_texts_def list_all_iff)

lemma staged_list_JArr [simp]: "staged_list (JArr xs) = Inr xs"
  by (simp add: staged_list_def py_list_def)

lemma member_text_JStr [simp]: "s \<in> set allowed \<Longrightarrow> member_text (JStr s) allowed message = Inr s"
  by (simp add: member_text_def)

lemma constraints_document_round_trip:
  assumes "x_backend x \<in> set backend_names"
  shows "constraints_from_dict (JObj (constraints_to_dict x)) = Inr x"
proof -
  have "constraints_from_dict (JObj (constraints_to_dict x)) = Inr
     \<lparr>x_backend = x_backend x, x_target = x_target x, x_context = x_context x\<rparr>"
    using assms by (simp add: constraints_from_dict_def keyword_object_def keywords_ok_def
        has_unknown_def constraints_to_dict_def jget_def jget_or_def)
  then show ?thesis by (cases x) simp
qed

lemma decision_round_trip:
  assumes "DecisionEvidence d = Inr d"
  shows "decision_from_dict (JObj (decision_to_dict d)) = Inr d"
proof -
  have "de_state d \<in> set evidence_states"
    using assms by (auto simp: DecisionEvidence_def split: if_splits)
  then have "decision_from_dict (JObj (decision_to_dict d)) = Inr
     \<lparr>de_state = de_state d, de_subject = de_subject d, de_message = de_message d,
      de_subject_id = de_subject_id d\<rparr>"
    by (simp add: decision_from_dict_def keyword_object_def keywords_ok_def has_unknown_def
        decision_to_dict_def jget_def)
  then show ?thesis by (cases d) simp
qed

lemma evidence_document_round_trip:
  assumes "RequirementEvidence e = Inr e"
  shows "evidence_from_dict (JObj (evidence_to_dict e)) = Inr e"
proof -
  have "ve_state e \<in> set evidence_states"
    using assms by (auto simp: RequirementEvidence_def split: if_splits)
  then have "evidence_from_dict (JObj (evidence_to_dict e)) = Inr
     \<lparr>ve_subject = ve_subject e, ve_state = ve_state e, ve_source = ve_source e,
      ve_value = ve_value e, ve_detail = ve_detail e\<rparr>"
    by (simp add: evidence_from_dict_def keyword_object_def keywords_ok_def has_unknown_def
        evidence_to_dict_def jget_def)
  then show ?thesis by (cases e) simp
qed

lemma requirement_round_trip:
  assumes "cr_evidence_state c \<in> set evidence_states"
  shows "capability_from_dict (JObj (requirement_to_dict c)) = Inr c"
proof -
  have "capability_from_dict (JObj (requirement_to_dict c)) = Inr
     \<lparr>cr_kind = cr_kind c, cr_name = cr_name c, cr_evidence_state = cr_evidence_state c,
      cr_required = cr_required c\<rparr>"
    using assms by (simp add: capability_from_dict_def keyword_object_def keywords_ok_def
        has_unknown_def requirement_to_dict_def jget_def jget_or_def)
  then show ?thesis by (cases c) simp
qed

lemma launcher_round_trip:
  assumes "LauncherRequirement l = Inr l"
  shows "launcher_from_dict (JObj (launcher_to_dict l)) = Inr l"
proof -
  have "l_evidence_state l \<in> set evidence_states" "\<not> l_mpi_ranks l < 1"
    using assms by (auto simp: LauncherRequirement_def split: if_splits)
  then have "launcher_from_dict (JObj (launcher_to_dict l)) = Inr
     \<lparr>l_name = l_name l, l_mpi_ranks = l_mpi_ranks l, l_evidence_state = l_evidence_state l\<rparr>"
    by (simp add: launcher_from_dict_def keyword_object_def keywords_ok_def has_unknown_def
        launcher_to_dict_def jget_def)
  then show ?thesis by (cases l) simp
qed

lemma mount_round_trip:
  assumes "ContainerMount m = Inr m"
  shows "mount_from_dict (JObj (mount_to_dict m)) = Inr m"
proof -
  have "ContainerMount (m\<lparr>m_read_only := True\<rparr>) = Inr (m\<lparr>m_read_only := True\<rparr>)"
    using assms by (auto simp: ContainerMount_def split: if_splits)
  moreover have "m\<lparr>m_read_only := True\<rparr> = \<lparr>m_source = m_source m, m_destination = m_destination m,
      m_read_only = True\<rparr>" by (cases m) simp
  ultimately show ?thesis
    by (simp add: mount_from_dict_def keyword_object_def keywords_ok_def has_unknown_def
        mount_to_dict_def jget_def jget_or_def)
qed

lemma container_to_dict_get:
  "dict_get (container_to_dict c) ''runtime'' = Some (JStr (c_runtime c))"
  "dict_get (container_to_dict c) ''image'' = Some (JStr (c_image c))"
  "jget_or (container_to_dict c) ''mounts'' z = JArr (map (JObj \<circ> mount_to_dict) (c_mounts c))"
  "jget_or (container_to_dict c) ''clean_environment'' z = JBool (c_clean_environment c)"
  "jget (container_to_dict c) ''image_digest'' = opt_json JStr (c_image_digest c)"
  "\<not> has_unknown (container_to_dict c) container_fields"
  by (simp_all add: container_to_dict_def jget_def jget_or_def has_unknown_def container_fields_def)

lemma mount_documents_round_trip:
  "mount_documents (JArr (map (JObj \<circ> mount_to_dict) ms)) = Inr (map (JObj \<circ> mount_to_dict) ms)"
  by (simp add: mount_documents_def list_all_iff has_unknown_def mount_to_dict_def)

lemma container_round_trip:
  assumes "ContainerExecution c = Inr c" and "list_all (\<lambda>m. ContainerMount m = Inr m) (c_mounts c)"
  shows "container_from_dict (JObj (container_to_dict c)) = Inr c"
proof -
  have "ContainerExecution (c\<lparr>c_clean_environment := True, c_image_digest := None\<rparr>)
      = Inr (c\<lparr>c_clean_environment := True, c_image_digest := None\<rparr>)"
    using assms(1) by (auto simp: ContainerExecution_def split: if_splits)
  moreover have "c\<lparr>c_clean_environment := True, c_image_digest := None\<rparr>
      = \<lparr>c_runtime = c_runtime c, c_image = c_image c, c_mounts = c_mounts c,
         c_clean_environment = True, c_image_digest = None\<rparr>" by (cases c) simp
  moreover have "mapM mount_from_dict (map (JObj \<circ> mount_to_dict) (c_mounts c)) = Inr (c_mounts c)"
    using assms(2) by (rule mapM_round_trip) (simp add: mount_round_trip)
  moreover have "\<And>s. c_image_digest c = Some s \<Longrightarrow> SHA256_DIGEST s"
    using assms(1) by (auto simp: ContainerExecution_def split: if_splits)
  ultimately show ?thesis
    by (cases "c_image_digest c"; cases c)
      (simp_all add: container_from_dict_def container_to_dict_get mount_documents_round_trip
        staged_item_def subscript_def)
qed

lemma activation_round_trip:
  assumes "EnvironmentActivation a = Inr a"
  shows "activation_from_dict x (JObj (activation_to_dict a)) = Inr a"
proof -
  have get: "jget_or (activation_to_dict a) ''kind'' z = JStr (a_kind a)"
    "jget_or (activation_to_dict a) ''names'' z = JArr (map JStr (a_names a))"
    "jget (activation_to_dict a) ''prefix'' = opt_json JStr (a_prefix a)" for z
    by (simp_all add: activation_to_dict_def jget_def jget_or_def)
  have names: "list_all MODULE_NAME (a_names a) \<Longrightarrow> module_names (map JStr (a_names a)) = Inr ()"
    by (auto simp: module_names_Inr)
  have slash: "starts_with ''/'' p \<Longrightarrow> p \<noteq> []" for p by (auto simp: starts_with_def)
  have eta: "\<lparr>a_kind = a_kind a, a_names = a_names a, a_prefix = a_prefix a\<rparr> = a" by (cases a) simp
  show ?thesis
    using assms names slash eta
    by (cases "a_prefix a")
      (auto simp: activation_from_dict_def get py_list_def EnvironmentActivation_def no_activation_def
        truthy_def Let_def split: if_splits)
qed

lemma environment_round_trip:
  assumes "EnvironmentActivation (re_activation e) = Inr (re_activation e)"
  shows "environment_from_dict x (JObj (environment_to_dict e)) = Inr e"
proof -
  have get: "dict_get (environment_to_dict e) ''context_id'' = Some (JStr (re_context_id e))"
    "dict_get (environment_to_dict e) ''name'' = Some (JStr (re_name e))"
    "dict_get (environment_to_dict e) ''kind'' = Some (JStr (re_kind e))"
    "dict_get (environment_to_dict e) ''state'' = Some (JStr (re_state e))"
    "dict_get (environment_to_dict e) ''activation'' = Some (JObj (activation_to_dict (re_activation e)))"
    "jget_or (environment_to_dict e) ''evidence'' z = JArr (re_evidence e)"
    "jget_or (environment_to_dict e) ''unresolved'' z = JArr (map JStr (re_unresolved e))" for z
    by (simp_all add: environment_to_dict_def jget_or_def)
  have "environment_from_dict x (JObj (environment_to_dict e)) = Inr
     \<lparr>re_context_id = re_context_id e, re_name = re_name e, re_kind = re_kind e, re_state = re_state e,
      re_activation = re_activation e, re_evidence = re_evidence e, re_unresolved = re_unresolved e\<rparr>"
    by (simp add: environment_from_dict_def staged_item_def subscript_def get
        activation_round_trip [OF assms])
  then show ?thesis by (cases e) simp
qed

lemma optional_value_round_trip:
  assumes "\<And>y. v = Some y \<Longrightarrow> parse (JObj (f y)) = Inr y"
  shows "optional_value parse (opt_json (JObj \<circ> f) v) = Inr v"
  using assms by (cases v) (simp_all add: optional_value_def)

lemma items_field_round_trip:
  assumes "dict_get d k = Some (JArr (map (JObj \<circ> f) xs))" and "list_all P xs"
    and "\<And>y. P y \<Longrightarrow> parse (JObj (f y)) = Inr y"
  shows "items_field d k parse = Inr xs"
proof -
  have "mapM parse (map (JObj \<circ> f) xs) = Inr xs"
    using assms(2) by (rule mapM_round_trip) (simp add: assms(3))
  with assms(1) show ?thesis by (simp add: items_field_def staged_item_def subscript_def)
qed

lemma texts_field_round_trip:
  "dict_get d k = Some (strings xs) \<Longrightarrow> texts_field d k = Inr xs"
  by (simp add: texts_field_def staged_item_def subscript_def strings_def)

lemma text_field_round_trip: "dict_get d k = Some (JStr s) \<Longrightarrow> text_field d k = Inr s"
  by (simp add: text_field_def staged_item_def subscript_def)

section \<open>Plans and workloads\<close>

text \<open>What the constructors of a plan and of its parts accept.\<close>

definition plan_well_formed :: "plan \<Rightarrow> bool" where
  "plan_well_formed p \<longleftrightarrow> ExecutionPlan p = Inr p \<and> resources_ok (pl_resources p) \<and>
     list_all (\<lambda>d. DecisionEvidence d = Inr d) (pl_evidence p) \<and>
     pred_option shape_ok (pl_shape p) \<and>
     pred_option (\<lambda>e. EnvironmentActivation (re_activation e) = Inr (re_activation e))
       (pl_environment p) \<and>
     pred_option (\<lambda>c. ContainerExecution c = Inr c \<and>
       list_all (\<lambda>m. ContainerMount m = Inr m) (c_mounts c)) (pl_container p)"

definition workload_well_formed :: "workload \<Rightarrow> bool" where
  "workload_well_formed w \<longleftrightarrow> WorkloadSpec w = Inr w \<and> resources_ok (w_resources w) \<and>
     list_all (\<lambda>c. cr_evidence_state c \<in> set evidence_states) (w_capabilities w) \<and>
     pred_option (\<lambda>l. LauncherRequirement l = Inr l) (w_launcher w) \<and>
     x_backend (w_constraints w) \<in> set backend_names \<and>
     list_all (\<lambda>e. RequirementEvidence e = Inr e) (w_evidence w)"

lemma plan_to_dict_texts:
  "dict_get (plan_to_dict p) ''id'' = Some (JStr (pl_id p))"
  "dict_get (plan_to_dict p) ''workload_id'' = Some (JStr (pl_workload_id p))"
  "dict_get (plan_to_dict p) ''inventory_snapshot_id'' = Some (JStr (pl_inventory_id p))"
  "dict_get (plan_to_dict p) ''backend'' = Some (JStr (pl_backend p))"
  "dict_get (plan_to_dict p) ''access_target_id'' = Some (JStr (pl_access p))"
  "dict_get (plan_to_dict p) ''executable'' = Some (JStr (pl_executable p))"
  "dict_get (plan_to_dict p) ''arguments'' = Some (strings (pl_arguments p))"
  "dict_get (plan_to_dict p) ''working_directory'' = Some (JStr (pl_working_directory p))"
  "dict_get (plan_to_dict p) ''inputs'' = Some (strings (pl_inputs p))"
  "dict_get (plan_to_dict p) ''outputs'' = Some (strings (pl_outputs p))"
  "dict_get (plan_to_dict p) ''compatibility_state'' = Some (JStr (pl_state p))"
  "dict_get (plan_to_dict p) ''unresolved_conditions'' = Some (strings (pl_unresolved p))"
  "dict_get (plan_to_dict p) ''created_at'' = Some (JStr (pl_created_at p))"
  by (simp_all add: plan_to_dict_def)

lemma plan_to_dict_parts:
  "jget (plan_to_dict p) ''execution_target_id'' = opt_json JStr (pl_target p)"
  "jget (plan_to_dict p) ''execution_context_id'' = opt_json JStr (pl_context p)"
  "jget (plan_to_dict p) ''scheduler_id'' = opt_json JStr (pl_scheduler p)"
  "staged_item (plan_to_dict p) ''requested_resources'' = Inr (JObj (resources_to_dict (pl_resources p)))"
  "dict_get (plan_to_dict p) ''decision_evidence''
     = Some (JArr (map (JObj \<circ> decision_to_dict) (pl_evidence p)))"
  "jget (plan_to_dict p) ''site_id'' = opt_json JStr (pl_site_id p)"
  "jget (plan_to_dict p) ''resource_shape'' = opt_json (JObj \<circ> shape_to_dict) (pl_shape p)"
  "jget (plan_to_dict p) ''environment'' = opt_json (JObj \<circ> environment_to_dict) (pl_environment p)"
  "jget (plan_to_dict p) ''workload_variant_id'' = opt_json JStr (pl_variant_id p)"
  "jget (plan_to_dict p) ''selection_summary_id'' = opt_json JStr (pl_selection_id p)"
  "jget_or (plan_to_dict p) ''policy_basis'' z = JArr (pl_policy_basis p)"
  "jget (plan_to_dict p) ''container'' = opt_json (JObj \<circ> container_to_dict) (pl_container p)"
  by (simp_all add: plan_to_dict_def jget_def jget_or_def staged_item_def subscript_def)

lemma plan_round_trip:
  assumes "plan_well_formed p"
  shows "plan_from_dict x (plan_to_dict p) = Inr p"
proof -
  let ?d = "plan_to_dict p"
  have eta: "\<lparr>pl_id = pl_id p, pl_workload_id = pl_workload_id p,
      pl_inventory_id = pl_inventory_id p, pl_backend = pl_backend p, pl_access = pl_access p,
      pl_target = pl_target p, pl_context = pl_context p, pl_scheduler = pl_scheduler p,
      pl_resources = pl_resources p, pl_executable = pl_executable p,
      pl_arguments = pl_arguments p, pl_working_directory = pl_working_directory p,
      pl_inputs = pl_inputs p, pl_outputs = pl_outputs p, pl_state = pl_state p,
      pl_unresolved = pl_unresolved p, pl_evidence = pl_evidence p, pl_created_at = pl_created_at p,
      pl_site_id = pl_site_id p, pl_shape = pl_shape p, pl_environment = pl_environment p,
      pl_variant_id = pl_variant_id p, pl_selection_id = pl_selection_id p,
      pl_policy_basis = pl_policy_basis p, pl_container = pl_container p\<rparr> = p"
    by (cases p) simp
  have "items_field ?d ''decision_evidence'' decision_from_dict = Inr (pl_evidence p)"
    using assms by (intro items_field_round_trip [OF plan_to_dict_parts(5) _ decision_round_trip])
      (simp_all add: plan_well_formed_def)
  moreover have "optional_value staged_shape (opt_json (JObj \<circ> shape_to_dict) (pl_shape p))
      = Inr (pl_shape p)"
    using assms by (intro optional_value_round_trip)
      (simp add: plan_well_formed_def staged_shape_def shape_round_trip)
  moreover have "optional_value (environment_from_dict x)
      (opt_json (JObj \<circ> environment_to_dict) (pl_environment p)) = Inr (pl_environment p)"
    using assms by (intro optional_value_round_trip)
      (simp add: plan_well_formed_def environment_round_trip)
  moreover have "optional_value container_from_dict
      (opt_json (JObj \<circ> container_to_dict) (pl_container p)) = Inr (pl_container p)"
    using assms by (intro optional_value_round_trip) (simp add: plan_well_formed_def container_round_trip)
  moreover have "resources_from_dict (JObj (resources_to_dict (pl_resources p))) = Inr (pl_resources p)"
    using assms by (simp add: plan_well_formed_def resources_document_round_trip)
  moreover have "ExecutionPlan p = Inr p" using assms by (simp add: plan_well_formed_def)
  ultimately show ?thesis
    by (simp add: plan_from_dict_def text_field_round_trip texts_field_round_trip
        plan_to_dict_texts plan_to_dict_parts) (simp only: eta mapErr_simps)
qed

lemma workload_to_dict_texts:
  "dict_get (workload_to_dict w) ''id'' = Some (JStr (w_id w))"
  "dict_get (workload_to_dict w) ''created_at'' = Some (JStr (w_created_at w))"
  "dict_get (workload_to_dict w) ''working_directory'' = Some (JStr (w_working_directory w))"
  "dict_get (workload_to_dict w) ''executable'' = Some (JStr (w_executable w))"
  "dict_get (workload_to_dict w) ''arguments'' = Some (strings (w_arguments w))"
  "dict_get (workload_to_dict w) ''inputs'' = Some (strings (w_inputs w))"
  "dict_get (workload_to_dict w) ''outputs'' = Some (strings (w_outputs w))"
  by (simp_all add: workload_to_dict_def)

lemma workload_to_dict_parts:
  "staged_item (workload_to_dict w) ''resources'' = Inr (JObj (resources_to_dict (w_resources w)))"
  "dict_get (workload_to_dict w) ''capability_requirements''
     = Some (JArr (map (JObj \<circ> requirement_to_dict) (w_capabilities w)))"
  "jget (workload_to_dict w) ''launcher_requirement'' = opt_json (JObj \<circ> launcher_to_dict) (w_launcher w)"
  "staged_item (workload_to_dict w) ''constraints'' = Inr (JObj (constraints_to_dict (w_constraints w)))"
  "dict_get (workload_to_dict w) ''evidence'' = Some (JArr (map (JObj \<circ> evidence_to_dict) (w_evidence w)))"
  "jget (workload_to_dict w) ''parent_experiment_id'' = opt_json JStr (w_parent w)"
  "jget_or (workload_to_dict w) ''project_markers'' z = JArr (map JStr (w_markers w))"
  "metadata_field (workload_to_dict w) = Inr (w_metadata w)"
  by (simp_all add: workload_to_dict_def jget_def jget_or_def staged_item_def subscript_def
      metadata_field_def py_dict_def strings_def)

lemma workload_round_trip:
  assumes "workload_well_formed w"
  shows "workload_from_dict (workload_to_dict w) = Inr w"
proof -
  have eta: "\<lparr>w_id = w_id w, w_created_at = w_created_at w,
      w_working_directory = w_working_directory w, w_executable = w_executable w,
      w_arguments = w_arguments w, w_inputs = w_inputs w, w_outputs = w_outputs w,
      w_resources = w_resources w, w_capabilities = w_capabilities w, w_launcher = w_launcher w,
      w_constraints = w_constraints w, w_evidence = w_evidence w, w_parent = w_parent w,
      w_markers = w_markers w, w_metadata = w_metadata w\<rparr> = w"
    by (cases w) simp
  have "items_field (workload_to_dict w) ''capability_requirements'' capability_from_dict
      = Inr (w_capabilities w)"
    using assms by (intro items_field_round_trip [OF workload_to_dict_parts(2) _ requirement_round_trip])
      (simp_all add: workload_well_formed_def)
  moreover have "items_field (workload_to_dict w) ''evidence'' evidence_from_dict = Inr (w_evidence w)"
    using assms
    by (intro items_field_round_trip [OF workload_to_dict_parts(5) _ evidence_document_round_trip])
      (simp_all add: workload_well_formed_def)
  moreover have "optional_value launcher_from_dict (opt_json (JObj \<circ> launcher_to_dict) (w_launcher w))
      = Inr (w_launcher w)"
    using assms by (intro optional_value_round_trip) (simp add: workload_well_formed_def launcher_round_trip)
  moreover have "resources_from_dict (JObj (resources_to_dict (w_resources w))) = Inr (w_resources w)"
    "constraints_from_dict (JObj (constraints_to_dict (w_constraints w))) = Inr (w_constraints w)"
    "WorkloadSpec w = Inr w"
    using assms by (simp_all add: workload_well_formed_def resources_document_round_trip
        constraints_document_round_trip)
  ultimately show ?thesis
    by (simp add: workload_from_dict_def text_field_round_trip texts_field_round_trip
        workload_to_dict_texts workload_to_dict_parts) (simp only: eta mapErr_simps)
qed

section \<open>Requests\<close>

definition check_spec_ok :: "check \<Rightarrow> bool" where
  "check_spec_ok c \<longleftrightarrow> VerificationCheckSpec (ck_type c) (ck_path c) (opt_json JInt (ck_min_bytes c))
     (opt_json JStr (ck_sha256 c)) = Inr c"

text \<open>A request's source holds its metadata sorted by key, as reading it back leaves it.\<close>

definition source_well_formed :: "source \<Rightarrow> bool" where
  "source_well_formed s \<longleftrightarrow> RequestSource s = Inr s \<and>
     sort_by (\<lambda>a b. str_less (fst a) (fst b)) (so_metadata s) = so_metadata s"

definition request_well_formed :: "request \<Rightarrow> bool" where
  "request_well_formed r \<longleftrightarrow> ExecutionRequest r = Inr r \<and> resources_ok (rq_resources r) \<and>
     x_backend (rq_execution r) \<in> set backend_names \<and> list_all check_spec_ok (rq_checks r) \<and>
     source_well_formed (rq_source r)"

lemma persisted_check_round_trip:
  assumes "check_spec_ok c"
  shows "persisted_check (JObj (check_to_dict c)) = Inr c"
proof -
  have "keywords_ok (check_to_dict c) [''type'', ''path''] [''min_bytes'', ''sha256'']"
    by (cases "ck_min_bytes c"; cases "ck_sha256 c")
      (simp_all add: keywords_ok_def has_unknown_def check_to_dict_def)
  with assms show ?thesis
    by (simp add: persisted_check_def keyword_object_def check_to_dict_get check_spec_ok_def)
qed

lemma source_round_trip:
  assumes "source_well_formed s"
  shows "source_from_dict (source_to_dict s) = Inr s"
proof -
  have eta: "\<lparr>so_kind = so_kind s, so_metadata = so_metadata s\<rparr> = s" by (cases s) simp
  have "reject_unknown (source_to_dict s) [''kind'', ''metadata''] l = Inr ()" for l
    by (simp add: reject_unknown_Inr source_to_dict_def)
  moreover have "map (\<lambda>(k, v). (k, the_str v)) (map (\<lambda>(k, v). (k, JStr v)) ps) = ps"
    "list_all (is_str \<circ> snd) (map (\<lambda>(k, v). (k, JStr v)) ps)" for ps :: "(string \<times> string) list"
    by (induction ps) auto
  ultimately show ?thesis
    using assms by (simp add: source_from_dict_def source_to_dict_def jget_def jget_or_def
        source_well_formed_def eta del: map_map)
qed

lemma request_to_dict_get:
  "text_of (request_to_dict r) ''id'' = rq_id r"
  "text_of (request_to_dict r) ''created_at'' = rq_created_at r"
  "text_of (request_to_dict r) ''kind'' = rq_kind r"
  "text_of (request_to_dict r) ''base_directory'' = rq_base_directory r"
  "text_of (request_to_dict r) ''working_directory'' = rq_working_directory r"
  "text_of (request_to_dict r) ''resolved_working_directory'' = rq_resolved_working_directory r"
  "text_of (request_to_dict r) ''telemetry_mode'' = rq_telemetry_mode r"
  "jget (request_to_dict r) ''request_schema_version'' = JInt (rq_version r)"
  "jget (request_to_dict r) ''command'' = JArr (map JStr (rq_command r))"
  "jget (request_to_dict r) ''artifacts'' = JObj [(''inputs'', JArr (map JStr (rq_inputs r))),
     (''outputs'', JArr (map JStr (rq_outputs r)))]"
  "jget (request_to_dict r) ''verification_checks'' = JArr (map (JObj \<circ> check_to_dict) (rq_checks r))"
  "jget (request_to_dict r) ''source'' = JObj (source_to_dict (rq_source r))"
  "jget (request_to_dict r) ''resources'' = JObj (resources_to_dict (rq_resources r))"
  "jget (request_to_dict r) ''execution'' = JObj (constraints_to_dict (rq_execution r))"
  "jget (request_to_dict r) ''requested_parent_experiment'' = opt_json JStr (rq_requested_parent r)"
  "jget (request_to_dict r) ''resolved_parent_experiment_id'' = opt_json JStr (rq_resolved_parent r)"
  by (simp_all add: request_to_dict_def text_of_def jget_def strings_def)

lemma request_to_dict_shape:
  "all_strings (request_to_dict r) [''id'', ''created_at'', ''kind'', ''base_directory'',
     ''working_directory'', ''resolved_working_directory'', ''telemetry_mode'']"
  "reject_unknown (request_to_dict r) request_fields l = Inr ()"
  by (simp_all add: request_to_dict_def all_strings_def jget_def reject_unknown_Inr request_fields_def)

lemma opt_text_round_trip [simp]:
  "opt_text_ok (opt_json JStr v)" "opt_text (opt_json JStr v) = v"
  by (cases v; simp add: opt_text_ok_def opt_text_def)+

lemma element_text_JStr [simp]: "map element_text (map JStr xs) = xs"
  by (induction xs) (simp_all add: element_text_def)

lemma request_document_round_trip:
  assumes "request_well_formed r"
  shows "request_from_dict (request_to_dict r) = Inr r"
proof -
  have eta: "\<lparr>rq_id = rq_id r, rq_created_at = rq_created_at r, rq_command = rq_command r,
      rq_base_directory = rq_base_directory r, rq_working_directory = rq_working_directory r,
      rq_resolved_working_directory = rq_resolved_working_directory r, rq_inputs = rq_inputs r,
      rq_outputs = rq_outputs r, rq_resources = rq_resources r, rq_execution = rq_execution r,
      rq_requested_parent = rq_requested_parent r, rq_resolved_parent = rq_resolved_parent r,
      rq_telemetry_mode = rq_telemetry_mode r, rq_checks = rq_checks r, rq_source = rq_source r,
      rq_kind = rq_kind r, rq_version = rq_version r\<rparr> = r"
    by (cases r) simp
  have inner: "jget [(''inputs'', a), (''outputs'', b)] ''inputs'' = a"
    "jget [(''inputs'', a), (''outputs'', b)] ''outputs'' = b" for a b
    by (simp_all add: jget_def)
  have "list_all check_spec_ok (rq_checks r)" "ExecutionRequest r = Inr r"
    and ok: "resources_ok (rq_resources r)" "x_backend (rq_execution r) \<in> set backend_names"
      "source_well_formed (rq_source r)"
    using assms by (simp_all add: request_well_formed_def)
  then have "mapM persisted_check (map (JObj \<circ> check_to_dict) (rq_checks r)) = Inr (rq_checks r)"
    by (elim mapM_round_trip) (simp add: persisted_check_round_trip)
  with \<open>ExecutionRequest r = Inr r\<close> ok show ?thesis
    by (simp add: request_from_dict_def request_to_dict_get request_to_dict_shape inner
        resources_document_round_trip constraints_document_round_trip source_round_trip
        del: map_map) (simp only: eta mapErr_simps)
qed

section \<open>Staged documents\<close>

text \<open>
  What the controller may stage: a plan, the workload it was made for and the request it was
  compiled from, each as its constructor accepts it.
\<close>

definition stageable :: "plan \<Rightarrow> workload \<Rightarrow> request option \<Rightarrow> bool" where
  "stageable p w request \<longleftrightarrow> plan_well_formed p \<and> workload_well_formed w \<and>
     pl_workload_id p = w_id w \<and> plan_matches p w \<and>
     pred_option (\<lambda>r. request_well_formed r \<and> compiled_from r w) request"

lemma staged_document_get:
  "jget (staged_document k p w request) ''schema_version'' = JInt (staged_version p request)"
  "jget (staged_document k p w request) ''execution_id'' = JStr k"
  "jget (staged_document k p w request) ''plan'' = JObj (plan_to_dict p)"
  "jget (staged_document k p w request) ''workload'' = JObj (workload_to_dict w)"
  "jget (staged_document k p w request) ''request'' = opt_json (JObj \<circ> request_to_dict) request"
  by (cases request; simp add: staged_document_def jget_def opt_field_def)+

lemma staged_version_number:
  "version_number (JInt (staged_version p request)) \<in> {1, 2, 3, 4}"
  "version_number (JInt (staged_version p request)) \<in> {2, 3, 4} \<longleftrightarrow> request \<noteq> None"
  by (cases request; simp add: staged_version_def version_number_def)+

lemma staged_texts_strings: "length xs \<le> 4096 \<Longrightarrow> staged_texts (strings xs)"
  by (simp add: staged_texts_def strings_def list_all_iff)

lemma validate_staged_model_round_trip:
  assumes "dict_get d ''id'' = Some (JStr i)" "dict_get d ''executable'' = Some (JStr e)" "e \<noteq> []"
    and "dict_get d ''arguments'' = Some (strings a)" "length a \<le> 4096"
    and "dict_get d ''inputs'' = Some (strings b)" "length b \<le> 4096"
    and "dict_get d ''outputs'' = Some (strings c)" "length c \<le> 4096"
    and "dict_get d ''working_directory'' = Some (JStr cwd)"
  shows "validate_staged_model l d = Inr ()"
  using assms by (simp add: validate_staged_model_def jget_def staged_texts_strings)

lemma staged_document_round_trip:
  assumes "stageable p w request"
  shows "parse_staged_plan x (JObj (staged_document k p w request)) k = Inr (p, w, request)"
proof -
  have plan: "plan_well_formed p" and workload: "workload_well_formed w"
    and request: "pred_option (\<lambda>r. request_well_formed r \<and> compiled_from r w) request"
    using assms by (simp_all add: stageable_def)
  have "plan_ok p" using plan by (simp add: plan_well_formed_def ExecutionPlan_Inr)
  then have "pl_backend p \<in> set backends" and "validate_staged_model ''plan'' (plan_to_dict p) = Inr ()"
    by (auto simp: plan_ok_def intro: validate_staged_model_round_trip plan_to_dict_texts)
  moreover have "WorkloadSpec w = Inr w" using workload by (simp add: workload_well_formed_def)
  then have "w_executable w \<noteq> []" "length (w_arguments w) \<le> 4096" "length (w_inputs w) \<le> 4096"
    "length (w_outputs w) \<le> 4096"
    by (auto simp: WorkloadSpec_def validate_strings_def bindR_Inr_iff result_simps)
  then have "validate_staged_model ''workload'' (workload_to_dict w) = Inr ()"
    using workload_to_dict_texts by (intro validate_staged_model_round_trip)
  moreover have "jget (plan_to_dict p) ''backend'' = JStr (pl_backend p)"
    by (simp add: jget_def plan_to_dict_texts)
  ultimately have "validate_staged_models (plan_to_dict p) (workload_to_dict w) = Inr ()"
    by (simp add: validate_staged_models_def)
  moreover have "staged_request (staged_document k p w request) = Inr request"
    using request staged_version_number(2) [of p request]
    by (cases request) (simp_all add: staged_request_def staged_document_get request_document_round_trip)
  moreover have "\<not> (case request of None \<Rightarrow> False | Some r \<Rightarrow> \<not> compiled_from r w)"
    using request by (cases request) simp_all
  ultimately show ?thesis
    using assms staged_version_number(1) [of p request]
    by (simp add: parse_staged_plan_def staged_document_get plan_round_trip [OF plan]
        workload_round_trip [OF workload] stageable_def)
qed

lemma stageable_write:
  assumes "stageable p w request"
    and "write_staged_plan floats k p w request = Inl e"
  shows "e = PyValueError ''staged plan exceeds the size limit''"
  using assms by (cases request)
    (auto simp: write_staged_plan_def stageable_def compiled_from_def Let_def split: if_splits)

lemma write_staged_plan_Inr:
  "write_staged_plan floats k p w request = Inr raw \<Longrightarrow>
     raw = utf8_encode (json_dumps floats (JObj (staged_document k p w request))) \<and>
     length raw \<le> 1024 * 1024"
  by (auto simp: write_staged_plan_def Let_def split: if_splits)

lemma staged_plan_loads:
  assumes "stageable p w request"
    and "loads (utf8_encode (json_dumps floats (JObj (staged_document k p w request))))
      = Some (JObj (staged_document k p w request))"
  shows "case write_staged_plan floats k p w request of
      Inl e \<Rightarrow> e = PyValueError ''staged plan exceeds the size limit''
    | Inr raw \<Rightarrow> load_plan x loads (Some raw) k = Inr (p, w, request)"
proof (cases "write_staged_plan floats k p w request")
  case (Inl e)
  with stageable_write [OF assms(1)] show ?thesis by simp
next
  case (Inr raw)
  note raw = write_staged_plan_Inr [OF Inr]
  with assms(2) have "loads raw = Some (JObj (staged_document k p w request))" by (simp only:)
  moreover have "\<not> length raw > 1024 * 1024" using raw by linarith
  ultimately have "load_plan x loads (Some raw) k
      = parse_staged_plan x (JObj (staged_document k p w request)) k"
    by (simp add: load_plan_def)
  with Inr staged_document_round_trip [OF assms(1)] show ?thesis by simp
qed


section \<open>Accepted staged plans\<close>

lemma parse_staged_plan_Inr:
  assumes "parse_staged_plan x v k = Inr (p, w, request)"
  obtains d pv where "v = JObj d" and "jget d ''execution_id'' = JStr k"
    and "plan_from_dict x pv = Inr p" and "pl_workload_id p = w_id w" and "plan_matches p w"
    and "staged_request d = Inr request"
    and "case request of None \<Rightarrow> True | Some r \<Rightarrow> compiled_from r w"
proof -
  obtain d where d: "v = JObj d" using assms by (cases v) (simp_all add: parse_staged_plan_def)
  show thesis
    using assms unfolding d parse_staged_plan_def
    by (auto intro!: that [OF d] simp: bindR_Inr_iff split: if_splits json.splits option.splits)
qed

lemma plan_from_dict_Inr:
  assumes "plan_from_dict x d = Inr p"
  shows "ExecutionPlan p = Inr p"
  using assms unfolding plan_from_dict_def bindR_Inr_iff
  by (auto simp: mapErr_Inr_iff ExecutionPlan_Inr)

text \<open>
  A compute node only runs a plan that was staged for its own execution and whose parts belong
  together: the document names that execution; the plan is one its constructor accepts; its command,
  working directory, artifacts and resources are those of the workload it names; and a request that
  came with it is one that workload was compiled from, down to the parent experiment.
\<close>

theorem staged_plan_belongs_together:
  assumes "load_plan x loads (Some raw) k = Inr (p, w, request)"
  shows "\<exists>d. loads raw = Some (JObj d) \<and> jget d ''execution_id'' = JStr k \<and> plan_ok p \<and>
    pl_workload_id p = w_id w \<and> plan_argv p = workload_argv w \<and>
    pl_working_directory p = w_working_directory w \<and> pl_inputs p = w_inputs w \<and>
    pl_outputs p = w_outputs w \<and> pl_resources p = w_resources w \<and>
    (\<forall>r. request = Some r \<longrightarrow> rq_command r = plan_argv p \<and> rq_execution r = w_constraints w \<and>
       rq_resolved_parent r = w_parent w \<and> rq_inputs r = pl_inputs p \<and> rq_outputs r = pl_outputs p)"
proof -
  obtain v where v: "loads raw = Some v" "parse_staged_plan x v k = Inr (p, w, request)"
    using assms by (auto simp: load_plan_def split: if_splits option.splits)
  show ?thesis
  proof (rule parse_staged_plan_Inr [OF v(2)])
    fix d pv
    assume d: "v = JObj d" "jget d ''execution_id'' = JStr k" "plan_from_dict x pv = Inr p"
      "pl_workload_id p = w_id w" "plan_matches p w"
      "case request of None \<Rightarrow> True | Some r \<Rightarrow> compiled_from r w"
    then have "plan_ok p" using plan_from_dict_Inr ExecutionPlan_Inr by blast
    with v(1) d show ?thesis
      by (cases request) (auto simp: plan_matches_def compiled_from_def plan_argv_def workload_argv_def)
  qed
qed

section \<open>A concrete staged plan\<close>

definition sample_staged_workload :: workload where
  "sample_staged_workload = \<lparr>w_id = ''w'', w_created_at = ''now'', w_working_directory = ''/w/.'',
     w_executable = ''run'', w_arguments = [], w_inputs = [], w_outputs = [''o''],
     w_resources = rq_resources sample_request, w_capabilities = [], w_launcher = None,
     w_constraints = rq_execution sample_request, w_evidence = [], w_parent = None, w_markers = [],
     w_metadata = []\<rparr>"

definition sample_staged_plan :: plan where
  "sample_staged_plan = sample_plan\<lparr>pl_executable := ''run'', pl_arguments := [],
     pl_working_directory := ''/w/.'', pl_outputs := [''o''],
     pl_resources := rq_resources sample_request\<rparr>"

lemma sample_stageable: "stageable sample_staged_plan sample_staged_workload (Some sample_request)"
proof -
  have "list_all check_ok (rq_checks sample_request)"
    by (simp add: sample_request_def check_ok_def str_ok_def request_limits code_point_def)
  then have "list_all check_spec_ok (rq_checks sample_request)"
    by (auto simp: list_all_iff check_spec_ok_def VerificationCheckSpec_document)
  moreover have "ExecutionRequest sample_request = Inr sample_request"
    by (simp add: ExecutionRequest_def sample_request_def bindR_Inr_iff accept_simps
        validate_string_list_Inr request_limits code_point_def unique_paths_def telemetry_modes_def
        RELEASED_REQUEST_SCHEMA_VERSION_def REQUEST_SCHEMA_VERSION_def dedup_def)
  moreover have "plan_well_formed sample_staged_plan"
    by (simp add: plan_well_formed_def ExecutionPlan_Inr plan_ok_def sample_staged_plan_def
        sample_plan_def sample_shape_def empty_shape_def shape_ok_def product_ok_def resources_ok_def
        sample_request_def backends_def compatibility_states_def)
  moreover have "resources_ok (rq_resources sample_request)"
    "x_backend (rq_execution sample_request) \<in> set backend_names"
    "rq_command sample_request = [''run'']" "rq_resolved_working_directory sample_request = ''/w/.''"
    "rq_inputs sample_request = []" "rq_outputs sample_request = [''o'']"
    "rq_resolved_parent sample_request = None" "source_well_formed (rq_source sample_request)"
    by (simp_all add: sample_request_def resources_ok_def backend_names_def sample_source_def
        source_well_formed_def RequestSource_def source_kinds_def dedup_def request_limits)
  ultimately show ?thesis
    by (simp add: stageable_def sample_staged_plan_def sample_staged_workload_def sample_plan_def
        request_well_formed_def workload_well_formed_def WorkloadSpec_def
        validate_strings_def plan_matches_def compiled_from_def workload_argv_def)
qed


theorem staged_plan_belongs_together_witness:
  "plan_argv sample_staged_plan = workload_argv sample_staged_workload \<and> plan_ok sample_staged_plan"
proof -
  let ?doc = "JObj (staged_document ''E'' sample_staged_plan sample_staged_workload (Some sample_request))"
  have "load_plan sample_site_env (\<lambda>_. Some ?doc) (Some []) ''E''
      = Inr (sample_staged_plan, sample_staged_workload, Some sample_request)"
    by (simp add: load_plan_def staged_document_round_trip [OF sample_stageable])
  from staged_plan_belongs_together [OF this] show ?thesis by simp
qed

end
