(* ===== verification/Capture.thy ===== *)
theory Capture
  imports ExecutionStore WorkerResults Paths
begin

text \<open>
  Capture of declared artifacts (\<open>artifacts.py\<close>) and the record of one run (\<open>lifecycle.py\<close>). What
  \<open>stat\<close>, the digest of a file, the collectors and the process itself give are arguments.
\<close>

section \<open>Artifacts\<close>

text \<open>\<open>stat\<close>: whether the file is regular, its size, and its modification time as text and in ns.\<close>

datatype file_stat =
    StatMissing
  | StatError string
  | Stat bool int string int

text \<open>
  Hashing the file and the second \<open>stat\<close>: the digest, size and modification time, or the text of
  the \<open>OSError\<close> that one of them raised.
\<close>

type_synonym fingerprint = "string + (string \<times> int \<times> string \<times> int)"

record file_env =
  fe_resolve :: "string \<Rightarrow> string"
  fe_stat :: "string \<Rightarrow> file_stat"
  fe_fingerprint :: "string \<Rightarrow> fingerprint"

definition artifact_roles :: "string list" where
  "artifact_roles = [''input'', ''output'']"

definition blank_artifact :: "string \<Rightarrow> string \<Rightarrow> string \<Rightarrow> string \<Rightarrow> string \<Rightarrow> string \<Rightarrow> artifact" where
  "blank_artifact new_id experiment role path resolved captured_at =
     \<lparr>ar_id = new_id, ar_experiment_id = experiment, ar_role = role, ar_original_path = path,
      ar_resolved_path = resolved, ar_existence = ''missing'', ar_capture = ''complete'',
      ar_sha256 = None, ar_size_bytes = None, ar_modified_at = None, ar_captured_at = captured_at,
      ar_capture_error = None\<rparr>"

text \<open>\<open>fe_resolve\<close> is \<open>resolve_artifact_path\<close> in the working directory.\<close>

definition capture_artifact :: "file_env \<Rightarrow> string \<Rightarrow> string \<Rightarrow> string \<Rightarrow> string \<Rightarrow> string \<Rightarrow>
    artifact pyres" where
  "capture_artifact env new_id captured_at experiment role path =
     (if role \<notin> set artifact_roles then value_error (''unsupported artifact role: '' @ role)
      else
        let resolved = fe_resolve env path;
            blank = blank_artifact new_id experiment role path resolved captured_at in
        case fe_stat env resolved of
          StatMissing \<Rightarrow> Inr blank
        | StatError message \<Rightarrow>
            Inr (blank\<lparr>ar_existence := ''unknown'', ar_capture := ''unreadable'',
              ar_capture_error := Some (''could not inspect artifact: '' @ message)\<rparr>)
        | Stat regular bytes modified_at modified_ns \<Rightarrow>
            let present = blank\<lparr>ar_existence := ''present'', ar_size_bytes := Some bytes,
              ar_modified_at := Some modified_at\<rparr> in
            if \<not> regular then
              Inr (present\<lparr>ar_capture := ''unsupported'',
                ar_capture_error := Some ''declared artifact is not a regular file''\<rparr>)
            else
              (case fe_fingerprint env resolved of
                 Inr (digest, bytes', modified_at', modified_ns') \<Rightarrow>
                   let changed = bytes \<noteq> bytes' \<or> modified_ns \<noteq> modified_ns' in
                   Inr (present\<lparr>ar_capture := (if changed then ''changed'' else ''complete''),
                     ar_sha256 := (if changed then None else Some digest),
                     ar_size_bytes := Some bytes', ar_modified_at := Some modified_at',
                     ar_capture_error :=
                       (if changed then Some ''artifact changed while being fingerprinted'' else None)\<rparr>)
               | Inl message \<Rightarrow>
                   Inr (present\<lparr>ar_capture := ''unreadable'',
                     ar_capture_error := Some (''could not fingerprint artifact: '' @ message)\<rparr>)))"

text \<open>Each artifact has a new identity and a reading of the clock of its own.\<close>

definition capture_artifacts :: "file_env \<Rightarrow> (nat \<Rightarrow> string) \<Rightarrow> (nat \<Rightarrow> string) \<Rightarrow> string \<Rightarrow> string \<Rightarrow>
    string list \<Rightarrow> artifact list pyres" where
  "capture_artifacts env new_id now experiment role paths =
     mapM (\<lambda>(i, path). capture_artifact env (new_id i) (now i) experiment role path)
       (zip [0..<length paths] paths)"

section \<open>One run\<close>

text \<open>What \<open>execute_command\<close> observed of the process.\<close>

record process =
  px_status :: string
  px_started_at :: string
  px_ended_at :: string
  px_duration :: json
  px_exit_code :: int
  px_stdout :: string
  px_stderr :: string
  px_signal :: "int option"
  px_launch_error :: bool
  px_capture :: "json dict"

text \<open>
  The collectors give their documents, \<open>Inl\<close> the text of what they raise; the platform's facts
  stand in for the system collector.
\<close>

record collectors =
  co_git :: "string + json dict"
  co_system :: "string + json dict"
  co_context :: "string + json dict"
  co_platform :: string
  co_version :: string
  co_machine :: string
  co_node :: string

definition or_unknown :: "string \<Rightarrow> string" where
  "or_unknown s = (if s = [] then ''unknown'' else s)"

definition safe_git :: "collectors \<Rightarrow> json dict" where
  "safe_git c =
     (case co_git c of
        Inr d \<Rightarrow> d
      | Inl message \<Rightarrow>
          [(''available'', JBool False), (''repository_root'', JNull), (''commit_sha'', JNull),
           (''branch'', JNull), (''dirty'', JNull),
           (''error'', JStr (''Git collector failed: '' @ message))])"

definition safe_system :: "collectors \<Rightarrow> json dict" where
  "safe_system c =
     (case co_system c of
        Inr d \<Rightarrow> d
      | Inl message \<Rightarrow>
          [(''operating_system'', JStr (or_unknown (co_platform c))),
           (''os_version'', JStr (or_unknown (co_version c))),
           (''architecture'', JStr (or_unknown (co_machine c))),
           (''hostname'', JStr (or_unknown (co_node c))), (''cpu'', JNull),
           (''gpu_available'', JBool False), (''gpus'', JArr []), (''nvidia_driver_version'', JNull),
           (''cuda_version'', JNull), (''cuda_version_source'', JNull),
           (''gpu_error'', JStr (''GPU metadata unavailable because the '' @ ''system collector failed'')),
           (''collector_error'', JStr message)])"

definition safe_execution_context :: "collectors \<Rightarrow> string list \<Rightarrow> json dict" where
  "safe_execution_context c argv =
     (case co_context c of
        Inr d \<Rightarrow> d
      | Inl _ \<Rightarrow>
          [(''requested_executable'', JStr (hd argv)), (''resolved_executable'', JNull),
           (''recorder_executable'', JNull), (''environment_hints'', JObj []),
           (''containerized'', JNull)])"

text \<open>\<open>d | e\<close> of two dictionaries\<close>

definition dict_update :: "'v dict \<Rightarrow> 'v dict \<Rightarrow> 'v dict" where
  "dict_update d e = foldl (\<lambda>d (k, v). dict_set k v d) d e"

definition runtime_capture :: "process \<Rightarrow> json dict" where
  "runtime_capture x = dict_update (px_capture x)
     [(''termination_signal'', opt_int (px_signal x)), (''launch_error'', JBool (px_launch_error x)),
      (''started_at'', JStr (px_started_at x)), (''ended_at'', JStr (px_ended_at x)),
      (''duration_seconds'', px_duration x), (''exit_code'', JInt (px_exit_code x)),
      (''status'', JStr (px_status x))]"

text \<open>
  \<open>run_experiment\<close>: \<open>cwd\<close> is the resolved directory; the capture is what is appended to the
  caller's list when it passes one.
\<close>

definition run_experiment :: "collectors \<Rightarrow> process \<Rightarrow> string list \<Rightarrow> string \<Rightarrow> string \<Rightarrow>
    (experiment_record \<times> json dict) pyres" where
  "run_experiment c x argv cwd experiment =
     (if argv = [] then value_error ''a command is required''
      else Inr
        (\<lparr>ex_id = experiment, ex_status = px_status x, ex_command = hd argv,
          ex_arguments = tl argv, ex_working_directory = cwd, ex_started_at = px_started_at x,
          ex_ended_at = px_ended_at x, ex_duration = px_duration x, ex_exit_code = px_exit_code x,
          ex_stdout = px_stdout x, ex_stderr = px_stderr x, ex_git = safe_git c,
          ex_system = safe_system c, ex_context = safe_execution_context c argv,
          ex_schema_version = 2\<rparr>, runtime_capture x))"

section \<open>Captured artifacts can be stored\<close>

text \<open>What \<open>stat\<close> gives is a size that is not negative.\<close>

definition sizes_ok :: "file_env \<Rightarrow> bool" where
  "sizes_ok env \<longleftrightarrow> (\<forall>p. (\<forall>r n m k. fe_stat env p = Stat r n m k \<longrightarrow> n \<ge> 0) \<and>
     (\<forall>d n m k. fe_fingerprint env p = Inr (d, n, m, k) \<longrightarrow> n \<ge> 0))"

lemma capture_artifact_row:
  assumes "capture_artifact env i t e role path = Inr a" and "sizes_ok env"
  shows "artifact_row_ok a"
proof -
  let ?p = "fe_resolve env path"
  have role: "role \<in> set artifact_roles" using assms(1) by (simp add: capture_artifact_def split: if_splits)
  then have named: "role \<noteq> []" by (auto simp: artifact_roles_def)
  note a = assms(1) [unfolded capture_artifact_def Let_def blank_artifact_def, simplified role]
  show ?thesis
  proof (cases "fe_stat env ?p")
    case (Stat regular n m k)
    then have n: "n \<ge> 0" using assms(2) unfolding sizes_ok_def by blast
    show ?thesis
    proof (cases "regular \<and> isOk (fe_fingerprint env ?p)")
      case True
      then obtain d n' m' k' where f: "fe_fingerprint env ?p = Inr (d, n', m', k')"
        by (auto simp: isOk_iff)
      then have "n' \<ge> 0" using assms(2) unfolding sizes_ok_def by blast
      with a Stat True f named show ?thesis by (cases "n = n'"; cases "k = k'")
          (auto simp: artifact_row_ok_def)
    next
      case False
      with a Stat n named show ?thesis
        by (cases regular; cases "fe_fingerprint env ?p") (auto simp: artifact_row_ok_def)
    qed
  qed (use a named in \<open>auto simp: artifact_row_ok_def\<close>)
qed

lemma capture_artifact_of:
  assumes "capture_artifact env i t e role path = Inr a"
  shows "ar_id a = i \<and> ar_experiment_id a = e \<and> ar_role a = role \<and> ar_original_path a = path"
  using assms by (auto simp: capture_artifact_def blank_artifact_def Let_def
      split: if_splits file_stat.splits sum.splits)

lemma capture_artifact_total:
  "role \<in> set artifact_roles \<Longrightarrow> \<exists>a. capture_artifact env i t e role path = Inr a"
  by (auto simp: capture_artifact_def Let_def split: file_stat.splits sum.splits)

end
