(* ===== verification/ComputeWorker.thy ===== *)
theory ComputeWorker
  imports StagedPlans Capture Workload
begin

text \<open>
  The worker on the compute node (\<open>compute_worker.py\<close>): the allocation it can observe, the checks
  before the run, the run, and the result it writes. The node is a record of arguments: its
  environment variables, its file system's answers, its clock and the processes it starts.
\<close>

section \<open>The node\<close>

text \<open>
  A node file is its size and, when it is UTF-8, its text. \<open>nd_module\<close> is the exit code, the number
  of bytes and the text of the activation template's output, \<open>None\<close> when it raised.
  \<open>nd_gpus\<close> is the number of GPUs the system collector found, \<open>None\<close> when it raised.
\<close>

record compute_node =
  nd_environ :: "string dict"
  nd_cpu_count :: "int option"
  nd_gpus :: "int option"
  nd_hostname :: string
  nd_platform :: string
  nd_machine :: string
  nd_python :: string
  nd_read :: "string \<Rightarrow> (nat \<times> string option) option"
  nd_is_dir :: "ppath \<Rightarrow> bool"
  nd_is_file :: "ppath \<Rightarrow> bool"
  nd_exists :: "ppath \<Rightarrow> bool"
  nd_executable :: "ppath \<Rightarrow> bool"
  nd_resolve :: "ppath \<Rightarrow> string"
  nd_which :: "string \<Rightarrow> string option \<Rightarrow> string option"
  nd_module :: "string list \<Rightarrow> (int \<times> nat \<times> string) option"
  nd_digest :: "ppath \<Rightarrow> string option"
  nd_now :: "nat \<Rightarrow> string"
  nd_ulid :: "nat \<Rightarrow> string"

text \<open>What ends the worker without a result: an exception of the model, or another one.\<close>

datatype worker_fault = WorkerRaised py_error | WorkerOther

type_synonym 'a worked = "(worker_fault, 'a) res"

abbreviation raised :: "'a pyres \<Rightarrow> 'a worked" where
  "raised m \<equiv> mapErr WorkerRaised m"

section \<open>The allocation\<close>

definition MAX_ALLOCATION_ENVIRONMENT_VALUE :: nat where
  "MAX_ALLOCATION_ENVIRONMENT_VALUE = 16 * 1024"

definition ALLOCATION_ENVIRONMENT :: "(string \<times> string) list" where
  "ALLOCATION_ENVIRONMENT =
     [(''SLURM_JOB_ID'', ''slurm_job_id''), (''SLURM_JOB_PARTITION'', ''slurm_partition''),
      (''SLURM_JOB_NUM_NODES'', ''nodes''), (''SLURM_CPUS_ON_NODE'', ''slurm_cpus_on_node''),
      (''SLURM_JOB_CPUS_PER_NODE'', ''slurm_job_cpus_per_node''),
      (''SLURM_JOB_NODELIST'', ''slurm_job_nodelist''), (''SLURM_NTASKS'', ''mpi_ranks''),
      (''SLURM_GPUS'', ''slurm_gpus''), (''PBS_JOBID'', ''pbs_job_id''),
      (''PBS_QUEUE'', ''pbs_queue''), (''PBS_NP'', ''cpus''), (''PBS_NODEFILE'', ''pbs_nodefile''),
      (''LSB_JOBID'', ''lsf_job_id''), (''LSB_QUEUE'', ''lsf_queue''), (''LSB_HOSTS'', ''lsf_hosts''),
      (''LSB_MCPU_HOSTS'', ''lsf_mcpu_hosts''), (''LSB_DJOB_NUMPROC'', ''mpi_ranks''),
      (''LSB_GPU_REQ'', ''lsf_gpu_request''), (''CUDA_VISIBLE_DEVICES'', ''cuda_visible_devices'')]"

text \<open>The loop over the allowlist: the values kept and the fields that were too long.\<close>

fun allocation_environment :: "string dict \<Rightarrow> (string \<times> string) list \<Rightarrow> string dict \<Rightarrow>
    string list \<Rightarrow> string dict \<times> string list" where
  "allocation_environment environ [] raw oversized = (raw, oversized)"
| "allocation_environment environ ((variable, field) # rest) raw oversized =
     (case dict_get environ variable of
        None \<Rightarrow> allocation_environment environ rest raw oversized
      | Some v \<Rightarrow>
          if length v > MAX_ALLOCATION_ENVIRONMENT_VALUE
          then allocation_environment environ rest raw (oversized @ [field])
          else allocation_environment environ rest (dict_set field v raw) oversized)"

text \<open>\<open>_positive_int\<close>, which accepts zero\<close>

definition allocation_int :: "string \<Rightarrow> int option" where
  "allocation_int s = (case int_of_text s of None \<Rightarrow> None | Some i \<Rightarrow> if i \<ge> 0 then Some i else None)"

definition set_count :: "string dict \<Rightarrow> string \<Rightarrow> json dict \<Rightarrow> json dict" where
  "set_count raw k counts =
     (case Option.bind (dict_get raw k) allocation_int of
        None \<Rightarrow> counts | Some i \<Rightarrow> dict_set k (JInt i) counts)"

text \<open>\<open>[1-9][0-9]{0,9}\<close> in front of a text, and what follows: as many digits as the bound allows.\<close>

definition ten_digits :: "string \<Rightarrow> (int \<times> string) option" where
  "ten_digits s =
     (let n = take 10 (takeWhile is_digit s) in
      if n = [] \<or> hd n = CHR ''0'' then None
      else Some (int (parse_nat n), drop (length n) s))"

text \<open>One token, such as \<open>72(x2)\<close>: the CPUs and how often they repeat.\<close>

definition cpu_token :: "string \<Rightarrow> (int \<times> int) option" where
  "cpu_token token =
     (case ten_digits (py_strip token) of
        None \<Rightarrow> None
      | Some (cpus, []) \<Rightarrow> Some (cpus, 1)
      | Some (cpus, rest) \<Rightarrow>
          if starts_with ''(x'' rest \<or> starts_with ''(X'' rest then
            (case ten_digits (drop 2 rest) of
               Some (repetitions, '')'') \<Rightarrow> Some (cpus, repetitions)
             | _ \<Rightarrow> None)
          else None)"

fun cpu_layout :: "string list \<Rightarrow> int list \<Rightarrow> int list option" where
  "cpu_layout [] layout = (if layout = [] then None else Some layout)"
| "cpu_layout (token # tokens) layout =
     (case cpu_token token of
        None \<Rightarrow> None
      | Some (cpus, repetitions) \<Rightarrow>
          if repetitions > 4096 \<or> int (length layout) + repetitions > 4096 then None
          else cpu_layout tokens (layout @ replicate (nat repetitions) cpus))"

definition parse_slurm_cpus_per_node :: "string option \<Rightarrow> int list option" where
  "parse_slurm_cpus_per_node v =
     (case v of
        None \<Rightarrow> None
      | Some s \<Rightarrow>
          if s = [] \<or> length s > 16 * 1024 then None else cpu_layout (split_on (CHR '','') s) [])"

text \<open>\<open>re.findall(r"\d+", value)\<close>\<close>

fun digit_runs :: "string \<Rightarrow> string \<Rightarrow> string list" where
  "digit_runs run [] = (if run = [] then [] else [run])"
| "digit_runs run (c # cs) =
     (if is_digit c then digit_runs (run @ [c]) cs
      else (if run = [] then [] else [run]) @ digit_runs [] cs)"

text \<open>The interpreter refuses to read more than 4300 digits.\<close>

definition allocated_gpu_count :: "string dict \<Rightarrow> int option pyres" where
  "allocated_gpu_count raw =
     (case dict_get raw ''cuda_visible_devices'' of
        Some v \<Rightarrow>
          if py_strip v \<in> {[], ''-1'', ''NoDevFiles''} then Inr (Some 0)
          else Inr (Some (int (length (filter (\<lambda>item. py_strip item \<noteq> [])
                 (split_on (CHR '','') (py_strip v))))))
      | None \<Rightarrow>
          (case dict_get raw ''slurm_gpus'' of
             None \<Rightarrow> Inr None
           | Some v \<Rightarrow>
               bindR (mapM (\<lambda>digits.
                   if length digits > 4300
                   then value_error ''Exceeds the limit for integer string conversion''
                   else Inr (int (parse_nat digits))) (digit_runs [] v)) (\<lambda>counts.
               Inr (if counts = [] then None else Some (last counts)))))"

text \<open>\<open>xs[0::2]\<close> and \<open>xs[1::2]\<close>\<close>

fun every_second :: "'a list \<Rightarrow> 'a list" where
  "every_second [] = []"
| "every_second [x] = [x]"
| "every_second (x # y # xs) = x # every_second xs"

definition allocation_hosts :: "compute_node \<Rightarrow> string dict \<Rightarrow> string list pyres" where
  "allocation_hosts node raw =
     (let text = (\<lambda>k. case dict_get raw k of None \<Rightarrow> [] | Some v \<Rightarrow> v) in
      if text ''lsf_mcpu_hosts'' \<noteq> []
      then Inr (take 4096 (dedup (every_second (split_ws (text ''lsf_mcpu_hosts'')))))
      else if text ''lsf_hosts'' \<noteq> []
      then Inr (take 4096 (dedup (split_ws (text ''lsf_hosts''))))
      else if text ''pbs_nodefile'' = [] then Inr []
      else
        (case nd_read node (text ''pbs_nodefile'') of
           None \<Rightarrow> Inr []
         | Some (bytes, content) \<Rightarrow>
             if bytes > 1024 * 1024 then Inr []
             else (case content of
                 None \<Rightarrow> value_error ''node file is not UTF-8''
               | Some s \<Rightarrow> Inr (take 4096 (dedup (split_ws s))))))"

definition scheduler_counts :: "string dict \<Rightarrow> json dict" where
  "scheduler_counts raw =
     set_count raw ''cpus'' (set_count raw ''mpi_ranks'' (set_count raw ''nodes'' []))"

text \<open>The whole job's CPU layout, when Slurm gives one.\<close>

definition slurm_layout_counts :: "string dict \<Rightarrow> json dict \<Rightarrow> json dict" where
  "slurm_layout_counts raw counts =
     (case parse_slurm_cpus_per_node (dict_get raw ''slurm_job_cpus_per_node'') of
        None \<Rightarrow> counts
      | Some layout \<Rightarrow>
          let counts = dict_set ''cpus'' (JInt (sum_list layout))
                (dict_set ''cpus_per_node_allocation'' (JArr (map JInt layout)) counts);
              counts = (if dict_get counts ''nodes'' = None
                        then dict_set ''nodes'' (JInt (int (length layout))) counts else counts)
          in if length (dedup layout) = 1 then dict_set ''cpus_per_node'' (JInt (hd layout)) counts
             else counts)"

definition local_counts :: "string dict \<Rightarrow> json dict \<Rightarrow> json dict" where
  "local_counts raw counts =
     (case Option.bind (dict_get raw ''slurm_cpus_on_node'') allocation_int of
        None \<Rightarrow> counts
      | Some cpus \<Rightarrow>
          let counts = dict_set ''local_cpus_on_node'' (JInt cpus) counts in
          if jget counts ''nodes'' = JInt 1 \<and>
             parse_slurm_cpus_per_node (dict_get raw ''slurm_job_cpus_per_node'') = None
          then dict_set ''cpus'' (JInt cpus) (dict_set ''cpus_per_node'' (JInt cpus) counts)
          else counts)"

definition lsf_counts :: "string dict \<Rightarrow> json dict \<Rightarrow> json dict" where
  "lsf_counts raw counts =
     (case (dict_get raw ''lsf_mcpu_hosts'', dict_get raw ''lsf_hosts'') of
        (Some (c # cs), _) \<Rightarrow>
          let words = split_ws (c # cs); slots = map allocation_int (every_second (tl words)) in
          if even (length words) \<and> None \<notin> set slots
          then dict_set ''cpus'' (JInt (sum_list (map the slots)))
                 (dict_set ''nodes'' (JInt (int (length words div 2))) counts)
          else counts
      | (_, Some (c # cs)) \<Rightarrow>
          dict_set ''nodes'' (JInt (int (length (dedup (split_ws (c # cs)))))) counts
      | _ \<Rightarrow> counts)"

definition gpu_entry :: "int option \<Rightarrow> json dict \<Rightarrow> json dict" where
  "gpu_entry gpus counts = (case gpus of None \<Rightarrow> counts | Some n \<Rightarrow> dict_set ''gpus'' (JInt n) counts)"

text \<open>A direct run takes the whole node.\<close>

definition direct_counts :: "compute_node \<Rightarrow> json dict \<Rightarrow> json dict" where
  "direct_counts node counts =
     gpu_entry (nd_gpus node)
       (dict_set ''nodes'' (JInt 1)
         (case nd_cpu_count node of
            None \<Rightarrow> counts | Some n \<Rightarrow> dict_set ''cpus'' (JInt n) counts))"

definition observe_allocation :: "compute_node \<Rightarrow> string \<Rightarrow> bool \<Rightarrow> allocation worked" where
  "observe_allocation node execution_id direct =
     (let (raw, oversized) = allocation_environment (nd_environ node) ALLOCATION_ENVIRONMENT [] [];
          counts = lsf_counts raw (local_counts raw (slurm_layout_counts raw (scheduler_counts raw))) in
      bindR (raised (allocated_gpu_count raw)) (\<lambda>gpus.
      let counts = gpu_entry gpus counts;
          counts = (if direct then direct_counts node counts else counts) in
      bindR (raised (allocation_hosts node raw)) (\<lambda>hosts.
      let whole = hosts \<noteq> [] \<or> (case dict_get raw ''slurm_job_nodelist'' of
                      None \<Rightarrow> False | Some v \<Rightarrow> v \<noteq> []) in
      Inr \<lparr>al_id = nd_ulid node 0, al_execution_id = execution_id, al_observed_at = nd_now node 0,
        al_resources = counts,
        al_hosts = (if whole then hosts else [or_unknown (nd_hostname node)]),
        al_evidence =
          [(''environment'', JObj (map (\<lambda>(k, v). (k, JStr v)) raw)),
           (''source'', JStr ''compute_worker_allowlist''),
           (''host_scope'', JStr (if whole then ''allocation'' else ''local_only'')),
           (''oversized_fields_omitted'', JArr (map JStr oversized))]\<rparr>)))"

section \<open>The activated environment\<close>

definition activation_evidence :: "activation \<Rightarrow> string \<Rightarrow> json dict" where
  "activation_evidence a status =
     [(''kind'', JStr (a_kind a)), (''names'', strings (a_names a)),
      (''prefix'', opt_json JStr (a_prefix a)), (''status'', JStr status)]"

text \<open>The lines of \<open>env -0\<close>: the first \<open>=\<close> of each separates name and value.\<close>

fun split_first :: "char \<Rightarrow> string \<Rightarrow> (string \<times> string) option" where
  "split_first c [] = None"
| "split_first c (x # xs) =
     (if x = c then Some ([], xs)
      else map_option (\<lambda>(a, b). (x # a, b)) (split_first c xs))"

definition parse_environment :: "string \<Rightarrow> string dict" where
  "parse_environment output =
     foldl (\<lambda>d item. case split_first (CHR ''='') item of
         None \<Rightarrow> d | Some (k, v) \<Rightarrow> dict_set k v d) [] (split_on (CHR 0x00) output)"

definition prefix_variable :: "string \<Rightarrow> string" where
  "prefix_variable kind =
     (if kind = ''virtualenv'' then ''VIRTUAL_ENV''
      else if kind = ''conda'' then ''CONDA_PREFIX'' else ''SPACK_ENV'')"

definition prefix_environment :: "string \<Rightarrow> ppath \<Rightarrow> string dict \<Rightarrow> string dict" where
  "prefix_environment kind prefix environ =
     dict_set (prefix_variable kind) (path_str prefix)
       (dict_set ''PATH''
         (path_str (path_join prefix ''bin'') @ '':''
          @ (case dict_get environ ''PATH'' of None \<Rightarrow> [] | Some v \<Rightarrow> v)) environ)"

text \<open>The environment of the run, what is reported of it, and the problem if there is one.\<close>

type_synonym activated = "string dict \<times> json dict \<times> string option"

definition activate_modules :: "compute_node \<Rightarrow> activation \<Rightarrow> activated worked" where
  "activate_modules node a =
     (case nd_which node ''sh'' None of
        None \<Rightarrow> Inr (nd_environ node, activation_evidence a ''failed'',
          Some ''module activation requires a POSIX shell'')
      | Some _ \<Rightarrow>
          (case nd_module node (a_names a) of
             None \<Rightarrow> Inl WorkerOther
           | Some (code, bytes, output) \<Rightarrow>
               if code \<noteq> 0 \<or> bytes > 4 * 1024 * 1024
               then Inr (nd_environ node, activation_evidence a ''failed'',
                 Some ''planned module environment could not be reproduced'')
               else Inr (parse_environment output, activation_evidence a ''reproduced'', None)))"

definition activation_environment :: "compute_node \<Rightarrow> plan \<Rightarrow> activated worked" where
  "activation_environment node p =
     (case pl_environment p of
        None \<Rightarrow> Inr (nd_environ node,
          [(''kind'', JStr ''none''), (''status'', JStr ''not_planned'')], None)
      | Some e \<Rightarrow>
          let a = re_activation e in
          if a_kind a = ''none''
          then Inr (nd_environ node, activation_evidence a ''reproduced'', None)
          else if a_kind a \<in> {''virtualenv'', ''conda'', ''spack''} then
            let prefix = path_of (case a_prefix a of None \<Rightarrow> [] | Some s \<Rightarrow> s) in
            if \<not> nd_is_dir node prefix \<or> \<not> nd_is_dir node (path_join prefix ''bin'')
            then Inr (nd_environ node, activation_evidence a ''failed'',
              Some ''planned environment prefix is unavailable'')
            else Inr (prefix_environment (a_kind a) prefix (nd_environ node),
              activation_evidence a ''reproduced'', None)
          else activate_modules node a)"

definition resolve_with_environment :: "compute_node \<Rightarrow> string \<Rightarrow> ppath \<Rightarrow> string dict \<Rightarrow>
    string option" where
  "resolve_with_environment node executable cwd environ =
     (if is_absolute (path_of executable) \<or> CHR ''/'' \<in> set executable then
        let candidate = path_join cwd executable in
        if nd_is_file node candidate \<and> nd_executable node candidate
        then Some (nd_resolve node candidate) else None
      else nd_which node executable (dict_get environ ''PATH''))"

section \<open>Checks before the run\<close>

text \<open>The image: the digest that was computed, and the problem.\<close>

definition check_image :: "compute_node \<Rightarrow> container \<Rightarrow> (string option \<times> string list) worked" where
  "check_image node c =
     (let image = path_of (c_image c) in
      if \<not> nd_is_file node image
      then Inr (None, [''planned existing container image is unavailable''])
      else
        (case c_image_digest c of
           None \<Rightarrow> Inr (None, [])
         | Some expected \<Rightarrow>
             (case nd_digest node image of
                None \<Rightarrow> Inl WorkerOther
              | Some digest \<Rightarrow> Inr (Some (''sha256:'' @ digest),
                  if ''sha256:'' @ digest \<noteq> expected
                  then [''planned container image digest does not match''] else []))))"

definition mount_problems :: "compute_node \<Rightarrow> container \<Rightarrow> string list" where
  "mount_problems node c =
     map (\<lambda>m. ''planned container bind source is unavailable: '' @ m_source m)
       (filter (\<lambda>m. \<not> nd_exists node (path_of (m_source m))) (c_mounts c))"

definition check_container :: "compute_node \<Rightarrow> plan \<Rightarrow> (string option \<times> string list) worked" where
  "check_container node p =
     (case pl_container p of
        None \<Rightarrow> Inr (None, [])
      | Some c \<Rightarrow> mapR (\<lambda>(digest, problems). (digest, problems @ mount_problems node c))
          (check_image node c))"

definition requested_counts :: "plan \<Rightarrow> (string \<times> int option) list" where
  "requested_counts p =
     (case pl_shape p of
        Some s \<Rightarrow> [(''nodes'', s_nodes s), (''cpus'', s_total_cpus s), (''gpus'', s_gpus s),
          (''mpi_ranks'', s_mpi_ranks s)]
      | None \<Rightarrow> let r = pl_resources p in
          [(''nodes'', r_nodes r), (''cpus'', r_cpus r), (''gpus'', r_gpus r),
           (''mpi_ranks'', r_mpi_ranks r)])"

text \<open>\<open>int(observed) < required\<close>: the observed counts are integers.\<close>

definition shortfall :: "json dict \<Rightarrow> string \<times> int option \<Rightarrow> string list" where
  "shortfall observed = (\<lambda>(name, requested).
     (case (requested, jget observed name) of
        (Some need, JInt have) \<Rightarrow>
          if have < need
          then [''allocated '' @ name @ '' ('' @ str_int have @ '') are below the requested value (''
                @ str_int need @ '')'']
          else []
      | _ \<Rightarrow> []))"

definition requested_executable :: "plan \<Rightarrow> string" where
  "requested_executable p =
     (case pl_container p of None \<Rightarrow> pl_executable p | Some c \<Rightarrow> c_runtime c)"

definition preflight_document :: "compute_node \<Rightarrow> plan \<Rightarrow> bool \<Rightarrow> string option \<Rightarrow> json dict \<Rightarrow>
    string option \<Rightarrow> allocation \<Rightarrow> json dict" where
  "preflight_document node p cwd_ok resolved evidence digest a =
     [(''observed_at'', JStr (nd_now node 1)), (''working_directory_available'', JBool cwd_ok),
      (''requested_executable'', JStr (requested_executable p)),
      (''resolved_executable'', opt_json JStr resolved),
      (''requested_resources'', JObj (resources_to_dict (pl_resources p))),
      (''selected_resource_shape'', opt_json (JObj \<circ> shape_to_dict) (pl_shape p)),
      (''environment_activation'', JObj evidence),
      (''container'', (case pl_container p of
          None \<Rightarrow> JNull
        | Some c \<Rightarrow> JObj (container_to_dict c
            @ [(''observed_image_digest'', opt_json JStr digest)]))),
      (''observed_resources'', JObj (al_resources a))]"

definition preflight :: "compute_node \<Rightarrow> plan \<Rightarrow> allocation \<Rightarrow>
    (string list \<times> json dict \<times> string dict) worked" where
  "preflight node p a =
     bindR (activation_environment node p) (\<lambda>(environ, evidence, problem).
     let cwd = path_of (pl_working_directory p);
         cwd_ok = nd_is_dir node cwd;
         resolved = (if cwd_ok \<and> problem = None
           then resolve_with_environment node (requested_executable p) cwd environ else None);
         problems = (case problem of None \<Rightarrow> [] | Some m \<Rightarrow> [m])
           @ (if \<not> cwd_ok then [''working directory is unavailable on the execution host'']
              else if resolved = None
              then [''requested executable or container runtime is unavailable on the ''
                    @ ''execution host'']
              else [])
     in
     bindR (check_container node p) (\<lambda>(digest, container_problems).
     Inr (problems @ container_problems
            @ concat (map (shortfall (al_resources a)) (requested_counts p)),
          preflight_document node p cwd_ok resolved evidence digest a, environ)))"

text \<open>The command line of the run: inside a container, the runtime's.\<close>

definition mount_argument :: "mount \<Rightarrow> string list" where
  "mount_argument m =
     [''--bind'', m_source m @ '':'' @ m_destination m @ (if m_read_only m then '':ro'' else [])]"

definition execution_argv :: "plan \<Rightarrow> string list" where
  "execution_argv p =
     (case pl_container p of
        None \<Rightarrow> plan_argv p
      | Some c \<Rightarrow>
          [c_runtime c, ''exec''] @ (if c_clean_environment c then [''--cleanenv''] else [])
          @ [''--pwd'', pl_working_directory p] @ concat (map mount_argument (c_mounts c))
          @ [c_image c] @ plan_argv p)"

section \<open>Runtime evidence\<close>

definition only_keys :: "string list \<Rightarrow> json dict \<Rightarrow> json dict" where
  "only_keys names d =
     concat (map (\<lambda>k. case dict_get d k of None \<Rightarrow> [] | Some v \<Rightarrow> [(k, v)]) names)"

definition process_metrics :: "plan \<Rightarrow> json dict \<Rightarrow> json dict \<Rightarrow> json dict" where
  "process_metrics p capture checked = dict_update
     (only_keys [''root_pid'', ''observed_processes'', ''peak_concurrent_processes'', ''samples'',
        ''sample_interval_seconds'', ''stdout_capture_bytes'', ''stderr_capture_bytes'',
        ''stdout_truncated'', ''stderr_truncated'', ''capture_limit_bytes''] capture)
     [(''resolved_executable'', jget checked ''resolved_executable''),
      (''exact_argv'', strings (execution_argv p)), (''scientific_argv'', strings (plan_argv p)),
      (''working_directory'', JStr (pl_working_directory p)),
      (''started_at'', jget capture ''started_at''), (''ended_at'', jget capture ''ended_at''),
      (''duration_seconds'', jget capture ''duration_seconds''),
      (''exit_code'', jget capture ''exit_code''),
      (''signal'', jget capture ''termination_signal'')]"

definition requested_shape :: "plan \<Rightarrow> json dict" where
  "requested_shape p =
     (case pl_shape p of
        Some s \<Rightarrow> shape_to_dict s
      | None \<Rightarrow> let r = pl_resources p in
          [(''nodes'', opt_int (r_nodes r)), (''total_cpus'', opt_int (r_cpus r)),
           (''mpi_ranks'', opt_int (r_mpi_ranks r)), (''gpus'', opt_int (r_gpus r)),
           (''memory_bytes'', opt_int (r_memory_bytes r)),
           (''walltime_seconds'', opt_int (r_walltime_seconds r))])"

definition discrepancy :: "json dict \<Rightarrow> json dict \<Rightarrow> string \<times> string \<Rightarrow> json list" where
  "discrepancy requested observed = (\<lambda>(requested_name, observed_name).
     let expected = jget requested requested_name; actual = jget observed observed_name in
     if expected \<noteq> JNull \<and> actual \<noteq> JNull \<and> \<not> py_eq expected actual
     then [JObj [(''resource'', JStr observed_name), (''requested'', expected),
                 (''observed'', actual)]]
     else [])"

definition allocation_discrepancies :: "json dict \<Rightarrow> json dict \<Rightarrow> json list" where
  "allocation_discrepancies requested observed =
     concat (map (discrepancy requested observed)
       [(''nodes'', ''nodes''), (''total_cpus'', ''cpus''), (''mpi_ranks'', ''mpi_ranks''),
        (''gpus'', ''gpus''), (''memory_bytes'', ''memory_bytes'')])"

text \<open>\<open>RuntimeEvidenceGroup(...)\<close> with a diagnostic that may be null.\<close>

definition evidence_group :: "string \<Rightarrow> string \<Rightarrow> json dict \<Rightarrow> json \<Rightarrow> group pyres" where
  "evidence_group coverage source metrics diagnostic =
     RuntimeEvidenceGroup (JStr coverage) (JStr source) (JObj metrics) diagnostic"

definition environment_facts :: "allocation \<Rightarrow> json dict" where
  "environment_facts a =
     (case jget_or (al_evidence a) ''environment'' (JObj []) of JObj d \<Rightarrow> d | _ \<Rightarrow> [])"

definition allocation_group :: "plan \<Rightarrow> allocation \<Rightarrow> group pyres" where
  "allocation_group p a =
     (let scope = jget_or (al_evidence a) ''host_scope'' (JStr ''unknown'');
          seen = al_resources a \<noteq> [];
          coverage = (if \<not> seen then ''unknown''
            else if pl_backend p \<noteq> ''direct'' \<and> scope \<noteq> JStr ''allocation''
            then ''partially_observed'' else ''observed'')
      in evidence_group coverage ''compute_worker_allowlist''
        [(''requested_resource_shape'', JObj (requested_shape p)),
         (''compute_worker_observed'', JObj (al_resources a)),
         (''scheduler_environment_facts'', JObj (environment_facts a)),
         (''hosts'', strings (al_hosts a)), (''host_scope'', scope),
         (''discrepancies'', JArr (allocation_discrepancies (requested_shape p) (al_resources a)))]
        (JStr (if seen
           then ''scheduler allocation facts visible to this compute worker; ''
                @ ''not scheduler accounting''
           else ''no scheduler allocation facts were visible'')))"

definition nvidia_metrics :: "json dict option \<Rightarrow> json dict" where
  "nvidia_metrics system =
     (case system of
        None \<Rightarrow> []
      | Some d \<Rightarrow>
          if \<not> truthy (jget d ''gpu_available'') then []
          else [(''nvidia_devices'', jget d ''gpus''),
                (''nvidia_driver_version'', jget d ''nvidia_driver_version''),
                (''cuda_version'', jget d ''cuda_version''),
                (''cuda_version_source'', jget d ''cuda_version_source'')])"

definition gpu_group :: "allocation \<Rightarrow> json dict option \<Rightarrow> group pyres" where
  "gpu_group a system =
     (let visible = jget (environment_facts a) ''cuda_visible_devices'';
          allocated = jget (al_resources a) ''gpus''; nvidia = nvidia_metrics system in
      if visible \<noteq> JNull then
        evidence_group ''partially_observed''
          (if nvidia \<noteq> [] then ''CUDA_VISIBLE_DEVICES+nvidia_smi'' else ''CUDA_VISIBLE_DEVICES'')
          ([(''visible_devices'', visible), (''allocated_gpus'', allocated)] @ nvidia)
          (JStr (''device identity was observed; '' @ ''utilization counters were not sampled''))
      else if nvidia \<noteq> [] then
        evidence_group ''partially_observed'' ''nvidia_smi'' nvidia
          (JStr (''host NVIDIA identity was observed; ''
             @ ''scheduler allocation and utilization were not established''))
      else if allocated = JInt 0 then
        evidence_group ''unsupported'' ''allocation'' [(''allocated_gpus'', JInt 0)]
          (JStr ''no GPU was allocated'')
      else
        evidence_group ''unavailable'' ''runtime_collector'' []
          (JStr ''execution-scoped GPU utilization was not available''))"

definition environment_group :: "compute_node \<Rightarrow> plan \<Rightarrow> json dict \<Rightarrow> group pyres" where
  "environment_group node p checked =
     evidence_group ''observed'' ''compute_worker_preflight''
       [(''platform'', JStr (or_unknown (nd_platform node))),
        (''architecture'', JStr (or_unknown (nd_machine node))),
        (''python'', JStr (nd_python node)),
        (''working_directory'', JStr (pl_working_directory p)),
        (''activation'', jget checked ''environment_activation''),
        (''container'', jget checked ''container'')] JNull"

text \<open>\<open>capture\<close> is what the run reported, \<open>checked\<close> what was found before it.\<close>

definition runtime_evidence :: "compute_node \<Rightarrow> string \<Rightarrow> string option \<Rightarrow> json dict \<Rightarrow> allocation \<Rightarrow>
    json dict \<Rightarrow> plan \<Rightarrow> json dict option \<Rightarrow> string \<Rightarrow> string \<Rightarrow> runtime pyres" where
  "runtime_evidence node execution_id experiment capture a checked p system new_id now =
     (let procfs = jget capture ''collector'' = JStr ''linux_procfs'';
          sampled = (if procfs then ''partially_observed'' else ''unavailable'');
          source = (if procfs then ''linux_procfs'' else ''runtime_collector'');
          note = (\<lambda>s. if procfs then JStr s else jget capture ''diagnostic'')
      in
      bindR (evidence_group (if procfs then ''observed'' else ''unavailable'') source
        (process_metrics p capture checked) (jget capture ''diagnostic'')) (\<lambda>process.
      bindR (evidence_group sampled source
        (only_keys [''cpu_seconds''] capture
         @ [(''observed_cpu_allocation'', jget (al_resources a) ''cpus'')])
        (note ''sampled execution process tree on this allocation node'')) (\<lambda>cpu.
      bindR (evidence_group sampled source (only_keys [''peak_rss_bytes''] capture)
        (note (''sampled RSS for the execution process tree '' @ ''on this allocation node''))) (\<lambda>memory.
      bindR (evidence_group sampled source (only_keys [''read_bytes'', ''write_bytes''] capture)
        (note (''sampled process I/O counters; ''
          @ ''filesystem and remote-node I/O are not implied''))) (\<lambda>io.
      bindR (allocation_group p a) (\<lambda>allocated.
      bindR (gpu_group a system) (\<lambda>gpu.
      bindR (environment_group node p checked) (\<lambda>environment.
      RuntimeEvidence (JStr new_id) (JStr execution_id) (opt_json JStr experiment) (JStr now)
        [process, allocated, cpu, memory, io, gpu, environment] (JInt 1)))))))))"

text \<open>The phase and outcome of a run, from its record, its capture and its verification.\<close>

definition termination_of :: "experiment_record \<Rightarrow> json dict \<Rightarrow> verification option \<Rightarrow>
    string \<times> string" where
  "termination_of e capture v =
     (if truthy (jget capture ''launch_error'') then (''launch'', ''launch_failed'')
      else if jget capture ''termination_signal'' \<noteq> JNull then (''running'', ''terminated_by_signal'')
      else if ex_status e = ''failed'' then (''running'', ''running_then_failed'')
      else if map_option vr_aggregate v = Some ''failed'' then (''verification'', ''verification_failed'')
      else (''running'', ''completed''))"

definition run_termination :: "experiment_record \<Rightarrow> json dict \<Rightarrow> verification option \<Rightarrow>
    termination_evidence pyres" where
  "run_termination e capture v =
     (let (phase, outcome) = termination_of e capture v in
      TerminationEvidence (JStr phase) (JStr outcome) (JStr ''compute_worker'')
        (JInt (ex_exit_code e)) (jget capture ''termination_signal'') JNull (JStr ''complete'')
        (JStr (if jget capture ''collector'' = JStr ''linux_procfs'' then ''observed''
               else ''unavailable'')) JNull)"

section \<open>The run\<close>

text \<open>
  What one execution meets on its node. \<open>ru_cwd\<close> is the working directory once resolved, which the
  run is recorded under; the files are looked at before and after the run.
\<close>

record node_run =
  ru_cwd :: "string \<Rightarrow> string"
  ru_before :: file_env
  ru_after :: file_env
  ru_collectors :: collectors
  ru_process :: "string list \<Rightarrow> string dict \<Rightarrow> bool \<Rightarrow> process"

definition disabled_capture :: "json dict" where
  "disabled_capture =
     [(''collector'', JStr ''disabled''),
      (''diagnostic'', JStr (''runtime collection was disabled by '' @ ''the execution request''))]"

definition lineage_of :: "workload \<Rightarrow> string \<Rightarrow> string \<Rightarrow> lineage list" where
  "lineage_of w experiment created_at =
     (case w_parent w of
        None \<Rightarrow> []
      | Some parent \<Rightarrow> [\<lparr>li_child = experiment, li_parent = parent,
          li_relationship = ''derived_from'', li_created_at = created_at\<rparr>])"

definition preflight_failure :: "compute_node \<Rightarrow> string \<Rightarrow> plan \<Rightarrow> request option \<Rightarrow> allocation \<Rightarrow>
    string list \<Rightarrow> json dict \<Rightarrow> worker_result worked" where
  "preflight_failure node execution_id p request a problems checked =
     (let message = join ''; '' problems in
      bindR (raised (runtime_evidence node execution_id None [] a checked p None
        (nd_ulid node 1) (nd_now node 2))) (\<lambda>evidence.
      bindR (raised (TerminationEvidence (JStr ''preflight'') (JStr ''preflight_failed'')
        (JStr ''compute_worker_preflight'') JNull JNull JNull (JStr ''missing'')
        (JStr ''unavailable'') (JStr message))) (\<lambda>termination.
      Inr \<lparr>wr_execution = execution_id, wr_state = ''preflight_failed'',
        wr_created_at = nd_now node 3, wr_experiment = None, wr_artifacts = [], wr_lineage = [],
        wr_allocation = Some a,
        wr_preflight = dict_update checked
          [(''status'', JStr ''failed''), (''problems'', strings problems)],
        wr_error = Some message, wr_request = map_option rq_id request, wr_telemetry = None,
        wr_verification = None, wr_runtime = Some evidence, wr_termination = Some termination,
        wr_version = JInt (if request = None then 1 else 3)\<rparr>)))"

text \<open>What the result says of the run when there is a request.\<close>

definition run_outcomes :: "compute_node \<Rightarrow> string \<Rightarrow> plan \<Rightarrow> request \<Rightarrow> allocation \<Rightarrow> json dict \<Rightarrow>
    experiment_record \<Rightarrow> json dict \<Rightarrow> artifact list \<Rightarrow> nat \<Rightarrow>
    (telemetry option \<times> verification \<times> runtime \<times> termination_evidence) worked" where
  "run_outcomes node execution_id p r a checked e capture artifacts n =
     bindR (raised (build_telemetry_summary (nd_ulid node n) r p execution_id e artifacts (Some a)
       JNull)) (\<lambda>telemetry.
     bindR (raised (evaluate_verification (\<lambda>i. nd_ulid node (n + 1 + i)) r execution_id e
       artifacts)) (\<lambda>v.
     bindR (raised (runtime_evidence node execution_id (Some (ex_id e)) capture a checked p
       (Some (ex_system e)) (nd_ulid node (n + 2 + length (rq_checks r))) (nd_now node 2))) (\<lambda>evidence.
     bindR (raised (run_termination e capture (Some v))) (\<lambda>termination.
     Inr (telemetry, v, evidence, termination)))))"

definition execute_run :: "compute_node \<Rightarrow> node_run \<Rightarrow> string \<Rightarrow> plan \<Rightarrow> workload \<Rightarrow> request option \<Rightarrow>
    allocation \<Rightarrow> json dict \<Rightarrow> string dict \<Rightarrow> worker_result worked" where
  "execute_run node run execution_id p w request a checked environ =
     (let experiment = nd_ulid node 1;
          collect = (case request of None \<Rightarrow> False | Some r \<Rightarrow> rq_telemetry_mode r \<noteq> ''off'');
          inputs_from = 2; outputs_from = 2 + length (pl_inputs p);
          next_id = outputs_from + length (pl_outputs p)
      in
      bindR (raised (capture_artifacts (ru_before run) (\<lambda>i. nd_ulid node (inputs_from + i))
        (\<lambda>i. nd_now node (4 + i)) experiment ''input'' (pl_inputs p))) (\<lambda>inputs.
      bindR (raised (run_experiment (ru_collectors run)
        (ru_process run (execution_argv p) environ collect) (execution_argv p)
        (ru_cwd run (pl_working_directory p)) experiment)) (\<lambda>(e, captured).
      bindR (raised (capture_artifacts (ru_after run) (\<lambda>i. nd_ulid node (outputs_from + i))
        (\<lambda>i. nd_now node (4 + length (pl_inputs p) + i)) experiment ''output'' (pl_outputs p))) (\<lambda>outputs.
      let capture = (if collect then captured else disabled_capture);
          result = \<lparr>wr_execution = execution_id, wr_state = ex_status e,
            wr_created_at = ex_ended_at e, wr_experiment = Some e,
            wr_artifacts = inputs @ outputs,
            wr_lineage = lineage_of w experiment (ex_ended_at e), wr_allocation = Some a,
            wr_preflight = dict_update checked
              [(''status'', JStr ''passed''), (''problems'', JArr [])],
            wr_error = None, wr_request = map_option rq_id request, wr_telemetry = None,
            wr_verification = None, wr_runtime = None, wr_termination = None,
            wr_version = JInt (if request = None then 1 else 3)\<rparr>
      in
      case request of
        None \<Rightarrow> Inr result
      | Some r \<Rightarrow>
          mapR (\<lambda>(telemetry, v, evidence, termination). result\<lparr>wr_telemetry := telemetry,
              wr_verification := Some v, wr_runtime := Some evidence,
              wr_termination := Some termination\<rparr>)
            (run_outcomes node execution_id p r a checked e capture (inputs @ outputs) next_id)))))"

definition worker_execute_plan :: "compute_node \<Rightarrow> node_run \<Rightarrow> plan \<Rightarrow> workload \<Rightarrow> string \<Rightarrow>
    request option \<Rightarrow> worker_result worked" where
  "worker_execute_plan node run p w execution_id request =
     bindR (observe_allocation node execution_id (pl_backend p = ''direct'')) (\<lambda>a.
     bindR (preflight node p a) (\<lambda>(problems, checked, environ).
     if problems \<noteq> [] then preflight_failure node execution_id p request a problems checked
     else execute_run node run execution_id p w request a checked environ))"

text \<open>
  \<open>main\<close>: the exit code, and the bytes of the result if it was written. Writing is the last step
  and is atomic; \<open>writable\<close> says that no result was there and the disk took it.
\<close>

definition worker_main :: "site_env \<Rightarrow> (string \<Rightarrow> json option) \<Rightarrow> compute_node \<Rightarrow> node_run \<Rightarrow>
    string option \<Rightarrow> bool \<Rightarrow> string \<Rightarrow> int \<times> string option" where
  "worker_main x loads node run content writable execution_id =
     (case load_plan x loads content execution_id of
        Inl _ \<Rightarrow> (70, None)
      | Inr (p, w, request) \<Rightarrow>
          (case worker_execute_plan node run p w execution_id request of
             Inl _ \<Rightarrow> (70, None)
           | Inr r \<Rightarrow>
               (case encode_worker_result (x_float x) r of
                  Inl _ \<Rightarrow> (70, None)
                | Inr raw \<Rightarrow>
                    if \<not> writable then (70, None)
                    else (if wr_state r = ''completed'' then 0
                          else (case wr_experiment r of Some e \<Rightarrow> ex_exit_code e | None \<Rightarrow> 75),
                          Some raw))))"

end
