(* ===== verification/DocumentSize.thy ===== *)
theory DocumentSize
  imports Request
begin

text \<open>A bound on the size of a JSON document, for the limits on what is staged and written.\<close>

section \<open>How long a document becomes\<close>

text \<open>A bound on the UTF-8 length of a document that does not depend on the order of its names.\<close>

fun json_weight :: "(py_float \<Rightarrow> string) \<Rightarrow> json \<Rightarrow> nat" where
  "json_weight fr JNull = 4"
| "json_weight fr (JBool b) = 5"
| "json_weight fr (JInt i) = 4 + nat (abs i) div 1000"
| "json_weight fr (JFloat f) = utf8_length (fr f)"
| "json_weight fr (JStr s) = 2 + 6 * length s"
| "json_weight fr (JArr xs) = 2 + sum_list (map (\<lambda>x. 1 + json_weight fr x) xs)"
| "json_weight fr (JObj d) = 2 + sum_list (map (\<lambda>(k, v). 4 + 6 * length k + json_weight fr v) d)"

lemma utf8_length_simps:
  "utf8_length [] = 0" "utf8_length (s @ t) = utf8_length s + utf8_length t"
  "utf8_length (c # s) = (if code_point c < 128 then 1 else 2) + utf8_length s"
  by (simp_all add: utf8_length_def)

lemma utf8_length_join:
  "utf8_length (join '','' ws) \<le> sum_list (map (\<lambda>w. 1 + utf8_length w) ws)"
proof -
  note [simp] = utf8_length_simps
  have "utf8_length (concat (map ((@) '','') ws)) = sum_list (map (\<lambda>w. 1 + utf8_length w) ws)" for ws
    by (induction ws) (simp_all add: code_point_def)
  then show ?thesis by (cases ws) (simp_all add: join_def)
qed

lemma json_string_length: "utf8_length (json_string s) \<le> 2 + 6 * length s"
proof -
  note [simp] = utf8_length_simps
  have "utf8_length (json_escape c) \<le> 6" for c
  proof -
    have "n < 32 \<Longrightarrow> code_point (hex_digit (n div 16)) < 128 \<and> code_point (hex_digit (n mod 16)) < 128" for n :: nat
      by (auto simp: hex_digit_def digit_char_def code_point_def)
    then show ?thesis by (simp add: json_escape_def Let_def code_point_def)
  qed
  then have "utf8_length (concat (map json_escape s)) \<le> 6 * length s"
    by (induction s) (simp_all add: add_mono)
  then show ?thesis by (simp add: json_string_def code_point_def)
qed

lemma str_nat_length: "utf8_length (str_nat n) \<le> 3 + n div 1000"
proof (induction n rule: less_induct)
  case (less n)
  have digit: "code_point (digit_char m) < 128" if "m < 10" for m
    using that by (simp add: digit_char_def code_point_def)
  have one: "utf8_length (str_nat m) = 1" if "m < 10" for m
    using that by (subst str_nat.simps) (simp add: utf8_length_simps digit)
  have step: "utf8_length (str_nat m) = 1 + utf8_length (str_nat (m div 10))" if "\<not> m < 10" for m
    using that by (subst str_nat.simps) (simp add: utf8_length_simps digit)
  consider "n < 10" | "10 \<le> n" "n < 1000" | "1000 \<le> n" by linarith
  then show ?case
  proof cases
    case 1
    then show ?thesis by (simp add: one)
  next
    case 2
    show ?thesis
    proof (cases "n div 10 < 10")
      case True
      then show ?thesis using 2 by (simp add: step one)
    next
      case False
      have "n div 100 < 10" using 2 by simp
      then have "utf8_length (str_nat (n div 10)) = 2"
        using step [OF False] by (simp add: one div_mult2_eq [symmetric])
      then show ?thesis using step [of n] 2 by simp
    qed
  next
    case 3
    have "n div 10 div 1000 = n div 1000 div 10" by (simp add: div_mult2_eq [symmetric])
    moreover have "1 \<le> n div 1000" using 3 by (simp add: less_eq_div_iff_mult_less_eq)
    moreover have "m div 10 + 1 \<le> m" if "1 \<le> m" for m :: nat using that by linarith
    ultimately show ?thesis
      using step [of n] less [of "n div 10"] 3 by fastforce
  qed
qed

lemma str_int_length: "utf8_length (str_int i) \<le> 4 + nat (abs i) div 1000"
  using str_nat_length [of "nat i"] str_nat_length [of "nat (- i)"]
  by (simp add: str_int_def utf8_length_simps code_point_def)

lemma sum_insort_pair:
  "sum_list (map f (foldr insort_pair xs [])) = sum_list (map (f :: _ \<Rightarrow> nat) xs)"
proof -
  have "sum_list (map f (insort_pair x ys)) = f x + sum_list (map f ys)" for x ys
    by (induction ys) auto
  then show ?thesis by (induction xs) simp_all
qed

lemma json_dumps_length: "utf8_length (json_dumps fr v) \<le> json_weight fr v"
  supply utf8_length_simps [simp]
proof (induction v rule: json_weight.induct)
  case (5 fr s)
  show ?case using json_string_length by simp
next
  case (3 fr i)
  show ?case using str_int_length by simp
next
  case (6 fr xs)
  have "sum_list (map (\<lambda>w. 1 + utf8_length w) (map (json_dumps fr) xs)) \<le> sum_list (map (\<lambda>x. 1 + json_weight fr x) xs)"
    using 6 by (simp add: comp_def) (rule sum_list_mono, simp)
  with utf8_length_join [of "map (json_dumps fr) xs"] show ?case by (simp add: code_point_def)
next
  case (7 fr d)
  let ?f = "\<lambda>(k, t). json_string k @ '':'' @ t"
  let ?ws = "map (\<lambda>(k, v). (k, json_dumps fr v)) d"
  have "sum_list (map (\<lambda>w. 1 + utf8_length w) (map ?f (foldr insort_pair ?ws [])))
      = sum_list (map (\<lambda>(k, v). 1 + utf8_length (json_string k @ '':'' @ json_dumps fr v)) d)"
    by (simp add: sum_insort_pair comp_def case_prod_unfold)
  also have "\<dots> \<le> sum_list (map (\<lambda>(k, v). 4 + 6 * length k + json_weight fr v) d)"
  proof (rule sum_list_mono, clarify)
    fix k v assume "(k, v) \<in> set d"
    with 7 have "utf8_length (json_dumps fr v) \<le> json_weight fr v" by auto
    with json_string_length [of k]
    show "1 + utf8_length (json_string k @ '':'' @ json_dumps fr v) \<le> 4 + 6 * length k + json_weight fr v"
      by (simp add: code_point_def)
  qed
  finally show ?case
    using utf8_length_join [of "map ?f (foldr insort_pair ?ws [])"] by (simp add: code_point_def)
qed (simp_all add: code_point_def)

end
