(* ===== verification/ComputeWorkerProperties.thy ===== *)
theory ComputeWorkerProperties
  imports ComputeWorker WorkerResultProperties StagedPlanProperties DocumentSize
begin

text \<open>
  Properties of the compute worker: when a workload is run at all, what its result says, and that
  the controller accepts it.
\<close>

section \<open>The result of an execution\<close>

lemma capture_artifacts_Inr:
  assumes "capture_artifacts env new_id now e role paths = Inr xs"
  shows "map ar_original_path xs = paths \<and> (\<forall>a \<in> set xs. ar_experiment_id a = e \<and> ar_role a = role)"
proof -
  let ?f = "\<lambda>(i, path). capture_artifact env (new_id i) (now i) e role path"
  let ?ps = "zip [0..<length paths] paths"
  have l: "length xs = length paths"
    using mapM_Inr_length [OF assms [unfolded capture_artifacts_def]] by simp
  have step: "?f (?ps ! i) = Inr (xs ! i)" if "i < length paths" for i
    using mapM_Inr_nth [OF assms [unfolded capture_artifacts_def], of i] that by simp
  have "ar_original_path (xs ! i) = paths ! i" if "i < length paths" for i
    using step [OF that] that by (auto dest: capture_artifact_of)
  then have "map ar_original_path xs = paths" using l by (intro nth_equalityI) auto
  moreover have "ar_experiment_id a = e \<and> ar_role a = role" if "a \<in> set xs" for a
    using mapM_Inr_set [OF assms [unfolded capture_artifacts_def] that] by (auto dest: capture_artifact_of)
  ultimately show ?thesis by blast
qed

lemma run_experiment_Inr:
  assumes "run_experiment c x argv cwd experiment = Inr (e, captured)"
  shows "argv = ex_command e # ex_arguments e \<and> ex_id e = experiment \<and> ex_working_directory e = cwd \<and>
    ex_status e = px_status x"
  using assms by (auto simp: run_experiment_def split: if_splits)

lemma RuntimeEvidence_Inr:
  "RuntimeEvidence (JStr i) (JStr k) (opt_json JStr e) (JStr now) gs (JInt 1) = Inr r \<Longrightarrow>
     rt_execution r = k \<and> rt_experiment r = e \<and> (list_all group_ok gs \<longrightarrow> runtime_ok r)"
  by (auto simp: RuntimeEvidence_def runtime_ok_def runtime_groups_def split: if_splits list.splits)

lemma evidence_group_ok: "evidence_group c s m d = Inr g \<Longrightarrow> group_ok g"
  unfolding evidence_group_def by (rule RuntimeEvidenceGroup_ok)

lemma gpu_group_ok: "gpu_group a system = Inr g \<Longrightarrow> group_ok g"
  unfolding gpu_group_def Let_def by (elim evidence_group_ok [rotated] | simp split: if_splits)+

lemma allocation_group_ok: "allocation_group p a = Inr g \<Longrightarrow> group_ok g"
  unfolding allocation_group_def Let_def by (rule evidence_group_ok)

lemma environment_group_ok: "environment_group node p checked = Inr g \<Longrightarrow> group_ok g"
  unfolding environment_group_def by (rule evidence_group_ok)

lemma bind_group:
  "bindR m f = Inr r \<Longrightarrow> (\<And>g. m = Inr g \<Longrightarrow> group_ok g) \<Longrightarrow>
     (\<And>g. group_ok g \<Longrightarrow> f g = Inr r \<Longrightarrow> P) \<Longrightarrow> P"
  by (auto simp: bindR_Inr_iff)

lemma runtime_evidence_Inr:
  assumes "runtime_evidence node k e capture a checked p system i now = Inr r"
  shows "rt_execution r = k \<and> rt_experiment r = e \<and> runtime_ok r"
  using assms unfolding runtime_evidence_def Let_def
  by (elim bind_group)
    (erule evidence_group_ok gpu_group_ok allocation_group_ok environment_group_ok
      | (drule RuntimeEvidence_Inr, simp))+

lemma ExecutionTelemetrySummary_same: "ExecutionTelemetrySummary t = Inr t' \<Longrightarrow> t' = t"
  by (simp add: ExecutionTelemetrySummary_def bindR_Inr_iff split: if_splits)

lemma build_telemetry_summary_Inr:
  assumes "build_telemetry_summary i r p k e artifacts a wait = Inr (Some t)"
  shows "tm_request_id t = rq_id r \<and> tm_execution_id t = k \<and> tm_experiment_id t = ex_id e"
proof -
  have "rq_telemetry_mode r \<noteq> ''off''"
    using assms by (auto simp: build_telemetry_summary_def split: if_splits)
  with assms show ?thesis
    by (simp only: build_telemetry_summary_def if_False Let_def mapR_Inr_iff option.inject)
      (elim exE conjE, drule ExecutionTelemetrySummary_same, simp)
qed

lemma evaluate_verification_Inr:
  assumes "evaluate_verification new_id r k e artifacts = Inr v"
  shows "vr_request_id v = rq_id r \<and> vr_execution_id v = k \<and> vr_experiment_id v = ex_id e"
  using assms by (auto simp: evaluate_verification_def VerificationRun_def bindR_Inr_iff split: if_splits)

text \<open>A run with a request, taken apart.\<close>

lemma execute_run_Inr:
  assumes "execute_run node run k p w (Some q) a checked environ = Inr r"
  obtains e captured capture inputs outputs i ids v j t
  where "run_experiment (ru_collectors run) (ru_process run (execution_argv p) environ
        (rq_telemetry_mode q \<noteq> ''off'')) (execution_argv p) (ru_cwd run (pl_working_directory p))
        (nd_ulid node 1) = Inr (e, captured)"
    and "\<forall>x \<in> set inputs. ar_experiment_id x = ex_id e" "\<forall>x \<in> set outputs. ar_experiment_id x = ex_id e"
    and "map ar_original_path inputs = pl_inputs p" "map ar_original_path outputs = pl_outputs p"
    and "build_telemetry_summary i q p k e (inputs @ outputs) (Some a) JNull = Inr (wr_telemetry r)"
    and "evaluate_verification ids q k e (inputs @ outputs) = Inr v" "wr_verification r = Some v"
    and "runtime_evidence node k (Some (ex_id e)) capture a checked p (Some (ex_system e)) j
        (nd_now node 2) = Inr (the (wr_runtime r))" "wr_runtime r \<noteq> None"
    and "run_termination e capture (Some v) = Inr t" "wr_termination r = Some t"
    and "wr_execution r = k" "wr_state r = ex_status e" "wr_created_at r = ex_ended_at e"
      "wr_experiment r = Some e" "wr_artifacts r = inputs @ outputs"
      "wr_lineage r = lineage_of w (ex_id e) (ex_ended_at e)" "wr_allocation r = Some a"
      "wr_preflight r = dict_update checked [(''status'', JStr ''passed''), (''problems'', JArr [])]"
      "wr_error r = None" "wr_request r = Some (rq_id q)" "wr_version r = JInt 3"
proof -
  obtain inputs e captured outputs where parts:
    "capture_artifacts (ru_before run) (\<lambda>i. nd_ulid node (2 + i)) (\<lambda>i. nd_now node (4 + i))
       (nd_ulid node 1) ''input'' (pl_inputs p) = Inr inputs"
    "run_experiment (ru_collectors run) (ru_process run (execution_argv p) environ
        (rq_telemetry_mode q \<noteq> ''off'')) (execution_argv p) (ru_cwd run (pl_working_directory p))
        (nd_ulid node 1) = Inr (e, captured)"
    "capture_artifacts (ru_after run) (\<lambda>i. nd_ulid node (2 + length (pl_inputs p) + i))
       (\<lambda>i. nd_now node (4 + length (pl_inputs p) + i)) (nd_ulid node 1) ''output'' (pl_outputs p)
       = Inr outputs"
    using assms unfolding execute_run_def Let_def by (auto simp: bindR_Inr_iff mapErr_Inr_iff)
  let ?capture = "if rq_telemetry_mode q \<noteq> ''off'' then captured else disabled_capture"
  let ?n = "2 + length (pl_inputs p) + length (pl_outputs p)"
  obtain telemetry v evidence t where outcome:
    "run_outcomes node k p q a checked e ?capture (inputs @ outputs) ?n = Inr (telemetry, v, evidence, t)"
    and r: "r = \<lparr>wr_execution = k, wr_state = ex_status e, wr_created_at = ex_ended_at e,
      wr_experiment = Some e, wr_artifacts = inputs @ outputs,
      wr_lineage = lineage_of w (nd_ulid node 1) (ex_ended_at e), wr_allocation = Some a,
      wr_preflight = dict_update checked [(''status'', JStr ''passed''), (''problems'', JArr [])],
      wr_error = None, wr_request = Some (rq_id q), wr_telemetry = telemetry,
      wr_verification = Some v, wr_runtime = Some evidence, wr_termination = Some t,
      wr_version = JInt 3\<rparr>"
    using assms parts unfolding execute_run_def Let_def
    by (auto simp: bindR_Inr_iff mapErr_Inr_iff mapR_Inr_iff)
  have "ex_id e = nd_ulid node 1" using run_experiment_Inr [OF parts(2)] by simp
  with parts outcome r show thesis
    by (intro that [OF parts(2), of inputs outputs _ _ v ?capture])
      (auto simp: run_outcomes_def bindR_Inr_iff mapErr_Inr_iff dest: capture_artifacts_Inr)
qed

lemma execute_run_consistent:
  assumes "execute_run node run k p w (Some q) a checked environ = Inr r" and "rq_id q \<noteq> []"
  shows "wr_execution r = k \<and> experiment_consistent r \<and> evidence_consistent r"
  using assms(1)
proof (rule execute_run_Inr, goal_cases)
  case (1 e captured capture inputs outputs i ids v j t)
  have "\<And>t. wr_telemetry r = Some t \<Longrightarrow>
      tm_request_id t = rq_id q \<and> tm_execution_id t = k \<and> tm_experiment_id t = ex_id e"
    using 1(6) by (auto dest: build_telemetry_summary_Inr)
  then have "about (rq_id q) k (ex_id e) r"
    using evaluate_verification_Inr [OF 1(7)] 1(8) by (simp add: about_def)
  moreover have "termination_ok t"
    using 1(11) by (auto simp: run_termination_def split: prod.splits dest: TerminationEvidence_ok)
  moreover have "experiment_consistent r"
    using 1 by (auto simp: experiment_consistent_def lineage_of_def split: option.splits)
  ultimately show ?thesis
    using 1 assms(2) runtime_evidence_Inr [OF 1(9)]
    by (auto simp: evidence_consistent_def version_number_def)
qed

lemma preflight_failure_consistent:
  assumes "preflight_failure node k p (Some q) a problems checked = Inr r" and "rq_id q \<noteq> []"
  shows "wr_execution r = k \<and> wr_experiment r = None \<and> wr_state r = ''preflight_failed'' \<and>
    wr_error r = Some (join ''; '' problems) \<and> experiment_consistent r \<and> evidence_consistent r"
proof -
  obtain x t where x: "runtime_evidence node k None [] a checked p None (nd_ulid node 1) (nd_now node 2) = Inr x"
    and t: "TerminationEvidence (JStr ''preflight'') (JStr ''preflight_failed'')
        (JStr ''compute_worker_preflight'') JNull JNull JNull (JStr ''missing'')
        (JStr ''unavailable'') (JStr (join ''; '' problems)) = Inr t"
    and r: "r = \<lparr>wr_execution = k, wr_state = ''preflight_failed'',
        wr_created_at = nd_now node 3, wr_experiment = None, wr_artifacts = [], wr_lineage = [],
        wr_allocation = Some a, wr_preflight = dict_update checked
          [(''status'', JStr ''failed''), (''problems'', strings problems)],
        wr_error = Some (join ''; '' problems), wr_request = Some (rq_id q), wr_telemetry = None,
        wr_verification = None, wr_runtime = Some x, wr_termination = Some t, wr_version = JInt 3\<rparr>"
    using assms(1) unfolding preflight_failure_def Let_def
    by (auto simp: bindR_Inr_iff mapErr_Inr_iff)
  show ?thesis
    using assms(2) runtime_evidence_Inr [OF x] TerminationEvidence_ok [OF t]
    by (simp add: r experiment_consistent_def evidence_consistent_def version_number_def)
qed

lemma worker_execute_plan_cases:
  assumes "worker_execute_plan node run p w k request = Inr r"
  obtains a problems checked environ where
    "observe_allocation node k (pl_backend p = ''direct'') = Inr a"
    "preflight node p a = Inr (problems, checked, environ)"
    "problems \<noteq> [] \<and> preflight_failure node k p request a problems checked = Inr r \<or>
     problems = [] \<and> execute_run node run k p w request a checked environ = Inr r"
  using assms unfolding worker_execute_plan_def
  by (auto simp: bindR_Inr_iff split: if_splits)

section \<open>When the workload is run\<close>

lemma shortfall_none:
  assumes "shortfall observed (name, Some need) = []" and "jget observed name = JInt have"
  shows "need \<le> have"
  using assms by (simp add: shortfall_def not_less split: if_splits)

lemma check_container_clear:
  assumes "check_container node p = Inr (digest, [])" and "pl_container p = Some c"
  shows "nd_is_file node (path_of (c_image c)) \<and>
    (\<forall>d. c_image_digest c = Some d \<longrightarrow> map_option (\<lambda>x. ''sha256:'' @ x) (nd_digest node (path_of (c_image c))) = Some d) \<and>
    (\<forall>m \<in> set (c_mounts c). nd_exists node (path_of (m_source m)))"
proof -
  obtain problems where i: "check_image node c = Inr (digest, problems)"
    and none: "problems = []" "mount_problems node c = []"
    using assms by (auto simp: check_container_def mapR_Inr_iff)
  have "\<forall>m \<in> set (c_mounts c). nd_exists node (path_of (m_source m))"
    using none(2) by (auto simp: mount_problems_def filter_empty_conv)
  with i none(1) show ?thesis
    by (auto simp: check_image_def Let_def split: if_splits option.splits)
qed

lemma preflight_clear:
  assumes "preflight node p a = Inr ([], checked, environ)"
  shows "nd_is_dir node (path_of (pl_working_directory p)) \<and>
    (\<exists>evidence. activation_environment node p = Inr (environ, evidence, None)) \<and>
    resolve_with_environment node (requested_executable p) (path_of (pl_working_directory p)) environ \<noteq> None \<and>
    (\<exists>digest. check_container node p = Inr (digest, [])) \<and>
    (\<forall>x \<in> set (requested_counts p). shortfall (al_resources a) x = [])"
proof -
  obtain evidence problem where act: "activation_environment node p = Inr (environ, evidence, problem)"
    using assms by (auto simp: preflight_def bindR_Inr_iff Let_def)
  then show ?thesis
    using assms by (auto simp: preflight_def bindR_Inr_iff Let_def split: option.splits if_splits)
qed

definition counts_granted :: "plan \<Rightarrow> allocation \<Rightarrow> bool" where
  "counts_granted p a \<longleftrightarrow> (\<forall>name need have. (name, Some need) \<in> set (requested_counts p) \<longrightarrow>
     jget (al_resources a) name = JInt have \<longrightarrow> need \<le> have)"

lemma run_after_preflight:
  assumes "worker_execute_plan node run p w k (Some q) = Inr r" and "wr_experiment r = Some e"
  shows "\<exists>a. wr_allocation r = Some a \<and> counts_granted p a \<and>
    nd_is_dir node (path_of (pl_working_directory p)) \<and>
    ex_command e # ex_arguments e = execution_argv p \<and>
    (\<forall>c. pl_container p = Some c \<longrightarrow> nd_is_file node (path_of (c_image c)) \<and>
       (\<forall>d. c_image_digest c = Some d \<longrightarrow>
          map_option (\<lambda>x. ''sha256:'' @ x) (nd_digest node (path_of (c_image c))) = Some d) \<and>
       (\<forall>m \<in> set (c_mounts c). nd_exists node (path_of (m_source m))))"
proof (rule worker_execute_plan_cases [OF assms(1)])
  fix a problems checked environ
  assume pre: "preflight node p a = Inr (problems, checked, environ)"
    and "problems \<noteq> [] \<and> preflight_failure node k p (Some q) a problems checked = Inr r \<or>
     problems = [] \<and> execute_run node run k p w (Some q) a checked environ = Inr r"
  moreover have "preflight_failure node k p (Some q) a problems checked = Inr r \<Longrightarrow> False"
    using assms(2) by (auto simp: preflight_failure_def Let_def bindR_Inr_iff)
  ultimately have none: "problems = []" and x: "execute_run node run k p w (Some q) a checked environ = Inr r"
    by auto
  note clear = preflight_clear [OF pre [unfolded none]]
  have "counts_granted p a"
    unfolding counts_granted_def using clear by (blast intro: shortfall_none)
  moreover have "wr_allocation r = Some a \<and> ex_command e # ex_arguments e = execution_argv p"
    using x by (rule execute_run_Inr) (use assms(2) in \<open>auto dest: run_experiment_Inr\<close>)
  moreover have "\<forall>c. pl_container p = Some c \<longrightarrow> nd_is_file node (path_of (c_image c)) \<and>
       (\<forall>d. c_image_digest c = Some d \<longrightarrow>
          map_option (\<lambda>x. ''sha256:'' @ x) (nd_digest node (path_of (c_image c))) = Some d) \<and>
       (\<forall>m \<in> set (c_mounts c). nd_exists node (path_of (m_source m)))"
    using clear check_container_clear by blast
  ultimately show ?thesis using clear by blast
qed

section \<open>The controller accepts the result\<close>

text \<open>
  What the process and the collectors give: a status of the three, a duration that is finite and
  not negative, and provenance documents with exactly the fields of their classes.
\<close>

definition faithful_run :: "node_run \<Rightarrow> bool" where
  "faithful_run run \<longleftrightarrow>
     (\<forall>argv environ collect. let x = ru_process run argv environ collect in
        px_status x \<in> {''completed'', ''failed'', ''interrupted''} \<and> finite_duration (px_duration x) \<and>
        px_ended_at x \<noteq> [] \<and> length (px_ended_at x) \<le> 128) \<and>
     (\<forall>d. co_git (ru_collectors run) = Inr d \<longrightarrow> provenance_ok git_fields d) \<and>
     (\<forall>d. co_system (ru_collectors run) = Inr d \<longrightarrow> provenance_ok system_fields d) \<and>
     (\<forall>d. co_context (ru_collectors run) = Inr d \<longrightarrow> provenance_ok context_fields d)"

text \<open>The limits of the bundle, on each of its parts.\<close>

definition within_limits :: "worker_result \<Rightarrow> bool" where
  "within_limits r \<longleftrightarrow>
     wr_created_at r \<noteq> [] \<and> length (wr_created_at r) \<le> 128 \<and> bounded_doc (wr_preflight r) \<and>
     length (wr_artifacts r) \<le> MAX_RESULT_ARTIFACTS \<and>
     list_all (bounded_doc \<circ> artifact_to_dict) (wr_artifacts r) \<and>
     list_all (bounded_doc \<circ> lineage_to_dict) (wr_lineage r) \<and>
     pred_option (\<lambda>e. bounded_doc (experiment_to_dict e) \<and> length (ex_arguments e) \<le> 4096) (wr_experiment r) \<and>
     pred_option (\<lambda>a. bounded_doc (allocation_to_dict a) \<and> list_all (\<lambda>h. length h \<le> 1024) (al_hosts a) \<and>
       bounded_doc (al_resources a) \<and> bounded_doc (al_evidence a)) (wr_allocation r) \<and>
     pred_option (\<lambda>t. bounded_doc (telemetry_to_dict t)) (wr_telemetry r) \<and>
     pred_option (\<lambda>v. bounded_doc (verification_to_dict v)) (wr_verification r) \<and>
     pred_option (\<lambda>x. bounded_doc (runtime_to_dict x)) (wr_runtime r) \<and>
     pred_option (\<lambda>x. bounded_doc (termination_to_dict x)) (wr_termination r)"

lemma optional_ok_pred: "optional_ok P v \<longleftrightarrow> pred_option P v"
  by (cases v) (simp_all add: optional_ok_def)

lemma safe_provenance_ok:
  assumes "faithful_run run"
  shows "provenance_ok git_fields (safe_git (ru_collectors run))"
    "provenance_ok system_fields (safe_system (ru_collectors run))"
    "provenance_ok context_fields (safe_execution_context (ru_collectors run) argv)"
proof -
  show "provenance_ok git_fields (safe_git (ru_collectors run))"
    using assms by (cases "co_git (ru_collectors run)")
      (simp_all add: safe_git_def faithful_run_def, simp add: provenance_ok_def git_fields_def)
  show "provenance_ok system_fields (safe_system (ru_collectors run))"
    using assms by (cases "co_system (ru_collectors run)")
      (simp_all add: safe_system_def faithful_run_def, simp add: provenance_ok_def system_fields_def)
  show "provenance_ok context_fields (safe_execution_context (ru_collectors run) argv)"
    using assms by (cases "co_context (ru_collectors run)")
      (simp_all add: safe_execution_context_def faithful_run_def, simp add: provenance_ok_def context_fields_def)
qed

lemma evaluated_verification_ok:
  assumes "evaluate_verification new_id q k e artifacts = Inr v"
  shows "VerificationRun v = Inr v \<and> list_all check_result_ok (vr_checks v)"
proof -
  obtain results where r: "mapM (\<lambda>(i, c). evaluate_check (new_id (i + 1)) (new_id 0) i c
      (first_output artifacts (ck_path c))) (zip [0..<length (rq_checks q)] (rq_checks q)) = Inr results"
    and v: "VerificationRun \<lparr>vr_id = new_id 0, vr_request_id = rq_id q, vr_execution_id = k,
        vr_experiment_id = ex_id e, vr_aggregate = aggregate_state (map cx_state results),
        vr_evaluated_at = ex_ended_at e, vr_source = ''captured_output_artifact_records'',
        vr_checks = results\<rparr> = Inr v"
    using assms unfolding evaluate_verification_def by (auto simp: bindR_Inr_iff)
  have "check_result_ok x" if "x \<in> set results" for x
    using mapM_Inr_set [OF r that]
    by (auto simp: evaluate_check_def bindR_Inr_iff Let_def check_result_ok_def
        VerificationCheckResult_def split: if_splits)
  moreover have "vr_checks v = results" "VerificationRun v = Inr v"
    using v by (auto simp: VerificationRun_def split: if_splits)
  ultimately show ?thesis by (simp add: list_all_iff)
qed

lemma built_telemetry_ok:
  assumes "build_telemetry_summary i q p k e artifacts a wait = Inr (Some t)"
  shows "telemetry_ok t"
proof -
  have "rq_telemetry_mode q \<noteq> ''off''"
    using assms by (auto simp: build_telemetry_summary_def split: if_splits)
  with assms have "\<exists>t'. ExecutionTelemetrySummary t' = Inr t \<and> tm_requested t' = requested_dict (pl_resources p)"
    by (simp only: build_telemetry_summary_def if_False Let_def mapR_Inr_iff option.inject)
      (elim exE conjE, intro exI conjI, simp, simp)
  then obtain t' where t: "ExecutionTelemetrySummary t' = Inr t" "tm_requested t' = requested_dict (pl_resources p)"
    by blast
  moreover have "t' = t" using ExecutionTelemetrySummary_same [OF t(1)] by simp
  ultimately show ?thesis by (simp add: telemetry_ok_def requested_dict_def resource_names_def)
qed

lemma observe_allocation_Inr: "observe_allocation node k direct = Inr a \<Longrightarrow> al_execution_id a = k"
  by (auto simp: observe_allocation_def Let_def bindR_Inr_iff split: prod.splits)

lemma run_experiment_ok:
  assumes "run_experiment (ru_collectors run) (ru_process run argv environ collect) argv cwd i = Inr (e, captured)"
    and "faithful_run run" and "bounded_doc (experiment_to_dict e)" "length (ex_arguments e) \<le> 4096"
  shows "experiment_ok e \<and> ex_status e \<in> set result_states"
proof -
  have "ex_git e = safe_git (ru_collectors run)" "ex_system e = safe_system (ru_collectors run)"
    "ex_context e = safe_execution_context (ru_collectors run) argv"
    "ex_status e = px_status (ru_process run argv environ collect)"
    "ex_duration e = px_duration (ru_process run argv environ collect)"
    using assms(1) by (auto simp: run_experiment_def split: if_splits)
  moreover have "px_status (ru_process run argv environ collect) \<in> {''completed'', ''failed'', ''interrupted''}"
    "finite_duration (px_duration (ru_process run argv environ collect))"
    using assms(2) by (simp_all add: faithful_run_def Let_def)
  ultimately show ?thesis
    using assms(3,4) safe_provenance_ok [OF assms(2)] by (auto simp: experiment_ok_def result_states_def)
qed

lemma run_result_ok:
  assumes "execute_run node run k p w (Some q) a checked environ = Inr r" and "rq_id q \<noteq> []"
    and "faithful_run run" "within_limits r" "al_execution_id a = k"
  shows "worker_result_ok r"
  using assms(1)
proof (rule execute_run_Inr, goal_cases)
  case (1 e captured capture inputs outputs i ids v j t)
  have "experiment_ok e \<and> ex_status e \<in> set result_states"
    using run_experiment_ok [OF 1(1) assms(3)] assms(4) 1(16) by (simp add: within_limits_def)
  moreover have "verification_ok v"
    using evaluated_verification_ok [OF 1(7)] assms(4) 1(8) by (simp add: within_limits_def verification_ok_def)
  moreover have "\<And>t. wr_telemetry r = Some t \<Longrightarrow> telemetry_ok t"
    using 1(6) by (auto dest: built_telemetry_ok)
  moreover have "termination_ok t"
    using 1(11) by (auto simp: run_termination_def split: prod.splits dest: TerminationEvidence_ok)
  moreover have "length (wr_lineage r) \<le> MAX_RESULT_LINEAGE"
    using 1(18) by (simp add: lineage_of_def MAX_RESULT_LINEAGE_def split: option.splits)
  moreover have "runtime_ok (the (wr_runtime r))" using runtime_evidence_Inr [OF 1(9)] by simp
  ultimately show ?thesis
    using 1 assms execute_run_consistent [OF assms(1,2)]
    by (cases "wr_telemetry r") (auto simp: worker_result_ok_def within_limits_def optional_ok_pred
        version_number_def allocation_ok_def)
qed

lemma failure_result_ok:
  assumes "preflight_failure node k p (Some q) a problems checked = Inr r" and "rq_id q \<noteq> []"
    and "within_limits r" "al_execution_id a = k"
  shows "worker_result_ok r"
proof -
  obtain x t where x: "runtime_evidence node k None [] a checked p None (nd_ulid node 1) (nd_now node 2) = Inr x"
    and t: "TerminationEvidence (JStr ''preflight'') (JStr ''preflight_failed'')
        (JStr ''compute_worker_preflight'') JNull JNull JNull (JStr ''missing'')
        (JStr ''unavailable'') (JStr (join ''; '' problems)) = Inr t"
    and r: "wr_runtime r = Some x" "wr_termination r = Some t" "wr_allocation r = Some a"
      "wr_version r = JInt 3" "wr_lineage r = []" "wr_telemetry r = None" "wr_verification r = None"
    using assms(1) unfolding preflight_failure_def Let_def
    by (auto simp: bindR_Inr_iff mapErr_Inr_iff)
  have "length (join ''; '' problems) \<le> 4096"
    using t by (auto simp: TerminationEvidence_def bindR_Inr_iff diagnostic_ok_def split: if_splits option.splits)
  then show ?thesis
    using assms(3,4) r preflight_failure_consistent [OF assms(1,2)] runtime_evidence_Inr [OF x] TerminationEvidence_ok [OF t]
    by (auto simp: worker_result_ok_def within_limits_def optional_ok_pred version_number_def
        allocation_ok_def result_states_def MAX_RESULT_LINEAGE_def)
qed


lemma worker_result_accepted:
  assumes "worker_execute_plan node run p w k (Some q) = Inr r" and "rq_id q \<noteq> []"
    and "faithful_run run"
  shows "wr_execution r = k \<and> wr_request r = Some (rq_id q) \<and> experiment_consistent r \<and> evidence_consistent r \<and>
    (within_limits r \<longrightarrow> parse_worker_result (JObj (worker_result_to_dict r)) k = Inr r)"
proof (rule worker_execute_plan_cases [OF assms(1)])
  fix a problems checked environ
  assume a: "observe_allocation node k (pl_backend p = ''direct'') = Inr a"
    and "problems \<noteq> [] \<and> preflight_failure node k p (Some q) a problems checked = Inr r \<or>
     problems = [] \<and> execute_run node run k p w (Some q) a checked environ = Inr r"
  note own = observe_allocation_Inr [OF a]
  consider "preflight_failure node k p (Some q) a problems checked = Inr r"
    | "execute_run node run k p w (Some q) a checked environ = Inr r"
    using \<open>_ \<or> _\<close> by blast
  then have "wr_execution r = k \<and> wr_request r = Some (rq_id q) \<and> experiment_consistent r \<and>
      evidence_consistent r \<and> (within_limits r \<longrightarrow> worker_result_ok r)"
  proof cases
    case 1
    moreover have "wr_request r = Some (rq_id q)"
      using 1 by (auto simp: preflight_failure_def Let_def bindR_Inr_iff)
    ultimately show ?thesis
      using preflight_failure_consistent [OF 1 assms(2)] failure_result_ok [OF 1 assms(2) _ own] by blast
  next
    case 2
    then have "wr_request r = Some (rq_id q)" by (rule execute_run_Inr) simp
    then show ?thesis
      using execute_run_consistent [OF 2 assms(2)] run_result_ok [OF 2 assms(2,3) _ own] by blast
  qed
  then show ?thesis using worker_result_document [of r] by auto
qed

text \<open>
  C35. What the compute worker writes, the controller accepts. The result of any execution with a
  request, whether the workload ran or the checks before it failed, is consistent, and when its parts
  are within the limits of a bundle, its document parses for that execution to exactly that result.
\<close>

theorem worker_result_is_accepted:
  assumes "worker_execute_plan node run p w k (Some q) = Inr r" and "rq_id q \<noteq> []"
    and "faithful_run run"
  shows "wr_execution r = k \<and> wr_request r = Some (rq_id q) \<and> experiment_consistent r \<and> evidence_consistent r \<and>
    (within_limits r \<longrightarrow> parse_worker_result (JObj (worker_result_to_dict r)) k = Inr r)"
  using assms by (rule worker_result_accepted)

section \<open>A concrete run\<close>

definition sample_node :: compute_node where
  "sample_node = \<lparr>nd_environ = [], nd_cpu_count = None, nd_gpus = None, nd_hostname = ''n1'',
     nd_platform = ''Linux'', nd_machine = ''x86'', nd_python = ''3'', nd_read = (\<lambda>_. None),
     nd_is_dir = (\<lambda>_. True), nd_is_file = (\<lambda>_. True), nd_exists = (\<lambda>_. True),
     nd_executable = (\<lambda>_. True), nd_resolve = (\<lambda>_. ''/b/run''), nd_which = (\<lambda>_ _. Some ''/b/run''),
     nd_module = (\<lambda>_. None), nd_digest = (\<lambda>_. None), nd_now = (\<lambda>_. ''t''), nd_ulid = (\<lambda>_. ''U'')\<rparr>"

definition sample_process :: process where
  "sample_process = \<lparr>px_status = ''completed'', px_started_at = ''t0'', px_ended_at = ''t1'',
     px_duration = JInt 1, px_exit_code = 0, px_stdout = [], px_stderr = [], px_signal = None,
     px_launch_error = False, px_capture = []\<rparr>"

definition sample_files :: file_env where
  "sample_files = \<lparr>fe_resolve = (\<lambda>p. p), fe_stat = (\<lambda>_. StatMissing), fe_fingerprint = (\<lambda>_. Inl [])\<rparr>"

definition sample_run :: node_run where
  "sample_run = \<lparr>ru_cwd = (\<lambda>p. p), ru_before = sample_files, ru_after = sample_files,
     ru_collectors = \<lparr>co_git = Inl [], co_system = Inl [], co_context = Inl [], co_platform = [],
       co_version = [], co_machine = [], co_node = []\<rparr>,
     ru_process = (\<lambda>_ _ _. sample_process)\<rparr>"


text \<open>A document within the limits of a bundle, with room for the others.\<close>

definition light :: "json dict \<Rightarrow> bool" where
  "light d \<longleftrightarrow> bounded_doc d \<and> (\<forall>fr. json_weight fr (JObj d) \<le> 1000000)"

lemma light_weight: "light d \<Longrightarrow> json_weight fr (JObj d) \<le> 1000000"
  unfolding light_def by blast

lemma light_bounded: "light d \<Longrightarrow> bounded_doc d"
  by (simp add: light_def)

lemma light_result:
  assumes "light (experiment_to_dict e)" and "light (artifact_to_dict a)" and "light (allocation_to_dict al)"
    and "light d" and "pred_option (light \<circ> telemetry_to_dict) t" and "light (verification_to_dict v)"
    and "light (runtime_to_dict x)" and "light (termination_to_dict n)"
  shows "json_weight fr (JObj (worker_result_to_dict \<lparr>wr_execution = ''E'', wr_state = ''completed'',
    wr_created_at = ''t1'', wr_experiment = Some e, wr_artifacts = [a], wr_lineage = [], wr_allocation = Some al,
    wr_preflight = d, wr_error = None, wr_request = Some ''ID'', wr_telemetry = t, wr_verification = Some v,
    wr_runtime = Some x, wr_termination = Some n, wr_version = JInt 3\<rparr>)) \<le> 20000000"
proof -
  have "json_weight fr (opt_json (JObj \<circ> telemetry_to_dict) t) \<le> 1000000"
    using assms(5) light_weight by (cases t) (auto simp del: json_weight.simps(7))
  then show ?thesis
    using assms(1-4,6-8) [THEN light_weight, of fr]
    by (subst json_weight.simps(7))
      (simp add: worker_result_to_dict_def version_number_def del: json_weight.simps(7))
qed

lemma sample_allocation:
  "observe_allocation sample_node ''E'' False = Inr \<lparr>al_id = ''U'', al_execution_id = ''E'',
     al_observed_at = ''t'', al_resources = [], al_hosts = [''n1''],
     al_evidence = [(''environment'', JObj []), (''source'', JStr ''compute_worker_allowlist''),
       (''host_scope'', JStr ''local_only''), (''oversized_fields_omitted'', JArr [])]\<rparr>"
  by (simp add: observe_allocation_def sample_node_def ALLOCATION_ENVIRONMENT_def scheduler_counts_def set_count_def
     slurm_layout_counts_def local_counts_def lsf_counts_def gpu_entry_def parse_slurm_cpus_per_node_def allocated_gpu_count_def
     allocation_hosts_def or_unknown_def Let_def)

lemma sample_preflight:
  "preflight sample_node sample_staged_plan a = Inr ([], preflight_document sample_node sample_staged_plan True
     (Some ''/b/run'') [(''kind'', JStr ''none''), (''status'', JStr ''not_planned'')] None a, [])" if "al_resources a = []"
  using that by (simp add: preflight_def activation_environment_def sample_staged_plan_def sample_plan_def sample_node_def
     resolve_with_environment_def requested_executable_def check_container_def requested_counts_def shortfall_def jget_def Let_def
     split: option.splits)

lemma sample_preflight_get:
  "jget (preflight_document sample_node sample_staged_plan True (Some ''/b/run'') evidence None a) ''resolved_executable'' = JStr ''/b/run''"
  "jget (preflight_document sample_node sample_staged_plan True (Some ''/b/run'') evidence None a) ''environment_activation'' = JObj evidence"
  "jget (preflight_document sample_node sample_staged_plan True (Some ''/b/run'') evidence None a) ''container'' = JNull"
  by (simp_all add: preflight_document_def jget_def sample_staged_plan_def sample_plan_def)

lemma sample_evidence:
  assumes "jget checked ''resolved_executable'' = JStr ''/b/run''" 
   "jget checked ''environment_activation'' = JObj [(''kind'', JStr ''none''), (''status'', JStr ''not_planned'')]"
   "jget checked ''container'' = JNull" and "al_resources a = []" "al_evidence a = [(''environment'', JObj []),
      (''source'', JStr ''compute_worker_allowlist''), (''host_scope'', JStr ''local_only''),
      (''oversized_fields_omitted'', JArr [])]" "al_hosts a = [''n1'']"
    and "jget system ''gpu_available'' = JBool False"
  shows "\<exists>x. runtime_evidence sample_node ''E'' (Some ''U'') (runtime_capture sample_process) a checked sample_staged_plan
     (Some system) ''U'' ''t'' = Inr x \<and> light (runtime_to_dict x)"
  using assms by (simp add: runtime_evidence_def Let_def evidence_group_def RuntimeEvidenceGroup_def runtime_capture_def dict_update_def
    sample_process_def jget_def coverages_def diagnostic_ok_def runtime_bounded_json_def process_metrics_def only_keys_def
    execution_argv_def sample_staged_plan_def sample_plan_def plan_argv_def strings_def allocation_group_def gpu_group_def environment_group_def
    environment_facts_def requested_shape_def allocation_discrepancies_def discrepancy_def nvidia_metrics_def truthy_def jget_or_def
    shape_to_dict_def shape_fields_def sample_shape_def empty_shape_def or_unknown_def sample_node_def RuntimeEvidence_def
    runtime_to_dict_def group_names_def runtime_groups_def group_to_dict_def light_def result_bounded_json_def MAX_RESULT_BUNDLE_BYTES_def opt_text_def)

lemma sample_capture:
  "capture_artifacts sample_files (\<lambda>i. ''U'') (\<lambda>i. ''t'') ''U'' ''input'' [] = Inr []"
  "capture_artifacts sample_files (\<lambda>i. ''U'') (\<lambda>i. ''t'') ''U'' ''output'' [''o'']
     = Inr [blank_artifact ''U'' ''U'' ''output'' ''o'' ''o'' ''t'']"
  by (simp_all add: capture_artifacts_def capture_artifact_def sample_files_def artifact_roles_def)

lemma sample_outcomes:
  assumes "ex_id e = ''U''" "ex_duration e = JInt 1" "ex_ended_at e = ''t1''" "al_resources a = []"
    "ex_stdout e = []" "ex_stderr e = []"
  shows "\<exists>t v. build_telemetry_summary ''U'' sample_request sample_staged_plan ''E'' e
      [blank_artifact ''U'' ''U'' ''output'' ''o'' ''o'' ''t''] (Some a) JNull = Inr t \<and>
    evaluate_verification (\<lambda>i. ''U'') sample_request ''E'' e
      [blank_artifact ''U'' ''U'' ''output'' ''o'' ''o'' ''t''] = Inr v \<and> vr_aggregate v = ''failed'' \<and>
    pred_option (light \<circ> telemetry_to_dict) t \<and> light (verification_to_dict v)"
  using assms by (simp add: build_telemetry_summary_def sample_request_def ExecutionTelemetrySummary_def Let_def
      telemetry_states_def is_negative_def evaluate_verification_def evaluate_check_def first_output_def
      blank_artifact_def check_state_def VerificationCheckResult_def check_result_states_def check_types_def
      VerificationRun_def aggregate_state_def artifact_total_def telemetry_to_dict_def requested_dict_def
      verification_to_dict_def check_result_to_dict_def light_def result_bounded_json_def MAX_RESULT_BUNDLE_BYTES_def
      sample_staged_plan_def sample_plan_def opt_int_def utf8_length_def)

lemma sample_run_execution:
  "\<exists>r. worker_execute_plan sample_node sample_run sample_staged_plan sample_staged_workload ''E''
     (Some sample_request) = Inr r \<and> wr_experiment r \<noteq> None \<and> within_limits r \<and>
     (\<forall>fr. json_weight fr (JObj (worker_result_to_dict r)) \<le> 20000000)"
proof -
  let ?a = "\<lparr>al_id = ''U'', al_execution_id = ''E'',
     al_observed_at = ''t'', al_resources = [], al_hosts = [''n1''],
     al_evidence = [(''environment'', JObj []), (''source'', JStr ''compute_worker_allowlist''),
       (''host_scope'', JStr ''local_only''), (''oversized_fields_omitted'', JArr [])]\<rparr>"
  let ?d = "preflight_document sample_node sample_staged_plan True (Some ''/b/run'')
    [(''kind'', JStr ''none''), (''status'', JStr ''not_planned'')] None ?a"
  obtain e where e: "run_experiment (ru_collectors sample_run) sample_process (execution_argv sample_staged_plan)
      ''/w/.'' ''U'' = Inr (e, runtime_capture sample_process)"
    and f: "ex_id e = ''U''" "ex_duration e = JInt 1" "ex_ended_at e = ''t1''"
      "jget (ex_system e) ''gpu_available'' = JBool False" "ex_status e = ''completed''"
      "light (experiment_to_dict e)" "length (ex_arguments e) \<le> 4096"
      "ex_stdout e = []" "ex_stderr e = []" "ex_exit_code e = 0"
    by (simp add: run_experiment_def execution_argv_def sample_staged_plan_def sample_plan_def plan_argv_def
        sample_run_def sample_process_def safe_system_def safe_git_def safe_execution_context_def jget_def
        experiment_to_dict_def light_def result_bounded_json_def MAX_RESULT_BUNDLE_BYTES_def or_unknown_def)
  obtain x where x: "runtime_evidence sample_node ''E'' (Some ''U'') (runtime_capture sample_process) ?a ?d
      sample_staged_plan (Some (ex_system e)) ''U'' ''t'' = Inr x" "light (runtime_to_dict x)"
    using sample_evidence [of ?d ?a "ex_system e"] sample_preflight_get f(4) by fastforce
  obtain t v where tv: "build_telemetry_summary ''U'' sample_request sample_staged_plan ''E'' e
      [blank_artifact ''U'' ''U'' ''output'' ''o'' ''o'' ''t''] (Some ?a) JNull = Inr t"
    "evaluate_verification (\<lambda>i. ''U'') sample_request ''E'' e
      [blank_artifact ''U'' ''U'' ''output'' ''o'' ''o'' ''t''] = Inr v" "vr_aggregate v = ''failed''"
    "pred_option (light \<circ> telemetry_to_dict) t" "light (verification_to_dict v)"
    using sample_outcomes [OF f(1-3) _ f(8,9), of ?a] by auto
  obtain n where n: "run_termination e (runtime_capture sample_process) (Some v) = Inr n" "light (termination_to_dict n)"
    using tv(3) f(5,10) by (simp add: run_termination_def termination_of_def runtime_capture_def sample_process_def
        dict_update_def jget_def truthy_def TerminationEvidence_def phases_def outcomes_def one_of_names_def
        result_evidences_def telemetry_evidences_def diagnostic_ok_def int_or_none_def termination_to_dict_def
        light_def result_bounded_json_def MAX_RESULT_BUNDLE_BYTES_def opt_text_def)
  let ?r = "\<lparr>wr_execution = ''E'', wr_state = ''completed'', wr_created_at = ''t1'', wr_experiment = Some e,
    wr_artifacts = [blank_artifact ''U'' ''U'' ''output'' ''o'' ''o'' ''t''], wr_lineage = [],
    wr_allocation = Some ?a,
    wr_preflight = dict_update ?d [(''status'', JStr ''passed''), (''problems'', JArr [])], wr_error = None,
    wr_request = Some ''ID'', wr_telemetry = t, wr_verification = Some v, wr_runtime = Some x,
    wr_termination = Some n, wr_version = JInt 3\<rparr>"
  have node: "rq_id sample_request = ''ID''" "nd_ulid sample_node = (\<lambda>_. ''U'')" "nd_now sample_node = (\<lambda>_. ''t'')"
    "ru_before sample_run = sample_files" "ru_after sample_run = sample_files"
    "ru_process sample_run = (\<lambda>_ _ _. sample_process)" "ru_cwd sample_run = (\<lambda>p. p)"
    "pl_inputs sample_staged_plan = []" "pl_outputs sample_staged_plan = [''o'']"
    "pl_working_directory sample_staged_plan = ''/w/.''" "pl_backend sample_staged_plan = ''slurm''"
    "rq_telemetry_mode sample_request = ''summary''"
    by (simp_all add: sample_node_def sample_run_def sample_staged_plan_def sample_plan_def sample_request_def)
  have "run_outcomes sample_node ''E'' sample_staged_plan sample_request ?a ?d e (runtime_capture sample_process)
      [blank_artifact ''U'' ''U'' ''output'' ''o'' ''o'' ''t''] i = Inr (t, v, x, n)" for i
    using x tv n f(1) by (simp add: run_outcomes_def node)
  moreover have "lineage_of sample_staged_workload i j = []" for i j
    by (simp add: lineage_of_def sample_staged_workload_def)
  ultimately have run: "execute_run sample_node sample_run ''E'' sample_staged_plan sample_staged_workload
      (Some sample_request) ?a ?d [] = Inr ?r"
    using e f by (simp add: execute_run_def node sample_capture Let_def)
  have docs: "light (dict_update ?d [(''status'', JStr ''passed''), (''problems'', JArr [])])"
    "light (artifact_to_dict (blank_artifact ''U'' ''U'' ''output'' ''o'' ''o'' ''t''))"
    "light (allocation_to_dict ?a)" "light (al_evidence ?a)"
    by (simp_all add: preflight_document_def artifact_to_dict_def blank_artifact_def allocation_to_dict_def
        dict_update_def sample_staged_plan_def sample_plan_def sample_node_def opt_int_def
        requested_executable_def resources_to_dict_def shape_to_dict_def shape_fields_def sample_shape_def
        empty_shape_def sample_request_def light_def result_bounded_json_def MAX_RESULT_BUNDLE_BYTES_def)
  have "within_limits ?r"
    using f(6,7) x(2) tv(4,5) n(2) docs
    by (cases t) (simp_all add: within_limits_def empty_bounded MAX_RESULT_ARTIFACTS_def light_bounded)
  moreover have "json_weight fr (JObj (worker_result_to_dict ?r)) \<le> 20000000" for fr
    by (rule light_result) (use f(6) x(2) tv(4,5) n(2) docs in simp_all)
  ultimately have "\<exists>r. execute_run sample_node sample_run ''E'' sample_staged_plan sample_staged_workload
      (Some sample_request) ?a ?d [] = Inr r \<and> wr_experiment r \<noteq> None \<and> within_limits r \<and>
      (\<forall>fr. json_weight fr (JObj (worker_result_to_dict r)) \<le> 20000000)"
    using run by (intro exI [of _ ?r]) (simp del: json_weight.simps(7))
  then show ?thesis
    using sample_allocation sample_preflight [of ?a]
    by (simp add: worker_execute_plan_def node del: json_weight.simps(7))
qed

lemma sample_faithful: "faithful_run sample_run"
  by (simp add: faithful_run_def sample_run_def sample_process_def finite_duration_def)


theorem worker_result_is_accepted_witness:
  "\<exists>r. worker_execute_plan sample_node sample_run sample_staged_plan sample_staged_workload ''E''
     (Some sample_request) = Inr r \<and> wr_request r = Some (rq_id sample_request) \<and> evidence_consistent r"
proof -
  have "rq_id sample_request \<noteq> []" by (simp add: sample_request_def)
  then show ?thesis using sample_run_execution worker_result_is_accepted [OF _ _ sample_faithful] by blast
qed

section \<open>Results that are lost\<close>

lemma dict_update_get:
  "dict_get (dict_update d e) k = (case dict_get (rev e) k of None \<Rightarrow> dict_get d k | Some v \<Rightarrow> Some v)"
proof (induction e arbitrary: d)
  case (Cons x e)
  then show ?case by (cases x) (auto simp: dict_update_def map_add_def split: option.splits)
qed (simp add: dict_update_def)

text \<open>
  A request accepts commands of up to 4096 words. Inside a container the command line that is
  recorded as evidence has at least five more, and evidence lists hold 4096 entries: from 4092 words on,
  the evidence cannot be built. The workload has run by then, but no result is written.
\<close>

lemma long_container_command_has_no_evidence:
  assumes "pl_container p = Some c" and "length (plan_argv p) \<ge> 4092"
  shows "runtime_evidence node k e capture a checked p system i now \<noteq> Inr x"
proof
  assume "runtime_evidence node k e capture a checked p system i now = Inr x"
  then obtain cov src diag g where
    "evidence_group cov src (process_metrics p capture checked) diag = Inr g"
    unfolding runtime_evidence_def Let_def by (auto simp only: bindR_Inr_iff)
  then have ok: "runtime_bounded_json (JObj (process_metrics p capture checked))"
    by (auto simp: evidence_group_def RuntimeEvidenceGroup_def split: if_splits)
  have "dict_get (process_metrics p capture checked) ''exact_argv'' = Some (strings (execution_argv p))"
    by (simp add: process_metrics_def dict_update_get)
  then have "(''exact_argv'', strings (execution_argv p)) \<in> set (process_metrics p capture checked)"
    by (rule map_of_SomeD)
  with ok have "length (execution_argv p) \<le> 4096"
    by (fastforce simp: runtime_bounded_json_def strings_def)
  moreover have "length (execution_argv p) \<ge> 5 + length (plan_argv p)"
    using assms(1) by (simp add: execution_argv_def)
  ultimately show False using assms(2) by linarith
qed

text \<open>
  C39. A container command of 4092 words or more never yields a result, although requests, workloads
  and plans accept 4096: whether the node passes the checks or not, and so also after the workload
  has run, the worker fails before it writes one.
\<close>

theorem container_command_loses_result:
  assumes "pl_container p = Some c" and "length (plan_argv p) \<ge> 4092"
  shows "worker_execute_plan node run p w k (Some q) \<noteq> Inr r"
proof
  assume "worker_execute_plan node run p w k (Some q) = Inr r"
  then show False
  proof (rule worker_execute_plan_cases)
    fix a problems checked environ
    have "preflight_failure node k p (Some q) a problems checked \<noteq> Inr r"
      using long_container_command_has_no_evidence [OF assms]
      by (auto simp: preflight_failure_def Let_def bindR_Inr_iff mapErr_Inr_iff)
    moreover have "execute_run node run k p w (Some q) a checked environ \<noteq> Inr r"
      using long_container_command_has_no_evidence [OF assms] by (auto elim: execute_run_Inr)
    moreover assume "problems \<noteq> [] \<and> preflight_failure node k p (Some q) a problems checked = Inr r \<or>
     problems = [] \<and> execute_run node run k p w (Some q) a checked environ = Inr r"
    ultimately show False by blast
  qed
qed

definition sample_container_plan :: plan where
  "sample_container_plan = sample_staged_plan\<lparr>pl_arguments := replicate 4095 ''x'',
     pl_container := Some \<lparr>c_runtime = ''apptainer'', c_image = ''/i.sif'', c_mounts = [],
       c_clean_environment = True, c_image_digest = None\<rparr>\<rparr>"

theorem container_command_loses_result_witness:
  "plan_ok sample_container_plan \<and>
   (\<forall>r. worker_execute_plan sample_node sample_run sample_container_plan sample_staged_workload ''E''
      (Some sample_request) \<noteq> Inr r)"
proof -
  have "plan_ok sample_container_plan"
    by (simp add: plan_ok_def sample_container_plan_def sample_staged_plan_def sample_plan_def
        backends_def compatibility_states_def)
  moreover have "length (plan_argv sample_container_plan) \<ge> 4092" "pl_container sample_container_plan \<noteq> None"
    by (simp_all add: plan_argv_def sample_container_plan_def)
  ultimately show ?thesis using container_command_loses_result by blast
qed

text \<open>
  A diagnostic of termination evidence holds 4096 characters. A preflight failure joins all its
  problems into one, and the path of a missing mount alone may be longer: then it is not reported either.
\<close>

lemma long_preflight_diagnostic_is_lost:
  assumes "length (join ''; '' problems) > 4096"
  shows "preflight_failure node k p request a problems checked \<noteq> Inr r"
  using assms by (auto simp: preflight_failure_def Let_def bindR_Inr_iff mapErr_Inr_iff
      TerminationEvidence_def diagnostic_ok_def split: if_splits option.splits)

end
