(* ===== verification/LocalBackend.thy ===== *)
theory LocalBackend
  imports ComputeWorker Batch Resolver RemoteWorker
begin

text \<open>
  The backends of the local machine (\<open>backends.py\<close>), the service over them
  (\<open>execution_service.py\<close>) and the identity they act under (\<open>identity.py\<close>): staging and submitting
  a plan, observing, waiting for and cancelling its job, and importing its result.

  The world of a controller is its store, its files and directories, its clock, the commands it
  has handed to a scheduler to submit or to cancel, and, for the backend of other sites, the records
  it keeps of them, their hosts and the worker its connection has found there. Every handler is a sequence of steps on it, so that it may die
  between any two of them.
\<close>

section \<open>The controller's world\<close>

text \<open>A row of \<open>remote_execution_states\<close> (\<open>site_storage.py\<close>).\<close>

record remote_row =
  rs_execution :: string
  rs_site :: string
  rs_state :: string
  rs_staging :: "string option"
  rs_family :: "string option"
  rs_job :: "string option"
  rs_observed_at :: string
  rs_evidence :: "json dict"

record controller =
  ct_store :: store
  ct_files :: "ppath \<Rightarrow> string option"
  ct_dirs :: "ppath \<Rightarrow> bool"
  ct_log :: "(string list \<times> string option) list"
  ct_time :: rat
  ct_remote :: "remote_row list"
  ct_hosts :: "string \<Rightarrow> host"
  ct_session :: "string option"

text \<open>\<open>ProcessIdentity\<close>\<close>

record identity =
  id_username :: string
  id_uid :: "int option"
  id_source :: string

definition identity_evidence :: "identity \<Rightarrow> json dict" where
  "identity_evidence i =
     [(''username'', JStr (id_username i)), (''effective_uid'', opt_int (id_uid i)),
      (''source'', JStr (id_source i))]"

text \<open>
  The effective user of a POSIX process with the name the password database has for it, or else
  what \<open>getpass.getuser\<close> gives; \<open>None\<close> when there is none or the lookup raised.
\<close>

datatype process_user = Posix int "string option" | Other "string option"

definition current_process_identity :: "process_user \<Rightarrow> identity" where
  "current_process_identity u =
     (case u of
        Posix uid name \<Rightarrow>
          (if name \<noteq> None \<and> name \<noteq> Some []
           then \<lparr>id_username = the name, id_uid = Some uid,
                  id_source = ''posix_effective_uid_password_database''\<rparr>
           else \<lparr>id_username = str_int uid, id_uid = Some uid,
                  id_source = ''posix_effective_uid_numeric''\<rparr>)
      | Other name \<Rightarrow>
          \<lparr>id_username = (case name of None \<Rightarrow> ''unknown'' | Some n \<Rightarrow> n), id_uid = None,
           id_source = ''platform_username_fallback''\<rparr>)"

datatype local_error =
    LBackend backend_error
  | LStore store_error
  | LPlanning string
  | LRaised py_error
  | LRequest request_error
  | LIO
  | LOther
  | LTimeout string
  | LTransport string
  | LIllTyped

type_synonym 'a local = "(controller, local_error, 'a) eff"

abbreviation backend_raise :: "string \<Rightarrow> 'a local" where
  "backend_raise message \<equiv> raiseE (LBackend (BackendError message))"

text \<open>
  What an operation meets: the family it works for and the staging root; \<open>shutil.which\<close>; the outcome
  of a submission or a cancellation and of the status queries (\<open>None\<close> when the process cannot be
  started); what passes while it sleeps; the clock and \<open>new_ulid\<close>; whether the disk takes a write;
  and the user. \<open>be_text\<close> and \<open>be_type\<close> are the text and the class of the exceptions the model does not carry them of;
  \<open>be_seconds\<close> is the difference of two timestamps. A direct run meets a node of its own.
\<close>

record backend_env =
  be_root :: ppath
  be_which :: "controller \<Rightarrow> string \<Rightarrow> string option"
  be_run :: "controller \<Rightarrow> string list \<Rightarrow> string option \<Rightarrow> cmd_result option"
  be_query :: "controller \<Rightarrow> runner"
  be_sleep :: "rat \<Rightarrow> controller \<Rightarrow> controller"
  be_now :: "controller \<Rightarrow> string"
  be_ulid :: "controller \<Rightarrow> string"
  be_disk :: "controller \<Rightarrow> bool"
  be_user :: process_user
  be_worker :: string
  be_loads :: "string \<Rightarrow> json option"
  be_float :: "py_float \<Rightarrow> string"
  be_seconds :: "string \<Rightarrow> string \<Rightarrow> rat option"
  be_text :: "local_error \<Rightarrow> string"
  be_type :: "local_error \<Rightarrow> string"
  be_node :: compute_node
  be_direct :: node_run

definition username :: "backend_env \<Rightarrow> string" where
  "username env = id_username (current_process_identity (be_user env))"

definition error_text :: "backend_env \<Rightarrow> local_error \<Rightarrow> string" where
  "error_text env e =
     (case e of
        LBackend (BackendError m) \<Rightarrow> m
      | LBackend (AmbiguousSubmission m) \<Rightarrow> m
      | LStore (StoreValueError m) \<Rightarrow> m
      | LRaised (PyValueError m) \<Rightarrow> m
      | LPlanning m \<Rightarrow> m
      | LTimeout m \<Rightarrow> m
      | LTransport m \<Rightarrow> m
      | _ \<Rightarrow> be_text env e)"

definition error_type :: "backend_env \<Rightarrow> local_error \<Rightarrow> string" where
  "error_type env e =
     (case e of
        LBackend (BackendError _) \<Rightarrow> ''BackendError''
      | LBackend (AmbiguousSubmission _) \<Rightarrow> ''AmbiguousSubmission''
      | LBackend BackendValueError \<Rightarrow> ''ValueError''
      | LBackend BackendIndexError \<Rightarrow> ''IndexError''
      | LStore (ExecutionNotFound _) \<Rightarrow> ''ExecutionNotFound''
      | LStore (PlanNotFound _) \<Rightarrow> ''PlanNotFound''
      | LStore (WorkloadNotFound _) \<Rightarrow> ''WorkloadNotFound''
      | LStore (RequestNotFound _) \<Rightarrow> ''RequestNotFound''
      | LStore (StoreValueError _) \<Rightarrow> ''ValueError''
      | LStore IntegrityError \<Rightarrow> ''IntegrityError''
      | LPlanning _ \<Rightarrow> ''PlanningError''
      | LRaised (PyValueError _) \<Rightarrow> ''ValueError''
      | LRaised PyTypeError \<Rightarrow> ''TypeError''
      | LRaised (PyKeyError _) \<Rightarrow> ''KeyError''
      | LRaised PyZeroDivisionError \<Rightarrow> ''ZeroDivisionError''
      | LRaised PyAttributeError \<Rightarrow> ''AttributeError''
      | LTimeout _ \<Rightarrow> ''TimeoutError''
      | _ \<Rightarrow> be_type env e)"

section \<open>Steps\<close>

definition storeE :: "(store \<Rightarrow> 'a stored) \<Rightarrow> 'a local" where
  "storeE f = readE (\<lambda>c. mapErr LStore (f (ct_store c)))"

text \<open>A transaction; it is given a new identity and the time.\<close>

definition commitE :: "backend_env \<Rightarrow> (string \<Rightarrow> string \<Rightarrow> store \<Rightarrow> store stored) \<Rightarrow> unit local" where
  "commitE env f = transE (\<lambda>c. mapErr LStore
     (mapR (\<lambda>s. c\<lparr>ct_store := s\<rparr>) (f (be_ulid env c) (be_now env c) (ct_store c))))"

definition write_file :: "backend_env \<Rightarrow> ppath \<Rightarrow> string \<Rightarrow> unit local" where
  "write_file env path bytes = transE (\<lambda>c.
     if be_disk env c then Inr (c\<lparr>ct_files := (ct_files c)(path := Some bytes)\<rparr>) else Inl LIO)"

text \<open>\<open>staging.mkdir(parents=True, exist_ok=False)\<close>\<close>

definition make_staging :: "backend_env \<Rightarrow> ppath \<Rightarrow> unit local" where
  "make_staging env staging = transE (\<lambda>c.
     if ct_dirs c staging \<or> \<not> be_disk env c then Inl LIO
     else Inr (c\<lparr>ct_dirs := (\<lambda>q. ct_dirs c q \<or> is_relative_to staging q)\<rparr>))"

text \<open>\<open>_run\<close> of a command that submits or cancels: it reaches the scheduler, then its outcome is known.\<close>

definition run_commandE :: "backend_env \<Rightarrow> string list \<Rightarrow> string option \<Rightarrow> cmd_result local" where
  "run_commandE env argv bytes =
     bindE (readE (\<lambda>c. Inr (be_run env c argv bytes))) (\<lambda>outcome.
     bindE (writeE (\<lambda>c. c\<lparr>ct_log := ct_log c @ [(argv, bytes)]\<rparr>)) (\<lambda>_.
     case outcome of
       None \<Rightarrow> backend_raise ''could not run scheduler command''
     | Some r \<Rightarrow> retE r))"

definition set_stateE :: "backend_env \<Rightarrow> string \<Rightarrow> string \<Rightarrow> json dict \<Rightarrow> string option \<Rightarrow> unit local" where
  "set_stateE env k state details error =
     commitE env (\<lambda>i now. update_execution_state i k state now details error)"

definition eventE :: "backend_env \<Rightarrow> string \<Rightarrow> string \<Rightarrow> json dict \<Rightarrow> unit local" where
  "eventE env k state details = commitE env (\<lambda>i now. record_execution_event i k state now details)"

definition whichE :: "backend_env \<Rightarrow> string \<Rightarrow> string option local" where
  "whichE env name = readE (\<lambda>c. Inr (be_which env c name))"

section \<open>Submission\<close>

record submission =
  sb_family :: string
  sb_job :: string
  sb_execution :: string

definition target_name_of :: "plan \<Rightarrow> inventory \<Rightarrow> string option backend" where
  "target_name_of p inventory =
     (case pl_target p of
        None \<Rightarrow> Inr None
      | Some t \<Rightarrow>
          (case find (\<lambda>x. t_id x = t) (i_targets inventory) of
             None \<Rightarrow> Inl (BackendError ''execution target is absent from the plan inventory'')
           | Some x \<Rightarrow> Inr (Some (t_name x))))"

definition script_name :: "string \<Rightarrow> string" where
  "script_name family =
     (if family = ''slurm'' then ''job.slurm'' else if family = ''pbs'' then ''job.pbs'' else ''job.lsf'')"

definition staging_directory :: "backend_env \<Rightarrow> attempt \<Rightarrow> ppath" where
  "staging_directory env execution = path_join (be_root env) (at_id execution)"

text \<open>Up to the scheduler's command: the staged files, and the state the execution then has.\<close>

definition stage_execution :: "backend_env \<Rightarrow> string \<Rightarrow> attempt \<Rightarrow> plan \<Rightarrow> workload \<Rightarrow> inventory \<Rightarrow>
    ppath local" where
  "stage_execution env family execution p w inventory =
     (let staging = staging_directory env execution;
          worker_path = path_join staging ''worker.pyz''; plan_path = path_join staging ''plan.json'';
          result_path = path_join staging ''result.json'';
          script_path = path_join staging (script_name family)
      in
      bindE (make_staging env staging) (\<lambda>_.
      bindE (write_file env worker_path (be_worker env)) (\<lambda>_.
      bindE (storeE (\<lambda>s. Inr (request_for_workload (w_id w) s))) (\<lambda>request.
      bindE (liftE (mapErr LRaised (write_staged_plan (be_float env) (at_id execution) p w request)))
        (\<lambda>document.
      bindE (write_file env plan_path document) (\<lambda>_.
      bindE (liftE (mapErr LBackend (target_name_of p inventory))) (\<lambda>target_name.
      bindE (liftE (mapErr LRaised (render_batch_script family p (path_str worker_path)
        (path_str plan_path) (path_str result_path) (at_id execution) target_name))) (\<lambda>script.
      bindE (write_file env script_path (utf8_encode script)) (\<lambda>_.
      bindE (commitE env (\<lambda>_ now. set_staging_directory (at_id execution) (path_str staging) now)) (\<lambda>_.
      bindE (set_stateE env (at_id execution) ''prepared''
        [(''staging_directory'', JStr (path_str staging)), (''compute_visibility'', JStr ''unknown'')]
        None) (\<lambda>_.
      retE script_path)))))))))))"

definition submission_details :: "string \<Rightarrow> json dict" where
  "submission_details detail = [(''phase'', JStr ''submission''), (''diagnostic'', JStr detail)]"

definition refuse :: "backend_env \<Rightarrow> string \<Rightarrow> string \<Rightarrow> string \<Rightarrow> 'a local" where
  "refuse env k detail message =
     bindE (set_stateE env k ''failed'' (submission_details detail) (Some detail)) (\<lambda>_.
     backend_raise message)"

definition uncertain :: "backend_env \<Rightarrow> string \<Rightarrow> string \<Rightarrow> 'a local" where
  "uncertain env k detail =
     bindE (set_stateE env k ''submission_ambiguous''
       (submission_details detail @ [(''retry_safe'', JBool False)]) (Some detail)) (\<lambda>_.
     raiseE (LBackend (AmbiguousSubmission detail)))"

definition record_submission :: "backend_env \<Rightarrow> string \<Rightarrow> attempt \<Rightarrow> string \<Rightarrow> submission local" where
  "record_submission env family execution job_id =
     (let identity = (case at_identity execution of
            Some u \<Rightarrow> if u = [] then username env else u | None \<Rightarrow> username env) in
      bindE (readE (\<lambda>c. Inr (be_now env c))) (\<lambda>now.
      bindE (commitE env (\<lambda>_ _. save_scheduler_job
        \<lparr>j_execution = at_id execution, j_family = family, j_job_id = job_id,
         j_identity = identity, j_submitted_at = now, j_state = ''submitted'',
         j_observed_at = now\<rparr>)) (\<lambda>_.
      bindE (commitE env (\<lambda>i _. update_execution_state i (at_id execution) ''submitted'' now
        [(''scheduler_family'', JStr family), (''job_id'', JStr job_id)] None)) (\<lambda>_.
      retE \<lparr>sb_family = family, sb_job = job_id, sb_execution = at_id execution\<rparr>))))"

text \<open>What follows from the outcome of the one command that submits.\<close>

definition submission_outcome :: "backend_env \<Rightarrow> string \<Rightarrow> attempt \<Rightarrow> cmd_result \<Rightarrow> submission local" where
  "submission_outcome env family execution r =
     (let k = at_id execution in
      if cr_timed_out r then uncertain env k ''scheduler submission timed out; acceptance is unknown''
      else if cr_returncode r \<noteq> Some 0
      then refuse env k (failure_detail r) (family @ '' submission failed: '' @ failure_detail r)
      else
        (case parse_submission family (cr_stdout r) of
           Inr job_id \<Rightarrow> record_submission env family execution job_id
         | Inl (AmbiguousSubmission detail) \<Rightarrow> uncertain env k detail
         | Inl (BackendError detail) \<Rightarrow> refuse env k detail detail
         | Inl e \<Rightarrow> raiseE (LBackend e)))"

text \<open>LSF reads the script from its standard input.\<close>

definition submission_input :: "string \<Rightarrow> ppath \<Rightarrow> string option local" where
  "submission_input family script_path = readE (\<lambda>c.
     if family \<in> {''slurm'', ''pbs''} then Inr None
     else (case ct_files c script_path of None \<Rightarrow> Inl LIO | Some b \<Rightarrow> Inr (Some b)))"

definition scheduler_execute :: "backend_env \<Rightarrow> string \<Rightarrow> attempt \<Rightarrow> plan \<Rightarrow> workload \<Rightarrow> inventory \<Rightarrow>
    submission local" where
  "scheduler_execute env family execution p w inventory =
     bindE (stage_execution env family execution p w inventory) (\<lambda>script_path.
     bindE (whichE env (submit_command family)) (\<lambda>found.
     case found of
       None \<Rightarrow> refuse env (at_id execution) (submit_command family @ '' executable is unavailable'')
         (submit_command family @ '' executable is unavailable'')
     | Some executable \<Rightarrow>
         bindE (submission_input family script_path) (\<lambda>bytes.
         bindE (run_commandE env (executable # submit_arguments family (path_str script_path)) bytes)
           (submission_outcome env family execution))))"

section \<open>Observing the job\<close>

text \<open>\<open>except BackendError\<close>, which ambiguity is one of.\<close>

fun backend_failure :: "local_error \<Rightarrow> bool" where
  "backend_failure (LBackend (BackendError _)) = True"
| "backend_failure (LBackend (AmbiguousSubmission _)) = True"
| "backend_failure _ = False"

definition known_job :: "backend_env \<Rightarrow> string \<Rightarrow> attempt \<Rightarrow> job local" where
  "known_job env family execution =
     (if at_backend execution \<noteq> family
      then backend_raise ''execution backend does not match scheduler''
      else
        bindE (storeE (\<lambda>s. Inr (get_scheduler_job (at_id execution) s))) (\<lambda>found.
        case found of
          None \<Rightarrow> backend_raise ''execution has no Bourne-managed scheduler job''
        | Some j \<Rightarrow>
            if j_identity j \<noteq> username env
            then backend_raise ''current identity did not submit this Bourne job''
            else retE j))"

definition record_query_error :: "backend_env \<Rightarrow> string \<Rightarrow> attempt \<Rightarrow> job \<Rightarrow> string \<Rightarrow> unit local" where
  "record_query_error env family execution j message =
     eventE env (at_id execution) ''scheduler_query_error''
       [(''scheduler_family'', JStr family), (''job_id'', JStr (j_job_id j)),
        (''observation_source'', JStr ''active''), (''diagnostic'', JStr (take 4096 message))]"

text \<open>The queries change nothing; a failure of theirs is recorded and raised again.\<close>

definition query_job :: "backend_env \<Rightarrow> string \<Rightarrow> attempt \<Rightarrow> job \<Rightarrow> string \<Rightarrow> observation local" where
  "query_job env family execution j executable =
     catchE (readE (\<lambda>c. mapErr LBackend
         (observe_job family (be_query env c) (be_which env c) j executable)))
       (\<lambda>e. if backend_failure e
            then bindE (record_query_error env family execution j (error_text env e)) (\<lambda>_. raiseE e)
            else raiseE e)"

definition observe_and_record :: "backend_env \<Rightarrow> string \<Rightarrow> attempt \<Rightarrow> job \<Rightarrow> observation local" where
  "observe_and_record env family execution j =
     bindE (whichE env (status_command family)) (\<lambda>found.
     case found of
       None \<Rightarrow>
         let message = status_command family @ '' executable is unavailable'' in
         bindE (record_query_error env family execution j message) (\<lambda>_. backend_raise message)
     | Some executable \<Rightarrow>
         bindE (query_job env family execution j executable) (\<lambda>b.
         bindE (readE (\<lambda>c. Inr (be_now env c))) (\<lambda>now.
         bindE (commitE env (\<lambda>_ _. update_scheduler_job (at_id execution) (o_state b) now)) (\<lambda>_.
         bindE (commitE env (\<lambda>i _. update_execution_state i (at_id execution) (execution_state b) now
           (observation_details b family (j_job_id j)) None)) (\<lambda>_.
         retE b)))))"

definition status :: "backend_env \<Rightarrow> string \<Rightarrow> attempt \<Rightarrow> string local" where
  "status env family execution =
     bindE (known_job env family execution) (\<lambda>j.
     bindE (observe_and_record env family execution j) (\<lambda>b. retE (o_state b)))"

section \<open>Importing a result\<close>

definition planned_execution_argv :: "plan \<Rightarrow> string list" where
  "planned_execution_argv p =
     (case pl_container p of
        None \<Rightarrow> plan_argv p
      | Some c \<Rightarrow>
          [c_runtime c, ''exec''] @ (if c_clean_environment c then [''--cleanenv''] else [])
          @ [''--pwd'', pl_working_directory p]
          @ concat (map (\<lambda>m. [''--bind'', m_source m @ '':'' @ m_destination m
              @ (if m_read_only m then '':ro'' else [])]) (c_mounts c))
          @ [c_image c] @ plan_argv p)"

definition validate_result_against_plan :: "worker_result \<Rightarrow> plan \<Rightarrow> unit backend" where
  "validate_result_against_plan r p =
     (case wr_experiment r of
        None \<Rightarrow> Inr ()
      | Some e \<Rightarrow>
          raise_if (ex_command e \<noteq> hd (planned_execution_argv p) \<or>
              ex_arguments e \<noteq> tl (planned_execution_argv p) \<or>
              ex_working_directory e \<noteq> pl_working_directory p)
            (BackendError ''worker experiment does not match the immutable plan''))"

definition check_semantics :: "check_result \<Rightarrow> json" where
  "check_semantics x = JObj
     [(''ordinal'', JInt (cx_ordinal x)), (''check_type'', JStr (cx_type x)),
      (''output_path'', JStr (cx_path x)), (''state'', JStr (cx_state x)),
      (''evidence'', JObj (cx_evidence x))]"

definition verification_semantics :: "verification \<Rightarrow> json" where
  "verification_semantics v = JObj
     [(''aggregate_state'', JStr (vr_aggregate v)), (''source'', JStr (vr_source v)),
      (''checks'', JArr (map check_semantics (vr_checks v)))]"

definition telemetry_semantics :: "telemetry option \<Rightarrow> json" where
  "telemetry_semantics t =
     (case t of
        None \<Rightarrow> JNull | Some t \<Rightarrow> JObj (filter (\<lambda>(k, _). k \<noteq> ''id'') (telemetry_to_dict t)))"

text \<open>The verification and the telemetry are evaluated again from the captured evidence.\<close>

definition validate_request_outcomes :: "backend_env \<Rightarrow> worker_result \<Rightarrow> request \<Rightarrow> unit local" where
  "validate_request_outcomes env r request =
     (case wr_experiment r of
        None \<Rightarrow> retE ()
      | Some e \<Rightarrow>
          bindE (storeE (get_execution (wr_execution r))) (\<lambda>execution.
          bindE (storeE (get_plan (at_plan execution))) (\<lambda>p.
          bindE (readE (\<lambda>c. mapErr LRaised (evaluate_verification (\<lambda>_. be_ulid env c) request
            (wr_execution r) e (wr_artifacts r)))) (\<lambda>expected.
          if (case wr_verification r of
                None \<Rightarrow> True
              | Some v \<Rightarrow> \<not> py_eq (verification_semantics v) (verification_semantics expected))
          then backend_raise ''worker verification does not match captured artifact evidence''
          else
            bindE (readE (\<lambda>c. mapErr LRaised (build_telemetry_summary (be_ulid env c) request p
              (wr_execution r) e (wr_artifacts r) (wr_allocation r) JNull))) (\<lambda>expected.
            if \<not> py_eq (telemetry_semantics (wr_telemetry r)) (telemetry_semantics expected)
            then backend_raise ''worker telemetry does not match captured execution evidence''
            else retE ())))))"

definition check_request :: "backend_env \<Rightarrow> worker_result \<Rightarrow> request option \<Rightarrow> unit local" where
  "check_request env r request =
     (if version_number (wr_version r) \<ge> 2 then
        (case request of
           None \<Rightarrow> backend_raise ''worker result request does not match the immutable plan''
         | Some q \<Rightarrow>
             if wr_request r \<noteq> Some (rq_id q)
             then backend_raise ''worker result request does not match the immutable plan''
             else validate_request_outcomes env r q)
      else if wr_request r \<noteq> None \<or> wr_telemetry r \<noteq> None \<or> wr_verification r \<noteq> None
      then backend_raise ''released v0.4 worker results cannot carry v0.5 outcomes''
      else retE ())"

definition job_document :: "job \<Rightarrow> json dict" where
  "job_document j =
     [(''family'', JStr (j_family j)), (''job_id'', JStr (j_job_id j)),
      (''submitting_identity'', JStr (j_identity j)), (''submitted_at'', JStr (j_submitted_at j)),
      (''last_observed_state'', JStr (j_state j))]"

text \<open>What the controller knows of the job is added to the evidence, whose bounds are checked again.\<close>

definition with_controller_job :: "job option \<Rightarrow> runtime option \<Rightarrow> runtime option pyres" where
  "with_controller_job found evidence =
     (case (found, evidence) of
        (Some j, Some r) \<Rightarrow>
          let g = rt_allocation r in
          bindR (RuntimeEvidenceGroup (JStr (gr_coverage g)) (JStr (gr_source g))
            (JObj (dict_update (gr_metrics g) [(''controller_scheduler_job'', JObj (job_document j))]))
            (opt_json JStr (gr_diagnostic g))) (\<lambda>g.
          mapR Some (RuntimeEvidence (JStr (rt_id r)) (JStr (rt_execution r))
            (opt_json JStr (rt_experiment r)) (JStr (rt_observed_at r))
            (runtime_groups (r\<lparr>rt_allocation := g\<rparr>)) (rt_schema_version r)))
      | _ \<Rightarrow> Inr evidence)"

definition with_scheduler_wait :: "(string \<Rightarrow> string \<Rightarrow> rat option) \<Rightarrow> job option \<Rightarrow> worker_result \<Rightarrow>
    telemetry option pyres" where
  "with_scheduler_wait seconds found r =
     (case (wr_telemetry r, found, wr_experiment r) of
        (Some t, Some j, Some e) \<Rightarrow>
          mapR Some (add_scheduler_wait seconds t (j_submitted_at j) (ex_started_at e))
      | _ \<Rightarrow> Inr (wr_telemetry r))"

definition import_result :: "backend_env \<Rightarrow> worker_result \<Rightarrow> unit local" where
  "import_result env r =
     bindE (storeE (\<lambda>s. Inr (request_for_execution (wr_execution r) s))) (\<lambda>request.
     bindE (check_request env r request) (\<lambda>_.
     bindE (storeE (\<lambda>s. Inr (get_scheduler_job (wr_execution r) s))) (\<lambda>found.
     bindE (liftE (mapErr LRaised (with_controller_job found (wr_runtime r)))) (\<lambda>evidence.
     bindE (liftE (mapErr LRaised (with_scheduler_wait (be_seconds env) found r))) (\<lambda>telemetry.
     let details = [(''preflight'', JObj (wr_preflight r))] in
     case wr_experiment r of
       None \<Rightarrow>
         commitE env (\<lambda>i _. import_worker_failure i (wr_execution r) (wr_allocation r) (wr_state r)
           (wr_created_at r) details (wr_error r) evidence (wr_termination r))
     | Some e \<Rightarrow>
         commitE env (\<lambda>i _. import_experiment_result i (wr_execution r) e (wr_artifacts r)
           (wr_lineage r) (wr_allocation r) (wr_state r) (wr_created_at r) details telemetry
           (wr_verification r) evidence (wr_termination r)))))))"

section \<open>Collecting\<close>

definition of_result_error :: "result_error \<Rightarrow> local_error" where
  "of_result_error e =
     (case e of
        BadResult m \<Rightarrow> LBackend (BackendError m) | Uncaught x \<Rightarrow> LRaised x | IllTyped \<Rightarrow> LIllTyped)"

definition result_path :: "string \<Rightarrow> ppath" where
  "result_path staging = path_join (path_of staging) ''result.json''"

definition collect :: "backend_env \<Rightarrow> attempt \<Rightarrow> worker_result local" where
  "collect env execution =
     (case at_staging execution of
        None \<Rightarrow> backend_raise ''execution has no staging directory''
      | Some staging \<Rightarrow>
          bindE (readE (\<lambda>c. mapErr of_result_error
            (load_worker_result (be_loads env) (ct_files c (result_path staging)) (at_id execution)))) (\<lambda>r.
          bindE (storeE (get_plan (at_plan execution))) (\<lambda>p.
          bindE (liftE (mapErr LBackend (validate_result_against_plan r p))) (\<lambda>_.
          bindE (storeE (\<lambda>s. Inr (experiment_id (at_id execution) s))) (\<lambda>existing.
          case existing of
            Some imported \<Rightarrow>
              if map_option ex_id (wr_experiment r) \<noteq> Some imported
              then backend_raise ''worker result conflicts with the imported experiment''
              else retE r
          | None \<Rightarrow>
              bindE (if wr_experiment r = None \<and> at_state execution = wr_state r
                     then storeE (allocations_of (at_id execution)) else retE []) (\<lambda>allocations.
              if allocations \<noteq> [] then retE r
              else bindE (import_result env r) (\<lambda>_. retE r)))))))"

section \<open>Waiting\<close>

text \<open>\<open>try: return collect(...) except BackendError: pass\<close>\<close>

definition try_collect :: "backend_env \<Rightarrow> attempt \<Rightarrow> worker_result option local" where
  "try_collect env execution =
     catchE (bindE (collect env execution) (\<lambda>r. retE (Some r)))
       (\<lambda>e. if backend_failure e then retE None else raiseE e)"

definition collection_details :: "observation \<Rightarrow> json dict \<Rightarrow> string \<Rightarrow> bool \<Rightarrow> json dict" where
  "collection_details b details message partial =
     (let result_evidence = (if partial then ''partial'' else ''missing'') in
      dict_update details
       [(''result_bundle'', JStr (if partial then ''invalid'' else ''absent'')),
        (''scientific_completion_established'', JBool False),
        (''collection_diagnostic'', JStr (take 4096 message)),
        (''termination_phase'', JStr ''scheduler''),
        (''termination_outcome'', JStr (scheduler_outcome (o_state b) result_evidence)),
        (''result_evidence'', JStr result_evidence), (''telemetry_evidence'', JStr ''unavailable'')])"

text \<open>The job has ended, or cannot be seen: the result is there now or completion is not established.\<close>

definition final_collect :: "backend_env \<Rightarrow> string \<Rightarrow> attempt \<Rightarrow> job \<Rightarrow> observation \<Rightarrow>
    worker_result local" where
  "final_collect env family current j b =
     catchE (bindE (storeE (get_execution (at_id current))) (collect env))
       (\<lambda>e. if \<not> backend_failure e then raiseE e
            else
              bindE (readE (\<lambda>c. Inr (be_now env c))) (\<lambda>now.
              bindE (readE (\<lambda>c. Inr (case at_staging current of
                  None \<Rightarrow> False | Some s \<Rightarrow> ct_files c (result_path s) \<noteq> None))) (\<lambda>partial.
              bindE (commitE env (\<lambda>i _. update_execution_state i (at_id current) ''collection_failed'' now
                (collection_details b (observation_details b family (j_job_id j)) (error_text env e) partial)
                (Some (error_text env e)))) (\<lambda>_.
              backend_raise (''scientific completion was not established: '' @ error_text env e)))))"

text \<open>\<open>wait\<close>: so many rounds at most; \<open>None\<close> when they are used up.\<close>

primrec wait_loop :: "nat \<Rightarrow> backend_env \<Rightarrow> string \<Rightarrow> string \<Rightarrow> rat option \<Rightarrow> rat \<Rightarrow> rat \<Rightarrow>
    worker_result option local" where
  "wait_loop 0 env family k timeout started delay = retE None"
| "wait_loop (Suc n) env family k timeout started delay =
     bindE (storeE (get_execution k)) (\<lambda>current.
     bindE (try_collect env current) (\<lambda>collected.
     case collected of
       Some r \<Rightarrow> retE (Some r)
     | None \<Rightarrow>
         bindE (known_job env family current) (\<lambda>j.
         bindE (observe_and_record env family current j) (\<lambda>b.
         if o_terminal b \<or> \<not> o_observable b \<and> family \<noteq> ''lsf''
         then bindE (final_collect env family current j b) (\<lambda>r. retE (Some r))
         else
           bindE (readE (\<lambda>c. Inr (ct_time c))) (\<lambda>now.
           if (case timeout of None \<Rightarrow> False | Some t \<Rightarrow> now - started \<ge> t)
           then raiseE (LTimeout (''timed out waiting for execution '' @ k))
           else
             bindE (writeE (be_sleep env delay)) (\<lambda>_.
             wait_loop n env family k timeout started (min 60 (delay * 3 / 2))))))))"

definition wait_job :: "nat \<Rightarrow> backend_env \<Rightarrow> string \<Rightarrow> attempt \<Rightarrow> rat \<Rightarrow> rat option \<Rightarrow>
    worker_result option local" where
  "wait_job rounds env family execution poll timeout =
     bindE (readE (\<lambda>c. Inr (ct_time c))) (\<lambda>started.
     wait_loop rounds env family (at_id execution) timeout started (min 60 (max (1 / 20) poll)))"

section \<open>Cancelling\<close>

definition cancellation_details :: "string \<Rightarrow> job \<Rightarrow> json dict" where
  "cancellation_details family j =
     [(''scheduler_family'', JStr family), (''job_id'', JStr (j_job_id j)),
      (''termination_phase'', JStr ''scheduler''),
      (''termination_outcome'', JStr ''scheduler_cancelled''),
      (''result_evidence'', JStr ''unknown''), (''telemetry_evidence'', JStr ''unknown'')]"

definition cancellation_failed :: "backend_env \<Rightarrow> attempt \<Rightarrow> string \<Rightarrow> string \<Rightarrow> 'a local" where
  "cancellation_failed env execution detail message =
     bindE (eventE env (at_id execution) ''cancellation_failed'' [(''diagnostic'', JStr detail)])
       (\<lambda>_. backend_raise message)"

definition cancel_known_job :: "backend_env \<Rightarrow> string \<Rightarrow> attempt \<Rightarrow> job \<Rightarrow> unit local" where
  "cancel_known_job env family execution j =
     bindE (whichE env (cancel_command family)) (\<lambda>found.
     case found of
       None \<Rightarrow>
         let message = cancel_command family @ '' executable is unavailable'' in
         cancellation_failed env execution message message
     | Some executable \<Rightarrow>
         bindE (run_commandE env (executable # cancel_arguments family (j_job_id j) (j_identity j)) None)
           (\<lambda>r.
         if failed r
         then cancellation_failed env execution (failure_detail r)
           (''scheduler cancellation failed: '' @ failure_detail r)
         else
           bindE (readE (\<lambda>c. Inr (be_now env c))) (\<lambda>now.
           bindE (commitE env (\<lambda>_ _. update_scheduler_job (at_id execution) ''cancelled'' now)) (\<lambda>_.
           commitE env (\<lambda>i _. update_execution_state i (at_id execution) ''cancelled'' now
             (cancellation_details family j) None)))))"

definition cancel_job :: "backend_env \<Rightarrow> string \<Rightarrow> attempt \<Rightarrow> unit local" where
  "cancel_job env family execution =
     (let requester = current_process_identity (be_user env) in
      bindE (eventE env (at_id execution) ''cancellation_requested''
        [(''requested_by'', JStr (id_username requester)), (''effective_uid'', opt_int (id_uid requester)),
         (''identity_source'', JStr (id_source requester))]) (\<lambda>_.
      bindE (catchE (known_job env family execution)
        (\<lambda>e. if backend_failure e
             then bindE (eventE env (at_id execution) ''cancellation_rejected''
                    [(''diagnostic'', JStr (error_text env e))]) (\<lambda>_. raiseE e)
             else raiseE e)) (\<lambda>j.
      cancel_known_job env family execution j)))"

section \<open>Running in place\<close>

definition of_worker_fault :: "worker_fault \<Rightarrow> local_error" where
  "of_worker_fault e = (case e of WorkerRaised x \<Rightarrow> LRaised x | WorkerOther \<Rightarrow> LOther)"

definition direct_execute :: "backend_env \<Rightarrow> attempt \<Rightarrow> plan \<Rightarrow> workload \<Rightarrow> worker_result local" where
  "direct_execute env execution p w =
     bindE (set_stateE env (at_id execution) ''preflight'' [(''backend'', JStr ''direct'')] None) (\<lambda>_.
     bindE (storeE (\<lambda>s. Inr (request_for_workload (w_id w) s))) (\<lambda>request.
     bindE (liftE (mapErr of_worker_fault (worker_execute_plan (be_node env) (be_direct env) p w
       (at_id execution) request))) (\<lambda>r.
     bindE (import_result env r) (\<lambda>_.
     retE r))))"

datatype execution_outcome = Submitted submission | Ran worker_result

definition backend_execute :: "backend_env \<Rightarrow> string \<Rightarrow> attempt \<Rightarrow> plan \<Rightarrow> workload \<Rightarrow> inventory \<Rightarrow>
    execution_outcome local" where
  "backend_execute env family execution p w inventory =
     (if family = ''direct'' then bindE (direct_execute env execution p w) (\<lambda>r. retE (Ran r))
      else bindE (scheduler_execute env family execution p w inventory) (\<lambda>s. retE (Submitted s)))"

section \<open>The service\<close>

type_synonym execution_backend =
  "attempt \<Rightarrow> plan \<Rightarrow> workload \<Rightarrow> inventory \<Rightarrow> execution_outcome local"

text \<open>
  A plan without a site, or for a site of kind \<open>local\<close>, runs on this machine; \<open>remote\<close> makes the
  backend of the other sites and \<open>site_kind\<close> is the kind of a site that is known.
\<close>

definition backend_for_plan :: "backend_env \<Rightarrow> (string \<Rightarrow> string option) \<Rightarrow>
    execution_backend local \<Rightarrow> plan \<Rightarrow> execution_backend local" where
  "backend_for_plan env site_kind remote p =
     (case pl_site_id p of
        None \<Rightarrow> retE (backend_execute env (pl_backend p))
      | Some site \<Rightarrow>
          (case site_kind site of
             None \<Rightarrow> raiseE LOther
           | Some kind \<Rightarrow>
               if kind = ''local'' then retE (backend_execute env (pl_backend p)) else remote))"

definition settled_states :: "string list" where
  "settled_states = [''failed'', ''preflight_failed'', ''completed'', ''cancelled'', ''interrupted'',
     ''submission_ambiguous'']"

definition record_backend_failure :: "backend_env \<Rightarrow> string \<Rightarrow> local_error \<Rightarrow> 'a local" where
  "record_backend_failure env k e =
     bindE (storeE (get_execution k)) (\<lambda>current.
     bindE (if at_state current \<in> set settled_states then retE ()
            else set_stateE env k ''failed''
              [(''phase'', JStr ''backend''), (''error_type'', JStr (error_type env e))]
              (Some (take 4096 (error_text env e)))) (\<lambda>_.
     raiseE e))"

definition new_attempt :: "backend_env \<Rightarrow> string \<Rightarrow> string \<Rightarrow> plan \<Rightarrow> attempt" where
  "new_attempt env k now p =
     \<lparr>at_id = k, at_plan = pl_id p, at_backend = pl_backend p, at_state = ''planned'',
      at_created_at = now, at_updated_at = now, at_identity = Some (username env), at_staging = None,
      at_error = None\<rparr>"

definition execute_plan :: "backend_env \<Rightarrow> (string \<Rightarrow> string option) \<Rightarrow>
    execution_backend local \<Rightarrow> string \<Rightarrow> inventory \<Rightarrow> execution_outcome local" where
  "execute_plan env site_kind remote plan_id inventory =
     bindE (storeE (get_plan plan_id)) (\<lambda>p.
     if pl_inventory_id p \<noteq> i_id inventory
     then raiseE (LPlanning ''plan inventory does not match the supplied snapshot'')
     else
       bindE (storeE (get_workload (pl_workload_id p))) (\<lambda>w.
       bindE (storeE (\<lambda>s. Inr (latest_execution_for_plan (pl_id p) s))) (\<lambda>previous.
       if map_option at_state previous = Some ''submission_ambiguous''
       then raiseE (LPlanning (''execution '' @ at_id (the previous)
         @ '' has ambiguous submission truth; reconcile it ''
         @ ''before creating another execution from this plan''))
       else
         bindE (readE (\<lambda>c. Inr (be_now env c))) (\<lambda>now.
         bindE (readE (\<lambda>c. Inr (be_ulid env c))) (\<lambda>k.
         let execution = new_attempt env k now p in
         bindE (commitE env (\<lambda>i _. create_execution i execution)) (\<lambda>_.
         bindE (commitE env (\<lambda>i _. record_execution_event i k ''identity_observed'' now
           (identity_evidence (current_process_identity (be_user env))))) (\<lambda>_.
         bindE (backend_for_plan env site_kind remote p) (\<lambda>backend.
         catchE (backend execution p w inventory) (record_backend_failure env k)))))))))"

text \<open>
  The operations on an execution that exists; a direct execution is synchronous. \<open>remote\<close> is the
  same operation of the backend of another site.
\<close>

definition with_scheduler :: "(string \<Rightarrow> string option) \<Rightarrow> (attempt \<Rightarrow> 'a local) \<Rightarrow> string \<Rightarrow>
    (string \<Rightarrow> attempt \<Rightarrow> 'a local) \<Rightarrow> 'a local" where
  "with_scheduler site_kind remote k operation =
     bindE (storeE (get_execution k)) (\<lambda>execution.
     bindE (storeE (get_plan (at_plan execution))) (\<lambda>p.
     let here = (if pl_backend p = ''direct'' then raiseE (LPlanning ''direct execution is synchronous'')
                 else operation (pl_backend p) execution) in
     case pl_site_id p of
       None \<Rightarrow> here
     | Some site \<Rightarrow>
         (case site_kind site of
            None \<Rightarrow> raiseE LOther
          | Some kind \<Rightarrow> if kind = ''local'' then here else remote execution)))"

definition wait_execution :: "nat \<Rightarrow> backend_env \<Rightarrow> (string \<Rightarrow> string option) \<Rightarrow>
    (attempt \<Rightarrow> worker_result option local) \<Rightarrow> string \<Rightarrow> rat \<Rightarrow> rat option \<Rightarrow>
    worker_result option local" where
  "wait_execution rounds env site_kind remote k poll timeout =
     with_scheduler site_kind remote k
       (\<lambda>family execution. wait_job rounds env family execution poll timeout)"

definition cancel_execution :: "backend_env \<Rightarrow> (string \<Rightarrow> string option) \<Rightarrow> (attempt \<Rightarrow> unit local) \<Rightarrow>
    string \<Rightarrow> unit local" where
  "cancel_execution env site_kind remote k = with_scheduler site_kind remote k (cancel_job env)"

definition collect_execution :: "backend_env \<Rightarrow> (string \<Rightarrow> string option) \<Rightarrow>
    (attempt \<Rightarrow> worker_result local) \<Rightarrow> string \<Rightarrow> worker_result local" where
  "collect_execution env site_kind remote k = with_scheduler site_kind remote k (\<lambda>_. collect env)"

section \<open>Planning a request\<close>

definition request_to_workload :: "(string \<Rightarrow> bool) \<Rightarrow> string \<Rightarrow> string \<Rightarrow> request \<Rightarrow>
    (local_error, workload) res" where
  "request_to_workload is_marker new_id now r =
     (if rq_requested_parent r \<noteq> None \<and> rq_resolved_parent r = None
      then Inl (LPlanning ''parent experiment reference must be resolved before workload compilation'')
      else mapErr LRaised (inspect_workload is_marker (rq_resolved_working_directory r) new_id now
        (rq_command r) (rq_inputs r) (rq_outputs r) (Some (rq_resources r)) (Some (rq_execution r))
        (rq_resolved_parent r)))"

text \<open>\<open>resolve\<close> finds the experiment a reference means, or says why there is none.\<close>

definition resolve_parent :: "(string \<Rightarrow> (string, string) res) \<Rightarrow> request \<Rightarrow> (local_error, request) res" where
  "resolve_parent resolve r =
     (case rq_requested_parent r of
        None \<Rightarrow> Inr r
      | Some reference \<Rightarrow>
          bindR (mapErr LPlanning (resolve reference)) (\<lambda>parent.
          mapErr LRequest (with_resolved_parent_experiment r parent)))"

definition plan_request :: "backend_env \<Rightarrow> site_env \<Rightarrow> (string \<Rightarrow> bool) \<Rightarrow> (ppath \<Rightarrow> bool option) \<Rightarrow>
    (controller \<Rightarrow> string \<Rightarrow> (string, string) res) \<Rightarrow> request \<Rightarrow> inventory \<Rightarrow> resolution local" where
  "plan_request env x is_marker executable_file resolve r inventory =
     bindE (readE (\<lambda>c. resolve_parent (resolve c) r)) (\<lambda>r.
     bindE (readE (\<lambda>c. request_to_workload is_marker (be_ulid env c) (be_now env c) r)) (\<lambda>w.
     bindE (commitE env (\<lambda>_ _. save_request_with_workload r w)) (\<lambda>_.
     bindE (readE (\<lambda>c. mapErr LRaised (resolve_execution x executable_file (be_ulid env c)
       (be_now env c) w inventory))) (\<lambda>resolution.
     bindE (case rr_selected resolution of
         None \<Rightarrow> retE () | Some p \<Rightarrow> commitE env (\<lambda>_ _. save_plan p)) (\<lambda>_.
     retE resolution)))))"

definition execute_request :: "backend_env \<Rightarrow> site_env \<Rightarrow> (string \<Rightarrow> bool) \<Rightarrow> (ppath \<Rightarrow> bool option) \<Rightarrow>
    (controller \<Rightarrow> string \<Rightarrow> (string, string) res) \<Rightarrow> (string \<Rightarrow> string option) \<Rightarrow>
    execution_backend local \<Rightarrow> request \<Rightarrow> inventory \<Rightarrow>
    (request \<times> resolution \<times> execution_outcome option) local" where
  "execute_request env x is_marker executable_file resolve site_kind remote r inventory =
     bindE (plan_request env x is_marker executable_file resolve r inventory) (\<lambda>resolution.
     bindE (case rr_selected resolution of
         None \<Rightarrow> retE None
       | Some p \<Rightarrow>
           bindE (execute_plan env site_kind remote (pl_id p) inventory) (\<lambda>outcome.
           retE (Some outcome))) (\<lambda>outcome.
     bindE (storeE (get_request (rq_id r))) (\<lambda>stored.
     retE (stored, resolution, outcome))))"

end
