(* ===== verification/Effects.thy ===== *)
theory Effects
  imports Prelude
begin

text \<open>
  Symbolic execution of operations on a durable world. \<open>run m w \<Phi>\<close> says that started in \<open>w\<close> the
  operation ends in a world and with a result that satisfy \<open>\<Phi>\<close>; the rules compute it step by step.
\<close>

definition run :: "('w, 'e, 'a) eff \<Rightarrow> 'w \<Rightarrow> ('w \<Rightarrow> ('e, 'a) res \<Rightarrow> bool) \<Rightarrow> bool" where
  "run m w \<Phi> \<longleftrightarrow> (case m w of (_, w', r) \<Rightarrow> \<Phi> w' r)"

named_theorems run_rules \<open>symbolic execution of the steps of an operation\<close>

lemma run_ret [run_rules]: "run (retE x) w \<Phi> = \<Phi> w (Inr x)"
  by (simp add: run_def retE_def)

lemma run_raise [run_rules]: "run (raiseE e) w \<Phi> = \<Phi> w (Inl e)"
  by (simp add: run_def raiseE_def)

lemma run_lift [run_rules]: "run (liftE r) w \<Phi> = \<Phi> w r"
  by (simp add: run_def liftE_def)

lemma run_read [run_rules]: "run (readE f) w \<Phi> = \<Phi> w (f w)"
  by (simp add: run_def readE_def)

lemma run_write [run_rules]: "run (writeE f) w \<Phi> = \<Phi> (f w) (Inr ())"
  by (simp add: run_def writeE_def)

lemma run_trans [run_rules]:
  "run (transE f) w \<Phi> = (case f w of Inl e \<Rightarrow> \<Phi> w (Inl e) | Inr w' \<Rightarrow> \<Phi> w' (Inr ()))"
  by (simp add: run_def transE_def split: sum.splits)

lemma run_bind [run_rules]:
  "run (bindE m f) w \<Phi> =
     run m w (\<lambda>w' r. case r of Inl e \<Rightarrow> \<Phi> w' (Inl e) | Inr x \<Rightarrow> run (f x) w' \<Phi>)"
  by (simp add: run_def bindE_def split: prod.splits sum.splits)

lemma run_catch [run_rules]:
  "run (catchE m h) w \<Phi> =
     run m w (\<lambda>w' r. case r of Inl e \<Rightarrow> run (h e) w' \<Phi> | Inr x \<Rightarrow> \<Phi> w' (Inr x))"
  by (simp add: run_def catchE_def split: prod.splits sum.splits)

lemma run_post: "run m w \<Phi> \<Longrightarrow> (\<And>w' r. \<Phi> w' r \<Longrightarrow> \<Psi> w' r) \<Longrightarrow> run m w \<Psi>"
  by (auto simp: run_def split: prod.splits)

lemma run_conj: "run m w \<Phi> \<Longrightarrow> run m w \<Psi> \<Longrightarrow> run m w (\<lambda>w' r. \<Phi> w' r \<and> \<Psi> w' r)"
  by (auto simp: run_def split: prod.splits)

lemma run_of: "m w = (t, w', r) \<Longrightarrow> run m w \<Phi> = \<Phi> w' r"
  by (simp add: run_def)

text \<open>A step after which the rest of the operation satisfies the postcondition however the step ended.\<close>

lemma run_step:
  assumes "run m w Q" and "\<And>w' e. Q w' (Inl e) \<Longrightarrow> \<Phi> w' (Inl e)"
    and "\<And>w' x. Q w' (Inr x) \<Longrightarrow> run (f x) w' \<Phi>"
  shows "run (bindE m f) w \<Phi>"
  unfolding run_bind
  using assms(1) by (rule run_post) (auto split: sum.splits intro: assms(2,3))

lemma run_handle:
  assumes "run m w Q" and "\<And>w' x. Q w' (Inr x) \<Longrightarrow> \<Phi> w' (Inr x)"
    and "\<And>w' e. Q w' (Inl e) \<Longrightarrow> run (h e) w' \<Phi>"
  shows "run (catchE m h) w \<Phi>"
  unfolding run_catch
  using assms(1) by (rule run_post) (auto split: sum.splits intro: assms(2,3))

end
