(* ===== verification/SubmissionLedger.thy ===== *)
theory SubmissionLedger
  imports LocalBackend StoreProperties SchedulerProperties Effects
begin

text \<open>
  What one call of the execution service does to the record of its submissions, whatever the backend:
  the abstraction of a store is a ledger, where every execution stands with its scheduler. The
  contract of a backend is a locale, and the service's refinement is proved once over it.
\<close>

section \<open>The ledger\<close>

datatype standing = Absent | Underway | Refused | Uncertain | Accepted string

definition standing :: "store \<Rightarrow> string \<Rightarrow> standing" where
  "standing s k =
     (case find_row at_id k (st_attempts s) of
        None \<Rightarrow> Absent
      | Some a \<Rightarrow>
          if at_state a = ''failed'' then Refused
          else if at_state a = ''submission_ambiguous'' then Uncertain
          else (case get_scheduler_job k s of None \<Rightarrow> Underway | Some j \<Rightarrow> Accepted (j_job_id j)))"

text \<open>Identities are new, and what a scheduler answers is not the name of a job that is recorded.\<close>

definition fresh_ids :: "backend_env \<Rightarrow> bool" where
  "fresh_ids env \<longleftrightarrow> (\<forall>c. be_ulid env c \<notin> ev_id ` set (st_events (ct_store c)) \<union>
     at_id ` set (st_attempts (ct_store c)))"

definition job_names :: "store \<Rightarrow> (string \<times> string) set" where
  "job_names s = (\<lambda>j. (j_family j, j_job_id j)) ` set (st_jobs s)"

section \<open>An execution that is being worked on\<close>

text \<open>
  \<open>held k family states s s'\<close>: from \<open>s\<close> to \<open>s'\<close> only the execution \<open>k\<close> has moved, and it is in one
  of the states.
\<close>

definition held :: "string \<Rightarrow> string \<Rightarrow> string set \<Rightarrow> store \<Rightarrow> store \<Rightarrow> bool" where
  "held k family states s s' \<longleftrightarrow>
     (\<exists>a. find_row at_id k (st_attempts s') = Some a \<and> at_backend a = family \<and> at_state a \<in> states) \<and>
     distinct (map at_id (st_attempts s')) \<and>
     (\<forall>k'. k' \<noteq> k \<longrightarrow> find_row at_id k' (st_attempts s') = find_row at_id k' (st_attempts s)) \<and>
     st_jobs s' = st_jobs s"

lemma held_mono: "held k family S s s' \<Longrightarrow> S \<subseteq> T \<Longrightarrow> held k family T s s'"
  unfolding held_def by blast

lemma find_row_map:
  assumes "\<And>r. key (f r) = key r"
  shows "find_row key k' (map (\<lambda>r. if key r = k then f r else r) rows) =
    map_option (\<lambda>r. if key r = k then f r else r) (find_row key k' rows)"
  using assms by (induction rows) (auto simp: find_row_def)

lemma find_row_snoc:
  "find_row key k (rows @ [r]) =
     (case find_row key k rows of Some x \<Rightarrow> Some x | None \<Rightarrow> if key r = k then Some r else None)"
  by (induction rows) (simp_all add: find_row_def)

lemma update_row_distinct:
  assumes "distinct (map key rows)" and "find_row key k rows = Some r"
  shows "update_row key k f e rows = Inr (map (\<lambda>r. if key r = k then f r else r) rows)"
proof -
  have "filter (\<lambda>r. key r = k) rows = [r]" using assms
  proof (induction rows)
    case (Cons x xs)
    show ?case
    proof (cases "key x = k")
      case True
      with Cons.prems have "x = r" by (simp add: find_row_def)
      moreover have "filter (\<lambda>r. key r = k) xs = []" using Cons.prems(1) True
        by (simp add: filter_empty_conv) (metis image_eqI)
      ultimately show ?thesis using True by simp
    qed (use Cons in \<open>simp add: find_row_def\<close>)
  qed (simp add: find_row_def)
  then show ?thesis by (simp add: update_row_def)
qed

lemma held_moved:
  assumes "held k family S s s'" and "\<And>a. at_id (f a) = at_id a \<and> at_backend (f a) = at_backend a"
    and "\<And>a. at_state a \<in> S \<Longrightarrow> at_state (f a) \<in> T"
    and "st_jobs s'' = st_jobs s'"
    and "st_attempts s'' = map (\<lambda>a. if at_id a = k then f a else a) (st_attempts s')"
  shows "held k family T s s''"
proof -
  have names: "map at_id (st_attempts s'') = map at_id (st_attempts s')"
    unfolding assms(5) by (rule map_key_update) (simp add: assms(2))
  have rows: "find_row at_id k' (st_attempts s'') =
      map_option (\<lambda>a. if at_id a = k then f a else a) (find_row at_id k' (st_attempts s'))" for k'
    unfolding assms(5) by (rule find_row_map) (simp add: assms(2))
  obtain a where a: "find_row at_id k (st_attempts s') = Some a" "at_backend a = family" "at_state a \<in> S"
    using assms(1) unfolding held_def by blast
  then have "at_id a = k" by (auto dest: find_row_Some)
  then have mine: "find_row at_id k (st_attempts s'') = Some (f a)" using a(1) by (simp add: rows)
  have others: "find_row at_id k' (st_attempts s'') = find_row at_id k' (st_attempts s)"
    if "k' \<noteq> k" for k'
  proof -
    have "find_row at_id k' (st_attempts s'') = find_row at_id k' (st_attempts s')"
    proof (cases "find_row at_id k' (st_attempts s')")
      case (Some b)
      then have "at_id b \<noteq> k" using that by (metis find_row_Some)
      then show ?thesis using Some by (simp add: rows)
    qed (simp add: rows)
    then show ?thesis using assms(1) that by (simp add: held_def)
  qed
  have state: "at_backend (f a) = family" "at_state (f a) \<in> T" using a(2,3) assms(2,3) by simp_all
  have "distinct (map at_id (st_attempts s''))" "st_jobs s'' = st_jobs s"
    using assms(1,4) names by (simp_all add: held_def)
  with mine others state show ?thesis unfolding held_def by blast
qed

lemma held_attempt:
  assumes "held k family S s s'"
  obtains a where "find_row at_id k (st_attempts s') = Some a" "at_backend a = family"
    "at_state a \<in> S" "at_id a = k" "k \<in> at_id ` set (st_attempts s')"
proof -
  from assms obtain a where a: "find_row at_id k (st_attempts s') = Some a" "at_backend a = family"
    "at_state a \<in> S" unfolding held_def by blast
  with find_row_Some [OF a(1)] show thesis by (intro that) auto
qed

lemma held_update:
  assumes "held k family S s s'" and "i \<notin> ev_id ` set (st_events s')"
  shows "\<exists>s''. update_execution_state i k state now details error s' = Inr s'' \<and>
    held k family {state} s s''"
proof -
  from assms(1) obtain a where a: "find_row at_id k (st_attempts s') = Some a"
    by (rule held_attempt)
  let ?rows = "map (\<lambda>a. if at_id a = k then set_state state now error a else a) (st_attempts s')"
  have "distinct (map at_id (st_attempts s'))" using assms(1) unfolding held_def by blast
  note rows = update_row_distinct [OF this a, of "set_state state now error" "ExecutionNotFound k"]
  have "map at_id ?rows = map at_id (st_attempts s')" by (auto simp: set_state_def)
  then have "at_id ` set ?rows = at_id ` set (st_attempts s')" by (metis set_map)
  then have "k \<in> at_id ` set ?rows" using a by (auto dest: find_row_Some)
  then obtain s'' where s'': "update_execution_state i k state now details error s' = Inr s''"
      "st_attempts s'' = ?rows" "st_jobs s'' = st_jobs s'"
    using assms(2) by (simp add: update_execution_state_def rows insert_event_def insert_row_def
        new_event_def)
  moreover have "held k family {state} s s''"
    by (rule held_moved [OF assms(1) _ _ s''(3,2)]) (auto simp: set_state_def)
  ultimately show ?thesis by blast
qed

lemma held_staging:
  assumes "held k family S s s'" and "set_staging_directory k path now s' = Inr s''"
  shows "held k family S s s''"
proof -
  let ?f = "\<lambda>a. a\<lparr>at_staging := Some path, at_updated_at := now\<rparr>"
  have "st_attempts s'' = map (\<lambda>a. if at_id a = k then ?f a else a) (st_attempts s')"
      "st_jobs s'' = st_jobs s'"
    using assms(2) by (auto simp: set_staging_directory_def mapR_Inr_iff update_row_def split: if_splits)
  then show ?thesis by (intro held_moved [OF assms(1), where f = ?f]) auto
qed

lemma held_standing:
  assumes "held k family S s s'"
  shows "S = {''failed''} \<Longrightarrow> standing s' = (standing s)(k := Refused)"
    and "S = {''submission_ambiguous''} \<Longrightarrow> standing s' = (standing s)(k := Uncertain)"
proof -
  have others: "standing s' k' = standing s k'" if "k' \<noteq> k" for k'
    using that assms(1)
    by (simp add: held_def standing_def get_scheduler_job_def cong: option.case_cong if_cong)
  { assume "S = {''failed''}"
    then have "standing s' k = Refused" using assms(1) by (auto simp: held_def standing_def)
    then show "standing s' = (standing s)(k := Refused)" using others by (simp add: fun_eq_iff) }
  { assume "S = {''submission_ambiguous''}"
    then have "standing s' k = Uncertain" using assms(1) by (auto simp: held_def standing_def)
    then show "standing s' = (standing s)(k := Uncertain)" using others by (simp add: fun_eq_iff) }
qed


text \<open>
  The same of a controller, the world outside of which is \<open>x\<close>: the commands handed to the scheduler
  of this machine, and the hosts of the sites.
\<close>

type_synonym outside_world = "(string list \<times> string option) list \<times> (string \<Rightarrow> host)"

definition outside :: "controller \<Rightarrow> outside_world" where
  "outside c = (ct_log c, ct_hosts c)"

lemma outside_simps [simp]:
  "outside (c\<lparr>ct_store := s\<rparr>) = outside c" "outside (c\<lparr>ct_files := f\<rparr>) = outside c"
  "outside (c\<lparr>ct_dirs := d\<rparr>) = outside c" "outside (c\<lparr>ct_remote := r\<rparr>) = outside c"
  "outside (c\<lparr>ct_session := x\<rparr>) = outside c"
  by (simp_all add: outside_def)

definition waiting :: "string \<Rightarrow> string \<Rightarrow> string set \<Rightarrow> store \<Rightarrow> outside_world \<Rightarrow> controller \<Rightarrow> bool" where
  "waiting k family S s L c \<longleftrightarrow> outside c = L \<and> held k family S s (ct_store c)"

lemma waiting_mono: "waiting k family S s L c \<Longrightarrow> S \<subseteq> T \<Longrightarrow> waiting k family T s L c"
  by (auto simp: waiting_def intro: held_mono)

lemma run_commit:
  "run (commitE env f) c \<Phi> =
     (case f (be_ulid env c) (be_now env c) (ct_store c) of
        Inl e \<Rightarrow> \<Phi> c (Inl (LStore e)) | Inr s \<Rightarrow> \<Phi> (c\<lparr>ct_store := s\<rparr>) (Inr ()))"
  by (simp add: commitE_def run_rules split: sum.splits)

lemma set_state_waiting:
  assumes "waiting k family S s L c" and "fresh_ids env"
  shows "run (set_stateE env k state details error) c
    (\<lambda>c' r. waiting k family {state} s L c' \<and> r = Inr ())"
proof -
  have "be_ulid env c \<notin> ev_id ` set (st_events (ct_store c))" using assms(2) by (auto simp: fresh_ids_def)
  with assms(1) obtain s' where
    "update_execution_state (be_ulid env c) k state (be_now env c) details error (ct_store c) = Inr s'"
    "held k family {state} s s'"
    unfolding waiting_def using held_update by blast
  with assms(1) show ?thesis
    by (simp add: set_stateE_def run_commit waiting_def)
qed

text \<open>Steps that leave the execution where it is.\<close>

named_theorems waiting_rules

lemma waiting_read [waiting_rules]: "waiting k family S s L c \<Longrightarrow> run (readE f) c (\<lambda>c' _. waiting k family S s L c')"
  by (simp add: run_rules)

lemma waiting_lift [waiting_rules]: "waiting k family S s L c \<Longrightarrow> run (liftE r) c (\<lambda>c' _. waiting k family S s L c')"
  by (simp add: run_rules)

lemma waiting_ret [waiting_rules]: "waiting k family S s L c \<Longrightarrow> run (retE x) c (\<lambda>c' _. waiting k family S s L c')"
  by (simp add: run_rules)

lemma waiting_store [waiting_rules]: "waiting k family S s L c \<Longrightarrow> run (storeE f) c (\<lambda>c' _. waiting k family S s L c')"
  by (simp add: run_rules storeE_def)

lemma waiting_which [waiting_rules]: "waiting k family S s L c \<Longrightarrow> run (whichE env n) c (\<lambda>c' _. waiting k family S s L c')"
  by (simp add: run_rules whichE_def)

lemma waiting_write_file [waiting_rules]:
  "waiting k family S s L c \<Longrightarrow> run (write_file env path bytes) c (\<lambda>c' _. waiting k family S s L c')"
  by (simp add: run_rules write_file_def waiting_def)

lemma waiting_make_staging [waiting_rules]:
  "waiting k family S s L c \<Longrightarrow> run (make_staging env path) c (\<lambda>c' _. waiting k family S s L c')"
  by (simp add: run_rules make_staging_def waiting_def)

lemma waiting_input [waiting_rules]:
  "waiting k family S s L c \<Longrightarrow> run (submission_input f path) c (\<lambda>c' _. waiting k family S s L c')"
  by (simp add: run_rules submission_input_def)

lemma waiting_staging [waiting_rules]:
  assumes "waiting k family S s L c"
  shows "run (commitE env (\<lambda>_ now. set_staging_directory k path now)) c (\<lambda>c' _. waiting k family S s L c')"
  using assms by (auto simp: run_commit waiting_def split: sum.splits intro: held_staging)

lemma waiting_bind:
  assumes "run m c (\<lambda>c' _. waiting k family S s L c')"
    and "\<And>c' x. waiting k family S s L c' \<Longrightarrow> run (f x) c' (\<lambda>c' _. waiting k family S s L c')"
  shows "run (bindE m f) c (\<lambda>c' _. waiting k family S s L c')"
  using assms(1) by (rule run_step) (auto intro: assms(2))

lemma run_result:
  assumes "\<And>x c'. run (f x) c' (\<lambda>_ r. \<forall>y. r = Inr y \<longrightarrow> Q y)"
  shows "run (bindE m f) c (\<lambda>_ r. \<forall>y. r = Inr y \<longrightarrow> Q y)"
  by (rule run_step [where Q = "\<lambda>_ _. True", OF _ _ assms]) (simp_all add: run_def split: prod.splits)

definition idle_states :: "string set" where
  "idle_states = {''planned'', ''prepared''}"

section \<open>How a submission ends\<close>

text \<open>
  How the execution ends: the ledger has the entry, and only an accepted job is returned. The state
  \<open>prepared\<close> is left when the command could not be started; the service then marks it failed.
\<close>

definition ended :: "string \<Rightarrow> string \<Rightarrow> store \<Rightarrow> standing \<Rightarrow> store \<Rightarrow> (local_error, submission) res \<Rightarrow>
    bool" where
  "ended k family s v s' r \<longleftrightarrow>
     (case v of
        Accepted j \<Rightarrow> standing s' = (standing s)(k := Accepted j) \<and>
          r = Inr \<lparr>sb_family = family, sb_job = j, sb_execution = k\<rparr>
      | Uncertain \<Rightarrow> held k family {''submission_ambiguous''} s s' \<and> \<not> isOk r
      | Refused \<Rightarrow> held k family {''failed'', ''prepared'', ''planned''} s s' \<and> \<not> isOk r
      | _ \<Rightarrow> False)"

lemma save_job_held:
  assumes "held k family S s s'" and "get_scheduler_job k s = None" and "family \<in> {''slurm'', ''pbs'', ''lsf''}"
    and "(family, j_job_id j) \<notin> job_names s" and "j_execution j = k" and "j_family j = family"
  shows "save_scheduler_job j s' = Inr (s'\<lparr>st_jobs := st_jobs s @ [j]\<rparr>)"
proof -
  obtain a where a: "find_row at_id k (st_attempts s') = Some a" "at_backend a = family"
    using assms(1) by (rule held_attempt)
  have jobs: "st_jobs s' = st_jobs s" using assms(1) by (simp add: held_def)
  have "k \<notin> j_execution ` set (st_jobs s)" using assms(2) by (simp add: get_scheduler_job_def find_row_None)
  then have "insert_row j_execution ok j (st_jobs s') = Inr (st_jobs s @ [j])" if "ok j" for ok
    using that assms(5) by (auto simp: insert_row_def jobs)
  moreover have "(j_family j, j_job_id j) \<notin> (\<lambda>x. (j_family x, j_job_id x)) ` set (st_jobs s')"
    using assms(4,6) by (simp add: jobs job_names_def)
  ultimately show ?thesis
    using a assms(3,5,6) by (simp add: save_scheduler_job_def get_execution_def)
qed

lemma save_job_standing:
  assumes c: "waiting k family idle_states s x c" and "fresh_ids env"
    and new: "get_scheduler_job k s = None" and "family \<in> {''slurm'', ''pbs'', ''lsf''}"
    and "(family, j_job_id j) \<notin> job_names s" and j: "j_execution j = k" "j_family j = family"
  shows "run (bindE (commitE env (\<lambda>_ _. save_scheduler_job j)) (\<lambda>_.
      commitE env (\<lambda>i _. update_execution_state i k ''submitted'' now d None))) c
    (\<lambda>c' r. \<exists>s'. c' = c\<lparr>ct_store := s'\<rparr> \<and> r = Inr () \<and>
       standing s' = (standing s)(k := Accepted (j_job_id j)))"
proof -
  define c1 where "c1 = c\<lparr>ct_store := (ct_store c)\<lparr>st_jobs := st_jobs s @ [j]\<rparr>\<rparr>"
  have saved: "save_scheduler_job j (ct_store c) = Inr (ct_store c1)"
    using c save_job_held [of k family idle_states s "ct_store c" j] assms(3-7)
    by (simp add: waiting_def c1_def)
  have "held k family idle_states (s\<lparr>st_jobs := st_jobs s @ [j]\<rparr>) (ct_store c1)"
    using c by (simp add: waiting_def held_def c1_def)
  moreover have "be_ulid env c1 \<notin> ev_id ` set (st_events (ct_store c1))"
    using assms(2) by (auto simp: fresh_ids_def)
  ultimately obtain s2 where moved: "update_execution_state (be_ulid env c1) k ''submitted'' now
      d None (ct_store c1) = Inr s2"
    and h: "held k family {''submitted''} (s\<lparr>st_jobs := st_jobs s @ [j]\<rparr>) s2"
    using held_update by blast
  have "get_scheduler_job k s2 = Some j"
    using h new j by (simp add: held_def get_scheduler_job_def find_row_snoc)
  moreover have "get_scheduler_job k' s2 = get_scheduler_job k' s" if "k' \<noteq> k" for k'
    using h that j by (simp add: held_def get_scheduler_job_def find_row_snoc split: option.split)
  ultimately have "standing s2 = (standing s)(k := Accepted (j_job_id j))"
    using h by (auto simp: fun_eq_iff standing_def held_def cong: option.case_cong if_cong)
  then show ?thesis using saved [unfolded c1_def] moved [unfolded c1_def]
    by (auto simp: run_rules run_commit c1_def)
qed

lemma created_held:
  assumes "create_execution i a s = Inr s'" and "distinct (map at_id (st_attempts s))"
  shows "held (at_id a) (at_backend a) {at_state a} s s' \<and> at_backend a \<in> set backends"
proof -
  have rows: "st_attempts s' = st_attempts s @ [a]" "st_jobs s' = st_jobs s"
      "at_id a \<notin> at_id ` set (st_attempts s)" "at_backend a \<in> set backends"
    using assms(1) by (auto simp: create_execution_def bindR_Inr_iff insert_event_def insert_row_def
        mapR_Inr_iff split: if_splits)
  then have "find_row at_id (at_id a) (st_attempts s) = None" by (simp add: find_row_None)
  then have "find_row at_id (at_id a) (st_attempts s') = Some a" by (simp add: rows find_row_snoc)
  moreover have "find_row at_id k' (st_attempts s') = find_row at_id k' (st_attempts s)"
    if "k' \<noteq> at_id a" for k'
    using that by (auto simp: rows find_row_snoc split: option.split)
  ultimately show ?thesis using rows assms(2) by (simp add: held_def)
qed

lemma event_at:
  assumes "waiting k family S s L c" and "fresh_ids env"
  shows "run (commitE env (\<lambda>i _. record_execution_event i k state now details)) c
    (\<lambda>c' r. waiting k family S s L c' \<and> r = Inr ())"
proof -
  obtain a where "find_row at_id k (st_attempts (ct_store c)) = Some a" "k \<in> at_id ` set (st_attempts (ct_store c))"
    using assms(1) unfolding waiting_def by (elim conjE held_attempt) blast
  moreover have "be_ulid env c \<notin> ev_id ` set (st_events (ct_store c))"
    using assms(2) by (auto simp: fresh_ids_def)
  ultimately obtain rows where "record_execution_event (be_ulid env c) k state now details (ct_store c)
      = Inr ((ct_store c)\<lparr>st_events := rows\<rparr>)"
    by (simp add: record_execution_event_def get_execution_def insert_event_def insert_row_def new_event_def)
  with assms(1) show ?thesis by (simp add: run_commit waiting_def held_def)
qed

text \<open>The service's handler: whatever was raised, a refused execution ends as failed.\<close>

lemma refused_recorded:
  assumes "held k family {''failed'', ''prepared'', ''planned''} s (ct_store c)" and "fresh_ids env"
  shows "run (record_backend_failure env k e) c
    (\<lambda>c' r. outside c' = outside c \<and> held k family {''failed''} s (ct_store c') \<and> \<not> isOk r)"
proof -
  obtain a where a: "find_row at_id k (st_attempts (ct_store c)) = Some a"
      "at_state a \<in> {''failed'', ''prepared'', ''planned''}"
    using assms(1) by (rule held_attempt)
  show ?thesis
  proof (cases "at_state a = ''failed''")
    case True
    then have "held k family {''failed''} s (ct_store c)" using assms(1) a(1) by (simp add: held_def)
    with a(1) True show ?thesis
      by (simp add: record_backend_failure_def run_rules storeE_def get_execution_def settled_states_def)
  next
    case False
    then have unsettled: "at_state a \<notin> set settled_states" using a(2) by (auto simp: settled_states_def)
    have "waiting k family {''failed'', ''prepared'', ''planned''} s (outside c) c"
      using assms(1) by (simp add: waiting_def)
    note moved = set_state_waiting [OF this assms(2)]
    show ?thesis unfolding record_backend_failure_def storeE_def run_bind run_read
      using a(1) unsettled
      by (auto simp: get_execution_def run_raise waiting_def intro!: run_post [OF moved])
  qed
qed

lemma uncertain_kept:
  assumes "held k family {''submission_ambiguous''} s (ct_store c)"
  shows "run (record_backend_failure env k e) c (\<lambda>c' r. c' = c \<and> \<not> isOk r)"
proof -
  obtain a where "find_row at_id k (st_attempts (ct_store c)) = Some a" "at_state a = ''submission_ambiguous''"
    using assms by (auto elim: held_attempt)
  then show ?thesis
    by (simp add: record_backend_failure_def run_rules storeE_def get_execution_def settled_states_def)
qed

section \<open>The service over a backend\<close>

text \<open>One entry of the ledger, the verdict on what happened outside, and what the caller is told.\<close>

type_synonym verdicts = "string \<Rightarrow> store \<Rightarrow> outside_world \<Rightarrow> outside_world \<Rightarrow> standing \<Rightarrow> bool"

definition entered :: "verdicts \<Rightarrow> string \<Rightarrow> string \<Rightarrow> controller \<Rightarrow> controller \<Rightarrow>
    (local_error, execution_outcome) res \<Rightarrow> bool" where
  "entered verdicts k family c c' r \<longleftrightarrow>
     (\<exists>v. standing (ct_store c') = (standing (ct_store c))(k := v) \<and>
        verdicts k (ct_store c) (outside c) (outside c') v \<and>
        (case v of
           Accepted j \<Rightarrow> r = Inr (Submitted \<lparr>sb_family = family, sb_job = j, sb_execution = k\<rparr>)
         | _ \<Rightarrow> \<not> isOk r))"

definition stopped :: "verdicts \<Rightarrow> string \<Rightarrow> string \<Rightarrow> store \<Rightarrow> outside_world \<Rightarrow> controller \<Rightarrow>
    (local_error, submission) res \<Rightarrow> bool" where
  "stopped verdicts k family s x c' r \<longleftrightarrow>
     (\<exists>v. verdicts k s x (outside c') v \<and> ended k family s v (ct_store c') r)"

text \<open>What executing a plan does: nothing, or one new entry of the ledger.\<close>

definition refines :: "verdicts \<Rightarrow> string \<Rightarrow> controller \<Rightarrow> controller \<Rightarrow>
    (local_error, execution_outcome) res \<Rightarrow> bool" where
  "refines verdicts family c c' r \<longleftrightarrow>
     c' = c \<and> \<not> isOk r \<or> (\<exists>k. standing (ct_store c) k = Absent \<and> entered verdicts k family c c' r)"

text \<open>
  The contract between the service and a backend that submits: it works on an execution that waits
  idle, moves no other, and when it stops the store agrees with the verdict on what it has done
  outside. \<open>ready\<close> is what the world outside promises of an identity that is new.
\<close>

locale submission_backend =
  fixes env :: backend_env
    and family :: string
    and submission_step :: "attempt \<Rightarrow> plan \<Rightarrow> workload \<Rightarrow> inventory \<Rightarrow> submission local"
    and ready :: "string \<Rightarrow> store \<Rightarrow> outside_world \<Rightarrow> bool"
    and verdicts :: verdicts
  assumes step_stops: "fresh_ids env \<Longrightarrow> waiting (at_id a) family idle_states s x c \<Longrightarrow> at_backend a = family \<Longrightarrow>
      get_scheduler_job (at_id a) s = None \<Longrightarrow> family \<in> {''slurm'', ''pbs'', ''lsf''} \<Longrightarrow>
      ready (at_id a) s x \<Longrightarrow> pl_backend p = family \<Longrightarrow>
      run (submission_step a p w inventory) c (stopped verdicts (at_id a) family s x)"
begin

lemma stopped_entered:
  assumes "stopped verdicts k family (ct_store c) (outside c) c1 r" and fresh: "fresh_ids env"
  shows "case r of
      Inr y \<Rightarrow> entered verdicts k family c c1 (Inr (Submitted y))
    | Inl e \<Rightarrow> run (record_backend_failure env k e) c1 (entered verdicts k family c)"
proof -
  obtain v where v: "verdicts k (ct_store c) (outside c) (outside c1) v"
      "ended k family (ct_store c) v (ct_store c1) r"
    using assms(1) by (auto simp: stopped_def)
  show ?thesis
  proof (cases v)
    case Refused
    then have "held k family {''failed'', ''prepared'', ''planned''} (ct_store c) (ct_store c1)" "\<not> isOk r"
      using v(2) by (simp_all add: ended_def)
    then have "run (record_backend_failure env k e) c1 (entered verdicts k family c)" for e
      using v(1) Refused
      by (intro run_post [OF refused_recorded [OF _ fresh]])
        (auto simp: entered_def held_standing intro!: exI [of _ Refused])
    with \<open>\<not> isOk r\<close> show ?thesis by (cases r) auto
  next
    case Uncertain
    then have "held k family {''submission_ambiguous''} (ct_store c) (ct_store c1)" "\<not> isOk r"
      using v(2) by (simp_all add: ended_def)
    then have "run (record_backend_failure env k e) c1 (entered verdicts k family c)" for e
      using v(1) Uncertain
      by (intro run_post [OF uncertain_kept])
        (auto simp: entered_def held_standing intro!: exI [of _ Uncertain])
    with \<open>\<not> isOk r\<close> show ?thesis by (cases r) auto
  next
    case (Accepted j)
    with v show ?thesis by (auto simp: ended_def entered_def intro!: exI [of _ "Accepted j"])
  qed (use v(2) in \<open>simp_all add: ended_def\<close>)
qed

lemma backend_entered:
  assumes "fresh_ids env"
    and "waiting (at_id a) family idle_states (ct_store c) (outside c) c1" and "at_backend a = family"
    and "get_scheduler_job (at_id a) (ct_store c) = None" and "family \<in> {''slurm'', ''pbs'', ''lsf''}"
    and "ready (at_id a) (ct_store c) (outside c)" and "pl_backend p = family"
    and "backend a p w inventory = bindE (submission_step a p w inventory) (\<lambda>y. retE (Submitted y))"
  shows "run (catchE (backend a p w inventory) (record_backend_failure env (at_id a))) c1
    (entered verdicts (at_id a) family c)"
proof -
  have "run (submission_step a p w inventory) c1 (stopped verdicts (at_id a) family (ct_store c) (outside c))"
    using step_stops [OF assms(1-7)] .
  moreover have "run (record_backend_failure env (at_id a) e) c2 (entered verdicts (at_id a) family c)"
    if "stopped verdicts (at_id a) family (ct_store c) (outside c) c2 (Inl e)" for c2 e
    using stopped_entered [OF that assms(1)] by simp
  moreover have "entered verdicts (at_id a) family c c2 (Inr (Submitted y))"
    if "stopped verdicts (at_id a) family (ct_store c) (outside c) c2 (Inr y)" for c2 y
    using stopped_entered [OF that assms(1)] by simp
  ultimately show ?thesis
    unfolding assms(8) run_catch by (simp add: run_bind run_ret, elim run_post)
      (auto simp: run_ret split: sum.split)
qed

lemma plan_refines:
  assumes "store_ok (ct_store c)" and "get_plan plan_id (ct_store c) = Inr p" and fresh: "fresh_ids env"
    and family: "pl_backend p = family" and "family \<noteq> ''direct''"
    and opens: "\<And>c. run (backend_for_plan env site_kind remote p) c
      (\<lambda>c' r. ct_store c' = ct_store c \<and> outside c' = outside c \<and> r = Inr backend)"
    and backend: "\<And>a w. backend a p w inventory =
      bindE (submission_step a p w inventory) (\<lambda>y. retE (Submitted y))"
    and ready: "ready (be_ulid env c) (ct_store c) (outside c)"
  shows "run (execute_plan env site_kind remote plan_id inventory) c (refines verdicts family c)"
proof -
  let ?k = "be_ulid env c"
  let ?a = "new_attempt env ?k (be_now env c) p"
  have none: "refines verdicts family c c (Inl e)" for e by (simp add: refines_def)
  have new_id: "?k \<notin> at_id ` set (st_attempts (ct_store c))" using fresh by (auto simp: fresh_ids_def)
  then have absent: "standing (ct_store c) ?k = Absent" by (simp add: standing_def find_row_None [symmetric])
  have new: "get_scheduler_job ?k (ct_store c) = None"
    using new_id assms(1) unfolding get_scheduler_job_def find_row_None store_ok_def jobs_ok_def by force
  have attempt: "at_id ?a = ?k" "at_backend ?a = family" by (simp_all add: new_attempt_def family)
  have service: "run (bindE (commitE env (\<lambda>i _. record_execution_event i ?k ''identity_observed''
          (be_now env c) d)) (\<lambda>_.
      bindE (backend_for_plan env site_kind remote p) (\<lambda>backend.
      catchE (backend ?a p w inventory) (record_backend_failure env ?k)))) (c\<lparr>ct_store := s\<rparr>)
      (refines verdicts family c)"
    if "create_execution ?k ?a (ct_store c) = Inr s" for s d w
  proof -
    have created: "held ?k family {''planned''} (ct_store c) s" "family \<in> set backends"
      using created_held [OF that] assms(1) family by (simp_all add: new_attempt_def store_ok_def keys_ok_def)
    then have w1: "waiting ?k family idle_states (ct_store c) (outside c) (c\<lparr>ct_store := s\<rparr>)"
      by (auto simp: waiting_def idle_states_def elim!: held_mono)
    have families: "family \<in> {''slurm'', ''pbs'', ''lsf''}"
      using created(2) \<open>family \<noteq> ''direct''\<close> by (auto simp: backends_def)
    have entry: "run (catchE (backend ?a p w inventory) (record_backend_failure env ?k)) c2
        (refines verdicts family c)" if "waiting ?k family idle_states (ct_store c) (outside c) c2" for c2
    proof -
      have "run (catchE (backend ?a p w inventory) (record_backend_failure env (at_id ?a))) c2
          (entered verdicts (at_id ?a) family c)"
        by (rule backend_entered [where backend = backend]) (use attempt that new families ready family fresh backend in simp_all)
      then show ?thesis unfolding attempt(1)
        by (rule run_post) (use absent in \<open>auto simp: refines_def\<close>)
    qed
    have opened: "run (bindE (backend_for_plan env site_kind remote p) (\<lambda>backend.
        catchE (backend ?a p w inventory) (record_backend_failure env ?k))) c2 (refines verdicts family c)"
      if "waiting ?k family idle_states (ct_store c) (outside c) c2" for c2
      by (rule run_step [OF opens]) (use that entry in \<open>auto simp: waiting_def\<close>)
    show ?thesis
      by (rule run_step [OF event_at [OF w1 fresh]]) (auto intro: opened)
  qed
  show ?thesis
    unfolding execute_plan_def storeE_def
    using assms(2) none service
    by (simp add: run_bind run_read run_raise run_commit Let_def split: sum.split)
qed

end

lemma ambiguous_plan_stays:
  assumes "get_plan plan_id (ct_store c) = Inr p"
    and "map_option at_state (latest_execution_for_plan (pl_id p) (ct_store c)) = Some ''submission_ambiguous''"
  shows "run (execute_plan env site_kind remote plan_id inventory) c (\<lambda>c' r. c' = c \<and> \<not> isOk r)"
  unfolding execute_plan_def storeE_def using assms
  by (simp add: run_bind run_read run_raise split: sum.split)

end
