(* ===== verification/SubmissionProperties.thy ===== *)
theory SubmissionProperties
  imports SubmissionLedger
begin

text \<open>
  The scheduler of this machine as a backend of the service: what one command and its outcome do to
  the ledger of submissions. Executing a plan is one entry of the ledger, whose value is the outcome
  of the one command that was run.
\<close>

section \<open>The command and its outcome\<close>

text \<open>What the outcome of a submission command says; \<open>None\<close> when it could not be started.\<close>

definition verdict :: "string \<Rightarrow> cmd_result option \<Rightarrow> standing" where
  "verdict family outcome =
     (case outcome of
        None \<Rightarrow> Refused
      | Some r \<Rightarrow>
          if cr_timed_out r then Uncertain
          else if cr_returncode r \<noteq> Some 0 then Refused
          else (case parse_submission family (cr_stdout r) of
              Inr j \<Rightarrow> Accepted j | Inl (AmbiguousSubmission _) \<Rightarrow> Uncertain | Inl _ \<Rightarrow> Refused))"

text \<open>What a scheduler answers is not the name of a job that is recorded.\<close>

definition new_jobs :: "backend_env \<Rightarrow> string \<Rightarrow> store \<Rightarrow> bool" where
  "new_jobs env family s \<longleftrightarrow> (\<forall>c argv bytes r j. be_run env c argv bytes = Some r \<longrightarrow>
     parse_submission family (cr_stdout r) = Inr j \<longrightarrow> (family, j) \<notin> job_names s)"

lemma stage_execution_waiting:
  assumes "waiting (at_id a) family idle_states s L c" and "fresh_ids env"
  shows "run (stage_execution env f a p w inventory) c
    (\<lambda>c' r. waiting (at_id a) family idle_states s L c' \<and>
       (\<forall>path. r = Inr path \<longrightarrow> path = path_join (staging_directory env a) (script_name f)))"
proof -
  have prepared: "run (set_stateE env (at_id a) ''prepared'' d None) c'
      (\<lambda>c' _. waiting (at_id a) family idle_states s L c')"
    if "waiting (at_id a) family idle_states s L c'" for c' d
    using set_state_waiting [OF that assms(2)]
    by (rule run_post) (auto simp: idle_states_def elim!: waiting_mono)
  have "run (stage_execution env f a p w inventory) c (\<lambda>c' r. waiting (at_id a) family idle_states s L c')"
    unfolding stage_execution_def Let_def
    by (intro waiting_bind waiting_rules prepared assms(1))
  moreover have "run (stage_execution env f a p w inventory) c
      (\<lambda>c' r. \<forall>path. r = Inr path \<longrightarrow> path = path_join (staging_directory env a) (script_name f))"
    unfolding stage_execution_def Let_def by (intro run_result allI) (simp_all add: run_ret)
  ultimately show ?thesis by (rule run_conj)
qed

lemma refuse_ended:
  assumes "waiting k family S s L c" and "fresh_ids env"
  shows "run (refuse env k detail message) c (\<lambda>c' r. outside c' = L \<and> ended k family s Refused (ct_store c') r)"
  unfolding refuse_def
  by (rule run_step [OF set_state_waiting [OF assms]])
    (auto simp: run_rules waiting_def ended_def elim!: held_mono)

lemma uncertain_ended:
  assumes "waiting k family S s L c" and "fresh_ids env"
  shows "run (uncertain env k detail) c (\<lambda>c' r. outside c' = L \<and> ended k family s Uncertain (ct_store c') r)"
  unfolding uncertain_def
  by (rule run_step [OF set_state_waiting [OF assms]]) (auto simp: run_rules waiting_def ended_def)

lemma record_submission_ended:
  assumes c: "waiting (at_id a) family idle_states s L c" and "fresh_ids env"
    and new: "get_scheduler_job (at_id a) s = None" and "family \<in> {''slurm'', ''pbs'', ''lsf''}"
    and "(family, job_id) \<notin> job_names s"
  shows "run (record_submission env family a job_id) c
    (\<lambda>c' r. outside c' = L \<and> ended (at_id a) family s (Accepted job_id) (ct_store c') r)"
proof -
  define identity where "identity = (case at_identity a of
    Some u \<Rightarrow> if u = [] then username env else u | None \<Rightarrow> username env)"
  define j where "j = \<lparr>j_execution = at_id a, j_family = family, j_job_id = job_id, j_identity = identity,
    j_submitted_at = be_now env c, j_state = ''submitted'', j_observed_at = be_now env c\<rparr>"
  have "run (bindE (commitE env (\<lambda>_ _. save_scheduler_job j)) (\<lambda>_.
      commitE env (\<lambda>i _. update_execution_state i (at_id a) ''submitted'' (be_now env c)
        [(''scheduler_family'', JStr family), (''job_id'', JStr job_id)] None))) c
    (\<lambda>c' r. \<exists>s'. c' = c\<lparr>ct_store := s'\<rparr> \<and> r = Inr () \<and>
       standing s' = (standing s)(at_id a := Accepted (j_job_id j)))"
    by (rule save_job_standing [OF c assms(2) new assms(4)]) (use assms(5) in \<open>simp_all add: j_def\<close>)
  then have "run (bindE (commitE env (\<lambda>_ _. save_scheduler_job j)) (\<lambda>_.
      commitE env (\<lambda>i _. update_execution_state i (at_id a) ''submitted'' (be_now env c)
        [(''scheduler_family'', JStr family), (''job_id'', JStr job_id)] None))) c
    (\<lambda>c' r. r = Inr () \<and> outside c' = L \<and> standing (ct_store c') = (standing s)(at_id a := Accepted job_id))"
    using c by (elim run_post) (auto simp: waiting_def j_def)
  then show ?thesis
    unfolding record_submission_def Let_def identity_def [symmetric] j_def
    by (simp add: run_bind run_read) (elim run_post, auto simp: run_ret ended_def split: sum.splits elim!: run_post)
qed

text \<open>After the command has run, the entry of the ledger is its verdict.\<close>

lemma submission_outcome_ended:
  assumes c: "waiting (at_id a) family idle_states s L c" and "fresh_ids env"
    and "get_scheduler_job (at_id a) s = None" and "family \<in> {''slurm'', ''pbs'', ''lsf''}"
    and "\<And>j. parse_submission family (cr_stdout outcome) = Inr j \<Longrightarrow> (family, j) \<notin> job_names s"
  shows "run (submission_outcome env family a outcome) c
    (\<lambda>c' r. outside c' = L \<and> ended (at_id a) family s (verdict family (Some outcome)) (ct_store c') r)"
proof (cases "cr_timed_out outcome \<or> cr_returncode outcome \<noteq> Some 0")
  case True
  then show ?thesis
    using uncertain_ended [OF c assms(2)] refuse_ended [OF c assms(2)]
    by (auto simp: submission_outcome_def verdict_def)
next
  case False
  show ?thesis
  proof (cases "parse_submission family (cr_stdout outcome)")
    case (Inr j)
    then show ?thesis using False record_submission_ended [OF c assms(2,3,4) assms(5) [OF Inr]]
      by (simp add: submission_outcome_def verdict_def)
  next
    case (Inl e)
    with parse_submission_error [OF Inl] False
      uncertain_ended [OF c assms(2)] refuse_ended [OF c assms(2)]
    show ?thesis by (auto simp: submission_outcome_def verdict_def)
  qed
qed

text \<open>
  What a scheduler backend has done when it stops, from the log \<open>L\<close>: nothing that reached the
  scheduler, or one command whose verdict is on record.
\<close>

definition submits_script :: "backend_env \<Rightarrow> string \<Rightarrow> string \<Rightarrow> string list \<Rightarrow> bool" where
  "submits_script env k family argv \<longleftrightarrow> argv \<noteq> [] \<and> tl argv = submit_arguments family
     (path_str (path_join (path_join (be_root env) k) (script_name family)))"

definition one_command :: "backend_env \<Rightarrow> string \<Rightarrow> string \<Rightarrow> (string list \<times> string option) list \<Rightarrow>
    (string list \<times> string option) list \<Rightarrow> standing \<Rightarrow> bool" where
  "one_command env k family L L' v \<longleftrightarrow>
     L' = L \<and> v = Refused \<or>
     (\<exists>argv bytes c0. submits_script env k family argv \<and> ct_log c0 = L \<and> L' = L @ [(argv, bytes)] \<and>
        v = verdict family (be_run env c0 argv bytes))"

definition local_verdicts :: "backend_env \<Rightarrow> string \<Rightarrow> verdicts" where
  "local_verdicts env family k s x x' v \<longleftrightarrow>
     one_command env k family (fst x) (fst x') v \<and> snd x' = snd x"

abbreviation executed :: "backend_env \<Rightarrow> string \<Rightarrow> string \<Rightarrow> store \<Rightarrow> outside_world \<Rightarrow>
    controller \<Rightarrow> (local_error, submission) res \<Rightarrow> bool" where
  "executed env k family \<equiv> stopped (local_verdicts env family) k family"

lemma executed_idle:
  "waiting k family idle_states s L c \<Longrightarrow> executed env k family s L c (Inl e)"
  unfolding stopped_def
  by (rule exI [of _ Refused])
    (auto simp: local_verdicts_def one_command_def ended_def waiting_def idle_states_def elim!: held_mono)

lemma executed_refused:
  assumes "waiting k family S s L c" and "fresh_ids env"
  shows "run (refuse env k detail message) c (executed env k family s L)"
  by (rule run_post [OF refuse_ended [OF assms]])
    (auto simp: stopped_def local_verdicts_def one_command_def intro!: exI [of _ Refused])

lemma run_command_executed:
  assumes c: "waiting (at_id a) family idle_states s L c" and "fresh_ids env"
    and "get_scheduler_job (at_id a) s = None" and "family \<in> {''slurm'', ''pbs'', ''lsf''}"
    and "new_jobs env family s"
    and argv: "submits_script env (at_id a) family argv"
  shows "run (bindE (run_commandE env argv bytes) (submission_outcome env family a)) c
    (executed env (at_id a) family s L)"
proof -
  let ?c = "c\<lparr>ct_log := ct_log c @ [(argv, bytes)]\<rparr>" and ?L = "(fst L @ [(argv, bytes)], snd L)"
  have logged: "waiting (at_id a) family idle_states s ?L ?c"
    using c by (auto simp: waiting_def outside_def)
  have command: "local_verdicts env family (at_id a) s L (outside w) (verdict family (be_run env c argv bytes))"
    if "outside w = ?L" for w
  proof -
    have "ct_log c = fst L" using c by (auto simp: waiting_def outside_def)
    then have "one_command env (at_id a) family (fst L) (fst ?L) (verdict family (be_run env c argv bytes))"
      unfolding one_command_def using argv by (intro disjI2 exI [of _ argv] exI [of _ bytes] exI [of _ c]) simp
    then show ?thesis by (simp add: local_verdicts_def that)
  qed
  show ?thesis
  proof (cases "be_run env c argv bytes")
    case None
    then have "ended (at_id a) family s (verdict family (be_run env c argv bytes)) (ct_store ?c) (Inl e)" for e
      using c by (auto simp: ended_def verdict_def waiting_def idle_states_def elim!: held_mono)
    then have "executed env (at_id a) family s L ?c (Inl e)" for e
      using command logged unfolding stopped_def waiting_def by blast
    then show ?thesis using None by (simp add: run_commandE_def run_rules)
  next
    case (Some outcome)
    have "run (submission_outcome env family a outcome) ?c (executed env (at_id a) family s L)"
    proof (rule run_post [OF submission_outcome_ended [OF logged assms(2-4)]])
      show "(family, j) \<notin> job_names s" if "parse_submission family (cr_stdout outcome) = Inr j" for j
        using assms(5) Some that unfolding new_jobs_def by blast
      show "executed env (at_id a) family s L w' r"
        if "outside w' = ?L \<and> ended (at_id a) family s (verdict family (Some outcome)) (ct_store w') r"
        for w' r
        using command [of w'] that unfolding stopped_def Some by blast
    qed
    then show ?thesis using Some by (simp add: run_commandE_def run_rules)
  qed
qed

lemma scheduler_execute_executed:
  assumes c: "waiting (at_id a) family idle_states s L c" and "fresh_ids env"
    and "get_scheduler_job (at_id a) s = None" and "family \<in> {''slurm'', ''pbs'', ''lsf''}"
    and "new_jobs env family s"
  shows "run (scheduler_execute env family a p w inventory) c (executed env (at_id a) family s L)"
  unfolding scheduler_execute_def
proof (rule run_step [OF stage_execution_waiting [OF c assms(2)]]; (elim conjE)?)
  fix c1 e assume "waiting (at_id a) family idle_states s L c1"
  then show "executed env (at_id a) family s L c1 (Inl e)" by (rule executed_idle)
next
  fix c1 path
  assume c1: "waiting (at_id a) family idle_states s L c1"
    and "\<forall>y. Inr path = Inr y \<longrightarrow> y = path_join (staging_directory env a) (script_name family)"
  then have path: "path = path_join (path_join (be_root env) (at_id a)) (script_name family)"
    by (simp add: staging_directory_def)
  have command: "run (bindE (submission_input family path) (\<lambda>bytes.
      bindE (run_commandE env (executable # submit_arguments family (path_str path)) bytes)
        (submission_outcome env family a))) c1 (executed env (at_id a) family s L)" for executable
    using waiting_input [OF c1]
    unfolding path
    by (rule run_step) (auto simp: submits_script_def intro: executed_idle run_command_executed [OF _ assms(2-5)])
  show "run (bindE (whichE env (submit_command family)) (\<lambda>found. case found of
      None \<Rightarrow> refuse env (at_id a) (submit_command family @ '' executable is unavailable'')
         (submit_command family @ '' executable is unavailable'')
     | Some executable \<Rightarrow>
         bindE (submission_input family path) (\<lambda>bytes.
         bindE (run_commandE env (executable # submit_arguments family (path_str path)) bytes)
           (submission_outcome env family a)))) c1 (executed env (at_id a) family s L)"
    using executed_refused [OF c1 assms(2)] command
    by (simp add: whichE_def run_bind run_read split: option.split)
qed

section \<open>The service\<close>

definition runs_here :: "(string \<Rightarrow> string option) \<Rightarrow> plan \<Rightarrow> bool" where
  "runs_here site_kind p \<longleftrightarrow> (case pl_site_id p of None \<Rightarrow> True | Some site \<Rightarrow> site_kind site = Some ''local'')"

text \<open>The contract of a backend, met by the scheduler of this machine.\<close>

interpretation local_scheduler: submission_backend env family "scheduler_execute env family"
    "\<lambda>k s x. new_jobs env family s" "local_verdicts env family" for env family
  by unfold_locales (rule scheduler_execute_executed)

text \<open>
  C2. Executing a plan on this machine's scheduler refines one entry of a ledger. Where an execution
  stands is its row and its job; the call either changes nothing, or adds an execution that was not
  there, for which at most one command reached the scheduler: the submission of its own staged
  script. Its entry is the verdict of that command's outcome: accepted with the job that was named,
  refused, or uncertain when the command timed out or its output names no job; only an accepted job
  is returned. No other execution's entry changes, and when the latest execution of the plan is
  uncertain, nothing is run and nothing changes.
\<close>

theorem submission_refines_ledger:
  assumes "store_ok (ct_store c)" and "fresh_ids env" and "get_plan plan_id (ct_store c) = Inr p"
    and "pl_backend p \<noteq> ''direct''" and "runs_here site_kind p"
    and "new_jobs env (pl_backend p) (ct_store c)"
    and "execute_plan env site_kind remote plan_id inventory c = (t, c', r)"
  shows "(c' = c \<and> \<not> isOk r \<or>
      (\<exists>k v. standing (ct_store c) k = Absent \<and> standing (ct_store c') = (standing (ct_store c))(k := v) \<and>
         one_command env k (pl_backend p) (ct_log c) (ct_log c') v \<and>
         (case v of
            Accepted j \<Rightarrow> r = Inr (Submitted \<lparr>sb_family = pl_backend p, sb_job = j, sb_execution = k\<rparr>)
          | _ \<Rightarrow> \<not> isOk r))) \<and>
    (map_option at_state (latest_execution_for_plan (pl_id p) (ct_store c)) = Some ''submission_ambiguous''
       \<longrightarrow> c' = c \<and> \<not> isOk r)"
proof (intro conjI impI)
  let ?family = "pl_backend p"
  have opens: "run (backend_for_plan env site_kind remote p) c1
      (\<lambda>c2 r. ct_store c2 = ct_store c1 \<and> outside c2 = outside c1 \<and> r = Inr (backend_execute env ?family))" for c1
    using assms(5) by (auto simp: backend_for_plan_def runs_here_def run_ret split: option.splits)
  have "backend_execute env ?family a p w inventory =
      bindE (scheduler_execute env ?family a p w inventory) (\<lambda>y. retE (Submitted y))" for a w
    using assms(4) by (simp add: backend_execute_def)
  from local_scheduler.plan_refines [OF assms(1,3,2) refl assms(4) opens this assms(6)]
  have "refines (local_verdicts env ?family) ?family c c' r"
    using assms(7) unfolding run_def by (metis case_prod_conv)
  then show "c' = c \<and> \<not> isOk r \<or>
      (\<exists>k v. standing (ct_store c) k = Absent \<and> standing (ct_store c') = (standing (ct_store c))(k := v) \<and>
         one_command env k (pl_backend p) (ct_log c) (ct_log c') v \<and>
         (case v of
            Accepted j \<Rightarrow> r = Inr (Submitted \<lparr>sb_family = pl_backend p, sb_job = j, sb_execution = k\<rparr>)
          | _ \<Rightarrow> \<not> isOk r))"
    unfolding refines_def entered_def local_verdicts_def outside_def by auto
next
  assume "map_option at_state (latest_execution_for_plan (pl_id p) (ct_store c)) = Some ''submission_ambiguous''"
  note stays = ambiguous_plan_stays [OF assms(3) this, of env site_kind remote inventory]
  show "c' = c" "\<not> isOk r" using stays assms(7) unfolding run_def by (metis (mono_tags, lifting) case_prod_conv)+
qed

section \<open>A concrete controller\<close>

definition sample_controller :: controller where
  "sample_controller = \<lparr>ct_store = sample_store, ct_files = (\<lambda>_. None), ct_dirs = (\<lambda>_. False), ct_log = [],
     ct_time = 0, ct_remote = [],
     ct_hosts = (\<lambda>_. \<lparr>h_state = (\<lambda>_. None), h_blob = (\<lambda>_. None), h_dirs = (\<lambda>_. False), h_log = []\<rparr>),
     ct_session = None\<rparr>"

text \<open>A new identity: one that is longer than every identity in the store.\<close>

definition longer_id :: "controller \<Rightarrow> string" where
  "longer_id c = ''0'' @ concat (map ev_id (st_events (ct_store c)) @ map at_id (st_attempts (ct_store c)))"

definition sample_backend :: backend_env where
  "sample_backend = \<lparr>be_root = path_of ''/staging'', be_which = (\<lambda>_ n. Some n),
     be_run = (\<lambda>_ argv _. Some \<lparr>cr_argv = argv, cr_returncode = Some 0, cr_stdout = ''42'',
       cr_stderr = [], cr_timed_out = False, cr_truncated = False\<rparr>),
     be_query = (\<lambda>_ _. None), be_sleep = (\<lambda>d c. c\<lparr>ct_time := ct_time c + d\<rparr>), be_now = (\<lambda>_. ''t''),
     be_ulid = longer_id, be_disk = (\<lambda>_. True), be_user = Other (Some ''me''), be_worker = [],
     be_loads = (\<lambda>_. None), be_float = (\<lambda>_. []), be_seconds = (\<lambda>_ _. None), be_text = (\<lambda>_. []),
     be_type = (\<lambda>_. []), be_node = undefined, be_direct = undefined\<rparr>"

lemma length_concat_member: "x \<in> set xs \<Longrightarrow> length x \<le> length (concat xs)"
  by (induction xs) auto

lemma longer_id_fresh: "longer_id c \<notin> ev_id ` set (st_events (ct_store c)) \<union> at_id ` set (st_attempts (ct_store c))"
proof
  let ?ids = "map ev_id (st_events (ct_store c)) @ map at_id (st_attempts (ct_store c))"
  assume "longer_id c \<in> ev_id ` set (st_events (ct_store c)) \<union> at_id ` set (st_attempts (ct_store c))"
  then have "longer_id c \<in> set ?ids" by simp
  from length_concat_member [OF this] show False by (simp add: longer_id_def)
qed

lemma sample_fresh: "fresh_ids sample_backend"
  using longer_id_fresh by (simp add: fresh_ids_def sample_backend_def)

theorem submission_refines_ledger_witness:
  "case execute_plan sample_backend (\<lambda>_. None) (raiseE LOther) ''p''
      \<lparr>i_id = ''i'', i_targets = [], i_schedulers = [], i_contexts = [], i_capabilities = []\<rparr>
      sample_controller of
    (_, c', r) \<Rightarrow> (c' = sample_controller \<and> \<not> isOk r \<or>
      (\<exists>k v. standing (ct_store sample_controller) k = Absent \<and>
         standing (ct_store c') = (standing (ct_store sample_controller))(k := v) \<and>
         one_command sample_backend k ''slurm'' [] (ct_log c') v \<and>
         (case v of
            Accepted j \<Rightarrow> r = Inr (Submitted \<lparr>sb_family = ''slurm'', sb_job = j, sb_execution = k\<rparr>)
          | _ \<Rightarrow> \<not> isOk r)))"
proof -
  have plan: "get_plan ''p'' (ct_store sample_controller) = Inr sample_plan"
    by (simp add: sample_controller_def sample_store_def empty_store_def get_plan_def find_row_def sample_plan_def)
  have ok: "store_ok (ct_store sample_controller)" using sample_store_ok by (simp add: sample_controller_def)
  have backend: "pl_backend sample_plan = ''slurm''" and log: "ct_log sample_controller = []"
    by (simp_all add: sample_plan_def sample_controller_def)
  have jobs: "new_jobs sample_backend (pl_backend sample_plan) (ct_store sample_controller)"
    by (simp add: new_jobs_def job_names_def sample_controller_def sample_store_def empty_store_def)
  have here: "runs_here (\<lambda>_. None) sample_plan" by (simp add: runs_here_def sample_plan_def)
  obtain t c' r where e: "execute_plan sample_backend (\<lambda>_. None) (raiseE LOther) ''p''
      \<lparr>i_id = ''i'', i_targets = [], i_schedulers = [], i_contexts = [], i_capabilities = []\<rparr>
      sample_controller = (t, c', r)"
    by (metis prod_cases3)
  have "pl_backend sample_plan \<noteq> ''direct''" by (simp add: backend)
  from submission_refines_ledger [OF ok sample_fresh plan this here jobs e, unfolded backend log]
  show ?thesis unfolding e prod.case by (rule conjunct1)
qed

end
