(* ===== verification/CollectionProperties.thy ===== *)
theory CollectionProperties
  imports SubmissionProperties ComputeWorkerProperties OutcomeProperties
begin

text \<open>
  How a controller takes a result: what is imported was planned and is what the captured evidence
  says, an honest compute worker's result passes every check, and waiting ends.
\<close>

section \<open>Values that equal themselves\<close>

text \<open>In Python a document equals itself unless it holds a value that is not a number.\<close>

lemma py_eq_array: "(\<And>v. v \<in> set xs \<Longrightarrow> py_eq v v) \<Longrightarrow> py_eq (JArr xs) (JArr xs)"
  by (auto simp: set_zip)

lemma py_eq_object:
  assumes "distinct (map fst d)" and "\<And>k v. (k, v) \<in> set d \<Longrightarrow> py_eq v v"
  shows "py_eq (JObj d) (JObj d)"
  using assms by (auto simp: map_of_is_SomeI)

definition plain :: "json dict \<Rightarrow> bool" where
  "plain d \<longleftrightarrow> distinct (map fst d) \<and> (\<forall>(k, v) \<in> set d. py_eq v v)"

lemma plain_object: "plain d \<Longrightarrow> py_eq (JObj d) (JObj d)"
  by (rule py_eq_object) (auto simp: plain_def)

lemma plain_set:
  assumes "plain d" and "py_eq v v"
  shows "plain (dict_set k v d)"
proof -
  have keys: "set (map fst (dict_set k v d)) = insert k (set (map fst d))" for d
    using dict_keys_set [of k v d] by (simp add: set_map [symmetric] del: set_map)
  have "distinct (map fst (dict_set k v d))" if "distinct (map fst d)"
    using that
  proof (induction d)
    case (Cons p d)
    with keys [of d] show ?case by (cases p) (auto simp: image_iff)
  qed simp
  moreover have "\<forall>(k', w) \<in> set (dict_set k v d). py_eq w w" if "\<forall>(k', w) \<in> set d. py_eq w w"
    using that assms(2) by (induction d) (auto split: if_splits)
  ultimately show ?thesis using assms(1) by (simp add: plain_def)
qed

lemma plain_set_count:
  "plain d \<Longrightarrow> plain (dict_set k (JInt i) d)"
  "plain d \<Longrightarrow> plain (dict_set k (JArr (map JInt xs)) d)"
  by (auto intro!: plain_set py_eq_array simp del: py_eq.simps(3))

lemma observed_counts_plain:
  assumes "observe_allocation node k direct = Inr a"
  shows "plain (al_resources a)"
proof -
  have empty: "plain []" by (simp add: plain_def)
  have count: "plain (set_count raw n d)" if "plain d" for raw n d
    using that by (simp add: set_count_def plain_set_count split: option.split)
  have "plain (scheduler_counts raw)" for raw by (simp add: scheduler_counts_def count empty)
  moreover have "plain (slurm_layout_counts raw d)" if "plain d" for raw d
    using that by (simp add: slurm_layout_counts_def plain_set_count Let_def split: option.split)
  moreover have "plain (local_counts raw d)" if "plain d" for raw d
    using that by (simp add: local_counts_def plain_set_count Let_def split: option.split)
  moreover have "plain (lsf_counts raw d)" if "plain d" for raw d
    using that by (simp add: lsf_counts_def plain_set_count Let_def split: option.split list.split)
  moreover have gpus: "plain (gpu_entry g d)" if "plain d" for g d
    using that by (simp add: gpu_entry_def plain_set_count split: option.split)
  moreover have "plain (direct_counts node d)" if "plain d" for d
    using that by (simp add: direct_counts_def gpus plain_set_count split: option.split)
  ultimately show ?thesis
    using assms by (auto simp: observe_allocation_def Let_def bindR_Inr_iff split: prod.splits if_splits)
qed


section \<open>Outcomes are independent of their identities\<close>

lemma mapM_related:
  assumes "mapM f xs = Inr ys" and "\<And>x y. x \<in> set xs \<Longrightarrow> f x = Inr y \<Longrightarrow> \<exists>z. g x = Inr z \<and> P y z"
  shows "\<exists>zs. mapM g xs = Inr zs \<and> list_all2 P ys zs"
  using assms
proof (induction xs arbitrary: ys)
  case (Cons x xs)
  from Cons.prems(1) obtain y ys' where y: "f x = Inr y" "mapM f xs = Inr ys'" "ys = y # ys'"
    by (auto simp: bindR_Inr_iff mapR_Inr_iff)
  obtain z where z: "g x = Inr z" "P y z" using Cons.prems(2) [of x y] y(1) by auto
  moreover obtain zs where "mapM g xs = Inr zs" "list_all2 P ys' zs"
    using Cons.IH [OF y(2)] Cons.prems(2) by auto
  ultimately show ?case using y(3) by simp
qed simp

definition same_verdict :: "check_result \<Rightarrow> check_result \<Rightarrow> bool" where
  "same_verdict x y \<longleftrightarrow> check_semantics x = check_semantics y \<and> cx_state x = cx_state y"

lemma evaluate_check_any_id:
  assumes "evaluate_check i j n c found = Inr x" and "i' \<noteq> []" and "j' \<noteq> []"
  shows "\<exists>y. evaluate_check i' j' n c found = Inr y \<and> same_verdict x y \<and> cx_run_id y = j'"
  using assms by (auto simp: evaluate_check_def bindR_Inr_iff VerificationCheckResult_def Let_def
      same_verdict_def check_semantics_def split: if_splits)

lemma evaluate_verification_any_id:
  assumes "evaluate_verification ids q k e artifacts = Inr v" and "\<And>i. ids' i \<noteq> []"
  shows "\<exists>v'. evaluate_verification ids' q k e artifacts = Inr v' \<and>
    verification_semantics v' = verification_semantics v \<and> vr_aggregate v' = vr_aggregate v"
proof -
  let ?f = "\<lambda>ids (i, c). evaluate_check (ids (i + 1)) (ids 0) i c (first_output artifacts (ck_path c))"
  let ?items = "zip [0..<length (rq_checks q)] (rq_checks q)"
  obtain xs where xs: "mapM (?f ids) ?items = Inr xs"
    and v: "VerificationRun \<lparr>vr_id = ids 0, vr_request_id = rq_id q, vr_execution_id = k,
        vr_experiment_id = ex_id e, vr_aggregate = aggregate_state (map cx_state xs),
        vr_evaluated_at = ex_ended_at e, vr_source = ''captured_output_artifact_records'',
        vr_checks = xs\<rparr> = Inr v"
    using assms(1) unfolding evaluate_verification_def by (auto simp: bindR_Inr_iff)
  have "\<exists>ys. mapM (?f ids') ?items = Inr ys \<and>
      list_all2 (\<lambda>x y. same_verdict x y \<and> cx_run_id y = ids' 0) xs ys"
    using xs by (rule mapM_related) (auto dest: evaluate_check_any_id [OF _ assms(2) assms(2)])
  then obtain ys where ys: "mapM (?f ids') ?items = Inr ys"
    and same: "list_all2 (\<lambda>x y. same_verdict x y \<and> cx_run_id y = ids' 0) xs ys" by blast
  have states: "map cx_state ys = map cx_state xs" "map check_semantics ys = map check_semantics xs"
      "\<not> list_ex (\<lambda>c. cx_run_id c \<noteq> ids' 0) ys"
    using same by (induction rule: list_all2_induct) (auto simp: same_verdict_def)
  let ?v' = "\<lparr>vr_id = ids' 0, vr_request_id = rq_id q, vr_execution_id = k,
        vr_experiment_id = ex_id e, vr_aggregate = aggregate_state (map cx_state ys),
        vr_evaluated_at = ex_ended_at e, vr_source = ''captured_output_artifact_records'',
        vr_checks = ys\<rparr>"
  have "VerificationRun ?v' = Inr ?v'"
    using states v by (auto simp: VerificationRun_def split: if_splits)
  moreover have "v = \<lparr>vr_id = ids 0, vr_request_id = rq_id q, vr_execution_id = k,
        vr_experiment_id = ex_id e, vr_aggregate = aggregate_state (map cx_state xs),
        vr_evaluated_at = ex_ended_at e, vr_source = ''captured_output_artifact_records'',
        vr_checks = xs\<rparr>"
    using v by (auto simp: VerificationRun_def split: if_splits)
  ultimately show ?thesis
    using ys states(1,2) by (auto simp: evaluate_verification_def verification_semantics_def)
qed

lemma build_telemetry_any_id:
  assumes "build_telemetry_summary i q p k e artifacts a wait = Inr t"
  shows "\<exists>t'. build_telemetry_summary i' q p k e artifacts a wait = Inr t' \<and>
    telemetry_semantics t' = telemetry_semantics t"
proof (cases "rq_telemetry_mode q = ''off''")
  case True
  with assms show ?thesis by (simp add: build_telemetry_summary_def)
next
  case False
  have "\<exists>s. t = Some s \<and> ExecutionTelemetrySummary s = Inr s \<and>
      (\<forall>j. build_telemetry_summary j q p k e artifacts a wait
        = mapR Some (ExecutionTelemetrySummary (s\<lparr>tm_id := j\<rparr>)))"
    using assms
    by (simp only: build_telemetry_summary_def False if_False Let_def mapR_Inr_iff)
      (elim exE conjE, frule ExecutionTelemetrySummary_same,
        intro exI conjI allI, assumption, simp only:, simp only: telemetry.update_convs)
  then obtain s where s: "t = Some s" "ExecutionTelemetrySummary s = Inr s"
    and i: "\<And>j. build_telemetry_summary j q p k e artifacts a wait
      = mapR Some (ExecutionTelemetrySummary (s\<lparr>tm_id := j\<rparr>))" by blast
  have "ExecutionTelemetrySummary (s\<lparr>tm_id := i'\<rparr>) = Inr (s\<lparr>tm_id := i'\<rparr>)"
    using s(2) by (simp add: ExecutionTelemetrySummary_def bindR_Inr_iff split: if_splits)
  moreover have "telemetry_semantics (Some (s\<lparr>tm_id := i'\<rparr>)) = telemetry_semantics (Some s)"
    by (simp add: telemetry_semantics_def telemetry_to_dict_def)
  ultimately show ?thesis by (simp add: i s(1))
qed


section \<open>An honest result passes the controller's checks\<close>

lemma py_eq_optional [simp]:
  "py_eq (opt_int i) (opt_int i)" "py_eq (opt_json JStr x) (opt_json JStr x)"
  by (cases i; simp add: opt_int_def) (cases x; simp)

lemma evaluate_check_plain:
  assumes "evaluate_check i j n c found = Inr x"
  shows "py_eq (check_semantics x) (check_semantics x)"
proof -
  have "plain (cx_evidence x)"
  proof (cases found)
    case None
    then show ?thesis using assms
      by (auto simp: evaluate_check_def Let_def VerificationCheckResult_def plain_def split: if_splits)
  next
    case (Some a)
    then obtain state added where added: "check_state c a = Inr (state, added)"
      and x: "cx_evidence x = [(''evidence_source'', JStr ''captured_output_artifact_record''),
          (''declared_output_path'', JStr (ck_path c)), (''artifact_id'', JStr (ar_id a)),
          (''existence_state'', JStr (ar_existence a)), (''capture_status'', JStr (ar_capture a)),
          (''size_bytes'', opt_int (ar_size_bytes a)), (''sha256'', opt_json JStr (ar_sha256 a))] @ added"
      using assms by (auto simp: evaluate_check_def Let_def VerificationCheckResult_def bindR_Inr_iff
          mapR_Inr_iff split: if_splits)
    have "map fst added \<in> {[], [''reason''], [''expected_min_bytes'', ''reason''], [''expected_min_bytes''],
        [''expected_sha256'', ''reason''], [''expected_sha256'']}"
      and "\<forall>(k, v) \<in> set added. py_eq v v"
      using added by (auto simp: check_state_def Let_def split: if_splits option.splits)
    then show ?thesis by (auto simp: plain_def x)
  qed
  then show ?thesis
    unfolding check_semantics_def by (intro py_eq_object) (auto dest: plain_object)
qed

lemma verification_plain:
  assumes "evaluate_verification ids q k e artifacts = Inr v"
  shows "py_eq (verification_semantics v) (verification_semantics v)"
proof -
  have "py_eq (check_semantics x) (check_semantics x)" if "x \<in> set (vr_checks v)" for x
    using assms that unfolding evaluate_verification_def
    by (auto simp: bindR_Inr_iff VerificationRun_def split: if_splits dest!: mapM_Inr_set intro: evaluate_check_plain)
  then have "py_eq (JArr (map check_semantics (vr_checks v))) (JArr (map check_semantics (vr_checks v)))"
    by (intro py_eq_array) auto
  then show ?thesis unfolding verification_semantics_def by (intro py_eq_object) auto
qed

lemma finite_duration_plain: "finite_duration v \<Longrightarrow> py_eq v v"
  by (cases v) (auto simp: finite_duration_def split: py_float.splits)

lemma telemetry_plain:
  assumes "build_telemetry_summary i q p k e artifacts (Some a) JNull = Inr t"
    and "finite_duration (ex_duration e)" and "plain (al_resources a)"
  shows "py_eq (telemetry_semantics t) (telemetry_semantics t)"
proof (cases t)
  case None
  then show ?thesis by (simp add: telemetry_semantics_def)
next
  case (Some s)
  then have "rq_telemetry_mode q \<noteq> ''off''"
    using assms(1) by (auto simp: build_telemetry_summary_def split: if_splits)
  with assms(1) Some have s: "tm_wall_seconds s = ex_duration e \<and> (\<exists>n. tm_stdout_bytes s = JInt n) \<and>
      (\<exists>n. tm_stderr_bytes s = JInt n) \<and> (\<exists>n. tm_input_bytes s = opt_int n) \<and>
      (\<exists>n. tm_output_bytes s = opt_int n) \<and> tm_wait_seconds s = JNull \<and>
      tm_requested s = requested_dict (pl_resources p) \<and> tm_allocated s = Some (al_resources a)"
    by (simp only: build_telemetry_summary_def if_False Let_def mapR_Inr_iff option.inject)
      (elim exE conjE, drule ExecutionTelemetrySummary_same, simp, blast)
  have "plain (requested_dict (pl_resources p))"
    by (simp add: plain_def requested_dict_def)
  then have parts: "py_eq (tm_wall_seconds s) (tm_wall_seconds s)" "py_eq (tm_stdout_bytes s) (tm_stdout_bytes s)"
      "py_eq (tm_stderr_bytes s) (tm_stderr_bytes s)" "py_eq (tm_input_bytes s) (tm_input_bytes s)"
      "py_eq (tm_output_bytes s) (tm_output_bytes s)" "py_eq (tm_wait_seconds s) (tm_wait_seconds s)"
      "py_eq (JObj (tm_requested s)) (JObj (tm_requested s))"
      "py_eq (opt_json JObj (tm_allocated s)) (opt_json JObj (tm_allocated s))"
    using s finite_duration_plain [OF assms(2)] plain_object [OF assms(3)] plain_object
    by (auto simp del: py_eq.simps(4))
  have texts: "py_eq (JArr (map JStr xs)) (JArr (map JStr xs))" for xs by (rule py_eq_array) auto
  have "list_all (\<lambda>(n, v). py_eq v v) (telemetry_to_dict s)"
    by (simp add: telemetry_to_dict_def parts texts del: py_eq.simps(3,4))
  then have "\<forall>(n, v) \<in> set (telemetry_to_dict s). py_eq v v" by (simp add: list_all_iff)
  then show ?thesis unfolding Some telemetry_semantics_def option.case
    by (intro py_eq_object, simp add: telemetry_to_dict_def) auto
qed

lemma planned_argv: "planned_execution_argv p = execution_argv p"
proof -
  have "mount_argument = (\<lambda>m. [''--bind'', m_source m @ '':'' @ m_destination m
      @ (if m_read_only m then '':ro'' else [])])" by (simp add: fun_eq_iff mount_argument_def)
  then show ?thesis by (simp add: planned_execution_argv_def execution_argv_def split: option.split)
qed


lemma honest_run_checked:
  assumes "execute_run node nr k p w (Some q) allocation checked environ = Inr r" and "faithful_run nr"
    and "plain (al_resources allocation)"
    and "ru_cwd nr (pl_working_directory p) = pl_working_directory p"
    and "get_execution k (ct_store c) = Inr a" and "get_plan (at_plan a) (ct_store c) = Inr p"
    and "be_ulid env c \<noteq> []"
  shows "validate_result_against_plan r p = Inr () \<and> check_request env r (Some q) c = ([], c, Inr ())"
  using assms(1)
proof (rule execute_run_Inr, goal_cases)
  case (1 e captured capture inputs outputs i ids v j t)
  have "ex_command e # ex_arguments e = execution_argv p"
      "ex_working_directory e = pl_working_directory p" "finite_duration (ex_duration e)"
    using 1(1) assms(2,4) by (auto simp: run_experiment_def faithful_run_def Let_def split: if_splits)
  moreover obtain v' where v': "evaluate_verification (\<lambda>_. be_ulid env c) q k e (inputs @ outputs) = Inr v'"
      "verification_semantics v' = verification_semantics v"
    using evaluate_verification_any_id [OF 1(7), of "\<lambda>_. be_ulid env c"] assms(7) by auto
  moreover obtain t' where t': "build_telemetry_summary (be_ulid env c) q p k e (inputs @ outputs)
      (Some allocation) JNull = Inr t'" "telemetry_semantics t' = telemetry_semantics (wr_telemetry r)"
    using build_telemetry_any_id [OF 1(6)] by blast
  ultimately show ?case
    using 1 assms(3,5,6) verification_plain [OF 1(7)] telemetry_plain [OF 1(6)]
    by (simp add: validate_result_against_plan_def planned_argv check_request_def validate_request_outcomes_def
        version_number_def storeE_def eff_defs) (metis list.sel(1,3))
qed

text \<open>The result a compute worker makes for a request passes the checks of the controller.\<close>

lemma honest_result_checked:
  assumes "worker_execute_plan node nr p w k (Some q) = Inr r" and "faithful_run nr"
    and "ru_cwd nr (pl_working_directory p) = pl_working_directory p"
    and "get_execution k (ct_store c) = Inr a" and "get_plan (at_plan a) (ct_store c) = Inr p"
    and "be_ulid env c \<noteq> []"
  shows "validate_result_against_plan r p = Inr () \<and> check_request env r (Some q) c = ([], c, Inr ())"
proof (rule worker_execute_plan_cases [OF assms(1)])
  fix allocation problems checked environ
  assume a: "observe_allocation node k (pl_backend p = ''direct'') = Inr allocation"
    and cases: "problems \<noteq> [] \<and> preflight_failure node k p (Some q) allocation problems checked = Inr r \<or>
     problems = [] \<and> execute_run node nr k p w (Some q) allocation checked environ = Inr r"
  have "validate_result_against_plan r p = Inr () \<and> check_request env r (Some q) c = ([], c, Inr ())"
    if "preflight_failure node k p (Some q) allocation problems checked = Inr r"
  proof -
    have "wr_experiment r = None \<and> wr_request r = Some (rq_id q) \<and> wr_version r = JInt 3"
      using that by (auto simp: preflight_failure_def Let_def bindR_Inr_iff)
    then show ?thesis
      by (simp add: validate_result_against_plan_def check_request_def validate_request_outcomes_def
          version_number_def eff_defs)
  qed
  with cases honest_run_checked [OF _ assms(2) observed_counts_plain [OF a] assms(3-6)] show ?thesis by blast
qed


section \<open>Importing\<close>

text \<open>The outcome tables are the only ones the outcomes of a result are written to.\<close>

lemma insert_telemetry_stores:
  assumes "insert_telemetry t s = Inr s'"
  shows "st_results s' = st_results s" "st_plans s' = st_plans s" "st_attempts s' = st_attempts s"
    "st_verifications s' = st_verifications s"
  using assms by (auto simp: insert_telemetry_def mapR_Inr_iff split: if_splits)

lemma insert_verification_stores:
  assumes "insert_verification v s = Inr s'"
  shows "st_results s' = st_results s" "st_plans s' = st_plans s" "st_attempts s' = st_attempts s"
    "st_verifications s' = st_verifications s @ [v]"
  using assms unfolding insert_verification_def if_distribR
  by (simp_all only: split: if_splits) (auto simp: mapR_Inr_iff insert_row_Inr)

lemma insert_outcomes_stores:
  assumes "insert_outcomes k x t v s = Inr s'"
  shows "st_results s' = st_results s \<and> st_plans s' = st_plans s \<and> st_attempts s' = st_attempts s \<and>
    st_verifications s' = st_verifications s @ (case v of None \<Rightarrow> [] | Some v \<Rightarrow> [v])"
proof (cases "t = None \<and> v = None")
  case True
  with assms show ?thesis by (simp add: insert_outcomes_def)
next
  case False
  obtain q where q: "linked_request k s = Some q"
    using assms False by (cases "linked_request k s") (simp_all add: insert_outcomes_def)
  obtain s1 where
    1: "(case t of None \<Rightarrow> Inr s
        | Some t \<Rightarrow> if tm_request_id t \<noteq> q \<or> tm_execution_id t \<noteq> k \<or> tm_experiment_id t \<noteq> x
            then Inl (StoreValueError ''telemetry relationships do not match the imported result'')
            else insert_telemetry t s) = Inr s1"
    and 2: "(case v of None \<Rightarrow> Inr s1
        | Some v \<Rightarrow> if vr_request_id v \<noteq> q \<or> vr_execution_id v \<noteq> k \<or> vr_experiment_id v \<noteq> x
            then Inl (StoreValueError ''verification relationships do not match the imported result'')
            else insert_verification v s1) = Inr s'"
    using assms unfolding insert_outcomes_def q option.case if_not_P [OF False] bindR_Inr_iff by blast
  have "st_results s1 = st_results s \<and> st_plans s1 = st_plans s \<and> st_attempts s1 = st_attempts s \<and>
      st_verifications s1 = st_verifications s"
    using 1 insert_telemetry_stores by (cases t) (simp_all split: if_splits)
  then show ?thesis
    using 2 insert_verification_stores by (cases v) (simp_all split: if_splits)
qed

lemma import_experiment_result_stores:
  assumes "import_experiment_result i k e artifacts edges al state now details t v x n s = Inr s'"
  shows "st_results s' = st_results s @ [(k, ex_id e)] \<and> st_plans s' = st_plans s \<and>
    st_attempts s' = map (\<lambda>a. if at_id a = k then set_state state now None a else a) (st_attempts s) \<and>
    st_verifications s' = st_verifications s @ (case v of None \<Rightarrow> [] | Some v \<Rightarrow> [v])"
proof -
  obtain s1 s2 s3 s4 s5 where 1: "insert_experiment_record e artifacts edges s = Inr s1"
    and 2: "insert_result k (ex_id e) s1 = Inr s2" and 3: "import_allocation k al s2 = Inr s3"
    and 4: "insert_outcomes k (ex_id e) t v s3 = Inr s4"
    and 5: "insert_runtime_evidence k (Some (ex_id e)) x n s4 = Inr s5"
    and 6: "finish_execution i k state now details None s5 = Inr s'"
    using assms unfolding import_experiment_result_def bindR_Inr_iff by blast
  have "st_results s1 = st_results s \<and> st_plans s1 = st_plans s \<and> st_attempts s1 = st_attempts s \<and> st_verifications s1 = st_verifications s"
    using 1 by (auto simp: insert_experiment_record_def bindR_Inr_iff split: if_splits)
  moreover have "st_results s2 = st_results s1 @ [(k, ex_id e)] \<and> st_attempts s2 = st_attempts s1 \<and>
      st_plans s2 = st_plans s1 \<and> st_verifications s2 = st_verifications s1"
    using 2 by (auto simp: insert_result_def mapR_Inr_iff insert_row_Inr)
  moreover have "st_results s3 = st_results s2 \<and> st_attempts s3 = st_attempts s2 \<and>
      st_plans s3 = st_plans s2 \<and> st_verifications s3 = st_verifications s2"
    using 3 by (auto simp: import_allocation_def insert_allocation_def mapR_Inr_iff split: option.splits if_splits)
  moreover have "st_results s5 = st_results s4 \<and> st_attempts s5 = st_attempts s4 \<and>
      st_plans s5 = st_plans s4 \<and> st_verifications s5 = st_verifications s4"
    using 5 by (auto simp: insert_runtime_evidence_def mapR_Inr_iff split: option.splits if_splits)
  ultimately show ?thesis
    using 6 insert_outcomes_stores [OF 4] by (auto simp: finish_execution_def insert_event_def mapR_Inr_iff)
qed

text \<open>What the checks of the controller establish of a result with a request.\<close>

definition outcomes_match :: "string \<Rightarrow> request \<Rightarrow> worker_result \<Rightarrow> experiment_record \<Rightarrow> bool" where
  "outcomes_match new_id q r e \<longleftrightarrow> (\<exists>v expected. wr_verification r = Some v \<and>
     evaluate_verification (\<lambda>_. new_id) q (wr_execution r) e (wr_artifacts r) = Inr expected \<and>
     vr_aggregate v = vr_aggregate expected \<and> map cx_state (vr_checks v) = map cx_state (vr_checks expected))"

lemma py_eq_object_get:
  assumes "py_eq (JObj d) (JObj e)" and "dict_get d k = Some v"
  shows "\<exists>w. dict_get e k = Some w \<and> py_eq v w"
  using assms map_of_SomeD [OF assms(2)] by (auto split: option.splits)

lemma py_eq_array_nth:
  assumes "py_eq (JArr xs) (JArr ys)"
  shows "length xs = length ys \<and> (\<forall>i < length xs. py_eq (xs ! i) (ys ! i))"
  using assms by (force simp: set_zip)

lemma verification_semantics_same:
  assumes "py_eq (verification_semantics v) (verification_semantics w)"
  shows "vr_aggregate v = vr_aggregate w \<and> map cx_state (vr_checks v) = map cx_state (vr_checks w)"
proof -
  have state: "cx_state x = cx_state y" if "py_eq (check_semantics x) (check_semantics y)" for x y
    using py_eq_object_get [OF that [unfolded check_semantics_def], of "''state''" "JStr (cx_state x)"]
    by simp
  note object = py_eq_object_get [OF assms [unfolded verification_semantics_def]]
  have "vr_aggregate v = vr_aggregate w"
    using object [of "''aggregate_state''" "JStr (vr_aggregate v)"] by simp
  moreover have "py_eq (JArr (map check_semantics (vr_checks v))) (JArr (map check_semantics (vr_checks w)))"
    using object [of "''checks''" "JArr (map check_semantics (vr_checks v))"]
    by (simp del: py_eq.simps(3))
  then have "length (vr_checks v) = length (vr_checks w) \<and>
      (\<forall>i < length (vr_checks v). py_eq (check_semantics (vr_checks v ! i)) (check_semantics (vr_checks w ! i)))"
    using py_eq_array_nth by fastforce
  then have "map cx_state (vr_checks v) = map cx_state (vr_checks w)"
    using state by (auto intro: nth_equalityI)
  ultimately show ?thesis by blast
qed

definition request_honoured :: "string \<Rightarrow> request option \<Rightarrow> worker_result \<Rightarrow> experiment_record \<Rightarrow> bool" where
  "request_honoured new_id request r e \<longleftrightarrow>
     (case request of
        None \<Rightarrow> wr_verification r = None
      | Some q \<Rightarrow> wr_verification r = None \<or> wr_request r = Some (rq_id q) \<and> outcomes_match new_id q r e)"

lemma check_request_honoured:
  assumes "wr_experiment r = Some e"
  shows "run (check_request env r request) c
    (\<lambda>c' x. c' = c \<and> (\<forall>u. x = Inr u \<longrightarrow> request_honoured (be_ulid env c) request r e))"
proof -
  have outcomes: "run (validate_request_outcomes env r q) c
      (\<lambda>c' x. c' = c \<and> (\<forall>u. x = Inr u \<longrightarrow> outcomes_match (be_ulid env c) q r e))" for q
    using assms verification_semantics_same
    by (auto simp: validate_request_outcomes_def run_rules storeE_def outcomes_match_def mapErr_Inr_iff
        split: option.splits sum.splits)
  show ?thesis
    unfolding check_request_def request_honoured_def
    by (auto simp: run_rules split: option.splits intro!: run_post [OF outcomes])
qed

text \<open>An import is one transaction, after checks that change nothing.\<close>

definition imported :: "backend_env \<Rightarrow> controller \<Rightarrow> worker_result \<Rightarrow> experiment_record \<Rightarrow> controller \<Rightarrow> bool" where
  "imported env c r e c' \<longleftrightarrow>
     request_honoured (be_ulid env c) (request_for_execution (wr_execution r) (ct_store c)) r e \<and>
     (\<exists>s' details telemetry evidence.
        import_experiment_result (be_ulid env c) (wr_execution r) e (wr_artifacts r) (wr_lineage r)
          (wr_allocation r) (wr_state r) (wr_created_at r) details telemetry (wr_verification r) evidence
          (wr_termination r) (ct_store c) = Inr s' \<and> c' = c\<lparr>ct_store := s'\<rparr>)"

lemma run_any: "run m w (\<lambda>_ _. True)"
  by (simp add: run_def split: prod.split)

lemma import_result_imported:
  "run (import_result env r) c (\<lambda>c' x. \<forall>u e. x = Inr u \<longrightarrow> wr_experiment r = Some e \<longrightarrow> imported env c r e c')"
proof (cases "wr_experiment r")
  case None
  then show ?thesis by (simp add: run_any)
next
  case (Some e)
  have commit: "run (commitE env (\<lambda>i _. import_experiment_result i (wr_execution r) e (wr_artifacts r)
        (wr_lineage r) (wr_allocation r) (wr_state r) (wr_created_at r) details telemetry
        (wr_verification r) evidence (wr_termination r))) c
      (\<lambda>c' x. \<forall>u. x = Inr u \<longrightarrow> imported env c r e c')"
    if "request_honoured (be_ulid env c) (request_for_execution (wr_execution r) (ct_store c)) r e"
    for details telemetry evidence
    using that unfolding imported_def commitE_def run_trans
    by (auto simp: mapErr_Inr_iff mapR_Inr_iff split: sum.splits)
  show ?thesis
    unfolding import_result_def storeE_def
    by (auto simp: run_rules Some split: sum.splits
        intro!: run_post [OF check_request_honoured [OF Some]] run_post [OF commit])
qed

lemma collect_imported:
  assumes "experiment_id (at_id a) (ct_store c) = None"
  shows "run (collect env a) c (\<lambda>c' x. \<forall>r e. x = Inr r \<longrightarrow> wr_experiment r = Some e \<longrightarrow>
    (\<exists>staging p. at_staging a = Some staging \<and>
       load_worker_result (be_loads env) (ct_files c (result_path staging)) (at_id a) = Inr r \<and>
       get_plan (at_plan a) (ct_store c) = Inr p \<and> validate_result_against_plan r p = Inr () \<and>
       imported env c r e c'))"
proof (cases "at_staging a")
  case None
  then show ?thesis by (simp add: collect_def run_rules)
next
  case (Some staging)
  show ?thesis
    unfolding collect_def Some option.case storeE_def
    by (auto simp: run_rules mapErr_Inr_iff assms split: sum.splits intro!: run_post [OF import_result_imported])
qed

lemma planned_execution_argv_nonempty: "planned_execution_argv p \<noteq> []"
  by (simp add: planned_execution_argv_def plan_argv_def split: option.split)

lemma validated_command:
  assumes "validate_result_against_plan r p = Inr ()" and "wr_experiment r = Some e"
  shows "ex_command e # ex_arguments e = planned_execution_argv p \<and> ex_working_directory e = pl_working_directory p"
  using assms planned_execution_argv_nonempty [of p]
  by (simp add: validate_result_against_plan_def)

text \<open>What an import leaves in the store for its execution.\<close>

lemma imported_store:
  assumes "imported env c r e c'" and "experiment_id (wr_execution r) (ct_store c) = None"
    and "get_execution (wr_execution r) (ct_store c) = Inr a"
  shows "experiment_id (wr_execution r) (ct_store c') = Some (ex_id e) \<and>
    get_execution (wr_execution r) (ct_store c') = Inr (set_state (wr_state r) (wr_created_at r) None a) \<and>
    get_plan i (ct_store c') = get_plan i (ct_store c) \<and> ct_files c' = ct_files c \<and>
    st_verifications (ct_store c') = st_verifications (ct_store c)
      @ (case wr_verification r of None \<Rightarrow> [] | Some v \<Rightarrow> [v])"
proof -
  obtain s' details telemetry evidence where
    s': "import_experiment_result (be_ulid env c) (wr_execution r) e (wr_artifacts r) (wr_lineage r)
          (wr_allocation r) (wr_state r) (wr_created_at r) details telemetry (wr_verification r) evidence
          (wr_termination r) (ct_store c) = Inr s'" and c': "c' = c\<lparr>ct_store := s'\<rparr>"
    using assms(1) unfolding imported_def by blast
  note stores = import_experiment_result_stores [OF s']
  have row: "find_row at_id (wr_execution r) (st_attempts (ct_store c)) = Some a"
    using assms(3) by (simp add: get_execution_def split: option.splits)
  have "find_row at_id (wr_execution r) (map (\<lambda>a. if at_id a = wr_execution r
      then set_state (wr_state r) (wr_created_at r) None a else a) (st_attempts (ct_store c)))
    = Some (set_state (wr_state r) (wr_created_at r) None a)"
    using find_row_Some [OF row] by (simp add: find_row_map set_state_def row)
  then show ?thesis
    using stores assms(2) unfolding c'
    by (simp add: experiment_id_def find_row_snoc get_execution_def get_plan_def)
qed

text \<open>The captured artifacts of a result meet every check of a request, or refute one.\<close>

definition checks_met :: "request \<Rightarrow> artifact list \<Rightarrow> bool" where
  "checks_met q artifacts \<longleftrightarrow> rq_checks q \<noteq> [] \<and>
     (\<forall>k \<in> set (rq_checks q). \<exists>a. first_output artifacts (ck_path k) = Some a \<and> meets k a)"

definition checks_refuted :: "request \<Rightarrow> artifact list \<Rightarrow> bool" where
  "checks_refuted q artifacts \<longleftrightarrow>
     (\<exists>k \<in> set (rq_checks q). \<exists>a. first_output artifacts (ck_path k) = Some a \<and> refutes k a)"

lemma outcomes_evident:
  assumes "outcomes_match i q r e" and "list_all check_ok (rq_checks q)" and "i \<noteq> []"
  shows "\<exists>v. wr_verification r = Some v \<and> (vr_aggregate v = ''passed'' \<longleftrightarrow> checks_met q (wr_artifacts r)) \<and>
    (vr_aggregate v = ''failed'' \<longleftrightarrow> checks_refuted q (wr_artifacts r))"
proof -
  obtain v expected where "wr_verification r = Some v" "vr_aggregate v = vr_aggregate expected"
    and "evaluate_verification (\<lambda>_. i) q (wr_execution r) e (wr_artifacts r) = Inr expected"
    using assms(1) unfolding outcomes_match_def by blast
  then show ?thesis
    using verification_evidence [OF assms(2), of "\<lambda>_. i" "wr_execution r" e "wr_artifacts r"] assms(3)
    unfolding checks_met_def checks_refuted_def by auto
qed

text \<open>A result that was imported is given again, and nothing changes.\<close>

lemma collect_again:
  assumes "at_staging a = Some staging"
    and "load_worker_result (be_loads env) (ct_files c (result_path staging)) (at_id a) = Inr r"
    and "get_plan (at_plan a) (ct_store c) = Inr p" and "validate_result_against_plan r p = Inr ()"
    and "wr_experiment r = Some e" and "experiment_id (at_id a) (ct_store c) = Some (ex_id e)"
  shows "collect env a c = ([], c, Inr r)"
  using assms by (simp add: collect_def eff_defs storeE_def)

definition evident :: "controller \<Rightarrow> attempt \<Rightarrow> worker_result \<Rightarrow> experiment_record \<Rightarrow> bool" where
  "evident c a r e \<longleftrightarrow> (\<forall>v. wr_verification r = Some v \<longrightarrow>
     (\<exists>q. request_for_execution (at_id a) (ct_store c) = Some q \<and> wr_request r = Some (rq_id q) \<and>
        (vr_aggregate v = ''passed'' \<longleftrightarrow> checks_met q (wr_artifacts r)) \<and>
        (vr_aggregate v = ''failed'' \<longleftrightarrow> checks_refuted q (wr_artifacts r))))"

text \<open>
  C5. A result is taken in only as what was planned and what the evidence shows. When a controller
  collects a run of an execution for the first time, the result is about this execution, its command
  line and directory are those of the stored plan, and the store then names its experiment and has
  its state; a verification is of the request the plan was made for, and says passed exactly when the
  captured artifacts meet every check and failed exactly when one refutes its check, whatever the
  worker claimed. Collecting the execution again gives the same result and changes nothing.
\<close>

theorem collected_result_is_verified:
  assumes "collect env a c = (t, c', Inr r)" and "wr_experiment r = Some e"
    and "get_execution (at_id a) (ct_store c) = Inr a" and "experiment_id (at_id a) (ct_store c) = None"
    and "\<And>q. request_for_execution (at_id a) (ct_store c) = Some q \<Longrightarrow> list_all check_ok (rq_checks q)"
    and "be_ulid env c \<noteq> []"
  shows "\<exists>p a'. wr_execution r = at_id a \<and> get_plan (at_plan a) (ct_store c) = Inr p \<and>
    ex_command e # ex_arguments e = planned_execution_argv p \<and>
    ex_working_directory e = pl_working_directory p \<and>
    experiment_id (at_id a) (ct_store c') = Some (ex_id e) \<and>
    get_execution (at_id a) (ct_store c') = Inr a' \<and> at_state a' = wr_state r \<and> evident c a r e \<and>
    collect env a' c' = ([], c', Inr r)"
proof -
  obtain staging p where at: "at_staging a = Some staging"
    and load: "load_worker_result (be_loads env) (ct_files c (result_path staging)) (at_id a) = Inr r"
    and p: "get_plan (at_plan a) (ct_store c) = Inr p" "validate_result_against_plan r p = Inr ()"
    and i: "imported env c r e c'"
    using collect_imported [OF assms(4), of env] assms(1,2) by (auto simp: run_def)
  have k: "wr_execution r = at_id a"
    using load by (auto simp: load_worker_result_def split: option.splits if_splits elim: parse_worker_result_Inr)
  note store = imported_store [OF i, unfolded k, OF assms(4,3)]
  let ?a = "set_state (wr_state r) (wr_created_at r) None a"
  have same: "at_id ?a = at_id a" "at_plan ?a = at_plan a" "at_staging ?a = at_staging a" "at_state ?a = wr_state r"
    by (simp_all add: set_state_def)
  have again: "collect env ?a c' = ([], c', Inr r)"
    using store p at load assms(2) by (intro collect_again) (simp_all add: same)
  have "evident c a r e"
    using i assms(5) outcomes_evident [OF _ _ assms(6)]
    unfolding evident_def imported_def request_honoured_def k
    by (fastforce split: option.splits)
  with store k p again validated_command [OF p(2) assms(2)] same show ?thesis by blast
qed

section \<open>A concrete collection\<close>

definition sample_quiet_request :: request where
  "sample_quiet_request = sample_request\<lparr>rq_telemetry_mode := ''off''\<rparr>"

definition sample_running :: attempt where
  "sample_running = sample_attempt\<lparr>at_state := ''running'', at_staging := Some ''/s''\<rparr>"

definition sample_collected_experiment :: experiment_record where
  "sample_collected_experiment = sample_result_experiment\<lparr>ex_working_directory := ''/w/.''\<rparr>"

definition sample_passed :: verification where
  "sample_passed = \<lparr>vr_id = ''V'', vr_request_id = ''ID'', vr_execution_id = ''E'', vr_experiment_id = ''X'',
     vr_aggregate = ''passed'', vr_evaluated_at = ''t1'', vr_source = ''captured_output_artifact_records'',
     vr_checks = [\<lparr>cx_id = ''V'', cx_run_id = ''V'', cx_ordinal = 0, cx_type = ''output_min_bytes'',
       cx_path = ''o'', cx_state = ''passed'',
       cx_evidence = [(''evidence_source'', JStr ''captured_output_artifact_record''),
         (''declared_output_path'', JStr ''o''), (''artifact_id'', JStr ''A''),
         (''existence_state'', JStr ''present''), (''capture_status'', JStr ''complete''),
         (''size_bytes'', JInt 7), (''sha256'', JStr ''aa''), (''expected_min_bytes'', JInt 1)]\<rparr>]\<rparr>"

definition sample_collected_result :: worker_result where
  "sample_collected_result = sample_worker_result\<lparr>wr_experiment := Some sample_collected_experiment,
     wr_verification := Some sample_passed\<rparr>"

definition sample_collecting :: controller where
  "sample_collecting = sample_controller\<lparr>ct_files := (\<lambda>_. Some ''result''),
     ct_store := sample_store\<lparr>st_plans := [sample_staged_plan], st_requests := [sample_quiet_request],
       st_request_links := [(''ID'', ''w'')], st_attempts := [sample_running]\<rparr>\<rparr>"

definition sample_collector :: backend_env where
  "sample_collector = sample_backend\<lparr>
     be_loads := (\<lambda>_. Some (JObj (worker_result_to_dict sample_collected_result)))\<rparr>"

lemma sample_evaluated:
  "evaluate_verification (\<lambda>_. ''V'') sample_quiet_request ''E'' sample_collected_experiment [sample_output]
     = Inr sample_passed"
  by (simp add: sample_quiet_request_def sample_request_def evaluate_verification_def evaluate_check_def
      first_output_def sample_output_def check_state_def VerificationCheckResult_def check_result_states_def
      check_types_def VerificationRun_def aggregate_state_def sample_passed_def
      sample_collected_experiment_def sample_result_experiment_def sample_experiment_def)

lemma sample_collected_ok: "worker_result_ok sample_collected_result"
proof -
  have "experiment_ok sample_collected_experiment"
    by (simp add: experiment_ok_def sample_collected_experiment_def sample_result_experiment_def
        sample_experiment_def experiment_to_dict_def result_bounded_json_def MAX_RESULT_BUNDLE_BYTES_def
        finite_duration_def provenance_ok_def null_document_def git_fields_def system_fields_def
        context_fields_def)
  moreover have "verification_ok sample_passed"
    by (simp add: verification_ok_def sample_passed_def verification_to_dict_def check_result_to_dict_def
        result_bounded_json_def MAX_RESULT_BUNDLE_BYTES_def VerificationRun_def check_result_ok_def
        VerificationCheckResult_def check_result_states_def check_types_def)
  ultimately show ?thesis
    unfolding worker_result_ok_def sample_collected_result_def sample_worker_result_def
    by (simp add: sample_output_ok optional_ok_def version_number_def result_states_def empty_bounded
        MAX_RESULT_ARTIFACTS_def experiment_consistent_def evidence_consistent_def about_def)
      (simp add: sample_collected_experiment_def sample_result_experiment_def sample_experiment_def
        sample_output_def sample_passed_def)
qed

lemma sample_collecting_rows:
  "get_execution ''E'' (ct_store sample_collecting) = Inr sample_running"
  "get_plan ''p'' (ct_store sample_collecting) = Inr sample_staged_plan"
  "request_for_execution ''E'' (ct_store sample_collecting) = Some sample_quiet_request"
  "experiment_id ''E'' (ct_store sample_collecting) = None"
  "get_scheduler_job ''E'' (ct_store sample_collecting) = None"
  "at_id sample_running = ''E''" "at_plan sample_running = ''p''" "at_staging sample_running = Some ''/s''"
  "be_ulid sample_collector sample_collecting \<noteq> []"
  by (simp_all add: sample_collecting_def sample_controller_def sample_store_def empty_store_def
      sample_running_def sample_attempt_def sample_staged_plan_def sample_plan_def sample_quiet_request_def
      sample_request_def get_execution_def get_plan_def find_row_def request_for_execution_def
      request_for_workload_def experiment_id_def get_scheduler_job_def sample_collector_def
      sample_backend_def longer_id_def)

lemma sample_checked:
  "check_request sample_collector sample_collected_result (Some sample_quiet_request) sample_collecting
     = ([], sample_collecting, Inr ())"
proof -
  have parts: "wr_version sample_collected_result = JInt 2" "wr_request sample_collected_result = Some ''ID''"
    "wr_experiment sample_collected_result = Some sample_collected_experiment"
    "wr_execution sample_collected_result = ''E''" "wr_artifacts sample_collected_result = [sample_output]"
    "wr_verification sample_collected_result = Some sample_passed" "wr_telemetry sample_collected_result = None"
    "rq_id sample_quiet_request = ''ID''" "rq_telemetry_mode sample_quiet_request = ''off''"
    by (simp_all add: sample_collected_result_def sample_worker_result_def sample_quiet_request_def sample_request_def)
  obtain v where "evaluate_verification (\<lambda>_. be_ulid sample_collector sample_collecting) sample_quiet_request ''E''
      sample_collected_experiment [sample_output] = Inr v" "verification_semantics v = verification_semantics sample_passed"
    using evaluate_verification_any_id [OF sample_evaluated] sample_collecting_rows(9) by metis
  then show ?thesis
    using verification_plain [OF sample_evaluated]
    by (simp add: check_request_def validate_request_outcomes_def parts version_number_def storeE_def eff_defs
        sample_collecting_rows build_telemetry_summary_def telemetry_semantics_def)
qed

lemma sample_collect:
  "\<exists>t c'. collect sample_collector sample_running sample_collecting = (t, c', Inr sample_collected_result)"
proof -
  have load: "load_worker_result (be_loads sample_collector) (ct_files sample_collecting (result_path s)) ''E''
      = Inr sample_collected_result" for s
    using worker_result_document [OF sample_collected_ok]
    by (simp add: load_worker_result_def sample_collector_def sample_collecting_def MAX_RESULT_BUNDLE_BYTES_def
        sample_collected_result_def sample_worker_result_def)
  have checked: "validate_result_against_plan sample_collected_result sample_staged_plan = Inr ()"
    by (simp add: validate_result_against_plan_def sample_collected_result_def sample_collected_experiment_def
        sample_result_experiment_def sample_experiment_def planned_execution_argv_def sample_staged_plan_def
        sample_plan_def plan_argv_def)
  have "\<exists>s'. import_experiment_result (be_ulid sample_collector sample_collecting) ''E''
      sample_collected_experiment [sample_output] [] None ''completed'' ''t1'' [(''preflight'', JObj [])] None
      (Some sample_passed) None None (ct_store sample_collecting) = Inr s'"
    by (simp add: import_experiment_result_def insert_experiment_record_def insert_row_def
        experiment_row_ok_def duration_ok_def artifact_row_ok_def insert_result_def import_allocation_def
        insert_outcomes_def linked_request_def find_row_def insert_verification_def all_checks_def
        check_types_def check_result_states_def insert_runtime_evidence_def finish_execution_def insert_event_def
        new_event_def get_execution_def set_state_def
        sample_collecting_def sample_store_def empty_store_def sample_controller_def
        sample_output_def sample_request_def sample_collected_experiment_def sample_result_experiment_def
        sample_experiment_def sample_passed_def sample_running_def sample_attempt_def sample_staged_plan_def
        sample_plan_def)
  then obtain s' where s': "import_experiment_result (be_ulid sample_collector sample_collecting) ''E''
      sample_collected_experiment [sample_output] [] None ''completed'' ''t1'' [(''preflight'', JObj [])] None
      (Some sample_passed) None None (ct_store sample_collecting) = Inr s'" by blast
  have parts: "wr_experiment sample_collected_result = Some sample_collected_experiment"
    "wr_execution sample_collected_result = ''E''" "wr_artifacts sample_collected_result = [sample_output]"
    "wr_verification sample_collected_result = Some sample_passed" "wr_telemetry sample_collected_result = None"
    "wr_lineage sample_collected_result = []" "wr_allocation sample_collected_result = None"
    "wr_state sample_collected_result = ''completed''" "wr_created_at sample_collected_result = ''t1''"
    "wr_preflight sample_collected_result = []" "wr_runtime sample_collected_result = None"
    "wr_termination sample_collected_result = None"
    by (simp_all add: sample_collected_result_def sample_worker_result_def)
  show ?thesis
    by (simp add: collect_def import_result_def sample_collecting_rows load checked storeE_def eff_defs parts
        sample_checked with_controller_job_def with_scheduler_wait_def commitE_def s')
qed

theorem collected_result_is_verified_witness:
  "\<exists>t c' r e. collect sample_collector sample_running sample_collecting = (t, c', Inr r) \<and>
    wr_experiment r = Some e \<and> experiment_id ''E'' (ct_store c') = Some (ex_id e) \<and>
    ex_command e # ex_arguments e = planned_execution_argv sample_staged_plan \<and>
    evident sample_collecting sample_running r e"
proof -
  obtain t c' where c: "collect sample_collector sample_running sample_collecting = (t, c', Inr sample_collected_result)"
    using sample_collect by blast
  have e: "wr_experiment sample_collected_result = Some sample_collected_experiment"
    by (simp add: sample_collected_result_def)
  have checks: "list_all check_ok (rq_checks sample_quiet_request)"
    by (simp add: sample_quiet_request_def sample_request_def check_ok_def str_ok_def request_limits code_point_def)
  show ?thesis
    using collected_result_is_verified [OF c e] c e checks sample_collecting_rows by auto
qed

end
