(* ===== verification/ExecutionProperties.thy ===== *)
theory ExecutionProperties
  imports CollectionProperties
begin

text \<open>
  An execution from one end to the other: what was staged runs on the compute node and comes back,
  and waiting for it ends.
\<close>

section \<open>Staged work comes back\<close>

text \<open>An import whose checks pass fails in the store or in a bound of the evidence, and then changes nothing.\<close>

definition kept_or_given :: "controller \<Rightarrow> 'a \<Rightarrow> controller \<Rightarrow> (local_error, 'a) res \<Rightarrow> bool" where
  "kept_or_given c x c' y \<longleftrightarrow> y = Inr x \<or> c' = c \<and> ((\<exists>e. y = Inl (LStore e)) \<or> (\<exists>e. y = Inl (LRaised e)))"

lemma import_checked_result:
  assumes "check_request env r (request_for_execution (wr_execution r) (ct_store c)) c = ([], c, Inr ())"
  shows "run (import_result env r) c (kept_or_given c ())"
proof -
  have commit: "run (commitE env f) c (kept_or_given c ())" for f
    by (auto simp: commitE_def run_rules kept_or_given_def mapErr_def mapR_def split: sum.splits)
  have checked: "run (check_request env r (request_for_execution (wr_execution r) (ct_store c))) c \<Phi> = \<Phi> c (Inr ())" for \<Phi>
    using assms by (rule run_of)
  show ?thesis
    unfolding import_result_def storeE_def
    using commit
    by (cases "wr_experiment r")
      (auto simp: run_rules checked mapErr_def Let_def split: sum.splits, auto simp: kept_or_given_def)
qed

lemma collect_checked_result:
  assumes "at_staging a = Some staging"
    and "load_worker_result (be_loads env) (ct_files c (result_path staging)) (at_id a) = Inr r"
    and "get_plan (at_plan a) (ct_store c) = Inr p" and "validate_result_against_plan r p = Inr ()"
    and "experiment_id (at_id a) (ct_store c) = None"
    and "check_request env r (request_for_execution (wr_execution r) (ct_store c)) c = ([], c, Inr ())"
  shows "run (collect env a) c (kept_or_given c r)"
proof -
  have import: "run (bindE (import_result env r) (\<lambda>_. retE r)) c (kept_or_given c r)"
    unfolding run_bind
    by (rule run_post [OF import_checked_result [OF assms(6)]])
      (auto simp: kept_or_given_def run_rules split: sum.splits)
  show ?thesis
    unfolding collect_def assms(1) option.case storeE_def
    using import
    by (auto simp: run_rules assms mapErr_def split: sum.splits) (auto simp: kept_or_given_def)
qed

text \<open>The result a node writes, read by the controller.\<close>

lemma written_result_loads:
  assumes "encode_worker_result floats r = Inr raw"
    and "loads (utf8_encode (json_dumps floats (JObj (worker_result_to_dict r)))) = Some (JObj (worker_result_to_dict r))"
    and "parse_worker_result (JObj (worker_result_to_dict r)) k = Inr r"
  shows "load_worker_result loads (Some raw) k = Inr r"
  using assms by (auto simp: encode_worker_result_def load_worker_result_def Let_def split: if_splits)


lemma sample_staged_size:
  "json_weight fr (JObj (staged_document ''E'' sample_staged_plan sample_staged_workload (Some sample_request)))
    \<le> 100000"
  by (simp add: staged_document_def staged_version_def sample_staged_plan_def sample_plan_def opt_field_def
      plan_to_dict_def workload_to_dict_def request_to_dict_def sample_staged_workload_def sample_request_def
      sample_source_def source_to_dict_def resources_to_dict_def constraints_to_dict_def opt_int_def strings_def
      check_to_dict_def shape_to_dict_def shape_fields_def sample_shape_def empty_shape_def REQUEST_KIND_def
      no_resources_def)

lemma sample_staged:
  "\<exists>staged. write_staged_plan floats ''E'' sample_staged_plan sample_staged_workload (Some sample_request) = Inr staged"
proof -
  have "length (utf8_encode (json_dumps floats (JObj (staged_document ''E'' sample_staged_plan
      sample_staged_workload (Some sample_request))))) \<le> 1024 * 1024"
    using json_dumps_length [of floats "JObj (staged_document ''E'' sample_staged_plan sample_staged_workload
      (Some sample_request))"] sample_staged_size [of floats]
    unfolding length_utf8_encode by linarith
  moreover have "pl_workload_id sample_staged_plan = w_id sample_staged_workload"
    "rq_command sample_request = workload_argv sample_staged_workload"
    "rq_resolved_parent sample_request = w_parent sample_staged_workload"
    by (simp_all add: sample_staged_plan_def sample_plan_def sample_staged_workload_def sample_request_def
        workload_argv_def)
  ultimately show ?thesis by (simp add: write_staged_plan_def Let_def)
qed


section \<open>Waiting ends\<close>

text \<open>Operations that take no time of the model's clock and raise no timeout of their own.\<close>

definition quiet :: "'a local \<Rightarrow> bool" where
  "quiet m \<longleftrightarrow> (\<forall>c. run m c (\<lambda>c' y. ct_time c' = ct_time c \<and> (\<forall>t. y \<noteq> Inl (LTimeout t))))"

named_theorems quiet_rules \<open>operations that are quiet\<close>

lemma quiet_basic [quiet_rules]:
  "quiet (retE x)" "quiet (backend_raise m)" "quiet (storeE f)" "quiet (commitE env g)" "quiet (whichE env n)"
  "quiet (readE (\<lambda>c. Inr (h c)))" "quiet (readE (\<lambda>c. mapErr LRaised (h' c)))"
  "quiet (readE (\<lambda>c. mapErr LBackend (h'' c)))" "quiet (readE (\<lambda>c. mapErr of_result_error (h3 c)))"
  "quiet (liftE (mapErr LRaised r))" "quiet (liftE (mapErr LBackend r'))"
  by (auto simp: quiet_def run_rules storeE_def commitE_def whichE_def mapErr_def mapR_def of_result_error_def
      split: sum.splits result_error.splits)

lemma quiet_bind [quiet_rules]: "quiet m \<Longrightarrow> (\<And>x. quiet (f x)) \<Longrightarrow> quiet (bindE m f)"
  unfolding quiet_def run_bind
  by (intro allI, rule run_post, blast) (auto split: sum.splits, metis (mono_tags, lifting) run_post)

lemma quiet_catch:
  assumes "quiet m" and "\<And>e. (\<forall>t. e \<noteq> LTimeout t) \<Longrightarrow> quiet (h e)"
  shows "quiet (catchE m h)"
  unfolding quiet_def
proof
  fix c :: controller
  show "run (catchE m h) c (\<lambda>c' y. ct_time c' = ct_time c \<and> (\<forall>t. y \<noteq> Inl (LTimeout t)))"
  proof (rule run_handle)
    show "run m c (\<lambda>c' y. ct_time c' = ct_time c \<and> (\<forall>t. y \<noteq> Inl (LTimeout t)))"
      using assms(1) by (simp add: quiet_def)
  next
    fix c' :: controller and e
    assume e: "ct_time c' = ct_time c \<and> (\<forall>t. Inl e \<noteq> (Inl (LTimeout t) :: (local_error, 'a) res))"
    then have "quiet (h e)" by (intro assms(2)) simp
    then have "run (h e) c' (\<lambda>c'' y. ct_time c'' = ct_time c' \<and> (\<forall>t. y \<noteq> Inl (LTimeout t)))"
      by (simp add: quiet_def)
    with e show "run (h e) c' (\<lambda>c' y. ct_time c' = ct_time c \<and> (\<forall>t. y \<noteq> Inl (LTimeout t)))"
      by simp
  qed simp
qed

lemma quiet_if [quiet_rules]: "(b \<Longrightarrow> quiet x) \<Longrightarrow> (\<not> b \<Longrightarrow> quiet y) \<Longrightarrow> quiet (if b then x else y)"
  by simp

lemma quiet_option [quiet_rules]:
  "(v = None \<Longrightarrow> quiet x) \<Longrightarrow> (\<And>a. v = Some a \<Longrightarrow> quiet (f a)) \<Longrightarrow> quiet (case v of None \<Rightarrow> x | Some a \<Rightarrow> f a)"
  by (cases v) simp_all

lemma quiet_raise: "(\<forall>t. e \<noteq> LTimeout t) \<Longrightarrow> quiet (raiseE e)"
  by (simp add: quiet_def run_rules)

lemma collect_quiet [quiet_rules]: "quiet (collect env a)"
  unfolding collect_def import_result_def check_request_def validate_request_outcomes_def Let_def
  by (intro quiet_rules)

lemma try_collect_quiet [quiet_rules]: "quiet (try_collect env a)"
  unfolding try_collect_def by (intro quiet_rules quiet_catch quiet_raise)

lemma known_job_quiet [quiet_rules]: "quiet (known_job env family a)"
  unfolding known_job_def by (intro quiet_rules)

lemma observe_quiet [quiet_rules]: "quiet (observe_and_record env family a j)"
  unfolding observe_and_record_def query_job_def record_query_error_def eventE_def Let_def
  by (intro quiet_rules quiet_catch quiet_raise)

lemma final_collect_quiet [quiet_rules]: "quiet (final_collect env family a j b)"
  unfolding final_collect_def by (intro quiet_rules quiet_catch quiet_raise)

text \<open>A step that is quiet, before the rest of an operation.\<close>

lemma run_quiet:
  assumes "quiet m" and "\<And>c' e. ct_time c' = ct_time c \<Longrightarrow> \<forall>t. e \<noteq> LTimeout t \<Longrightarrow> \<Phi> c' (Inl e)"
    and "\<And>c' x. ct_time c' = ct_time c \<Longrightarrow> run (f x) c' \<Phi>"
  shows "run (bindE m f) c \<Phi>"
  by (rule run_step [where Q = "\<lambda>c' y. ct_time c' = ct_time c \<and> (\<forall>t. y \<noteq> Inl (LTimeout t))"])
    (use assms in \<open>auto simp: quiet_def\<close>)

text \<open>\<open>time.sleep\<close> takes the time it is asked for, and not much longer.\<close>

definition sleeps :: "backend_env \<Rightarrow> rat \<Rightarrow> bool" where
  "sleeps env slack \<longleftrightarrow> 0 \<le> slack \<and>
     (\<forall>d c. ct_time c + d \<le> ct_time (be_sleep env d c) \<and> ct_time (be_sleep env d c) \<le> ct_time c + d + slack)"

definition wait_ended :: "rat \<Rightarrow> rat \<Rightarrow> rat \<Rightarrow> controller \<Rightarrow> (local_error, worker_result option) res \<Rightarrow> bool" where
  "wait_ended T slack started c' y \<longleftrightarrow> y \<noteq> Inr None \<and> ct_time c' \<le> started + T + 60 + slack \<and>
     (\<forall>m. y = Inl (LTimeout m) \<longrightarrow> started + T \<le> ct_time c')"

lemma wait_round:
  assumes "ct_time c \<le> started + T + 60 + slack"
    and later: "\<And>c'. ct_time c' = ct_time c \<Longrightarrow> ct_time c < started + T \<Longrightarrow>
      run (wait_loop n env family k (Some T) started (min 60 (delay * 3 / 2))) (be_sleep env delay c')
        (wait_ended T slack started)"
  shows "run (wait_loop (Suc n) env family k (Some T) started delay) c (wait_ended T slack started)"
proof -
  have failed: "wait_ended T slack started c' (Inl e)" if "ct_time c' = ct_time c" "\<forall>t. e \<noteq> LTimeout t" for c' :: controller and e
    using that assms(1) by (simp add: wait_ended_def)
  have given: "run (retE (Some r)) c' (wait_ended T slack started)" if "ct_time c' = ct_time c" for c' :: controller and r
    using that assms(1) by (simp add: wait_ended_def run_rules)
  have asleep: "run (bindE (readE (\<lambda>c. Inr (ct_time c))) (\<lambda>now.
      if (case Some T of None \<Rightarrow> False | Some t \<Rightarrow> now - started \<ge> t)
      then raiseE (LTimeout (''timed out waiting for execution '' @ k))
      else bindE (writeE (be_sleep env delay)) (\<lambda>_.
        wait_loop n env family k (Some T) started (min 60 (delay * 3 / 2))))) c' (wait_ended T slack started)"
    if "ct_time c' = ct_time c" for c' :: controller
    using that later [of c'] assms(1) by (auto simp: run_rules wait_ended_def)
  have final: "run (bindE (final_collect env family current j b) (\<lambda>r. retE (Some r))) c' (wait_ended T slack started)"
    if "ct_time c' = ct_time c" for c' :: controller and current j b
    by (rule run_quiet) (use that failed given in \<open>auto intro: quiet_rules\<close>)
  have observed: "run (bindE (observe_and_record env family current j) (\<lambda>b.
         if o_terminal b \<or> \<not> o_observable b \<and> family \<noteq> ''lsf''
         then bindE (final_collect env family current j b) (\<lambda>r. retE (Some r))
         else
           bindE (readE (\<lambda>c. Inr (ct_time c))) (\<lambda>now.
           if (case Some T of None \<Rightarrow> False | Some t \<Rightarrow> now - started \<ge> t)
           then raiseE (LTimeout (''timed out waiting for execution '' @ k))
           else bindE (writeE (be_sleep env delay)) (\<lambda>_.
             wait_loop n env family k (Some T) started (min 60 (delay * 3 / 2)))))) c' (wait_ended T slack started)"
    if "ct_time c' = ct_time c" for c' :: controller and current j
    by (rule run_quiet [OF observe_quiet]) (use that failed final asleep in auto)
  show ?thesis
    unfolding wait_loop.simps
    by (rule run_quiet, rule quiet_rules, simp add: failed, rule run_quiet, rule quiet_rules, simp add: failed,
        split option.split, intro conjI allI impI, rule run_quiet, rule quiet_rules, simp add: failed)
      (use observed given in auto)
qed

lemma wait_loop_ends:
  assumes "sleeps env slack" and "1 / 20 \<le> delay" "delay \<le> 60"
    and "started + T < ct_time c + rat_of_nat n / 20" and "ct_time c \<le> started + T + 60 + slack"
  shows "run (wait_loop (Suc n) env family k (Some T) started delay) c (wait_ended T slack started)"
  using assms(2-5)
proof (induction n arbitrary: delay c)
  case 0
  then show ?case by (intro wait_round) simp_all
next
  case (Suc n)
  show ?case
  proof (rule wait_round [OF Suc.prems(4)])
    fix c' :: controller
    assume c': "ct_time c' = ct_time c" "ct_time c < started + T"
    have slept: "ct_time c + delay \<le> ct_time (be_sleep env delay c')"
      "ct_time (be_sleep env delay c') \<le> ct_time c + delay + slack"
      using assms(1) c'(1) unfolding sleeps_def by metis+
    show "run (wait_loop (Suc n) env family k (Some T) started (min 60 (delay * 3 / 2))) (be_sleep env delay c')
        (wait_ended T slack started)"
      by (rule Suc.IH) (use Suc.prems slept c' in \<open>auto simp: field_simps\<close>)
  qed
qed



end
