(* ===== verification/RemoteMain.thy ===== *)
theory RemoteMain
  imports RemoteWorker StagedPlans
begin

text \<open>
  One invocation of the login-node worker (\<open>main\<close> of \<open>remote_worker.py\<close>): the envelope of a request,
  the operations that only look at the host (who the worker is, whether a plan can run there), and
  the dispatch to all of them. Requests and responses are the JSON values; that \<open>json.loads\<close> gives
  back what \<open>json.dumps\<close> wrote, up to the order of the keys, is left to the standard library.
\<close>

section \<open>The protocol\<close>

definition REMOTE_PROTOCOL :: string where "REMOTE_PROTOCOL = ''bourne.remote-worker''"
definition REMOTE_PROTOCOL_VERSION :: int where "REMOTE_PROTOCOL_VERSION = 1"
definition MAX_REMOTE_REQUEST_BYTES :: nat where "MAX_REMOTE_REQUEST_BYTES = 1024 * 1024"
definition BOURNE_VERSION :: string where "BOURNE_VERSION = ''0.8.1''"

datatype remote_operation = Hello | Discover | ValidatePlan | Operation operation

fun operation_name :: "remote_operation \<Rightarrow> string" where
  "operation_name Hello = ''hello''"
| "operation_name Discover = ''discover''"
| "operation_name ValidatePlan = ''validate_plan''"
| "operation_name (Operation Prepare) = ''prepare''"
| "operation_name (Operation Submit) = ''submit''"
| "operation_name (Operation Reconcile) = ''reconcile''"
| "operation_name (Operation Collect) = ''collect''"
| "operation_name (Operation Cancel) = ''cancel''"

definition request_envelope :: "remote_operation \<Rightarrow> json dict \<Rightarrow> json dict" where
  "request_envelope op payload =
     [(''protocol'', JStr REMOTE_PROTOCOL), (''protocol_version'', JInt REMOTE_PROTOCOL_VERSION),
      (''operation'', JStr (operation_name op)), (''payload'', JObj payload)]"

definition response_envelope :: "remote_operation \<Rightarrow> reply \<Rightarrow> json dict" where
  "response_envelope op r =
     [(''protocol'', JStr REMOTE_PROTOCOL), (''protocol_version'', JInt REMOTE_PROTOCOL_VERSION),
      (''operation'', JStr (operation_name op)), (''status'', JStr (fst r)), (''data'', JObj (snd r))]"

datatype site_error = WorkerFailed remote_error | DocumentRefused staged_error

text \<open>\<open>value.get("protocol_version") != REMOTE_PROTOCOL_VERSION\<close> compares numbers.\<close>

definition request_payload :: "json \<Rightarrow> remote_operation \<Rightarrow> (remote_error, json dict) res" where
  "request_payload v op =
     (case v of
        JObj d \<Rightarrow>
          if jget d ''protocol'' \<noteq> JStr REMOTE_PROTOCOL
          then Inl (RemoteWorkerError ''remote request protocol is invalid'')
          else if \<not> py_eq (jget d ''protocol_version'') (JInt REMOTE_PROTOCOL_VERSION)
          then Inl (RemoteWorkerError ''remote protocol version is incompatible'')
          else
            (case (jget d ''operation'' = JStr (operation_name op), jget d ''payload'') of
               (True, JObj payload) \<Rightarrow> Inr payload
             | _ \<Rightarrow> Inl (RemoteWorkerError ''remote operation envelope does not match invocation''))
      | _ \<Rightarrow> Inl (RemoteWorkerError ''remote request must be an object''))"

section \<open>Looking at the host\<close>

text \<open>
  One invocation: what it meets on the host, the path it was started under, the digests of
  documents, and discovery, whose content is the output of external commands.
\<close>

record worker_env =
  wk_env :: renv
  wk_path :: string
  wk_site :: site_env
  wk_discover :: "json dict \<Rightarrow> host \<Rightarrow> (site_error, reply) res"

definition hello :: "worker_env \<Rightarrow> json dict \<Rightarrow> reply worker" where
  "hello k payload = readE (\<lambda>h.
     let digest = opt_json JStr (map_option (e_sha256 (wk_env k)) (h_blob h (path_of (wk_path k))));
         expected_version = jget payload ''expected_version'';
         expected_digest = jget payload ''expected_sha256'';
         compatible = (expected_version = JNull \<or> expected_version = JStr BOURNE_VERSION) \<and>
           (expected_digest = JNull \<or> expected_digest = digest)
     in Inr (if compatible then ''ok'' else ''unavailable'',
       [(''bourne_version'', JStr BOURNE_VERSION), (''worker_sha256'', digest),
        (''compatible'', JBool compatible), (''role'', JStr ''remote_worker''),
        (''ai'', JBool False), (''mcp'', JBool False), (''daemon'', JBool False)]))"

definition plan_models :: "site_env \<Rightarrow> json dict \<Rightarrow>
    (site_error, plan \<times> workload \<times> request option) res" where
  "plan_models x payload =
     (case (jget payload ''plan'', jget payload ''workload'') of
        (JObj plan_value, JObj workload_value) \<Rightarrow>
          bindR (mapErr DocumentRefused (plan_from_dict x plan_value)) (\<lambda>p.
          bindR (mapErr DocumentRefused (workload_from_dict workload_value)) (\<lambda>w.
          bindR (case jget payload ''request'' of
              JNull \<Rightarrow> Inr None
            | JObj d \<Rightarrow> mapErr DocumentRefused (mapR Some (request_from_dict d))
            | _ \<Rightarrow> Inl (DocumentRefused StagedIllTyped)) (\<lambda>request.
          Inr (p, w, request))))
      | _ \<Rightarrow> Inl (WorkerFailed (RemoteWorkerError ''plan validation requires plan and workload objects'')))"

definition plan_problems :: "host \<Rightarrow> plan \<Rightarrow> workload \<Rightarrow> request option \<Rightarrow> string list" where
  "plan_problems h p w request =
     (if pl_backend p \<notin> set families then [''remote execution requires Slurm, PBS, or LSF''] else []) @
     (if plan_argv p \<noteq> workload_argv w \<or> pl_working_directory p \<noteq> w_working_directory w
      then [''plan does not match its immutable workload''] else []) @
     (case request of
        None \<Rightarrow> []
      | Some r \<Rightarrow>
          if rq_command r \<noteq> workload_argv w \<or> rq_resolved_working_directory r \<noteq> w_working_directory w
          then [''request does not match its compiled workload''] else []) @
     (if \<not> h_dirs h (path_of (pl_working_directory p))
      then [''remote working directory is unavailable''] else []) @
     (case pl_environment p of
        None \<Rightarrow> []
      | Some e \<Rightarrow>
          (case a_prefix (re_activation e) of
             None \<Rightarrow> []
           | Some prefix \<Rightarrow>
               if \<not> h_dirs h (path_of prefix) then [''planned existing environment is unavailable'']
               else []))"

definition validate_plan :: "worker_env \<Rightarrow> json dict \<Rightarrow> (host, site_error, reply) eff" where
  "validate_plan k payload =
     bindE (liftE (plan_models (wk_site k) payload)) (\<lambda>(p, w, request).
     readE (\<lambda>h.
       let problems = plan_problems h p w request in
       Inr (if problems = [] then ''ok'' else ''failed'',
         [(''valid'', JBool (problems = [])), (''problems'', strings problems),
          (''observation_context'', JStr ''login_access_node''),
          (''compute_preflight_required'', JBool True)])))"

section \<open>An invocation\<close>

definition worker_errors :: "(host, remote_error, 'a) eff \<Rightarrow> (host, site_error, 'a) eff" where
  "worker_errors m = (\<lambda>h. case m h of (t, h', r) \<Rightarrow> (t, h', mapErr WorkerFailed r))"

fun remote_dispatch :: "worker_env \<Rightarrow> remote_operation \<Rightarrow> json dict \<Rightarrow> (host, site_error, reply) eff" where
  "remote_dispatch k Hello payload = worker_errors (hello k payload)"
| "remote_dispatch k Discover payload = readE (wk_discover k payload)"
| "remote_dispatch k ValidatePlan payload = validate_plan k payload"
| "remote_dispatch k (Operation op) payload = worker_errors (dispatch (wk_env k) op payload)"

text \<open>
  \<open>main\<close>: the response that is printed, or the failure that ends the process with status 70.
\<close>

definition remote_main :: "worker_env \<Rightarrow> remote_operation \<Rightarrow> json \<Rightarrow> (host, site_error, json) eff" where
  "remote_main k op envelope =
     bindE (liftE (mapErr WorkerFailed (request_payload envelope op))) (\<lambda>payload.
     bindE (remote_dispatch k op payload) (\<lambda>r. retE (JObj (response_envelope op r))))"

lemma request_payload_envelope:
  "request_payload (JObj (request_envelope op payload)) op = Inr payload"
  by (simp add: request_payload_def request_envelope_def jget_def)

lemma remote_main_envelope:
  "remote_main k op (JObj (request_envelope op payload)) =
     bindE (remote_dispatch k op payload) (\<lambda>r. retE (JObj (response_envelope op r)))"
  by (simp add: remote_main_def request_payload_envelope fun_eq_iff bindE_def liftE_def)

end
