(* ===== verification/RemoteTransport.thy ===== *)
theory RemoteTransport
  imports RemoteMain LocalBackend SiteModels
begin

text \<open>
  The transport to a site (\<open>remote_transport.py\<close>): one typed operation of its worker per SSH command,
  uploads by SCP, and the choice or the installation of the worker. What becomes of a command is
  outside the controller's hands: it may never reach the site, its process may die after any durable
  step, or it may run to the end with its answer lost; in each case the controller sees the same
  transport error. A process that goes on after its command was given up is not modelled.
\<close>

section \<open>Sites and commands\<close>

definition transport_error :: "string \<Rightarrow> (local_error, 'a) res" where
  "transport_error message = Inl (LTransport message)"

text \<open>\<open>[A-Za-z0-9_~./+@:-]+\<close> over the whole text, not starting with a dash\<close>

definition REMOTE_TOKEN :: "string \<Rightarrow> bool" where
  "REMOTE_TOKEN s \<longleftrightarrow> s \<noteq> [] \<and> list_all (\<lambda>c. is_alnum c \<or> c \<in> set ''_~./+@:-'') s"

definition validate_remote_token :: "string \<Rightarrow> string \<Rightarrow> (local_error, unit) res" where
  "validate_remote_token v label =
     (if \<not> REMOTE_TOKEN v \<or> starts_with ''-'' v
      then transport_error (label @ '' contains unsafe characters'') else Inr ())"

definition require_remote_site :: "site \<Rightarrow> (local_error, unit) res" where
  "require_remote_site s =
     (if st_kind s \<noteq> ''remote_ssh'' then transport_error ''SSH transport requires a remote_ssh site''
      else
        (case st_ssh_host s of
           None \<Rightarrow> transport_error ''SSH host/alias is invalid''
         | Some host \<Rightarrow>
             if starts_with ''-'' host then transport_error ''SSH host/alias is invalid''
             else
               bindR (validate_remote_token host ''SSH host/alias'') (\<lambda>_.
               case st_ssh_username s of
                 None \<Rightarrow> Inr () | Some user \<Rightarrow> validate_remote_token user ''SSH username'')))"

text \<open>
  What becomes of the command that carries an operation: it does not reach the site, its process
  dies after so many durable steps, its answer is lost (a timeout, a cut or broken output, an SSH
  failure), or it arrives. A file that is not copied whole leaves the old content or a part.
\<close>

datatype fate = Unsent | Died nat | Silent | Answered

datatype transfer = Copied | Broken "string option"

text \<open>
  The connection to one site: its tools on this machine, what becomes of operations and transfers,
  the outcome of a bootstrap command and whether it ran on the site, what the worker's process meets
  there, the bundle of the worker with its digest, what a transport error says, \<open>str\<close> of a value
  that is no text, and the variants on record (identity, derived file, digest).
\<close>

record link =
  lk_site :: site
  lk_which :: "string \<Rightarrow> string option"
  lk_fate :: "controller \<Rightarrow> remote_operation \<Rightarrow> fate"
  lk_transfer :: "controller \<Rightarrow> string \<Rightarrow> transfer"
  lk_command :: "controller \<Rightarrow> string list \<Rightarrow> string option \<Rightarrow> cmd_result option \<times> bool"
  lk_worker :: "controller \<Rightarrow> worker_env"
  lk_bundle :: string
  lk_sha256 :: "string \<Rightarrow> string"
  lk_floats :: "py_float \<Rightarrow> string"
  lk_failure :: "controller \<Rightarrow> string"
  lk_str :: "json \<Rightarrow> string"
  lk_variants :: "(string \<times> string \<times> string) list"

definition ssh_prefix :: "link \<Rightarrow> (local_error, string list) res" where
  "ssh_prefix l =
     (case lk_which l ''ssh'' of
        None \<Rightarrow> transport_error ''ssh executable is unavailable''
      | Some ssh \<Rightarrow>
          bindR (mapErr LRaised (ssh_destination (lk_site l))) (\<lambda>destination.
          Inr ([ssh] @ (case st_ssh_port (lk_site l) of None \<Rightarrow> [] | Some p \<Rightarrow> [''-p'', str_int p]) @
            [''--'', destination])))"

section \<open>Operations of the worker\<close>

definition site_host :: "link \<Rightarrow> controller \<Rightarrow> host" where
  "site_host l c = ct_hosts c (st_id (lk_site l))"

definition put_host :: "link \<Rightarrow> controller \<Rightarrow> host \<Rightarrow> controller" where
  "put_host l c h = c\<lparr>ct_hosts := (ct_hosts c)(st_id (lk_site l) := h)\<rparr>"

text \<open>An operation on the host as the controller's world sees it; a failure there is a transport error.\<close>

definition on_site :: "link \<Rightarrow> string \<Rightarrow> (host, 'e, 'a) eff \<Rightarrow> 'a local" where
  "on_site l failure m = (\<lambda>c.
     case m (site_host l c) of (t, h, r) \<Rightarrow>
       (map (put_host l c) t, put_host l c h, mapErr (\<lambda>_. LTransport failure) r))"

definition died :: "nat \<Rightarrow> (host, 'e, 'a) eff \<Rightarrow> (host, unit, 'b) eff" where
  "died n m = (\<lambda>h. case m h of (t, _, _) \<Rightarrow> (take n t, last (h # take n t), Inl ()))"

definition unheard :: "(host, 'e, 'a) eff \<Rightarrow> (host, unit, 'b) eff" where
  "unheard m = (\<lambda>h. case m h of (t, h', _) \<Rightarrow> (t, h', Inl ()))"

definition exchange :: "link \<Rightarrow> string \<Rightarrow> remote_operation \<Rightarrow> json \<Rightarrow> json local" where
  "exchange l path op envelope =
     bindE (readE (\<lambda>c. Inr (lk_fate l c op))) (\<lambda>fate.
     bindE (readE (\<lambda>c. Inr (lk_failure l c))) (\<lambda>failure.
     bindE (readE (\<lambda>c. Inr ((lk_worker l c)\<lparr>wk_path := path\<rparr>))) (\<lambda>k.
     case fate of
       Unsent \<Rightarrow> raiseE (LTransport failure)
     | Died n \<Rightarrow> on_site l failure (died n (remote_main k op envelope))
     | Silent \<Rightarrow> on_site l failure (unheard (remote_main k op envelope))
     | Answered \<Rightarrow> on_site l failure (remote_main k op envelope))))"

definition response_statuses :: "string list" where
  "response_statuses = [''ok'', ''unavailable'', ''failed'', ''ambiguous'', ''unknown'']"

definition check_response :: "remote_operation \<Rightarrow> json \<Rightarrow> (local_error, reply) res" where
  "check_response op v =
     (case v of
        JObj d \<Rightarrow>
          if jget d ''protocol'' \<noteq> JStr REMOTE_PROTOCOL
          then transport_error ''remote worker response protocol is invalid''
          else if \<not> py_eq (jget d ''protocol_version'') (JInt REMOTE_PROTOCOL_VERSION)
          then transport_error ''remote worker protocol version is incompatible''
          else
            (case (jget d ''operation'' = JStr (operation_name op), jget d ''data'') of
               (True, JObj data) \<Rightarrow>
                 if \<not> hashable (jget d ''status'') then Inl (LRaised PyTypeError)
                 else if \<not> is_str (jget d ''status'') \<or> the_str (jget d ''status'') \<notin> set response_statuses
                 then transport_error ''remote worker returned an invalid status''
                 else Inr (the_str (jget d ''status''), data)
             | _ \<Rightarrow> transport_error ''remote worker response does not match the request'')
      | _ \<Rightarrow> transport_error ''remote worker response protocol is invalid'')"

definition invoke :: "link \<Rightarrow> string \<Rightarrow> remote_operation \<Rightarrow> json dict \<Rightarrow> reply local" where
  "invoke l path op payload =
     bindE (liftE (require_remote_site (lk_site l))) (\<lambda>_.
     bindE (liftE (validate_remote_token path ''remote worker path'')) (\<lambda>_.
     let envelope = JObj (request_envelope op payload) in
     if length (utf8_encode (json_dumps (lk_floats l) envelope)) > MAX_REMOTE_REQUEST_BYTES
     then raiseE (LTransport ''remote request exceeds the size limit'')
     else
       bindE (liftE (ssh_prefix l)) (\<lambda>_.
       bindE (exchange l path op envelope) (\<lambda>v.
       liftE (check_response op v)))))"

section \<open>Uploads and bootstrap\<close>

definition place_file :: "link \<Rightarrow> string \<Rightarrow> string \<Rightarrow> controller \<Rightarrow> controller" where
  "place_file l remote bytes c =
     put_host l c ((site_host l c)\<lparr>h_blob := (h_blob (site_host l c))(path_of remote := Some bytes)\<rparr>)"

definition upload_bytes :: "link \<Rightarrow> string \<Rightarrow> string \<Rightarrow> unit local" where
  "upload_bytes l bytes remote =
     bindE (liftE (validate_remote_token remote ''remote upload path'')) (\<lambda>_.
     case lk_which l ''scp'' of
       None \<Rightarrow> raiseE (LTransport ''scp executable is unavailable'')
     | Some _ \<Rightarrow>
         bindE (readE (\<lambda>c. Inr (lk_failure l c))) (\<lambda>failure.
         bindE (readE (\<lambda>c. Inr (lk_transfer l c remote))) (\<lambda>transfer.
         case transfer of
           Copied \<Rightarrow> writeE (place_file l remote bytes)
         | Broken None \<Rightarrow> raiseE (LTransport failure)
         | Broken (Some part) \<Rightarrow>
             bindE (writeE (place_file l remote part)) (\<lambda>_. raiseE (LTransport failure)))))"

definition upload :: "link \<Rightarrow> ppath \<Rightarrow> string \<Rightarrow> unit local" where
  "upload l path remote =
     bindE (liftE (require_remote_site (lk_site l))) (\<lambda>_.
     bindE (readE (\<lambda>c. case ct_files c path of
         None \<Rightarrow> transport_error (''upload source is unavailable: '' @ path_str path)
       | Some bytes \<Rightarrow> Inr bytes)) (\<lambda>bytes.
     upload_bytes l bytes remote))"

text \<open>\<open>_run\<close> of a bootstrap command; \<open>change\<close> is what the program does on the site when it runs.\<close>

definition run_bootstrap :: "link \<Rightarrow> string list \<Rightarrow> string option \<Rightarrow> (cmd_result \<Rightarrow> host \<Rightarrow> host) \<Rightarrow>
    cmd_result local" where
  "run_bootstrap l arguments program change =
     bindE (liftE (ssh_prefix l)) (\<lambda>prefix.
     bindE (readE (\<lambda>c. Inr (lk_command l c (prefix @ arguments) program))) (\<lambda>(outcome, ran).
     case outcome of
       None \<Rightarrow> raiseE (LTransport ''could not run OpenSSH tooling'')
     | Some r \<Rightarrow>
         bindE (if ran then writeE (\<lambda>c. put_host l c (change r (site_host l c))) else retE ()) (\<lambda>_.
         retE r)))"

definition unsuccessful :: "cmd_result \<Rightarrow> bool" where
  "unsuccessful r \<longleftrightarrow> cr_returncode r \<noteq> Some 0 \<or> cr_timed_out r \<or> cr_truncated r"

definition mkdir_program :: string where
  "mkdir_program = ''import pathlib, sys'' @ [CHR 0x0A] @
     ''pathlib.Path(sys.argv[1]).mkdir(mode=0o700, parents=True, exist_ok=True)'' @ [CHR 0x0A]"

definition home_program :: string where
  "home_program = ''import pathlib'' @ [CHR 0x0A] @
     ''path = pathlib.Path.home() / '' @ [CHR 0x27] @ ''.cache'' @ [CHR 0x27] @ '' / '' @ [CHR 0x27] @
     ''bourne'' @ [CHR 0x27] @ '' / '' @ [CHR 0x27] @ ''workers'' @ [CHR 0x27, CHR 0x0A] @
     ''path.mkdir(mode=0o700, parents=True, exist_ok=True)'' @ [CHR 0x0A] @ ''print(path)'' @ [CHR 0x0A]"

definition bootstrap_directory :: "link \<Rightarrow> string \<Rightarrow> unit local" where
  "bootstrap_directory l directory =
     bindE (liftE (validate_remote_token directory ''remote cache directory'')) (\<lambda>_.
     bindE (run_bootstrap l [''python3'', ''-'', directory] (Some mkdir_program)
       (\<lambda>_. make_dirs (path_of directory))) (\<lambda>r.
     if unsuccessful r then raiseE (LTransport ''could not prepare the remote user-space cache'')
     else retE ()))"

definition bootstrap_default_directory :: "link \<Rightarrow> string local" where
  "bootstrap_default_directory l =
     bindE (run_bootstrap l [''python3'', ''-''] (Some home_program)
       (\<lambda>r. make_dirs (path_of (py_strip (cr_stdout r))))) (\<lambda>r.
     let v = py_strip (cr_stdout r) in
     if unsuccessful r \<or> \<not> starts_with ''/'' v
     then raiseE (LTransport ''could not resolve the remote user-space cache'')
     else bindE (liftE (validate_remote_token v ''remote cache directory'')) (\<lambda>_. retE v))"

definition make_remote_executable :: "link \<Rightarrow> string \<Rightarrow> unit local" where
  "make_remote_executable l path =
     bindE (liftE (validate_remote_token path ''remote worker path'')) (\<lambda>_.
     bindE (run_bootstrap l [''chmod'', ''700'', ''--'', path] None (\<lambda>_ h. h)) (\<lambda>r.
     if unsuccessful r then raiseE (LTransport ''could not activate the staged remote worker'')
     else retE ()))"

section \<open>The worker of a site\<close>

definition compatible_worker :: "reply \<Rightarrow> bool" where
  "compatible_worker r \<longleftrightarrow> fst r = ''ok'' \<and> jget (snd r) ''compatible'' = JBool True \<and>
     jget (snd r) ''bourne_version'' = JStr BOURNE_VERSION"

text \<open>\<open>try: m except RemoteTransportError\<close>\<close>

definition try_transport :: "'a local \<Rightarrow> (string \<Rightarrow> 'a local) \<Rightarrow> 'a local" where
  "try_transport m h = catchE m (\<lambda>e. case e of LTransport message \<Rightarrow> h message | _ \<Rightarrow> raiseE e)"

definition configured_worker :: "link \<Rightarrow> string option local" where
  "configured_worker l =
     (case st_worker_path (lk_site l) of
        None \<Rightarrow> retE None
      | Some path \<Rightarrow>
          try_transport
            (bindE (invoke l path Hello []) (\<lambda>r. retE (if compatible_worker r then Some path else None)))
            (\<lambda>_. retE None))"

definition worker_cache :: "link \<Rightarrow> ppath local" where
  "worker_cache l =
     (case st_remote_root (lk_site l) of
        Some directory \<Rightarrow> retE (path_join (path_join (path_of directory) ''.bourne'') ''workers'')
      | None \<Rightarrow> bindE (bootstrap_default_directory l) (\<lambda>d. retE (path_of d)))"

definition install_worker :: "link \<Rightarrow> string local" where
  "install_worker l =
     (let digest = lk_sha256 l (lk_bundle l) in
      bindE (worker_cache l) (\<lambda>cache.
      let remote = path_str (path_join cache
        (''bourne-'' @ BOURNE_VERSION @ ''-'' @ digest @ ''.pyz'')) in
      bindE (bootstrap_directory l (path_str cache)) (\<lambda>_.
      bindE (upload_bytes l (lk_bundle l) remote) (\<lambda>_.
      bindE (make_remote_executable l remote) (\<lambda>_.
      bindE (invoke l remote Hello
        [(''expected_version'', JStr BOURNE_VERSION), (''expected_sha256'', JStr digest)]) (\<lambda>r.
      if \<not> compatible_worker r \<or> jget (snd r) ''worker_sha256'' \<noteq> JStr digest
      then raiseE (LTransport ''remote worker version/digest verification failed'')
      else retE remote))))))"

definition ensure_worker :: "link \<Rightarrow> string local" where
  "ensure_worker l =
     bindE (liftE (require_remote_site (lk_site l))) (\<lambda>_.
     bindE (configured_worker l) (\<lambda>found.
     case found of Some path \<Rightarrow> retE path | None \<Rightarrow> install_worker l))"

section \<open>The client\<close>

text \<open>\<open>RemoteWorkerClient\<close>: the worker is looked for once, at the first call.\<close>

definition new_client :: "link \<Rightarrow> unit local" where
  "new_client l =
     bindE (liftE (require_remote_site (lk_site l))) (\<lambda>_. writeE (\<lambda>c. c\<lparr>ct_session := None\<rparr>))"

definition worker_path :: "link \<Rightarrow> string local" where
  "worker_path l =
     bindE (readE (\<lambda>c. Inr (ct_session c))) (\<lambda>known.
     case known of
       Some path \<Rightarrow> retE path
     | None \<Rightarrow>
         bindE (ensure_worker l) (\<lambda>path.
         bindE (writeE (\<lambda>c. c\<lparr>ct_session := Some path\<rparr>)) (\<lambda>_.
         retE path)))"

definition remote_call :: "link \<Rightarrow> remote_operation \<Rightarrow> json dict \<Rightarrow> reply local" where
  "remote_call l op payload = bindE (worker_path l) (\<lambda>path. invoke l path op payload)"

end
