(* ===== verification/RemoteBackend.thy ===== *)
theory RemoteBackend
  imports RemoteTransport
begin

text \<open>
  The backend of a site over SSH (\<open>remote_backend.py\<close>) and the record the controller keeps of it
  (\<open>save_remote_state\<close> and \<open>remote_state\<close> of \<open>site_storage.py\<close>): an execution is checked, prepared,
  uploaded and submitted through the operations of the site's worker, then reconciled, waited for and
  cancelled. When the answer to the submission is lost, the site is asked once what it knows; the
  submission itself is never repeated.
\<close>

section \<open>The record of an execution at a site\<close>

text \<open>An upsert; the site of a row that exists stays.\<close>

definition save_remote_state :: "remote_row \<Rightarrow> controller \<Rightarrow> (local_error, controller) res" where
  "save_remote_state r c =
     (if rs_execution r \<in> rs_execution ` set (ct_remote c)
      then Inr (c\<lparr>ct_remote := map (\<lambda>old. if rs_execution old = rs_execution r
        then r\<lparr>rs_site := rs_site old\<rparr> else old) (ct_remote c)\<rparr>)
      else if rs_execution r \<in> at_id ` set (st_attempts (ct_store c)) \<and>
              rs_site r \<in> set (st_sites (ct_store c))
      then Inr (c\<lparr>ct_remote := ct_remote c @ [r]\<rparr>)
      else Inl (LStore IntegrityError))"

definition remote_state :: "string \<Rightarrow> controller \<Rightarrow> remote_row option" where
  "remote_state k c = find_row rs_execution k (ct_remote c)"

definition save_row :: "remote_row \<Rightarrow> unit local" where
  "save_row r = transE (save_remote_state r)"

definition state_at :: "backend_env \<Rightarrow> string \<Rightarrow> string \<Rightarrow> string \<Rightarrow> json dict \<Rightarrow> string option \<Rightarrow>
    unit local" where
  "state_at env k now state details error =
     commitE env (\<lambda>i _. update_execution_state i k state now details error)"

definition clockE :: "backend_env \<Rightarrow> string local" where
  "clockE env = readE (\<lambda>c. Inr (be_now env c))"

section \<open>Values of the site\<close>

definition site_text :: "link \<Rightarrow> json \<Rightarrow> string" where
  "site_text l v = (case v of JStr s \<Rightarrow> s | _ \<Rightarrow> lk_str l v)"

text \<open>\<open>"; ".join(v)\<close>\<close>

definition joined_texts :: "json \<Rightarrow> string pyres" where
  "joined_texts v =
     (case v of
        JArr xs \<Rightarrow> if list_all is_str xs then Inr (join ''; '' (map the_str xs)) else Inl PyTypeError
      | JStr s \<Rightarrow> Inr (join ''; '' (map (\<lambda>c. [c]) s))
      | JObj d \<Rightarrow> Inr (join ''; '' (dict_keys d))
      | _ \<Rightarrow> Inl PyTypeError)"

definition identity_text :: "link \<Rightarrow> json dict \<Rightarrow> string" where
  "identity_text l data =
     (let v = jget data ''submitting_identity'' in if truthy v then site_text l v else ''unknown'')"

definition submitted_text :: "link \<Rightarrow> string \<Rightarrow> json dict \<Rightarrow> string" where
  "submitted_text l now data =
     (let v = jget data ''submitted_at'' in if truthy v then site_text l v else now)"

section \<open>Submission\<close>

definition record_remote_submission :: "backend_env \<Rightarrow> link \<Rightarrow> attempt \<Rightarrow> json dict \<Rightarrow> string \<Rightarrow>
    submission local" where
  "record_remote_submission env l execution data remote_staging =
     (let k = at_id execution; family = at_backend execution;
          job_id = site_text l (jget data ''job_id'') in
      bindE (clockE env) (\<lambda>now.
      bindE (commitE env (\<lambda>_ _. save_scheduler_job
        \<lparr>j_execution = k, j_family = family, j_job_id = job_id, j_identity = identity_text l data,
         j_submitted_at = submitted_text l now data, j_state = ''submitted'', j_observed_at = now\<rparr>)) (\<lambda>_.
      bindE (state_at env k now ''submitted''
        [(''scheduler_family'', JStr family), (''job_id'', JStr job_id),
         (''site_id'', JStr (st_id (lk_site l))), (''scheduler_owns_lifetime'', JBool True),
         (''local_keepalive'', JBool False)] None) (\<lambda>_.
      bindE (save_row \<lparr>rs_execution = k, rs_site = st_id (lk_site l), rs_state = ''submitted'',
        rs_staging = Some remote_staging, rs_family = Some family, rs_job = Some job_id,
        rs_observed_at = now, rs_evidence = data\<rparr>) (\<lambda>_.
      retE \<lparr>sb_family = family, sb_job = job_id, sb_execution = k\<rparr>)))))"

definition record_ambiguous :: "backend_env \<Rightarrow> link \<Rightarrow> attempt \<Rightarrow> string \<Rightarrow> string \<Rightarrow> unit local" where
  "record_ambiguous env l execution remote_staging diagnostic =
     (let k = at_id execution in
      bindE (clockE env) (\<lambda>now.
      bindE (state_at env k now ''submission_ambiguous''
        [(''site_id'', JStr (st_id (lk_site l))), (''scientific_submission_established'', JBool False),
         (''automatic_resubmission'', JBool False), (''diagnostic'', JStr (take 4096 diagnostic))]
        (Some (take 4096 diagnostic))) (\<lambda>_.
      save_row \<lparr>rs_execution = k, rs_site = st_id (lk_site l), rs_state = ''ambiguous'',
        rs_staging = Some remote_staging, rs_family = Some (at_backend execution), rs_job = None,
        rs_observed_at = now, rs_evidence =
          [(''diagnostic'', JStr (take 4096 diagnostic)), (''blind_retry'', JBool False)]\<rparr>)))"

definition ambiguous_raise :: "backend_env \<Rightarrow> link \<Rightarrow> attempt \<Rightarrow> string \<Rightarrow> string \<Rightarrow> 'a local" where
  "ambiguous_raise env l execution remote_staging diagnostic =
     bindE (record_ambiguous env l execution remote_staging diagnostic) (\<lambda>_.
     raiseE (LBackend (AmbiguousSubmission
       ''submission truth is ambiguous; Bourne did not resubmit'')))"

text \<open>What follows from the reply to the submission, or to the question that took its place.\<close>

definition submission_reply :: "backend_env \<Rightarrow> link \<Rightarrow> attempt \<Rightarrow> string \<Rightarrow> reply \<Rightarrow> submission local" where
  "submission_reply env l execution remote_staging r =
     (case r of (answer, data) \<Rightarrow>
        if answer \<in> {''ambiguous'', ''unknown''}
        then ambiguous_raise env l execution remote_staging
          (site_text l (jget_or data ''diagnostic'' (JStr ''remote submission truth is incomplete'')))
        else if answer \<noteq> ''ok'' \<or> \<not> is_str (jget data ''job_id'')
        then
          let diagnostic = site_text l
            (jget_or data ''diagnostic'' (JStr ''remote scheduler rejected submission'')) in
          bindE (set_stateE env (at_id execution) ''failed''
            [(''phase'', JStr ''remote_submission''), (''diagnostic'', JStr diagnostic)]
            (Some diagnostic)) (\<lambda>_.
          backend_raise diagnostic)
        else record_remote_submission env l execution data remote_staging)"

definition execution_payload :: "string \<Rightarrow> string \<Rightarrow> json dict" where
  "execution_payload k remote_staging =
     [(''execution_id'', JStr k), (''staging_directory'', JStr remote_staging)]"

definition submit_remote :: "backend_env \<Rightarrow> link \<Rightarrow> attempt \<Rightarrow> string \<Rightarrow> submission local" where
  "submit_remote env l execution remote_staging =
     (let payload = execution_payload (at_id execution) remote_staging in
      bindE
        (try_transport (remote_call l (Operation Submit) payload)
          (\<lambda>lost. try_transport (remote_call l (Operation Reconcile) payload)
             (\<lambda>_. ambiguous_raise env l execution remote_staging lost)))
        (submission_reply env l execution remote_staging))"

section \<open>Staging\<close>

definition ends_with :: "string \<Rightarrow> string \<Rightarrow> bool" where
  "ends_with t s \<longleftrightarrow> length t \<le> length s \<and> drop (length s - length t) s = t"

fun has_text :: "string \<Rightarrow> string \<Rightarrow> bool" where
  "has_text t [] = (t = [])"
| "has_text t (c # s) = (starts_with t (c # s) \<or> has_text t s)"

definition removeprefix :: "string \<Rightarrow> string \<Rightarrow> string" where
  "removeprefix t s = (if starts_with t s then drop (length t) s else s)"

text \<open>The plan's path of its variant, and what the site is told of it.\<close>

definition variant_payload :: "link \<Rightarrow> plan \<Rightarrow> (local_error, (string \<times> string \<times> string) option) res" where
  "variant_payload l p =
     (case pl_variant_id p of
        None \<Rightarrow> Inr None
      | Some i \<Rightarrow>
          (case find (\<lambda>(j, _). j = i) (lk_variants l) of
             None \<Rightarrow> Inl LOther
           | Some (_, derived, digest) \<Rightarrow>
               (case find (\<lambda>v. ends_with (''/'' @ path_name (path_of derived)) v \<and>
                     has_text (''/.bourne/variants/'' @ i @ ''/'') v)
                   ([pl_executable p] @ pl_arguments p @ pl_inputs p) of
                  None \<Rightarrow> Inl (LBackend (BackendError ''immutable plan does not reference its remote variant''))
                | Some remote \<Rightarrow> Inr (Some (derived, remote, removeprefix ''sha256:'' digest)))))"

definition variant_json :: "(string \<times> string \<times> string) option \<Rightarrow> json" where
  "variant_json v = opt_json (\<lambda>(_, remote, digest).
     JObj [(''remote_path'', JStr remote), (''sha256'', JStr digest)]) v"

definition validation_payload :: "plan \<Rightarrow> workload \<Rightarrow> request option \<Rightarrow> json dict" where
  "validation_payload p w request =
     [(''plan'', JObj (plan_to_dict p)), (''workload'', JObj (workload_to_dict w)),
      (''request'', opt_json (JObj \<circ> request_to_dict) request)]"

definition validate_remotely :: "link \<Rightarrow> plan \<Rightarrow> workload \<Rightarrow> request option \<Rightarrow> unit local" where
  "validate_remotely l p w request =
     bindE (remote_call l ValidatePlan (validation_payload p w request)) (\<lambda>(answer, data).
     if answer \<noteq> ''ok'' \<or> \<not> truthy (jget data ''valid'')
     then
       bindE (liftE (mapErr LRaised (joined_texts (jget_or data ''problems'' (JArr []))))) (\<lambda>problems.
       backend_raise (''remote plan validation failed: '' @ problems))
     else retE ())"

definition remote_files :: "string list" where
  "remote_files = [''worker.pyz'', ''plan.json'', ''job.sh'']"

text \<open>The files of the execution, as they are on this machine.\<close>

definition stage_locally :: "backend_env \<Rightarrow> attempt \<Rightarrow> plan \<Rightarrow> workload \<Rightarrow> request option \<Rightarrow> inventory \<Rightarrow>
    string \<Rightarrow> unit local" where
  "stage_locally env execution p w request inventory remote_staging =
     (let staging = staging_directory env execution; remote = path_of remote_staging in
      bindE (make_staging env staging) (\<lambda>_.
      bindE (write_file env (path_join staging ''worker.pyz'') (be_worker env)) (\<lambda>_.
      bindE (liftE (mapErr LRaised (write_staged_plan (be_float env) (at_id execution) p w request)))
        (\<lambda>document.
      bindE (write_file env (path_join staging ''plan.json'') document) (\<lambda>_.
      bindE (liftE (mapErr LBackend (target_name_of p inventory))) (\<lambda>target_name.
      bindE (liftE (mapErr LRaised (render_batch_script (pl_backend p) p
        (path_str (path_join remote ''worker.pyz'')) (path_str (path_join remote ''plan.json''))
        (path_str (path_join remote ''result.json'')) (at_id execution) target_name))) (\<lambda>script.
      write_file env (path_join staging ''job.sh'') (utf8_encode script))))))))"

definition staged_digests :: "backend_env \<Rightarrow> link \<Rightarrow> attempt \<Rightarrow> json dict local" where
  "staged_digests env l execution = readE (\<lambda>c.
     mapM (\<lambda>name. case ct_files c (path_join (staging_directory env execution) name) of
         None \<Rightarrow> Inl LIO | Some b \<Rightarrow> Inr (name, JStr (lk_sha256 l b))) remote_files)"

definition prepare_payload :: "link \<Rightarrow> string \<Rightarrow> string \<Rightarrow> string \<Rightarrow> json dict \<Rightarrow> json \<Rightarrow> json dict" where
  "prepare_payload l k family project digests variant =
     [(''execution_id'', JStr k), (''staging_root'', JStr project),
      (''scheduler_family'', JStr family), (''expected_files'', JObj digests),
      (''variant'', variant)]"

definition prepare_remote :: "link \<Rightarrow> string \<Rightarrow> string \<Rightarrow> string \<Rightarrow> json dict \<Rightarrow> json \<Rightarrow> string \<Rightarrow>
    unit local" where
  "prepare_remote l k family project digests variant remote_staging =
     bindE (remote_call l (Operation Prepare) (prepare_payload l k family project digests variant))
       (\<lambda>(answer, data).
     if answer \<noteq> ''ok'' then backend_raise ''remote execution staging could not be prepared''
     else if jget data ''staging_directory'' \<noteq> JStr remote_staging
     then backend_raise ''remote worker returned an unexpected staging directory''
     else retE ())"

definition record_prepared :: "backend_env \<Rightarrow> link \<Rightarrow> attempt \<Rightarrow> plan \<Rightarrow> string \<Rightarrow> unit local" where
  "record_prepared env l execution p remote_staging =
     (let k = at_id execution in
      bindE (commitE env (\<lambda>_ now. set_staging_directory k
        (path_str (staging_directory env execution)) now)) (\<lambda>_.
      bindE (set_stateE env k ''prepared''
        [(''site_id'', JStr (st_id (lk_site l))), (''remote_staging_directory'', JStr remote_staging),
         (''compute_visibility'', JStr ''unknown'')] None) (\<lambda>_.
      bindE (clockE env) (\<lambda>now.
      save_row \<lparr>rs_execution = k, rs_site = st_id (lk_site l), rs_state = ''prepared'',
        rs_staging = Some remote_staging, rs_family = Some (pl_backend p), rs_job = None,
        rs_observed_at = now, rs_evidence = [(''remote_worker'', JStr ''typed_one_shot'')]\<rparr>))))"

fun upload_files :: "backend_env \<Rightarrow> link \<Rightarrow> attempt \<Rightarrow> string \<Rightarrow> string list \<Rightarrow> unit local" where
  "upload_files env l execution remote_staging [] = retE ()"
| "upload_files env l execution remote_staging (name # names) =
     bindE (upload l (path_join (staging_directory env execution) name)
       (remote_staging @ ''/'' @ name)) (\<lambda>_.
     upload_files env l execution remote_staging names)"

definition upload_variant :: "link \<Rightarrow> (string \<times> string \<times> string) option \<Rightarrow> unit local" where
  "upload_variant l v =
     (case v of None \<Rightarrow> retE () | Some (derived, remote, _) \<Rightarrow> upload l (path_of derived) remote)"

definition remote_staging_of :: "string \<Rightarrow> string \<Rightarrow> string" where
  "remote_staging_of project k =
     path_str (path_join (path_join (path_join (path_of project) ''.bourne'') ''executions'') k)"

text \<open>\<open>execute\<close>, up to the submission.\<close>

definition stage_remotely :: "backend_env \<Rightarrow> link \<Rightarrow> attempt \<Rightarrow> plan \<Rightarrow> workload \<Rightarrow> inventory \<Rightarrow> string \<Rightarrow>
    string local" where
  "stage_remotely env l execution p w inventory project =
     (let k = at_id execution; remote_staging = remote_staging_of project k in
      bindE (storeE (\<lambda>s. Inr (request_for_workload (w_id w) s))) (\<lambda>request.
      bindE (validate_remotely l p w request) (\<lambda>_.
      bindE (stage_locally env execution p w request inventory remote_staging) (\<lambda>_.
      bindE (staged_digests env l execution) (\<lambda>digests.
      bindE (liftE (variant_payload l p)) (\<lambda>variant.
      bindE (prepare_remote l k (pl_backend p) project digests (variant_json variant) remote_staging) (\<lambda>_.
      bindE (record_prepared env l execution p remote_staging) (\<lambda>_.
      bindE (upload_files env l execution remote_staging remote_files) (\<lambda>_.
      bindE (upload_variant l variant) (\<lambda>_.
      retE remote_staging))))))))))"

definition remote_submit :: "backend_env \<Rightarrow> link \<Rightarrow> attempt \<Rightarrow> plan \<Rightarrow> workload \<Rightarrow> inventory \<Rightarrow>
    submission local" where
  "remote_submit env l execution p w inventory =
     (if pl_site_id p \<noteq> Some (st_id (lk_site l))
      then backend_raise ''remote plan site does not match the selected transport''
      else if pl_backend p \<notin> set families
      then backend_raise ''remote execution requires Slurm, PBS, or LSF''
      else
        (case st_remote_root (lk_site l) of
           None \<Rightarrow> backend_raise ''remote site has no configured project/staging root''
         | Some project \<Rightarrow>
             bindE (stage_remotely env l execution p w inventory project)
               (submit_remote env l execution)))"

definition remote_execute :: "backend_env \<Rightarrow> link \<Rightarrow> attempt \<Rightarrow> plan \<Rightarrow> workload \<Rightarrow> inventory \<Rightarrow>
    execution_outcome local" where
  "remote_execute env l execution p w inventory =
     bindE (remote_submit env l execution p w inventory) (\<lambda>s. retE (Submitted s))"

section \<open>Reconciliation\<close>

definition remote_record :: "string \<Rightarrow> remote_row local" where
  "remote_record k = readE (\<lambda>c.
     case remote_state k c of
       None \<Rightarrow> Inl (LBackend (BackendError ''execution has no remote reconciliation state''))
     | Some r \<Rightarrow>
         if rs_staging r = None \<or> rs_staging r = Some []
         then Inl (LBackend (BackendError ''execution has no remote reconciliation state''))
         else Inr r)"

definition reconciled_state :: "string \<Rightarrow> string" where
  "reconciled_state scheduler_state =
     (if scheduler_state \<in> {''unobservable'', ''unknown'', ''scheduler_uncertain''}
      then ''scheduler_unobservable''
      else if scheduler_state \<in> {''pending'', ''queued'', ''configuring''} then ''queued''
      else if scheduler_state \<in> {''running'', ''completing''} then ''running''
      else ''scheduler_terminal'')"

definition record_job :: "backend_env \<Rightarrow> link \<Rightarrow> attempt \<Rightarrow> string \<Rightarrow> string \<Rightarrow> json dict \<Rightarrow>
    string \<Rightarrow> unit local" where
  "record_job env l execution now job_id data scheduler_state =
     (let k = at_id execution; family = at_backend execution in
      bindE (storeE (\<lambda>s. Inr (get_scheduler_job k s))) (\<lambda>known_job.
      case known_job of
        None \<Rightarrow>
          bindE (commitE env (\<lambda>_ _. save_scheduler_job
            \<lparr>j_execution = k, j_family = family, j_job_id = job_id,
             j_identity = identity_text l data, j_submitted_at = submitted_text l now data,
             j_state = scheduler_state, j_observed_at = now\<rparr>)) (\<lambda>_.
          state_at env k now (reconciled_state scheduler_state)
            [(''submission_recovered_by_reconciliation'', JBool True),
             (''scheduler_family'', JStr family), (''job_id'', JStr job_id)] None)
      | Some _ \<Rightarrow> commitE env (\<lambda>_ _. update_scheduler_job k scheduler_state now)))"

definition record_reconciliation :: "backend_env \<Rightarrow> link \<Rightarrow> attempt \<Rightarrow> string \<Rightarrow> json dict \<Rightarrow>
    unit local" where
  "record_reconciliation env l execution answer data =
     (let k = at_id execution in
      bindE (clockE env) (\<lambda>now.
      bindE
        (case (jget data ''scheduler'', jget data ''job_id'') of
           (JObj scheduler, JStr job_id) \<Rightarrow>
             bindE (record_job env l execution now job_id data
               (site_text l (jget_or scheduler ''state'' (JStr ''unknown'')))) (\<lambda>_.
             commitE env (\<lambda>i _. record_execution_event i k ''remote_reconciled'' now
               [(''site_id'', JStr (st_id (lk_site l))), (''remote_status'', JStr answer),
                (''scheduler'', JObj scheduler),
                (''result_state'', jget_or data ''result_state'' (JStr ''unknown''))]))
         | _ \<Rightarrow> retE ()) (\<lambda>_.
      bindE (remote_record k) (\<lambda>remote.
      save_row \<lparr>rs_execution = k, rs_site = st_id (lk_site l),
        rs_state = site_text l (jget_or data ''state'' (JStr answer)), rs_staging = rs_staging remote,
        rs_family = Some (at_backend execution),
        rs_job = (if jget data ''job_id'' = JNull then None else Some (site_text l (jget data ''job_id''))),
        rs_observed_at = now, rs_evidence = data\<rparr>))))"

section \<open>Collecting\<close>

definition remote_collect :: "backend_env \<Rightarrow> link \<Rightarrow> attempt \<Rightarrow> worker_result local" where
  "remote_collect env l execution =
     (let k = at_id execution in
      bindE (remote_record k) (\<lambda>remote.
      bindE (remote_call l (Operation Reconcile) (execution_payload k (the (rs_staging remote))))
        (\<lambda>(answer, data).
      bindE (record_reconciliation env l execution answer data) (\<lambda>_.
      case jget data ''result'' of
        JObj raw \<Rightarrow>
          bindE (liftE (mapErr of_result_error (parse_worker_result (JObj raw) k))) (\<lambda>r.
          bindE (storeE (get_plan (at_plan execution))) (\<lambda>p.
          bindE (liftE (mapErr LBackend (validate_result_against_plan r p))) (\<lambda>_.
          bindE (storeE (\<lambda>s. Inr (experiment_id k s))) (\<lambda>existing.
          case existing of
            Some imported \<Rightarrow>
              if map_option ex_id (wr_experiment r) \<noteq> Some imported
              then backend_raise ''remote result conflicts with imported experiment''
              else retE r
          | None \<Rightarrow> bindE (import_result env r) (\<lambda>_. retE r)))))
      | _ \<Rightarrow> backend_raise ''remote worker result is not currently available''))))"

section \<open>Waiting\<close>

definition remote_terminal_states :: "string \<Rightarrow> string list" where
  "remote_terminal_states family =
     (if family = ''lsf'' then LSF_TERMINAL_STATES
      else [''completed'', ''failed'', ''cancelled'', ''finished'', ''timeout'', ''node_fail'',
            ''out_of_memory'', ''preempted''])"

definition remote_outcome :: "string \<Rightarrow> bool \<Rightarrow> string" where
  "remote_outcome state partial =
     (if state = ''cancelled'' then ''scheduler_cancelled''
      else if state = ''timeout'' then ''scheduler_timeout''
      else if state = ''node_fail'' then ''node_failure''
      else if state = ''out_of_memory'' then ''out_of_memory''
      else if partial then ''result_bundle_partial'' else ''result_bundle_missing'')"

definition remote_collection_details :: "string \<Rightarrow> bool \<Rightarrow> json dict" where
  "remote_collection_details state partial =
     [(''scientific_completion_established'', JBool False), (''scheduler_state'', JStr state),
      (''result_bundle'', JStr (if partial then ''invalid'' else ''absent'')),
      (''termination_phase'', JStr ''scheduler''),
      (''termination_outcome'', JStr (remote_outcome state partial)),
      (''result_evidence'', JStr (if partial then ''partial'' else ''missing'')),
      (''telemetry_evidence'', JStr ''unavailable'')]"

text \<open>The scheduler's state in the last evidence of the site.\<close>

definition evidence_state :: "remote_row option \<Rightarrow> json" where
  "evidence_state remote =
     (case remote of
        None \<Rightarrow> JNull
      | Some r \<Rightarrow>
          (case jget_or (rs_evidence r) ''scheduler'' (JObj []) of
             JObj scheduler \<Rightarrow> jget scheduler ''state'' | _ \<Rightarrow> JNull))"

text \<open>The handler of a round that collected nothing: the wait ends when the job has ended.\<close>

definition uncollected :: "backend_env \<Rightarrow> attempt \<Rightarrow> local_error \<Rightarrow> worker_result option local" where
  "uncollected env execution e =
     (let k = at_id execution in
      bindE (readE (\<lambda>c. Inr (remote_state k c))) (\<lambda>remote.
      let state = evidence_state remote;
          partial = (case remote of None \<Rightarrow> False
            | Some r \<Rightarrow> jget (rs_evidence r) ''result_state'' = JStr ''invalid'') in
      if \<not> hashable state then raiseE (LRaised PyTypeError)
      else if is_str state \<and> the_str state \<in> set (remote_terminal_states (at_backend execution))
      then
        bindE (set_stateE env k ''collection_failed''
          (remote_collection_details (the_str state) partial) (Some (error_text env e))) (\<lambda>_.
        backend_raise (''scientific completion was not established: '' @ error_text env e))
      else retE None))"

definition try_remote_collect :: "backend_env \<Rightarrow> link \<Rightarrow> attempt \<Rightarrow> attempt \<Rightarrow>
    worker_result option local" where
  "try_remote_collect env l execution current =
     catchE (bindE (remote_collect env l current) (\<lambda>r. retE (Some r)))
       (\<lambda>e. if backend_failure e then uncollected env execution e else raiseE e)"

primrec remote_wait_loop :: "nat \<Rightarrow> backend_env \<Rightarrow> link \<Rightarrow> attempt \<Rightarrow> rat option \<Rightarrow> rat \<Rightarrow> rat \<Rightarrow>
    worker_result option local" where
  "remote_wait_loop 0 env l execution timeout started delay = retE None"
| "remote_wait_loop (Suc n) env l execution timeout started delay =
     bindE (storeE (get_execution (at_id execution))) (\<lambda>current.
     bindE (try_remote_collect env l execution current) (\<lambda>collected.
     case collected of
       Some r \<Rightarrow> retE (Some r)
     | None \<Rightarrow>
         bindE (readE (\<lambda>c. Inr (ct_time c))) (\<lambda>now.
         if (case timeout of None \<Rightarrow> False | Some t \<Rightarrow> now - started \<ge> t)
         then raiseE (LTimeout (''timed out waiting for execution '' @ at_id execution))
         else
           bindE (writeE (be_sleep env delay)) (\<lambda>_.
           remote_wait_loop n env l execution timeout started (min 60 (delay * 3 / 2))))))"

definition remote_wait :: "nat \<Rightarrow> backend_env \<Rightarrow> link \<Rightarrow> attempt \<Rightarrow> rat \<Rightarrow> rat option \<Rightarrow>
    worker_result option local" where
  "remote_wait rounds env l execution poll timeout =
     bindE (readE (\<lambda>c. Inr (ct_time c))) (\<lambda>started.
     remote_wait_loop rounds env l execution timeout started (max (1 / 20) (min 60 poll)))"

section \<open>Cancelling\<close>

definition remote_cancel :: "backend_env \<Rightarrow> link \<Rightarrow> attempt \<Rightarrow> unit local" where
  "remote_cancel env l execution =
     (let k = at_id execution in
      bindE (remote_record k) (\<lambda>remote.
      bindE (remote_call l (Operation Cancel) (execution_payload k (the (rs_staging remote))))
        (\<lambda>(answer, data).
      if answer \<noteq> ''ok'' then backend_raise ''remote scheduler cancellation was not established''
      else
        bindE (clockE env) (\<lambda>now.
        bindE (commitE env (\<lambda>_ _. update_scheduler_job k ''cancelled'' now)) (\<lambda>_.
        bindE (state_at env k now ''cancelled'' data None) (\<lambda>_.
        save_row \<lparr>rs_execution = k, rs_site = st_id (lk_site l), rs_state = ''cancelled'',
          rs_staging = rs_staging remote, rs_family = Some (at_backend execution),
          rs_job = (case jget data ''job_id'' of JNull \<Rightarrow> None | v \<Rightarrow> Some (site_text l v)),
          rs_observed_at = now, rs_evidence = data\<rparr>))))))"

end
