(* ===== verification/RemoteReplies.thy ===== *)
theory RemoteReplies
  imports RemotePrepare RemoteBackend
begin

text \<open>
  What the replies of a site's worker say of the site: a submission that was accepted has its job on
  record, and one that was refused has none. Only a result file that cannot be read makes the worker
  answer a question about a recorded job as if it had been refused.
\<close>

section \<open>Paths and their texts\<close>

lemma split_on_free: "list_all (\<lambda>c. sep \<notin> set c) (split_on sep s)"
proof (induction s)
  case (Cons x s)
  then show ?case by (cases "split_on sep s") auto
qed simp

definition component :: "string \<Rightarrow> bool" where
  "component c \<longleftrightarrow> c \<noteq> [] \<and> c \<noteq> ''.'' \<and> CHR ''/'' \<notin> set c"

lemma component_part: "component c \<Longrightarrow> c \<noteq> [] \<and> c \<noteq> ''.''"
  unfolding component_def by blast

lemma component_free: "component c \<Longrightarrow> CHR ''/'' \<notin> set c"
  unfolding component_def by blast

lemma path_of_component_ok:
  assumes "c \<in> set (p_parts (path_of s))"
  shows "component c"
proof -
  have "c \<in> set (split_on (CHR ''/'') s) \<and> c \<noteq> [] \<and> c \<noteq> ''.''"
    using assms unfolding path_of_def ppath.simps set_filter mem_Collect_eq .
  moreover have "\<forall>c \<in> set (split_on (CHR ''/'') s). CHR ''/'' \<notin> set c"
    using split_on_free unfolding list_all_iff .
  ultimately show ?thesis unfolding component_def by blast
qed

lemma split_root:
  "r = ''/'' \<or> r = ''//'' \<Longrightarrow>
     split_on (CHR ''/'') (r @ s) = replicate (length r) [] @ split_on (CHR ''/'') s"
  by (elim disjE) simp_all

lemma join_start: "\<forall>c \<in> set xs. component c \<Longrightarrow> \<not> starts_with ''/'' (join ''/'' xs)"
proof (cases xs)
  case (Cons c cs)
  assume "\<forall>c \<in> set xs. component c"
  then have c: "c \<noteq> []" "CHR ''/'' \<notin> set c"
    using Cons component_part component_free by (metis list.set_intros(1))+
  then obtain x c' where x: "c = x # c'" by (cases c) auto
  have "x \<noteq> CHR ''/''" using c(2) unfolding x list.set by blast
  moreover have "\<exists>t. join ''/'' xs = x # t" unfolding Cons x by (cases cs) (simp_all add: join_def)
  ultimately show ?thesis by (auto simp only: starts_with_iff append_Cons list.inject)
qed (simp add: join_def starts_with_iff)

lemma path_of_absolute:
  assumes "\<forall>c \<in> set xs. component c" and "r = ''/'' \<or> r = ''//''"
  shows "path_of (r @ join ''/'' xs) = \<lparr>p_root = r, p_parts = xs\<rparr>"
proof -
  have parts: "filter (\<lambda>c. c \<noteq> [] \<and> c \<noteq> ''.'') (split_on (CHR ''/'') (join ''/'' xs)) = xs"
  proof (cases "xs = []")
    case False
    have "split_on (CHR ''/'') (join ''/'' xs) = xs"
      by (rule split_on_join [OF False]) (use assms(1) component_free in \<open>unfold list_all_iff, blast\<close>)
    moreover have "filter (\<lambda>c. c \<noteq> [] \<and> c \<noteq> ''.'') xs = xs"
      using assms(1) component_part by (intro filter_True) blast
    ultimately show ?thesis by simp
  qed (simp add: join_def)
  have start: "path_root (r @ join ''/'' xs) = r"
    using assms(2) join_start [OF assms(1)] by (auto simp: path_root_def starts_with_def)
  show ?thesis
    unfolding path_of_def split_root [OF assms(2)] filter_append parts start by simp
qed

lemma path_of_path_str:
  assumes "\<forall>c \<in> set (p_parts p). component c" and "p_root p = ''/'' \<or> p_root p = ''//''"
  shows "path_of (path_str p) = p"
proof -
  have "path_str p = p_root p @ join ''/'' (p_parts p)" using assms(2) by (auto simp: path_str_def)
  then show ?thesis using path_of_absolute [OF assms] by simp
qed

section \<open>The state file of an execution at a site\<close>

definition project_of :: "link \<Rightarrow> string" where
  "project_of l = (case st_remote_root (lk_site l) of None \<Rightarrow> [] | Some r \<Rightarrow> r)"

definition state_file :: "link \<Rightarrow> string \<Rightarrow> ppath" where
  "state_file l k = path_join (path_of (remote_staging_of (project_of l) k)) ''submission-state.json''"

lemma absolute_path_Inr:
  "absolute_path (JStr s) label = Inr p \<Longrightarrow> p = path_of s \<and> starts_with ''/'' s"
  by (auto simp: absolute_path_def Let_def split: if_splits)

lemma execution_of_Inr: "execution_of payload = Inr k \<Longrightarrow>
    jget payload ''execution_id'' = JStr k \<and> fullmatch EXECUTION_ID k"
  by (auto simp: execution_of_def split: json.splits if_splits)

lemma execution_id_component:
  assumes "fullmatch EXECUTION_ID k"
  shows "component k"
proof -
  have k: "length k = 26" "\<forall>c \<in> set k. is_digit c \<or> is_upper c"
    using assms by (auto simp: fullmatch_EXECUTION_ID list_all_iff)
  have "\<not> is_digit (CHR ''/'')" "\<not> is_upper (CHR ''/'')"
    by (simp_all add: is_digit_def is_upper_def code_point_def)
  with k(2) have "CHR ''/'' \<notin> set k" by blast
  moreover have "k \<noteq> []" "k \<noteq> ''.''" using k(1) by auto
  ultimately show ?thesis by (simp only: component_def simp_thms)
qed

text \<open>The directory the worker prepares is the one the controller names.\<close>

lemma component_names: "component ''.bourne''" "component ''executions''"
  by (simp_all add: component_def)

lemma staging_of_text:
  assumes "fullmatch EXECUTION_ID k" and "starts_with ''/'' project"
  shows "staging_of (path_of project) k = path_of (remote_staging_of project k)"
proof -
  let ?p = "staging_of (path_of project) k" and ?q = "path_of project"
  have k: "component k" using execution_id_component [OF assms(1)] .
  have join: "path_join p c = p\<lparr>p_parts := p_parts p @ [c]\<rparr>" if "component c" for p c
    using path_join_component component_part [OF that] component_free [OF that] by blast
  have p: "?p = ?q\<lparr>p_parts := p_parts ?q @ [''.bourne'', ''executions'', k]\<rparr>"
    by (simp add: staging_of_def join k component_names)
  have "path_of (path_str ?p) = ?p"
  proof (rule path_of_path_str)
    show "\<forall>c \<in> set (p_parts ?p). component c"
      using path_of_component_ok [of _ project] k component_names by (simp add: p ball_Un)
    show "p_root ?p = ''/'' \<or> p_root ?p = ''//''"
      unfolding p using assms(2) by (simp add: path_of_def path_root_def)
  qed
  then show ?thesis by (simp add: remote_staging_of_def staging_of_def)
qed

lemma staging_state_file:
  assumes "execution_of (prepare_payload l k family (project_of l) digests v) = Inr x"
    and "absolute_path (jget (prepare_payload l k family (project_of l) digests v) ''staging_root'') label = Inr p"
  shows "path_join (staging_of p x) ''submission-state.json'' = state_file l k"
proof -
  have "x = k" "fullmatch EXECUTION_ID k"
    using execution_of_Inr [OF assms(1)] by (simp_all add: prepare_payload_def jget_def)
  moreover have "p = path_of (project_of l)" "starts_with ''/'' (project_of l)"
    using absolute_path_Inr [of "project_of l" label p] assms(2)
    by (simp_all add: prepare_payload_def jget_def)
  ultimately show ?thesis by (simp add: state_file_def staging_of_text)
qed

lemma state_of_path:
  "trip P (state_of (execution_payload k staging) x)
     (\<lambda>(sp, d) h. P h \<and> sp = path_join (path_of staging) ''submission-state.json'' \<and>
        h_state h sp = Some (Holds (JObj d))) (\<lambda>_. True)"
proof -
  have payload: "jget (execution_payload k staging) ''staging_directory'' = JStr staging"
    by (simp add: execution_payload_def jget_def)
  have path: "p = path_of staging" if "absolute_path (JStr staging) label = Inr p" for p label
    using absolute_path_Inr [OF that] by simp
  show ?thesis
    unfolding state_of_def Let_def payload
    by (intro trip_bind_lift trip_if trip_raise trip_bind [where Q = "\<lambda>d h. P h \<and>
          h_state h (path_join (path_of staging) ''submission-state.json'') = Some (Holds (JObj d))"] trip_ret)
      (auto simp: trip_def read_state_def readE_def dest: path
        split: option.splits file_state.splits json.splits if_splits)
qed

lemma trip_bind_state_of_path:
  assumes "\<And>d. trip (\<lambda>h. P h \<and> h_state h (path_join (path_of staging) ''submission-state.json'') =
      Some (Holds (JObj d))) (f (path_join (path_of staging) ''submission-state.json'', d)) S (\<lambda>_. True)"
  shows "trip P (bindE (state_of (execution_payload k staging) x) f) S (\<lambda>_. True)"
proof (rule trip_bind [OF state_of_path], clarsimp split: prod.split)
  fix sp :: ppath and d
  show "trip (\<lambda>h. P h \<and> sp = path_join (path_of staging) ''submission-state.json'' \<and>
      h_state h sp = Some (Holds (JObj d))) (f (sp, d)) S (\<lambda>_. True)"
  proof (cases "sp = path_join (path_of staging) ''submission-state.json''")
    case True
    then show ?thesis using assms [of d] by simp
  qed (simp add: trip_def)
qed

section \<open>What a reply means\<close>

text \<open>A result file of an execution that the worker cannot hand back.\<close>

definition unreadable_result :: "renv \<Rightarrow> host \<Rightarrow> bool" where
  "unreadable_result env h \<longleftrightarrow> (\<exists>p b. h_blob h (path_join p ''result.json'') = Some b \<and>
     (length b > MAX_RESULT_RETURN_BYTES \<or> e_loads env b = None))"

definition no_job :: "ppath \<Rightarrow> host \<Rightarrow> bool" where
  "no_job sp h \<longleftrightarrow> (\<forall>j. \<not> job_recorded sp j h)"

definition truthful :: "renv \<Rightarrow> ppath \<Rightarrow> reply \<Rightarrow> host \<Rightarrow> bool" where
  "truthful env sp r h \<longleftrightarrow>
     (fst r = ''ok'' \<longrightarrow> is_str (jget (snd r) ''job_id'') \<longrightarrow>
        job_recorded sp (the_str (jget (snd r) ''job_id'')) h) \<and>
     (fst r \<notin> {''ambiguous'', ''unknown''} \<longrightarrow> fst r \<noteq> ''ok'' \<or> \<not> is_str (jget (snd r) ''job_id'') \<longrightarrow>
        no_job sp h \<or> unreadable_result env h)"

text \<open>The state before a submission: whatever file there is says prepared, and names no job.\<close>

definition unsent :: "ppath \<Rightarrow> host \<Rightarrow> bool" where
  "unsent sp h \<longleftrightarrow> ledger sp None h \<and>
     (\<forall>d. h_state h sp = Some (Holds (JObj d)) \<longrightarrow> dict_get d ''state'' = Some (JStr ''prepared''))"

lemma unsent_ledger: "unsent sp h \<Longrightarrow> ledger sp None h"
  by (simp add: unsent_def)

lemma unsent_no_job_id:
  assumes "unsent sp h" and "h_state h sp = Some (Holds (JObj d))"
  shows "dict_get d ''job_id'' = None"
proof -
  have "entry_ok None d (submits sp h)" "dict_get d ''state'' = Some (JStr ''prepared'')"
    using assms by (simp_all add: unsent_def ledger_def)
  then show ?thesis by (rule entry_ok_no_job) simp_all
qed

lemma unsent_no_job: "unsent sp h \<Longrightarrow> no_job sp h"
  using unsent_no_job_id by (fastforce simp: no_job_def job_recorded_def)

lemma unsent_submits: "unsent sp h \<Longrightarrow> submits sp h = 0"
  unfolding unsent_def ledger_def
  by (cases "(None :: string option, h_state h sp, submits sp h)" rule: view_ok.cases)
    (auto simp: entry_ok_def)

lemma unsent_fresh: "ledger sp None h \<Longrightarrow> h_state h sp = None \<Longrightarrow> unsent sp h"
  by (simp add: unsent_def)

lemma unsent_staged: "staged h h' \<Longrightarrow> unsent sp h' = unsent sp h"
  using ledger_cong [of h' sp h None] by (simp add: staged_def unsent_def submits_def)

section \<open>The replies\<close>

text \<open>Only the reply matters here: that every step keeps the ledger is known.\<close>

lemma trip_reply_write:
  assumes "\<And>h. h_state h sp = Some (Holds (JObj d')) \<Longrightarrow> truthful env sp y h"
  shows "trip P (bindE (write_state sp d') (\<lambda>_. retE y)) (truthful env sp) (\<lambda>_. True)"
  unfolding write_state_def
  by (rule trip_bind_write [where Q = "\<lambda>h. h_state h sp = Some (Holds (JObj d'))"])
    (auto intro!: trip_ret assms)

lemma no_job_written:
  "h_state h sp = Some (Holds (JObj d)) \<Longrightarrow> dict_get d ''job_id'' = None \<Longrightarrow> no_job sp h"
  by (simp add: no_job_def job_recorded_def)

lemma truthful_refusal: "no_job sp h \<Longrightarrow> answer \<noteq> ''ok'' \<Longrightarrow> truthful env sp (answer, data) h"
  by (simp add: truthful_def)

lemma truthful_unsure: "answer \<in> {''ambiguous'', ''unknown''} \<Longrightarrow> truthful env sp (answer, data) h"
  by (auto simp: truthful_def)

lemma dict_get_filter: "(\<And>v. Q (k, v)) \<Longrightarrow> dict_get (filter Q d) k = dict_get d k"
  by (induction d) auto

lemma public_job: "dict_get (public_state d) ''job_id'' = dict_get d ''job_id''"
  unfolding public_state_def by (rule dict_get_filter) simp

lemma with_state_job: "dict_get (with_state st now d) ''job_id'' = dict_get d ''job_id''"
  by (simp add: with_state_def)

lemma launch_truthful:
  assumes "dict_get d ''job_id'' = None"
  shows "trip P (launch env sp d family exe staging) (truthful env sp) (\<lambda>_. True)"
proof -
  let ?d1 = "with_state ''submitting'' (e_now env 0) d"
  have none: "dict_get ?d1 ''job_id'' = None" using assms by (simp add: with_state_job)
  have refused: "truthful env sp (answer, data) h"
    if "h_state h sp = Some (Holds (JObj (dict_set ''diagnostic'' v (with_state st now ?d1))))"
      "answer \<noteq> ''ok''" for answer data v st now h
    by (rule truthful_refusal [OF no_job_written [OF that(1)] that(2)]) (simp add: assms with_state_job)
  have accepted: "truthful env sp (''ok'', public_state d') h"
    if "h_state h sp = Some (Holds (JObj d'))" "dict_get d' ''job_id'' = Some (JStr j)" for d' h j
    using that by (simp add: truthful_def public_job jget_def job_recorded_def)
  have steps: "trip P (bindE (write_state sp ?d1) (\<lambda>_. bindE (submit_input family staging) (\<lambda>input.
      bindE (run_cmd env 0 (c input)) f))) S (\<lambda>_. True)"
    if "\<And>r. trip (\<lambda>_. True) (f r) S (\<lambda>_. True)" for P S c and f :: "cmd_result \<Rightarrow> reply worker"
    by (rule trip_bind [OF trip_True], simp, rule trip_bind [OF trip_True], simp,
        rule trip_bind [OF trip_True], simp, rule that)
  show ?thesis
    unfolding launch_def Let_def
    apply (rule steps, intro trip_if trip_option trip_reply_write)
       apply (rule truthful_unsure, simp)
      apply (erule refused, simp)
     apply (rule truthful_unsure, simp)
    apply (erule accepted, simp)
    done
qed

lemma trip_assume: "((\<exists>w. P w) \<Longrightarrow> trip P m Q R) \<Longrightarrow> trip P m Q R"
  by (cases "\<exists>w. P w") (simp_all add: trip_def)

lemma lift_bind: "bindE (liftE (Inr x)) f = f x"
  by (simp add: bindE_def liftE_def fun_eq_iff)

lemma unsent_item:
  "unsent sp h \<Longrightarrow> h_state h sp = Some (Holds (JObj d)) \<Longrightarrow> item d ''state'' = Inr (JStr ''prepared'')"
  by (simp add: unsent_def item_def)

lemma prepared_not_pending:
  "(JStr ''prepared'' = JStr ''submitted'') = False"
  "in_strings (JStr ''prepared'') [''submitting'', ''ambiguous''] = Inr False"
  by (simp_all add: in_strings_def)

lemma submit_truthful:
  "trip (unsent (state_file l k)) (submit env (execution_payload k' (remote_staging_of (project_of l) k)))
     (truthful env (state_file l k)) (\<lambda>_. True)"
proof -
  let ?sp = "state_file l k"
  let ?P = "\<lambda>d h. unsent ?sp h \<and> h_state h ?sp = Some (Holds (JObj d))"
  have refused: "truthful env ?sp (answer, data) h" if "?P d h" "answer \<noteq> ''ok''" for answer data h d
    using that by (intro truthful_refusal unsent_no_job) simp_all
  have unavailable: "truthful env ?sp (''unavailable'', data) h"
    if "dict_get d ''job_id'' = None"
      "h_state h ?sp = Some (Holds (JObj (dict_set ''diagnostic'' v (with_state st now d))))"
    for data h d v st now
    by (rule truthful_refusal [OF no_job_written [OF that(2)]]) (simp_all add: that(1) with_state_job)
  show ?thesis
    unfolding submit_def Let_def
    apply (intro trip_bind_lift)
     apply simp
    apply (rule trip_bind_state_of_path)
    apply (simp only: split_conv state_file_def [symmetric])
    apply (rule trip_assume)
    apply (elim exE conjE)
    apply (frule (1) unsent_no_job_id)
    apply (drule (1) unsent_item)
    apply (simp only: lift_bind prepared_not_pending if_False simp_thms)
    apply (intro trip_bind_lift trip_if trip_reply_write trip_ret trip_bind_read trip_option launch_truthful)
               apply (simp_all only: simp_thms)
      apply (elim conjE, rule refused, (erule conjI, assumption), simp)+
     apply (erule (1) unavailable)
    apply (elim conjE, rule refused, (erule conjI, assumption), simp)
    done
qed

lemma ledger_job_id:
  assumes "ledger sp None h" and "h_state h sp = Some (Holds (JObj d))" and "jget d ''job_id'' \<noteq> JNull"
  shows "\<exists>j. jget d ''job_id'' = JStr j \<and> job_recorded sp j h"
proof -
  have entry: "entry_ok None d (submits sp h)" using assms(1,2) by (simp add: ledger_def)
  obtain v where v: "dict_get d ''job_id'' = Some v"
    using assms(3) by (auto simp: jget_def split: option.splits)
  then obtain j where "v = JStr j" using entry unfolding entry_ok_def by blast
  then show ?thesis using v assms(2) by (simp add: jget_def job_recorded_def)
qed

lemma result_reply_job: "jget (snd (result_reply env data obs f)) ''job_id'' = jget data ''job_id''"
  by (simp add: result_reply_def jget_def split: option.split)

lemma result_reply_refusal:
  "fst (result_reply env data obs (h_blob h (path_join p ''result.json''))) \<notin> {''ok'', ''unknown''} \<Longrightarrow>
     unreadable_result env h"
  unfolding unreadable_result_def result_reply_def
  by (auto split: option.splits if_splits)

lemma result_reply_truthful:
  assumes "ledger sp None h" and "h_state h sp = Some (Holds (JObj d))" and "jget d ''job_id'' \<noteq> JNull"
    and data: "jget data ''job_id'' = jget d ''job_id''"
  shows "truthful env sp (result_reply env data obs (h_blob h (path_join p ''result.json''))) h"
proof -
  obtain j where j: "jget d ''job_id'' = JStr j" "job_recorded sp j h"
    using ledger_job_id [OF assms(1-3)] by blast
  then show ?thesis
    using result_reply_refusal [of env data obs h p]
    by (auto simp: truthful_def result_reply_job data)
qed

lemma reconcile_truthful:
  "trip (ledger (state_file l k) None)
     (reconcile env (execution_payload k' (remote_staging_of (project_of l) k)))
     (truthful env (state_file l k)) (\<lambda>_. True)"
proof -
  let ?sp = "state_file l k"
  have observed: "trip (opened ?sp None ?sp d) (scheduler_observation env d) (\<lambda>_. opened ?sp None ?sp d)
      (\<lambda>_. True)" for d
    by (rule trip_post [OF keeps_scheduler_observation]) auto
  have reply: "truthful env ?sp (result_reply env (dict_set ''scheduler'' x (public_state d)) obs content) h"
    if "opened ?sp None ?sp d h \<and> Inr (h_blob h (path_join p ''result.json'')) = Inr content"
      "jget d ''job_id'' \<noteq> JNull" for d x obs p content h
  proof -
    have content: "content = h_blob h (path_join p ''result.json'')" using that(1) by simp
    show ?thesis unfolding content
      by (rule result_reply_truthful [where d = d])
        (use that in \<open>auto simp: opened_def jget_def public_job\<close>)
  qed
  show ?thesis
    unfolding reconcile_def Let_def
    apply (intro trip_bind_lift)
     apply simp
    apply (rule trip_bind_state_of_path)
    apply (simp only: split_conv state_file_def [symmetric] opened_def [symmetric])
    apply (intro trip_bind_lift trip_if trip_reply_write trip_ret trip_bind [OF observed] trip_bind_read)
            apply (simp_all only: simp_thms)
      apply (rule truthful_unsure, simp)+
    apply (erule (1) reply)
    done
qed

lemma prepare_unsent:
  "trip (\<lambda>h. ledger (state_file l k) None h \<and> h_state h (state_file l k) = None)
     (prepare env (prepare_payload l k family (project_of l) digests v))
     (\<lambda>_. unsent (state_file l k)) (unsent (state_file l k))"
proof -
  let ?sp = "state_file l k" and ?payload = "prepare_payload l k family (project_of l) digests v"
  let ?P = "\<lambda>h. ledger ?sp None h \<and> h_state h ?sp = None"
  have P: "unsent ?sp h" if "?P h" for h using that unsent_fresh by blast
  have variant: "trip ?P (prepare_variant r x) (\<lambda>_. ?P) (unsent ?sp)" for r x
  proof (cases x)
    case (JObj d)
    show ?thesis
      unfolding prepare_variant_def JObj json.case
      by (intro trip_if trip_raise trip_bind_lift trip_write)
        (simp_all add: make_dirs_def ledger_dirs [unfolded make_dirs_def] unsent_fresh)
  qed (simp_all add: prepare_variant_def trip_def retE_def raiseE_def unsent_fresh)
  have new: "trip ?P (prepare_new env x f e w st ?sp) (\<lambda>_. unsent ?sp) (unsent ?sp)" for x f e w st
  proof -
    have "unsent ?sp (h\<lparr>h_state := (h_state h)(?sp := Some (Holds (JObj (new_state env x f st e w))))\<rparr>)"
      if "?P h" for h
      using ledger_write_new [of ?sp None h ?sp "new_state env x f st e w"] that
      by (auto simp: unsent_def entry_ok_new) (simp add: new_state_def)
    moreover have "?P (make_dirs st h)" if "?P h" for h using that by (simp add: make_dirs_def ledger_dirs [unfolded make_dirs_def])
    ultimately show ?thesis
      unfolding prepare_new_def write_state_def Let_def
      by (intro trip_bind_read trip_bind_write [where Q = ?P] trip_bind_write [where Q = "unsent ?sp"] trip_ret)
        (auto intro: P)
  qed
  have last: "trip ?P (bindE (readE (\<lambda>h. Inr (h_state h sp \<noteq> None))) (\<lambda>exists.
      if exists then bindE (read_state sp x) (prepare_retry f e w) else prepare_new env x f e w st sp))
      (\<lambda>_. unsent ?sp) (unsent ?sp)" if "sp = ?sp" for sp x f e w st
  proof (rule trip_bind_read)
    fix exists
    show "trip (\<lambda>h. ?P h \<and> Inr (h_state h sp \<noteq> None) = Inr exists)
        (if exists then bindE (read_state sp x) (prepare_retry f e w) else prepare_new env x f e w st sp)
        (\<lambda>_. unsent ?sp) (unsent ?sp)"
    proof (cases exists)
      case True
      then show ?thesis unfolding trip_def that by (intro allI impI) (elim conjE, simp only: option.distinct simp_thms sum.inject)
    next
      case False
      show ?thesis using False that by (auto intro: trip_pre [OF new])
    qed
  qed (auto intro: P)
  show ?thesis
    unfolding prepare_def Let_def
    by (intro trip_bind_lift trip_if trip_raise trip_bind [OF variant] last)
      (auto intro: P staging_state_file)
qed

text \<open>The statuses are those the controller accepts.\<close>

abbreviation answers :: "reply worker \<Rightarrow> bool" where
  "answers m \<equiv> trip (\<lambda>_. True) m (\<lambda>r _. fst r \<in> set response_statuses) (\<lambda>_. True)"

lemma answers_bind: "(\<And>x. answers (f x)) \<Longrightarrow> answers (bindE m f)"
  by (rule trip_bind [OF trip_True]) simp_all

lemma answers_ret: "fst r \<in> set response_statuses \<Longrightarrow> answers (retE r)"
  by (rule trip_ret) simp

lemma answers_raise: "answers (raiseE e)"
  by (rule trip_raise) simp

lemma result_reply_status: "fst (result_reply env data obs f) \<in> set response_statuses"
  by (simp add: result_reply_def response_statuses_def split: option.split)

lemmas answers_rules = answers_bind answers_ret answers_raise trip_if trip_option

lemma dispatch_status: "answers (dispatch env op payload)"
proof -
  have launch: "answers (launch env sp d family exe staging)" for sp d family exe staging
    unfolding launch_def Let_def by (intro answers_rules) (simp_all add: response_statuses_def)
  have new: "answers (prepare_new env x f e v st sp)" "answers (prepare_retry f e v d)" for x f e v st sp d
    unfolding prepare_new_def prepare_retry_def Let_def
    by (intro answers_rules; simp add: response_statuses_def)+
  have "answers (prepare env payload)"
    unfolding prepare_def Let_def by (intro answers_rules new)
  moreover have "answers (submit env payload)"
    unfolding submit_def Let_def case_prod_unfold
    by (intro answers_rules launch) (simp_all add: response_statuses_def)
  moreover have "answers (reconcile env payload)"
    unfolding reconcile_def Let_def case_prod_unfold
    by (intro answers_rules result_reply_status) (simp_all add: response_statuses_def)
  moreover have "answers (cancel env payload)"
    unfolding cancel_def Let_def case_prod_unfold
    by (intro answers_rules) (simp_all add: response_statuses_def)
  ultimately show ?thesis by (cases op) simp_all
qed

text \<open>What holds of the worker's operations holds of their dispatch, with a status that is accepted.\<close>

lemma trip_conj:
  assumes "trip P m Q R" and "trip P m Q' (\<lambda>_. True)"
  shows "trip P m (\<lambda>x h. Q x h \<and> Q' x h) R"
  using assms unfolding trip_def by (fastforce split: prod.splits)

lemma trip_worker_errors: "trip P m Q R \<Longrightarrow> trip P (worker_errors m) Q R"
  unfolding trip_def worker_errors_def by (fastforce simp: mapErr_def split: prod.splits sum.splits)

lemma operation_trip:
  assumes "trip P (dispatch (wk_env k) op payload) Q R"
  shows "trip P (remote_dispatch k (Operation op) payload)
    (\<lambda>r h. Q r h \<and> fst r \<in> set response_statuses) R"
proof -
  have "trip P (dispatch (wk_env k) op payload) (\<lambda>r h. Q r h \<and> fst r \<in> set response_statuses) R"
    by (rule trip_conj [OF assms]) (rule trip_pre [OF dispatch_status], simp)
  then show ?thesis by (simp add: trip_worker_errors)
qed

end
