(* ===== verification/RemoteConnection.thy ===== *)
theory RemoteConnection
  imports RemoteReplies SubmissionLedger
begin

text \<open>
  What the controller's calls over a connection do, whatever becomes of the commands: only the host of
  the site moves, through states the worker's operation passes, and every failure is a transport
  error. What is true of every durable state of an operation is true after the call.
\<close>

section \<open>The world of a connection\<close>

lemma site_host_put [simp]: "site_host l (put_host l c h) = h"
  by (simp add: site_host_def put_host_def)

lemma put_host_put [simp]: "put_host l (put_host l c h) h' = put_host l c h'"
  by (simp add: put_host_def)

lemma put_host_same [simp]: "put_host l c (site_host l c) = c"
  by (simp add: put_host_def site_host_def)

definition linked :: "link \<Rightarrow> controller \<Rightarrow> host \<Rightarrow> controller \<Rightarrow> bool" where
  "linked l c h c' \<longleftrightarrow> (\<exists>z. c' = (put_host l c h)\<lparr>ct_session := z\<rparr>)"

lemma linked_put: "linked l c h (put_host l c h)"
  unfolding linked_def by (rule exI [of _ "ct_session c"]) (simp add: put_host_def)

lemma linked_refl: "linked l c (site_host l c) c"
  using linked_put [of l c "site_host l c"] by simp

lemma linked_trans: "linked l c h c1 \<Longrightarrow> linked l c1 h' c2 \<Longrightarrow> linked l c h' c2"
  by (auto simp: linked_def put_host_def)

lemma linked_host: "linked l c h c' \<Longrightarrow> site_host l c' = h"
  by (auto simp: linked_def site_host_def put_host_def)

lemma linked_session: "linked l c h c' \<Longrightarrow> linked l c h (c'\<lparr>ct_session := z\<rparr>)"
  by (auto simp: linked_def)

definition is_transport :: "local_error \<Rightarrow> bool" where
  "is_transport e \<longleftrightarrow> (\<exists>m. e = LTransport m)"

lemma is_transport_simps [simp]: "is_transport (LTransport m)"
  by (simp add: is_transport_def)

lemma transport_error_is [simp]: "transport_error m = Inl e \<longleftrightarrow> e = LTransport m" "transport_error m \<noteq> Inr x"
  by (auto simp: transport_error_def)

lemma token_error: "validate_remote_token v label = Inl e \<Longrightarrow> is_transport e"
  by (auto simp: validate_remote_token_def split: if_splits)

lemma require_error: "require_remote_site s = Inl e \<Longrightarrow> is_transport e"
  by (auto simp: require_remote_site_def bindR_def dest: token_error split: if_splits option.splits sum.splits)

lemma require_destination: "require_remote_site s = Inr u \<Longrightarrow> \<exists>d. ssh_destination s = Inr d"
  by (auto simp: require_remote_site_def ssh_destination_def split: if_splits option.splits)

lemma prefix_error:
  assumes "require_remote_site (lk_site l) = Inr ()" and "ssh_prefix l = Inl e"
  shows "is_transport e"
  using assms(2) require_destination [OF assms(1)]
  by (auto simp: ssh_prefix_def split: option.splits)

section \<open>One operation\<close>

lemma run_lift_step:
  "(\<And>e. r = Inl e \<Longrightarrow> \<Phi> c (Inl e)) \<Longrightarrow> (\<And>x. r = Inr x \<Longrightarrow> run (f x) c \<Phi>) \<Longrightarrow>
     run (bindE (liftE r) f) c \<Phi>"
  by (simp add: run_bind run_lift split: sum.split)

lemma run_if:
  "(b \<Longrightarrow> run m c \<Phi>) \<Longrightarrow> (\<not> b \<Longrightarrow> run n c \<Phi>) \<Longrightarrow> run (if b then m else n) c \<Phi>"
  by simp

lemma check_own_response:
  assumes "fst r \<in> set response_statuses"
  shows "check_response op (JObj (response_envelope op r)) = Inr r"
  using assms by (simp add: check_response_def response_envelope_def jget_def)

lemma trip_steps:
  assumes "trip P m Q R" and "P h" and "R h" and "m h = (t, h', r)"
  shows "R (last (h # take n t))" and "R h'" and "r = Inr x \<Longrightarrow> Q x h'"
proof -
  have all: "list_all R t" "R h'" "\<And>x. r = Inr x \<Longrightarrow> Q x h'"
    using assms(1,2,4) unfolding trip_def by force+
  then have "\<forall>y \<in> set (h # take n t). R y" using assms(3) set_take_subset [of n t] by (auto simp: list_all_iff)
  then show "R (last (h # take n t))" by (metis last_in_set list.distinct(1))
  show "R h'" "r = Inr x \<Longrightarrow> Q x h'" using all by blast+
qed

lemma exchange_eq:
  "exchange l path op v c =
     (let failure = lk_failure l c; m = remote_main ((lk_worker l c)\<lparr>wk_path := path\<rparr>) op v in
      case lk_fate l c op of
        Unsent \<Rightarrow> raiseE (LTransport failure) c
      | Died n \<Rightarrow> on_site l failure (died n m) c
      | Silent \<Rightarrow> on_site l failure (unheard m) c
      | Answered \<Rightarrow> on_site l failure m c)"
  by (simp add: exchange_def bindE_def readE_def Let_def split: fate.split prod.split sum.split)

lemma exchange_run:
  assumes "\<And>k. trip P (remote_dispatch k op payload) (\<lambda>r h. Q k r h) R"
    and "P (site_host l c)" and "R (site_host l c)"
  shows "run (exchange l path op (JObj (request_envelope op payload))) c
    (\<lambda>c' r. \<exists>h. c' = put_host l c h \<and> R h \<and> (\<forall>e. r = Inl e \<longrightarrow> is_transport e) \<and>
       (\<forall>v. r = Inr v \<longrightarrow> (\<exists>c0 y. v = JObj (response_envelope op y) \<and>
          Q ((lk_worker l c0)\<lparr>wk_path := path\<rparr>) y h)))"
proof -
  let ?k = "(lk_worker l c)\<lparr>wk_path := path\<rparr>"
  obtain t h' r where d: "remote_dispatch ?k op payload (site_host l c) = (t, h', r)" by (metis prod_cases3)
  note steps = trip_steps [OF assms(1) [of ?k] assms(2,3) d]
  have unsent: "\<exists>h. c = put_host l c h \<and> R h" using assms(3) by (intro exI [of _ "site_host l c"]) simp
  have main: "remote_main ?k op (JObj (request_envelope op payload)) (site_host l c) =
      (t, h', mapR (\<lambda>y. JObj (response_envelope op y)) r)"
    by (simp add: remote_main_envelope bindE_def retE_def d mapR_def split: sum.split)
  show ?thesis
  proof (cases "lk_fate l c op")
    case Unsent
    then show ?thesis using unsent by (auto simp: run_def exchange_eq raiseE_def Let_def)
  next
    case (Died n)
    then show ?thesis using steps(1) [of n] unsent
      by (auto simp: run_def exchange_eq Let_def on_site_def died_def main)
  next
    case Silent
    then show ?thesis using steps(2)
      by (auto simp: run_def exchange_eq Let_def on_site_def unheard_def main)
  next
    case Answered
    have answer: "\<exists>c0 y. JObj (response_envelope op x) = JObj (response_envelope op y) \<and>
        Q ((lk_worker l c0)\<lparr>wk_path := path\<rparr>) y h'" if "r = Inr x" for x
      using steps(3) [OF that] by blast
    show ?thesis
      unfolding run_def exchange_eq Let_def Answered fate.case on_site_def main prod.case
      by (intro exI [of _ h'] conjI)
        (use steps(2) answer in \<open>auto simp: mapR_def mapErr_def split: sum.splits\<close>)
  qed
qed

lemma invoke_run:
  assumes "\<And>k. trip P (remote_dispatch k op payload) (\<lambda>r h. Q k r h \<and> fst r \<in> set response_statuses) R"
    and "P (site_host l c)" and "R (site_host l c)"
  shows "run (invoke l path op payload) c
    (\<lambda>c' r. \<exists>h. c' = put_host l c h \<and> R h \<and> (\<forall>e. r = Inl e \<longrightarrow> is_transport e) \<and>
       (\<forall>y. r = Inr y \<longrightarrow> (\<exists>c0. Q ((lk_worker l c0)\<lparr>wk_path := path\<rparr>) y h)))"
    (is "run _ _ ?post")
proof -
  have stays: "?post c (Inl e)" if "is_transport e" for e
    using that assms(3) by (intro exI [of _ "site_host l c"]) simp
  have sent: "run (bindE (exchange l path op (JObj (request_envelope op payload))) (\<lambda>v. liftE (check_response op v))) c ?post"
  proof (rule run_step [OF exchange_run [OF assms]])
    fix c' v
    assume "\<exists>h. c' = put_host l c h \<and> R h \<and> (\<forall>e. Inr v = Inl e \<longrightarrow> is_transport e) \<and>
       (\<forall>v'. Inr v = Inr v' \<longrightarrow> (\<exists>c0 y. v' = JObj (response_envelope op y) \<and>
          (Q ((lk_worker l c0)\<lparr>wk_path := path\<rparr>) y h \<and> fst y \<in> set response_statuses)))"
    then obtain h c0 y where h: "c' = put_host l c h" "R h" "v = JObj (response_envelope op y)"
      "Q ((lk_worker l c0)\<lparr>wk_path := path\<rparr>) y h" "fst y \<in> set response_statuses" by blast
    then show "run (liftE (check_response op v)) c' ?post"
      unfolding run_lift h(3) check_own_response [OF h(5)] by (intro exI [of _ h]) auto
  qed auto
  have raised: "run (raiseE (LTransport m)) c ?post" for m
    unfolding run_raise by (rule stays) simp
  show ?thesis
    unfolding invoke_def Let_def
    by (intro run_lift_step run_if sent stays raised)
      (auto dest: require_error token_error prefix_error)
qed

section \<open>Steps that submit nothing\<close>

text \<open>From \<open>c0\<close> on, only files and directories of the site have changed, and which worker is used.\<close>

definition near :: "link \<Rightarrow> controller \<Rightarrow> controller \<Rightarrow> bool" where
  "near l c0 c \<longleftrightarrow> (\<exists>h. linked l c0 h c \<and> staged (site_host l c0) h)"

definition nearby :: "link \<Rightarrow> controller \<Rightarrow> controller \<Rightarrow> (local_error, 'a) res \<Rightarrow> bool" where
  "nearby l c0 c r \<longleftrightarrow> near l c0 c \<and> (\<forall>e. r = Inl e \<longrightarrow> is_transport e)"

lemma staged_refl: "staged h h"
  by (simp add: staged_def)

lemma staged_trans: "staged h h' \<Longrightarrow> staged h' h'' \<Longrightarrow> staged h h''"
  by (simp add: staged_def)

lemma near_refl: "near l c c"
  using linked_refl staged_refl unfolding near_def by blast

lemma near_put: "near l c0 c \<Longrightarrow> staged (site_host l c) h \<Longrightarrow> near l c0 (put_host l c h)"
  unfolding near_def using linked_trans [OF _ linked_put] linked_host staged_trans by metis

lemma near_session: "near l c0 c \<Longrightarrow> near l c0 (c\<lparr>ct_session := z\<rparr>)"
  unfolding near_def using linked_session by blast

named_theorems near_rules

lemma near_ret [near_rules]: "near l c0 c \<Longrightarrow> run (retE x) c (nearby l c0)"
  by (simp add: run_ret nearby_def)

lemma near_raise [near_rules]: "near l c0 c \<Longrightarrow> run (raiseE (LTransport m)) c (nearby l c0)"
  by (simp add: run_raise nearby_def)

lemma near_lift: "near l c0 c \<Longrightarrow> (\<And>e. r = Inl e \<Longrightarrow> is_transport e) \<Longrightarrow> run (liftE r) c (nearby l c0)"
  by (simp add: run_lift nearby_def)

lemma near_read [near_rules]: "near l c0 c \<Longrightarrow> run (readE (\<lambda>c. Inr (f c))) c (nearby l c0)"
  by (simp add: run_read nearby_def)

lemma near_bind:
  assumes "run m c (nearby l c0)" and "\<And>c' x. near l c0 c' \<Longrightarrow> run (f x) c' (nearby l c0)"
  shows "run (bindE m f) c (nearby l c0)"
  using assms(1) by (rule run_step) (auto simp: nearby_def intro: assms(2))

lemma near_token [near_rules]: "near l c0 c \<Longrightarrow> run (liftE (validate_remote_token v label)) c (nearby l c0)"
  by (rule near_lift) (auto dest: token_error)

lemma near_require [near_rules]: "near l c0 c \<Longrightarrow> run (liftE (require_remote_site s)) c (nearby l c0)"
  by (rule near_lift) (auto dest: require_error)

lemma near_place [near_rules]: "near l c0 c \<Longrightarrow> run (writeE (place_file l remote b)) c (nearby l c0)"
  by (simp add: run_write nearby_def place_file_def near_put staged_def)

lemma near_option:
  "(x = None \<Longrightarrow> run m c \<Phi>) \<Longrightarrow> (\<And>y. x = Some y \<Longrightarrow> run (f y) c \<Phi>) \<Longrightarrow>
     run (case x of None \<Rightarrow> m | Some y \<Rightarrow> f y) c \<Phi>"
  by (cases x) simp_all

lemma near_transfer:
  "run m c \<Phi> \<Longrightarrow> run m' c \<Phi> \<Longrightarrow> (\<And>p. run (f p) c \<Phi>) \<Longrightarrow>
     run (case x of Copied \<Rightarrow> m | Broken None \<Rightarrow> m' | Broken (Some p) \<Rightarrow> f p) c \<Phi>"
  by (simp split: transfer.split option.split)

lemma near_upload_bytes [near_rules]: "near l c0 c \<Longrightarrow> run (upload_bytes l b remote) c (nearby l c0)"
  unfolding upload_bytes_def
  by (intro near_bind near_option near_transfer near_rules)

lemma near_upload: "near l c0 c \<Longrightarrow> run (upload l path remote) c (nearby l c0)"
  unfolding upload_def
  by (intro near_bind [OF near_require] near_bind [OF _ near_upload_bytes])
    (auto simp: run_read nearby_def split: option.split)

abbreviation usable :: "link \<Rightarrow> bool" where
  "usable l \<equiv> require_remote_site (lk_site l) = Inr ()"

lemma near_prefix: "usable l \<Longrightarrow> near l c0 c \<Longrightarrow> run (liftE (ssh_prefix l)) c (nearby l c0)"
  by (rule near_lift) (auto dest: prefix_error)

lemma near_bootstrap:
  assumes "usable l" and "near l c0 c" and "\<And>r h. staged h (change r h)"
  shows "run (run_bootstrap l arguments text change) c (nearby l c0)"
proof -
  have written: "run (writeE (\<lambda>c. put_host l c (change r (site_host l c)))) c' (nearby l c0)" if "near l c0 c'" for r c'
    using that assms(3) by (simp add: run_write nearby_def near_put)
  show ?thesis
    unfolding run_bootstrap_def case_prod_unfold
    by (intro near_bind near_prefix near_option run_if near_rules written assms(1,2))
qed

lemma staged_dirs: "staged h (make_dirs p h)"
  by (simp add: staged_def make_dirs_def)

lemma near_hello: "near l c0 c \<Longrightarrow> run (invoke l path Hello payload) c (nearby l c0)"
proof -
  assume c: "near l c0 c"
  have hello: "trip (staged (site_host l c)) (remote_dispatch k Hello payload)
      (\<lambda>r h. True \<and> fst r \<in> set response_statuses) (staged (site_host l c))" for k
    by (simp add: trip_def worker_errors_def hello_def readE_def Let_def mapErr_def response_statuses_def)
  show ?thesis
    by (rule run_post [OF invoke_run [OF hello]]) (use c in \<open>auto simp: staged_refl nearby_def intro: near_put\<close>)
qed

lemma near_catch:
  assumes "run m c (nearby l c0)" and "\<And>c' x. near l c0 c' \<Longrightarrow> run (h x) c' (nearby l c0)"
  shows "run (try_transport m h) c (nearby l c0)"
  unfolding try_transport_def
  using assms(1) by (rule run_handle) (auto simp: nearby_def is_transport_def intro: assms(2))

lemma near_ensure:
  assumes "usable l" and "near l c0 c"
  shows "run (ensure_worker l) c (nearby l c0)"
proof -
  have configured: "run (configured_worker l) c' (nearby l c0)" if "near l c0 c'" for c'
    unfolding configured_worker_def
    by (intro near_option near_catch near_bind near_hello near_rules that)
  have cache: "run (worker_cache l) c' (nearby l c0)" if "near l c0 c'" for c'
    unfolding worker_cache_def bootstrap_default_directory_def Let_def
    by (intro near_option near_bind near_bootstrap near_rules run_if staged_dirs assms(1) that)
  have install: "run (install_worker l) c' (nearby l c0)" if "near l c0 c'" for c'
    unfolding install_worker_def bootstrap_directory_def make_remote_executable_def Let_def
    by (intro near_bind cache near_bootstrap near_hello near_rules run_if staged_dirs staged_refl assms(1) that)
  show ?thesis
    unfolding ensure_worker_def
    by (intro near_bind near_rules configured near_option install assms(2))
qed

lemma near_worker_path:
  assumes "usable l" and "near l c0 c"
  shows "run (worker_path l) c (nearby l c0)"
proof -
  have written: "run (writeE (\<lambda>c. c\<lparr>ct_session := z\<rparr>)) c' (nearby l c0)" if "near l c0 c'" for c' z
    using that by (simp add: run_write nearby_def near_session)
  show ?thesis
    unfolding worker_path_def
    by (intro near_bind near_option near_ensure near_rules written assms)
qed

text \<open>A call: the worker is found, then its operation runs.\<close>

lemma remote_call_run:
  assumes "usable l"
    and op: "\<And>k. trip P (remote_dispatch k op payload) (\<lambda>r h. Q k r h \<and> fst r \<in> set response_statuses) R"
    and P: "P (site_host l c)" "\<And>h h'. P h \<Longrightarrow> staged h h' \<Longrightarrow> P h'" "\<And>h. P h \<Longrightarrow> R h"
  shows "run (remote_call l op payload) c
    (\<lambda>c' r. \<exists>h. linked l c h c' \<and> R h \<and> (\<forall>e. r = Inl e \<longrightarrow> is_transport e) \<and>
       (\<forall>y. r = Inr y \<longrightarrow> (\<exists>c0 path. Q ((lk_worker l c0)\<lparr>wk_path := path\<rparr>) y h)))"
  unfolding remote_call_def
proof (rule run_step [OF near_worker_path [OF assms(1) near_refl]])
  fix c1 e
  assume "nearby l c c1 (Inl e :: (local_error, string) res)"
  then show "\<exists>h. linked l c h c1 \<and> R h \<and> (\<forall>e'. Inl e = Inl e' \<longrightarrow> is_transport e') \<and>
      (\<forall>y. Inl e = Inr y \<longrightarrow> (\<exists>c0 path. Q ((lk_worker l c0)\<lparr>wk_path := path\<rparr>) y h))"
    using P unfolding nearby_def near_def by blast
next
  fix c1 path
  assume "nearby l c c1 (Inr path :: (local_error, string) res)"
  then obtain h1 where h1: "linked l c h1 c1" "staged (site_host l c) h1"
    unfolding nearby_def near_def by blast
  then have P1: "P (site_host l c1)" using P(1,2) linked_host by metis
  show "run (invoke l path op payload) c1 (\<lambda>c' r. \<exists>h. linked l c h c' \<and> R h \<and>
      (\<forall>e. r = Inl e \<longrightarrow> is_transport e) \<and>
      (\<forall>y. r = Inr y \<longrightarrow> (\<exists>c0 path. Q ((lk_worker l c0)\<lparr>wk_path := path\<rparr>) y h)))"
    by (rule run_post [OF invoke_run [OF op P1 P(3) [OF P1]]])
      (use h1(1) linked_put linked_trans in blast)
qed

end
