(* ===== verification/RemoteSubmission.thy ===== *)
theory RemoteSubmission
  imports RemoteConnection
begin

text \<open>
  The backend of a site as a backend of the service. Whatever becomes of its commands and transfers,
  the store of the controller agrees with the site: an accepted job is on record there, a refused
  execution has none, and in doubt the execution is ambiguous, which forbids another submission.
\<close>

section \<open>An execution on its way to a site\<close>

definition tracked :: "link \<Rightarrow> string \<Rightarrow> string \<Rightarrow> string set \<Rightarrow> store \<Rightarrow> outside_world \<Rightarrow>
    (host \<Rightarrow> bool) \<Rightarrow> controller \<Rightarrow> bool" where
  "tracked l k family S s x P c \<longleftrightarrow>
     held k family S s (ct_store c) \<and> ct_log c = fst x \<and>
     (\<forall>i. i \<noteq> st_id (lk_site l) \<longrightarrow> ct_hosts c i = snd x i) \<and> P (site_host l c)"

definition enrolled :: "string \<Rightarrow> controller \<Rightarrow> bool" where
  "enrolled k c \<longleftrightarrow> k \<in> rs_execution ` set (ct_remote c)"

lemma tracked_mono: "tracked l k family S s x P c \<Longrightarrow> S \<subseteq> T \<Longrightarrow> tracked l k family T s x P c"
  by (auto simp: tracked_def intro: held_mono)

lemma tracked_host: "tracked l k family S s x P c \<Longrightarrow> (\<And>h. P h \<Longrightarrow> R h) \<Longrightarrow> tracked l k family S s x R c"
  by (simp add: tracked_def)

lemma tracked_waiting: "tracked l k family S s x P c \<Longrightarrow> waiting k family S s (outside c) c"
  by (simp add: tracked_def waiting_def)

lemma waiting_tracked:
  assumes "waiting k family T s (outside c) c'" and "tracked l k family S s x P c"
  shows "tracked l k family T s x P c'"
  using assms by (simp add: tracked_def waiting_def outside_def site_host_def)

lemma tracked_linked:
  assumes "tracked l k family S s x P c" and "linked l c h c'" and "R h"
  shows "tracked l k family S s x R c'"
  using assms by (auto simp: tracked_def linked_def put_host_def site_host_def)

lemma enrolled_linked: "linked l c h c' \<Longrightarrow> enrolled k c' = enrolled k c"
  by (auto simp: enrolled_def linked_def put_host_def)

lemma enrolled_store [simp]: "enrolled k (c\<lparr>ct_store := s\<rparr>) = enrolled k c"
  by (simp add: enrolled_def)

section \<open>Steps of the controller\<close>

text \<open>A step of the controller alone, seen as in the ledger.\<close>

lemma tracked_step:
  assumes "tracked l k family S s x P c"
    and "run m c (\<lambda>c' _. waiting k family S s (outside c) c')"
  shows "run m c (\<lambda>c' _. tracked l k family S s x P c')"
  using assms(2) by (rule run_post) (rule waiting_tracked [OF _ assms(1)])

lemma tracked_state:
  assumes "tracked l k family S s x P c" and "fresh_ids env"
  shows "run (set_stateE env k state details error) c
    (\<lambda>c' r. tracked l k family {state} s x P c' \<and> enrolled k c' = enrolled k c \<and> r = Inr ())"
proof -
  have "run (set_stateE env k state details error) c (\<lambda>c' r. enrolled k c' = enrolled k c)"
    by (simp add: set_stateE_def run_commit split: sum.split)
  from run_conj [OF set_state_waiting [OF tracked_waiting [OF assms(1)] assms(2)] this]
  show ?thesis by (rule run_post) (auto intro: waiting_tracked [OF _ assms(1)])
qed

lemma save_row_outside:
  "run (save_row r) c (\<lambda>c' _. ct_store c' = ct_store c \<and> outside c' = outside c)"
  by (simp add: save_row_def run_trans save_remote_state_def split: if_splits sum.splits)

lemma save_row_waiting [waiting_rules]:
  "waiting k family S s x c \<Longrightarrow> run (save_row r) c (\<lambda>c' _. waiting k family S s x c')"
  by (rule run_post [OF save_row_outside]) (simp add: waiting_def)

lemma save_remote_state_enrolled:
  assumes "save_remote_state r c = Inr c'"
  shows "enrolled (rs_execution r) c'"
proof -
  let ?f = "\<lambda>old. if rs_execution old = rs_execution r then r\<lparr>rs_site := rs_site old\<rparr> else old"
  have "map rs_execution (map ?f (ct_remote c)) = map rs_execution (ct_remote c)" by simp
  then have "rs_execution ` set (map ?f (ct_remote c)) = rs_execution ` set (ct_remote c)" by (metis set_map)
  then show ?thesis using assms
    unfolding save_remote_state_def enrolled_def by (auto simp del: set_map split: if_splits)
qed

lemma save_row_enrolled:
  "run (save_row r) c (\<lambda>c' y. y = Inr () \<longrightarrow> enrolled (rs_execution r) c')"
  by (simp add: save_row_def run_trans save_remote_state_enrolled split: sum.split)

lemma save_row_succeeds: "enrolled (rs_execution r) c \<Longrightarrow> run (save_row r) c (\<lambda>_ y. y = Inr ())"
  by (simp add: save_row_def run_trans save_remote_state_def enrolled_def)

lemma waiting_clock [waiting_rules]:
  "waiting k family S s x c \<Longrightarrow> run (clockE env) c (\<lambda>c' _. waiting k family S s x c')"
  by (simp add: clockE_def run_read)

lemma waiting_digests [waiting_rules]:
  "waiting k family S s x c \<Longrightarrow> run (staged_digests env l a) c (\<lambda>c' _. waiting k family S s x c')"
  by (simp add: staged_digests_def run_read)

lemma stage_locally_waiting:
  assumes "waiting k family S s x c"
  shows "run (stage_locally env a p w request inventory remote_staging) c (\<lambda>c' _. waiting k family S s x c')"
  unfolding stage_locally_def Let_def by (intro waiting_bind waiting_rules assms)

lemma tracked_upload:
  assumes "tracked l k family S s x (unsent sp) c"
  shows "run (upload l path remote) c (\<lambda>c' _. tracked l k family S s x (unsent sp) c' \<and> enrolled k c' = enrolled k c)"
proof (rule run_post [OF near_upload [OF near_refl]])
  fix c' :: controller and r :: "(local_error, unit) res"
  assume "nearby l c c' r"
  then obtain h where h: "linked l c h c'" "staged (site_host l c) h" unfolding nearby_def near_def by blast
  have "unsent sp (site_host l c)" using assms by (simp add: tracked_def)
  then have "unsent sp h" using unsent_staged [OF h(2)] by simp
  then show "tracked l k family S s x (unsent sp) c' \<and> enrolled k c' = enrolled k c"
    using tracked_linked [OF assms h(1)] enrolled_linked [OF h(1)] by blast
qed

section \<open>Staging at the site\<close>

definition untouched :: "ppath \<Rightarrow> host \<Rightarrow> bool" where
  "untouched sp h \<longleftrightarrow> ledger sp None h \<and> h_state h sp = None"

lemma untouched_unsent: "untouched sp h \<Longrightarrow> unsent sp h"
  by (simp add: untouched_def unsent_fresh)

lemma untouched_staged: "untouched sp h \<Longrightarrow> staged h h' \<Longrightarrow> untouched sp h'"
  using ledger_cong [of h' sp h None] by (simp add: staged_def untouched_def submits_def)

lemma tracked_bind:
  assumes "run m c (\<lambda>c' _. tracked l k family S s x P c')" and "\<And>h. P h \<Longrightarrow> R h"
    and "\<And>c' y. tracked l k family S s x P c' \<Longrightarrow> run (f y) c' (\<lambda>c' _. tracked l k family S s x R c')"
  shows "run (bindE m f) c (\<lambda>c' _. tracked l k family S s x R c')"
  using assms(1) by (rule run_step) (auto intro: assms(2,3) tracked_host)

lemma validate_tracked:
  assumes "usable l" and c: "tracked l k family S s x (untouched sp) c"
  shows "run (validate_remotely l p w request) c (\<lambda>c' _. tracked l k family S s x (untouched sp) c')"
proof -
  have quiet: "trip (untouched sp) (remote_dispatch k ValidatePlan payload)
      (\<lambda>r h. True \<and> fst r \<in> set response_statuses) (untouched sp)" for k payload
    unfolding remote_dispatch.simps validate_plan_def case_prod_unfold Let_def
    by (intro trip_bind_lift) (simp_all add: trip_def readE_def response_statuses_def)
  have call: "run (remote_call l ValidatePlan payload) c (\<lambda>c' _. tracked l k family S s x (untouched sp) c')" for payload
    by (rule run_post [OF remote_call_run [OF assms(1) quiet]])
      (use c in \<open>auto simp: tracked_def [of _ _ _ _ _ _ _ c] intro: untouched_staged tracked_linked [OF c]\<close>)
  show ?thesis
    unfolding validate_remotely_def
    by (rule tracked_bind [OF call]) (auto simp: run_bind run_lift run_raise run_ret split: sum.split)
qed

lemma prepare_tracked:
  assumes "usable l" and c: "tracked l k family S s x (untouched (state_file l k)) c"
  shows "run (prepare_remote l k family' (project_of l) digests v remote_staging) c
    (\<lambda>c' _. tracked l k family S s x (unsent (state_file l k)) c')"
proof -
  let ?payload = "prepare_payload l k family' (project_of l) digests v"
  have prepare: "trip (untouched (state_file l k)) (remote_dispatch e (Operation Prepare) ?payload)
      (\<lambda>r h. True \<and> fst r \<in> set response_statuses) (unsent (state_file l k))" for e
    by (rule operation_trip, simp only: dispatch.simps,
        rule trip_post [OF prepare_unsent [of l k, folded untouched_def]]) auto
  have call: "run (remote_call l (Operation Prepare) ?payload) c
      (\<lambda>c' _. tracked l k family S s x (unsent (state_file l k)) c')"
    by (rule run_post [OF remote_call_run [OF assms(1) prepare]])
      (use c in \<open>auto simp: tracked_def [of _ _ _ _ _ _ _ c] intro: untouched_staged untouched_unsent tracked_linked [OF c]\<close>)
  show ?thesis
    unfolding prepare_remote_def
    by (rule tracked_bind [OF call]) (auto simp: run_raise run_ret)
qed

lemma later_enrolled:
  assumes "\<And>y c'. run (f y) c' (\<lambda>c' r. \<forall>u. r = Inr u \<longrightarrow> enrolled k c')"
  shows "run (bindE m f) c (\<lambda>c' r. \<forall>u. r = Inr u \<longrightarrow> enrolled k c')"
  by (rule run_step [where Q = "\<lambda>_ _. True", OF _ _ assms]) (simp_all add: run_def split: prod.splits)

lemma record_prepared_tracked:
  assumes c: "tracked l (at_id a) family idle_states s x P c" and "fresh_ids env"
  shows "run (record_prepared env l a p remote_staging) c
    (\<lambda>c' r. tracked l (at_id a) family idle_states s x P c' \<and> (\<forall>u. r = Inr u \<longrightarrow> enrolled (at_id a) c'))"
proof -
  have prepared: "run (set_stateE env (at_id a) ''prepared'' d None) c'
      (\<lambda>c' _. waiting (at_id a) family idle_states s y c')"
    if "waiting (at_id a) family idle_states s y c'" for c' d y
    using set_state_waiting [OF that assms(2)]
    by (rule run_post) (auto simp: idle_states_def elim!: waiting_mono)
  have "run (record_prepared env l a p remote_staging) c
      (\<lambda>c' _. tracked l (at_id a) family idle_states s x P c')"
    by (rule tracked_step [OF c]) (unfold record_prepared_def Let_def,
      intro waiting_bind waiting_rules prepared tracked_waiting [OF c])
  moreover have "run (record_prepared env l a p remote_staging) c
      (\<lambda>c' r. \<forall>u. r = Inr u \<longrightarrow> enrolled (at_id a) c')"
    unfolding record_prepared_def Let_def
    by (rule later_enrolled, rule later_enrolled, rule later_enrolled, rule run_post [OF save_row_enrolled]) simp
  ultimately show ?thesis by (rule run_conj)
qed

lemma upload_files_tracked:
  assumes "tracked l k family S s x (unsent sp) c"
  shows "run (upload_files env l a remote_staging names) c
    (\<lambda>c' _. tracked l k family S s x (unsent sp) c' \<and> enrolled k c' = enrolled k c)"
  using assms
proof (induction names arbitrary: c)
  case (Cons n names)
  show ?case unfolding upload_files.simps
    by (rule run_step [OF tracked_upload [OF Cons.prems]]) (auto intro: run_post [OF Cons.IH])
qed (simp add: run_ret)

text \<open>A step after which the execution is where it was, then the rest.\<close>

lemma tracked_then:
  assumes "\<And>c' e. tracked l k family S s x P c' \<Longrightarrow> \<Phi> c' (Inl e)"
    and "run m c (\<lambda>c' _. tracked l k family S s x P c')"
    and "\<And>c' y. tracked l k family S s x P c' \<Longrightarrow> run (f y) c' \<Phi>"
  shows "run (bindE m f) c \<Phi>"
  by (rule run_step [OF assms(2)]) (auto intro: assms(1,3))

lemma stage_remotely_tracked:
  assumes "usable l" and "fresh_ids env" and "project_of l = project"
    and c: "tracked l (at_id a) family idle_states s x (untouched (state_file l (at_id a))) c"
  shows "run (stage_remotely env l a p w inventory project) c
    (\<lambda>c' r. tracked l (at_id a) family idle_states s x (unsent (state_file l (at_id a))) c' \<and>
       (\<forall>y. r = Inr y \<longrightarrow> enrolled (at_id a) c' \<and> y = remote_staging_of project (at_id a)))"
    (is "run _ _ ?post")
proof -
  let ?sp = "state_file l (at_id a)" and ?staging = "remote_staging_of project (at_id a)"
  let ?at = "\<lambda>P. tracked l (at_id a) family idle_states s x P"
  have upload: "run (bindE (upload_variant l v) (\<lambda>_. retE ?staging)) c' ?post"
    if "?at (unsent ?sp) c'" "enrolled (at_id a) c'" for c' v
  proof (cases v)
    case (Some y)
    obtain derived remote digest where y: "y = (derived, remote, digest)" by (cases y)
    have "run (bindE (upload l (path_of derived) remote) (\<lambda>_. retE ?staging)) c' ?post"
      by (rule run_step [OF tracked_upload [OF that(1)]]) (use that(2) in \<open>auto simp: run_ret\<close>)
    then show ?thesis by (simp add: upload_variant_def Some y)
  qed (use that in \<open>simp add: upload_variant_def run_bind run_ret\<close>)
  have files: "run (bindE (upload_files env l a ?staging names) (\<lambda>_.
      bindE (upload_variant l v) (\<lambda>_. retE ?staging))) c' ?post"
    if "?at (unsent ?sp) c'" "enrolled (at_id a) c'" for c' v names
    by (rule run_step [OF upload_files_tracked [OF that(1)]]) (use that(2) upload in auto)
  have recorded: "run (bindE (record_prepared env l a p ?staging) (\<lambda>_.
      bindE (upload_files env l a ?staging remote_files) (\<lambda>_.
      bindE (upload_variant l v) (\<lambda>_. retE ?staging)))) c' ?post" if "?at (unsent ?sp) c'" for c' v
    by (rule run_step [OF record_prepared_tracked [OF that assms(2)]]) (use files in auto)
  have prepared: "run (bindE (prepare_remote l (at_id a) f project digests j ?staging) (\<lambda>_.
      bindE (record_prepared env l a p ?staging) (\<lambda>_.
      bindE (upload_files env l a ?staging remote_files) (\<lambda>_.
      bindE (upload_variant l v) (\<lambda>_. retE ?staging))))) c' ?post" if "?at (untouched ?sp) c'" for c' v f digests j
    unfolding assms(3) [symmetric]
    by (rule run_step [OF prepare_tracked [OF assms(1) that]]) (use recorded in \<open>auto simp: assms(3)\<close>)
  note step = tracked_then [where l = l and k = "at_id a" and family = family and S = idle_states and s = s and x = x
      and P = "untouched ?sp" and \<Phi> = ?post]
  have exits: "?post c' (Inl e)" if "?at (untouched ?sp) c'" for c' e
    using tracked_host [OF that untouched_unsent] by simp
  have local_step: "run m c' (\<lambda>c' _. ?at (untouched ?sp) c')"
    if "?at (untouched ?sp) c'" "run m c' (\<lambda>c'' _. waiting (at_id a) family idle_states s (outside c') c'')" for c' m
    using tracked_step [OF that] .
  show ?thesis
    unfolding stage_remotely_def Let_def
    apply (rule step, erule exits, rule local_step [OF c], rule waiting_store, rule tracked_waiting [OF c])
    apply (rule step, erule exits, erule validate_tracked [OF assms(1)])
    apply (rule step, erule exits, rule local_step, assumption, rule stage_locally_waiting, erule tracked_waiting)
    apply (rule step, erule exits, rule local_step, assumption, rule waiting_digests, erule tracked_waiting)
    apply (rule step, erule exits, rule local_step, assumption, rule waiting_lift, erule tracked_waiting)
    apply (erule prepared)
    done
qed

section \<open>The submission\<close>

text \<open>
  What the site knows, for a verdict on an execution: an accepted job is on record, a refused execution
  has none. There are two ways a job may be on record for an execution that counts as refused: its
  name is that of another job of the store, or a result file that cannot be read made the worker's
  answer look like a refusal.
\<close>

definition excused :: "link \<Rightarrow> string \<Rightarrow> string \<Rightarrow> store \<Rightarrow> host \<Rightarrow> bool" where
  "excused l family k s h \<longleftrightarrow>
     (\<exists>c. unreadable_result (wk_env (lk_worker l c)) h) \<or>
     (\<exists>j. job_recorded (state_file l k) j h \<and> (family, j) \<in> job_names s)"

definition site_knows :: "link \<Rightarrow> string \<Rightarrow> string \<Rightarrow> store \<Rightarrow> host \<Rightarrow> standing \<Rightarrow> bool" where
  "site_knows l family k s h v \<longleftrightarrow>
     (case v of
        Accepted j \<Rightarrow> job_recorded (state_file l k) j h
      | Refused \<Rightarrow> no_job (state_file l k) h \<or> excused l family k s h
      | Uncertain \<Rightarrow> True
      | _ \<Rightarrow> False)"

definition site_verdicts :: "link \<Rightarrow> string \<Rightarrow> verdicts" where
  "site_verdicts l family k s x x' v \<longleftrightarrow>
     fst x' = fst x \<and> (\<forall>i. i \<noteq> st_id (lk_site l) \<longrightarrow> snd x' i = snd x i) \<and>
     ledger (state_file l k) None (snd x' (st_id (lk_site l))) \<and>
     site_knows l family k s (snd x' (st_id (lk_site l))) v"

definition untouched_site :: "link \<Rightarrow> string \<Rightarrow> store \<Rightarrow> outside_world \<Rightarrow> bool" where
  "untouched_site l k s x \<longleftrightarrow> untouched (state_file l k) (snd x (st_id (lk_site l)))"

abbreviation halted :: "link \<Rightarrow> string \<Rightarrow> string \<Rightarrow> store \<Rightarrow> outside_world \<Rightarrow> controller \<Rightarrow>
    (local_error, submission) res \<Rightarrow> bool" where
  "halted l family k s x \<equiv> stopped (site_verdicts l family) k family s x"

lemma haltedI:
  assumes "tracked l k family S s x (ledger (state_file l k) None) c"
    and "site_knows l family k s (site_host l c) v" and "ended k family s v (ct_store c) r"
  shows "halted l family k s x c r"
  using assms unfolding stopped_def site_verdicts_def
  by (auto simp: tracked_def outside_def site_host_def)

lemma halted_idle:
  assumes "tracked l k family idle_states s x (unsent (state_file l k)) c"
  shows "halted l family k s x c (Inl e)"
proof (rule haltedI)
  show "tracked l k family idle_states s x (ledger (state_file l k) None) c"
    by (rule tracked_host [OF assms unsent_ledger])
  show "site_knows l family k s (site_host l c) Refused"
    using assms by (simp add: site_knows_def tracked_def unsent_no_job)
  show "ended k family s Refused (ct_store c) (Inl e)"
    using assms by (auto simp: ended_def tracked_def idle_states_def elim!: held_mono)
qed

lemma bind_assoc: "bindE (bindE m f) g = bindE m (\<lambda>x. bindE (f x) g)"
  by (auto simp: bindE_def fun_eq_iff split: prod.splits sum.splits)

lemma ambiguous_halted:
  assumes c: "tracked l k family S s x (ledger (state_file l k) None) c" and "fresh_ids env"
    and k: "k = at_id a"
  shows "run (ambiguous_raise env l a remote_staging diagnostic :: 'a local) c
    (\<lambda>c' r. \<exists>e. r = Inl e \<and> halted l family k s x c' (Inl e))"
    (is "run _ _ ?post")
proof -
  have still: "halted l family k s x c' (Inl e)"
    if "tracked l k family {''submission_ambiguous''} s x (ledger (state_file l k) None) c'" for c' e
    by (rule haltedI [OF that, where v = Uncertain])
      (use that in \<open>simp_all add: site_knows_def ended_def tracked_def\<close>)
  have exits: "?post c' (Inl e)"
    if "tracked l k family {''submission_ambiguous''} s x (ledger (state_file l k) None) c'" for c' e
    using still [OF that] by blast
  have save: "run (bindE (save_row row) (\<lambda>_. raiseE e)) c' ?post"
    if "tracked l k family {''submission_ambiguous''} s x (ledger (state_file l k) None) c'" for c' row e
    by (rule tracked_then, erule exits, rule tracked_step [OF that],
        rule save_row_waiting, rule tracked_waiting [OF that], simp add: run_raise still)
  have state: "run (state_at env k now ''submission_ambiguous'' d e) c'
      (\<lambda>c'' r. tracked l k family {''submission_ambiguous''} s x (ledger (state_file l k) None) c'' \<and> r = Inr ())"
    if "tracked l k family S s x (ledger (state_file l k) None) c'" for c' now d e
  proof -
    have "held k family S s (ct_store c')" "be_ulid env c' \<notin> ev_id ` set (st_events (ct_store c'))"
      using that assms(2) by (auto simp: tracked_def fresh_ids_def)
    then obtain s' where "update_execution_state (be_ulid env c') k ''submission_ambiguous'' now d e (ct_store c') = Inr s'"
        "held k family {''submission_ambiguous''} s s'"
      using held_update by blast
    then show ?thesis
      using that by (simp add: state_at_def run_commit tracked_def site_host_def)
  qed
  have stated: "run (bindE (state_at env k now ''submission_ambiguous'' d e) (\<lambda>_. bindE (save_row row) (\<lambda>_. raiseE e'))) c ?post"
    for now d e row e'
    by (rule run_step [OF state [OF c]]) (auto intro: save)
  show ?thesis
    unfolding ambiguous_raise_def record_ambiguous_def Let_def k [symmetric] clockE_def bind_assoc
    by (subst run_bind) (simp add: run_read stated)
qed

text \<open>A reply that is true of the site settles the execution as the site has it.\<close>

lemma refusal_halted:
  assumes c: "tracked l (at_id a) family S s x (ledger (state_file l (at_id a)) None) c" and "fresh_ids env"
    and "no_job (state_file l (at_id a)) (site_host l c) \<or> excused l family (at_id a) s (site_host l c)"
  shows "run (bindE (set_stateE env (at_id a) ''failed'' d e) (\<lambda>_. backend_raise m)) c
    (halted l family (at_id a) s x)"
proof -
  have "run (set_stateE env (at_id a) ''failed'' d e) c (\<lambda>c' r. site_host l c' = site_host l c)"
    by (simp add: set_stateE_def run_commit site_host_def split: sum.split)
  note both = run_conj [OF tracked_state [OF c assms(2)] this]
  have refused: "halted l family (at_id a) s x c' (Inl e)"
    if "tracked l (at_id a) family {''failed''} s x (ledger (state_file l (at_id a)) None) c'"
      "site_host l c' = site_host l c" for c' e
    by (rule haltedI [OF that(1), where v = Refused])
      (use that assms(3) in \<open>auto simp: site_knows_def ended_def tracked_def elim!: held_mono\<close>)
  show ?thesis by (rule run_step [OF both]) (auto simp: run_raise intro: refused)
qed

lemma recorded_halted:
  assumes c: "tracked l (at_id a) family idle_states s x (ledger (state_file l (at_id a)) None) c"
    and "enrolled (at_id a) c" and "fresh_ids env" and "at_backend a = family"
    and new: "get_scheduler_job (at_id a) s = None" and "family \<in> {''slurm'', ''pbs'', ''lsf''}"
    and j: "jget data ''job_id'' = JStr j" "job_recorded (state_file l (at_id a)) j (site_host l c)"
  shows "run (record_remote_submission env l a data remote_staging) c (halted l family (at_id a) s x)"
proof -
  let ?k = "at_id a"
  define row where "row now = \<lparr>rs_execution = ?k, rs_site = st_id (lk_site l), rs_state = ''submitted'',
    rs_staging = Some remote_staging, rs_family = Some family, rs_job = Some j, rs_observed_at = now,
    rs_evidence = data\<rparr>" for now
  define job where "job now = \<lparr>j_execution = ?k, j_family = family, j_job_id = j,
    j_identity = identity_text l data, j_submitted_at = submitted_text l now data,
    j_state = ''submitted'', j_observed_at = now\<rparr>" for now
  define details where "details = [(''scheduler_family'', JStr family), (''job_id'', JStr j),
    (''site_id'', JStr (st_id (lk_site l))), (''scheduler_owns_lifetime'', JBool True),
    (''local_keepalive'', JBool False)]"
  define rest where "rest now = bindE (state_at env ?k now ''submitted'' details None) (\<lambda>_.
      bindE (save_row (row now)) (\<lambda>_. retE \<lparr>sb_family = family, sb_job = j, sb_execution = ?k\<rparr>))" for now
  have unfolded: "record_remote_submission env l a data remote_staging =
      bindE (clockE env) (\<lambda>now. bindE (commitE env (\<lambda>_ _. save_scheduler_job (job now))) (\<lambda>_. rest now))"
    by (simp add: record_remote_submission_def Let_def assms(4) j(1) site_text_def rest_def row_def job_def details_def)
  have "run (bindE (commitE env (\<lambda>_ _. save_scheduler_job (job now))) (\<lambda>_. rest now)) c
      (halted l family ?k s x)" for now
  proof (cases "(family, j) \<in> job_names s")
    case True
    have held: "held ?k family idle_states s (ct_store c)" using c by (simp add: tracked_def)
    then obtain b where "find_row at_id ?k (st_attempts (ct_store c)) = Some b" "at_backend b = family"
      by (rule held_attempt)
    moreover have "st_jobs (ct_store c) = st_jobs s" using held by (simp add: held_def)
    ultimately have "save_scheduler_job (job now) (ct_store c) = Inl IntegrityError"
      using True by (auto simp: save_scheduler_job_def get_execution_def job_def insert_row_def job_names_def)
    moreover have "halted l family ?k s x c (Inl e)" for e
    proof (rule haltedI [OF c])
      show "site_knows l family ?k s (site_host l c) Refused"
        using True j(2) by (auto simp: site_knows_def excused_def)
      show "ended ?k family s Refused (ct_store c) (Inl e)"
        using held by (auto simp: ended_def idle_states_def elim!: held_mono)
    qed
    ultimately show ?thesis by (simp add: run_bind run_commit)
  next
    case False
    have "run (bindE (commitE env (\<lambda>_ _. save_scheduler_job (job now))) (\<lambda>_.
        commitE env (\<lambda>i _. update_execution_state i ?k ''submitted'' now details None))) c
      (\<lambda>c' r. \<exists>s'. c' = c\<lparr>ct_store := s'\<rparr> \<and> r = Inr () \<and>
         standing s' = (standing s)(?k := Accepted (j_job_id (job now))))"
      by (rule save_job_standing [OF tracked_waiting [OF c] assms(3) new assms(6)])
        (use False in \<open>simp_all add: job_def\<close>)
    then have saved: "run (bindE (commitE env (\<lambda>_ _. save_scheduler_job (job now))) (\<lambda>_.
        state_at env ?k now ''submitted'' details None)) c
      (\<lambda>c' r. \<exists>s'. c' = c\<lparr>ct_store := s'\<rparr> \<and> r = Inr () \<and> standing s' = (standing s)(?k := Accepted j))"
      by (simp add: state_at_def job_def)
    have halt: "run (bindE (save_row (row now)) (\<lambda>_. retE \<lparr>sb_family = family, sb_job = j, sb_execution = ?k\<rparr>))
        (c\<lparr>ct_store := s'\<rparr>) (halted l family ?k s x)"
      if "standing s' = (standing s)(?k := Accepted j)" for s'
    proof (rule run_step [OF run_conj [OF save_row_outside save_row_succeeds]])
      show "enrolled (rs_execution (row now)) (c\<lparr>ct_store := s'\<rparr>)" using assms(2) by (simp add: row_def)
      fix c' u
      assume "(ct_store c' = ct_store (c\<lparr>ct_store := s'\<rparr>) \<and> outside c' = outside (c\<lparr>ct_store := s'\<rparr>)) \<and> Inr u = Inr ()"
      then have c': "ct_store c' = s'" "outside c' = outside c" by simp_all
      have "site_verdicts l family ?k s x (outside c') (Accepted j)"
        unfolding c'(2) using c j(2)
        by (simp add: site_verdicts_def site_knows_def tracked_def outside_def site_host_def)
      then show "run (retE \<lparr>sb_family = family, sb_job = j, sb_execution = ?k\<rparr>) c' (halted l family ?k s x)"
        using that c'(1) unfolding run_ret stopped_def ended_def by (intro exI [of _ "Accepted j"]) simp
    qed simp
    have "bindE (commitE env (\<lambda>_ _. save_scheduler_job (job now))) (\<lambda>_. rest now) =
        bindE (bindE (commitE env (\<lambda>_ _. save_scheduler_job (job now))) (\<lambda>_.
          state_at env ?k now ''submitted'' details None)) (\<lambda>_.
        bindE (save_row (row now)) (\<lambda>_. retE \<lparr>sb_family = family, sb_job = j, sb_execution = ?k\<rparr>))"
      by (simp add: rest_def bind_assoc)
    then show ?thesis by (simp only:) (rule run_step [OF saved], auto intro: halt)
  qed
  then show ?thesis unfolding unfolded clockE_def run_bind run_read by (simp add: run_bind)
qed

lemma reply_halted:
  assumes c: "tracked l (at_id a) family idle_states s x (ledger (state_file l (at_id a)) None) c"
    and "enrolled (at_id a) c" and "fresh_ids env" and "at_backend a = family"
    and new: "get_scheduler_job (at_id a) s = None" and "family \<in> {''slurm'', ''pbs'', ''lsf''}"
    and y: "truthful (wk_env (lk_worker l c0)) (state_file l (at_id a)) y (site_host l c)"
  shows "run (submission_reply env l a remote_staging y) c (halted l family (at_id a) s x)"
proof -
  obtain answer data where y_eq: "y = (answer, data)" by (cases y)
  have refused: "no_job (state_file l (at_id a)) (site_host l c) \<or> excused l family (at_id a) s (site_host l c)"
    if "answer \<notin> {''ambiguous'', ''unknown''}" "answer \<noteq> ''ok'' \<or> \<not> is_str (jget data ''job_id'')"
    using y that unfolding truthful_def excused_def y_eq fst_conv snd_conv by blast
  have accepted: "run (record_remote_submission env l a data remote_staging) c (halted l family (at_id a) s x)"
    if ok: "answer = ''ok''" and job: "is_str (jget data ''job_id'')"
  proof -
    obtain j where "jget data ''job_id'' = JStr j" using job by (auto simp: is_str_iff)
    moreover from this have "job_recorded (state_file l (at_id a)) j (site_host l c)"
      using y ok unfolding truthful_def y_eq by simp
    ultimately show ?thesis using recorded_halted [OF c assms(2-6)] by blast
  qed
  show ?thesis
    unfolding submission_reply_def y_eq prod.case Let_def
    by (intro run_if run_post [OF ambiguous_halted [OF c assms(3) refl]] refusal_halted [OF c assms(3)]
        refused accepted) auto
qed

lemma submit_halted:
  assumes "usable l" and c: "tracked l (at_id a) family idle_states s x (unsent (state_file l (at_id a))) c"
    and "enrolled (at_id a) c" and "fresh_ids env" and "at_backend a = family"
    and new: "get_scheduler_job (at_id a) s = None" and "family \<in> {''slurm'', ''pbs'', ''lsf''}"
    and staging: "remote_staging = remote_staging_of (project_of l) (at_id a)"
  shows "run (submit_remote env l a remote_staging) c (halted l family (at_id a) s x)"
proof -
  let ?sp = "state_file l (at_id a)" and ?payload = "execution_payload (at_id a) remote_staging"
  let ?at = "\<lambda>c. tracked l (at_id a) family idle_states s x (ledger ?sp None) c \<and> enrolled (at_id a) c"
  let ?told = "\<lambda>c' (r :: (local_error, reply) res). ?at c' \<and> (\<forall>e. r = Inl e \<longrightarrow> is_transport e) \<and>
    (\<forall>y. r = Inr y \<longrightarrow> (\<exists>c0. truthful (wk_env (lk_worker l c0)) ?sp y (site_host l c')))"
  have submits: "trip (unsent ?sp) (remote_dispatch k (Operation Submit) ?payload)
      (\<lambda>r h. truthful (wk_env k) ?sp r h \<and> fst r \<in> set response_statuses) (ledger ?sp None)" for k
  proof (rule operation_trip, simp only: dispatch.simps)
    have "trip (unsent ?sp) (submit (wk_env k) ?payload) (\<lambda>_. ledger ?sp None) (ledger ?sp None)"
      by (rule trip_pre [OF keeps_submit]) (rule unsent_ledger)
    from trip_conj [OF this submit_truthful [of l "at_id a" "wk_env k" "at_id a", folded staging]]
    show "trip (unsent ?sp) (submit (wk_env k) ?payload) (truthful (wk_env k) ?sp) (ledger ?sp None)"
      by (rule trip_post) auto
  qed
  have reconciles: "trip (ledger ?sp None) (remote_dispatch k (Operation Reconcile) ?payload)
      (\<lambda>r h. truthful (wk_env k) ?sp r h \<and> fst r \<in> set response_statuses) (ledger ?sp None)" for k
  proof (rule operation_trip, simp only: dispatch.simps)
    from trip_conj [OF keeps_reconcile reconcile_truthful [of l "at_id a" "wk_env k" "at_id a", folded staging]]
    show "trip (ledger ?sp None) (reconcile (wk_env k) ?payload) (truthful (wk_env k) ?sp) (ledger ?sp None)"
      by (rule trip_post) auto
  qed
  have told: "run (remote_call l op ?payload) c1 ?told"
    if "tracked l (at_id a) family idle_states s x P c1" "enrolled (at_id a) c1"
      and "run (remote_call l op ?payload) c1 (\<lambda>c' r. \<exists>h. linked l c1 h c' \<and> ledger ?sp None h \<and>
        (\<forall>e. r = Inl e \<longrightarrow> is_transport e) \<and>
        (\<forall>y. r = Inr y \<longrightarrow> (\<exists>c0 path. truthful (wk_env ((lk_worker l c0)\<lparr>wk_path := path\<rparr>)) ?sp y h)))"
    for c1 op P
    using that(3)
  proof (rule run_post)
    fix c' :: controller and r :: "(local_error, reply) res"
    assume "\<exists>h. linked l c1 h c' \<and> ledger ?sp None h \<and> (\<forall>e. r = Inl e \<longrightarrow> is_transport e) \<and>
        (\<forall>y. r = Inr y \<longrightarrow> (\<exists>c0 path. truthful (wk_env ((lk_worker l c0)\<lparr>wk_path := path\<rparr>)) ?sp y h))"
    then obtain h where h: "linked l c1 h c'" "ledger ?sp None h" "\<forall>e. r = Inl e \<longrightarrow> is_transport e"
        "\<forall>y. r = Inr y \<longrightarrow> (\<exists>c0. truthful (wk_env (lk_worker l c0)) ?sp y h)" by auto
    have "tracked l (at_id a) family idle_states s x (ledger ?sp None) c'"
      by (rule tracked_linked [OF that(1) h(1)]) (rule h(2))
    then show "?told c' r"
      using enrolled_linked [OF h(1)] that(2) h(3,4) linked_host [OF h(1)] by simp
  qed
  have asked: "run (remote_call l (Operation Submit) ?payload) c ?told"
    by (rule told [OF c assms(3)], rule remote_call_run [OF assms(1) submits])
      (use c unsent_staged in \<open>auto simp: tracked_def intro: unsent_ledger\<close>)
  have ledger_staged: "ledger ?sp None h'" if "ledger ?sp None h" "staged h h'" for h h'
    using that ledger_cong [of h' ?sp h None] by (simp add: staged_def submits_def)
  have asked_again: "run (remote_call l (Operation Reconcile) ?payload) c1 ?told" if "?at c1" for c1
    by (rule told [OF conjunct1 [OF that] conjunct2 [OF that]], rule remote_call_run [OF assms(1) reconciles])
      (use that ledger_staged in \<open>auto simp: tracked_def\<close>)
  have settled: "run (submission_reply env l a remote_staging y) c1 (halted l family (at_id a) s x)"
    if "?at c1" "truthful (wk_env (lk_worker l c0)) ?sp y (site_host l c1)" for c1 c0 y
    using reply_halted [OF conjunct1 [OF that(1)] conjunct2 [OF that(1)] assms(4-7) that(2)] .
  let ?mid = "\<lambda>c' r. case r of
      Inl e \<Rightarrow> halted l family (at_id a) s x c' (Inl e)
    | Inr y \<Rightarrow> ?at c' \<and> (\<exists>c0. truthful (wk_env (lk_worker l c0)) ?sp y (site_host l c'))"
  have again: "run (try_transport (remote_call l (Operation Reconcile) ?payload)
      (\<lambda>_. ambiguous_raise env l a remote_staging lost)) c1 ?mid" if "?at c1" for c1 lost
    unfolding try_transport_def
    by (rule run_handle [OF asked_again [OF that]])
      (auto simp: is_transport_def intro!: run_post [OF ambiguous_halted [OF _ assms(4) refl]])
  have "run (try_transport (remote_call l (Operation Submit) ?payload)
      (\<lambda>lost. try_transport (remote_call l (Operation Reconcile) ?payload)
         (\<lambda>_. ambiguous_raise env l a remote_staging lost))) c ?mid"
    unfolding try_transport_def [of "remote_call l (Operation Submit) ?payload"]
    by (rule run_handle [OF asked]) (auto simp: is_transport_def intro: again)
  then show ?thesis
    unfolding submit_remote_def Let_def
    by (rule run_step) (auto intro: settled)
qed

section \<open>The contract\<close>

text \<open>The contract of a backend, met by a site whose record of the execution does not exist yet.\<close>

lemma waiting_arrived:
  assumes "waiting k family S s x c" and "untouched_site l k s x"
  shows "tracked l k family S s x (untouched (state_file l k)) c"
  using assms by (auto simp: waiting_def outside_def tracked_def untouched_site_def site_host_def)

lemma remote_submit_halted:
  assumes "usable l" and "untouched_site l (at_id a) s x" and fresh: "fresh_ids env"
    and c: "waiting (at_id a) family idle_states s x c" and "at_backend a = family"
    and "get_scheduler_job (at_id a) s = None" and "family \<in> {''slurm'', ''pbs'', ''lsf''}"
  shows "run (remote_submit env l a p w inventory) c (halted l family (at_id a) s x)"
proof -
  note c1 = waiting_arrived [OF c assms(2)]
  have idle: "halted l family (at_id a) s x c (Inl e)" for e
    by (rule halted_idle [OF tracked_host [OF c1 untouched_unsent]])
  have "run (bindE (stage_remotely env l a p w inventory project) (submit_remote env l a)) c
      (halted l family (at_id a) s x)" if "st_remote_root (lk_site l) = Some project" for project
  proof -
    have project: "project_of l = project" by (simp add: project_of_def that)
    show ?thesis
      by (rule run_step [OF stage_remotely_tracked [OF assms(1) fresh project c1]])
        (auto intro: halted_idle submit_halted [OF assms(1) _ _ fresh assms(5-7)] simp: project)
  qed
  with idle show ?thesis
    by (auto simp: remote_submit_def run_raise split: option.split)
qed

interpretation remote_site: submission_backend env family "remote_submit env l"
    "\<lambda>k s x. usable l \<and> untouched_site l k s x" "site_verdicts l family" for env family l
  by unfold_locales (rule remote_submit_halted, simp_all)

end
