(* ===== verification/RemoteDelivery.thy ===== *)
theory RemoteDelivery
  imports RemoteReplies RemoteProperties
begin

text \<open>
  The site keeps its side: an execution that was prepared as the controller asks for it, and whose
  files have arrived, is submitted when the controller asks for that. The text of the staging
  directory that travels in the second request names the directory that the first one made.
\<close>

section \<open>The directory that both requests name\<close>

definition line_free :: "string \<Rightarrow> bool" where
  "line_free s \<longleftrightarrow> (\<forall>c \<in> set s. code_point c \<notin> {0, 13, 10})"

lemma absolute_path_iff:
  "absolute_path (JStr s) label = Inr p \<longleftrightarrow>
     starts_with ''/'' s \<and> line_free s \<and> p = path_of s \<and> ''..'' \<notin> set (p_parts p)"
  by (auto simp: absolute_path_def Let_def line_free_def list_ex_iff)

lemma split_on_chars: "w \<in> set (split_on sep s) \<Longrightarrow> set w \<subseteq> set s"
  by (induction sep s arbitrary: w rule: split_on.induct) (fastforce split: if_splits list.splits)+

lemma part_line_free: "line_free s \<Longrightarrow> w \<in> set (p_parts (path_of s)) \<Longrightarrow> line_free w"
  using split_on_chars unfolding path_of_def line_free_def by fastforce

lemma join_line_free: "\<forall>w \<in> set ws. line_free w \<Longrightarrow> line_free (join ''/'' ws)"
  by (auto simp: join_def line_free_def code_point_def split: list.splits)

lemma path_str_line_free:
  assumes "\<forall>w \<in> set (p_parts p). line_free w" and "p_root p = ''/'' \<or> p_root p = ''//''"
  shows "line_free (path_str p) \<and> starts_with ''/'' (path_str p)"
  using assms(2) join_line_free [OF assms(1)]
  by (auto simp: path_str_def line_free_def starts_with_def code_point_def)

lemma execution_id_line_free:
  assumes "fullmatch EXECUTION_ID k"
  shows "line_free k \<and> k \<noteq> ''..''"
proof -
  have k: "length k = 26" "\<forall>c \<in> set k. is_digit c \<or> is_upper c"
    using assms by (auto simp: fullmatch_EXECUTION_ID list_all_iff)
  have "code_point c \<notin> {0, 13, 10}" if "c \<in> set k" for c
    using bspec [OF k(2) that] by (auto simp: is_digit_def is_upper_def)
  with k(1) show ?thesis by (auto simp: line_free_def)
qed

text \<open>The staging directory that the controller names is the one that was prepared.\<close>

lemma staging_absolute:
  assumes k: "fullmatch EXECUTION_ID k" and project: "absolute_path (JStr project) label = Inr root_path"
  defines "staging \<equiv> staging_of root_path k"
  shows "absolute_path (JStr (remote_staging_of project k)) label' = Inr staging"
    and "path_of (path_str staging) = staging" and "path_name staging = k"
    and "path_name (path_parent staging) = ''executions''"
    and "path_name (path_parent (path_parent staging)) = ''.bourne''"
proof -
  have p: "starts_with ''/'' project" "line_free project" "root_path = path_of project"
      "''..'' \<notin> set (p_parts root_path)"
    using project unfolding absolute_path_iff by blast+
  have join: "path_join q c = q\<lparr>p_parts := p_parts q @ [c]\<rparr>" if "component c" for q c
    using path_join_component component_part [OF that] component_free [OF that] by blast
  have parts: "staging = root_path\<lparr>p_parts := p_parts root_path @ [''.bourne'', ''executions'', k]\<rparr>"
    by (simp add: staging_def staging_of_def join execution_id_component [OF k] component_names)
  have named: "remote_staging_of project k = path_str staging"
    by (simp add: remote_staging_of_def staging_def staging_of_def p(3))
  have same: "path_of (path_str staging) = staging"
    unfolding named [symmetric] using staging_of_text [OF k p(1)] by (simp add: staging_def p(3))
  have abs: "p_root staging = ''/'' \<or> p_root staging = ''//''"
    using p(1) by (auto simp: parts p(3) path_of_def path_root_def)
  have "line_free ''.bourne''" "line_free ''executions''" by (simp_all add: line_free_def code_point_def)
  then have "\<forall>w \<in> set (p_parts staging). line_free w"
    using part_line_free [OF p(2)] execution_id_line_free [OF k] unfolding parts p(3) by auto
  from path_str_line_free [OF this abs]
  have "line_free (path_str staging)" "starts_with ''/'' (path_str staging)" by blast+
  moreover have "''..'' \<notin> set (p_parts staging)"
    using p(4) execution_id_line_free [OF k] unfolding parts by auto
  ultimately show "absolute_path (JStr (remote_staging_of project k)) label' = Inr staging"
    unfolding absolute_path_iff named same by blast
  show "path_of (path_str staging) = staging" by (rule same)
  show "path_name staging = k" "path_name (path_parent staging) = ''executions''"
      "path_name (path_parent (path_parent staging)) = ''.bourne''"
    by (simp_all add: parts path_name_def path_parent_def butlast_append)
qed

section \<open>From the preparation to the job\<close>

text \<open>What a preparation of a new execution leaves in the state file.\<close>

lemma prepared_new:
  assumes "prepare env (prepare_payload l k family (project_of l) digests v) h = (t, h1, Inr reply)"
    and "h_state h (state_file l k) = None"
  obtains root_path where "fullmatch EXECUTION_ID k"
    and "absolute_path (JStr (project_of l)) ''staging root'' = Inr root_path"
    and "family \<in> set families" and "set (dict_keys digests) = set expected_names"
    and "h_state h1 (state_file l k) =
      Some (Holds (JObj (new_state env k (JStr family) (staging_of root_path k) digests v)))"
proof -
  let ?payload = "prepare_payload l k family (project_of l) digests v"
  have get: "jget ?payload ''staging_root'' = JStr (project_of l)" "jget ?payload ''scheduler_family'' = JStr family"
      "jget ?payload ''expected_files'' = JObj digests" "jget ?payload ''variant'' = v"
      "jget ?payload ''execution_id'' = JStr k"
    by (simp_all add: prepare_payload_def jget_def)
  obtain x rt expected tv hv tr where x: "execution_of ?payload = Inr x"
    and rt: "absolute_path (JStr (project_of l)) ''staging root'' = Inr rt"
    and fam: "in_strings (JStr family) families = Inr True"
    and exp: "expected_of ?payload = Inr expected"
    and var: "prepare_variant rt v h = (tv, hv, Inr ())"
    and rest: "prepare_last env x (JStr family) expected v (staging_of rt x) hv = (tr, h1, Inr reply)"
    using assms(1) unfolding prepare_Inr_iff get by blast
  have k: "x = k" "fullmatch EXECUTION_ID k" using execution_of_Inr [OF x] by (simp_all add: get)
  have digests: "expected = digests" "set (dict_keys digests) = set expected_names"
    using exp by (auto simp: expected_of_def get result_simps split: if_splits)
  have sp: "path_join (staging_of rt k) ''submission-state.json'' = state_file l k"
    using staging_state_file [OF x [unfolded k(1)] rt [folded get(1)]] by simp
  have "h_state hv = h_state h"
    using always_final [OF prepare_variant_same [of h rt v]] var by simp
  then have "prepare_new env k (JStr family) digests v (staging_of rt k) (state_file l k) hv = (tr, h1, Inr reply)"
    using rest assms(2) by (simp add: prepare_last_eq Let_def k(1) digests(1) sp)
  then have "h_state h1 (state_file l k) =
      Some (Holds (JObj (new_state env k (JStr family) (staging_of rt k) digests v)))"
    by (auto simp: prepare_new_def Let_def bindE_Inr_iff eff_Inr_iff write_state_def)
  moreover have "family \<in> set families" using fam by (auto simp: in_strings_def families_def split: if_splits)
  ultimately show ?thesis using that k(2) rt digests(2) by blast
qed

text \<open>The files the controller stages are there with the digests it announced.\<close>

definition arrived :: "renv \<Rightarrow> ppath \<Rightarrow> json dict \<Rightarrow> json \<Rightarrow> host \<Rightarrow> bool" where
  "arrived env staging digests v h \<longleftrightarrow>
     (\<forall>(n, digest) \<in> set digests. stored_blob_ok env h (path_join staging n) digest) \<and>
     changed_variant env h v = Inr False"

text \<open>The scheduler of the site takes the job and names it.\<close>

definition accepts :: "renv \<Rightarrow> string \<Rightarrow> string \<Rightarrow> bool" where
  "accepts env family j \<longleftrightarrow>
     (\<forall>n. e_which env n \<noteq> None) \<and>
     (\<exists>outcome. e_run env 0 = Some outcome \<and> \<not> failed_run outcome \<and>
        job_id_of family (cr_stdout outcome) = Some j)"

lemma launch_accepted:
  assumes "accepts env family j" and "family \<in> set families"
    and script: "h_blob h (path_join staging ''job.sh'') \<noteq> None"
  shows "\<exists>t h' data. launch env sp d (JStr family) executable staging h = (t, h', Inr (''ok'', data)) \<and>
    jget data ''job_id'' = JStr j \<and> job_recorded sp j h' \<and> submits sp h' = Suc (submits sp h)"
proof -
  obtain outcome where run: "e_run env 0 = Some outcome" "\<not> cr_timed_out outcome" "cr_returncode outcome = Some 0"
      "job_id_of family (cr_stdout outcome) = Some j"
    using assms(1) by (auto simp: accepts_def failed_run_def)
  obtain input t where input: "submit_input (JStr family) staging h' = ([], h', Inr input)" if "h_blob h' = h_blob h" for h'
    using script by (cases "family = ''slurm'' \<or> family = ''pbs''") (auto simp: submit_input_def eff_defs)
  show ?thesis
    by (simp add: launch_def Let_def eff_defs write_state_def input run_cmd_def run with_state_def
        public_job [unfolded public_state_def] public_state_def job_recorded_def jget_def dict_get_filter submits_def)
qed

text \<open>
  C4. A site that is asked does what it promised. When a new execution has been prepared as the
  controller's request says, its files and its variant have since arrived with the digests that were
  announced, and the scheduler takes the job, then the controller's request to submit is answered with
  that job, which is on record from then on, and exactly one submission command has run.
\<close>

theorem prepared_execution_is_submitted:
  assumes "prepare env (prepare_payload l k family (project_of l) digests v) h0 = (t0, h1, Inr reply)"
    and "h_state h0 (state_file l k) = None" and "h_state h2 = h_state h1"
    and "arrived env' (path_of (remote_staging_of (project_of l) k)) digests v h2" and "accepts env' family j"
  shows "\<exists>t h3 data. submit env' (execution_payload k (remote_staging_of (project_of l) k)) h2 =
      (t, h3, Inr (''ok'', data)) \<and> jget data ''job_id'' = JStr j \<and>
    job_recorded (state_file l k) j h3 \<and> submits (state_file l k) h3 = Suc (submits (state_file l k) h2)"
proof -
  obtain rt where k: "fullmatch EXECUTION_ID k"
    and rt: "absolute_path (JStr (project_of l)) ''staging root'' = Inr rt"
    and family: "family \<in> set families" and names: "set (dict_keys digests) = set expected_names"
    and state: "h_state h1 (state_file l k) =
      Some (Holds (JObj (new_state env k (JStr family) (staging_of rt k) digests v)))"
    by (rule prepared_new [OF assms(1,2)])
  let ?staging = "staging_of rt k" and ?sp = "state_file l k"
  let ?d = "new_state env k (JStr family) ?staging digests v"
  let ?payload = "execution_payload k (remote_staging_of (project_of l) k)"
  note at_site = staging_absolute [OF k rt]
  have staging: "path_of (remote_staging_of (project_of l) k) = ?staging"
    using at_site(1) unfolding absolute_path_iff by metis
  have sp: "path_join ?staging ''submission-state.json'' = ?sp" by (simp add: state_file_def staging)
  have id: "execution_of ?payload = Inr k" using k by (simp add: execution_of_def execution_payload_def jget_def)
  have get: "jget ?d ''execution_id'' = JStr k" "jget ?d ''expected_variant'' = v"
      "dict_get ?d ''state'' = Some (JStr ''prepared'')" "dict_get ?d ''expected_files'' = Some (JObj digests)"
      "dict_get ?d ''staging_directory'' = Some (JStr (path_str ?staging))"
      "dict_get ?d ''scheduler_family'' = Some (JStr family)"
    by (simp_all add: new_state_def jget_def)
  have read: "read_state ?sp k h2 = ([], h2, Inr ?d)"
    by (simp add: read_state_Inr assms(3) state get)
  have payload: "jget ?payload ''staging_directory'' = JStr (remote_staging_of (project_of l) k)"
    by (simp add: execution_payload_def jget_def)
  have found: "state_of ?payload k h2 = ([], h2, Inr (?sp, ?d))"
    unfolding state_of_def payload at_site(1) Let_def
    by (simp add: at_site(3-5) sp read eff_defs)
  have unchanged: "changed_file env' h2 ?staging digests = None" "changed_variant env' h2 v = Inr False"
    using assms(4) by (simp_all add: arrived_def changed_file_None staging)
  have "''job.sh'' \<in> set (dict_keys digests)" unfolding names by (simp add: expected_names_def)
  then obtain digest where "(''job.sh'', digest) \<in> set digests" by auto
  then have script: "h_blob h2 (path_join ?staging ''job.sh'') \<noteq> None"
    using assms(4) by (force simp: arrived_def staging stored_blob_ok_def split: option.splits)
  obtain command where command: "by_family ''sbatch'' ''qsub'' ''bsub'' (JStr family) = Inr command"
    using family by (auto simp: by_family_def families_def)
  obtain executable where which: "e_which env' command = Some executable"
    using assms(5) by (auto simp: accepts_def)
  have "submit env' ?payload h2 = launch env' ?sp ?d (JStr family) executable ?staging h2"
    unfolding submit_def Let_def
    by (simp add: eff_defs id found item_def get in_strings_def as_str_def as_dict_def at_site(2) unchanged command which)
  with launch_accepted [OF assms(5) family script] show ?thesis by simp
qed

section \<open>A concrete site\<close>

definition sample_link :: link where
  "sample_link = \<lparr>lk_site = \<lparr>st_id = ''hpc'', st_name = ''hpc'', st_kind = ''remote_ssh'', st_created_at = ''now'',
       st_ssh_host = Some ''login'', st_ssh_username = None, st_ssh_port = None, st_scheduler_hint = None,
       st_local_root = None, st_remote_root = Some ''/s'', st_worker_path = Some ''/opt/worker''\<rparr>,
     lk_which = (\<lambda>n. Some (''/usr/bin/'' @ n)), lk_fate = (\<lambda>_ op. if op = Operation Submit then Silent else Answered),
     lk_transfer = (\<lambda>_ _. Copied), lk_command = (\<lambda>_ _ _. (None, False)),
     lk_worker = (\<lambda>_. \<lparr>wk_env = sample_env, wk_path = [], wk_site = undefined, wk_discover = undefined\<rparr>),
     lk_bundle = [], lk_sha256 = (\<lambda>_. []), lk_floats = (\<lambda>_. []), lk_failure = (\<lambda>_. ''timed out''),
     lk_str = (\<lambda>_. []), lk_variants = []\<rparr>"

lemma sample_project: "project_of sample_link = ''/s''"
  by (simp add: project_of_def sample_link_def)

lemma sample_delivery:
  "\<exists>t h1 reply. prepare sample_env (prepare_payload sample_link sample_id ''slurm'' (project_of sample_link) sample_files JNull)
     sample_host = (t, h1, Inr reply) \<and> h_blob h1 = h_blob sample_host"
proof -
  let ?p = "prepare_payload sample_link sample_id ''slurm'' ''/s'' sample_files JNull"
  have j: "jget ?p ''staging_root'' = JStr ''/s''" "jget ?p ''scheduler_family'' = JStr ''slurm''"
      "jget ?p ''variant'' = JNull" "jget ?p ''execution_id'' = jget sample_payload ''execution_id''"
      "jget ?p ''expected_files'' = jget sample_payload ''expected_files''"
    by (simp_all add: prepare_payload_def sample_payload_def jget_def sample_id_def)
  have "execution_of ?p = Inr sample_id" using sample_execution by (simp add: execution_of_def j)
  moreover have "expected_of ?p = Inr sample_files" using sample_expected by (simp add: expected_of_def j)
  moreover have "in_strings (JStr ''slurm'') families = Inr True" by (simp add: in_strings_def families_def)
  ultimately show ?thesis
    unfolding sample_project prepare_def Let_def
    by (simp add: eff_defs j sample_root prepare_variant_def sample_staging_of prepare_new_def Let_def
        write_state_def sample_host_def make_dirs_def)
qed

theorem prepared_execution_is_submitted_witness:
  "\<exists>h t h3 data. submit sample_env (execution_payload sample_id (remote_staging_of ''/s'' sample_id)) h =
      (t, h3, Inr (''ok'', data)) \<and> jget data ''job_id'' = JStr ''4711'' \<and>
    job_recorded (state_file sample_link sample_id) ''4711'' h3"
proof -
  obtain t h1 reply where prepare: "prepare sample_env (prepare_payload sample_link sample_id ''slurm''
      (project_of sample_link) sample_files JNull) sample_host = (t, h1, Inr reply)"
      and blobs: "h_blob h1 = h_blob sample_host"
    using sample_delivery by blast
  have none: "h_state sample_host p = None" for p by (simp add: sample_host_def)
  have "arrived sample_env p sample_files JNull h1" for p
    by (simp add: arrived_def stored_blob_ok_def blobs sample_host_def sample_env_def changed_variant_def expected_names_def)
  moreover have "accepts sample_env ''slurm'' ''4711''"
    by (simp add: accepts_def sample_env_simps failed_run_def sample_job)
  ultimately show ?thesis
    using prepared_execution_is_submitted [OF prepare none refl] unfolding sample_project by blast
qed

end
