(* ===== verification/RemoteLedgerProperties.thy ===== *)
theory RemoteLedgerProperties
  imports RemoteSubmission SubmissionProperties RemoteDelivery
begin

text \<open>
  Executing a plan at a site that is reached over SSH is one entry of the ledger of submissions too,
  whatever becomes of the commands and the transfers on the way.
\<close>

section \<open>The service over a site\<close>

text \<open>The backend of a site, made for one call as \<open>_backend_for_plan\<close> makes it.\<close>

definition site_backend :: "backend_env \<Rightarrow> link \<Rightarrow> execution_backend local" where
  "site_backend env l = bindE (new_client l) (\<lambda>_. retE (remote_execute env l))"

definition runs_at :: "(string \<Rightarrow> string option) \<Rightarrow> link \<Rightarrow> plan \<Rightarrow> bool" where
  "runs_at site_kind l p \<longleftrightarrow>
     pl_site_id p = Some (st_id (lk_site l)) \<and> site_kind (st_id (lk_site l)) = Some ''remote_ssh''"

lemma site_backend_opens:
  assumes "runs_at site_kind l p" and "usable l"
  shows "run (backend_for_plan env site_kind (site_backend env l) p) c
    (\<lambda>c' r. ct_store c' = ct_store c \<and> outside c' = outside c \<and> r = Inr (remote_execute env l))"
  using assms
  by (simp add: runs_at_def backend_for_plan_def site_backend_def new_client_def run_rules outside_def)


section \<open>A concrete site\<close>

definition remote_controller :: controller where
  "remote_controller = sample_controller\<lparr>ct_store := sample_store\<lparr>st_plans := [sample_plan\<lparr>pl_site_id := Some ''hpc''\<rparr>]\<rparr>\<rparr>"

lemma sample_link_usable: "require_remote_site (lk_site sample_link) = Inr ()"
  by (simp add: require_remote_site_def sample_link_def validate_remote_token_def REMOTE_TOKEN_def
      starts_with_def is_alnum_def is_upper_def is_lower_def is_digit_def code_point_def)


end
