(* ===== verification/SiteStore.thy ===== *)
theory SiteStore
  imports LocalBackend SiteExploration Variants SiteModels
begin

text \<open>
  The rows that planning a site keeps (\<open>site_storage.py\<close>): sites, policy claims, the inventories
  observed at a site, selections and workload variants, beside the rows of the execution store that
  refer to them. A row is the object whose document the column holds. The two stores are one database:
  the site, selection and variant rows of the execution store are the keys of the rows here.
\<close>

section \<open>Rows\<close>

record variant =
  va_id :: string
  va_workload :: string
  va_created_at :: string
  va_original :: string
  va_derived :: string
  va_original_sha256 :: string
  va_derived_sha256 :: string
  va_changes :: "change list"
  va_proposer :: string
  va_classifications :: "(string \<times> string) list"
  va_supporting :: "json dict list"
  va_approvals :: "(string \<times> bool) list"
  va_declarations :: "(string \<times> bool) list"
  va_trusted :: bool

definition WorkloadVariant :: "variant \<Rightarrow> variant pyres" where
  "WorkloadVariant v =
     (if \<not> list_all (\<lambda>(_, c). c \<in> set classes) (va_classifications v)
      then value_error ''workload variant has an unsupported parameter classification''
      else if va_original v = va_derived v
      then value_error ''derived workload input must not replace the original path''
      else if \<not> SHA256_DIGEST (va_original_sha256 v) \<or> \<not> SHA256_DIGEST (va_derived_sha256 v)
      then value_error ''variant content hashes must be canonical SHA-256 digests''
      else Inr v)"

record selection =
  sl_id :: string
  sl_workload :: string
  sl_site :: string
  sl_created_at :: string
  sl_generated :: nat
  sl_hard_invalid :: nat
  sl_viable :: nat
  sl_candidate :: string
  sl_summary :: "json dict"
  sl_rejections :: "json list"
  sl_source :: string
  sl_rationale :: "string option"
  sl_unresolved :: "string list"
  sl_truncated :: bool
  sl_coverage :: string
  sl_hard_pruned :: int
  sl_explored_groups :: nat
  sl_total_groups :: nat

text \<open>
  The database and the files of the machine that plans, with how many identifiers it has drawn.
\<close>

record planner =
  pn_store :: store
  pn_sites :: "site list"
  pn_claims :: "claim list"
  pn_selections :: "selection list"
  pn_variants :: "variant list"
  pn_files :: "ppath \<Rightarrow> string option"
  pn_dirs :: "ppath \<Rightarrow> bool"
  pn_drawn :: nat

datatype planner_error =
    SiteNotFound string
  | RowNotFound string
  | PlannerStore store_error
  | PlannerRaised py_error
  | PlannerVariant variant_error
  | PlannerRequest request_error
  | PlannerService local_error
  | PlannerIO

type_synonym 'a planned = "(planner, planner_error, 'a) eff"

abbreviation planner_refuses :: "string \<Rightarrow> (planner_error, 'a) res" where
  "planner_refuses message \<equiv> Inl (PlannerRaised (PyValueError message))"

definition mirrored :: "planner \<Rightarrow> bool" where
  "mirrored c \<longleftrightarrow>
     st_sites (pn_store c) = map st_id (pn_sites c) \<and>
     st_selections (pn_store c) = map (\<lambda>l. (sl_id l, sl_workload l, sl_site l)) (pn_selections c) \<and>
     st_variants (pn_store c) = map (\<lambda>v. (va_id v, va_workload v)) (pn_variants c)"

section \<open>Sites and claims\<close>

definition save_site :: "site \<Rightarrow> planner \<Rightarrow> (planner_error, planner) res" where
  "save_site s c =
     (if st_id s \<in> st_id ` set (pn_sites c) \<or> st_name s \<in> st_name ` set (pn_sites c) \<or>
         st_kind s \<notin> {''local'', ''remote_ssh''}
      then planner_refuses (''site name or identity already exists: '' @ st_name s)
      else Inr (c\<lparr>pn_sites := pn_sites c @ [s],
        pn_store := (pn_store c)\<lparr>st_sites := st_sites (pn_store c) @ [st_id s]\<rparr>\<rparr>))"

text \<open>A site by its identity, or by its name.\<close>

definition get_site :: "string \<Rightarrow> planner \<Rightarrow> (planner_error, site) res" where
  "get_site reference c =
     (case find_row st_id reference (pn_sites c) of
        Some s \<Rightarrow> Inr s
      | None \<Rightarrow>
          (case find_row st_name reference (pn_sites c) of
             Some s \<Rightarrow> Inr s | None \<Rightarrow> Inl (SiteNotFound reference)))"

definition list_sites :: "planner \<Rightarrow> site list" where
  "list_sites c = sort_by (\<lambda>a b. str_less (st_name a) (st_name b) \<or>
     st_name a = st_name b \<and> str_less (st_id a) (st_id b)) (pn_sites c)"

definition save_policy_claim :: "claim \<Rightarrow> planner \<Rightarrow> (planner_error, planner) res" where
  "save_policy_claim p c =
     bindR (get_site (cl_site_id p) c) (\<lambda>_.
     if cl_id p \<in> cl_id ` set (pn_claims c) \<or> cl_site_id p \<notin> st_id ` set (pn_sites c) \<or>
        cl_evidence_kind p \<notin> set evidence_kinds \<or>
        cl_interpretation p \<notin> {''hard_constraint'', ''advisory'', ''unresolved''}
     then Inl (PlannerStore IntegrityError)
     else Inr (c\<lparr>pn_claims := pn_claims c @ [p]\<rparr>))"

definition policy_claims :: "string \<Rightarrow> planner \<Rightarrow> (planner_error, claim list) res" where
  "policy_claims site_id c =
     mapR (\<lambda>_. sort_by (\<lambda>a b. str_less (cl_created_at a) (cl_created_at b) \<or>
         cl_created_at a = cl_created_at b \<and> str_less (cl_id a) (cl_id b))
       (filter (\<lambda>p. cl_site_id p = site_id) (pn_claims c)))
     (get_site site_id c)"

section \<open>Inventories of a site\<close>

definition link_inventory :: "string \<Rightarrow> string \<Rightarrow> planner \<Rightarrow> (planner_error, planner) res" where
  "link_inventory site_id snapshot_id c =
     mapErr PlannerStore (mapR (\<lambda>rows. c\<lparr>pn_store := (pn_store c)\<lparr>st_site_links := rows\<rparr>\<rparr>)
       (insert_row fst (\<lambda>(i, s). i \<in> i_id ` set (st_snapshots (pn_store c)) \<and>
           s \<in> st_id ` set (pn_sites c)) (snapshot_id, site_id) (st_site_links (pn_store c))))"

definition site_for_inventory :: "string \<Rightarrow> planner \<Rightarrow> site option" where
  "site_for_inventory snapshot_id c =
     Option.bind (find_row fst snapshot_id (st_site_links (pn_store c))) (\<lambda>(_, s).
       find_row st_id s (pn_sites c))"

definition get_inventory :: "string \<Rightarrow> planner \<Rightarrow> (planner_error, inventory) res" where
  "get_inventory k c =
     (case find_row i_id k (st_snapshots (pn_store c)) of
        None \<Rightarrow> Inl (RowNotFound k) | Some i \<Rightarrow> Inr i)"

section \<open>Selections and variants\<close>

definition save_selection :: "selection \<Rightarrow> planner \<Rightarrow> (planner_error, planner) res" where
  "save_selection l c =
     (if sl_id l \<in> sl_id ` set (pn_selections c) \<or>
         sl_workload l \<notin> w_id ` set (st_workloads (pn_store c)) \<or> sl_site l \<notin> st_id ` set (pn_sites c)
      then Inl (PlannerStore IntegrityError)
      else Inr (c\<lparr>pn_selections := pn_selections c @ [l],
        pn_store := (pn_store c)\<lparr>st_selections := st_selections (pn_store c) @
          [(sl_id l, sl_workload l, sl_site l)]\<rparr>\<rparr>))"

definition get_selection :: "string \<Rightarrow> planner \<Rightarrow> (planner_error, selection) res" where
  "get_selection k c =
     (case find_row sl_id k (pn_selections c) of None \<Rightarrow> Inl (RowNotFound k) | Some l \<Rightarrow> Inr l)"

definition save_variant :: "variant \<Rightarrow> planner \<Rightarrow> (planner_error, planner) res" where
  "save_variant v c =
     (if va_id v \<in> va_id ` set (pn_variants c) \<or> va_workload v \<notin> w_id ` set (st_workloads (pn_store c))
      then Inl (PlannerStore IntegrityError)
      else Inr (c\<lparr>pn_variants := pn_variants c @ [v],
        pn_store := (pn_store c)\<lparr>st_variants := st_variants (pn_store c) @ [(va_id v, va_workload v)]\<rparr>\<rparr>))"

definition get_variant :: "string \<Rightarrow> planner \<Rightarrow> (planner_error, variant) res" where
  "get_variant k c =
     (case find_row va_id k (pn_variants c) of None \<Rightarrow> Inl (RowNotFound k) | Some v \<Rightarrow> Inr v)"

section \<open>Requests and plans\<close>

text \<open>A transaction of the execution store on the same database.\<close>

definition in_store :: "(store \<Rightarrow> store stored) \<Rightarrow> planner \<Rightarrow> (planner_error, planner) res" where
  "in_store f c = mapErr PlannerStore (mapR (\<lambda>s. c\<lparr>pn_store := s\<rparr>) (f (pn_store c)))"

end
