(* ===== verification/SiteService.thy ===== *)
theory SiteService
  imports SiteStore
begin

text \<open>
  Planning at a site (\<open>site_service.py\<close>, with the files of \<open>variants.py\<close>): an exploration of the
  candidates for a request, and the selection of one of them, which derives the workload variant the
  candidate asks for, records the selection and stores the plan. What the file system resolves, the
  identifiers, the clock and the decoding of JSON are arguments.
\<close>

record planning_env =
  pe_site :: site_env
  pe_ulid :: "nat \<Rightarrow> string"
  pe_now :: "planner \<Rightarrow> string"
  pe_marker :: "string \<Rightarrow> bool"
  pe_resolve :: "planner \<Rightarrow> ppath \<Rightarrow> ppath"
  pe_loads :: "string \<Rightarrow> json option"
  pe_disk :: "planner \<Rightarrow> bool"
  pe_staging :: ppath
  pe_claim :: "json \<Rightarrow> nat option"

text \<open>\<open>new_ulid()\<close> and \<open>utc_now()\<close>\<close>

definition drawE :: "planning_env \<Rightarrow> string planned" where
  "drawE env = (\<lambda>c. ([], c\<lparr>pn_drawn := Suc (pn_drawn c)\<rparr>, Inr (pe_ulid env (pn_drawn c))))"

definition stampE :: "planning_env \<Rightarrow> string planned" where
  "stampE env = readE (\<lambda>c. Inr (pe_now env c))"

section \<open>Sites\<close>

definition add_site :: "planning_env \<Rightarrow> site \<Rightarrow> site planned" where
  "add_site env given =
     bindE (drawE env) (\<lambda>i.
     bindE (stampE env) (\<lambda>now.
     bindE (liftE (mapErr PlannerRaised (Site (given\<lparr>st_id := i, st_created_at := now,
       st_kind := (if st_ssh_host given = None then ''local'' else ''remote_ssh'')\<rparr>)))) (\<lambda>s.
     bindE (transE (save_site s)) (\<lambda>_. retE s))))"

definition submit_policy_claim :: "planning_env \<Rightarrow> string \<Rightarrow> claim \<Rightarrow> claim planned" where
  "submit_policy_claim env reference given =
     bindE (readE (get_site reference)) (\<lambda>s.
     bindE (drawE env) (\<lambda>i.
     bindE (stampE env) (\<lambda>now.
     bindE (liftE (mapErr PlannerRaised (SitePolicyClaim (pe_claim env)
       (given\<lparr>cl_id := i, cl_site_id := st_id s, cl_created_at := now\<rparr>)))) (\<lambda>p.
     bindE (transE (save_policy_claim p)) (\<lambda>_. retE p)))))"

section \<open>The request as the site sees it\<close>

text \<open>\<open>tuple(sorted(dict.items()))\<close> after an update\<close>

definition updated_metadata :: "(string \<times> string) list \<Rightarrow> (string \<times> string) list \<Rightarrow> (string \<times> string) list" where
  "updated_metadata metadata changes =
     sort_by (\<lambda>a b. str_less (fst a) (fst b)) (foldl (\<lambda>d (k, v). dict_set k v d) [] (metadata @ changes))"

definition with_source :: "request \<Rightarrow> (string \<times> string) list \<Rightarrow> (planner_error, request) res" where
  "with_source r changes =
     mapErr PlannerRequest
       (bindR (RequestSource \<lparr>so_kind = so_kind (rq_source r),
           so_metadata = updated_metadata (so_metadata (rq_source r)) changes\<rparr>) (\<lambda>source.
         ExecutionRequest (r\<lparr>rq_source := source\<rparr>)))"

text \<open>The working directory at the site: the same place below the root the site maps.\<close>

definition mapped_directory :: "(ppath \<Rightarrow> ppath) \<Rightarrow> site \<Rightarrow> string \<Rightarrow> string \<Rightarrow> (planner_error, string) res" where
  "mapped_directory resolve s remote_root resolved =
     (case st_local_root s of
        None \<Rightarrow> Inr remote_root
      | Some r \<Rightarrow>
          let local_root = resolve (path_of r); working = resolve (path_of resolved) in
          if \<not> is_relative_to working local_root
          then planner_refuses ''request working directory is outside the configured site mapping''
          else Inr (path_str (path_join (path_of remote_root)
            (path_str \<lparr>p_root = [], p_parts = drop (length (p_parts local_root)) (p_parts working)\<rparr>))))"

definition effective_request :: "(ppath \<Rightarrow> ppath) \<Rightarrow> request \<Rightarrow> site \<Rightarrow> (planner_error, request) res" where
  "effective_request resolve r s =
     (case (st_kind s = ''remote_ssh'', st_remote_root s) of
        (True, Some remote_root) \<Rightarrow>
          bindR (mapped_directory resolve s remote_root (rq_resolved_working_directory r)) (\<lambda>remote.
          with_source (r\<lparr>rq_resolved_working_directory := remote\<rparr>)
            [(''site_id'', st_id s),
             (''original_resolved_working_directory'', rq_resolved_working_directory r)])
      | _ \<Rightarrow> Inr r)"

text \<open>\<open>request_to_workload\<close>, and the transaction that stores both.\<close>

definition compile_request :: "planning_env \<Rightarrow> request \<Rightarrow> workload planned" where
  "compile_request env r =
     bindE (drawE env) (\<lambda>i.
     bindE (stampE env) (\<lambda>now.
     bindE (liftE (mapErr PlannerService (request_to_workload (pe_marker env) i now r))) (\<lambda>w.
     bindE (transE (in_store (save_request_with_workload r w))) (\<lambda>_. retE w))))"

section \<open>The exploration\<close>

record session =
  se_request :: request
  se_workload :: string
  se_inventory :: string
  se_site :: string
  se_exploration :: exploration
  se_provider :: "provider option"

text \<open>The requirements of the provider, each once.\<close>

definition environment_needs :: "provider option \<Rightarrow> json dict list" where
  "environment_needs provider =
     (case provider of
        None \<Rightarrow> []
      | Some p \<Rightarrow> foldl (\<lambda>rs r. if list_ex (\<lambda>r'. py_eq (JObj r') (JObj r)) rs then rs else rs @ [r]) []
          (pv_environments p @ pv_launchers p))"

definition explored :: "site_env \<Rightarrow> workload \<Rightarrow> inventory \<Rightarrow> provider option \<Rightarrow> claim list \<Rightarrow> shape list option \<Rightarrow>
    nat \<Rightarrow> (planner_error, exploration) res" where
  "explored x w snapshot provider claims shapes limit =
     bindR (case shapes of
         Some ss \<Rightarrow> Inr ss
       | None \<Rightarrow> mapErr (PlannerVariant \<circ> Provider) (generate_resource_shapes x snapshot w provider claims limit))
       (\<lambda>ss.
     bindR (mapErr PlannerRaised (resolve_environments x snapshot (environment_needs provider))) (\<lambda>environments.
     mapErr (PlannerVariant \<circ> Provider) (explore_candidates x w ss environments provider claims limit)))"

definition explore_request :: "planning_env \<Rightarrow> request \<Rightarrow> string \<Rightarrow> inventory \<Rightarrow> provider option \<Rightarrow>
    shape list option \<Rightarrow> nat \<Rightarrow> session planned" where
  "explore_request env r reference snapshot provider shapes limit =
     bindE (readE (get_site reference)) (\<lambda>s.
     bindE (readE (\<lambda>c. Inr (site_for_inventory (i_id snapshot) c))) (\<lambda>linked.
     if map_option st_id linked \<noteq> Some (st_id s)
     then liftE (planner_refuses ''inventory does not belong to the selected site'')
     else
       bindE (readE (\<lambda>c. effective_request (pe_resolve env c) r s)) (\<lambda>effective.
       bindE (compile_request env effective) (\<lambda>w.
       bindE (readE (policy_claims (st_id s))) (\<lambda>claims.
       bindE (liftE (explored (pe_site env) w snapshot provider claims shapes limit)) (\<lambda>exploration.
       retE \<lparr>se_request = effective, se_workload = w_id w, se_inventory = i_id snapshot, se_site = st_id s,
         se_exploration = exploration, se_provider = provider\<rparr>))))))"

section \<open>The variant of the selected candidate\<close>

text \<open>\<open>json.dumps(value, ensure_ascii=False, sort_keys=True, indent=2)\<close>\<close>

definition pretty_lines :: "nat \<Rightarrow> string \<Rightarrow> string \<Rightarrow> string list \<Rightarrow> string" where
  "pretty_lines depth before after items =
     (if items = [] then before @ after
      else
        let newline = [CHR 0x0A] @ concat (replicate (Suc depth) ''  '') in
        before @ newline @ join ('','' @ newline) items @ [CHR 0x0A] @ concat (replicate depth ''  '') @ after)"

fun json_pretty :: "(py_float \<Rightarrow> string) \<Rightarrow> nat \<Rightarrow> json \<Rightarrow> string" where
  "json_pretty fr depth (JArr xs) = pretty_lines depth ''['' '']'' (map (json_pretty fr (Suc depth)) xs)"
| "json_pretty fr depth (JObj d) = pretty_lines depth ''{'' ''}''
     (map (\<lambda>(k, t). json_string k @ '': '' @ t)
       (foldr insort_pair (map (\<lambda>(k, v). (k, json_pretty fr (Suc depth) v)) d) []))"
| "json_pretty fr depth v = json_dumps fr v"

definition MAX_VARIANT_INPUT_BYTES :: nat where "MAX_VARIANT_INPUT_BYTES = 16 * 1024 * 1024"

text \<open>Reading the JSON input, as both functions of \<open>variants.py\<close> do.\<close>

definition read_variant_source :: "planning_env \<Rightarrow> ppath \<Rightarrow> (string \<times> json) planned" where
  "read_variant_source env original =
     bindE (readE (\<lambda>c. case pn_files c original of None \<Rightarrow> Inl PlannerIO | Some raw \<Rightarrow> Inr raw)) (\<lambda>raw.
     if length raw > MAX_VARIANT_INPUT_BYTES
     then liftE (planner_refuses ''variant source exceeds the size limit'')
     else
       (case pe_loads env raw of
          None \<Rightarrow> liftE (planner_refuses ''variant source is not valid UTF-8 JSON'')
        | Some v \<Rightarrow> retE (raw, v)))"

definition make_directory :: "planning_env \<Rightarrow> ppath \<Rightarrow> unit planned" where
  "make_directory env directory = transE (\<lambda>c.
     if pn_dirs c directory \<or> \<not> pe_disk env c then Inl PlannerIO
     else Inr (c\<lparr>pn_dirs := (\<lambda>q. pn_dirs c q \<or> is_relative_to directory q)\<rparr>))"

text \<open>\<open>open("xb")\<close>: a file that exists is not replaced.\<close>

definition create_file :: "planning_env \<Rightarrow> ppath \<Rightarrow> string \<Rightarrow> unit planned" where
  "create_file env path bytes = transE (\<lambda>c.
     if pn_files c path \<noteq> None \<or> \<not> pe_disk env c then Inl PlannerIO
     else Inr (c\<lparr>pn_files := (pn_files c)(path := Some bytes)\<rparr>))"

definition content_digest :: "planning_env \<Rightarrow> string \<Rightarrow> string" where
  "content_digest env bytes = ''sha256:'' @ x_digest (pe_site env) bytes"

text \<open>What is said of each change: its class and the evidence for the class.\<close>

definition changed_parameters :: "provider \<Rightarrow> change list \<Rightarrow> param list" where
  "changed_parameters p cs = List.map_filter (\<lambda>c. find (\<lambda>d. pd_name d = ch_parameter c) (pv_parameters p)) cs"

definition materialize_variant :: "planning_env \<Rightarrow> string \<Rightarrow> ppath \<Rightarrow> ppath \<Rightarrow> json dict \<Rightarrow> provider \<Rightarrow>
    string \<Rightarrow> (string \<times> bool) list \<Rightarrow> (string \<times> bool) list \<Rightarrow> bool \<Rightarrow> variant planned" where
  "materialize_variant env workload_id original staging_root changes p proposer approvals declarations trusted =
     bindE (read_variant_source env original) (\<lambda>(raw, document).
     bindE (drawE env) (\<lambda>i.
     bindE (liftE (mapErr PlannerVariant (materialize_json_variant p (path_name original) approvals
       declarations trusted document changes))) (\<lambda>(document', cs).
     bindE (readE (\<lambda>c. Inr (path_join (pe_resolve env c staging_root) i))) (\<lambda>directory.
     bindE (make_directory env directory) (\<lambda>_.
     let derived = path_join directory (path_name original);
         encoded = utf8_encode (json_pretty (x_float (pe_site env)) 0 document' @ [CHR 0x0A]) in
     bindE (create_file env derived encoded) (\<lambda>_.
     bindE (stampE env) (\<lambda>now.
     bindE (readE (\<lambda>c. Inr (path_str (pe_resolve env c original)))) (\<lambda>original_text.
     liftE (mapErr PlannerRaised (WorkloadVariant \<lparr>va_id = i, va_workload = workload_id,
       va_created_at = now, va_original = original_text, va_derived = path_str derived,
       va_original_sha256 = content_digest env raw, va_derived_sha256 = content_digest env encoded,
       va_changes = cs, va_proposer = proposer,
       va_classifications = map (\<lambda>d. (pd_name d, pd_classification d)) (changed_parameters p cs),
       va_supporting = map pd_evidence (changed_parameters p cs), va_approvals = approvals,
       va_declarations = declarations, va_trusted = trusted\<rparr>))))))))))"

text \<open>The inputs the candidate's parameters are bound to.\<close>

definition bound_inputs :: "provider \<Rightarrow> json dict \<Rightarrow> string list" where
  "bound_inputs p parameters = dedup (List.map_filter (\<lambda>d.
     if pd_name d \<in> set (dict_keys parameters) then map_option bd_input (pd_binding d) else None)
     (pv_parameters p))"

definition based :: "string \<Rightarrow> string \<Rightarrow> ppath" where
  "based directory v =
     (if is_absolute (path_of v) then path_of v else path_join (path_of directory) v)"

definition matching_inputs :: "(ppath \<Rightarrow> ppath) \<Rightarrow> request \<Rightarrow> string \<Rightarrow> ppath list" where
  "matching_inputs resolve r bound =
     map (\<lambda>v. resolve (based (rq_base_directory r) v))
       (filter (\<lambda>v. path_name (path_of v) = path_name (path_of bound)) (rq_inputs r))"

definition materialize_selected_variant :: "planning_env \<Rightarrow> session \<Rightarrow> pcandidate \<Rightarrow> provider \<Rightarrow> string \<Rightarrow>
    (string \<times> bool) list \<Rightarrow> (string \<times> bool) list \<Rightarrow> bool \<Rightarrow> variant option planned" where
  "materialize_selected_variant env session candidate p proposer approvals declarations trusted =
     (case bound_inputs p (pc_parameters candidate) of
        [] \<Rightarrow> retE None
      | [bound] \<Rightarrow>
          bindE (readE (\<lambda>c. Inr (matching_inputs (pe_resolve env c) (se_request session) bound))) (\<lambda>matches.
          case matches of
            [original] \<Rightarrow>
              bindE (read_variant_source env original) (\<lambda>(_, document).
              bindE (liftE (mapErr (PlannerVariant \<circ> Provider) (candidate_variant_changes p
                (path_name original) document (pc_parameters candidate)))) (\<lambda>changes.
              if changes = [] then retE None
              else bindE (materialize_variant env (se_workload session) original (pe_staging env) changes p
                proposer approvals declarations trusted) (\<lambda>v. retE (Some v))))
          | _ \<Rightarrow> liftE (planner_refuses
              ''provider-bound variant input must match exactly one declared request input''))
      | _ \<Rightarrow> liftE (planner_refuses
          ''automatic variant materialization currently requires one bound JSON input''))"

section \<open>The request of a variant\<close>

text \<open>The words of a command that mean the variant's source become the derived file.\<close>

definition replaced_path :: "(ppath \<Rightarrow> ppath) \<Rightarrow> string \<Rightarrow> ppath \<Rightarrow> string \<Rightarrow> string \<Rightarrow> string" where
  "replaced_path resolve directory original derived v =
     (if resolve (based directory v) = original then derived else v)"

definition derived_text :: "site \<Rightarrow> variant \<Rightarrow> (planner_error, string) res" where
  "derived_text s v =
     (if st_kind s = ''remote_ssh''
      then (case st_remote_root s of
          None \<Rightarrow> planner_refuses ''remote workload variant requires a remote project root''
        | Some project \<Rightarrow>
            Inr (path_str (path_join (path_join (path_join (path_join (path_of project) ''.bourne'') ''variants'')
              (va_id v)) (path_name (path_of (va_derived v))))))
      else Inr (va_derived v))"

definition shape_resources :: "shape \<Rightarrow> resources" where
  "shape_resources s = \<lparr>r_cpus = s_total_cpus s, r_gpus = s_gpus s, r_nodes = s_nodes s,
     r_mpi_ranks = s_mpi_ranks s, r_memory_bytes = s_memory_bytes s, r_walltime_seconds = s_walltime_seconds s\<rparr>"

definition variant_request :: "(ppath \<Rightarrow> ppath) \<Rightarrow> string \<Rightarrow> string \<Rightarrow> request \<Rightarrow> site \<Rightarrow> variant \<Rightarrow> shape \<Rightarrow>
    (planner_error, request) res" where
  "variant_request resolve new_id now r s v shape =
     bindR (derived_text s v) (\<lambda>derived.
     let original = resolve (path_of (va_original v));
         change = replaced_path resolve (rq_base_directory r) original derived;
         command = map change (rq_command r); inputs = map change (rq_inputs r) in
     if command = rq_command r \<and> inputs = rq_inputs r
     then planner_refuses ''workload variant source is not referenced by request argv/inputs''
     else
       bindR (mapErr PlannerRaised (ResourceRequirements (shape_resources shape))) (\<lambda>resources.
       with_source (r\<lparr>rq_id := new_id, rq_created_at := now, rq_command := command, rq_inputs := inputs,
           rq_resources := resources\<rparr>)
         [(''effective_from_request'', rq_id r), (''workload_variant_id'', va_id v)]))"

section \<open>The scheduler of the selected candidate\<close>

text \<open>Where the evidence of the shape names a target of the scheduler.\<close>

fun evidence_target :: "string list \<Rightarrow> json list \<Rightarrow> string option pyres" where
  "evidence_target targets [] = Inr None"
| "evidence_target targets (v # vs) =
     (case v of
        JObj d \<Rightarrow>
          (case jget d ''target_id'' of
             JStr t \<Rightarrow> if t \<in> set targets then Inr (Some t) else evidence_target targets vs
           | _ \<Rightarrow> evidence_target targets vs)
      | _ \<Rightarrow> Inl PyAttributeError)"

definition class_target :: "inventory \<Rightarrow> scheduler \<Rightarrow> json \<Rightarrow> string option" where
  "class_target snapshot c scheduler_class =
     map_option t_id (find (\<lambda>t. t_id t \<in> set (sc_targets c) \<and> JStr (t_name t) = scheduler_class)
       (i_targets snapshot))"

definition selected_family :: "string \<Rightarrow> string option \<Rightarrow> inventory \<Rightarrow> string pyres" where
  "selected_family requested hint snapshot =
     (if requested \<in> set families then Inr requested
      else if hint \<in> Some ` set families then Inr (the hint)
      else
        (case sort_str (dedup (filter (\<lambda>f. f \<in> set families) (map sc_family (i_schedulers snapshot)))) of
           [f] \<Rightarrow> Inr f
         | _ \<Rightarrow> value_error ''scheduler family remains ambiguous''))"

definition scheduler_selection :: "string \<Rightarrow> string option \<Rightarrow> inventory \<Rightarrow> shape \<Rightarrow>
    (string \<times> string \<times> string) pyres" where
  "scheduler_selection requested hint snapshot shape =
     bindR (selected_family requested hint snapshot) (\<lambda>family.
     case filter (\<lambda>c. sc_family c = family) (i_schedulers snapshot) of
       [c] \<Rightarrow>
         bindR (bindR (py_list (s_evidence shape)) (evidence_target (sc_targets c))) (\<lambda>stated.
         let by_class = (if stated = None \<and> s_scheduler_class shape \<noteq> JNull
               then class_target snapshot c (s_scheduler_class shape) else stated);
             only = (if by_class = None then (case sc_targets c of [t] \<Rightarrow> Some t | _ \<Rightarrow> None) else by_class) in
         case only of
           None \<Rightarrow> value_error ''scheduler execution target remains ambiguous''
         | Some t \<Rightarrow> Inr (family, sc_id c, t))
     | _ \<Rightarrow> value_error ''scheduler identity remains ambiguous'')"

section \<open>The selection\<close>

definition grade_text :: "grade \<Rightarrow> string" where
  "grade_text g = (case g of Viable \<Rightarrow> ''viable'' | HardInvalid \<Rightarrow> ''hard_invalid''
     | Unresolved \<Rightarrow> ''unresolved'' | PolicyIncompatible \<Rightarrow> ''policy_incompatible'')"

definition reason_to_dict :: "reason \<Rightarrow> json dict" where
  "reason_to_dict r = [(''code'', JStr (rs_code r)), (''message'', JStr (rs_message r)),
     (''evidence_kind'', rs_kind r), (''source_ids'', strings (rs_sources r))]"

definition candidate_to_dict :: "pcandidate \<Rightarrow> json dict" where
  "candidate_to_dict c = [(''id'', JStr (pc_id c)), (''resource_shape'', JObj (shape_to_dict (pc_shape c))),
     (''environment'', opt_json (JObj \<circ> environment_to_dict) (pc_environment c)),
     (''parameters'', JObj (pc_parameters c)), (''state'', JStr (grade_text (pc_state c))),
     (''reasons'', JArr (map (JObj \<circ> reason_to_dict) (pc_reasons c))),
     (''unresolved'', strings (pc_unresolved c))]"

text \<open>
  The reasons of the candidates that are not viable, each with how often it occurs, the most frequent
  first: a counter over tuples, sorted with the comparisons of Python, which fail between values of
  different kinds.
\<close>

fun counted :: "reason \<Rightarrow> (reason \<times> nat) list \<Rightarrow> (reason \<times> nat) list" where
  "counted r [] = [(r, 1)]"
| "counted r ((s, n) # rest) =
     (if rs_code r = rs_code s \<and> rs_message r = rs_message s \<and> py_eq (rs_kind r) (rs_kind s)
      then (s, Suc n) # rest else (s, n) # counted r rest)"

definition reason_key :: "reason \<times> nat \<Rightarrow> json" where
  "reason_key c = (case c of (r, n) \<Rightarrow>
     JArr [JInt (- int n), JArr [JStr (rs_code r), JStr (rs_message r), rs_kind r]])"

fun insort_key :: "('a \<Rightarrow> json) \<Rightarrow> 'a \<Rightarrow> 'a list \<Rightarrow> 'a list provided" where
  "insort_key key x [] = Inr [x]"
| "insort_key key x (y # ys) =
     bindR (py_less False (key y) (key x)) (\<lambda>b.
     if b then mapR (\<lambda>zs. y # zs) (insort_key key x ys) else Inr (x # y # ys))"

definition sorted_keys :: "('a \<Rightarrow> json) \<Rightarrow> 'a list \<Rightarrow> 'a list provided" where
  "sorted_keys key xs = foldr (\<lambda>x r. bindR r (insort_key key x)) xs (Inr [])"

definition rejection_reason_summary :: "pcandidate list \<Rightarrow> json list provided" where
  "rejection_reason_summary cs =
     (let reasons = concat (map pc_reasons (filter (\<lambda>c. pc_state c \<noteq> Viable) cs)) in
      if \<not> list_all (\<lambda>r. hashable (rs_kind r)) reasons then Inl (PyError PyTypeError)
      else
        mapR (\<lambda>counts. map (\<lambda>(r, n). JObj [(''code'', JStr (rs_code r)), (''message'', JStr (rs_message r)),
            (''evidence_kind'', rs_kind r), (''count'', JInt (int n))]) (take 32 counts))
          (sorted_keys reason_key (fold counted reasons [])))"

text \<open>The evidence of the plan: the selection, then what was said of the candidate.\<close>

definition reason_state :: "json \<Rightarrow> string pyres" where
  "reason_state kind =
     (if \<not> hashable kind then Inl PyTypeError
      else if kind \<in> JStr ` {''observed'', ''inferred'', ''historical'', ''unknown'', ''explicit''}
      then Inr (the_str kind)
      else if kind \<in> JStr ` {''site_declared'', ''user_declared''} then Inr ''explicit''
      else Inr ''observed'')"

definition reason_decision :: "reason \<Rightarrow> decision pyres" where
  "reason_decision r =
     bindR (reason_state (rs_kind r)) (\<lambda>state.
     DecisionEvidence \<lparr>de_state = state, de_subject = rs_code r, de_message = rs_message r,
       de_subject_id = (case rs_sources r of [] \<Rightarrow> None | i # _ \<Rightarrow> Some i)\<rparr>)"

definition selection_evidence :: "pcandidate \<Rightarrow> decision list pyres" where
  "selection_evidence candidate =
     bindR (DecisionEvidence \<lparr>de_state = ''explicit'', de_subject = ''candidate_selection'',
       de_message = ''human/agent selected one viable candidate'', de_subject_id = Some (pc_id candidate)\<rparr>)
       (\<lambda>d. mapR (\<lambda>ds. d # ds) (mapM reason_decision (pc_reasons candidate)))"

definition claim_to_dict :: "claim \<Rightarrow> json dict" where
  "claim_to_dict c =
     [(''id'', JStr (cl_id c)), (''site_id'', JStr (cl_site_id c)), (''subject'', JStr (cl_subject c)),
      (''property'', JStr (cl_property c)), (''value'', cl_value c),
      (''evidence_kind'', JStr (cl_evidence_kind c)), (''interpretation_status'', JStr (cl_interpretation c)),
      (''source_identity'', JStr (cl_source_identity c)), (''created_at'', JStr (cl_created_at c)),
      (''source_identifier'', opt_json JStr (cl_source_identifier c)),
      (''source_url'', opt_json JStr (cl_source_url c)), (''retrieved_at'', opt_json JStr (cl_retrieved_at c)),
      (''document_date'', opt_json JStr (cl_document_date c)),
      (''content_digest'', opt_json JStr (cl_content_digest c)),
      (''applicability'', JObj [(''scope'', JStr (ap_scope (cl_applicability c))),
         (''value'', opt_json JStr (ap_value (cl_applicability c)))])]"

text \<open>The candidate that is meant, if it may be selected.\<close>

definition pick_candidate :: "session \<Rightarrow> string \<Rightarrow> string \<Rightarrow> string option \<Rightarrow> (planner_error, pcandidate) res" where
  "pick_candidate session chosen_id source rationale =
     (if py_strip source = [] \<or> length source > 128
      then planner_refuses ''selection source must be a bounded non-empty string''
      else if (case rationale of None \<Rightarrow> False | Some t \<Rightarrow> length t > 4096)
      then planner_refuses ''selection rationale exceeds the persisted summary bound''
      else
        (case filter (\<lambda>c. pc_id c = chosen_id) (xp_candidates (se_exploration session)) of
           [c] \<Rightarrow>
             if pc_state c \<noteq> Viable
             then planner_refuses (''candidate '' @ pc_id c @ '' is '' @ grade_text (pc_state c) @
               '' and cannot be selected'')
             else Inr c
         | _ \<Rightarrow> planner_refuses ''selected candidate is absent from bounded exploration''))"

record choice_given =
  cg_source :: string
  cg_rationale :: "string option"
  cg_variant :: "variant option"
  cg_approvals :: "(string \<times> bool) list"
  cg_declarations :: "(string \<times> bool) list"
  cg_trusted :: bool
  cg_container :: "container option"

text \<open>The variant: the one that is given, or the one the candidate asks for; it is kept.\<close>

definition chosen_variant :: "planning_env \<Rightarrow> session \<Rightarrow> pcandidate \<Rightarrow> choice_given \<Rightarrow> workload \<Rightarrow>
    variant option planned" where
  "chosen_variant env session candidate given w =
     bindE (case (cg_variant given, se_provider session) of
         (None, Some p) \<Rightarrow> materialize_selected_variant env session candidate p (cg_source given)
           (cg_approvals given) (cg_declarations given) (cg_trusted given)
       | (v, _) \<Rightarrow> retE v) (\<lambda>variant.
     case variant of
       None \<Rightarrow> retE None
     | Some v \<Rightarrow>
         if va_workload v \<noteq> w_id w
         then liftE (planner_refuses ''workload variant does not derive from this workload'')
         else bindE (transE (save_variant v)) (\<lambda>_. retE (Some v)))"

definition summarised :: "string \<Rightarrow> string \<Rightarrow> session \<Rightarrow> pcandidate \<Rightarrow> choice_given \<Rightarrow> workload \<Rightarrow> site \<Rightarrow>
    json list \<Rightarrow> selection" where
  "summarised new_id now session candidate given w s rejections =
     (let x = se_exploration session in
      \<lparr>sl_id = new_id, sl_workload = w_id w, sl_site = st_id s, sl_created_at = now,
       sl_generated = xp_generated x, sl_hard_invalid = xp_hard_invalid x, sl_viable = xp_viable x,
       sl_candidate = pc_id candidate, sl_summary = candidate_to_dict candidate,
       sl_rejections = rejections, sl_source = cg_source given, sl_rationale = cg_rationale given,
       sl_unresolved = pc_unresolved candidate, sl_truncated = xp_truncated x, sl_coverage = xp_coverage x,
       sl_hard_pruned = xp_hard_pruned x, sl_explored_groups = xp_explored_groups x,
       sl_total_groups = xp_total_groups x\<rparr>)"

definition record_selection :: "planning_env \<Rightarrow> session \<Rightarrow> pcandidate \<Rightarrow> choice_given \<Rightarrow> workload \<Rightarrow> site \<Rightarrow>
    string planned" where
  "record_selection env session candidate given w s =
     bindE (drawE env) (\<lambda>i.
     bindE (stampE env) (\<lambda>now.
     bindE (liftE (mapErr (PlannerVariant \<circ> Provider)
       (rejection_reason_summary (xp_candidates (se_exploration session))))) (\<lambda>rejections.
     bindE (transE (save_selection (summarised i now session candidate given w s rejections))) (\<lambda>_.
     retE i))))"

text \<open>The workload that is planned: that of the exploration, or that of the variant's request.\<close>

definition planned_workload :: "planning_env \<Rightarrow> session \<Rightarrow> site \<Rightarrow> variant option \<Rightarrow> shape \<Rightarrow> workload \<Rightarrow>
    workload planned" where
  "planned_workload env session s variant shape w =
     (case variant of
        None \<Rightarrow> retE w
      | Some v \<Rightarrow>
          bindE (drawE env) (\<lambda>i.
          bindE (stampE env) (\<lambda>now.
          bindE (readE (\<lambda>c. variant_request (pe_resolve env c) i now (se_request session) s v shape))
            (compile_request env))))"

definition selected_plan :: "string \<Rightarrow> string \<Rightarrow> string \<times> string \<times> string \<Rightarrow> target \<Rightarrow> inventory \<Rightarrow> pcandidate \<Rightarrow>
    workload \<Rightarrow> site \<Rightarrow> variant option \<Rightarrow> string \<Rightarrow> container option \<Rightarrow> claim list \<Rightarrow> decision list \<Rightarrow> plan" where
  "selected_plan new_id now chosen access snapshot candidate w s variant selection_id container claims evidence =
     (case chosen of (family, scheduler_id, target_id) \<Rightarrow>
     \<lparr>pl_id = new_id, pl_workload_id = w_id w, pl_inventory_id = i_id snapshot, pl_backend = family,
      pl_access = t_id access, pl_target = Some target_id,
      pl_context = map_option re_context_id (pc_environment candidate), pl_scheduler = Some scheduler_id,
      pl_resources = w_resources w, pl_executable = w_executable w, pl_arguments = w_arguments w,
      pl_working_directory = w_working_directory w, pl_inputs = w_inputs w, pl_outputs = w_outputs w,
      pl_state = ''compatible'', pl_unresolved = pc_unresolved candidate, pl_evidence = evidence,
      pl_created_at = now, pl_site_id = Some (st_id s), pl_shape = Some (pc_shape candidate),
      pl_environment = pc_environment candidate, pl_variant_id = map_option va_id variant,
      pl_selection_id = Some selection_id, pl_policy_basis = map (JObj \<circ> claim_to_dict) claims,
      pl_container = container\<rparr>)"

definition store_plan :: "planning_env \<Rightarrow> pcandidate \<Rightarrow> choice_given \<Rightarrow> inventory \<Rightarrow> site \<Rightarrow> variant option \<Rightarrow>
    string \<Rightarrow> workload \<Rightarrow> plan planned" where
  "store_plan env candidate given snapshot s variant selection_id w =
     bindE (liftE (mapErr PlannerRaised (scheduler_selection (x_backend (w_constraints w)) (st_scheduler_hint s)
       snapshot (pc_shape candidate)))) (\<lambda>chosen.
     case current_target snapshot of
       None \<Rightarrow> liftE (planner_refuses ''site inventory has no access target'')
     | Some access \<Rightarrow>
         bindE (drawE env) (\<lambda>i.
         bindE (liftE (mapErr PlannerRaised (selection_evidence candidate))) (\<lambda>evidence.
         bindE (stampE env) (\<lambda>now.
         bindE (readE (policy_claims (st_id s))) (\<lambda>claims.
         bindE (liftE (mapErr PlannerRaised (ExecutionPlan (selected_plan i now chosen access snapshot candidate w s
           variant selection_id (cg_container given) claims evidence)))) (\<lambda>p.
         bindE (transE (in_store (save_plan p))) (\<lambda>_. retE p)))))))"

definition select_candidate :: "planning_env \<Rightarrow> session \<Rightarrow> string \<Rightarrow> choice_given \<Rightarrow> plan planned" where
  "select_candidate env session chosen_id given =
     bindE (liftE (pick_candidate session chosen_id (cg_source given) (cg_rationale given))) (\<lambda>candidate.
     bindE (readE (\<lambda>c. mapErr PlannerStore (get_workload (se_workload session) (pn_store c)))) (\<lambda>w.
     bindE (readE (get_inventory (se_inventory session))) (\<lambda>snapshot.
     bindE (readE (get_site (se_site session))) (\<lambda>s.
     bindE (chosen_variant env session candidate given w) (\<lambda>variant.
     bindE (record_selection env session candidate given w s) (\<lambda>selection_id.
     bindE (planned_workload env session s variant (pc_shape candidate) w)
       (store_plan env candidate given snapshot s variant selection_id)))))))"

end
