(* ===== verification/PlannerSafety.thy ===== *)
theory PlannerSafety
  imports SiteService StoreProperties Samples
begin

text \<open>
  What planning never does: it takes nothing back. Every operation on sites, claims, explorations and
  selections appends rows to the database and creates files; no row and no file that was there changes,
  the two views of the database stay one, and the invariant of the execution store holds on.
\<close>

section \<open>Operations that only move forward\<close>

text \<open>A world with an order of what may follow what, and the operations that stay in that order.\<close>

locale monotone_world =
  fixes later :: "'w \<Rightarrow> 'w \<Rightarrow> bool"
  assumes later_refl: "later c c"
    and later_trans: "later c c' \<Longrightarrow> later c' c'' \<Longrightarrow> later c c''"
begin

definition forward :: "('w, 'e, 'a) eff \<Rightarrow> bool" where
  "forward m \<longleftrightarrow> (\<forall>c. always (later c) m c)"

lemma forward_run: "forward m \<Longrightarrow> m c = (t, c', r) \<Longrightarrow> later c c' \<and> list_all (later c) t"
  by (auto simp: forward_def always_def split: prod.splits)

lemma forward_simple: "forward (retE x)" "forward (raiseE e)" "forward (liftE r)" "forward (readE f)"
  by (simp_all add: forward_def always_def eff_defs later_refl)

lemma forward_trans: "(\<And>c c'. f c = Inr c' \<Longrightarrow> later c c') \<Longrightarrow> forward (transE f)"
  by (simp add: forward_def always_def eff_defs later_refl split: sum.split)

lemma forward_bind:
  assumes "forward m" and "\<And>x. forward (f x)"
  shows "forward (bindE m f)"
  unfolding forward_def always_def
proof (rule allI, clarify)
  fix c t c' r
  assume run: "bindE m f c = (t, c', r)"
  obtain t1 c1 r1 where m: "m c = (t1, c1, r1)" by (cases "m c")
  note first = forward_run [OF assms(1) m]
  show "list_all (later c) t \<and> later c c'"
  proof (cases r1)
    case (Inl e)
    then show ?thesis using run m first by (auto simp: bindE_def)
  next
    case (Inr x)
    obtain t2 c2 r2 where f: "f x c1 = (t2, c2, r2)" by (cases "f x c1")
    from forward_run [OF assms(2) f] have "later c1 c2" "list_all (later c1) t2" by simp_all
    then have "later c c2" "list_all (later c) t2"
      using first later_trans by (blast, fastforce simp: list_all_iff)
    then show ?thesis using run m f first Inr by (auto simp: bindE_def)
  qed
qed

lemma forward_if: "(b \<Longrightarrow> forward m) \<Longrightarrow> (\<not> b \<Longrightarrow> forward m') \<Longrightarrow> forward (if b then m else m')"
  by simp

lemma forward_option: "forward m \<Longrightarrow> (\<And>x. forward (f x)) \<Longrightarrow> forward (case v of None \<Rightarrow> m | Some x \<Rightarrow> f x)"
  by (cases v) simp_all

lemma forward_list:
  "forward m \<Longrightarrow> (\<And>x xs. forward (f x xs)) \<Longrightarrow> forward (case v of [] \<Rightarrow> m | x # xs \<Rightarrow> f x xs)"
  by (cases v) simp_all

lemma forward_pair: "(\<And>x y. forward (f x y)) \<Longrightarrow> forward (case v of (x, y) \<Rightarrow> f x y)"
  by (cases v) simp

lemmas forward_rules = forward_bind forward_simple forward_if forward_option forward_list forward_pair

end

section \<open>The planner moves forward\<close>

definition prefix_of :: "'a list \<Rightarrow> 'a list \<Rightarrow> bool" where
  "prefix_of xs ys \<longleftrightarrow> (\<exists>zs. ys = xs @ zs)"

lemma prefix_of_refl [simp]: "prefix_of xs xs" by (simp add: prefix_of_def)

lemma prefix_of_append [simp]: "prefix_of xs (xs @ ys)" by (simp add: prefix_of_def)

lemma prefix_of_trans: "prefix_of xs ys \<Longrightarrow> prefix_of ys zs \<Longrightarrow> prefix_of xs zs"
  by (auto simp: prefix_of_def)

definition onward :: "planner \<Rightarrow> planner \<Rightarrow> bool" where
  "onward c c' \<longleftrightarrow>
     prefix_of (pn_sites c) (pn_sites c') \<and> prefix_of (pn_claims c) (pn_claims c') \<and>
     prefix_of (pn_selections c) (pn_selections c') \<and> prefix_of (pn_variants c) (pn_variants c') \<and>
     st_snapshots (pn_store c') = st_snapshots (pn_store c) \<and>
     (\<forall>p b. pn_files c p = Some b \<longrightarrow> pn_files c' p = Some b) \<and>
     (mirrored c \<longrightarrow> mirrored c') \<and>
     (store_ok (pn_store c) \<longrightarrow> store_ok (pn_store c') \<and> grows (pn_store c) (pn_store c'))"

interpretation planner_rows: monotone_world onward
proof unfold_locales
  show "onward c c" for c by (simp add: onward_def)
  show "onward c c''" if "onward c c'" "onward c' c''" for c c' c''
    using that unfolding onward_def by (auto intro: prefix_of_trans grows_trans)
qed

abbreviation onwards :: "(planner, 'e, 'a) eff \<Rightarrow> bool" where
  "onwards \<equiv> planner_rows.forward"

lemma store_ok_planning [simp]:
  "store_ok (s\<lparr>st_sites := a\<rparr>) = store_ok s" "store_ok (s\<lparr>st_selections := b\<rparr>) = store_ok s"
  "store_ok (s\<lparr>st_variants := d\<rparr>) = store_ok s" "store_ok (s\<lparr>st_site_links := e\<rparr>) = store_ok s"
  by (simp_all add: store_ok_def keys_ok_def StoreProperties.evidenced_def planned_def jobs_ok_def results_ok_def)

lemma grows_planning [simp]:
  "grows s (s\<lparr>st_sites := a\<rparr>)" "grows s (s\<lparr>st_selections := b\<rparr>)"
  "grows s (s\<lparr>st_variants := d\<rparr>)" "grows s (s\<lparr>st_site_links := e\<rparr>)"
  by (simp_all add: grows_def)

named_theorems onward_steps \<open>the transactions of planning\<close>

lemma save_site_onward [onward_steps]: "save_site s c = Inr c' \<Longrightarrow> onward c c'"
  by (auto simp: save_site_def onward_def mirrored_def split: if_splits)

lemma save_policy_claim_onward [onward_steps]: "save_policy_claim p c = Inr c' \<Longrightarrow> onward c c'"
  by (auto simp: save_policy_claim_def onward_def mirrored_def bindR_Inr_iff split: if_splits)

lemma link_inventory_onward [onward_steps]: "link_inventory s i c = Inr c' \<Longrightarrow> onward c c'"
  by (auto simp: link_inventory_def onward_def mirrored_def mapErr_Inr_iff mapR_Inr_iff)

lemma save_selection_onward [onward_steps]: "save_selection l c = Inr c' \<Longrightarrow> onward c c'"
  by (auto simp: save_selection_def onward_def mirrored_def split: if_splits)

lemma save_variant_onward [onward_steps]: "save_variant v c = Inr c' \<Longrightarrow> onward c c'"
  by (auto simp: save_variant_def onward_def mirrored_def split: if_splits)

text \<open>A transaction of the execution store that leaves the rows of planning alone.\<close>

definition leaves_planning :: "(store \<Rightarrow> store stored) \<Rightarrow> bool" where
  "leaves_planning f \<longleftrightarrow> (\<forall>s s'. f s = Inr s' \<longrightarrow>
     st_sites s' = st_sites s \<and> st_selections s' = st_selections s \<and> st_variants s' = st_variants s \<and>
     st_snapshots s' = st_snapshots s \<and> (store_ok s \<longrightarrow> store_ok s' \<and> grows s s'))"

lemma in_store_onward: "leaves_planning f \<Longrightarrow> in_store f c = Inr c' \<Longrightarrow> onward c c'"
  by (auto simp: in_store_def leaves_planning_def onward_def mirrored_def mapErr_Inr_iff mapR_Inr_iff)

lemma save_request_leaves: "leaves_planning (save_request_with_workload r w)"
  unfolding leaves_planning_def
proof (intro allI impI)
  fix s s' assume s': "save_request_with_workload r w s = Inr s'"
  show "st_sites s' = st_sites s \<and> st_selections s' = st_selections s \<and> st_variants s' = st_variants s \<and>
      st_snapshots s' = st_snapshots s \<and> (store_ok s \<longrightarrow> store_ok s' \<and> grows s s')"
    using save_request_with_workload_preserved [OF s'] s'
    by (auto simp: save_request_with_workload_def insert_request_def insert_workload_def bindR_Inr_iff
        mapR_Inr_iff split: if_splits)
qed

lemma save_plan_leaves: "leaves_planning (save_plan p)"
  unfolding leaves_planning_def
proof (intro allI impI)
  fix s s' assume s': "save_plan p s = Inr s'"
  show "st_sites s' = st_sites s \<and> st_selections s' = st_selections s \<and> st_variants s' = st_variants s \<and>
      st_snapshots s' = st_snapshots s \<and> (store_ok s \<longrightarrow> store_ok s' \<and> grows s s')"
    using save_plan_preserved [OF s'] s'
    by (auto simp: save_plan_def bindR_Inr_iff mapR_Inr_iff split: option.splits)
qed

lemma make_directory_onwards: "onwards (make_directory env d)"
  unfolding make_directory_def
  by (rule planner_rows.forward_trans) (auto simp: onward_def mirrored_def split: if_splits)

lemma create_file_onwards: "onwards (create_file env p b)"
  unfolding create_file_def
  by (rule planner_rows.forward_trans) (auto simp: onward_def mirrored_def split: if_splits)

lemma draw_onwards: "onwards (drawE env)"
  by (simp add: planner_rows.forward_def always_def drawE_def onward_def mirrored_def)

lemma stamp_onwards: "onwards (stampE env)"
  unfolding stampE_def by (rule planner_rows.forward_simple)

lemmas onwards_rules = planner_rows.forward_rules make_directory_onwards create_file_onwards
  draw_onwards stamp_onwards planner_rows.forward_trans

section \<open>Every operation of planning\<close>

lemma add_site_onwards: "onwards (add_site env given)"
  unfolding add_site_def by (intro onwards_rules) (rule onward_steps)

lemma submit_policy_claim_onwards: "onwards (submit_policy_claim env reference given)"
  unfolding submit_policy_claim_def by (intro onwards_rules) (rule onward_steps)

lemma compile_request_onwards: "onwards (compile_request env r)"
  unfolding compile_request_def
  by (intro onwards_rules) (rule in_store_onward [OF save_request_leaves])

lemma explore_request_onwards: "onwards (explore_request env r reference snapshot provider shapes limit)"
  unfolding explore_request_def by (intro onwards_rules compile_request_onwards)

lemma read_variant_source_onwards: "onwards (read_variant_source env original)"
  unfolding read_variant_source_def by (intro onwards_rules)

lemma materialize_variant_onwards:
  "onwards (materialize_variant env k original root_dir changes p proposer approvals declarations trusted)"
  unfolding materialize_variant_def Let_def by (intro onwards_rules read_variant_source_onwards)

lemma materialize_selected_variant_onwards:
  "onwards (materialize_selected_variant env session candidate p proposer approvals declarations trusted)"
  unfolding materialize_selected_variant_def
  by (intro onwards_rules read_variant_source_onwards materialize_variant_onwards)

lemma chosen_variant_onwards: "onwards (chosen_variant env session candidate given w)"
  unfolding chosen_variant_def
  by (intro onwards_rules materialize_selected_variant_onwards) (rule onward_steps)

lemma record_selection_onwards: "onwards (record_selection env session candidate given w s)"
  unfolding record_selection_def by (intro onwards_rules) (rule onward_steps)

lemma planned_workload_onwards: "onwards (planned_workload env session s variant shape w)"
  unfolding planned_workload_def by (intro onwards_rules compile_request_onwards)

lemma store_plan_onwards: "onwards (store_plan env candidate given snapshot s variant selection_id w)"
  unfolding store_plan_def
  by (intro onwards_rules) (rule in_store_onward [OF save_plan_leaves])

lemma select_candidate_onwards: "onwards (select_candidate env session k given)"
  unfolding select_candidate_def
  by (intro onwards_rules chosen_variant_onwards record_selection_onwards planned_workload_onwards
      store_plan_onwards)

section \<open>Planning takes nothing back\<close>

text \<open>What an operation leaves behind: its last state, or, when the process dies, a durable one before.\<close>

definition reaches :: "('w, 'e, 'a) eff \<Rightarrow> 'w \<Rightarrow> 'w \<Rightarrow> bool" where
  "reaches m c c' \<longleftrightarrow> (case m c of (t, c'', _) \<Rightarrow> c' = c'' \<or> c' \<in> set t)"

lemma reaches_onward: "onwards m \<Longrightarrow> reaches m c c' \<Longrightarrow> onward c c'"
  by (auto simp: reaches_def list_all_iff dest!: planner_rows.forward_run split: prod.splits)

inductive planning :: "planner \<Rightarrow> planner \<Rightarrow> bool" where
  planning_site: "reaches (add_site env given) c c' \<Longrightarrow> planning c c'"
| planning_claim: "reaches (submit_policy_claim env reference told) c c' \<Longrightarrow> planning c c'"
| planning_inventory: "link_inventory site_id snapshot_id c = Inr c' \<Longrightarrow> planning c c'"
| planning_explore: "reaches (explore_request env r reference snapshot provider shapes limit) c c' \<Longrightarrow> planning c c'"
| planning_select: "reaches (select_candidate env session k chosen) c c' \<Longrightarrow> planning c c'"

lemma planning_step_onward: "planning c c' \<Longrightarrow> onward c c'"
  by (induction rule: planning.induct) (auto intro: reaches_onward add_site_onwards submit_policy_claim_onwards
      explore_request_onwards select_candidate_onwards link_inventory_onward)

lemma planning_onward: "planning\<^sup>*\<^sup>* c c' \<Longrightarrow> onward c c'"
  by (induction rule: rtranclp_induct)
    (auto intro: planner_rows.later_refl planner_rows.later_trans planning_step_onward)


definition empty_planner :: planner where
  "empty_planner = \<lparr>pn_store = empty_store, pn_sites = [], pn_claims = [], pn_selections = [],
     pn_variants = [], pn_files = (\<lambda>_. None), pn_dirs = (\<lambda>_. False), pn_drawn = 0\<rparr>"

definition sample_planning_env :: planning_env where
  "sample_planning_env = \<lparr>pe_site = sample_site_env, pe_ulid = (\<lambda>n. replicate (Suc n) (CHR ''x'')),
     pe_now = (\<lambda>_. ''now''), pe_marker = (\<lambda>_. False), pe_resolve = (\<lambda>_ p. p), pe_loads = (\<lambda>_. None),
     pe_disk = (\<lambda>_. True), pe_staging = path_of ''/variants'', pe_claim = (\<lambda>_. Some 1)\<rparr>"

definition sample_site :: site where
  "sample_site = \<lparr>st_id = ''s1'', st_name = ''here'', st_kind = ''local'', st_created_at = ''t'',
     st_ssh_host = None, st_ssh_username = None, st_ssh_port = None, st_scheduler_hint = None,
     st_local_root = None, st_remote_root = None, st_worker_path = None\<rparr>"

lemma sample_site_accepted: "Site (sample_site\<lparr>st_id := ''x'', st_created_at := ''now''\<rparr>)
    = Inr (sample_site\<lparr>st_id := ''x'', st_created_at := ''now''\<rparr>)"
  by code_simp

definition added_planner :: planner where
  "added_planner = empty_planner\<lparr>pn_sites := [sample_site\<lparr>st_id := ''x'', st_created_at := ''now''\<rparr>],
     pn_store := empty_store\<lparr>st_sites := [''x'']\<rparr>, pn_drawn := 1\<rparr>"

lemma sample_site_added: "planning empty_planner added_planner"
proof (rule planning_site)
  show "reaches (add_site sample_planning_env sample_site) empty_planner added_planner"
    using sample_site_accepted
    by (simp add: reaches_def add_site_def drawE_def stampE_def eff_defs sample_planning_env_def save_site_def
        sample_site_def added_planner_def empty_planner_def empty_store_def)
qed


end
