(* ===== verification/SelectionProperties.thy ===== *)
theory SelectionProperties
  imports PlannerSafety SiteClaims RemotePrepare RequestDocuments RequestProperties
begin

text \<open>
  What a selected plan is: the plan of one viable candidate of the exploration, justified on every
  account for the request that was explored, on a scheduler of the inventory, running the workload
  that is stored for it.
\<close>

section \<open>The steps of a selection\<close>

lemma draw_Inr: "drawE env c = (t, c', Inr i) \<longleftrightarrow> t = [] \<and> c' = c\<lparr>pn_drawn := Suc (pn_drawn c)\<rparr> \<and> i = pe_ulid env (pn_drawn c)"
  by (auto simp: drawE_def)

lemma trans_Inr: "transE f c = (t, c', Inr u) \<longleftrightarrow> f c = Inr c' \<and> t = [c']"
  by (auto simp: transE_def split: sum.splits)

lemma stamp_Inr: "stampE env c = (t, c', Inr s) \<longleftrightarrow> t = [] \<and> c' = c \<and> s = pe_now env c"
  by (auto simp: stampE_def eff_Inr_iff)

lemmas planned_Inr = bindE_Inr_iff eff_Inr_iff draw_Inr trans_Inr stamp_Inr mapErr_Inr_iff mapR_Inr_iff

lemma pick_candidate_Inr:
  assumes "pick_candidate session k source rationale = Inr candidate"
  shows "candidate \<in> set (xp_candidates (se_exploration session)) \<and> pc_id candidate = k \<and>
    pc_state candidate = Viable \<and>
    (\<forall>c \<in> set (xp_candidates (se_exploration session)). pc_id c = k \<longrightarrow> c = candidate)"
proof -
  have one: "filter (\<lambda>c. pc_id c = k) (xp_candidates (se_exploration session)) = [candidate]"
    "pc_state candidate = Viable"
    using assms by (auto simp: pick_candidate_def split: if_splits list.splits)
  then have "\<forall>c. c \<in> set (xp_candidates (se_exploration session)) \<and> pc_id c = k \<longleftrightarrow> c = candidate"
    by (metis (mono_tags, lifting) empty_set list.set_intros(1) list.simps(15) mem_Collect_eq set_filter singletonD)
  with one(2) show ?thesis by blast
qed

lemma find_row_last: "key r \<notin> key ` set xs \<Longrightarrow> find_row key (key r) (xs @ [r]) = Some r"
  by (induction xs) (auto simp: find_row_def)

text \<open>A request that is compiled is stored with the workload, which runs its command.\<close>

lemma compile_request_Inr:
  assumes "compile_request env r c = (t, c', Inr w)"
  shows "compiled_from r w \<and> get_workload (w_id w) (pn_store c') = Inr w"
proof -
  obtain s' where s': "save_request_with_workload r w (pn_store c) = Inr s'" "pn_store c' = s'"
    using assms by (auto simp: compile_request_def planned_Inr in_store_def)
  have new: "w_id w \<notin> w_id ` set (st_workloads (pn_store c))"
    and rows: "st_workloads s' = st_workloads (pn_store c) @ [w]" and "compiled_from r w"
    using s'(1) by (auto simp: save_request_with_workload_def insert_request_def insert_workload_def
        bindR_Inr_iff mapR_Inr_iff insert_row_Inr split: if_splits)
  have "find_row w_id (w_id w) (st_workloads s') = Some w"
    unfolding rows by (rule find_row_last [OF new])
  with \<open>compiled_from r w\<close> s'(2) show ?thesis by (simp add: get_workload_def)
qed

text \<open>A workload that is stored stays the one its identity means.\<close>

lemma find_row_prefix: "find_row key k xs = Some r \<Longrightarrow> find_row key k (xs @ ys) = Some r"
  by (induction xs) (auto simp: find_row_def)

lemma get_workload_onward:
  assumes "get_workload k (pn_store c) = Inr w" and "onward c c'" and "store_ok (pn_store c)"
  shows "get_workload k (pn_store c') = Inr w"
proof -
  have "keeps (=) (st_workloads (pn_store c)) (st_workloads (pn_store c'))"
    using assms(2,3) by (simp add: onward_def grows_def)
  then obtain ws where "st_workloads (pn_store c') = st_workloads (pn_store c) @ ws"
    by (auto simp: keeps_eq_iff)
  with assms(1) find_row_prefix show ?thesis
    by (fastforce simp: get_workload_def split: option.splits)
qed

lemma chosen_variant_Inr:
  assumes "chosen_variant env session candidate given w c = (t, c', Inr (Some v))"
  shows "va_workload v = w_id w \<and> v \<in> set (pn_variants c')"
  using assms
  by (auto simp: chosen_variant_def planned_Inr save_variant_def split: option.splits if_splits)

lemma record_selection_Inr:
  assumes "record_selection env session candidate given w s c = (t, c', Inr i)"
  shows "\<exists>l \<in> set (pn_selections c'). sl_id l = i \<and> sl_candidate l = pc_id candidate \<and> sl_source l = cg_source given"
  using assms
  by (auto simp: record_selection_def planned_Inr save_selection_def summarised_def Let_def split: if_splits)

lemma with_source_Inr:
  assumes "with_source r changes = Inr r'"
  shows "rq_command r' = rq_command r \<and> rq_inputs r' = rq_inputs r \<and> rq_outputs r' = rq_outputs r \<and>
    rq_resources r' = rq_resources r \<and> rq_execution r' = rq_execution r \<and>
    rq_resolved_working_directory r' = rq_resolved_working_directory r"
  using assms by (auto simp: with_source_def mapErr_Inr_iff bindR_Inr_iff dest!: ExecutionRequest_same)

lemma variant_request_Inr:
  assumes "variant_request resolve i now r s v shape = Inr r'"
  obtains derived where "derived_text s v = Inr derived"
    and "rq_command r' = map (replaced_path resolve (rq_base_directory r) (resolve (path_of (va_original v))) derived)
      (rq_command r)"
    and "rq_inputs r' = map (replaced_path resolve (rq_base_directory r) (resolve (path_of (va_original v))) derived)
      (rq_inputs r)"
    and "rq_resources r' = shape_resources shape" and "rq_outputs r' = rq_outputs r"
    and "rq_resolved_working_directory r' = rq_resolved_working_directory r"
proof -
  obtain derived resources where d: "derived_text s v = Inr derived"
    and "resources = shape_resources shape"
    and "with_source (r\<lparr>rq_id := i, rq_created_at := now,
        rq_command := map (replaced_path resolve (rq_base_directory r) (resolve (path_of (va_original v))) derived) (rq_command r),
        rq_inputs := map (replaced_path resolve (rq_base_directory r) (resolve (path_of (va_original v))) derived) (rq_inputs r),
        rq_resources := resources\<rparr>) [(''effective_from_request'', rq_id r), (''workload_variant_id'', va_id v)] = Inr r'"
    using assms by (auto simp: variant_request_def Let_def bindR_Inr_iff mapErr_Inr_iff ResourceRequirements_Inr
        split: if_splits)
  with with_source_Inr [OF this(3)] show ?thesis by (intro that [OF d]) simp_all
qed

section \<open>The scheduler\<close>

lemma evidence_target_Inr: "evidence_target ts vs = Inr (Some t) \<Longrightarrow> t \<in> set ts"
  by (induction ts vs rule: evidence_target.induct) (auto split: json.splits if_splits)

lemma class_target_Some: "class_target snapshot c v = Some t \<Longrightarrow> t \<in> set (sc_targets c)"
  by (auto simp: class_target_def find_Some_iff)

lemma scheduler_selection_Inr:
  assumes "scheduler_selection requested hint snapshot shape = Inr (family, i, t)"
  shows "family \<in> set families \<and> (requested \<in> set families \<longrightarrow> family = requested) \<and>
    (\<exists>c \<in> set (i_schedulers snapshot). sc_id c = i \<and> sc_family c = family \<and> t \<in> set (sc_targets c) \<and>
       (\<forall>c' \<in> set (i_schedulers snapshot). sc_family c' = family \<longrightarrow> c' = c))"
proof -
  obtain f where f: "selected_family requested hint snapshot = Inr f"
    using assms by (auto simp: scheduler_selection_def bindR_Inr_iff)
  obtain c where c: "filter (\<lambda>c. sc_family c = f) (i_schedulers snapshot) = [c]"
    using assms f by (auto simp: scheduler_selection_def split: list.splits)
  have "f = family" "sc_id c = i" "t \<in> set (sc_targets c)"
    using assms f c
    by (auto simp: scheduler_selection_def bindR_Inr_iff Let_def dest: evidence_target_Inr class_target_Some
        split: if_splits option.splits list.splits)
  moreover have "c' \<in> set (i_schedulers snapshot) \<and> sc_family c' = f \<longleftrightarrow> c' = c" for c'
    using c by (metis (mono_tags, lifting) empty_set list.set_intros(1) list.simps(15) mem_Collect_eq set_filter singletonD)
  moreover have "f \<in> set families \<and> (requested \<in> set families \<longrightarrow> f = requested)"
  proof -
    have "f \<in> set families" if "sort_str (dedup (filter (\<lambda>f. f \<in> set families) fs)) = [f]" for fs
      using arg_cong [OF that, of set] by auto
    then show ?thesis using f by (auto simp: selected_family_def split: if_splits list.splits)
  qed
  ultimately show ?thesis by blast
qed

section \<open>The plan\<close>

lemma planned_workload_Inr:
  assumes "planned_workload env session s variant shape w c = (t, c', Inr w')"
    and "get_workload (w_id w) (pn_store c) = Inr w"
  shows "get_workload (w_id w') (pn_store c') = Inr w' \<and>
    (case variant of
       None \<Rightarrow> w' = w
     | Some v \<Rightarrow> \<exists>d derived. derived_text s v = Inr derived \<and>
         workload_argv w' = map (replaced_path (pe_resolve env d) (rq_base_directory (se_request session))
           (pe_resolve env d (path_of (va_original v))) derived) (rq_command (se_request session)) \<and>
         w_outputs w' = rq_outputs (se_request session) \<and>
         w_working_directory w' = rq_resolved_working_directory (se_request session) \<and>
         w_resources w' = shape_resources shape)"
proof (cases variant)
  case None
  with assms show ?thesis by (auto simp: planned_workload_def eff_Inr_iff)
next
  case (Some v)
  obtain i now c1 c2 t2 r where
    "variant_request (pe_resolve env c1) i now (se_request session) s v shape = Inr r"
    and compiled: "compile_request env r c2 = (t2, c', Inr w')"
    using assms(1) by (auto simp: planned_workload_def Some planned_Inr)
  from this(1) show ?thesis
    by (rule variant_request_Inr) (use compile_request_Inr [OF compiled] Some in \<open>auto simp: compiled_from_def\<close>)
qed

lemma store_plan_Inr:
  assumes "store_plan env candidate given snapshot s variant k w c = (t, c', Inr p)"
  obtains family scheduler_id target_id access i now evidence claims where
    "scheduler_selection (x_backend (w_constraints w)) (st_scheduler_hint s) snapshot (pc_shape candidate)
       = Inr (family, scheduler_id, target_id)"
    "p = selected_plan i now (family, scheduler_id, target_id) access snapshot candidate w s variant k
       (cg_container given) claims evidence"
    "get_plan (pl_id p) (pn_store c') = Inr p" "get_workload (w_id w) (pn_store c') = get_workload (w_id w) (pn_store c)"
    "pn_variants c' = pn_variants c" "pn_selections c' = pn_selections c"
proof -
  obtain chosen access i evidence claims c1 where parts:
    "scheduler_selection (x_backend (w_constraints w)) (st_scheduler_hint s) snapshot (pc_shape candidate) = Inr chosen"
    "p = selected_plan i (pe_now env c1) chosen access snapshot candidate w s variant k (cg_container given) claims evidence"
    "in_store (save_plan p) c1 = Inr c'" "c1 = c\<lparr>pn_drawn := Suc (pn_drawn c)\<rparr>"
    using assms
    by (auto simp: store_plan_def planned_Inr ExecutionPlan_Inr split: option.splits)
  obtain family scheduler_id target_id where chosen: "chosen = (family, scheduler_id, target_id)" by (cases chosen)
  have "pl_id p \<notin> pl_id ` set (st_plans (pn_store c))"
    and c': "c' = c1\<lparr>pn_store := (pn_store c)\<lparr>st_plans := st_plans (pn_store c) @ [p]\<rparr>\<rparr>"
    using parts(3,4) by (auto simp: in_store_def save_plan_def mapErr_Inr_iff bindR_Inr_iff mapR_Inr_iff
        insert_row_Inr split: option.splits)
  then have "get_plan (pl_id p) (pn_store c') = Inr p"
    by (simp add: get_plan_def find_row_last)
  with parts chosen c' show ?thesis by (intro that [of family scheduler_id target_id]) (auto simp: get_workload_def)
qed

lemma select_candidate_Inr:
  assumes "select_candidate env session k given c = (t, c', Inr p)"
  obtains candidate w snapshot s variant i w' c1 c2 c3 t1 t2 t3 t4 where
    "pick_candidate session k (cg_source given) (cg_rationale given) = Inr candidate"
    "get_workload (se_workload session) (pn_store c) = Inr w"
    "get_inventory (se_inventory session) c = Inr snapshot" "get_site (se_site session) c = Inr s"
    "chosen_variant env session candidate given w c = (t1, c1, Inr variant)"
    "record_selection env session candidate given w s c1 = (t2, c2, Inr i)"
    "planned_workload env session s variant (pc_shape candidate) w c2 = (t3, c3, Inr w')"
    "store_plan env candidate given snapshot s variant i w' c3 = (t4, c', Inr p)"
  using assms unfolding select_candidate_def by (auto simp: planned_Inr)

section \<open>The exploration\<close>

lemma effective_request_site: "get_site k c = Inr s \<Longrightarrow> s \<in> set (pn_sites c)"
  by (auto simp: get_site_def find_row_def find_Some_iff split: option.splits)

lemma explore_request_Inr:
  assumes "explore_request env r reference snapshot provider shapes limit c = (t, c', Inr session)"
  obtains s w claims ss environments where
    "get_site reference c = Inr s" "se_site session = st_id s" "se_inventory session = i_id snapshot"
    "map_option st_id (site_for_inventory (i_id snapshot) c) = Some (st_id s)"
    "compiled_from (se_request session) w" "se_workload session = w_id w"
    "get_workload (w_id w) (pn_store c') = Inr w" "policy_claims (st_id s) c' = Inr claims"
    "explore_candidates (pe_site env) w ss environments provider claims limit = Inr (se_exploration session)"
proof -
  obtain s effective w claims c1 where parts:
    "get_site reference c = Inr s" "map_option st_id (site_for_inventory (i_id snapshot) c) = Some (st_id s)"
    "compile_request env effective c = (t, c', Inr w)" "policy_claims (st_id s) c' = Inr claims"
    "explored (pe_site env) w snapshot provider claims shapes limit = Inr (se_exploration session)"
    "se_request session = effective" "se_workload session = w_id w" "se_inventory session = i_id snapshot"
    "se_site session = st_id s"
    using assms unfolding explore_request_def by (auto simp: planned_Inr split: if_splits)
  obtain ss environments where
    "explore_candidates (pe_site env) w ss environments provider claims limit = Inr (se_exploration session)"
    using parts(5) unfolding explored_def by (auto simp: bindR_Inr_iff mapErr_Inr_iff)
  with parts compile_request_Inr [OF parts(3)] show ?thesis by (intro that) simp_all
qed

lemma compile_request_claims: "compile_request env r c = (t, c', Inr w) \<Longrightarrow> pn_claims c' = pn_claims c"
  by (auto simp: compile_request_def planned_Inr in_store_def)

lemma explore_request_claims:
  "explore_request env r reference snapshot provider shapes limit c = (t, c', Inr session) \<Longrightarrow>
     pn_claims c' = pn_claims c"
  unfolding explore_request_def by (auto simp: planned_Inr compile_request_claims split: if_splits)

lemma policy_claims_set:
  "policy_claims k c = Inr claims \<Longrightarrow> set claims = set (filter (\<lambda>p. cl_site_id p = k) (pn_claims c))"
  by (auto simp: policy_claims_def mapR_Inr_iff)

lemma justified_set:
  "set claims = set claims' \<Longrightarrow> justified x provider claims requested s environment parameters \<Longrightarrow>
     justified x provider claims' requested s environment parameters"
  by (simp add: justified_def)

text \<open>Every viable candidate of a session is justified for the request of the session.\<close>

lemma explored_viable:
  assumes "explore_request env r reference snapshot provider shapes limit c = (t, c', Inr session)"
    and "finite_claims (pn_claims c)"
    and "candidate \<in> set (xp_candidates (se_exploration session))" and "pc_state candidate = Viable"
  shows "justified (pe_site env) provider (filter (\<lambda>p. cl_site_id p = se_site session) (pn_claims c))
    (rq_resources (se_request session)) (pc_shape candidate) (pc_environment candidate) (pc_parameters candidate)"
  using assms(1)
proof (rule explore_request_Inr)
  fix s w claims ss environments
  assume w: "compiled_from (se_request session) w" and site: "se_site session = st_id s"
    and claims: "policy_claims (st_id s) c' = Inr claims"
    and e: "explore_candidates (pe_site env) w ss environments provider claims limit = Inr (se_exploration session)"
  have same: "set claims = set (filter (\<lambda>p. cl_site_id p = se_site session) (pn_claims c))"
    using policy_claims_set [OF claims] explore_request_claims [OF assms(1)] site by simp
  then have "finite_claims claims" using assms(2) by (auto simp: finite_claims_def)
  from viable_justified [OF explored_candidate [OF e assms(3)] assms(4) this] justified_set [OF same] w
  show ?thesis by (simp add: compiled_from_def)
qed

lemma get_site_known: "\<exists>s \<in> set (pn_sites c). st_id s = k \<Longrightarrow> get_site k c = Inr s' \<Longrightarrow> st_id s' = k"
  by (auto simp: get_site_def find_row_def find_None_iff find_Some_iff split: option.splits)

lemma onward_site: "onward c c' \<Longrightarrow> s \<in> set (pn_sites c) \<Longrightarrow> s \<in> set (pn_sites c')"
  by (auto simp: onward_def prefix_of_def)

lemma explored_site:
  assumes "explore_request env r reference snapshot provider shapes limit c = (t, c', Inr session)"
    and "onward c' d" and "get_site (se_site session) d = Inr s"
  shows "st_id s = se_site session"
proof (rule get_site_known [OF _ assms(3)])
  from assms(1) obtain s0 where "s0 \<in> set (pn_sites c)" "st_id s0 = se_site session"
    by (rule explore_request_Inr) (auto dest: effective_request_site)
  moreover have "onward c c'"
    using planner_rows.forward_run [OF explore_request_onwards assms(1)] by simp
  ultimately show "\<exists>s \<in> set (pn_sites d). st_id s = se_site session"
    using assms(2) onward_site by blast
qed

section \<open>What is selected\<close>

text \<open>
  C7. The plan of a selection is the plan of one candidate that the exploration found viable, and the
  candidate is justified for the request that was explored: authorized, covering the request, obeying the
  hard policy known of the site, in a compatible environment, with every hard constraint satisfied. The
  plan is for the site of the exploration, and the inventory was observed there.
\<close>
theorem selected_plan_is_justified:
  assumes "explore_request env r reference snapshot provider shapes limit c = (t, c', Inr session)"
    and "finite_claims (pn_claims c)" and "onward c' d"
    and "select_candidate env session k given d = (t', d', Inr p)"
  shows "\<exists>candidate \<in> set (xp_candidates (se_exploration session)).
    pc_id candidate = k \<and> pl_shape p = Some (pc_shape candidate) \<and>
    pl_environment p = pc_environment candidate \<and> pl_unresolved p = pc_unresolved candidate \<and>
    justified (pe_site env) provider (filter (\<lambda>cl. cl_site_id cl = se_site session) (pn_claims c))
      (rq_resources (se_request session)) (pc_shape candidate) (pc_environment candidate)
      (pc_parameters candidate) \<and>
    pl_site_id p = Some (se_site session) \<and>
    map_option st_id (site_for_inventory (i_id snapshot) c) = Some (se_site session)"
  using assms(4)
proof (rule select_candidate_Inr)
  fix candidate w inventory s variant i w' c1 c2 c3 t1 t2 t3 t4
  assume picked: "pick_candidate session k (cg_source given) (cg_rationale given) = Inr candidate"
    and site: "get_site (se_site session) d = Inr s"
    and stored: "store_plan env candidate given inventory s variant i w' c3 = (t4, d', Inr p)"
  have "map_option st_id (site_for_inventory (i_id snapshot) c) = Some (se_site session)"
    using assms(1) by (rule explore_request_Inr) simp
  moreover have "pl_shape p = Some (pc_shape candidate) \<and> pl_environment p = pc_environment candidate \<and>
      pl_unresolved p = pc_unresolved candidate \<and> pl_site_id p = Some (st_id s)"
    using stored by (rule store_plan_Inr) (simp add: selected_plan_def)
  moreover note pick_candidate_Inr [OF picked] explored_site [OF assms(1,3) site]
  ultimately show ?thesis using explored_viable [OF assms(1,2)] by auto
qed

lemma get_workload_Inr: "get_workload k s = Inr w \<Longrightarrow> w_id w = k"
  by (auto simp: get_workload_def find_row_def find_Some_iff split: option.splits)

lemma select_onward: "select_candidate env session k given c = (t, c', r) \<Longrightarrow> onward c c'"
  using planner_rows.forward_run [OF select_candidate_onwards] by blast

text \<open>
  The workload is the one that was explored, or, with a variant, it runs the command of the request with
  exactly the words that mean the variant's source replaced by the derived file.
\<close>

definition of_session :: "planning_env \<Rightarrow> session \<Rightarrow> planner \<Rightarrow> planner \<Rightarrow> plan \<Rightarrow> workload \<Rightarrow> bool" where
  "of_session env session c c' p w \<longleftrightarrow>
     (case pl_variant_id p of
        None \<Rightarrow> pl_workload_id p = se_workload session
      | Some i \<Rightarrow> \<exists>v \<in> set (pn_variants c'). \<exists>s d derived. va_id v = i \<and> va_workload v = se_workload session \<and>
          get_site (se_site session) c = Inr s \<and> derived_text s v = Inr derived \<and>
          workload_argv w = map (replaced_path (pe_resolve env d) (rq_base_directory (se_request session))
            (pe_resolve env d (path_of (va_original v))) derived) (rq_command (se_request session)))"

text \<open>
  C8. The plan of a selection runs what is stored for it: the stored plan is the plan that is returned,
  its command, resources, files and working directory are those of its stored workload, and the workload
  is the one that was explored, or, with a variant, runs the command of the request with exactly the words
  that mean the variant's source replaced by the derived file. The selection that is recorded names the
  candidate, and the scheduler and target are the only ones of the chosen family in the inventory.
\<close>
theorem selected_plan_runs_its_workload:
  assumes "select_candidate env session k given c = (t, c', Inr p)" and "store_ok (pn_store c)"
  shows "get_plan (pl_id p) (pn_store c') = Inr p \<and>
    (\<exists>w. get_workload (pl_workload_id p) (pn_store c') = Inr w \<and> plan_argv p = workload_argv w \<and>
       pl_resources p = w_resources w \<and> pl_inputs p = w_inputs w \<and> pl_outputs p = w_outputs w \<and>
       pl_working_directory p = w_working_directory w \<and>
       of_session env session c c' p w) \<and>
    (\<exists>l \<in> set (pn_selections c'). pl_selection_id p = Some (sl_id l) \<and> sl_candidate l = k \<and>
       sl_source l = cg_source given) \<and>
    (\<exists>snapshot. get_inventory (se_inventory session) c = Inr snapshot \<and>
       (\<exists>sc \<in> set (i_schedulers snapshot). pl_scheduler p = Some (sc_id sc) \<and> pl_backend p = sc_family sc \<and>
          pl_target p \<in> Some ` set (sc_targets sc) \<and>
          (\<forall>sc' \<in> set (i_schedulers snapshot). sc_family sc' = pl_backend p \<longrightarrow> sc' = sc)))"
  using assms(1)
proof (rule select_candidate_Inr)
  fix candidate w snapshot s variant i w' c1 c2 c3 t1 t2 t3 t4
  assume picked: "pick_candidate session k (cg_source given) (cg_rationale given) = Inr candidate"
    and w: "get_workload (se_workload session) (pn_store c) = Inr w"
    and inventory: "get_inventory (se_inventory session) c = Inr snapshot"
    and site: "get_site (se_site session) c = Inr s"
    and variant: "chosen_variant env session candidate given w c = (t1, c1, Inr variant)"
    and recorded: "record_selection env session candidate given w s c1 = (t2, c2, Inr i)"
    and workload: "planned_workload env session s variant (pc_shape candidate) w c2 = (t3, c3, Inr w')"
    and stored: "store_plan env candidate given snapshot s variant i w' c3 = (t4, c', Inr p)"
  note o1 = conjunct1 [OF planner_rows.forward_run [OF chosen_variant_onwards variant]]
  note o2 = conjunct1 [OF planner_rows.forward_run [OF record_selection_onwards recorded]]
  note o3 = conjunct1 [OF planner_rows.forward_run [OF planned_workload_onwards workload]]
  have id: "w_id w = se_workload session" by (rule get_workload_Inr [OF w])
  have "get_workload (w_id w) (pn_store c2) = Inr w"
    using get_workload_onward [OF w planner_rows.later_trans [OF o1 o2] assms(2)] id by simp
  note planned = planned_workload_Inr [OF workload this]
  have kept: "v \<in> set (pn_variants c3)" if "v \<in> set (pn_variants c1)" for v
    using that planner_rows.later_trans [OF o2 o3] by (auto simp: onward_def prefix_of_def)
  have selected: "l \<in> set (pn_selections c3)" if "l \<in> set (pn_selections c2)" for l
    using that o3 by (auto simp: onward_def prefix_of_def)
  obtain l where l: "l \<in> set (pn_selections c3)" "sl_id l = i" "sl_candidate l = k" "sl_source l = cg_source given"
    using record_selection_Inr [OF recorded] pick_candidate_Inr [OF picked] selected by auto
  show ?thesis
    using stored
  proof (rule store_plan_Inr)
    fix family scheduler_id target_id access j now evidence claims
    assume chosen: "scheduler_selection (x_backend (w_constraints w')) (st_scheduler_hint s) snapshot
        (pc_shape candidate) = Inr (family, scheduler_id, target_id)"
      and p: "p = selected_plan j now (family, scheduler_id, target_id) access snapshot candidate w' s variant i
        (cg_container given) claims evidence"
      and rows: "get_plan (pl_id p) (pn_store c') = Inr p"
        "get_workload (w_id w') (pn_store c') = get_workload (w_id w') (pn_store c3)"
        "pn_variants c' = pn_variants c3" "pn_selections c' = pn_selections c3"
    have "of_session env session c c' p w'"
    proof (cases variant)
      case None
      then show ?thesis using planned id by (simp add: of_session_def p selected_plan_def)
    next
      case (Some v)
      with chosen_variant_Inr [OF variant [unfolded Some]] kept rows(3) id
      have "v \<in> set (pn_variants c')" "va_workload v = se_workload session" by auto
      with planned Some site show ?thesis by (simp add: of_session_def p selected_plan_def) blast
    qed
    moreover have "get_workload (pl_workload_id p) (pn_store c') = Inr w'" "plan_argv p = workload_argv w'"
      "pl_resources p = w_resources w'" "pl_inputs p = w_inputs w'" "pl_outputs p = w_outputs w'"
      "pl_working_directory p = w_working_directory w'" "pl_selection_id p = Some i"
      using rows(2) conjunct1 [OF planned] by (simp_all add: p selected_plan_def plan_argv_def workload_argv_def)
    moreover have "\<exists>sc \<in> set (i_schedulers snapshot). pl_scheduler p = Some (sc_id sc) \<and>
        pl_backend p = sc_family sc \<and> pl_target p \<in> Some ` set (sc_targets sc) \<and>
        (\<forall>sc' \<in> set (i_schedulers snapshot). sc_family sc' = pl_backend p \<longrightarrow> sc' = sc)"
      using scheduler_selection_Inr [OF chosen] by (auto simp: p selected_plan_def)
    moreover have "\<exists>l \<in> set (pn_selections c'). pl_selection_id p = Some (sl_id l) \<and> sl_candidate l = k \<and>
        sl_source l = cg_source given"
      using l rows(4) by (auto simp: p selected_plan_def)
    ultimately show ?thesis using rows(1) inventory by blast
  qed
qed

section \<open>Rank counts that only the command states\<close>

lemma save_request_Inr: "save_request_with_workload r w s = Inr s' \<Longrightarrow> compiled_from r w"
  by (simp add: save_request_with_workload_def split: if_splits)

lemma inferred_ranks_differ:
  assumes "launcher_from_argv (rq_command r) = (name, Some n)" and "r_mpi_ranks (rq_resources r) = None"
    and "request_to_workload is_marker i now r = Inr w"
  shows "w_resources w = (rq_resources r)\<lparr>r_mpi_ranks := Some n\<rparr>"
  using assms by (auto simp: request_to_workload_def inspect_workload_def launcher_requirement_def mapErr_Inr_iff
      bindR_Inr_iff Let_def WorkloadSpec_Inr ResourceRequirements_Inr split: if_splits)

lemma inferred_ranks_not_compiled:
  assumes "launcher_from_argv (rq_command r) = (name, Some n)" and "r_mpi_ranks (rq_resources r) = None"
    and "request_to_workload is_marker i now r = Inr w"
  shows "\<not> compiled_from r w"
proof
  assume "compiled_from r w"
  then have "w_resources w = rq_resources r" by (simp add: compiled_from_def)
  with inferred_ranks_differ [OF assms] assms(2) have "r_mpi_ranks (rq_resources r) = Some n" by (metis resources.select_convs(4) resources.surjective resources.update_convs(4))
  with assms(2) show False by simp
qed

lemma inferred_ranks_not_stored:
  assumes "launcher_from_argv (rq_command r) = (name, Some n)" and "r_mpi_ranks (rq_resources r) = None"
    and "request_to_workload is_marker i now r = Inr w"
  shows "save_request_with_workload r w s = Inl (StoreValueError ''workload does not match its execution request'')"
proof -
  have "\<not> (rq_requested_parent r \<noteq> None \<and> rq_resolved_parent r = None)"
    using assms(3) by (simp add: request_to_workload_def split: if_splits)
  then show ?thesis using inferred_ranks_not_compiled [OF assms] by (simp add: save_request_with_workload_def)
qed

lemma resolve_parent_keeps:
  "resolve_parent resolve r = Inr r' \<Longrightarrow> rq_command r' = rq_command r \<and> rq_resources r' = rq_resources r"
  by (auto simp: resolve_parent_def bindR_Inr_iff mapErr_Inr_iff with_resolved_parent_experiment_def
      dest!: ExecutionRequest_same split: option.splits if_splits)

lemma inferred_ranks_not_committed:
  assumes "launcher_from_argv (rq_command r) = (name, Some n)" and "r_mpi_ranks (rq_resources r) = None"
  shows "compile_request env r c \<noteq> (t, c', Inr w)"
    and "plan_request benv x is_marker executable_file resolve r inventory d \<noteq> (t', d', Inr v)"
proof -
  have "\<not> compiled_from r w"
    if "request_to_workload is_marker i now r = Inr w" for is_marker i now w
    by (rule inferred_ranks_not_compiled [OF assms that])
  then show "compile_request env r c \<noteq> (t, c', Inr w)"
    by (auto simp: compile_request_def planned_Inr in_store_def dest!: save_request_Inr)
  show "plan_request benv x is_marker executable_file resolve r inventory d \<noteq> (t', d', Inr v)"
  proof
    assume "plan_request benv x is_marker executable_file resolve r inventory d = (t', d', Inr v)"
    then obtain r' w e s where r': "resolve_parent (resolve d) r = Inr r'"
      and w: "request_to_workload is_marker (be_ulid benv d) (be_now benv d) r' = Inr w"
      and "save_request_with_workload r' w (ct_store d) = Inr s"
      by (auto simp: plan_request_def planned_Inr commitE_def)
    then have "compiled_from r' w" by (auto dest: save_request_Inr)
    with inferred_ranks_not_compiled [OF _ _ w] resolve_parent_keeps [OF r'] assms show False by simp
  qed
qed

text \<open>
  C38. A request whose command starts an MPI launcher with a rank count, while its resources state none,
  is never planned: the compiled workload takes the count from the command, and the store refuses the
  pair because the resources differ. No planning service gets past this.
\<close>
theorem inferred_ranks_are_refused:
  assumes "launcher_from_argv (rq_command r) = (name, Some n)" and "r_mpi_ranks (rq_resources r) = None"
  shows "(\<forall>is_marker i now w s. request_to_workload is_marker i now r = Inr w \<longrightarrow>
      save_request_with_workload r w s = Inl (StoreValueError ''workload does not match its execution request'')) \<and>
    (\<forall>benv x is_marker executable_file resolve inventory d t' d' v.
      plan_request benv x is_marker executable_file resolve r inventory d \<noteq> (t', d', Inr v)) \<and>
    (\<forall>env c t c' w. compile_request env r c \<noteq> (t, c', Inr w))"
  using inferred_ranks_not_stored [OF assms] inferred_ranks_not_committed [OF assms] by blast

definition launched_request :: request where
  "launched_request = sample_request\<lparr>rq_command := [''mpirun'', ''-np'', ''4'', ''run'']\<rparr>"

definition planned_request :: request where
  "planned_request = sample_request\<lparr>rq_resources := no_resources\<lparr>r_cpus := Some 4\<rparr>\<rparr>"

definition queue_target :: target where
  "queue_target = \<lparr>t_id = ''q1'', t_role = ''scheduler_partition'', t_name = ''debug'', t_locator = None,
     t_visible = Some True, t_authorization = ''unknown'', t_metadata = []\<rparr>"

definition access_target :: target where
  "access_target = queue_target\<lparr>t_id := ''a1'', t_role := ''access_target'', t_name := ''login''\<rparr>"

definition queue_inventory :: inventory where
  "queue_inventory = \<lparr>i_id = ''i1'', i_targets = [access_target, queue_target],
     i_schedulers = [\<lparr>sc_id = ''c1'', sc_family = ''slurm'', sc_targets = [''q1'']\<rparr>],
     i_contexts = [], i_capabilities = []\<rparr>"

definition compiles :: "request \<Rightarrow> bool" where
  "compiles r \<longleftrightarrow> (case request_to_workload (\<lambda>_. False) ''x'' ''now'' r of Inl _ \<Rightarrow> False | Inr w \<Rightarrow> w_id w = ''x'')"

definition compiles_exactly :: "request \<Rightarrow> bool" where
  "compiles_exactly r \<longleftrightarrow> (case request_to_workload (\<lambda>_. False) ''x'' ''now'' r of Inl _ \<Rightarrow> False
     | Inr w \<Rightarrow> w_id w = ''x'' \<and> compiled_from r w)"

lemma sample_computations:
  "launcher_from_argv (rq_command launched_request) = (Some ''mpirun'', Some 4) \<and>
   r_mpi_ranks (rq_resources launched_request) = None \<and> compiles launched_request \<and>
   compiles_exactly planned_request \<and> py_strip ''user'' \<noteq> [] \<and>
   scheduler_selection ''slurm'' None queue_inventory granted_shape = Inr (''slurm'', ''c1'', ''q1'')"
  by code_simp

lemma launched_ranks: "launcher_from_argv (rq_command launched_request) = (Some ''mpirun'', Some 4)"
    "r_mpi_ranks (rq_resources launched_request) = None"
  by (rule conjunct1 [OF sample_computations]) (rule conjunct1 [OF conjunct2 [OF sample_computations]])

lemma launched_compiles: "\<exists>w. request_to_workload (\<lambda>_. False) ''x'' ''now'' launched_request = Inr w"
  using conjunct1 [OF conjunct2 [OF conjunct2 [OF sample_computations]]]
  by (auto simp: compiles_def split: sum.splits)

lemma planned_compiles:
  "\<exists>w. request_to_workload (\<lambda>_. False) ''x'' ''now'' planned_request = Inr w \<and> w_id w = ''x'' \<and>
     compiled_from planned_request w"
  using conjunct1 [OF conjunct2 [OF conjunct2 [OF conjunct2 [OF sample_computations]]]]
  by (auto simp: compiles_exactly_def split: sum.splits)

lemma user_named: "py_strip ''user'' \<noteq> []"
  by (rule conjunct1 [OF conjunct2 [OF conjunct2 [OF conjunct2 [OF conjunct2 [OF sample_computations]]]]])

lemma sample_scheduler:
  "scheduler_selection ''slurm'' None queue_inventory granted_shape = Inr (''slurm'', ''c1'', ''q1'')"
  by (rule conjunct2 [OF conjunct2 [OF conjunct2 [OF conjunct2 [OF conjunct2 [OF sample_computations]]]]])

theorem inferred_ranks_are_refused_witness:
  "\<exists>w. request_to_workload (\<lambda>_. False) ''x'' ''now'' launched_request = Inr w \<and>
    save_request_with_workload launched_request w empty_store
      = Inl (StoreValueError ''workload does not match its execution request'')"
proof -
  obtain w where w: "request_to_workload (\<lambda>_. False) ''x'' ''now'' launched_request = Inr w"
    using launched_compiles by blast
  with conjunct1 [OF inferred_ranks_are_refused [OF launched_ranks], rule_format, OF w] show ?thesis by auto
qed

section \<open>A concrete selection\<close>

lemma assess_resources: "w_resources w = w_resources w' \<Longrightarrow> assess x w = assess x w'"
  by (intro ext) (simp add: assess_def)

lemma classify_resources: "w_resources w = w_resources w' \<Longrightarrow> classify_group x w = classify_group x w'"
  by (intro ext) (simp add: classify_group_def group_is_hard_invalid_def)

lemma evaluate_resources: "assess x w = assess x w' \<Longrightarrow> evaluate_candidate x w = evaluate_candidate x w'"
  by (intro ext) (unfold evaluate_candidate_def, erule ssubst, rule refl)

lemma explore_resources:
  assumes "w_resources w = w_resources w'"
  shows "explore_candidates x w = explore_candidates x w'"
  unfolding explore_candidates_def classify_resources [OF assms]
    evaluate_resources [OF assess_resources [OF assms]] by (rule refl)

lemma sample_found:
  "\<exists>e c. explore_candidates sample_site_env sample_workload [granted_shape] [] None [node_policy] 2 = Inr e \<and>
     xp_candidates e = [c] \<and> pc_state c = Viable \<and> pc_reasons c = [] \<and> pc_shape c = granted_shape \<and>
     pc_environment c = None"
proof -
  obtain c where c: "evaluate_candidate sample_site_env sample_workload None [node_policy]
      ((granted_shape, None), []) = Inr c" "pc_state c = Viable" "pc_reasons c = []"
    by (auto simp: evaluate_candidate_def sample_assess)
  have cs: "classify_group sample_site_env sample_workload None [node_policy] [[]] (granted_shape, None)
      = Inr ((granted_shape, None), Some [[]])"
    by (simp add: classify_group_def granted_open assignments_by_feasibility_def)
  have turns: "round_robin [[((granted_shape, None), [])]] = [((granted_shape, None), [])]"
    by (simp add: round_robin.simps)
  show ?thesis
    using c evaluated_candidate [OF c(1)]
    by (simp add: explore_candidates_def limit_ok_def DEFAULT_CANDIDATE_LIMIT_def
        parameter_choices_def sample_groups cs expandable_def turns hard_groups_def
        exploration_of_def Let_def)
qed

definition site_planner :: planner where
  "site_planner = empty_planner\<lparr>pn_sites := [sample_site], pn_claims := [node_policy],
     pn_store := empty_store\<lparr>st_snapshots := [queue_inventory], st_sites := [''s1''],
       st_site_links := [(''i1'', ''s1'')]\<rparr>\<rparr>"

lemma planned_session:
  "\<exists>t c session candidate. explore_request sample_planning_env planned_request ''here'' queue_inventory None
      (Some [granted_shape]) 2 site_planner = (t, c, Inr session) \<and>
    xp_candidates (se_exploration session) = [candidate] \<and> pc_state candidate = Viable \<and>
    pc_reasons candidate = [] \<and> pc_shape candidate = granted_shape \<and> pc_environment candidate = None \<and>
    se_site session = ''s1'' \<and> se_inventory session = ''i1'' \<and> se_provider session = None \<and>
    se_workload session = ''x'' \<and>
    (\<exists>w. w_id w = ''x'' \<and> compiled_from planned_request w \<and>
       c = site_planner\<lparr>pn_drawn := 1, pn_store := (pn_store site_planner)\<lparr>st_requests := [planned_request],
         st_workloads := [w], st_request_links := [(rq_id planned_request, ''x'')]\<rparr>\<rparr>)"
proof -
  obtain w where w: "request_to_workload (\<lambda>_. False) ''x'' ''now'' planned_request = Inr w" "w_id w = ''x''"
    "compiled_from planned_request w" using planned_compiles by blast
  have "w_resources w = w_resources sample_workload"
    using w(3) by (simp add: compiled_from_def planned_request_def sample_workload_def)
  note explore_resources [OF this]
  then obtain e candidate where e: "explore_candidates sample_site_env w [granted_shape] [] None [node_policy] 2 = Inr e"
      "xp_candidates e = [candidate]" "pc_state candidate = Viable" "pc_reasons candidate = []"
      "pc_shape candidate = granted_shape" "pc_environment candidate = None"
    using sample_found by metis
  have effective: "effective_request f planned_request sample_site = Inr planned_request" for f
    by (simp add: effective_request_def sample_site_def)
  have found: "explored sample_site_env w queue_inventory None [node_policy] (Some [granted_shape]) 2 = Inr e"
    by (simp add: explored_def resolve_environments_def queue_inventory_def e mapErr_def)
  have at: "get_site ''here'' site_planner = Inr sample_site"
    "site_for_inventory ''i1'' site_planner = Some sample_site"
    by (simp_all add: get_site_def site_for_inventory_def site_planner_def empty_planner_def empty_store_def
        find_row_def sample_site_def)
  have stored: "in_store (save_request_with_workload planned_request w) (site_planner\<lparr>pn_drawn := 1\<rparr>) =
      Inr (site_planner\<lparr>pn_drawn := 1, pn_store := (pn_store site_planner)\<lparr>st_requests := [planned_request],
         st_workloads := [w], st_request_links := [(rq_id planned_request, ''x'')]\<rparr>\<rparr>)" (is "_ = Inr ?c")
    using w(2,3) by (simp add: in_store_def save_request_with_workload_def insert_request_def insert_workload_def
        insert_row_def site_planner_def empty_planner_def empty_store_def planned_request_def sample_request_def
        sample_source_def source_kinds_def mapR_def mapErr_def bindR_def)
  have claims: "policy_claims ''s1'' ?c = Inr [node_policy]"
    by (simp add: policy_claims_def get_site_def find_row_def site_planner_def empty_planner_def sample_site_def
        node_policy_def mapR_def)
  have "compile_request sample_planning_env planned_request site_planner = ([?c], ?c, Inr w)"
    using w(1) stored by (simp add: compile_request_def drawE_def stampE_def eff_defs sample_planning_env_def
        site_planner_def empty_planner_def mapErr_def)
  then have "explore_request sample_planning_env planned_request ''here'' queue_inventory None
      (Some [granted_shape]) 2 site_planner = ([?c], ?c, Inr \<lparr>se_request = planned_request, se_workload = ''x'',
        se_inventory = ''i1'', se_site = ''s1'', se_exploration = e, se_provider = None\<rparr>)"
    using at effective found claims w(2)
    by (simp add: explore_request_def eff_defs sample_planning_env_def queue_inventory_def sample_site_def)
  with e w show ?thesis by (intro exI conjI) (assumption | simp)+
qed

definition sample_choice :: choice_given where
  "sample_choice = \<lparr>cg_source = ''user'', cg_rationale = None, cg_variant = None, cg_approvals = [],
     cg_declarations = [], cg_trusted = False, cg_container = None\<rparr>"

lemma viable_evidence:
  "pc_reasons candidate = [] \<Longrightarrow> \<exists>evidence. selection_evidence candidate = Inr evidence"
  by (simp add: selection_evidence_def DecisionEvidence_def evidence_states_def mapR_def bindR_def result_simps)

lemma viable_summary:
  "pc_state candidate = Viable \<Longrightarrow> rejection_reason_summary [candidate] = Inr []"
  by (simp add: rejection_reason_summary_def sorted_keys_def mapR_def)

lemma planned_selection:
  assumes "xp_candidates (se_exploration session) = [candidate]" and "pc_state candidate = Viable"
    and "pc_reasons candidate = []" and "pc_shape candidate = granted_shape" and "pc_environment candidate = None"
    and "se_site session = ''s1''" "se_inventory session = ''i1''" "se_provider session = None"
    and "se_workload session = ''x''" and "w_id w = ''x''" "compiled_from planned_request w"
    and "c = site_planner\<lparr>pn_drawn := 1, pn_store := (pn_store site_planner)\<lparr>st_requests := [planned_request],
         st_workloads := [w], st_request_links := [(rq_id planned_request, ''x'')]\<rparr>\<rparr>"
  shows "\<exists>t d p. select_candidate sample_planning_env session (pc_id candidate) sample_choice c = (t, d, Inr p)"
proof -
  have picked: "pick_candidate session (pc_id candidate) ''user'' None = Inr candidate"
    using assms(1,2) user_named by (simp add: pick_candidate_def)
  have rows: "get_workload ''x'' (pn_store c) = Inr w" "get_inventory ''i1'' c = Inr queue_inventory"
    "get_site ''s1'' c = Inr sample_site"
    using assms(10,12) by (simp_all add: get_workload_def get_inventory_def get_site_def find_row_def site_planner_def
        empty_planner_def empty_store_def queue_inventory_def sample_site_def)
  have variant: "chosen_variant sample_planning_env session candidate sample_choice w c = ([], c, Inr None)"
    using assms(8) by (simp add: chosen_variant_def sample_choice_def eff_defs)
  obtain t2 l c2 where recorded: "record_selection sample_planning_env session candidate sample_choice w sample_site c
      = (t2, c2, Inr ''xx'')" and "sl_id l = ''xx''"
    and c2: "c2 = c\<lparr>pn_drawn := 2, pn_selections := [l],
      pn_store := (pn_store c)\<lparr>st_selections := [(''xx'', ''x'', ''s1'')]\<rparr>\<rparr>"
    using assms(1,2,10,12) by (simp add: record_selection_def drawE_def stampE_def eff_defs viable_summary mapErr_def
        save_selection_def summarised_def Let_def sample_planning_env_def sample_site_def site_planner_def
        empty_planner_def empty_store_def)
  have w: "w_executable w = ''run''" "w_arguments w = []" "w_inputs w = []" "w_outputs w = [''o'']"
    "w_working_directory w = ''/w/.''" "x_backend (w_constraints w) = ''slurm''"
    using assms(11) by (simp_all add: compiled_from_def workload_argv_def planned_request_def sample_request_def)
  obtain evidence where evidence: "selection_evidence candidate = Inr evidence"
    using viable_evidence [OF assms(3)] by blast
  have claims: "policy_claims ''s1'' (c2\<lparr>pn_drawn := 3\<rparr>) = Inr [node_policy]"
    by (simp add: c2 assms(12) policy_claims_def get_site_def find_row_def site_planner_def empty_planner_def
        sample_site_def node_policy_def mapR_def)
  define p where "p = selected_plan ''xxx'' ''now'' (''slurm'', ''c1'', ''q1'') access_target queue_inventory candidate w
    sample_site None ''xx'' None [node_policy] evidence"
  have made: "ExecutionPlan p = Inr p"
    using w assms(10) by (simp add: ExecutionPlan_Inr plan_ok_def p_def selected_plan_def queue_inventory_def
        backends_def compatibility_states_def)
  have stored: "\<exists>d. in_store (save_plan p) (c2\<lparr>pn_drawn := 3\<rparr>) = Inr d"
    using assms(5,10) by (simp add: in_store_def save_plan_def p_def selected_plan_def c2 assms(12) get_workload_def find_row_def
        site_planner_def empty_planner_def empty_store_def queue_inventory_def access_target_def queue_target_def
        sample_site_def check_plan_inventory_def check_plan_site_def check_selection_def insert_row_def
        backends_def compatibility_states_def mapR_def mapErr_def bindR_def result_simps)
  then obtain d where d: "in_store (save_plan p) (c2\<lparr>pn_drawn := 3\<rparr>) = Inr d" by blast
  have "store_plan sample_planning_env candidate sample_choice queue_inventory sample_site None ''xx'' w c2 = ([d], d, Inr p)"
  proof -
    have "pn_drawn c2 = 2" by (simp add: c2)
    moreover have "current_target queue_inventory = Some access_target"
      by (simp add: current_target_def queue_inventory_def access_target_def)
    ultimately show ?thesis
      using sample_scheduler evidence claims made d assms(4) w(6)
      by (simp add: store_plan_def drawE_def stampE_def eff_defs sample_planning_env_def sample_site_def mapErr_def
          sample_choice_def p_def numeral_2_eq_2 numeral_3_eq_3)
  qed
  then have "select_candidate sample_planning_env session (pc_id candidate) sample_choice c = (t2 @ [d], d, Inr p)"
    using picked rows variant recorded assms(6,7,9)
    by (simp add: select_candidate_def eff_defs planned_workload_def sample_choice_def mapErr_def)
  then show ?thesis by blast
qed

lemma sample_selection:
  "\<exists>t c t' c' session k p. explore_request sample_planning_env planned_request ''here'' queue_inventory None
      (Some [granted_shape]) 2 site_planner = (t, c, Inr session) \<and>
    select_candidate sample_planning_env session k sample_choice c = (t', c', Inr p) \<and> store_ok (pn_store c)"
proof -
  obtain t c session candidate w where e: "explore_request sample_planning_env planned_request ''here'' queue_inventory None
      (Some [granted_shape]) 2 site_planner = (t, c, Inr session)"
    and s: "xp_candidates (se_exploration session) = [candidate]" "pc_state candidate = Viable"
      "pc_reasons candidate = []" "pc_shape candidate = granted_shape" "pc_environment candidate = None"
      "se_site session = ''s1''" "se_inventory session = ''i1''" "se_provider session = None"
      "se_workload session = ''x''" "w_id w = ''x''" "compiled_from planned_request w"
      "c = site_planner\<lparr>pn_drawn := 1, pn_store := (pn_store site_planner)\<lparr>st_requests := [planned_request],
         st_workloads := [w], st_request_links := [(rq_id planned_request, ''x'')]\<rparr>\<rparr>"
    using planned_session by blast
  have "store_ok (pn_store site_planner)"
    by (simp add: site_planner_def empty_planner_def empty_store_def store_ok_def keys_ok_def StoreProperties.evidenced_def
        StoreProperties.planned_def jobs_ok_def results_ok_def)
  moreover have "onward site_planner c" using planner_rows.forward_run [OF explore_request_onwards e] by simp
  ultimately have "store_ok (pn_store c)" by (simp add: onward_def)
  with e planned_selection [OF s] show ?thesis by blast
qed

theorem selected_plan_is_justified_witness:
  "\<exists>t c t' c' session k p. explore_request sample_planning_env planned_request ''here'' queue_inventory None
      (Some [granted_shape]) 2 site_planner = (t, c, Inr session) \<and>
    select_candidate sample_planning_env session k sample_choice c = (t', c', Inr p) \<and>
    (\<exists>candidate \<in> set (xp_candidates (se_exploration session)). pc_id candidate = k \<and>
       justified sample_site_env None (filter (\<lambda>cl. cl_site_id cl = se_site session) [node_policy])
         (rq_resources (se_request session)) (pc_shape candidate) (pc_environment candidate)
         (pc_parameters candidate))"
proof -
  obtain t c t' c' session k p where runs: "explore_request sample_planning_env planned_request ''here''
      queue_inventory None (Some [granted_shape]) 2 site_planner = (t, c, Inr session)"
    "select_candidate sample_planning_env session k sample_choice c = (t', c', Inr p)"
    using sample_selection by blast
  have "finite_claims (pn_claims site_planner)"
    by (simp add: finite_claims_def site_planner_def empty_planner_def node_policy_def)
  note result = selected_plan_is_justified [OF runs(1) this planner_rows.later_refl runs(2)]
  have "pe_site sample_planning_env = sample_site_env" "pn_claims site_planner = [node_policy]"
    by (simp_all add: site_planner_def empty_planner_def sample_planning_env_def)
  with result runs show ?thesis by metis
qed

theorem selected_plan_runs_its_workload_witness:
  "\<exists>session k c t' c' p. select_candidate sample_planning_env session k sample_choice c = (t', c', Inr p) \<and>
    store_ok (pn_store c) \<and> get_plan (pl_id p) (pn_store c') = Inr p"
proof -
  obtain t c t' c' session k p where runs: "explore_request sample_planning_env planned_request ''here''
      queue_inventory None (Some [granted_shape]) 2 site_planner = (t, c, Inr session)"
    "select_candidate sample_planning_env session k sample_choice c = (t', c', Inr p)" "store_ok (pn_store c)"
    using sample_selection by blast
  from conjunct1 [OF selected_plan_runs_its_workload [OF runs(2,3)]] runs(2,3) show ?thesis by blast
qed

end
