(* ===== verification/References.thy ===== *)
theory References
  imports ExecutionStore
begin

text \<open>
  What a person may call an experiment, a plan or an execution (\<open>references.py\<close>,
  \<open>workload_references.py\<close>, over the listings of \<open>storage.py\<close> and \<open>workload_storage.py\<close>): its
  identity or a prefix of it, \<open>latest\<close>, or \<open>@N\<close> for the N-th newest. A query works on the rows of
  its table, newest first.
\<close>

section \<open>Listings\<close>

text \<open>\<open>ORDER BY time DESC, id DESC\<close>\<close>

definition newest :: "('r \<Rightarrow> string) \<Rightarrow> ('r \<Rightarrow> string) \<Rightarrow> 'r list \<Rightarrow> 'r list" where
  "newest time key rows = sort_by (\<lambda>a b. str_less (time b) (time a) \<or>
     time a = time b \<and> str_less (key b) (key a)) rows"

datatype query_error =
    QueryValue string
  | QueryMissing string
  | QueryOverflow

text \<open>\<open>LIMIT 1 OFFSET position - 1\<close>, where the offset is a 64-bit integer of the database.\<close>

definition row_by_recency :: "('r \<Rightarrow> string) \<Rightarrow> ('r \<Rightarrow> string) \<Rightarrow> int \<Rightarrow> 'r list \<Rightarrow> (query_error, 'r) res" where
  "row_by_recency time key position rows =
     (if position < 1 then Inl (QueryValue ''position must be at least 1'')
      else if position - 1 > 2 ^ 63 - 1 then Inl QueryOverflow
      else if position > int (length rows) then Inl (QueryMissing (''@'' @ str_int position))
      else Inr (newest time key rows ! nat (position - 1)))"

text \<open>\<open>WHERE substr(id, 1, length) = prefix\<close>, at most \<open>limit\<close> of them.\<close>

definition has_prefix :: "('r \<Rightarrow> string) \<Rightarrow> string \<Rightarrow> 'r \<Rightarrow> bool" where
  "has_prefix key prefix r \<longleftrightarrow> take (length prefix) (key r) = prefix"

definition ids_by_prefix :: "('r \<Rightarrow> string) \<Rightarrow> ('r \<Rightarrow> string) \<Rightarrow> string \<Rightarrow> nat \<Rightarrow> 'r list \<Rightarrow> string list" where
  "ids_by_prefix time key prefix limit rows =
     take limit (map key (filter (has_prefix key prefix) (newest time key rows)))"

definition row_by_id :: "('r \<Rightarrow> string) \<Rightarrow> string \<Rightarrow> 'r list \<Rightarrow> (query_error, 'r) res" where
  "row_by_id key k rows =
     (case find_row key k rows of None \<Rightarrow> Inl (QueryMissing k) | Some r \<Rightarrow> Inr r)"

definition recent_rows :: "('r \<Rightarrow> string) \<Rightarrow> ('r \<Rightarrow> string) \<Rightarrow> nat \<Rightarrow> 'r list \<Rightarrow> (query_error, 'r list) res" where
  "recent_rows time key limit rows =
     (if limit < 1 then Inl (QueryValue ''limit must be at least 1'')
      else Inr (take limit (newest time key rows)))"

section \<open>The listings of the tables\<close>

definition experiment_by_recency :: "int \<Rightarrow> store \<Rightarrow> (query_error, experiment_record) res" where
  "experiment_by_recency position s = row_by_recency ex_started_at ex_id position (st_experiments s)"

definition experiment_ids_by_prefix :: "string \<Rightarrow> nat \<Rightarrow> store \<Rightarrow> (query_error, string list) res" where
  "experiment_ids_by_prefix prefix limit s =
     (if limit < 1 then Inl (QueryValue ''limit must be at least 1'')
      else Inr (ids_by_prefix ex_started_at ex_id prefix limit (st_experiments s)))"

definition get_experiment :: "string \<Rightarrow> store \<Rightarrow> (query_error, experiment_record) res" where
  "get_experiment k s = row_by_id ex_id k (st_experiments s)"

definition count_experiments :: "store \<Rightarrow> nat" where
  "count_experiments s = length (st_experiments s)"

definition list_recent :: "nat \<Rightarrow> store \<Rightarrow> (query_error, experiment_record list) res" where
  "list_recent limit s = recent_rows ex_started_at ex_id limit (st_experiments s)"

definition plan_by_recency :: "int \<Rightarrow> store \<Rightarrow> (query_error, plan) res" where
  "plan_by_recency position s = row_by_recency pl_created_at pl_id position (st_plans s)"

definition plan_ids_by_prefix :: "string \<Rightarrow> nat \<Rightarrow> store \<Rightarrow> string list" where
  "plan_ids_by_prefix prefix limit s = ids_by_prefix pl_created_at pl_id prefix limit (st_plans s)"

definition count_plans :: "store \<Rightarrow> nat" where
  "count_plans s = length (st_plans s)"

definition execution_by_recency :: "int \<Rightarrow> store \<Rightarrow> (query_error, attempt) res" where
  "execution_by_recency position s = row_by_recency at_created_at at_id position (st_attempts s)"

definition execution_ids_by_prefix :: "string \<Rightarrow> nat \<Rightarrow> store \<Rightarrow> string list" where
  "execution_ids_by_prefix prefix limit s = ids_by_prefix at_created_at at_id prefix limit (st_attempts s)"

definition count_executions :: "store \<Rightarrow> nat" where
  "count_executions s = length (st_attempts s)"

definition list_executions :: "nat \<Rightarrow> store \<Rightarrow> (query_error, attempt list) res" where
  "list_executions limit s = recent_rows at_created_at at_id limit (st_attempts s)"

section \<open>References\<close>

text \<open>\<open>@([1-9][0-9]*)\<close>: the digits; \<open>int\<close> takes at most 4300 of them.\<close>

definition relative_digits :: "string \<Rightarrow> string option" where
  "relative_digits reference =
     (case reference of
        a # d # ds \<Rightarrow>
          if a = CHR ''@'' \<and> is_digit d \<and> d \<noteq> CHR ''0'' \<and> list_all is_digit ds then Some (d # ds) else None
      | _ \<Rightarrow> None)"

definition int_of_digits :: "string \<Rightarrow> (query_error, int) res" where
  "int_of_digits ds =
     (if length ds > 4300 then Inl (QueryValue ''Exceeds the limit for integer string conversion'')
      else Inr (int (parse_nat ds)))"

datatype reference_error =
    MissingReference string
  | AmbiguousReference string "string list"
  | ReferenceOutOfRange string nat
  | ReferenceQuery query_error

definition candidates_text :: "string list \<Rightarrow> string" where
  "candidates_text ks = join [CHR 0x0A] (map (\<lambda>k. ''  '' @ k) ks)"

definition ambiguity_text :: "string \<Rightarrow> string \<Rightarrow> string list \<Rightarrow> string" where
  "ambiguity_text label reference ks =
     ''Ambiguous '' @ label @ '' reference '' @ [CHR 0x27] @ reference @ [CHR 0x27] @ ''.'' @ [CHR 0x0A, CHR 0x0A] @
     ''Matches:'' @ [CHR 0x0A] @ candidates_text ks @ [CHR 0x0A, CHR 0x0A] @ ''Provide a longer prefix.''"

definition quoted :: "string \<Rightarrow> string" where
  "quoted s = [CHR 0x27] @ s @ [CHR 0x27]"

fun experiment_reference_text :: "reference_error \<Rightarrow> string" where
  "experiment_reference_text (MissingReference r) = ''No experiment matches reference '' @ quoted r @ ''.''"
| "experiment_reference_text (AmbiguousReference r ks) = ambiguity_text ''experiment'' r ks"
| "experiment_reference_text (ReferenceOutOfRange r n) =
     ''Experiment reference '' @ quoted r @ '' is out of range; only '' @ str_nat n @ '' experiment(s) are recorded.''"
| "experiment_reference_text (ReferenceQuery e) =
     (case e of QueryValue m \<Rightarrow> m | QueryMissing k \<Rightarrow> k | QueryOverflow \<Rightarrow> ''Python int too large to convert to SQLite INTEGER'')"

definition resolve_relative :: "string \<Rightarrow> int \<Rightarrow> store \<Rightarrow> (reference_error, experiment_record) res" where
  "resolve_relative reference position s =
     (case experiment_by_recency position s of
        Inl (QueryMissing _) \<Rightarrow> Inl (ReferenceOutOfRange reference (count_experiments s))
      | Inl e \<Rightarrow> Inl (ReferenceQuery e)
      | Inr e \<Rightarrow> Inr e)"

definition resolve_experiment :: "string \<Rightarrow> store \<Rightarrow> (reference_error, experiment_record) res" where
  "resolve_experiment reference s =
     (if casefold reference = ''latest'' then resolve_relative reference 1 s
      else
        (case relative_digits reference of
           Some ds \<Rightarrow>
             bindR (mapErr ReferenceQuery (int_of_digits ds)) (\<lambda>n. resolve_relative reference n s)
         | None \<Rightarrow>
             bindR (mapErr ReferenceQuery (experiment_ids_by_prefix (py_upper reference) 20 s)) (\<lambda>ks.
             case ks of
               [] \<Rightarrow> Inl (MissingReference reference)
             | [k] \<Rightarrow> mapErr ReferenceQuery (get_experiment k s)
             | _ \<Rightarrow> Inl (AmbiguousReference reference ks))))"

text \<open>The resolution that plans, executions and inventories share, over the queries of their store.\<close>

datatype scoped_error =
    ScopedReference string
  | ScopedQuery query_error

definition py_title :: "string \<Rightarrow> string" where
  "py_title label = (case label of [] \<Rightarrow> [] | c # cs \<Rightarrow> upper_char c # cs)"

definition resolve_scoped :: "string \<Rightarrow> string \<Rightarrow> (int \<Rightarrow> (query_error, 'r) res) \<Rightarrow> (string \<Rightarrow> string list) \<Rightarrow>
    (string \<Rightarrow> (query_error, 'r) res) \<Rightarrow> nat \<Rightarrow> (scoped_error, 'r) res" where
  "resolve_scoped reference label by_recency by_prefix by_id count =
     bindR (case relative_digits reference of
         Some ds \<Rightarrow> mapR Some (mapErr ScopedQuery (int_of_digits ds))
       | None \<Rightarrow> Inr (if casefold reference = ''latest'' then Some 1 else None)) (\<lambda>position.
     case position of
       Some n \<Rightarrow>
         (case by_recency n of
            Inl (QueryMissing _) \<Rightarrow> Inl (ScopedReference (py_title label @ '' reference '' @ quoted reference @
              '' is out of range; only '' @ str_nat count @ '' are recorded.''))
          | Inl e \<Rightarrow> Inl (ScopedQuery e)
          | Inr r \<Rightarrow> Inr r)
     | None \<Rightarrow>
         (case by_prefix (py_upper reference) of
            [] \<Rightarrow> Inl (ScopedReference (''No '' @ label @ '' matches reference '' @ quoted reference @ ''.''))
          | [k] \<Rightarrow> mapErr ScopedQuery (by_id k)
          | ks \<Rightarrow> Inl (ScopedReference (ambiguity_text label reference (take 20 ks)))))"

definition resolve_plan :: "string \<Rightarrow> store \<Rightarrow> (scoped_error, plan) res" where
  "resolve_plan reference s =
     resolve_scoped reference ''plan'' (\<lambda>n. plan_by_recency n s) (\<lambda>p. plan_ids_by_prefix p 100 s)
       (\<lambda>k. row_by_id pl_id k (st_plans s)) (count_plans s)"

definition resolve_execution_attempt :: "string \<Rightarrow> store \<Rightarrow> (scoped_error, attempt) res" where
  "resolve_execution_attempt reference s =
     resolve_scoped reference ''execution'' (\<lambda>n. execution_by_recency n s)
       (\<lambda>p. execution_ids_by_prefix p 100 s) (\<lambda>k. row_by_id at_id k (st_attempts s)) (count_executions s)"

end
