(* ===== verification/Provenance.thy ===== *)
theory Provenance
  imports References
begin

text \<open>
  Where a file came from (\<open>tracing.py\<close>, over the queries of \<open>storage.py\<close>): the run that produced it,
  the inputs of the run, and the experiments the run derives from. What the file system says of the
  path is an argument.
\<close>

section \<open>Queries\<close>

definition by_text :: "('r \<Rightarrow> string list) \<Rightarrow> 'r \<Rightarrow> 'r \<Rightarrow> bool" where
  "by_text keys a b \<longleftrightarrow>
     foldr (\<lambda>(x, y) rest. str_less x y \<or> x = y \<and> rest) (zip (keys a) (keys b)) False"

definition list_artifacts :: "string \<Rightarrow> string option \<Rightarrow> store \<Rightarrow> artifact list" where
  "list_artifacts k role s =
     (case role of
        None \<Rightarrow> sort_by (by_text (\<lambda>a. [ar_role a, ar_captured_at a, ar_id a]))
          (filter (\<lambda>a. ar_experiment_id a = k) (st_artifacts s))
      | Some r \<Rightarrow> sort_by (by_text (\<lambda>a. [ar_captured_at a, ar_id a]))
          (filter (\<lambda>a. ar_experiment_id a = k \<and> ar_role a = r) (st_artifacts s)))"

definition output_matches :: "string option \<Rightarrow> string option \<Rightarrow> artifact \<Rightarrow> bool" where
  "output_matches path sha256 a \<longleftrightarrow>
     ar_role a = ''output'' \<and>
     (case path of None \<Rightarrow> True | Some p \<Rightarrow> ar_resolved_path a = p) \<and>
     (case sha256 of
        None \<Rightarrow> True
      | Some d \<Rightarrow> ar_sha256 a = Some d \<and> ar_existence a = ''present'' \<and> ar_capture a = ''complete'')"

definition find_output_artifacts :: "string option \<Rightarrow> string option \<Rightarrow> store \<Rightarrow> (query_error, artifact list) res" where
  "find_output_artifacts path sha256 s =
     (if path = None \<and> sha256 = None then Inl (QueryValue ''resolved_path or sha256 is required'')
      else Inr (newest ar_captured_at ar_id (filter (output_matches path sha256) (st_artifacts s))))"

definition get_lineage :: "string \<Rightarrow> string \<Rightarrow> store \<Rightarrow> lineage option" where
  "get_lineage child relationship s =
     find_row (\<lambda>l. (li_child l, li_relationship l)) (child, relationship) (st_lineage s)"

definition save_record :: "experiment_record \<Rightarrow> artifact list \<Rightarrow> lineage list \<Rightarrow> store \<Rightarrow> store stored" where
  "save_record e artifacts edges s = insert_experiment_record e artifacts edges s"

section \<open>Tracing\<close>

datatype trace_error =
    MissingArtifact string
  | AmbiguousArtifact string "artifact list"
  | TraceQuery query_error

definition artifact_line :: "artifact \<Rightarrow> string" where
  "artifact_line a = ''  artifact '' @ ar_id a @ '' from experiment '' @ ar_experiment_id a @ '' (sha256 '' @
     (case ar_sha256 a of None \<Rightarrow> ''unavailable'' | Some d \<Rightarrow> if d = [] then ''unavailable'' else d) @ '')''"

fun trace_error_text :: "trace_error \<Rightarrow> string" where
  "trace_error_text (MissingArtifact p) = ''No recorded output artifact matches '' @ quoted p @ ''.''"
| "trace_error_text (AmbiguousArtifact p ms) = ''Artifact reference '' @ quoted p @ '' is ambiguous.'' @
     [CHR 0x0A, CHR 0x0A] @ ''Matches:'' @ [CHR 0x0A] @ join [CHR 0x0A] (map artifact_line ms) @
     [CHR 0x0A, CHR 0x0A] @ ''Provide a file whose current content identifies the intended version.''"
| "trace_error_text (TraceQuery e) = experiment_reference_text (ReferenceQuery e)"

lemma get_experiment_Inr: "get_experiment k s = Inr e \<Longrightarrow> e \<in> set (st_experiments s) \<and> ex_id e = k"
  by (auto simp: get_experiment_def row_by_id_def find_row_def find_Some_iff split: option.splits)

text \<open>The experiments an experiment derives from, one after the other, until none is recorded or one recurs.\<close>

function ancestry :: "store \<Rightarrow> string list \<Rightarrow> string \<Rightarrow> (query_error, experiment_record list) res" where
  "ancestry s visited current =
     (case get_lineage current ''derived_from'' s of
        None \<Rightarrow> Inr []
      | Some l \<Rightarrow>
          if li_parent l \<in> set visited then Inr []
          else
            (case get_experiment (li_parent l) s of
               Inl e \<Rightarrow> Inl e
             | Inr parent \<Rightarrow> mapR (\<lambda>rest. parent # rest) (ancestry s (ex_id parent # visited) (ex_id parent))))"
  by pat_completeness auto
termination
proof (relation "measure (\<lambda>(s, visited, _). card (ex_id ` set (st_experiments s) - set visited))")
  fix s :: store and visited :: "string list" and current l parent
  assume unseen: "li_parent l \<notin> set visited" and "get_experiment (li_parent l) s = Inr parent"
  with get_experiment_Inr have "parent \<in> set (st_experiments s)" "ex_id parent \<notin> set visited" by metis+
  then have "ex_id parent \<in> ex_id ` set (st_experiments s) - set visited" by blast
  then have "ex_id ` set (st_experiments s) - set (ex_id parent # visited)
      \<subset> ex_id ` set (st_experiments s) - set visited"
    unfolding list.set by blast
  then show "((s, ex_id parent # visited, ex_id parent), (s, visited, current))
      \<in> measure (\<lambda>(s, visited, _). card (ex_id ` set (st_experiments s) - set visited))"
    by (simp add: psubset_card_mono)
qed simp

declare ancestry.simps [simp del]

record artifact_trace =
  tr_artifact :: artifact
  tr_producer :: experiment_record
  tr_inputs :: "artifact list"
  tr_ancestry :: "experiment_record list"

text \<open>
  The recorded outputs that mean the file: those with its content under its path, or else with its
  content anywhere; those under its path when its content cannot be read.
\<close>

definition output_candidates :: "string \<Rightarrow> string option \<Rightarrow> store \<Rightarrow> (query_error, artifact list) res" where
  "output_candidates resolved digest s =
     (case digest of
        None \<Rightarrow> find_output_artifacts (Some resolved) None s
      | Some d \<Rightarrow>
          bindR (find_output_artifacts (Some resolved) (Some d) s) (\<lambda>ms.
          if ms = [] then find_output_artifacts None (Some d) s else Inr ms))"

definition trace_artifact :: "string \<Rightarrow> string \<Rightarrow> string option \<Rightarrow> store \<Rightarrow> (trace_error, artifact_trace) res" where
  "trace_artifact path resolved digest s =
     bindR (mapErr TraceQuery (output_candidates resolved digest s)) (\<lambda>ms.
     case ms of
       [] \<Rightarrow> Inl (MissingArtifact path)
     | [a] \<Rightarrow>
         bindR (mapErr TraceQuery (get_experiment (ar_experiment_id a) s)) (\<lambda>producer.
         bindR (mapErr TraceQuery (ancestry s [ex_id producer] (ex_id producer))) (\<lambda>line.
         Inr \<lparr>tr_artifact = a, tr_producer = producer,
           tr_inputs = list_artifacts (ex_id producer) (Some ''input'') s, tr_ancestry = line\<rparr>))
     | _ \<Rightarrow> Inl (AmbiguousArtifact path ms))"

end
