(* ===== verification/ReferenceProperties.thy ===== *)
theory ReferenceProperties
  imports References StoreProperties
begin

text \<open>
  What a reference means: a position among the rows of its table, newest first, or the one row whose
  identity begins with it. The resolution is shared by every table that answers the four queries it
  asks.
\<close>

lemma set_newest [simp]: "set (newest time key rows) = set rows"
  by (simp add: newest_def)

lemma length_newest [simp]: "length (newest time key rows) = length rows"
  by (simp add: newest_def)

lemma distinct_insort_by: "distinct (map key (insort_by lt x xs)) \<longleftrightarrow> key x \<notin> key ` set xs \<and> distinct (map key xs)"
  by (induction xs) auto

lemma distinct_newest [simp]: "distinct (map key (newest time key' rows)) \<longleftrightarrow> distinct (map key rows)"
proof -
  have "distinct (map key (sort_by lt rows)) \<longleftrightarrow> distinct (map key rows)" for lt
    by (induction rows) (simp_all add: sort_by_def distinct_insort_by set_sort_by [unfolded sort_by_def])
  then show ?thesis by (simp add: newest_def)
qed

lemma row_by_recency_Inr:
  "row_by_recency time key n rows = Inr r \<longleftrightarrow>
     1 \<le> n \<and> n \<le> 2 ^ 63 \<and> n \<le> int (length rows) \<and> newest time key rows ! nat (n - 1) = r"
  by (auto simp: row_by_recency_def)

lemma find_row_distinct: "distinct (map key rows) \<Longrightarrow> find_row key k rows = Some r \<longleftrightarrow> r \<in> set rows \<and> key r = k"
  by (induction rows) (auto simp: find_row_def)

lemma row_by_id_Inr: "distinct (map key rows) \<Longrightarrow> row_by_id key k rows = Inr r \<longleftrightarrow> r \<in> set rows \<and> key r = k"
  by (simp add: row_by_id_def find_row_distinct [symmetric] split: option.split)

section \<open>Positions\<close>

text \<open>The position a reference states, if it states one.\<close>

definition reference_position :: "string \<Rightarrow> nat option" where
  "reference_position reference =
     (if casefold reference = ''latest'' then Some 1 else map_option parse_nat (relative_digits reference))"

text \<open>What a reference denotes among rows, newest first.\<close>

definition denotes :: "('r \<Rightarrow> string) \<Rightarrow> 'r list \<Rightarrow> string \<Rightarrow> 'r \<Rightarrow> bool" where
  "denotes key rows reference r \<longleftrightarrow>
     (case reference_position reference of
        Some n \<Rightarrow> 1 \<le> n \<and> n \<le> length rows \<and> n \<le> 2 ^ 63 \<and> length reference \<le> 4301 \<and> rows ! (n - 1) = r
      | None \<Rightarrow> {r' \<in> set rows. has_prefix key (py_upper reference) r'} = {r})"

lemma latest_no_digits: "casefold reference = ''latest'' \<Longrightarrow> relative_digits reference = None"
proof -
  have "lower_char (CHR ''@'') \<noteq> CHR ''l''" by (simp add: lower_char_def is_upper_def code_point_def)
  then show "casefold reference = ''latest'' \<Longrightarrow> relative_digits reference = None"
    by (auto simp: relative_digits_def casefold_def split: list.splits)
qed

lemma relative_digits_length: "relative_digits reference = Some ds \<Longrightarrow> length reference = Suc (length ds)"
  by (auto simp: relative_digits_def split: list.splits if_splits)

lemma latest_length: "casefold reference = ''latest'' \<Longrightarrow> length reference = 6"
proof -
  assume "casefold reference = ''latest''"
  then have "length (casefold reference) = length ''latest''" by simp
  then show ?thesis by (simp add: casefold_def)
qed

lemma int_of_digits_Inr: "int_of_digits ds = Inr n \<longleftrightarrow> length ds \<le> 4300 \<and> n = int (parse_nat ds)"
  by (auto simp: int_of_digits_def)

section \<open>The interface of a table that can be referred to\<close>

locale referable =
  fixes rows :: "'s \<Rightarrow> 'r list" and key :: "'r \<Rightarrow> string"
    and by_recency :: "int \<Rightarrow> 's \<Rightarrow> (query_error, 'r) res" and by_prefix :: "string \<Rightarrow> 's \<Rightarrow> string list"
    and by_id :: "string \<Rightarrow> 's \<Rightarrow> (query_error, 'r) res" and shown :: nat
  assumes recency_law: "by_recency n s = Inr r \<longleftrightarrow>
      1 \<le> n \<and> n \<le> 2 ^ 63 \<and> n \<le> int (length (rows s)) \<and> rows s ! nat (n - 1) = r"
    and prefix_law: "by_prefix p s = take shown (map key (filter (has_prefix key p) (rows s)))"
    and id_law: "distinct (map key (rows s)) \<Longrightarrow> by_id k s = Inr r \<longleftrightarrow> r \<in> set (rows s) \<and> key r = k"
    and shows_two: "2 \<le> shown"
begin

lemma by_prefix_one:
  assumes "distinct (map key (rows s))"
  shows "(case by_prefix p s of [k] \<Rightarrow> by_id k s = Inr r | _ \<Rightarrow> False) \<longleftrightarrow>
    {r' \<in> set (rows s). has_prefix key p r'} = {r}"
proof -
  let ?found = "filter (has_prefix key p) (rows s)"
  have found: "set ?found = {r' \<in> set (rows s). has_prefix key p r'}" by auto
  have d: "distinct ?found" using assms by (simp add: distinct_map)
  consider "?found = []" | x where "?found = [x]" | x y zs where "?found = x # y # zs"
    by (metis neq_Nil_conv)
  then show ?thesis
  proof cases
    case 1
    then have "by_prefix p s = []" using prefix_law by simp
    with 1 found show ?thesis by auto
  next
    case (2 x)
    then have "by_prefix p s = [key x]" using prefix_law shows_two by (cases shown) simp_all
    moreover have "by_id (key x) s = Inr r \<longleftrightarrow> x = r"
    proof -
      have "x \<in> set (rows s)" using 2 found by auto
      with id_law [OF assms, of "key x" r] assms show ?thesis by (metis inj_onD distinct_map)
    qed
    ultimately show ?thesis using 2 found by auto
  next
    case (3 x y zs)
    obtain m where m: "shown = Suc (Suc m)" using shows_two by (cases shown; cases "shown - 1") auto
    have "by_prefix p s = key x # key y # take m (map key zs)" using 3 prefix_law m by simp
    moreover have "{r' \<in> set (rows s). has_prefix key p r'} \<noteq> {r}"
    proof
      assume "{r' \<in> set (rows s). has_prefix key p r'} = {r}"
      with found 3 have "x = r" "y = r" by auto
      with 3 d show False by simp
    qed
    ultimately show ?thesis by simp
  qed
qed

lemma by_position:
  "by_recency (int n) s = Inr r \<longleftrightarrow> 1 \<le> n \<and> n \<le> length (rows s) \<and> n \<le> 2 ^ 63 \<and> rows s ! (n - 1) = r"
proof -
  have "nat (int n - 1) = n - 1" by simp
  moreover have "int n \<le> 2 ^ 63 \<longleftrightarrow> n \<le> 2 ^ 63" using of_nat_le_iff [of n "2 ^ 63", where 'a = int] by simp
  ultimately show ?thesis by (auto simp: recency_law)
qed

lemma resolve_scoped_exact:
  assumes "distinct (map key (rows s))"
  shows "resolve_scoped reference label (\<lambda>n. by_recency n s) (\<lambda>p. by_prefix p s) (\<lambda>k. by_id k s) count = Inr r
    \<longleftrightarrow> denotes key (rows s) reference r"
proof (cases "relative_digits reference")
  case (Some ds)
  then have "reference_position reference = Some (parse_nat ds)"
    using latest_no_digits by (auto simp: reference_position_def)
  moreover have "length reference \<le> 4301 \<longleftrightarrow> length ds \<le> 4300"
    using relative_digits_length [OF Some] by simp
  moreover have "resolve_scoped reference label (\<lambda>n. by_recency n s) (\<lambda>p. by_prefix p s) (\<lambda>k. by_id k s) count
      = Inr r \<longleftrightarrow> length ds \<le> 4300 \<and> by_recency (int (parse_nat ds)) s = Inr r"
    by (auto simp: resolve_scoped_def Some bindR_Inr_iff mapR_Inr_iff mapErr_Inr_iff int_of_digits_Inr
        split: sum.splits query_error.splits)
  ultimately show ?thesis by (auto simp: denotes_def by_position)
next
  case None
  show ?thesis
  proof (cases "casefold reference = ''latest''")
    case True
    then have "resolve_scoped reference label (\<lambda>n. by_recency n s) (\<lambda>p. by_prefix p s) (\<lambda>k. by_id k s) count
        = Inr r \<longleftrightarrow> by_recency (int 1) s = Inr r"
      by (auto simp: resolve_scoped_def None split: sum.splits query_error.splits)
    with True latest_length [OF True] show ?thesis
      using by_position [of 1 s] by (simp add: denotes_def reference_position_def)
  next
    case False
    then have "resolve_scoped reference label (\<lambda>n. by_recency n s) (\<lambda>p. by_prefix p s) (\<lambda>k. by_id k s) count
        = Inr r \<longleftrightarrow> (case by_prefix (py_upper reference) s of [k] \<Rightarrow> by_id k s = Inr r | _ \<Rightarrow> False)"
      by (auto simp: resolve_scoped_def None mapErr_Inr_iff split: list.splits)
    with False None by_prefix_one [OF assms] show ?thesis
      by (simp add: denotes_def reference_position_def)
  qed
qed

end

interpretation plan_references: referable "\<lambda>s. newest pl_created_at pl_id (st_plans s)" pl_id
  plan_by_recency "\<lambda>p s. plan_ids_by_prefix p 100 s" "\<lambda>k s. row_by_id pl_id k (st_plans s)" 100
  by unfold_locales (simp_all add: plan_by_recency_def row_by_recency_Inr plan_ids_by_prefix_def ids_by_prefix_def
      row_by_id_Inr)

interpretation execution_references: referable "\<lambda>s. newest at_created_at at_id (st_attempts s)" at_id
  execution_by_recency "\<lambda>p s. execution_ids_by_prefix p 100 s" "\<lambda>k s. row_by_id at_id k (st_attempts s)" 100
  by unfold_locales (simp_all add: execution_by_recency_def row_by_recency_Inr execution_ids_by_prefix_def
      ids_by_prefix_def row_by_id_Inr)

interpretation experiment_references: referable "\<lambda>s. newest ex_started_at ex_id (st_experiments s)" ex_id
  experiment_by_recency "\<lambda>p s. ids_by_prefix ex_started_at ex_id p 20 (st_experiments s)" get_experiment 20
  by unfold_locales (simp_all add: experiment_by_recency_def row_by_recency_Inr ids_by_prefix_def get_experiment_def
      row_by_id_Inr)

text \<open>The resolution of experiments is the shared one with messages of its own.\<close>

lemma resolve_experiment_scoped:
  "resolve_experiment reference s = Inr e \<longleftrightarrow>
     resolve_scoped reference ''experiment'' (\<lambda>n. experiment_by_recency n s)
       (\<lambda>p. ids_by_prefix ex_started_at ex_id p 20 (st_experiments s)) (\<lambda>k. get_experiment k s)
       (count_experiments s) = Inr e"
proof (cases "relative_digits reference")
  case (Some ds)
  then have "casefold reference \<noteq> ''latest''" using latest_no_digits by auto
  then show ?thesis
    by (cases "int_of_digits ds"; cases "experiment_by_recency (projr (int_of_digits ds)) s")
      (simp_all add: Some resolve_experiment_def resolve_scoped_def resolve_relative_def bindR_def mapErr_def mapR_def
        split: query_error.split)
next
  case None
  then show ?thesis
    by (auto simp: resolve_experiment_def resolve_scoped_def resolve_relative_def experiment_ids_by_prefix_def
        mapErr_Inr_iff mapErr_def bindR_def split: sum.splits query_error.splits list.splits)
qed

lemma references_exact:
  assumes "store_ok s"
  shows "resolve_plan reference s = Inr p \<longleftrightarrow> denotes pl_id (newest pl_created_at pl_id (st_plans s)) reference p"
    and "resolve_execution_attempt reference s = Inr a \<longleftrightarrow>
      denotes at_id (newest at_created_at at_id (st_attempts s)) reference a"
    and "resolve_experiment reference s = Inr e \<longleftrightarrow>
      denotes ex_id (newest ex_started_at ex_id (st_experiments s)) reference e"
  using assms plan_references.resolve_scoped_exact [of s reference "''plan''" "count_plans s" p]
    execution_references.resolve_scoped_exact [of s reference "''execution''" "count_executions s" a]
    experiment_references.resolve_scoped_exact [of s reference "''experiment''" "count_experiments s" e]
  by (simp_all add: resolve_plan_def resolve_execution_attempt_def resolve_experiment_scoped store_ok_def keys_ok_def)

text \<open>
  C37. A reference means one row and nothing else: a plan, an execution or an experiment is found exactly
  when the reference states a position that the table has, newest first, or is the beginning, in upper
  case, of the identity of that row alone. No two rows compete, and no other row is returned.
\<close>
theorem references_are_exact:
  assumes "store_ok s"
  shows "(\<forall>p. resolve_plan reference s = Inr p \<longleftrightarrow>
      denotes pl_id (newest pl_created_at pl_id (st_plans s)) reference p) \<and>
    (\<forall>a. resolve_execution_attempt reference s = Inr a \<longleftrightarrow>
      denotes at_id (newest at_created_at at_id (st_attempts s)) reference a) \<and>
    (\<forall>e. resolve_experiment reference s = Inr e \<longleftrightarrow>
      denotes ex_id (newest ex_started_at ex_id (st_experiments s)) reference e)"
  using references_exact [OF assms] by blast

lemma latest_position: "reference_position ''latest'' = Some 1"
  by (simp add: reference_position_def casefold_def lower_char_def is_upper_def code_point_def)

theorem references_are_exact_witness: "resolve_plan ''latest'' sample_store = Inr sample_plan"
proof -
  have "denotes pl_id (newest pl_created_at pl_id (st_plans sample_store)) ''latest'' sample_plan"
    by (simp add: denotes_def latest_position sample_store_def newest_def)
  with conjunct1 [OF references_are_exact [OF sample_store_ok]] show ?thesis by blast
qed

end
