(* ===== verification/ProvenanceProperties.thy ===== *)
theory ProvenanceProperties
  imports Provenance ReferenceProperties
begin

text \<open>
  What a trace establishes. Lineage only ever refers to experiments that were recorded before, so the
  line of ancestors is complete and free of repetition, and following it ends.
\<close>

section \<open>The provenance tables\<close>

text \<open>A parent stands before its child, and an artifact belongs to a recorded experiment.\<close>

definition recorded_before :: "experiment_record list \<Rightarrow> string \<Rightarrow> string \<Rightarrow> bool" where
  "recorded_before es p c \<longleftrightarrow>
     (\<exists>xs e ys. es = xs @ e # ys \<and> ex_id e = c \<and> p \<in> ex_id ` set xs)"

definition provenance_ok :: "store \<Rightarrow> bool" where
  "provenance_ok s \<longleftrightarrow>
     (\<forall>l \<in> set (st_lineage s). recorded_before (st_experiments s) (li_parent l) (li_child l)) \<and>
     (\<forall>a \<in> set (st_artifacts s). ar_experiment_id a \<in> ex_id ` set (st_experiments s))"

lemma recorded_before_append: "recorded_before es p c \<Longrightarrow> recorded_before (es @ fs) p c"
  unfolding recorded_before_def by (metis append_Cons append_assoc)

lemma recorded_before_last: "p \<in> ex_id ` set es \<Longrightarrow> recorded_before (es @ [e]) p (ex_id e)"
  unfolding recorded_before_def by blast

lemma insert_lineage_checked:
  "insert_rows key ok rs rows = Inr rows' \<Longrightarrow> set rows' = set rows \<union> set rs \<and> list_all ok rs"
  using insert_rows_Inr by fastforce

lemma save_record_ok:
  assumes "insert_experiment_record e artifacts edges s = Inr s'" and "provenance_ok s"
  shows "provenance_ok s'"
proof -
  obtain es as ls where es: "insert_row ex_id experiment_row_ok e (st_experiments s) = Inr es"
    and as: "insert_rows ar_id artifact_row_ok artifacts (st_artifacts s) = Inr as"
    and ls: "insert_rows (\<lambda>l. (li_child l, li_relationship l))
        (\<lambda>l. li_parent l \<in> ex_id ` set es \<and> li_relationship l \<noteq> [] \<and> li_child l \<noteq> li_parent l)
        edges (st_lineage s) = Inr ls"
    and s': "s' = s\<lparr>st_experiments := es, st_artifacts := as, st_lineage := ls\<rparr>"
    and own: "\<forall>a \<in> set artifacts. ar_experiment_id a = ex_id e" "\<forall>l \<in> set edges. li_child l = ex_id e"
    using assms(1) by (auto simp: insert_experiment_record_def bindR_Inr_iff list_ex_iff split: if_splits)
  have es_eq: "es = st_experiments s @ [e]" using es by (simp add: insert_row_Inr)
  have "recorded_before es (li_parent l) (li_child l)" if l: "l \<in> set ls" for l
  proof (cases "l \<in> set (st_lineage s)")
    case True
    with assms(2) show ?thesis by (simp add: es_eq provenance_ok_def recorded_before_append)
  next
    case False
    then have "l \<in> set edges" using l insert_lineage_checked [OF ls] by auto
    then have "li_child l = ex_id e" "li_parent l \<in> ex_id ` set (st_experiments s)"
      using own(2) insert_lineage_checked [OF ls] es_eq by (auto simp: list_all_iff)
    then show ?thesis using recorded_before_last [of "li_parent l" "st_experiments s" e] by (simp add: es_eq)
  qed
  moreover have "ar_experiment_id a \<in> ex_id ` set es" if "a \<in> set as" for a
    using that assms(2) own(1) insert_rows_Inr [OF as] by (auto simp: provenance_ok_def es_eq)
  ultimately show ?thesis by (simp add: s' provenance_ok_def)
qed

text \<open>A transaction that records no experiment leaves these tables alone.\<close>

lemma provenance_ok_same:
  "st_experiments s' = st_experiments s \<Longrightarrow> st_artifacts s' = st_artifacts s \<Longrightarrow> st_lineage s' = st_lineage s \<Longrightarrow>
     provenance_ok s \<Longrightarrow> provenance_ok s'"
  by (simp add: provenance_ok_def)

section \<open>The line of ancestors\<close>

definition place :: "store \<Rightarrow> string \<Rightarrow> nat" where
  "place s k = length (takeWhile (\<lambda>e. ex_id e \<noteq> k) (st_experiments s))"

lemma place_less:
  assumes "distinct (map ex_id (st_experiments s))" and "recorded_before (st_experiments s) p c"
  shows "place s p < place s c"
proof -
  obtain xs e ys where es: "st_experiments s = xs @ e # ys" "ex_id e = c" "p \<in> ex_id ` set xs"
    using assms(2) by (auto simp: recorded_before_def)
  have "c \<notin> ex_id ` set xs" using assms(1) es(1,2) by auto
  then have "\<forall>e' \<in> set xs. ex_id e' \<noteq> c" by (auto simp: image_iff)
  then have "place s c = length xs" using es by (simp add: place_def takeWhile_append2)
  moreover have "place s p < length xs"
  proof -
    have "\<exists>e' \<in> set xs. ex_id e' = p" using es(3) by auto
    from split_list_first_prop [OF this] obtain us f vs
      where "xs = us @ f # vs" "ex_id f = p" "\<forall>e' \<in> set us. ex_id e' \<noteq> p" by blast
    then show ?thesis by (simp add: place_def es(1) takeWhile_append2)
  qed
  ultimately show ?thesis by simp
qed

text \<open>The experiments are exactly the parents that are recorded, one after the other, to the first.\<close>

fun derives :: "store \<Rightarrow> string \<Rightarrow> experiment_record list \<Rightarrow> bool" where
  "derives s k [] \<longleftrightarrow> get_lineage k ''derived_from'' s = None"
| "derives s k (e # es) \<longleftrightarrow>
     (\<exists>l. get_lineage k ''derived_from'' s = Some l \<and> li_parent l = ex_id e) \<and>
     e \<in> set (st_experiments s) \<and> derives s (ex_id e) es"

lemma get_lineage_Some:
  "get_lineage k r s = Some l \<Longrightarrow> l \<in> set (st_lineage s) \<and> li_child l = k"
  by (auto simp: get_lineage_def find_row_def find_Some_iff)

lemma get_experiment_found: "k \<in> ex_id ` set (st_experiments s) \<Longrightarrow> \<exists>e. get_experiment k s = Inr e"
  by (auto simp: get_experiment_def row_by_id_def find_row_def find_None_iff split: option.split)

lemma ancestry_complete:
  assumes "distinct (map ex_id (st_experiments s))" and "provenance_ok s"
    and "\<forall>k \<in> set visited. place s current \<le> place s k"
  shows "\<exists>es. ancestry s visited current = Inr es \<and> derives s current es \<and>
    sorted_wrt (\<lambda>a b. place s b < place s a) (current # map ex_id es)"
  using assms
proof (induction s visited current rule: ancestry.induct)
  case (1 s visited current)
  show ?case
  proof (cases "get_lineage current ''derived_from'' s")
    case None
    then show ?thesis by (simp add: ancestry.simps)
  next
    case (Some l)
    with get_lineage_Some have l: "l \<in> set (st_lineage s)" "li_child l = current" by auto
    with "1.prems"(2) have before: "recorded_before (st_experiments s) (li_parent l) current"
      by (auto simp: provenance_ok_def)
    then have less: "place s (li_parent l) < place s current" by (rule place_less [OF "1.prems"(1)])
    then have new: "li_parent l \<notin> set visited" using "1.prems"(3) by (metis leD)
    have "li_parent l \<in> ex_id ` set (st_experiments s)" using before by (auto simp: recorded_before_def)
    then obtain parent where parent: "get_experiment (li_parent l) s = Inr parent"
      using get_experiment_found by blast
    with get_experiment_Inr have id: "ex_id parent = li_parent l" "parent \<in> set (st_experiments s)" by auto
    have "\<forall>k \<in> set (ex_id parent # visited). place s (ex_id parent) \<le> place s k"
      using "1.prems"(3) less id(1) by fastforce
    from "1.IH" [OF Some new parent "1.prems"(1,2) this] obtain es where
      es: "ancestry s (ex_id parent # visited) (ex_id parent) = Inr es" "derives s (ex_id parent) es"
        "sorted_wrt (\<lambda>a b. place s b < place s a) (ex_id parent # map ex_id es)"
      by blast
    then have "ancestry s visited current = Inr (parent # es)"
      using Some new parent by (subst ancestry.simps) (simp add: mapR_def)
    moreover have "derives s current (parent # es)" using Some id es(2) by auto
    moreover have "sorted_wrt (\<lambda>a b. place s b < place s a) (current # map ex_id (parent # es))"
      using es(3) less id(1) by auto
    ultimately show ?thesis by blast
  qed
qed

section \<open>Histories of the repository\<close>

definition same_provenance :: "store \<Rightarrow> store \<Rightarrow> bool" where
  "same_provenance s s' \<longleftrightarrow> st_experiments s' = st_experiments s \<and> st_artifacts s' = st_artifacts s \<and>
     st_lineage s' = st_lineage s"

lemma same_provenance_refl [simp]: "same_provenance s s"
  by (simp add: same_provenance_def)

lemma same_provenance_trans: "same_provenance s s' \<Longrightarrow> same_provenance s' s'' \<Longrightarrow> same_provenance s s''"
  by (simp add: same_provenance_def)

lemma same_provenance_ok: "same_provenance s s' \<Longrightarrow> provenance_ok s \<Longrightarrow> provenance_ok s'"
  by (simp add: same_provenance_def provenance_ok_def)

lemma insert_event_beside: "insert_event e s = Inr s' \<Longrightarrow> same_provenance s s'"
  by (auto simp: insert_event_def mapR_Inr_iff same_provenance_def)

lemma insert_result_beside: "insert_result k i s = Inr s' \<Longrightarrow> same_provenance s s'"
  by (auto simp: insert_result_def mapR_Inr_iff bindR_Inr_iff same_provenance_def split: if_splits)

lemma import_allocation_beside: "import_allocation k al s = Inr s' \<Longrightarrow> same_provenance s s'"
  by (auto simp: import_allocation_def insert_allocation_def mapR_Inr_iff bindR_Inr_iff same_provenance_def
      split: option.splits if_splits)

lemma insert_telemetry_beside: "insert_telemetry t s = Inr s' \<Longrightarrow> same_provenance s s'"
  by (auto simp: insert_telemetry_def mapR_Inr_iff bindR_Inr_iff same_provenance_def split: option.splits if_splits)

lemma insert_verification_beside: "insert_verification v s = Inr s' \<Longrightarrow> same_provenance s s'"
  by (auto simp: insert_verification_def mapR_Inr_iff bindR_Inr_iff same_provenance_def split: option.splits if_splits)

lemma insert_runtime_beside: "insert_runtime_evidence k e r tn s = Inr s' \<Longrightarrow> same_provenance s s'"
  by (auto simp: insert_runtime_evidence_def mapR_Inr_iff bindR_Inr_iff same_provenance_def
      split: option.splits if_splits)

lemma insert_outcomes_beside: "insert_outcomes k e t v s = Inr s' \<Longrightarrow> same_provenance s s'"
  by (cases t; cases v)
    (auto simp: insert_outcomes_def bindR_Inr_iff same_provenance_def [of s s] split: option.splits if_splits
      dest: insert_telemetry_beside insert_verification_beside same_provenance_trans)

lemma moved_attempts_beside: "same_provenance (s\<lparr>st_attempts := rows\<rparr>) s' \<Longrightarrow> same_provenance s s'"
  by (simp add: same_provenance_def)

lemma finish_execution_beside: "finish_execution i k state now details error s = Inr s' \<Longrightarrow> same_provenance s s'"
  by (auto simp: finish_execution_def dest: insert_event_beside moved_attempts_beside)

lemma import_result_tables:
  assumes "import_experiment_result new_id k e artifacts edges al state now details t v r tn s = Inr s'"
  shows "\<exists>s1. insert_experiment_record e artifacts edges s = Inr s1 \<and> same_provenance s1 s'"
proof -
  obtain s1 s2 s3 s4 s5 where 1: "insert_experiment_record e artifacts edges s = Inr s1"
    and 2: "insert_result k (ex_id e) s1 = Inr s2" and 3: "import_allocation k al s2 = Inr s3"
    and 4: "insert_outcomes k (ex_id e) t v s3 = Inr s4"
    and 5: "insert_runtime_evidence k (Some (ex_id e)) r tn s4 = Inr s5"
    and 6: "finish_execution new_id k state now details None s5 = Inr s'"
    using assms by (auto simp: import_experiment_result_def bindR_Inr_iff)
  from insert_result_beside [OF 2] import_allocation_beside [OF 3] insert_outcomes_beside [OF 4]
    insert_runtime_beside [OF 5] finish_execution_beside [OF 6]
  have "same_provenance s1 s'" by (simp add: same_provenance_def)
  with 1 show ?thesis by blast
qed

lemma import_failure_beside:
  assumes "import_worker_failure new_id k al state now details error r tn s = Inr s'"
  shows "same_provenance s s'"
proof -
  obtain s1 s2 where 1: "import_allocation k al s = Inr s1"
    and 2: "insert_runtime_evidence k None r tn s1 = Inr s2"
    and 3: "finish_execution new_id k state now details error s2 = Inr s'"
    using assms by (auto simp: import_worker_failure_def bindR_Inr_iff)
  from import_allocation_beside [OF 1] insert_runtime_beside [OF 2] finish_execution_beside [OF 3]
  show ?thesis by (simp add: same_provenance_def)
qed

lemma other_beside:
  "save_request_with_workload rq w s = Inr s' \<Longrightarrow> same_provenance s s'"
  "save_plan p s = Inr s' \<Longrightarrow> same_provenance s s'"
  "create_execution i a s = Inr s' \<Longrightarrow> same_provenance s s'"
  "set_staging_directory k path now s = Inr s' \<Longrightarrow> same_provenance s s'"
  "save_scheduler_job j s = Inr s' \<Longrightarrow> same_provenance s s'"
  "update_scheduler_job k state now s = Inr s' \<Longrightarrow> same_provenance s s'"
  "update_execution_state i k state now details error s = Inr s' \<Longrightarrow> same_provenance s s'"
  "record_execution_event i k state now details s = Inr s' \<Longrightarrow> same_provenance s s'"
  by (auto simp: save_request_with_workload_def insert_request_def insert_workload_def save_plan_def create_execution_def
      set_staging_directory_def save_scheduler_job_def update_scheduler_job_def update_execution_state_def
      record_execution_event_def bindR_Inr_iff mapR_Inr_iff same_provenance_def
      dest!: insert_event_beside split: option.splits if_splits)

definition provenance_step :: "store \<Rightarrow> store \<Rightarrow> bool" where
  "provenance_step s s' \<longleftrightarrow> store_step s s' \<or> (\<exists>e artifacts edges. save_record e artifacts edges s = Inr s')"

lemma provenance_step_ok:
  assumes "provenance_step s s'" and "provenance_ok s" and "store_ok s"
  shows "provenance_ok s' \<and> store_ok s'"
proof (cases "store_step s s'")
  case True
  have recorded: "provenance_ok s'"
    if "import_experiment_result new_id k e artifacts edges al state now details t v r tn s = Inr s'"
    for new_id k e artifacts edges al state now details t v r tn
    using import_result_tables [OF that] save_record_ok [OF _ assms(2)] same_provenance_ok by blast
  from True have "provenance_ok s'"
    by (cases rule: store_step.cases)
      (auto intro: recorded same_provenance_ok [OF _ assms(2)] other_beside import_failure_beside)
  with store_step_preserved [OF True assms(3)] show ?thesis by simp
next
  case False
  then obtain e artifacts edges where "insert_experiment_record e artifacts edges s = Inr s'"
    using assms(1) by (auto simp: provenance_step_def save_record_def)
  with save_record_ok assms(2) insert_experiment_record_step(1) assms(3) show ?thesis by blast
qed

lemma provenance_reached: "provenance_step\<^sup>*\<^sup>* empty_store s \<Longrightarrow> provenance_ok s \<and> store_ok s"
proof (induction rule: rtranclp_induct)
  case base
  show ?case using empty_store_ok by (simp add: provenance_ok_def empty_store_def)
next
  case (step s s')
  then show ?case using provenance_step_ok by blast
qed

section \<open>Traces\<close>

lemma find_outputs_Inr:
  "find_output_artifacts path sha256 s = Inr ms \<Longrightarrow>
     set ms = {a \<in> set (st_artifacts s). output_matches path sha256 a}"
  by (auto simp: find_output_artifacts_def split: if_splits)

text \<open>The recorded outputs a file may be: see \<open>output_candidates\<close>.\<close>

definition possible_outputs :: "string \<Rightarrow> string option \<Rightarrow> store \<Rightarrow> artifact set" where
  "possible_outputs resolved digest s =
     (let here = {a \<in> set (st_artifacts s). output_matches (Some resolved) digest a} in
      if here = {} \<and> digest \<noteq> None then {a \<in> set (st_artifacts s). output_matches None digest a} else here)"

lemma output_candidates_Inr: "\<exists>ms. output_candidates resolved digest s = Inr ms \<and> set ms = possible_outputs resolved digest s"
proof (cases digest)
  case None
  then show ?thesis by (auto simp: output_candidates_def find_output_artifacts_def possible_outputs_def)
next
  case (Some d)
  have "filter (output_matches (Some resolved) (Some d)) (st_artifacts s) = [] \<longleftrightarrow>
      {a \<in> set (st_artifacts s). output_matches (Some resolved) (Some d) a} = {}"
    by (auto simp: filter_empty_conv)
  moreover have "newest t k xs = [] \<longleftrightarrow> xs = []" for t k and xs :: "artifact list"
    by (metis length_0_conv length_newest)
  ultimately show ?thesis
    by (auto simp: Some output_candidates_def find_output_artifacts_def possible_outputs_def bindR_def Let_def)
qed

lemma list_artifacts_role: "set (list_artifacts k (Some r) s) = {a \<in> set (st_artifacts s). ar_experiment_id a = k \<and> ar_role a = r}"
  by (auto simp: list_artifacts_def)

lemma sorted_places_distinct: "sorted_wrt (\<lambda>a b. place s b < place s a) ks \<Longrightarrow> distinct ks"
  by (induction ks) auto

lemma producer_traced:
  assumes "provenance_ok s" and "store_ok s" and "a \<in> set (st_artifacts s)"
  shows "\<exists>e es. get_experiment (ar_experiment_id a) s = Inr e \<and> e \<in> set (st_experiments s) \<and>
    ex_id e = ar_experiment_id a \<and> ancestry s [ex_id e] (ex_id e) = Inr es \<and> derives s (ex_id e) es \<and>
    distinct (ex_id e # map ex_id es)"
proof -
  have "ar_experiment_id a \<in> ex_id ` set (st_experiments s)"
    using assms(1,3) by (simp add: provenance_ok_def)
  then obtain e where e: "get_experiment (ar_experiment_id a) s = Inr e" using get_experiment_found by blast
  have "distinct (map ex_id (st_experiments s))" using assms(2) by (simp add: store_ok_def keys_ok_def)
  from ancestry_complete [OF this assms(1), of "[ex_id e]" "ex_id e"] obtain es where
    "ancestry s [ex_id e] (ex_id e) = Inr es" "derives s (ex_id e) es" "distinct (ex_id e # map ex_id es)"
    using sorted_places_distinct by fastforce
  with e get_experiment_Inr [OF e] show ?thesis by blast
qed

text \<open>
  C36. A trace is exact. In whatever way the repository was filled, tracing a file ends without a failure
  of the repository, and it answers with a producer only when exactly one recorded output can be meant:
  then it is the run that recorded that output, with exactly its inputs, and the line of ancestors is the
  recorded one, to the first experiment and without repetition. Otherwise it says that no output, or
  that more than one, can be meant.
\<close>
theorem trace_is_exact:
  assumes "provenance_step\<^sup>*\<^sup>* empty_store s"
  shows "case trace_artifact path resolved digest s of
      Inr t \<Rightarrow> possible_outputs resolved digest s = {tr_artifact t} \<and>
        tr_producer t \<in> set (st_experiments s) \<and> ex_id (tr_producer t) = ar_experiment_id (tr_artifact t) \<and>
        set (tr_inputs t) = {a \<in> set (st_artifacts s). ar_experiment_id a = ex_id (tr_producer t) \<and> ar_role a = ''input''} \<and>
        derives s (ex_id (tr_producer t)) (tr_ancestry t) \<and>
        distinct (ex_id (tr_producer t) # map ex_id (tr_ancestry t))
    | Inl (MissingArtifact p) \<Rightarrow> p = path \<and> possible_outputs resolved digest s = {}
    | Inl (AmbiguousArtifact p ms) \<Rightarrow> p = path \<and> set ms = possible_outputs resolved digest s \<and> 2 \<le> length ms
    | Inl (TraceQuery e) \<Rightarrow> False"
proof -
  note ok = provenance_reached [OF assms]
  obtain ms where ms: "output_candidates resolved digest s = Inr ms" "set ms = possible_outputs resolved digest s"
    using output_candidates_Inr by blast
  consider "ms = []" | a where "ms = [a]" | a b rest where "ms = a # b # rest" by (metis neq_Nil_conv)
  then show ?thesis
  proof cases
    case (2 a)
    with ms(2) have only: "possible_outputs resolved digest s = {a}" by simp
    then have "a \<in> possible_outputs resolved digest s" by simp
    then have "a \<in> set (st_artifacts s)" by (auto simp: possible_outputs_def Let_def split: if_splits)
    from producer_traced [OF conjunct1 [OF ok] conjunct2 [OF ok] this] obtain e es where
      e: "get_experiment (ar_experiment_id a) s = Inr e" "e \<in> set (st_experiments s)" "ex_id e = ar_experiment_id a"
        "ancestry s [ex_id e] (ex_id e) = Inr es" "derives s (ex_id e) es" "distinct (ex_id e # map ex_id es)"
      by blast
    then have "trace_artifact path resolved digest s = Inr \<lparr>tr_artifact = a, tr_producer = e,
        tr_inputs = list_artifacts (ex_id e) (Some ''input'') s, tr_ancestry = es\<rparr>"
      using ms(1) 2 by (simp add: trace_artifact_def mapErr_def)
    with only e show ?thesis by (simp add: list_artifacts_role)
  qed (use ms in \<open>auto simp: trace_artifact_def mapErr_def\<close>)
qed

definition sample_run :: experiment_record where
  "sample_run = \<lparr>ex_id = ''E1'', ex_status = ''completed'', ex_command = ''run'', ex_arguments = [],
     ex_working_directory = ''/w'', ex_started_at = ''t0'', ex_ended_at = ''t1'', ex_duration = JInt 1,
     ex_exit_code = 0, ex_stdout = [], ex_stderr = [], ex_git = [], ex_system = [], ex_context = [],
     ex_schema_version = 1\<rparr>"

definition sample_product :: artifact where
  "sample_product = \<lparr>ar_id = ''A1'', ar_experiment_id = ''E1'', ar_role = ''output'', ar_original_path = ''o'',
     ar_resolved_path = ''/w/o'', ar_existence = ''missing'', ar_capture = ''complete'', ar_sha256 = None,
     ar_size_bytes = None, ar_modified_at = None, ar_captured_at = ''t1'', ar_capture_error = None\<rparr>"

definition recorded_store :: store where
  "recorded_store = empty_store\<lparr>st_experiments := [sample_run], st_artifacts := [sample_product]\<rparr>"

lemma sample_recorded: "save_record sample_run [sample_product] [] empty_store = Inr recorded_store"
  by (simp add: save_record_def insert_experiment_record_def insert_row_def empty_store_def recorded_store_def
      sample_run_def sample_product_def experiment_row_ok_def artifact_row_ok_def duration_ok_def)

lemma sample_possible: "possible_outputs ''/w/o'' None recorded_store = {sample_product}"
  by (auto simp: possible_outputs_def recorded_store_def output_matches_def sample_product_def)

theorem trace_is_exact_witness:
  "\<exists>t. trace_artifact ''o'' ''/w/o'' None recorded_store = Inr t \<and> tr_artifact t = sample_product \<and>
     ex_id (tr_producer t) = ''E1''"
proof -
  have "provenance_step empty_store recorded_store"
    using sample_recorded by (auto simp: provenance_step_def)
  then have "provenance_step\<^sup>*\<^sup>* empty_store recorded_store" by (rule r_into_rtranclp)
  note exact = trace_is_exact [OF this, of "''o''" "''/w/o''" None]
  show ?thesis
  proof (cases "trace_artifact ''o'' ''/w/o'' None recorded_store")
    case (Inl e)
    then show ?thesis
    proof (cases e)
      case (AmbiguousArtifact p ms)
      have "output_candidates ''/w/o'' None recorded_store = Inr [sample_product]"
        by (simp add: output_candidates_def find_output_artifacts_def newest_def recorded_store_def output_matches_def
            sample_product_def)
      with Inl AmbiguousArtifact show ?thesis
        by (simp add: trace_artifact_def mapErr_def bindR_def split: sum.splits)
    qed (use exact Inl sample_possible in auto)
  next
    case (Inr t)
    with exact sample_possible have "tr_artifact t = sample_product"
      "ex_id (tr_producer t) = ar_experiment_id (tr_artifact t)" by auto
    with Inr show ?thesis by (simp add: sample_product_def)
  qed
qed

end
